(* ===== verification/Prelude.thy ===== *)
theory Prelude
  imports Complex_Main "HOL-Library.AList"
begin

text \<open>
  Shared notions of the development: the effect type in which the asynchronous TypeScript
  operations are written, its Hoare-style rules, and generic facts on lists, options and
  association lists.

  An \<open>async\<close> function that reads and writes the world \<open>'w\<close>, may throw a value of type
  \<open>'e\<close> and otherwise returns an \<open>'a\<close> is a function \<open>'w \<Rightarrow> ('e + 'a) \<times> 'w\<close>.
  \<open>await\<close> is sequencing (\<open>bnd\<close>); \<open>try/catch\<close> and \<open>try/finally\<close> are \<open>try_catch\<close> and
  \<open>try_finally\<close>. The world survives a throw: what was done before it stays done.
\<close>

named_theorems io_simps "evaluation of the effect combinators"
named_theorems keeps_rules "introduction rules for the frame predicate keeps"
named_theorems wp_simps "weakest preconditions of the effect combinators"

section \<open>Effects\<close>

type_synonym ('w, 'e, 'a) eff = "'w \<Rightarrow> ('e + 'a) \<times> 'w"

definition ret :: "'a \<Rightarrow> ('w, 'e, 'a) eff" where
  "ret a = (\<lambda>w. (Inr a, w))"

definition throw :: "'e \<Rightarrow> ('w, 'e, 'a) eff" where
  "throw e = (\<lambda>w. (Inl e, w))"

definition bnd :: "('w, 'e, 'a) eff \<Rightarrow> ('a \<Rightarrow> ('w, 'e, 'b) eff) \<Rightarrow> ('w, 'e, 'b) eff" where
  "bnd m f = (\<lambda>w. case m w of (Inl e, w') \<Rightarrow> (Inl e, w') | (Inr a, w') \<Rightarrow> f a w')"

definition try_catch ::
  "('w, 'e, 'a) eff \<Rightarrow> ('e \<Rightarrow> ('w, 'e, 'a) eff) \<Rightarrow> ('w, 'e, 'a) eff" where
  "try_catch m h = (\<lambda>w. case m w of (Inl e, w') \<Rightarrow> h e w' | (Inr a, w') \<Rightarrow> (Inr a, w'))"

text \<open>
  \<open>finally\<close>: the final action runs on both ways out; the result of the body survives unless the
  final action itself throws. The action sees the body's result, which stands for the captured
  variables that the source's \<open>finally\<close> block reads.
\<close>

definition try_finally ::
  "('w, 'e, 'a) eff \<Rightarrow> ('e + 'a \<Rightarrow> ('w, 'e, unit) eff) \<Rightarrow> ('w, 'e, 'a) eff" where
  "try_finally m fin = (\<lambda>w. case m w of (r, w') \<Rightarrow>
     (case fin r w' of (Inl e, w'') \<Rightarrow> (Inl e, w'') | (Inr _, w'') \<Rightarrow> (r, w'')))"

definition lift_sum :: "'e + 'a \<Rightarrow> ('w, 'e, 'a) eff" where
  "lift_sum r = (\<lambda>w. (r, w))"

definition modify_st :: "('w \<Rightarrow> 'w) \<Rightarrow> ('w, 'e, unit) eff" where
  "modify_st f = (\<lambda>w. (Inr (), f w))"

definition read_st :: "('w \<Rightarrow> 'a) \<Rightarrow> ('w, 'e, 'a) eff" where
  "read_st f = (\<lambda>w. (Inr (f w), w))"

text \<open>\<open>for (const x of xs) acc = await f(acc, x)\<close>\<close>

fun fold_eff :: "('b \<Rightarrow> 'a \<Rightarrow> ('w, 'e, 'b) eff) \<Rightarrow> 'b \<Rightarrow> 'a list \<Rightarrow> ('w, 'e, 'b) eff" where
  "fold_eff f b [] = ret b"
| "fold_eff f b (x # xs) = bnd (f b x) (\<lambda>b'. fold_eff f b' xs)"

text \<open>An optional dependency: \<open>if (dep) await f(dep)\<close>.\<close>

definition when_some :: "'d option \<Rightarrow> ('d \<Rightarrow> ('w, 'e, unit) eff) \<Rightarrow> ('w, 'e, unit) eff" where
  "when_some d f = (case d of None \<Rightarrow> ret () | Some x \<Rightarrow> f x)"

lemma ret_app [io_simps, simp]: "ret a w = (Inr a, w)"
  by (simp add: ret_def)

lemma throw_app [io_simps, simp]: "throw e w = (Inl e, w)"
  by (simp add: throw_def)

lemma lift_sum_app [io_simps, simp]: "lift_sum r w = (r, w)"
  by (simp add: lift_sum_def)

lemma modify_st_app [io_simps, simp]: "modify_st f w = (Inr (), f w)"
  by (simp add: modify_st_def)

lemma read_st_app [io_simps, simp]: "read_st f w = (Inr (f w), w)"
  by (simp add: read_st_def)

lemma bnd_ret [simp]: "bnd (ret a) f = f a"
  by (simp add: bnd_def fun_eq_iff)

lemma bnd_throw [simp]: "bnd (throw e) f = throw e"
  by (simp add: bnd_def fun_eq_iff)

lemma bnd_app: "bnd m f w = (case m w of (Inl e, w') \<Rightarrow> (Inl e, w') | (Inr a, w') \<Rightarrow> f a w')"
  by (simp add: bnd_def)

lemma bnd_Inr [io_simps]: "m w = (Inr a, w') \<Longrightarrow> bnd m f w = f a w'"
  by (simp add: bnd_def)

lemma bnd_Inl [io_simps]: "m w = (Inl e, w') \<Longrightarrow> bnd m f w = (Inl e, w')"
  by (simp add: bnd_def)

lemma bnd_assoc: "bnd (bnd m f) g = bnd m (\<lambda>x. bnd (f x) g)"
  by (auto simp: bnd_def fun_eq_iff split: prod.splits sum.splits)

lemma try_catch_Inr [io_simps]: "m w = (Inr a, w') \<Longrightarrow> try_catch m h w = (Inr a, w')"
  by (simp add: try_catch_def)

lemma try_catch_Inl [io_simps]: "m w = (Inl e, w') \<Longrightarrow> try_catch m h w = h e w'"
  by (simp add: try_catch_def)

lemma when_some_None [simp]: "when_some None f = ret ()"
  by (simp add: when_some_def)

lemma when_some_Some [simp]: "when_some (Some d) f = f d"
  by (simp add: when_some_def)

section \<open>Frame rules\<close>

text \<open>\<open>keeps v m\<close>: whatever way \<open>m\<close> ends, the view \<open>v\<close> of the world is as before.\<close>

definition keeps :: "('w \<Rightarrow> 'v) \<Rightarrow> ('w, 'e, 'a) eff \<Rightarrow> bool" where
  "keeps v m \<longleftrightarrow> (\<forall>w. v (snd (m w)) = v w)"

lemma keepsI: "(\<And>w. v (snd (m w)) = v w) \<Longrightarrow> keeps v m"
  by (simp add: keeps_def)

lemma keepsD: "keeps v m \<Longrightarrow> m w = (r, w') \<Longrightarrow> v w' = v w"
  by (metis keeps_def snd_conv)

lemma keeps_ret [keeps_rules, intro]: "keeps v (ret a)"
  by (simp add: keeps_def)

lemma keeps_throw [keeps_rules, intro]: "keeps v (throw e)"
  by (simp add: keeps_def)

lemma keeps_lift_sum [keeps_rules, intro]: "keeps v (lift_sum r)"
  by (simp add: keeps_def)

lemma keeps_read_st [keeps_rules, intro]: "keeps v (read_st f)"
  by (simp add: keeps_def)

lemma keeps_modify_st [keeps_rules]: "(\<And>w. v (f w) = v w) \<Longrightarrow> keeps v (modify_st f)"
  by (simp add: keeps_def)

lemma keeps_bnd [keeps_rules, intro]:
  "keeps v m \<Longrightarrow> (\<And>a. keeps v (f a)) \<Longrightarrow> keeps v (bnd m f)"
  by (auto simp: keeps_def bnd_def split: prod.splits sum.splits) (metis snd_conv)+

lemma keeps_try_catch [keeps_rules, intro]:
  "keeps v m \<Longrightarrow> (\<And>e. keeps v (h e)) \<Longrightarrow> keeps v (try_catch m h)"
  by (auto simp: keeps_def try_catch_def split: prod.splits sum.splits) (metis snd_conv)+

lemma keeps_try_finally [keeps_rules, intro]:
  "keeps v m \<Longrightarrow> (\<And>r. keeps v (fin r)) \<Longrightarrow> keeps v (try_finally m fin)"
  by (auto simp: keeps_def try_finally_def split: prod.splits sum.splits) (metis snd_conv)+

lemma keeps_when_some [keeps_rules, intro]:
  "(\<And>x. d = Some x \<Longrightarrow> keeps v (f x)) \<Longrightarrow> keeps v (when_some d f)"
  by (cases d) auto

lemma keeps_if [keeps_rules, intro]:
  "(c \<Longrightarrow> keeps v m) \<Longrightarrow> (\<not> c \<Longrightarrow> keeps v m') \<Longrightarrow> keeps v (if c then m else m')"
  by simp

lemma keeps_fold_eff [keeps_rules, intro]:
  "(\<And>b x. keeps v (f b x)) \<Longrightarrow> keeps v (fold_eff f b xs)"
  by (induction xs arbitrary: b) auto

section \<open>Weakest preconditions\<close>

text \<open>
  \<open>wp m Q E w\<close>: from the world \<open>w\<close>, a normal result of \<open>m\<close> satisfies \<open>Q\<close> and a throw satisfies
  \<open>E\<close>. Effects always end (they are total functions), so this is total correctness. The rules of
  the combinators are equations, so that a goal is taken apart from the front by rewriting.
\<close>

definition wp ::
  "('w, 'e, 'a) eff \<Rightarrow> ('a \<Rightarrow> 'w \<Rightarrow> bool) \<Rightarrow> ('e \<Rightarrow> 'w \<Rightarrow> bool) \<Rightarrow> 'w \<Rightarrow> bool" where
  "wp m Q E w \<longleftrightarrow> (case m w of (Inr a, w') \<Rightarrow> Q a w' | (Inl e, w') \<Rightarrow> E e w')"

lemma wpI:
  assumes "\<And>a w'. m w = (Inr a, w') \<Longrightarrow> Q a w'" and "\<And>e w'. m w = (Inl e, w') \<Longrightarrow> E e w'"
  shows "wp m Q E w"
  using assms by (auto simp: wp_def split: prod.splits sum.splits)

lemma wp_Inr: "wp m Q E w \<Longrightarrow> m w = (Inr a, w') \<Longrightarrow> Q a w'"
  by (simp add: wp_def)

lemma wp_Inl: "wp m Q E w \<Longrightarrow> m w = (Inl e, w') \<Longrightarrow> E e w'"
  by (simp add: wp_def)

lemma wp_mono:
  assumes "wp m Q E w" and "\<And>a w. Q a w \<Longrightarrow> Q' a w" and "\<And>e w. E e w \<Longrightarrow> E' e w"
  shows "wp m Q' E' w"
  using assms by (auto simp: wp_def split: prod.splits sum.splits)

lemma wp_ret [wp_simps]: "wp (ret a) Q E w = Q a w"
  by (simp add: wp_def)

lemma wp_throw [wp_simps]: "wp (throw e) Q E w = E e w"
  by (simp add: wp_def)

lemma wp_lift_sum [wp_simps]: "wp (lift_sum r) Q E w = (case r of Inr a \<Rightarrow> Q a w | Inl e \<Rightarrow> E e w)"
  by (simp add: wp_def split: sum.splits)

lemma wp_read_st [wp_simps]: "wp (read_st f) Q E w = Q (f w) w"
  by (simp add: wp_def)

lemma wp_modify_st [wp_simps]: "wp (modify_st f) Q E w = Q () (f w)"
  by (simp add: wp_def)

lemma wp_bnd [wp_simps]: "wp (bnd m f) Q E w = wp m (\<lambda>a. wp (f a) Q E) E w"
  by (simp add: wp_def bnd_def split: prod.splits sum.splits)

lemma wp_try_catch [wp_simps]: "wp (try_catch m h) Q E w = wp m Q (\<lambda>e. wp (h e) Q E) w"
  by (simp add: wp_def try_catch_def split: prod.splits sum.splits)

lemma wp_try_finally [wp_simps]: "wp (try_finally m fin) Q E w =
    wp m (\<lambda>a. wp (fin (Inr a)) (\<lambda>_. Q a) E) (\<lambda>e. wp (fin (Inl e)) (\<lambda>_. E e) E) w"
  by (auto simp: wp_def try_finally_def split: prod.splits sum.splits)

lemma wp_when_some [wp_simps]:
  "wp (when_some d f) Q E w = (case d of None \<Rightarrow> Q () w | Some x \<Rightarrow> wp (f x) Q E w)"
  by (simp add: when_some_def wp_ret split: option.splits)

lemma wp_if [wp_simps]: "wp (if c then m else m') Q E w = (if c then wp m Q E w else wp m' Q E w)"
  by simp

text \<open>An effect that keeps the view ends in some world with that view.\<close>

lemma wp_keeps:
  assumes "keeps v m" and "\<And>a w'. v w' = v w \<Longrightarrow> Q a w'" and "\<And>e w'. v w' = v w \<Longrightarrow> E e w'"
  shows "wp m Q E w"
  using assms by (intro wpI) (auto dest: keepsD)

section \<open>Lists and association lists\<close>

text \<open>
  A JavaScript \<open>Map\<close> or object is an association list in insertion order: \<open>AList.update\<close>
  replaces in place or appends, as \<open>set\<close> does, and \<open>AList.delete\<close> removes.
\<close>

lemma map_of_update_same [simp]: "map_of (AList.update k v ps) k = Some v"
  by (simp add: update_conv')

lemma map_of_update_other: "k \<noteq> k' \<Longrightarrow> map_of (AList.update k v ps) k' = map_of ps k'"
  by (simp add: update_conv')

lemma map_of_update: "map_of (AList.update k v ps) k' = (if k = k' then Some v else map_of ps k')"
  by (simp add: update_conv')

lemma map_of_delete: "map_of (AList.delete k ps) k' = (if k = k' then None else map_of ps k')"
  by (simp add: AList.delete_conv')

definition some_list :: "'a option \<Rightarrow> 'a list" where
  "some_list x = (case x of None \<Rightarrow> [] | Some a \<Rightarrow> [a])"

lemma some_list_simps [simp]: "some_list None = []" "some_list (Some a) = [a]"
  by (simp_all add: some_list_def)

lemma find_Some_in: "find P xs = Some x \<Longrightarrow> x \<in> set xs \<and> P x"
  by (auto simp: find_Some_iff)

end
