(* ===== verification/JsNumber.thy ===== *)
theory JsNumber
  imports Prelude "HOL-Library.Log_Nat"
begin

text \<open>
  JavaScript numbers: IEEE-754 binary64 values with the round-to-nearest-even arithmetic the
  source's amounts go through. A finite value is the rational it denotes; the two zeros are one
  value (no operation the source applies to an amount tells them apart: it compares, adds,
  subtracts, scales, rounds and prints with \<open>toFixed\<close>).
\<close>

section \<open>Rounding a rational to binary64\<close>

text \<open>\<open>binexp x\<close> is the exponent \<open>e\<close> with \<open>2 powi e \<le> x < 2 powi (e + 1)\<close>, for a positive \<open>x\<close>.\<close>

definition binexp :: "rat \<Rightarrow> int" where
  "binexp x = (let (p, q) = quotient_of x; k = bitlen p - bitlen q
     in if 2 powi k \<le> x then k else k - 1)"

text \<open>Round half to even.\<close>

definition rne :: "rat \<Rightarrow> int" where
  "rne m = (let f = \<lfloor>m\<rfloor>; d = m - of_int f
     in if d < 1 / 2 then f else if d > 1 / 2 then f + 1 else if even f then f else f + 1)"

text \<open>The unit in the last place of 53-bit significands, with gradual underflow.\<close>

definition ulp :: "rat \<Rightarrow> rat" where
  "ulp x = 2 powi (max (binexp \<bar>x\<bar> - 52) (- 1074))"

definition fl :: "rat \<Rightarrow> rat" where
  "fl x = (if x = 0 then 0 else of_int (rne (x / ulp x)) * ulp x)"

section \<open>Numbers and their operations\<close>

datatype jsnum = NaN | Infty bool \<comment> \<open>\<open>True\<close>: negative\<close> | Fin rat

definition num :: "rat \<Rightarrow> jsnum" where
  "num x = (let y = fl x in if y \<noteq> 0 \<and> 1024 \<le> binexp \<bar>y\<bar> then Infty (y < 0) else Fin y)"

fun num_add :: "jsnum \<Rightarrow> jsnum \<Rightarrow> jsnum" where
  "num_add (Fin a) (Fin b) = num (a + b)"
| "num_add NaN _ = NaN"
| "num_add _ NaN = NaN"
| "num_add (Infty s) (Infty t) = (if s = t then Infty s else NaN)"
| "num_add (Infty s) (Fin _) = Infty s"
| "num_add (Fin _) (Infty s) = Infty s"

fun num_neg :: "jsnum \<Rightarrow> jsnum" where
  "num_neg NaN = NaN"
| "num_neg (Infty s) = Infty (\<not> s)"
| "num_neg (Fin a) = Fin (- a)"

definition num_sub :: "jsnum \<Rightarrow> jsnum \<Rightarrow> jsnum" where
  "num_sub a b = num_add a (num_neg b)"

text \<open>Multiplication and division by a positive literal (\<open>n * 100\<close>, \<open>n / 100\<close>).\<close>

fun num_times :: "jsnum \<Rightarrow> rat \<Rightarrow> jsnum" where
  "num_times NaN _ = NaN"
| "num_times (Infty s) _ = Infty s"
| "num_times (Fin a) c = num (a * c)"

fun num_over :: "jsnum \<Rightarrow> rat \<Rightarrow> jsnum" where
  "num_over NaN _ = NaN"
| "num_over (Infty s) _ = Infty s"
| "num_over (Fin a) c = num (a / c)"

fun num_abs :: "jsnum \<Rightarrow> jsnum" where
  "num_abs NaN = NaN"
| "num_abs (Infty _) = Infty False"
| "num_abs (Fin a) = Fin \<bar>a\<bar>"

text \<open>Comparisons: every comparison with \<open>NaN\<close> is false.\<close>

fun num_less :: "jsnum \<Rightarrow> jsnum \<Rightarrow> bool" where
  "num_less NaN _ = False"
| "num_less _ NaN = False"
| "num_less (Fin a) (Fin b) = (a < b)"
| "num_less (Infty s) (Infty t) = (s \<and> \<not> t)"
| "num_less (Infty s) (Fin _) = s"
| "num_less (Fin _) (Infty t) = (\<not> t)"

definition num_same :: "jsnum \<Rightarrow> jsnum \<Rightarrow> bool" where
  "num_same a b \<longleftrightarrow> a \<noteq> NaN \<and> a = b"

definition num_le :: "jsnum \<Rightarrow> jsnum \<Rightarrow> bool" where
  "num_le a b \<longleftrightarrow> num_less a b \<or> num_same a b"

fun is_finite_num :: "jsnum \<Rightarrow> bool" where
  "is_finite_num (Fin _) = True"
| "is_finite_num _ = False"

text \<open>\<open>Math.round\<close>: the nearest integer, ties upwards; exact on every binary64 value.\<close>

fun math_round :: "jsnum \<Rightarrow> jsnum" where
  "math_round (Fin a) = Fin (of_int \<lfloor>a + 1 / 2\<rfloor>)"
| "math_round n = n"

definition of_integer :: "int \<Rightarrow> jsnum" where
  "of_integer n = num (of_int n)"

section \<open>Facts on rounding\<close>

lemma rne_error: "\<bar>of_int (rne m) - m\<bar> \<le> 1 / 2"
proof -
  define d where "d = m - of_int \<lfloor>m\<rfloor>"
  have m: "m = of_int \<lfloor>m\<rfloor> + d" and "0 \<le> d" and "d < 1" by (simp_all add: d_def) linarith
  then show ?thesis
    unfolding rne_def Let_def d_def [symmetric] by (auto simp: abs_if)
qed

lemma rne_of_int [simp]: "rne (of_int n) = n"
  by (simp add: rne_def Let_def)

lemma ulp_pos [simp]: "0 < ulp x"
  by (simp add: ulp_def)

lemma ulp_nonzero [simp]: "ulp x \<noteq> 0"
  using ulp_pos [of x] by (simp del: ulp_pos)

lemma powi2_pos [simp]: "0 < (2 :: rat) powi k"
  by simp

lemma powi2_le_imp: "(2 :: rat) powi a \<le> 2 powi b" if "a \<le> b"
  using that by (simp add: power_int_increasing)

lemma bitlen_bounds_rat:
  assumes "0 < p"
  shows "2 powi (bitlen p - 1) \<le> rat_of_int p" and "rat_of_int p < 2 powi (bitlen p)"
proof -
  have b: "2 ^ nat (bitlen p - 1) \<le> p \<and> p < 2 ^ nat (bitlen p)"
    using bitlen_bounds [OF assms] by simp
  have pos: "0 < bitlen p"
    using assms bitlen_nonneg [of p] bitlen_eq_zero_iff [of p] by linarith
  have "2 powi (bitlen p - 1) = rat_of_int (2 ^ nat (bitlen p - 1))"
    using pos by (simp add: power_int_def)
  then show "2 powi (bitlen p - 1) \<le> rat_of_int p"
    using b by (metis of_int_le_iff)
  have "2 powi (bitlen p) = rat_of_int (2 ^ nat (bitlen p))"
    using pos by (simp add: power_int_def)
  then show "rat_of_int p < 2 powi (bitlen p)"
    using b by (metis of_int_less_iff)
qed

lemma binexp_le:
  assumes "0 < x"
  shows "2 powi (binexp x) \<le> x"
proof -
  obtain p q where pq: "quotient_of x = (p, q)" by force
  have q: "0 < q" using pq by (rule quotient_of_denom_pos)
  have x: "x = of_int p / of_int q" using pq by (rule quotient_of_div)
  have p: "0 < p" using assms x q by (simp add: zero_less_divide_iff)
  let ?k = "bitlen p - bitlen q"
  have "2 powi (?k - 1) = (2 :: rat) powi (bitlen p - 1) / 2 powi (bitlen q)"
    by (simp flip: power_int_diff add: algebra_simps)
  also have "\<dots> \<le> of_int p / of_int q"
    using bitlen_bounds_rat [OF p] bitlen_bounds_rat [OF q] q
    using p by (intro frac_le) auto
  finally have "2 powi (?k - 1) \<le> x" using x by simp
  then show ?thesis by (simp add: binexp_def pq Let_def)
qed

lemma fl_zero [simp]: "fl 0 = 0"
  by (simp add: fl_def)

lemma ulp_le: "ulp x \<le> \<bar>x\<bar> * 2 powi (- 52) + 2 powi (- 1074)" if "x \<noteq> 0"
proof -
  have "2 powi (binexp \<bar>x\<bar> - 52) = 2 powi (binexp \<bar>x\<bar>) * (2 :: rat) powi (- 52)"
    by (subst power_int_add [symmetric]) simp_all
  also have "\<dots> \<le> \<bar>x\<bar> * 2 powi (- 52)"
    using binexp_le [of "\<bar>x\<bar>"] that by (intro mult_right_mono) auto
  finally have "2 powi (binexp \<bar>x\<bar> - 52) \<le> \<bar>x\<bar> * 2 powi (- 52)" .
  then show ?thesis
    by (auto simp: ulp_def max_def intro: add_increasing add_increasing2)
qed

text \<open>The relative error of a rounding, with the absolute slack of the subnormal range.\<close>

lemma fl_error: "\<bar>fl x - x\<bar> \<le> \<bar>x\<bar> / 2 ^ 53 + 1 / 2 ^ 1075"
proof (cases "x = 0")
  case False
  have "fl x - x = (of_int (rne (x / ulp x)) - x / ulp x) * ulp x"
    using False by (simp add: fl_def left_diff_distrib)
  then have "\<bar>fl x - x\<bar> = \<bar>of_int (rne (x / ulp x)) - x / ulp x\<bar> * ulp x"
    by (simp add: abs_mult less_imp_le)
  also have "\<dots> \<le> 1 / 2 * ulp x"
    using rne_error [of "x / ulp x"] by (intro mult_right_mono) (auto intro: less_imp_le)
  also have "\<dots> \<le> 1 / 2 * (\<bar>x\<bar> * 2 powi (- 52) + 2 powi (- 1074))"
    using ulp_le [OF False] by simp
  also have "\<dots> = \<bar>x\<bar> / 2 ^ 53 + 1 / 2 ^ 1075"
    by (simp add: power_int_minus power_int_def divide_simps)
  finally show ?thesis .
qed simp

text \<open>Below the overflow threshold a number is finite.\<close>

lemma num_finite: "\<bar>fl x\<bar> < 2 ^ 1024 \<Longrightarrow> num x = Fin (fl x)"
proof -
  assume small: "\<bar>fl x\<bar> < 2 ^ 1024"
  have "binexp \<bar>fl x\<bar> < 1024" if "fl x \<noteq> 0"
  proof (rule ccontr)
    assume "\<not> binexp \<bar>fl x\<bar> < 1024"
    then have "(2 :: rat) powi 1024 \<le> 2 powi (binexp \<bar>fl x\<bar>)"
      by (intro powi2_le_imp) simp
    also have "\<dots> \<le> \<bar>fl x\<bar>" using that by (intro binexp_le) simp
    finally show False using small by (simp add: power_int_def)
  qed
  then show ?thesis by (auto simp: num_def Let_def)
qed

lemma fl_minus: "fl (- x) = - fl x" if "rne (- (x / ulp x)) = - rne (x / ulp x)"
  using that by (simp add: fl_def ulp_def)

end
