(* ===== verification/JsString.thy ===== *)
theory JsString
  imports JsNumber
begin

text \<open>
  The operations of JavaScript's standard library on strings that the source uses, and the
  conversions between strings and numbers. A string is its UTF-8 encoding, a list of 8-bit
  characters; case conversion is the ASCII one, which is what the code relies on (domain names,
  status words, error codes).
\<close>

section \<open>Characters\<close>

abbreviation code :: "char \<Rightarrow> nat" where
  "code c \<equiv> of_char c"

definition is_digit :: "char \<Rightarrow> bool" where
  "is_digit c \<longleftrightarrow> 48 \<le> code c \<and> code c \<le> 57"

definition is_upper :: "char \<Rightarrow> bool" where
  "is_upper c \<longleftrightarrow> 65 \<le> code c \<and> code c \<le> 90"

definition is_lower :: "char \<Rightarrow> bool" where
  "is_lower c \<longleftrightarrow> 97 \<le> code c \<and> code c \<le> 122"

definition is_letter :: "char \<Rightarrow> bool" where
  "is_letter c \<longleftrightarrow> is_upper c \<or> is_lower c"

definition is_word_char :: "char \<Rightarrow> bool" where
  "is_word_char c \<longleftrightarrow> is_letter c \<or> is_digit c \<or> c = CHR ''_''"

definition is_space :: "char \<Rightarrow> bool" where
  "is_space c \<longleftrightarrow> c = CHR '' '' \<or> (9 \<le> code c \<and> code c \<le> 13)"

definition lower_char :: "char \<Rightarrow> char" where
  "lower_char c = (if is_upper c then char_of (code c + 32) else c)"

text \<open>Evaluation reads a character as an integer, whose arithmetic is binary.\<close>

lemma code_int_le: "n \<le> code c \<longleftrightarrow> int n \<le> of_char c" "code c \<le> n \<longleftrightarrow> of_char c \<le> int n"
  by (simp_all only: of_nat_of_char [symmetric, where ?'a = int] of_nat_le_iff)

lemma is_digit_code [code]: "is_digit c \<longleftrightarrow> 48 \<le> (of_char c :: int) \<and> (of_char c :: int) \<le> 57"
  by (simp add: is_digit_def code_int_le)

lemma is_upper_code [code]: "is_upper c \<longleftrightarrow> 65 \<le> (of_char c :: int) \<and> (of_char c :: int) \<le> 90"
  by (simp add: is_upper_def code_int_le)

lemma is_lower_code [code]: "is_lower c \<longleftrightarrow> 97 \<le> (of_char c :: int) \<and> (of_char c :: int) \<le> 122"
  by (simp add: is_lower_def code_int_le)

lemma is_space_code [code]:
  "is_space c \<longleftrightarrow> c = CHR '' '' \<or> (9 \<le> (of_char c :: int) \<and> (of_char c :: int) \<le> 13)"
  by (simp add: is_space_def code_int_le)

lemma char_of_nat_add: "char_of (code c + n) = char_of ((of_char c :: int) + int n)"
  by (simp only: of_nat_of_char [symmetric, where ?'a = int] of_nat_add [symmetric] char_of_nat)

lemma lower_char_code [code]: "lower_char c = (if is_upper c then char_of ((of_char c :: int) + 32) else c)"
  using char_of_nat_add [of c 32] by (simp add: lower_char_def)

section \<open>Strings\<close>

definition to_lower :: "string \<Rightarrow> string" where
  "to_lower s = map lower_char s"

definition upper_char :: "char \<Rightarrow> char" where
  "upper_char c = (if is_lower c then char_of (code c - 32) else c)"

definition to_upper :: "string \<Rightarrow> string" where
  "to_upper s = map upper_char s"

fun starts_with :: "string \<Rightarrow> string \<Rightarrow> bool" where
  "starts_with s [] = True"
| "starts_with [] (_ # _) = False"
| "starts_with (c # s) (d # p) = (c = d \<and> starts_with s p)"

fun includes_str :: "string \<Rightarrow> string \<Rightarrow> bool" where
  "includes_str [] p = (p = [])"
| "includes_str (c # s) p = (starts_with (c # s) p \<or> includes_str s p)"

text \<open>\<open>s.split(c)\<close> for a one-character separator; never empty.\<close>

fun split_on :: "char \<Rightarrow> string \<Rightarrow> string list" where
  "split_on d [] = [[]]"
| "split_on d (c # s) =
     (if c = d then [] # split_on d s
      else (case split_on d s of [] \<Rightarrow> [[c]] | w # ws \<Rightarrow> (c # w) # ws))"

fun join :: "string \<Rightarrow> string list \<Rightarrow> string" where
  "join sep [] = []"
| "join sep [w] = w"
| "join sep (w # v # ws) = w @ sep @ join sep (v # ws)"

definition trim_start :: "string \<Rightarrow> string" where
  "trim_start s = dropWhile is_space s"

definition trim :: "string \<Rightarrow> string" where
  "trim s = rev (dropWhile is_space (rev (trim_start s)))"

definition pad_start :: "nat \<Rightarrow> char \<Rightarrow> string \<Rightarrow> string" where
  "pad_start n c s = replicate (n - length s) c @ s"

definition em_dash :: string where
  "em_dash = [CHR 0xE2, CHR 0x80, CHR 0x94]"

text \<open>\<open>'...'\<close> inside a message.\<close>

definition quoted :: "string \<Rightarrow> string" where
  "quoted s = [CHR 0x27] @ s @ [CHR 0x27]"

section \<open>Numerals\<close>

definition digit_char :: "int \<Rightarrow> char" where
  "digit_char d = char_of (48 + d)"

function dec_digits :: "int \<Rightarrow> string" where
  "dec_digits i = (if i < 10 then [digit_char i] else dec_digits (i div 10) @ [digit_char (i mod 10)])"
  by pat_completeness auto
termination
  by (relation "measure nat") auto

declare dec_digits.simps [simp del]

definition show_nat :: "nat \<Rightarrow> string" where
  "show_nat n = dec_digits (int n)"

definition show_int :: "int \<Rightarrow> string" where
  "show_int i = (if i < 0 then ''-'' @ dec_digits (- i) else dec_digits i)"

definition digit_value :: "char \<Rightarrow> int" where
  "digit_value c = of_char c - 48"

definition digits_value :: "string \<Rightarrow> int" where
  "digits_value s = foldl (\<lambda>n c. 10 * n + digit_value c) 0 s"

section \<open>Reading numbers\<close>

text \<open>
  The unsigned decimal literal at the head of a string: digits with an optional fraction and an
  optional exponent, with what follows it.
\<close>

definition exponent_part :: "string \<Rightarrow> int \<times> string" where
  "exponent_part s = (case s of
       [] \<Rightarrow> (0, s)
     | c # t \<Rightarrow>
         if c = CHR ''e'' \<or> c = CHR ''E'' then
           (let (neg, t') = (case t of [] \<Rightarrow> (False, t)
                | d # u \<Rightarrow> if d = CHR ''-'' then (True, u) else if d = CHR ''+'' then (False, u) else (False, t));
                ds = takeWhile is_digit t'
            in if ds = [] then (0, s)
               else ((if neg then - digits_value ds else digits_value ds), dropWhile is_digit t'))
         else (0, s))"

definition decimal_prefix :: "string \<Rightarrow> (rat \<times> string) option" where
  "decimal_prefix s =
     (let ip = takeWhile is_digit s; r1 = dropWhile is_digit s;
          (fp, r2) = (case r1 of [] \<Rightarrow> ([], [])
             | c # t \<Rightarrow> if c = CHR ''.'' then (takeWhile is_digit t, dropWhile is_digit t) else ([], r1))
      in if ip = [] \<and> fp = [] then None
         else (let (e, rest) = exponent_part r2
               in Some (of_int (digits_value (ip @ fp)) * 10 powi (e - int (length fp)), rest)))"

definition signed_prefix :: "string \<Rightarrow> (jsnum \<times> string) option" where
  "signed_prefix s =
     (let (neg, t) = (case s of [] \<Rightarrow> (False, s)
            | c # u \<Rightarrow> if c = CHR ''-'' then (True, u) else if c = CHR ''+'' then (False, u) else (False, s))
      in if starts_with t ''Infinity'' then Some (Infty neg, drop 8 t)
         else (case decimal_prefix t of None \<Rightarrow> None
               | Some (x, rest) \<Rightarrow> Some (num (if neg then - x else x), rest)))"

text \<open>\<open>Number.parseFloat(s)\<close>: the longest literal at the head, anything may follow.\<close>

definition parse_float :: "string \<Rightarrow> jsnum" where
  "parse_float s = (case signed_prefix (trim_start s) of None \<Rightarrow> NaN | Some (x, _) \<Rightarrow> x)"

definition radix_digit :: "char \<Rightarrow> int" where
  "radix_digit c = (if is_digit c then of_char c - 48
     else if is_lower c then of_char c - 87 else if is_upper c then of_char c - 55 else 99)"

definition radix_value :: "int \<Rightarrow> string \<Rightarrow> jsnum" where
  "radix_value b s = (if s \<noteq> [] \<and> list_all (\<lambda>c. radix_digit c < b) s
     then num (of_int (foldl (\<lambda>n c. b * n + radix_digit c) 0 s)) else NaN)"

text \<open>\<open>Number(s)\<close>: the whole trimmed string is one literal; empty is 0.\<close>

definition number_of_string :: "string \<Rightarrow> jsnum" where
  "number_of_string s = (let t = trim s; p = to_lower (take 2 t) in
     if t = [] then Fin 0
     else if p = ''0x'' then radix_value 16 (drop 2 t)
     else if p = ''0o'' then radix_value 8 (drop 2 t)
     else if p = ''0b'' then radix_value 2 (drop 2 t)
     else (case signed_prefix t of Some (x, []) \<Rightarrow> x | _ \<Rightarrow> NaN))"

section \<open>Writing numbers\<close>

text \<open>
  \<open>String(n)\<close>: the shortest digits that read back as \<open>n\<close>. \<open>dec_exp x\<close> is the \<open>n\<close> with
  \<open>10^(n-1) \<le> x < 10^n\<close>; the fuel 400 passes the smallest positive binary64 value, \<open>5e-324\<close>.
\<close>

fun lead_zeros :: "nat \<Rightarrow> rat \<Rightarrow> nat" where
  "lead_zeros 0 x = 0"
| "lead_zeros (Suc f) x = (if 1 \<le> x * 10 then 0 else Suc (lead_zeros f (x * 10)))"

definition dec_exp :: "rat \<Rightarrow> int" where
  "dec_exp x = (if 1 \<le> x then int (length (dec_digits \<lfloor>x\<rfloor>)) else - int (lead_zeros 400 x))"

text \<open>Tries \<open>k\<close>, \<open>k + 1\<close>, \<dots> digits, 17 at most.\<close>

fun shortest :: "nat \<Rightarrow> nat \<Rightarrow> rat \<Rightarrow> int \<Rightarrow> int \<times> int" where
  "shortest 0 k x n = (\<lfloor>x / 10 powi (n - 17) + 1 / 2\<rfloor>, n)"
| "shortest (Suc f) k x n =
     (let s = \<lfloor>x / 10 powi (n - int k) + 1 / 2\<rfloor>
      in if fl (of_int s * 10 powi (n - int k)) = x
         then (if s = 10 ^ k then (1, n + 1) else (s, n))
         else shortest f (Suc k) x n)"

definition show_pos :: "rat \<Rightarrow> string" where
  "show_pos x = (let (s, n) = shortest 16 1 x (dec_exp x); ds = dec_digits s; k = int (length ds) in
     if k \<le> n \<and> n \<le> 21 then ds @ replicate (nat (n - k)) (CHR ''0'')
     else if 0 < n \<and> n \<le> 21 then take (nat n) ds @ ''.'' @ drop (nat n) ds
     else if - 6 < n \<and> n \<le> 0 then ''0.'' @ replicate (nat (- n)) (CHR ''0'') @ ds
     else (let e = n - 1;
               tail = ''e'' @ (if e < 0 then ''-'' else ''+'') @ dec_digits \<bar>e\<bar>
           in if k = 1 then ds @ tail else take 1 ds @ ''.'' @ drop 1 ds @ tail))"

fun show_num :: "jsnum \<Rightarrow> string" where
  "show_num NaN = ''NaN''"
| "show_num (Infty s) = (if s then ''-Infinity'' else ''Infinity'')"
| "show_num (Fin x) = (if x = 0 then ''0'' else if x < 0 then ''-'' @ show_pos (- x) else show_pos x)"

text \<open>\<open>n.toFixed(2)\<close>: the nearest number of hundredths, the larger on a tie of magnitudes.\<close>

definition cents_of :: "rat \<Rightarrow> int" where
  "cents_of a = \<lfloor>a * 100 + 1 / 2\<rfloor>"

definition show_cents :: "int \<Rightarrow> string" where
  "show_cents n = dec_digits (n div 100) @ ''.'' @ pad_start 2 (CHR ''0'') (dec_digits (n mod 100))"

fun to_fixed2 :: "jsnum \<Rightarrow> string" where
  "to_fixed2 (Fin a) =
     (if \<bar>a\<bar> \<ge> 10 ^ 21 then show_num (Fin a)
      else (if a < 0 then ''-'' else []) @ show_cents (cents_of \<bar>a\<bar>))"
| "to_fixed2 n = show_num n"

text \<open>\<open>encodeURIComponent\<close>: every byte outside the unreserved set as \<open>%XX\<close>.\<close>

definition hex_char :: "nat \<Rightarrow> char" where
  "hex_char d = (if d < 10 then char_of (48 + d) else char_of (55 + d))"

definition uri_unreserved :: "char \<Rightarrow> bool" where
  "uri_unreserved c \<longleftrightarrow> is_letter c \<or> is_digit c \<or> c \<in> set ''-_.!~*()'' \<or> code c = 39"

definition encode_uri_component :: "string \<Rightarrow> string" where
  "encode_uri_component s = concat (map (\<lambda>c. if uri_unreserved c then [c]
     else [CHR ''%'', hex_char (code c div 16), hex_char (code c mod 16)]) s)"

section \<open>Facts\<close>

lemma code_char_of [simp]: "n < 256 \<Longrightarrow> code (char_of n) = n"
  by simp

lemma code_less_256 [simp]: "code c < 256"
  using of_char_mod_256 [of c, where 'a = nat] by (metis mod_less_divisor zero_less_numeral)

lemma lower_char_idem [simp]: "lower_char (lower_char c) = lower_char c"
  by (auto simp: lower_char_def is_upper_def)

lemma to_lower_idem [simp]: "to_lower (to_lower s) = to_lower s"
  by (simp add: to_lower_def comp_def)

lemma to_lower_append [simp]: "to_lower (s @ t) = to_lower s @ to_lower t"
  by (simp add: to_lower_def)

lemma length_to_lower [simp]: "length (to_lower s) = length s"
  by (simp add: to_lower_def)

lemma starts_with_iff: "starts_with s p \<longleftrightarrow> (\<exists>r. s = p @ r)"
  by (induction s p rule: starts_with.induct) auto

lemma starts_with_append [simp]: "starts_with (p @ r) p"
  by (auto simp: starts_with_iff)

lemma includes_str_iff: "includes_str s p \<longleftrightarrow> (\<exists>a b. s = a @ p @ b)"
proof (induction s)
  case Nil
  then show ?case by auto
next
  case (Cons c s)
  have "includes_str (c # s) p \<longleftrightarrow> (\<exists>r. c # s = p @ r) \<or> (\<exists>a b. s = a @ p @ b)"
    using Cons.IH by (simp add: starts_with_iff)
  also have "\<dots> \<longleftrightarrow> (\<exists>a b. c # s = a @ p @ b)"
    by (metis append_Cons append_Nil neq_Nil_conv list.inject)
  finally show ?case .
qed

lemma split_on_nonempty [simp]: "split_on d s \<noteq> []"
  by (induction d s rule: split_on.induct) (auto split: list.splits)

lemma split_on_free: "d \<notin> set s \<Longrightarrow> split_on d s = [s]"
  by (induction s) auto

lemma split_on_append:
  "d \<notin> set s \<Longrightarrow> split_on d (s @ d # t) = s # split_on d t"
  by (induction s) auto

lemma join_split: "join [d] (split_on d s) = s"
proof (induction s)
  case (Cons c s)
  then show ?case
    by (cases "split_on d s") (auto, metis append_Cons append_Nil join.simps(2,3) neq_Nil_conv)
qed simp

lemma split_join:
  "ws \<noteq> [] \<Longrightarrow> (\<forall>w \<in> set ws. d \<notin> set w) \<Longrightarrow> split_on d (join [d] ws) = ws"
  by (induction "[d]" ws rule: join.induct) (simp_all add: split_on_free split_on_append)

lemma split_on_free_parts: "w \<in> set (split_on d s) \<Longrightarrow> d \<notin> set w"
  by (induction d s arbitrary: w rule: split_on.induct) (auto split: if_splits list.splits)

text \<open>Joining with a separator that no component contains loses nothing.\<close>

lemma join_inject:
  assumes "join [d] ws = join [d] vs" and "ws \<noteq> []" and "vs \<noteq> []"
    and "\<forall>w \<in> set ws. d \<notin> set w" and "\<forall>v \<in> set vs. d \<notin> set v"
  shows "ws = vs"
  using assms split_join by metis

lemma code_eq_int: "int (code c) = of_char c"
  by (rule of_nat_of_char)

lemma code_digit_char: "0 \<le> d \<Longrightarrow> d < 10 \<Longrightarrow> of_char (digit_char d) = 48 + d"
  by (simp add: digit_char_def)

lemma is_digit_digit_char [simp]: "0 \<le> d \<Longrightarrow> d < 10 \<Longrightarrow> is_digit (digit_char d)"
  using code_digit_char [of d] unfolding is_digit_def code_eq_int [symmetric] by linarith

lemma digit_value_digit_char [simp]: "0 \<le> d \<Longrightarrow> d < 10 \<Longrightarrow> digit_value (digit_char d) = d"
  by (simp add: digit_value_def code_digit_char)

lemma dec_digits_digits: "0 \<le> i \<Longrightarrow> list_all is_digit (dec_digits i)"
proof (induction i rule: dec_digits.induct)
  case (1 i)
  then show ?case by (cases "i < 10") (subst dec_digits.simps, simp)+
qed

lemma dec_digits_nonempty [simp]: "dec_digits i \<noteq> []"
  by (subst dec_digits.simps) simp

lemma digits_value_snoc [simp]: "digits_value (s @ [c]) = 10 * digits_value s + digit_value c"
  by (simp add: digits_value_def)

lemma digits_value_dec_digits [simp]: "0 \<le> i \<Longrightarrow> digits_value (dec_digits i) = i"
proof (induction i rule: dec_digits.induct)
  case (1 i)
  show ?case
  proof (cases "i < 10")
    case True
    with "1.prems" show ?thesis by (subst dec_digits.simps) (simp add: digits_value_def)
  next
    case False
    with 1 show ?thesis by (subst dec_digits.simps) simp
  qed
qed

lemma show_nat_digits: "list_all is_digit (show_nat n)"
  by (simp add: show_nat_def dec_digits_digits)

lemma show_nat_nonempty [simp]: "show_nat n \<noteq> []"
  by (simp add: show_nat_def)

lemma show_nat_inject [simp]: "show_nat m = show_nat n \<longleftrightarrow> m = n"
  by (metis digits_value_dec_digits of_nat_0_le_iff of_nat_eq_iff show_nat_def)

end
