(* ===== verification/JsValue.thy ===== *)
theory JsValue
  imports JsString
begin

text \<open>
  Dynamic values (\<open>unknown\<close>, \<open>Record<string, unknown>\<close>) and thrown errors. An object is its own
  enumerable properties in insertion order; properties inherited from \<open>Object.prototype\<close> and
  named properties put on an array are not represented (JSON drops the latter).
\<close>

section \<open>Values\<close>

datatype jsval =
    JUndef
  | JNull
  | JBool bool
  | JNum jsnum
  | JStr string
  | JArr "jsval list"
  | JObj "(string \<times> jsval) list"

type_synonym jsobj = "(string \<times> jsval) list"

definition oget :: "jsobj \<Rightarrow> string \<Rightarrow> jsval" where
  "oget ps k = (case map_of ps k of None \<Rightarrow> JUndef | Some v \<Rightarrow> v)"

abbreviation oset :: "string \<Rightarrow> jsval \<Rightarrow> jsobj \<Rightarrow> jsobj" where
  "oset k v ps \<equiv> AList.update k v ps"

text \<open>Assigning every property of one object onto another, as object spread does.\<close>

definition oassign :: "jsobj \<Rightarrow> jsobj \<Rightarrow> jsobj" where
  "oassign ps qs = foldl (\<lambda>acc (k, v). oset k v acc) ps qs"

fun is_obj :: "jsval \<Rightarrow> bool" where
  "is_obj (JObj _) = True"
| "is_obj (JArr _) = True"
| "is_obj _ = False"

definition nullish :: "jsval \<Rightarrow> bool" where
  "nullish v \<longleftrightarrow> v = JUndef \<or> v = JNull"

fun truthy :: "jsval \<Rightarrow> bool" where
  "truthy JUndef = False"
| "truthy JNull = False"
| "truthy (JBool b) = b"
| "truthy (JNum n) = (n \<noteq> NaN \<and> n \<noteq> Fin 0)"
| "truthy (JStr s) = (s \<noteq> [])"
| "truthy _ = True"

fun js_typeof :: "jsval \<Rightarrow> string" where
  "js_typeof JUndef = ''undefined''"
| "js_typeof (JBool _) = ''boolean''"
| "js_typeof (JNum _) = ''number''"
| "js_typeof (JStr _) = ''string''"
| "js_typeof _ = ''object''"

text \<open>A property key that is an array index in canonical form.\<close>

definition array_index :: "string \<Rightarrow> nat option" where
  "array_index k = (if k \<noteq> [] \<and> list_all is_digit k \<and> (length k = 1 \<or> hd k \<noteq> CHR ''0'')
     then Some (nat (digits_value k)) else None)"

text \<open>\<open>v[k]\<close> for a \<open>v\<close> that is not nullish.\<close>

fun get_prop :: "jsval \<Rightarrow> string \<Rightarrow> jsval" where
  "get_prop (JObj ps) k = oget ps k"
| "get_prop (JArr xs) k = (case array_index k of
     Some i \<Rightarrow> (if i < length xs then xs ! i else JUndef)
   | None \<Rightarrow> (if k = ''length'' then JNum (Fin (of_nat (length xs))) else JUndef))"
| "get_prop _ _ = JUndef"

text \<open>\<open>a === b\<close>; two objects are never the same reference in the places the source compares.\<close>

fun strict_eq :: "jsval \<Rightarrow> jsval \<Rightarrow> bool" where
  "strict_eq (JNum a) (JNum b) = num_same a b"
| "strict_eq (JStr a) (JStr b) = (a = b)"
| "strict_eq (JBool a) (JBool b) = (a = b)"
| "strict_eq JNull JNull = True"
| "strict_eq JUndef JUndef = True"
| "strict_eq _ _ = False"

section \<open>Conversions\<close>

text \<open>\<open>String(v)\<close>\<close>

fun to_str :: "jsval \<Rightarrow> string" and elem_str :: "jsval list \<Rightarrow> string list" where
  "to_str JUndef = ''undefined''"
| "to_str JNull = ''null''"
| "to_str (JBool b) = (if b then ''true'' else ''false'')"
| "to_str (JNum n) = show_num n"
| "to_str (JStr s) = s"
| "to_str (JArr xs) = join '','' (elem_str xs)"
| "to_str (JObj _) = ''[object Object]''"
| "elem_str [] = []"
| "elem_str (x # xs) = (if nullish x then [] else to_str x) # elem_str xs"

text \<open>\<open>Number(v)\<close>\<close>

fun to_number :: "jsval \<Rightarrow> jsnum" where
  "to_number JUndef = NaN"
| "to_number JNull = Fin 0"
| "to_number (JBool b) = (if b then Fin 1 else Fin 0)"
| "to_number (JNum n) = n"
| "to_number (JStr s) = number_of_string s"
| "to_number v = number_of_string (to_str v)"

text \<open>\<open>JSON.stringify(v)\<close> for a \<open>v\<close> that is not \<open>undefined\<close>.\<close>

definition json_char :: "char \<Rightarrow> string" where
  "json_char c =
     (if code c = 34 then [char_of (92 :: nat), c]
      else if code c = 92 then [c, c]
      else if code c = 8 then [char_of (92 :: nat), CHR ''b'']
      else if code c = 9 then [char_of (92 :: nat), CHR ''t'']
      else if code c = 10 then [char_of (92 :: nat), CHR ''n'']
      else if code c = 12 then [char_of (92 :: nat), CHR ''f'']
      else if code c = 13 then [char_of (92 :: nat), CHR ''r'']
      else if code c < 32 then [char_of (92 :: nat)] @ ''u00''
        @ [if code c < 16 then CHR ''0'' else CHR ''1'', to_lower [hex_char (code c mod 16)] ! 0]
      else [c])"

definition json_quote :: "string \<Rightarrow> string" where
  "json_quote s = [char_of (34 :: nat)] @ concat (map json_char s) @ [char_of (34 :: nat)]"

fun json :: "jsval \<Rightarrow> string"
  and json_elems :: "jsval list \<Rightarrow> string list"
  and json_members :: "(string \<times> jsval) list \<Rightarrow> string list" where
  "json JUndef = ''null''"
| "json JNull = ''null''"
| "json (JBool b) = (if b then ''true'' else ''false'')"
| "json (JNum n) = (if is_finite_num n then show_num n else ''null'')"
| "json (JStr s) = json_quote s"
| "json (JArr xs) = ''['' @ join '','' (json_elems xs) @ '']''"
| "json (JObj ps) = ''{'' @ join '','' (json_members ps) @ ''}''"
| "json_elems [] = []"
| "json_elems (x # xs) = json x # json_elems xs"
| "json_members [] = []"
| "json_members ((k, v) # ps) =
     (if v = JUndef then json_members ps else (json_quote k @ '':'' @ json v) # json_members ps)"

text \<open>Optional properties: \<open>...(x !== undefined ? { k: x } : {})\<close>.\<close>

definition opt_prop :: "string \<Rightarrow> ('a \<Rightarrow> jsval) \<Rightarrow> 'a option \<Rightarrow> jsobj" where
  "opt_prop k f x = (case x of None \<Rightarrow> [] | Some a \<Rightarrow> [(k, f a)])"

text \<open>An optional string is set and non-empty (\<open>if (s)\<close>).\<close>

definition set_str :: "string option \<Rightarrow> bool" where
  "set_str s \<longleftrightarrow> (case s of None \<Rightarrow> False | Some t \<Rightarrow> t \<noteq> [])"

section \<open>Errors\<close>

text \<open>
  What the order pipeline can catch. \<open>OrderNotFoundError\<close> is the Shopify gateway's class,
  \<open>NetSuiteError\<close> the class of the \<open>netsuite-sdk\<close> package (its fields and its two getters as the
  source reads them), \<open>JsError\<close> any other \<open>Error\<close> with the \<open>rawNsResponse\<close> the NetSuite gateway may
  attach, \<open>NonError\<close> a thrown value that is not an \<open>Error\<close>, by its \<open>String(v)\<close>. Stack traces are
  left out: their text belongs to the engine.
\<close>

record ns_error =
  nse_message :: string
  nse_is_auth :: bool
  nse_is_retryable :: bool
  nse_code :: "string option"
  nse_status :: "int option"
  nse_details :: jsval
  nse_body :: jsval

record raw_ns =
  raw_status :: "int option"
  raw_body :: "jsval option"

datatype js_error =
    OrderNotFoundError string string
  | NetSuiteError ns_error
  | JsError string "raw_ns option"
  | NonError string

abbreviation plain_error :: "string \<Rightarrow> js_error" where
  "plain_error msg \<equiv> JsError msg None"

definition order_not_found_message :: "string \<Rightarrow> string \<Rightarrow> string" where
  "order_not_found_message gid shop = ''order '' @ quoted gid @ '' not found on '' @ shop"

text \<open>\<open>err instanceof Error ? err.message : String(err)\<close>\<close>

fun err_message :: "js_error \<Rightarrow> string" where
  "err_message (OrderNotFoundError gid shop) = order_not_found_message gid shop"
| "err_message (NetSuiteError e) = nse_message e"
| "err_message (JsError msg _) = msg"
| "err_message (NonError s) = s"

text \<open>The effects of the program: they throw \<open>js_error\<close>.\<close>

type_synonym ('w, 'a) io = "('w, js_error, 'a) eff"

section \<open>Facts\<close>

lemma oget_oset [simp]: "oget (oset k v ps) k' = (if k = k' then v else oget ps k')"
  by (simp add: oget_def map_of_update)

lemma oget_Nil [simp]: "oget [] k = JUndef"
  by (simp add: oget_def)

lemma oget_Cons: "oget ((k, v) # ps) k' = (if k = k' then v else oget ps k')"
  by (simp add: oget_def)

lemma map_of_oassign_notin:
  "k \<notin> fst ` set qs \<Longrightarrow> map_of (oassign ps qs) k = map_of ps k"
proof (induction qs arbitrary: ps)
  case (Cons q qs)
  obtain a v where q: "q = (a, v)" by force
  have "oassign ps (q # qs) = oassign (oset a v ps) qs"
    by (simp add: oassign_def q)
  with Cons q show ?case by (auto simp: map_of_update)
qed (simp add: oassign_def)

lemma oget_oassign_notin [simp]: "k \<notin> fst ` set qs \<Longrightarrow> oget (oassign ps qs) k = oget ps k"
  by (simp add: oget_def map_of_oassign_notin)

lemma oassign_Nil [simp]: "oassign ps [] = ps"
  by (simp add: oassign_def)

lemma oassign_Cons [simp]: "oassign ps ((k, v) # qs) = oassign (oset k v ps) qs"
  by (simp add: oassign_def)

lemma oassign_append: "oassign ps (qs @ rs) = oassign (oassign ps qs) rs"
  by (simp add: oassign_def)

lemma opt_prop_None [simp]: "opt_prop k f None = []"
  by (simp add: opt_prop_def)

lemma opt_prop_Some [simp]: "opt_prop k f (Some a) = [(k, f a)]"
  by (simp add: opt_prop_def)

end
