(* ===== verification/Governor.thy ===== *)
theory Governor
  imports JsValue
begin

text \<open>
  The per-account concurrency budget: \<open>packages/core/src/governor\<close> (the two backing stores, the
  polling acquisition, holder ids) and \<open>packages/netsuite-client/src/governor-middleware.ts\<close>.
  The requests in flight form a state machine; its invariant is the ceiling.
\<close>

section \<open>The backing stores\<close>

text \<open>The operations of \<open>GovernorBackingStore\<close> over a store state.\<close>

record 's governor_ops =
  go_tryAcquire :: "string \<Rightarrow> string \<Rightarrow> 's \<Rightarrow> bool \<times> 's"
  go_release :: "string \<Rightarrow> string \<Rightarrow> 's \<Rightarrow> 's"
  go_inFlight :: "string \<Rightarrow> 's \<Rightarrow> nat \<times> 's"

record governor_config =
  perAccountCeiling :: int
  pollIntervalMs :: "int option"
  acquireTimeoutMs :: "int option"

definition greater_equal :: string where
  "greater_equal = [CHR 0xE2, CHR 0x89, CHR 0xA5]"

definition ceiling_error :: "int \<Rightarrow> js_error" where
  "ceiling_error c = plain_error (''Governor ceiling must be '' @ greater_equal @ '' 1, got '' @ show_int c)"

text \<open>A \<open>Set\<close> of holders is a list without duplicates, in insertion order.\<close>

record shared_governor =
  sg_ceiling :: int
  sg_slots :: "(string \<times> string list) list"

definition new_shared_governor :: "int \<Rightarrow> js_error + shared_governor" where
  "new_shared_governor c = (if c < 1 then Inl (ceiling_error c)
     else Inr \<lparr>sg_ceiling = c, sg_slots = []\<rparr>)"

definition bucket :: "string \<Rightarrow> shared_governor \<Rightarrow> string list \<times> shared_governor" where
  "bucket acct g = (case map_of (sg_slots g) acct of
     Some b \<Rightarrow> (b, g)
   | None \<Rightarrow> ([], g\<lparr>sg_slots := AList.update acct [] (sg_slots g)\<rparr>))"

definition shared_tryAcquire :: "string \<Rightarrow> string \<Rightarrow> shared_governor \<Rightarrow> bool \<times> shared_governor" where
  "shared_tryAcquire acct h g = (case bucket acct g of (b, g') \<Rightarrow>
     if int (length b) \<ge> sg_ceiling g' then (False, g')
     else (True, g'\<lparr>sg_slots := AList.update acct (List.insert h b) (sg_slots g')\<rparr>))"

definition shared_release :: "string \<Rightarrow> string \<Rightarrow> shared_governor \<Rightarrow> shared_governor" where
  "shared_release acct h g = (case bucket acct g of (b, g') \<Rightarrow>
     g'\<lparr>sg_slots := AList.update acct (removeAll h b) (sg_slots g')\<rparr>)"

definition shared_inFlight :: "string \<Rightarrow> shared_governor \<Rightarrow> nat \<times> shared_governor" where
  "shared_inFlight acct g = (case bucket acct g of (b, g') \<Rightarrow> (length b, g'))"

definition shared_ops :: "shared_governor governor_ops" where
  "shared_ops = \<lparr>go_tryAcquire = shared_tryAcquire, go_release = shared_release,
     go_inFlight = shared_inFlight\<rparr>"

text \<open>The store that ignores the account and lives in one process.\<close>

record process_governor =
  pp_ceiling :: int
  pp_slots :: "string list"

definition new_process_governor :: "int \<Rightarrow> js_error + process_governor" where
  "new_process_governor c = (if c < 1 then Inl (ceiling_error c)
     else Inr \<lparr>pp_ceiling = c, pp_slots = []\<rparr>)"

definition process_tryAcquire :: "string \<Rightarrow> string \<Rightarrow> process_governor \<Rightarrow> bool \<times> process_governor" where
  "process_tryAcquire acct h g =
     (if int (length (pp_slots g)) \<ge> pp_ceiling g then (False, g)
      else (True, g\<lparr>pp_slots := List.insert h (pp_slots g)\<rparr>))"

definition process_release :: "string \<Rightarrow> string \<Rightarrow> process_governor \<Rightarrow> process_governor" where
  "process_release acct h g = g\<lparr>pp_slots := removeAll h (pp_slots g)\<rparr>"

definition process_inFlight :: "string \<Rightarrow> process_governor \<Rightarrow> nat \<times> process_governor" where
  "process_inFlight acct g = (length (pp_slots g), g)"

definition process_ops :: "process_governor governor_ops" where
  "process_ops = \<lparr>go_tryAcquire = process_tryAcquire, go_release = process_release,
     go_inFlight = process_inFlight\<rparr>"

section \<open>Waiting for a slot\<close>

text \<open>
  One process sees the clock and the store; while it sleeps, others change both. \<open>sleep k\<close> is
  what happens during the k-th \<open>setTimeout\<close>. The loop has no bound of its own, so it takes fuel;
  \<open>None\<close> is running out of it.
\<close>

definition timeout_error :: "string \<Rightarrow> int \<Rightarrow> js_error" where
  "timeout_error acct timeout = plain_error (''Governor: timed out after '' @ show_int timeout
     @ ''ms waiting for slot on NS account '' @ quoted acct)"

fun acquire_loop :: "'s governor_ops \<Rightarrow> (nat \<Rightarrow> int \<times> 's \<Rightarrow> int \<times> 's) \<Rightarrow> string \<Rightarrow> string \<Rightarrow> int \<Rightarrow> int
    \<Rightarrow> nat \<Rightarrow> nat \<Rightarrow> int \<times> 's \<Rightarrow> ((js_error + unit) \<times> (int \<times> 's)) option" where
  "acquire_loop ops sleep acct h timeout deadline k fuel (now, s) =
     (case go_tryAcquire ops acct h s of
        (True, s') \<Rightarrow> Some (Inr (), (now, s'))
      | (False, s') \<Rightarrow>
          if now \<ge> deadline then Some (Inl (timeout_error acct timeout), (now, s'))
          else (case fuel of
             0 \<Rightarrow> None
           | Suc fuel' \<Rightarrow> acquire_loop ops sleep acct h timeout deadline (Suc k) fuel' (sleep k (now, s'))))"

definition poll_interval :: "governor_config \<Rightarrow> int" where
  "poll_interval cfg = (case pollIntervalMs cfg of None \<Rightarrow> 25 | Some p \<Rightarrow> p)"

definition acquire_timeout :: "governor_config \<Rightarrow> int" where
  "acquire_timeout cfg = (case acquireTimeoutMs cfg of None \<Rightarrow> 60000 | Some t \<Rightarrow> t)"

text \<open>The interval itself reaches the loop through \<open>sleep\<close>, which takes at least that long.\<close>

definition acquireSlot :: "'s governor_ops \<Rightarrow> (int \<Rightarrow> nat \<Rightarrow> int \<times> 's \<Rightarrow> int \<times> 's) \<Rightarrow> nat \<Rightarrow> string \<Rightarrow> string
    \<Rightarrow> governor_config \<Rightarrow> int \<times> 's \<Rightarrow> ((js_error + unit) \<times> (int \<times> 's)) option" where
  "acquireSlot ops sleep fuel acct h cfg w =
     acquire_loop ops (sleep (poll_interval cfg)) acct h (acquire_timeout cfg)
       (fst w + acquire_timeout cfg) 0 fuel w"

text \<open>The returned callback frees the slot once; later calls do nothing.\<close>

definition release_slot ::
  "'s governor_ops \<Rightarrow> string \<Rightarrow> string \<Rightarrow> bool \<times> 's \<Rightarrow> bool \<times> 's" where
  "release_slot ops acct h rs = (case rs of (released, s) \<Rightarrow>
     if released then (True, s) else (True, go_release ops acct h s))"

function base36 :: "int \<Rightarrow> string" where
  "base36 i = (let d = i mod 36; c = (if d < 10 then char_of (48 + d) else char_of (87 + d))
     in if i < 36 then [c] else base36 (i div 36) @ [c])"
  by pat_completeness auto
termination
  by (relation "measure nat") auto

declare base36.simps [simp del]

text \<open>\<open>newHolderId\<close>, with the module's counter and the clock as arguments.\<close>

definition newHolderId :: "string \<Rightarrow> int \<Rightarrow> nat \<Rightarrow> string \<times> nat" where
  "newHolderId prefix now seq =
     (prefix @ ''_'' @ base36 now @ ''_'' @ base36 (int (Suc seq)), Suc seq)"

section \<open>The middleware\<close>

text \<open>
  The SDK's request context keeps the account and the holder in its metadata; \<open>next\<close> is the rest
  of the SDK's middleware chain, an arbitrary computation over clock and store.
\<close>

definition governorMiddleware :: "'s governor_ops \<Rightarrow> (int \<Rightarrow> nat \<Rightarrow> int \<times> 's \<Rightarrow> int \<times> 's) \<Rightarrow> nat
    \<Rightarrow> string \<Rightarrow> governor_config \<Rightarrow> string \<Rightarrow> jsobj
    \<Rightarrow> (jsobj \<Rightarrow> (int \<times> 's, 'a) io) \<Rightarrow> int \<times> 's \<Rightarrow> ((js_error + 'a) \<times> (int \<times> 's)) option" where
  "governorMiddleware ops sleep fuel acct cfg h metadata next w =
     (case acquireSlot ops sleep fuel acct h cfg w of
        None \<Rightarrow> None
      | Some (Inl e, w') \<Rightarrow> Some (Inl e, w')
      | Some (Inr _, w') \<Rightarrow> Some (try_finally
          (next (oset ''governor_holder_id'' (JStr h) (oset ''ns_account_id'' (JStr acct) metadata)))
          (\<lambda>_. modify_st (\<lambda>(now, s). (now, snd (release_slot ops acct h (False, s))))) w'))"

section \<open>What a store promises\<close>

text \<open>
  \<open>held\<close> reads the holders of an account. A store grants a slot exactly while the account is
  below the ceiling, keeps the holders distinct, and frees what it is told to free.
\<close>

locale governor_store =
  fixes ops :: "'s governor_ops"
    and held :: "string \<Rightarrow> 's \<Rightarrow> string list"
    and ceiling :: "'s \<Rightarrow> int"
    and good :: "'s \<Rightarrow> bool"
  assumes acquire_law: "good s \<Longrightarrow>
      go_tryAcquire ops a h s = (int (length (held a s)) < ceiling s, snd (go_tryAcquire ops a h s))
      \<and> good (snd (go_tryAcquire ops a h s)) \<and> ceiling (snd (go_tryAcquire ops a h s)) = ceiling s
      \<and> held a (snd (go_tryAcquire ops a h s)) =
          (if int (length (held a s)) < ceiling s then List.insert h (held a s) else held a s)"
    and release_law: "good s \<Longrightarrow>
      good (go_release ops a h s) \<and> ceiling (go_release ops a h s) = ceiling s
      \<and> held a (go_release ops a h s) = removeAll h (held a s)"
    and count_law: "good s \<Longrightarrow> fst (go_inFlight ops a s) = length (held a s)
      \<and> held a (snd (go_inFlight ops a s)) = held a s"
    and good_distinct: "good s \<Longrightarrow> distinct (held a s)"
begin

lemma acquire_holds:
  assumes "good s" and "go_tryAcquire ops a h s = (True, s')"
  shows "h \<in> set (held a s') \<and> good s' \<and> int (length (held a s)) < ceiling s"
  using acquire_law [of s a h] assms by auto

lemma acquire_refused:
  assumes "good s" and "go_tryAcquire ops a h s = (False, s')"
  shows "held a s' = held a s \<and> good s' \<and> int (length (held a s)) \<ge> ceiling s"
  using acquire_law [of s a h] assms by auto

lemma release_after_acquire:
  assumes "good s" and "h \<notin> set (held a s)" and "go_tryAcquire ops a h s = (True, s')"
  shows "held a (go_release ops a h s') = held a s"
  using acquire_law [of s a h] release_law [of s' a h] assms
  by (auto simp: removeAll_id)

lemma loop_ends:
  assumes "\<And>k w. p \<le> fst (sleep k w) - fst w" and "0 < p"
    and "good s" and "\<And>k w. good (snd w) \<Longrightarrow> good (snd (sleep k w))"
    and "deadline - now \<le> int fuel * p"
  shows "\<exists>r w'. acquire_loop ops sleep a h timeout deadline k fuel (now, s) = Some (r, w')
    \<and> good (snd w')
    \<and> (case r of Inr _ \<Rightarrow> h \<in> set (held a (snd w'))
        | Inl e \<Rightarrow> e = timeout_error a timeout \<and> deadline \<le> fst w'
            \<and> ceiling (snd w') \<le> int (length (held a (snd w'))))"
  using assms(3,5)
proof (induction fuel arbitrary: k now s)
  case 0
  then show ?case
    using acquire_law [of s a h] by (cases "go_tryAcquire ops a h s") (auto split: bool.splits)
next
  case (Suc fuel)
  obtain got s' where g: "go_tryAcquire ops a h s = (got, s')" by force
  show ?case
  proof (cases "got \<or> deadline \<le> now")
    case True
    then show ?thesis
      using g acquire_law [of s a h] Suc.prems by (auto split: bool.splits)
  next
    case False
    obtain now' s'' where sl: "sleep k (now, s') = (now', s'')" by force
    have "good s''"
      using assms(4) [of "(now, s')" k] acquire_refused [OF Suc.prems(1)] g False sl by auto
    moreover have "deadline - now' \<le> int fuel * p"
      using assms(1) [of k "(now, s')"] sl Suc.prems(2) by (simp add: algebra_simps)
    ultimately show ?thesis
      using Suc.IH [of s'' now' "Suc k"] g False sl by auto
  qed
qed

lemma middleware_frees:
  assumes "good (snd w)" and "\<And>i k w. good (snd w) \<Longrightarrow> good (snd (sleep i k w))"
    and "\<And>m w. good (snd w) \<Longrightarrow> wp (next m) (\<lambda>_ w. good (snd w)) (\<lambda>_ w. good (snd w)) w"
    and "\<And>i k w. poll_interval cfg \<le> fst (sleep i k w) - fst w" and "0 < poll_interval cfg"
    and "acquire_timeout cfg \<le> int fuel * poll_interval cfg"
    and "governorMiddleware ops sleep fuel a cfg h metadata next w = Some (r, w')"
    and "\<forall>t. r \<noteq> Inl (timeout_error a t)"
  shows "h \<notin> set (held a (snd w'))"
proof -
  obtain res v where acq: "acquireSlot ops sleep fuel a h cfg w = Some (res, v)"
      "good (snd v)" "case res of Inr _ \<Rightarrow> True | Inl e \<Rightarrow> \<exists>t. e = timeout_error a t"
    using loop_ends [of "poll_interval cfg" "sleep (poll_interval cfg)" "snd w"
        "fst w + acquire_timeout cfg" "fst w" fuel a h "acquire_timeout cfg" 0] assms(1,2,4-6)
    by (fastforce simp: acquireSlot_def split: sum.splits)
  with assms(7,8) have res: "res = Inr ()"
    by (auto simp: governorMiddleware_def split: sum.splits)
  let ?n = "next (oset ''governor_holder_id'' (JStr h) (oset ''ns_account_id'' (JStr a) metadata))"
  obtain q u where n: "?n v = (q, u)" by (metis surj_pair)
  then have "good (snd u)"
    using assms(3) [OF acq(2)] by (cases q) (auto dest: wp_Inr wp_Inl)
  then have "h \<notin> set (held a (go_release ops a h (snd u)))"
    using release_law [of "snd u" a h] by simp
  moreover have "w' = (fst u, go_release ops a h (snd u))"
    using assms(7) acq(1)
    by (simp add: governorMiddleware_def res n try_finally_def release_slot_def split_beta)
  ultimately show ?thesis by simp
qed

end

section \<open>Both stores keep the promise for one account\<close>

definition shared_held :: "string \<Rightarrow> shared_governor \<Rightarrow> string list" where
  "shared_held a g = (case map_of (sg_slots g) a of None \<Rightarrow> [] | Some b \<Rightarrow> b)"

definition shared_good :: "shared_governor \<Rightarrow> bool" where
  "shared_good g \<longleftrightarrow> (\<forall>a. distinct (shared_held a g) \<and> int (length (shared_held a g)) \<le> sg_ceiling g)"

lemma bucket_held: "bucket a g = (b, g') \<Longrightarrow> b = shared_held a g \<and> sg_ceiling g' = sg_ceiling g
    \<and> (\<forall>c. shared_held c g' = shared_held c g)"
  by (auto simp: bucket_def shared_held_def map_of_update split: option.splits if_splits)

lemma shared_held_update:
  "shared_held c (g\<lparr>sg_slots := AList.update a b (sg_slots g)\<rparr>) = (if c = a then b else shared_held c g)"
  by (simp add: shared_held_def map_of_update)

lemma shared_tryAcquire_eq:
  "\<exists>g'. shared_tryAcquire a h g = (int (length (shared_held a g)) < sg_ceiling g, g')
     \<and> sg_ceiling g' = sg_ceiling g
     \<and> (\<forall>c. shared_held c g' = (if c = a \<and> int (length (shared_held a g)) < sg_ceiling g
          then List.insert h (shared_held a g) else shared_held c g))"
proof -
  obtain b g' where b: "bucket a g = (b, g')" by force
  then show ?thesis
    using bucket_held [OF b] by (auto simp: shared_tryAcquire_def shared_held_update)
qed

lemma shared_release_eq:
  "sg_ceiling (shared_release a h g) = sg_ceiling g
   \<and> shared_held c (shared_release a h g) =
       (if c = a then removeAll h (shared_held a g) else shared_held c g)"
proof -
  obtain b g' where b: "bucket a g = (b, g')" by force
  then show ?thesis
    using bucket_held [OF b] by (auto simp: shared_release_def shared_held_update)
qed

lemma shared_good_acquire:
  assumes "shared_good g"
  shows "shared_good (snd (shared_tryAcquire a h g))"
  using assms shared_tryAcquire_eq [of a h g] unfolding shared_good_def
  by (elim exE) (simp add: List.insert_def)

lemma shared_good_release:
  assumes "shared_good g"
  shows "shared_good (shared_release a h g)"
  unfolding shared_good_def
proof
  fix c
  have "length (removeAll h (shared_held a g)) \<le> length (shared_held a g)"
    by (rule length_removeAll_less_eq)
  then show "distinct (shared_held c (shared_release a h g))
      \<and> int (length (shared_held c (shared_release a h g))) \<le> sg_ceiling (shared_release a h g)"
    using assms shared_release_eq [of a h g c] unfolding shared_good_def
    by (smt (verit) distinct_removeAll of_nat_mono)
qed

interpretation shared: governor_store shared_ops shared_held sg_ceiling shared_good
proof
  fix s :: shared_governor and a h
  assume g: "shared_good s"
  show "go_tryAcquire shared_ops a h s
      = (int (length (shared_held a s)) < sg_ceiling s, snd (go_tryAcquire shared_ops a h s))
    \<and> shared_good (snd (go_tryAcquire shared_ops a h s))
    \<and> sg_ceiling (snd (go_tryAcquire shared_ops a h s)) = sg_ceiling s
    \<and> shared_held a (snd (go_tryAcquire shared_ops a h s)) =
       (if int (length (shared_held a s)) < sg_ceiling s then List.insert h (shared_held a s)
        else shared_held a s)"
    using shared_tryAcquire_eq [of a h s] shared_good_acquire [OF g, of a h]
    by (elim exE) (simp add: shared_ops_def)
  show "shared_good (go_release shared_ops a h s)
    \<and> sg_ceiling (go_release shared_ops a h s) = sg_ceiling s
    \<and> shared_held a (go_release shared_ops a h s) = removeAll h (shared_held a s)"
    using shared_release_eq shared_good_release [OF g] by (simp add: shared_ops_def)
  show "fst (go_inFlight shared_ops a s) = length (shared_held a s)
    \<and> shared_held a (snd (go_inFlight shared_ops a s)) = shared_held a s"
    proof -
    obtain b g' where "bucket a s = (b, g')" by force
    then show ?thesis using bucket_held [of a s b g'] by (simp add: shared_ops_def shared_inFlight_def)
  qed
  show "distinct (shared_held a s)" using g by (simp add: shared_good_def)
qed

interpretation process: governor_store process_ops "\<lambda>_ g. pp_slots g" pp_ceiling
  "\<lambda>g. distinct (pp_slots g)"
proof
  fix s :: process_governor and a h :: string
  assume d: "distinct (pp_slots s)"
  show "go_tryAcquire process_ops a h s
      = (int (length (pp_slots s)) < pp_ceiling s, snd (go_tryAcquire process_ops a h s))
    \<and> distinct (pp_slots (snd (go_tryAcquire process_ops a h s)))
    \<and> pp_ceiling (snd (go_tryAcquire process_ops a h s)) = pp_ceiling s
    \<and> pp_slots (snd (go_tryAcquire process_ops a h s)) =
       (if int (length (pp_slots s)) < pp_ceiling s then List.insert h (pp_slots s)
        else pp_slots s)"
    using d by (cases "int (length (pp_slots s)) < pp_ceiling s")
      (simp_all add: process_ops_def process_tryAcquire_def)
  show "distinct (pp_slots (go_release process_ops a h s))
    \<and> pp_ceiling (go_release process_ops a h s) = pp_ceiling s
    \<and> pp_slots (go_release process_ops a h s) = removeAll h (pp_slots s)"
    using d by (simp add: process_ops_def process_release_def distinct_removeAll)
  show "fst (go_inFlight process_ops a s) = length (pp_slots s)
    \<and> pp_slots (snd (go_inFlight process_ops a s)) = pp_slots s"
    by (simp add: process_ops_def process_inFlight_def)
qed

section \<open>Requests in flight\<close>

text \<open>
  Any number of requests on any accounts share one store. A state is the store with the requests
  that have passed \<open>acquireSlot\<close> and not yet released, as pairs of account and holder.
\<close>

type_synonym in_flight = "(string \<times> string) list"

inductive gov_step :: "shared_governor \<times> in_flight \<Rightarrow> shared_governor \<times> in_flight \<Rightarrow> bool" where
  granted: "h \<notin> snd ` set run \<Longrightarrow> shared_tryAcquire a h g = (True, g') \<Longrightarrow>
     gov_step (g, run) (g', (a, h) # run)"
| refused: "shared_tryAcquire a h g = (False, g') \<Longrightarrow> gov_step (g, run) (g', run)"
| finished: "(a, h) \<in> set run \<Longrightarrow>
     gov_step (g, run) (shared_release a h g, removeAll (a, h) run)"

inductive_cases gov_stepE: "gov_step (g, run) s'"

definition flight_inv :: "int \<Rightarrow> shared_governor \<times> in_flight \<Rightarrow> bool" where
  "flight_inv c s = (case s of (g, run) \<Rightarrow> shared_good g \<and> sg_ceiling g = c \<and> distinct run
     \<and> (\<forall>a. set (shared_held a g) = {h. (a, h) \<in> set run}))"

lemma flight_inv_step:
  assumes "gov_step s s'" and "flight_inv c s"
  shows "flight_inv c s'"
  using assms(1)
proof (cases rule: gov_step.cases)
  case (granted h run a g g')
  then show ?thesis
    using assms(2) shared_tryAcquire_eq [of a h g] shared_good_acquire [of g a h]
    by (elim exE) (auto simp: flight_inv_def image_iff)
next
  case (refused a h g g' run)
  then show ?thesis
    using assms(2) shared_tryAcquire_eq [of a h g] shared_good_acquire [of g a h]
    by (elim exE) (auto simp: flight_inv_def)
next
  case (finished a h run g)
  then show ?thesis
    using assms(2) shared_release_eq [of a h g] shared_good_release [of g a h]
    by (auto simp: flight_inv_def distinct_removeAll)
qed

lemma flight_inv_steps: "gov_step\<^sup>*\<^sup>* s s' \<Longrightarrow> flight_inv c s \<Longrightarrow> flight_inv c s'"
  by (induction rule: rtranclp_induct) (auto intro: flight_inv_step)

definition in_flight_on :: "string \<Rightarrow> in_flight \<Rightarrow> nat" where
  "in_flight_on a run = length (filter (\<lambda>r. fst r = a) run)"

lemma in_flight_held:
  assumes "distinct run" and "set (shared_held a g) = {h. (a, h) \<in> set run}" and "distinct (shared_held a g)"
  shows "in_flight_on a run = length (shared_held a g)"
proof -
  have "set (filter (\<lambda>r. fst r = a) run) = Pair a ` set (shared_held a g)"
    using assms(2) by auto
  then have "card (set (filter (\<lambda>r. fst r = a) run)) = card (set (shared_held a g))"
    by (simp add: card_image inj_on_def)
  then have "card (set (filter (\<lambda>r. fst r = a) run)) = length (shared_held a g)"
    using assms(3) by (simp only: distinct_card)
  then show ?thesis
    using assms(1) by (simp only: in_flight_on_def distinct_card distinct_filter)
qed

lemma new_shared_inv: "new_shared_governor c = Inr g \<Longrightarrow> flight_inv c (g, []) \<and> 1 \<le> c"
  by (auto simp: new_shared_governor_def flight_inv_def shared_good_def shared_held_def
      split: if_splits)

text \<open>
  C33: with the shared store, whatever the interleaving of acquisitions, refusals and releases by
  any number of workers on any accounts, the requests in flight on one NetSuite account never
  exceed the ceiling, and a worker is refused only when the account is exactly at its ceiling.
\<close>

theorem governor_ceiling:
  assumes "new_shared_governor c = Inr g0" and "gov_step\<^sup>*\<^sup>* (g0, []) (g, run)"
  shows "int (in_flight_on a run) \<le> c
    \<and> (fst (shared_tryAcquire a h g) \<longleftrightarrow> int (in_flight_on a run) < c)"
proof -
  have "flight_inv c (g, run)"
    using flight_inv_steps [OF assms(2)] new_shared_inv [OF assms(1)] by simp
  then have inv: "shared_good g" "sg_ceiling g = c" "in_flight_on a run = length (shared_held a g)"
    using in_flight_held [of run a g] by (auto simp: flight_inv_def shared_good_def)
  then show ?thesis
    using shared_tryAcquire_eq [of a h g] by (auto simp: shared_good_def)
qed

theorem governor_ceiling_witness:
  "\<not> fst (shared_tryAcquire ''a'' ''h2'' \<lparr>sg_ceiling = 1, sg_slots = [(''a'', [''h1''])]\<rparr>)"
proof -
  have "gov_step (\<lparr>sg_ceiling = 1, sg_slots = []\<rparr>, [])
      (\<lparr>sg_ceiling = 1, sg_slots = [(''a'', [''h1''])]\<rparr>, [(''a'', ''h1'')])"
    by (rule granted) (simp_all add: shared_tryAcquire_def bucket_def)
  then have "gov_step\<^sup>*\<^sup>* (\<lparr>sg_ceiling = 1, sg_slots = []\<rparr>, [])
      (\<lparr>sg_ceiling = 1, sg_slots = [(''a'', [''h1''])]\<rparr>, [(''a'', ''h1'')])" ..
  then show ?thesis
    using governor_ceiling [of 1 "\<lparr>sg_ceiling = 1, sg_slots = []\<rparr>"
        "\<lparr>sg_ceiling = 1, sg_slots = [(''a'', [''h1''])]\<rparr>" "[(''a'', ''h1'')]" "''a''" "''h2''"]
    by (simp add: new_shared_governor_def in_flight_on_def)
qed

text \<open>
  C34: waiting for a slot always ends. When every sleep lasts at least the (positive) poll interval
  and the timeout is at most \<open>fuel\<close> intervals, \<open>acquireSlot\<close> on the shared store returns: either
  the holder occupies a slot of its account, or the deadline has passed, the account is at its
  ceiling and the error is the timeout message. Other workers may do anything to the store while
  this one sleeps as long as they keep its invariant.
\<close>

theorem acquireSlot_ends:
  assumes "0 < poll_interval cfg" and "shared_good (snd w)"
    and "\<And>k v. poll_interval cfg \<le> fst (sleep (poll_interval cfg) k v) - fst v"
    and "\<And>k v. shared_good (snd v) \<Longrightarrow> shared_good (snd (sleep (poll_interval cfg) k v))"
    and "acquire_timeout cfg \<le> int fuel * poll_interval cfg"
  shows "\<exists>r w'. acquireSlot shared_ops sleep fuel a h cfg w = Some (r, w')
    \<and> (case r of Inr _ \<Rightarrow> h \<in> set (shared_held a (snd w'))
        | Inl e \<Rightarrow> e = timeout_error a (acquire_timeout cfg)
            \<and> fst w + acquire_timeout cfg \<le> fst w'
            \<and> sg_ceiling (snd w') \<le> int (length (shared_held a (snd w'))))"
  using shared.loop_ends [of "poll_interval cfg" "sleep (poll_interval cfg)" "snd w"
      "fst w + acquire_timeout cfg" "fst w" fuel a h "acquire_timeout cfg" 0] assms
  by (fastforce simp: acquireSlot_def)

theorem acquireSlot_ends_witness:
  "\<exists>r w'. acquireSlot shared_ops (\<lambda>p k v. (fst v + p, snd v)) 2 ''a'' ''h''
     \<lparr>perAccountCeiling = 1, pollIntervalMs = Some 5, acquireTimeoutMs = Some 10\<rparr>
     (0, \<lparr>sg_ceiling = 1, sg_slots = [(''a'', [''other''])]\<rparr>) = Some (r, w')"
proof -
  let ?cfg = "\<lparr>perAccountCeiling = 1, pollIntervalMs = Some 5, acquireTimeoutMs = Some 10\<rparr>"
  let ?w = "(0 :: int, \<lparr>sg_ceiling = 1, sg_slots = [(''a'', [''other''])]\<rparr>)"
  have good: "shared_good (snd ?w)"
    by (simp add: shared_good_def shared_held_def)
  have "\<exists>r w'. acquireSlot shared_ops (\<lambda>p k v. (fst v + p, snd v)) 2 ''a'' ''h'' ?cfg ?w = Some (r, w')
    \<and> (case r of Inr _ \<Rightarrow> ''h'' \<in> set (shared_held ''a'' (snd w'))
        | Inl e \<Rightarrow> e = timeout_error ''a'' (acquire_timeout ?cfg)
            \<and> fst ?w + acquire_timeout ?cfg \<le> fst w'
            \<and> sg_ceiling (snd w') \<le> int (length (shared_held ''a'' (snd w'))))"
    by (rule acquireSlot_ends [OF _ good]) (simp_all add: poll_interval_def acquire_timeout_def)
  then show ?thesis by blast
qed

text \<open>
  The middleware gives its slot back on every way out. Whether the request returns or throws,
  once \<open>governorMiddleware\<close> is done the holder is in no slot of the account (unless the outcome is
  the timeout error, where it never had one).
\<close>

theorem governorMiddleware_frees:
  assumes "0 < poll_interval cfg" and "shared_good (snd w)"
    and "\<And>i k v. poll_interval cfg \<le> fst (sleep i k v) - fst v"
    and "\<And>i k v. shared_good (snd v) \<Longrightarrow> shared_good (snd (sleep i k v))"
    and "\<And>m v. shared_good (snd v) \<Longrightarrow> shared_good (snd (snd (next m v)))"
    and "acquire_timeout cfg \<le> int fuel * poll_interval cfg"
    and "governorMiddleware shared_ops sleep fuel a cfg h metadata next w = Some (r, w')"
    and "\<forall>t. r \<noteq> Inl (timeout_error a t)"
  shows "h \<notin> set (shared_held a (snd w'))"
proof -
  have "wp (next m) (\<lambda>_ w. shared_good (snd w)) (\<lambda>_ w. shared_good (snd w)) v"
    if "shared_good (snd v)" for m v
    using assms(5) [OF that, of m] by (intro wpI) simp_all
  then show ?thesis
    using shared.middleware_frees [of w sleep "next" cfg fuel a h metadata r w'] assms by blast
qed

theorem governorMiddleware_frees_witness:
  "\<exists>r w'. governorMiddleware shared_ops (\<lambda>p k v. (fst v + 5, snd v)) 2 ''a''
       \<lparr>perAccountCeiling = 1, pollIntervalMs = Some 5, acquireTimeoutMs = Some 10\<rparr> ''h'' []
       (\<lambda>m. (throw (NonError ''boom'') :: (int \<times> shared_governor, unit) io))
       (0, \<lparr>sg_ceiling = 1, sg_slots = []\<rparr>) = Some (r, w')
     \<and> ''h'' \<notin> set (shared_held ''a'' (snd w'))"
proof -
  let ?cfg = "\<lparr>perAccountCeiling = 1, pollIntervalMs = Some 5, acquireTimeoutMs = Some 10\<rparr>"
  let ?w = "(0 :: int, \<lparr>sg_ceiling = 1, sg_slots = []\<rparr>)"
  let ?n = "\<lambda>m. (throw (NonError ''boom'') :: (int \<times> shared_governor, unit) io)"
  have run: "\<exists>w'. governorMiddleware shared_ops (\<lambda>p k v. (fst v + 5, snd v)) 2 ''a'' ?cfg ''h'' [] ?n ?w
      = Some (Inl (NonError ''boom''), w')"
    by (simp add: governorMiddleware_def acquireSlot_def shared_ops_def shared_tryAcquire_def
        bucket_def try_finally_def)
  then obtain w' where w': "governorMiddleware shared_ops (\<lambda>p k v. (fst v + 5, snd v)) 2 ''a'' ?cfg ''h'' [] ?n ?w
      = Some (Inl (NonError ''boom''), w')" ..
  have "''h'' \<notin> set (shared_held ''a'' (snd w'))"
    by (rule governorMiddleware_frees [OF _ _ _ _ _ _ w'])
      (auto simp: poll_interval_def acquire_timeout_def shared_good_def shared_held_def timeout_error_def)
  with w' show ?thesis by blast
qed

section \<open>The per-process trap\<close>

text \<open>Requests that ask one process's own store, one after the other.\<close>

fun process_burst :: "string \<Rightarrow> string list \<Rightarrow> process_governor \<Rightarrow> nat \<times> process_governor" where
  "process_burst a [] g = (0, g)"
| "process_burst a (h # hs) g = (case process_tryAcquire a h g of (got, g') \<Rightarrow>
     (case process_burst a hs g' of (n, g'') \<Rightarrow> ((if got then Suc n else n), g'')))"

lemma process_burst_grants:
  assumes "distinct (hs @ pp_slots g)" and "int (length hs + length (pp_slots g)) \<le> pp_ceiling g"
  shows "fst (process_burst a hs g) = length hs"
  using assms
proof (induction hs arbitrary: g)
  case (Cons h hs)
  let ?g = "g\<lparr>pp_slots := List.insert h (pp_slots g)\<rparr>"
  have "process_tryAcquire a h g = (True, ?g)"
    using Cons.prems by (auto simp: process_tryAcquire_def)
  moreover have "fst (process_burst a hs ?g) = length hs"
    using Cons.prems by (intro Cons.IH) (auto simp: List.insert_def)
  ultimately show ?case by (simp add: split_beta)
qed simp

text \<open>
  The trap the governor's documentation warns about. With one \<open>PerProcessGovernorStore\<close> in
  each of the processes, a burst that gives every process as many distinct requests as the ceiling
  lets all of them in: together they hold (number of processes) times the ceiling on one account.
\<close>

theorem per_process_trap:
  assumes "new_process_governor (int c) = Inr g" and "\<forall>hs \<in> set bursts. distinct hs \<and> length hs = c"
  shows "(\<Sum>hs \<leftarrow> bursts. fst (process_burst a hs g)) = length bursts * c"
  using assms
  by (induction bursts)
    (auto simp: new_process_governor_def process_burst_grants split: if_splits)

theorem per_process_trap_witness:
  "(\<Sum>hs \<leftarrow> [[''h1'', ''h2''], [''k1'', ''k2'']].
     fst (process_burst ''acct'' hs \<lparr>pp_ceiling = 2, pp_slots = []\<rparr>)) = 4"
  using per_process_trap [of 2 "\<lparr>pp_ceiling = 2, pp_slots = []\<rparr>" "[[''h1'', ''h2''], [''k1'', ''k2'']]" "''acct''"]
  by (simp add: new_process_governor_def)

end
