(* ===== verification/CoreTypes.thy ===== *)
theory CoreTypes
  imports JsValue
begin

text \<open>
  The shared data of \<open>packages/core/src\<close>: environments (\<open>env.ts\<close>), entity and connection types
  (\<open>types.ts\<close>), error classes (\<open>errors/error-class.ts\<close>), the dedup key (\<open>id/dedup-key.ts\<close>), the
  Service Bus message and its session key (\<open>apps/functions/src/messages.ts\<close>) and the connections
  repository (\<open>connections/connections-repo.ts\<close>).
\<close>

section \<open>Environments and types\<close>

text \<open>\<open>Environment\<close> is a union of three literals; a message carries an unchecked string.\<close>

type_synonym environment = string

definition ENVIRONMENTS :: "environment list" where
  "ENVIRONMENTS = [''dev'', ''sandbox'', ''prod'']"

fun isEnvironment :: "jsval \<Rightarrow> bool" where
  "isEnvironment (JStr s) = (s \<in> set ENVIRONMENTS)"
| "isEnvironment _ = False"

datatype entity_type = Order | Customer | Refund | Cancellation | Fulfillment | Item

fun entity_str :: "entity_type \<Rightarrow> string" where
  "entity_str Order = ''order''"
| "entity_str Customer = ''customer''"
| "entity_str Refund = ''refund''"
| "entity_str Cancellation = ''cancellation''"
| "entity_str Fulfillment = ''fulfillment''"
| "entity_str Item = ''item''"

datatype system = Shopify | Netsuite

fun system_str :: "system \<Rightarrow> string" where
  "system_str Shopify = ''shopify''"
| "system_str Netsuite = ''netsuite''"

datatype tax_engine = Suitetax | Legacy
datatype order_target = SalesOrder | CashSale

record connection =
  connectionId :: string
  cn_environment :: environment
  shopifyStore :: string
  shopifyAppTokenRef :: string
  shopifyWebhookSecretRef :: string
  nsAccountId :: string
  nsSubsidiary :: string
  nsLocation :: "string option"
  baseCurrency :: string
  taxEngine :: tax_engine
  orderTarget :: order_target
  mapVersion :: string
  enabled :: bool
  extraOrderHeaderMappings :: "jsval list option"
  defaultShipItemId :: "string option"
  defaultItemId :: "string option"
  defaultDiscountItemId :: "string option"
  writeTagsOnImport :: "bool option"
  shopifyAddressIdField :: "string option"

section \<open>Error classes\<close>

datatype error_class = Transient | Data | Auth | UnmappedConstruct | Unknown

fun error_class_str :: "error_class \<Rightarrow> string" where
  "error_class_str Transient = ''transient''"
| "error_class_str Data = ''data''"
| "error_class_str Auth = ''auth''"
| "error_class_str UnmappedConstruct = ''unmapped_construct''"
| "error_class_str Unknown = ''unknown''"

definition RETRYABLE_CLASSES :: "error_class list" where
  "RETRYABLE_CLASSES = [Transient]"

definition isRetryable :: "error_class \<Rightarrow> bool" where
  "isRetryable cls \<longleftrightarrow> cls \<in> set RETRYABLE_CLASSES"

section \<open>The dedup key\<close>

record dedup_parts =
  dp_environment :: environment
  dp_connectionId :: string
  dp_entityType :: entity_type
  dp_sourceSystem :: system
  dp_sourceId :: string

definition dedup_values :: "dedup_parts \<Rightarrow> string list" where
  "dedup_values p = [dp_environment p, dp_connectionId p, entity_str (dp_entityType p),
     system_str (dp_sourceSystem p), dp_sourceId p]"

definition parts_json :: "dedup_parts \<Rightarrow> string" where
  "parts_json p = json (JObj [(''environment'', JStr (dp_environment p)),
     (''connectionId'', JStr (dp_connectionId p)), (''entityType'', JStr (entity_str (dp_entityType p))),
     (''sourceSystem'', JStr (system_str (dp_sourceSystem p))), (''sourceId'', JStr (dp_sourceId p))])"

text \<open>
  The check of one component, in the order of the source's loop body. The message quotes the five
  parts (where the caller passes an object with more fields, the source's text shows those too).
\<close>

definition dedup_component_error :: "dedup_parts \<Rightarrow> string \<Rightarrow> js_error option" where
  "dedup_component_error p v =
     (if v = [] then Some (plain_error (''dedupKey: empty/non-string component: '' @ parts_json p))
      else if CHR ''|'' \<in> set v
        then Some (plain_error (''dedupKey: component contains reserved separator '' @ quoted ''|'' @ '': '' @ v))
      else None)"

fun first_error :: "('a \<Rightarrow> 'e option) \<Rightarrow> 'a list \<Rightarrow> 'e option" where
  "first_error f [] = None"
| "first_error f (x # xs) = (case f x of Some e \<Rightarrow> Some e | None \<Rightarrow> first_error f xs)"

definition dedupKey :: "dedup_parts \<Rightarrow> js_error + string" where
  "dedupKey p = (case first_error (dedup_component_error p) (dedup_values p) of
     Some e \<Rightarrow> Inl e
   | None \<Rightarrow> Inr (join ''|'' (dedup_values p)))"

section \<open>Messages\<close>

datatype delivery_source = FromWebhook | FromCatchup | FromReplay

record order_message =
  om_environment :: environment
  om_connectionId :: string
  om_shopDomain :: string
  om_topic :: string
  om_orderGid :: string
  om_envelopeBlobUri :: string
  om_receivedAt :: string
  om_source :: "delivery_source option"

definition sessionKeyFor :: "string \<Rightarrow> string \<Rightarrow> string" where
  "sessionKeyFor cid gid = cid @ '':'' @ gid"

section \<open>The connections repository\<close>

record connections_repo =
  cr_byShop :: "(string \<times> connection) list"
  cr_byId :: "(string \<times> connection) list"
  cr_all :: "connection list"

definition shopKeyFor :: "environment \<Rightarrow> string \<Rightarrow> string" where
  "shopKeyFor env shop = env @ ''|'' @ to_lower shop"

definition idKeyFor :: "environment \<Rightarrow> string \<Rightarrow> string" where
  "idKeyFor env cid = env @ ''|'' @ cid"

fun add_connections ::
  "connection list \<Rightarrow> (string \<times> connection) list \<Rightarrow> (string \<times> connection) list
   \<Rightarrow> js_error + ((string \<times> connection) list \<times> (string \<times> connection) list)" where
  "add_connections [] byShop byId = Inr (byShop, byId)"
| "add_connections (c # cs) byShop byId =
     (let shopKey = shopKeyFor (cn_environment c) (shopifyStore c);
          idKey = idKeyFor (cn_environment c) (connectionId c)
      in if map_of byShop shopKey \<noteq> None
         then Inl (plain_error (''InMemoryConnectionsRepo: duplicate shop '' @ quoted (shopifyStore c)
                @ '' in environment '' @ quoted (cn_environment c)))
         else if map_of byId idKey \<noteq> None
         then Inl (plain_error (''InMemoryConnectionsRepo: duplicate connection_id '' @ quoted (connectionId c)
                @ '' in environment '' @ quoted (cn_environment c)))
         else add_connections cs (AList.update shopKey c byShop) (AList.update idKey c byId))"

definition new_connections_repo :: "connection list \<Rightarrow> js_error + connections_repo" where
  "new_connections_repo seed = (case add_connections seed [] [] of
     Inl e \<Rightarrow> Inl e
   | Inr (byShop, byId) \<Rightarrow> Inr \<lparr>cr_byShop = byShop, cr_byId = byId, cr_all = seed\<rparr>)"

definition findByShopDomain :: "connections_repo \<Rightarrow> environment \<Rightarrow> string \<Rightarrow> connection option" where
  "findByShopDomain r env shop = map_of (cr_byShop r) (shopKeyFor env shop)"

definition findById :: "connections_repo \<Rightarrow> environment \<Rightarrow> string \<Rightarrow> connection option" where
  "findById r env cid = map_of (cr_byId r) (idKeyFor env cid)"

definition listEnabled :: "connections_repo \<Rightarrow> environment \<Rightarrow> connection list" where
  "listEnabled r env = filter (\<lambda>c. cn_environment c = env \<and> enabled c) (cr_all r)"

section \<open>Configuration\<close>

text \<open>
  \<open>coerceConnection\<close>: from one parsed JSON value to a connection, or the first complaint. The
  object literal evaluates its \<open>required\<close> calls in field order.
\<close>

definition config_error :: "nat \<Rightarrow> string \<Rightarrow> js_error" where
  "config_error idx msg = plain_error (''parseConnectionsConfig['' @ show_nat idx @ '']: '' @ msg)"

definition required_str :: "nat \<Rightarrow> jsval \<Rightarrow> string \<Rightarrow> js_error + string" where
  "required_str idx v k = (case get_prop v k of
     JStr s \<Rightarrow> (if s = [] then Inl (config_error idx (''missing/empty string field '' @ quoted k)) else Inr s)
   | _ \<Rightarrow> Inl (config_error idx (''missing/empty string field '' @ quoted k)))"

fun required_all :: "nat \<Rightarrow> jsval \<Rightarrow> string list \<Rightarrow> js_error + string list" where
  "required_all idx v [] = Inr []"
| "required_all idx v (k # ks) = (case required_str idx v k of
     Inl e \<Rightarrow> Inl e
   | Inr s \<Rightarrow> (case required_all idx v ks of Inl e \<Rightarrow> Inl e | Inr ss \<Rightarrow> Inr (s # ss)))"

definition opt_string :: "jsval \<Rightarrow> string option" where
  "opt_string v = (if nullish v then None else Some (to_str v))"

definition opt_bool :: "jsval \<Rightarrow> bool option" where
  "opt_bool v = (if nullish v then None else Some (truthy v))"

definition coerceConnection :: "nat \<Rightarrow> jsval \<Rightarrow> js_error + connection" where
  "coerceConnection idx v =
     (if \<not> is_obj v then Inl (config_error idx (''expected object, got '' @ js_typeof v))
      else if \<not> isEnvironment (get_prop v ''environment'')
        then Inl (config_error idx (''invalid environment '' @ quoted (to_str (get_prop v ''environment''))))
      else if get_prop v ''taxEngine'' \<notin> {JStr ''suitetax'', JStr ''legacy''}
        then Inl (config_error idx (''invalid taxEngine '' @ quoted (to_str (get_prop v ''taxEngine''))))
      else if get_prop v ''orderTarget'' \<notin> {JStr ''sales_order'', JStr ''cash_sale''}
        then Inl (config_error idx (''invalid orderTarget '' @ quoted (to_str (get_prop v ''orderTarget''))))
      else
        (let enabledRaw = get_prop v ''enabled'';
             extrasRaw = get_prop v ''extraOrderHeaderMappings''
         in case (if nullish extrasRaw then Inr None
                  else (case extrasRaw of JArr xs \<Rightarrow> Inr (Some xs)
                    | _ \<Rightarrow> Inl (config_error idx ''extraOrderHeaderMappings must be an array if provided''))) of
              Inl e \<Rightarrow> Inl e
            | Inr extras \<Rightarrow>
              (case required_all idx v [''connectionId'', ''shopifyStore'', ''shopifyAppTokenRef'',
                       ''shopifyWebhookSecretRef'', ''nsAccountId'', ''nsSubsidiary'', ''baseCurrency'',
                       ''mapVersion''] of
                 Inl e \<Rightarrow> Inl e
               | Inr fs \<Rightarrow> Inr
                  \<lparr>connectionId = fs ! 0, cn_environment = to_str (get_prop v ''environment''),
                   shopifyStore = fs ! 1, shopifyAppTokenRef = fs ! 2, shopifyWebhookSecretRef = fs ! 3,
                   nsAccountId = fs ! 4, nsSubsidiary = fs ! 5,
                   nsLocation = opt_string (get_prop v ''nsLocation''), baseCurrency = fs ! 6,
                   taxEngine = (if get_prop v ''taxEngine'' = JStr ''suitetax'' then Suitetax else Legacy),
                   orderTarget = (if get_prop v ''orderTarget'' = JStr ''sales_order'' then SalesOrder else CashSale),
                   mapVersion = fs ! 7,
                   enabled = (if enabledRaw = JUndef then True else truthy enabledRaw),
                   extraOrderHeaderMappings = extras,
                   defaultShipItemId = opt_string (get_prop v ''defaultShipItemId''),
                   defaultItemId = opt_string (get_prop v ''defaultItemId''),
                   defaultDiscountItemId = opt_string (get_prop v ''defaultDiscountItemId''),
                   writeTagsOnImport = opt_bool (get_prop v ''writeTagsOnImport''),
                   shopifyAddressIdField = opt_string (get_prop v ''shopifyAddressIdField'')\<rparr>)))"

fun coerce_all :: "nat \<Rightarrow> jsval list \<Rightarrow> js_error + connection list" where
  "coerce_all idx [] = Inr []"
| "coerce_all idx (v # vs) = (case coerceConnection idx v of
     Inl e \<Rightarrow> Inl e
   | Inr c \<Rightarrow> (case coerce_all (Suc idx) vs of Inl e \<Rightarrow> Inl e | Inr cs \<Rightarrow> Inr (c # cs)))"

text \<open>The part of \<open>parseConnectionsConfig\<close> after \<open>JSON.parse\<close> succeeded.\<close>

definition parseConnectionsValue :: "jsval \<Rightarrow> js_error + connection list" where
  "parseConnectionsValue v = (case v of
     JArr xs \<Rightarrow> coerce_all 0 xs
   | _ \<Rightarrow> Inl (plain_error ''parseConnectionsConfig: expected a JSON array of connections''))"

section \<open>Facts\<close>

lemma entity_str_inject [simp]: "entity_str a = entity_str b \<longleftrightarrow> a = b"
  by (cases a; cases b) auto

lemma system_str_inject [simp]: "system_str a = system_str b \<longleftrightarrow> a = b"
  by (cases a; cases b) auto

lemma first_error_None: "first_error f xs = None \<longleftrightarrow> (\<forall>x \<in> set xs. f x = None)"
  by (induction xs) (auto split: option.splits)

lemma dedup_component_ok: "dedup_component_error p v = None \<longleftrightarrow> v \<noteq> [] \<and> CHR ''|'' \<notin> set v"
  by (simp add: dedup_component_error_def)

lemma dedupKey_Inr_iff:
  "dedupKey p = Inr k \<longleftrightarrow>
     (\<forall>v \<in> set (dedup_values p). v \<noteq> [] \<and> CHR ''|'' \<notin> set v) \<and> k = join ''|'' (dedup_values p)"
proof (cases "first_error (dedup_component_error p) (dedup_values p)")
  case None
  then show ?thesis
    using first_error_None [of "dedup_component_error p" "dedup_values p"]
    by (auto simp: dedupKey_def dedup_component_ok)
next
  case (Some e)
  then have "\<exists>v \<in> set (dedup_values p). dedup_component_error p v \<noteq> None"
    using first_error_None [of "dedup_component_error p" "dedup_values p"] by auto
  with Some show ?thesis by (auto simp: dedupKey_def dedup_component_ok)
qed

lemma dedup_values_inject: "dedup_values p = dedup_values q \<longleftrightarrow> p = q"
  by (cases p; cases q) (auto simp: dedup_values_def)

lemma dedup_values_nonempty [simp]: "dedup_values p \<noteq> []"
  by (simp add: dedup_values_def)

lemma dedupKey_inj:
  assumes "dedupKey p = Inr k" and "dedupKey q = Inr k"
  shows "p = q"
proof -
  have "join ''|'' (dedup_values p) = join ''|'' (dedup_values q)"
    using assms by (auto simp: dedupKey_Inr_iff)
  then have "dedup_values p = dedup_values q"
    using assms by (intro join_inject [of "CHR ''|''"]) (auto simp: dedupKey_Inr_iff)
  then show ?thesis by (simp add: dedup_values_inject)
qed

end
