(* ===== verification/XrefStore.thy ===== *)
theory XrefStore
  imports CoreTypes
begin

text \<open>
  The cross-reference ledger: \<open>packages/core/src/xref/xref-store.ts\<close> (the interface and the
  in-memory store) and \<open>apps/functions/src/adapters/postgres-xref-store.ts\<close> (the SQL store).
  Both are state-passing models of their own data; an abstract ledger, a map from dedup keys to
  rows, says what they promise, and the locale \<open>xref_store\<close> is that promise. The in-memory
  store serialises the operations on a key by a promise chain and each SQL statement is atomic, so
  an operation is one step; \<open>PostgresXrefStore.claim\<close> is two statements and its interleavings are
  treated at the end.
\<close>

section \<open>Rows, inputs and results\<close>

datatype xref_status = Pending | Synced | Errored | Ignored

fun xref_status_str :: "xref_status \<Rightarrow> string" where
  "xref_status_str Pending = ''pending''"
| "xref_status_str Synced = ''synced''"
| "xref_status_str Errored = ''error''"
| "xref_status_str Ignored = ''ignored''"

record xref_row =
  xr_parts :: dedup_parts
  xr_targetSystem :: system
  xr_targetId :: "string option"
  xr_targetExternal :: string
  xr_sourceHash :: "string option"
  xr_status :: xref_status
  xr_lastSyncedAt :: "int option"

record claim_input =
  ci_parts :: dedup_parts
  ci_targetSystem :: system
  ci_targetExternal :: string
  ci_sourceHash :: "string option"

datatype claim_result =
    Claimed xref_row
  | AlreadyClaimed xref_row
  | AlreadySynced xref_row
  | ClaimIgnored xref_row

fun is_claimed :: "claim_result \<Rightarrow> bool" where
  "is_claimed (Claimed _) = True"
| "is_claimed _ = False"

text \<open>The \<open>switch (existing.status)\<close> both stores share.\<close>

fun existing_outcome :: "xref_row \<Rightarrow> claim_result" where
  "existing_outcome r = (case xr_status r of
     Synced \<Rightarrow> AlreadySynced r
   | Ignored \<Rightarrow> ClaimIgnored r
   | Pending \<Rightarrow> AlreadyClaimed r
   | Errored \<Rightarrow> AlreadyClaimed r)"

definition claim_row :: "claim_input \<Rightarrow> xref_row" where
  "claim_row i = \<lparr>xr_parts = ci_parts i, xr_targetSystem = ci_targetSystem i, xr_targetId = None,
     xr_targetExternal = ci_targetExternal i, xr_sourceHash = ci_sourceHash i,
     xr_status = Pending, xr_lastSyncedAt = None\<rparr>"

definition ignored_row :: "dedup_parts \<Rightarrow> xref_row" where
  "ignored_row p = \<lparr>xr_parts = p, xr_targetSystem = Netsuite, xr_targetId = None,
     xr_targetExternal = '''', xr_sourceHash = None, xr_status = Ignored, xr_lastSyncedAt = None\<rparr>"

definition synced_row :: "int \<Rightarrow> string \<Rightarrow> string \<Rightarrow> xref_row \<Rightarrow> xref_row" where
  "synced_row now tid ext r = r\<lparr>xr_targetId := Some tid, xr_targetExternal := ext,
     xr_status := Synced, xr_lastSyncedAt := Some now\<rparr>"

definition failed_row :: "string option \<Rightarrow> xref_row \<Rightarrow> xref_row" where
  "failed_row hash r = r\<lparr>xr_status := Errored,
     xr_sourceHash := (case hash of None \<Rightarrow> xr_sourceHash r | Some h \<Rightarrow> Some h)\<rparr>"

text \<open>The operations of \<open>XrefStore\<close> over a world; \<open>recordSuccess\<close> reads the clock through its argument.\<close>

record 'w xref_ops =
  xo_claim :: "claim_input \<Rightarrow> ('w, claim_result) io"
  xo_recordSuccess :: "int \<Rightarrow> dedup_parts \<Rightarrow> string \<Rightarrow> string \<Rightarrow> ('w, xref_row) io"
  xo_recordFailure :: "dedup_parts \<Rightarrow> string option \<Rightarrow> ('w, xref_row) io"
  xo_markIgnored :: "dedup_parts \<Rightarrow> ('w, xref_row) io"
  xo_lookup :: "dedup_parts \<Rightarrow> ('w, xref_row option) io"
  xo_delete :: "dedup_parts \<Rightarrow> ('w, xref_row option) io"

section \<open>The in-memory store\<close>

type_synonym mem_xref = "(string \<times> xref_row) list"

definition mem_claim :: "claim_input \<Rightarrow> (mem_xref, claim_result) io" where
  "mem_claim i = bnd (lift_sum (dedupKey (ci_parts i))) (\<lambda>key.
     (\<lambda>rows. case map_of rows key of
        Some existing \<Rightarrow> (Inr (existing_outcome existing), rows)
      | None \<Rightarrow> (Inr (Claimed (claim_row i)), AList.update key (claim_row i) rows)))"

definition mem_update ::
  "string \<Rightarrow> (xref_row \<Rightarrow> xref_row) \<Rightarrow> dedup_parts \<Rightarrow> (mem_xref, xref_row) io" where
  "mem_update verb f p = bnd (lift_sum (dedupKey p)) (\<lambda>key.
     (\<lambda>rows. case map_of rows key of
        None \<Rightarrow> (Inl (plain_error (''InMemoryXrefStore: cannot record '' @ verb @ '' for unclaimed key '' @ key)), rows)
      | Some existing \<Rightarrow> (Inr (f existing), AList.update key (f existing) rows)))"

definition mem_recordSuccess :: "int \<Rightarrow> dedup_parts \<Rightarrow> string \<Rightarrow> string \<Rightarrow> (mem_xref, xref_row) io" where
  "mem_recordSuccess now p tid ext = mem_update ''success'' (synced_row now tid ext) p"

definition mem_recordFailure :: "dedup_parts \<Rightarrow> string option \<Rightarrow> (mem_xref, xref_row) io" where
  "mem_recordFailure p hash = mem_update ''failure'' (failed_row hash) p"

definition mem_markIgnored :: "dedup_parts \<Rightarrow> (mem_xref, xref_row) io" where
  "mem_markIgnored p = bnd (lift_sum (dedupKey p)) (\<lambda>key.
     (\<lambda>rows. let row = (case map_of rows key of
                 Some existing \<Rightarrow> existing\<lparr>xr_status := Ignored\<rparr>
               | None \<Rightarrow> ignored_row p)
             in (Inr row, AList.update key row rows)))"

definition mem_lookup :: "dedup_parts \<Rightarrow> (mem_xref, xref_row option) io" where
  "mem_lookup p = bnd (lift_sum (dedupKey p)) (\<lambda>key. read_st (\<lambda>rows. map_of rows key))"

definition mem_delete :: "dedup_parts \<Rightarrow> (mem_xref, xref_row option) io" where
  "mem_delete p = bnd (lift_sum (dedupKey p)) (\<lambda>key.
     (\<lambda>rows. (Inr (map_of rows key), AList.delete key rows)))"

definition mem_xref_ops :: "mem_xref xref_ops" where
  "mem_xref_ops = \<lparr>xo_claim = mem_claim, xo_recordSuccess = mem_recordSuccess,
     xo_recordFailure = mem_recordFailure, xo_markIgnored = mem_markIgnored,
     xo_lookup = mem_lookup, xo_delete = mem_delete\<rparr>"

section \<open>The Postgres store\<close>

text \<open>
  The table \<open>entity_xref\<close> as its rows; the primary key is the five columns of the dedup key. The
  statements: \<open>INSERT .. ON CONFLICT DO NOTHING RETURNING\<close>, \<open>UPDATE .. WHERE key RETURNING\<close>,
  \<open>SELECT .. LIMIT 1\<close> and \<open>DELETE .. RETURNING\<close>.
\<close>

type_synonym pg_xref = "xref_row list"

definition pg_fetch :: "dedup_parts \<Rightarrow> pg_xref \<Rightarrow> xref_row option" where
  "pg_fetch p t = find (\<lambda>r. xr_parts r = p) t"

definition pg_insert :: "xref_row \<Rightarrow> pg_xref \<Rightarrow> xref_row option \<times> pg_xref" where
  "pg_insert r t = (if pg_fetch (xr_parts r) t = None then (Some r, t @ [r]) else (None, t))"

definition pg_set :: "dedup_parts \<Rightarrow> (xref_row \<Rightarrow> xref_row) \<Rightarrow> pg_xref \<Rightarrow> pg_xref" where
  "pg_set p f t = map (\<lambda>r. if xr_parts r = p then f r else r) t"

definition pg_claim_insert :: "claim_input \<Rightarrow> (pg_xref, xref_row option) io" where
  "pg_claim_insert i = (\<lambda>t. case pg_insert (claim_row i) t of (r, t') \<Rightarrow> (Inr r, t'))"

text \<open>What \<open>claim\<close> does after an \<open>INSERT\<close> that hit a conflict.\<close>

definition pg_claim_read :: "claim_input \<Rightarrow> (pg_xref, claim_result) io" where
  "pg_claim_read i = (\<lambda>t. case pg_fetch (ci_parts i) t of
     Some existing \<Rightarrow> (Inr (existing_outcome existing), t)
   | None \<Rightarrow> (case dedupKey (ci_parts i) of
        Inl e \<Rightarrow> (Inl e, t)
      | Inr key \<Rightarrow> (Inl (plain_error (''PostgresXrefStore.claim: row missing after ON CONFLICT for key '' @ key)), t)))"

definition pg_claim :: "claim_input \<Rightarrow> (pg_xref, claim_result) io" where
  "pg_claim i = bnd (pg_claim_insert i) (\<lambda>r. case r of
     Some row \<Rightarrow> ret (Claimed row)
   | None \<Rightarrow> pg_claim_read i)"

definition pg_update ::
  "string \<Rightarrow> (xref_row \<Rightarrow> xref_row) \<Rightarrow> dedup_parts \<Rightarrow> (pg_xref, xref_row) io" where
  "pg_update verb f p = (\<lambda>t. case pg_fetch p t of
     Some r \<Rightarrow> (Inr (f r), pg_set p f t)
   | None \<Rightarrow> (case dedupKey p of
        Inl e \<Rightarrow> (Inl e, t)
      | Inr key \<Rightarrow> (Inl (plain_error (''PostgresXrefStore.'' @ verb @ '': no xref row for key '' @ key)), t)))"

definition pg_recordSuccess :: "int \<Rightarrow> dedup_parts \<Rightarrow> string \<Rightarrow> string \<Rightarrow> (pg_xref, xref_row) io" where
  "pg_recordSuccess now p tid ext = pg_update ''recordSuccess'' (synced_row now tid ext) p"

definition pg_recordFailure :: "dedup_parts \<Rightarrow> string option \<Rightarrow> (pg_xref, xref_row) io" where
  "pg_recordFailure p hash = pg_update ''recordFailure'' (failed_row hash) p"

definition pg_markIgnored :: "dedup_parts \<Rightarrow> (pg_xref, xref_row) io" where
  "pg_markIgnored p = (\<lambda>t. case pg_fetch p t of
     None \<Rightarrow> (Inr (ignored_row p), t @ [ignored_row p])
   | Some r \<Rightarrow> (Inr (r\<lparr>xr_status := Ignored\<rparr>), pg_set p (\<lambda>r. r\<lparr>xr_status := Ignored\<rparr>) t))"

definition pg_lookup :: "dedup_parts \<Rightarrow> (pg_xref, xref_row option) io" where
  "pg_lookup p = read_st (pg_fetch p)"

definition pg_delete :: "dedup_parts \<Rightarrow> (pg_xref, xref_row option) io" where
  "pg_delete p = (\<lambda>t. (Inr (pg_fetch p t), filter (\<lambda>r. xr_parts r \<noteq> p) t))"

definition pg_xref_ops :: "pg_xref xref_ops" where
  "pg_xref_ops = \<lparr>xo_claim = pg_claim, xo_recordSuccess = pg_recordSuccess,
     xo_recordFailure = pg_recordFailure, xo_markIgnored = pg_markIgnored,
     xo_lookup = pg_lookup, xo_delete = pg_delete\<rparr>"

section \<open>The abstract ledger\<close>

type_synonym ledger = "dedup_parts \<Rightarrow> xref_row option"

definition spec_claim :: "claim_input \<Rightarrow> ledger \<Rightarrow> claim_result \<times> ledger" where
  "spec_claim i m = (case m (ci_parts i) of
     Some r \<Rightarrow> (existing_outcome r, m)
   | None \<Rightarrow> (Claimed (claim_row i), m(ci_parts i \<mapsto> claim_row i)))"

definition spec_update :: "(xref_row \<Rightarrow> xref_row) \<Rightarrow> dedup_parts \<Rightarrow> ledger \<Rightarrow> xref_row option \<times> ledger" where
  "spec_update f p m = (case m p of None \<Rightarrow> (None, m) | Some r \<Rightarrow> (Some (f r), m(p \<mapsto> f r)))"

definition spec_ignore :: "dedup_parts \<Rightarrow> ledger \<Rightarrow> xref_row \<times> ledger" where
  "spec_ignore p m = (let r = (case m p of None \<Rightarrow> ignored_row p | Some r \<Rightarrow> r\<lparr>xr_status := Ignored\<rparr>)
     in (r, m(p \<mapsto> r)))"

text \<open>
  An operation that yields a row or fails agrees with a specification that yields \<open>Some\<close> row or
  \<open>None\<close>; on failure the ledger is untouched.
\<close>

definition row_result :: "js_error + xref_row \<Rightarrow> xref_row option" where
  "row_result r = (case r of Inl _ \<Rightarrow> None | Inr x \<Rightarrow> Some x)"

locale xref_store =
  fixes ops :: "'w xref_ops"
    and ledger_of :: "'w \<Rightarrow> ledger"
    and usable :: "dedup_parts \<Rightarrow> bool"
    and good :: "'w \<Rightarrow> bool"
  assumes claim_law: "good w \<Longrightarrow> usable (ci_parts i) \<Longrightarrow>
      \<exists>w'. xo_claim ops i w = (Inr (fst (spec_claim i (ledger_of w))), w')
         \<and> ledger_of w' = snd (spec_claim i (ledger_of w)) \<and> good w'"
    and success_law: "good w \<Longrightarrow> usable p \<Longrightarrow>
      \<exists>r w'. xo_recordSuccess ops now p tid ext w = (r, w')
         \<and> row_result r = fst (spec_update (synced_row now tid ext) p (ledger_of w))
         \<and> ledger_of w' = snd (spec_update (synced_row now tid ext) p (ledger_of w)) \<and> good w'"
    and failure_law: "good w \<Longrightarrow> usable p \<Longrightarrow>
      \<exists>r w'. xo_recordFailure ops p hash w = (r, w')
         \<and> row_result r = fst (spec_update (failed_row hash) p (ledger_of w))
         \<and> ledger_of w' = snd (spec_update (failed_row hash) p (ledger_of w)) \<and> good w'"
    and ignore_law: "good w \<Longrightarrow> usable p \<Longrightarrow>
      \<exists>w'. xo_markIgnored ops p w = (Inr (fst (spec_ignore p (ledger_of w))), w')
         \<and> ledger_of w' = snd (spec_ignore p (ledger_of w)) \<and> good w'"
    and lookup_law: "good w \<Longrightarrow> usable p \<Longrightarrow> xo_lookup ops p w = (Inr (ledger_of w p), w)"
    and delete_law: "good w \<Longrightarrow> usable p \<Longrightarrow>
      \<exists>w'. xo_delete ops p w = (Inr (ledger_of w p), w')
         \<and> ledger_of w' = (ledger_of w)(p := None) \<and> good w'"
begin

lemma claimed_iff_absent:
  assumes "good w" and "usable (ci_parts i)" and "xo_claim ops i w = (Inr res, w')"
  shows "is_claimed res \<longleftrightarrow> ledger_of w (ci_parts i) = None"
  using claim_law [OF assms(1,2)] assms(3)
  by (auto simp: spec_claim_def split: option.splits xref_status.splits)

lemma claim_occupies:
  assumes "good w" and "usable (ci_parts i)" and "xo_claim ops i w = (Inr res, w')"
  shows "ledger_of w' (ci_parts i) \<noteq> None" and "good w'"
  using claim_law [OF assms(1,2)] assms(3)
  by (auto simp: spec_claim_def split: option.splits)

text \<open>A second claim of the same key, whatever its other fields, is never granted.\<close>

lemma second_claim_refused:
  assumes "good w" and "usable (ci_parts i)"
    and "xo_claim ops i w = (Inr res, w1)"
    and "ci_parts j = ci_parts i" and "xo_claim ops j w1 = (Inr res', w2)"
  shows "\<not> is_claimed res'"
  using claimed_iff_absent [of w1 j res' w2] claim_occupies [OF assms(1-3)] assms by simp

lemma claim_after_success:
  assumes "good w" and "usable (ci_parts i)" and "ledger_of w (ci_parts i) = Some r"
    and "xo_recordSuccess ops now (ci_parts i) tid ext w = (res, w')"
    and "xo_claim ops i w' = (Inr out, w'')"
  shows "out = AlreadySynced (synced_row now tid ext r)"
  using success_law [OF assms(1,2), of now tid ext] claim_law [of w' i] assms
  by (auto simp: spec_update_def spec_claim_def synced_row_def)

lemma claim_after_delete:
  assumes "good w" and "usable (ci_parts i)" and "xo_delete ops (ci_parts i) w = (res, w')"
    and "xo_claim ops i w' = (Inr out, w'')"
  shows "out = Claimed (claim_row i)"
  using delete_law [OF assms(1,2)] claim_law [of w' i] assms
  by (auto simp: spec_claim_def)

end

section \<open>The in-memory store keeps the promise\<close>

text \<open>
  A row is filed under the key of its own parts. Keys that \<open>dedupKey\<close> rejects are not usable; for
  the others two parts never share a key, which is what makes the string-keyed map a ledger.
\<close>

definition mem_usable :: "dedup_parts \<Rightarrow> bool" where
  "mem_usable p \<longleftrightarrow> (\<exists>k. dedupKey p = Inr k)"

definition mem_ledger :: "mem_xref \<Rightarrow> ledger" where
  "mem_ledger rows p = (case dedupKey p of Inl _ \<Rightarrow> None | Inr k \<Rightarrow> map_of rows k)"

lemma mem_ledger_update:
  assumes "dedupKey p = Inr k"
  shows "mem_ledger (AList.update k r rows) = (mem_ledger rows)(p \<mapsto> r)"
proof
  fix q
  show "mem_ledger (AList.update k r rows) q = ((mem_ledger rows)(p \<mapsto> r)) q"
  proof (cases "dedupKey q")
    case (Inr j)
    then have "j = k \<longleftrightarrow> q = p"
      using assms dedupKey_inj [of p k q] by (metis sum.inject(2))
    with Inr show ?thesis by (auto simp: mem_ledger_def map_of_update)
  next
    case (Inl e)
    with assms have "q \<noteq> p" by (metis sum.distinct(1))
    with Inl show ?thesis by (simp add: mem_ledger_def)
  qed
qed

lemma mem_ledger_delete:
  assumes "dedupKey p = Inr k"
  shows "mem_ledger (AList.delete k rows) = (mem_ledger rows)(p := None)"
proof
  fix q
  show "mem_ledger (AList.delete k rows) q = ((mem_ledger rows)(p := None)) q"
  proof (cases "dedupKey q")
    case (Inr j)
    then have "j = k \<longleftrightarrow> q = p"
      using assms dedupKey_inj [of p k q] by (metis sum.inject(2))
    with Inr show ?thesis by (auto simp: mem_ledger_def map_of_delete)
  next
    case (Inl e)
    with assms have "q \<noteq> p" by (metis sum.distinct(1))
    with Inl show ?thesis by (simp add: mem_ledger_def)
  qed
qed

lemma mem_ledger_at: "dedupKey p = Inr k \<Longrightarrow> mem_ledger rows p = map_of rows k"
  by (simp add: mem_ledger_def)

lemma mem_update_spec:
  assumes "mem_usable p"
  shows "\<exists>r w'. mem_update verb f p w = (r, w')
    \<and> row_result r = fst (spec_update f p (mem_ledger w))
    \<and> mem_ledger w' = snd (spec_update f p (mem_ledger w))"
proof -
  from assms obtain k where k: "dedupKey p = Inr k" by (auto simp: mem_usable_def)
  show ?thesis
    by (cases "map_of w k")
      (simp_all add: mem_update_def k bnd_app spec_update_def row_result_def mem_ledger_at
         mem_ledger_update [OF k])
qed

interpretation mem: xref_store mem_xref_ops mem_ledger mem_usable "\<lambda>_. True"
proof
  fix w :: mem_xref and i :: claim_input
  assume "mem_usable (ci_parts i)"
  then obtain k where k: "dedupKey (ci_parts i) = Inr k" by (auto simp: mem_usable_def)
  show "\<exists>w'. xo_claim mem_xref_ops i w = (Inr (fst (spec_claim i (mem_ledger w))), w')
      \<and> mem_ledger w' = snd (spec_claim i (mem_ledger w)) \<and> True"
    by (cases "map_of w k")
      (simp_all add: mem_xref_ops_def mem_claim_def k bnd_app spec_claim_def mem_ledger_at
         mem_ledger_update [OF k])
next
  fix w :: mem_xref and p
  assume "mem_usable p"
  then obtain k where k: "dedupKey p = Inr k" by (auto simp: mem_usable_def)
  show "\<exists>w'. xo_markIgnored mem_xref_ops p w = (Inr (fst (spec_ignore p (mem_ledger w))), w')
      \<and> mem_ledger w' = snd (spec_ignore p (mem_ledger w)) \<and> True"
    by (cases "map_of w k")
      (simp_all add: mem_xref_ops_def mem_markIgnored_def k bnd_app spec_ignore_def mem_ledger_at Let_def
         mem_ledger_update [OF k])
  show "xo_lookup mem_xref_ops p w = (Inr (mem_ledger w p), w)"
    by (simp add: mem_xref_ops_def mem_lookup_def k bnd_app mem_ledger_at)
  show "\<exists>w'. xo_delete mem_xref_ops p w = (Inr (mem_ledger w p), w')
      \<and> mem_ledger w' = (mem_ledger w)(p := None) \<and> True"
    by (simp add: mem_xref_ops_def mem_delete_def k bnd_app mem_ledger_at mem_ledger_delete [OF k])
qed (simp_all add: mem_xref_ops_def mem_recordSuccess_def mem_recordFailure_def mem_update_spec)

section \<open>The Postgres store keeps the promise\<close>

definition pg_good :: "pg_xref \<Rightarrow> bool" where
  "pg_good t \<longleftrightarrow> distinct (map xr_parts t)"

definition pg_ledger :: "pg_xref \<Rightarrow> ledger" where
  "pg_ledger t p = pg_fetch p t"

lemma pg_fetch_Nil [simp]: "pg_fetch p [] = None"
  by (simp add: pg_fetch_def)

lemma pg_fetch_Cons: "pg_fetch p (r # t) = (if xr_parts r = p then Some r else pg_fetch p t)"
  by (simp add: pg_fetch_def)

lemma pg_fetch_parts: "pg_fetch p t = Some r \<Longrightarrow> xr_parts r = p"
  by (auto simp: pg_fetch_def find_Some_iff)

lemma pg_fetch_None_iff: "pg_fetch p t = None \<longleftrightarrow> p \<notin> xr_parts ` set t"
  by (auto simp: pg_fetch_def find_None_iff)

lemma pg_fetch_snoc: "pg_fetch p (t @ [r]) =
    (case pg_fetch p t of Some x \<Rightarrow> Some x | None \<Rightarrow> if xr_parts r = p then Some r else None)"
  by (induction t) (simp_all add: pg_fetch_Cons)

lemma pg_ledger_snoc:
  "pg_fetch (xr_parts r) t = None \<Longrightarrow> pg_ledger (t @ [r]) = (pg_ledger t)(xr_parts r \<mapsto> r)"
  by (auto simp: pg_ledger_def pg_fetch_snoc fun_eq_iff split: option.splits)

lemma pg_good_snoc: "pg_good t \<Longrightarrow> pg_fetch (xr_parts r) t = None \<Longrightarrow> pg_good (t @ [r])"
  by (auto simp: pg_good_def pg_fetch_None_iff)

lemma pg_fetch_set:
  assumes "\<And>r. xr_parts (f r) = xr_parts r"
  shows "pg_fetch q (pg_set p f t) = (if q = p then map_option f (pg_fetch p t) else pg_fetch q t)"
  by (induction t) (auto simp: pg_set_def pg_fetch_Cons assms)

lemma pg_good_set: "(\<And>r. xr_parts (f r) = xr_parts r) \<Longrightarrow> pg_good (pg_set p f t) = pg_good t"
  by (simp add: pg_good_def pg_set_def comp_def if_distrib cong: if_cong)

lemma pg_fetch_filter:
  "pg_fetch q (filter (\<lambda>r. xr_parts r \<noteq> p) t) = (if q = p then None else pg_fetch q t)"
  by (induction t) (auto simp: pg_fetch_Cons)

lemma pg_good_filter: "pg_good t \<Longrightarrow> pg_good (filter P t)"
  by (auto simp: pg_good_def distinct_map_filter)

lemma xr_parts_rows [simp]:
  "xr_parts (claim_row i) = ci_parts i"
  "xr_parts (ignored_row p) = p"
  "xr_parts (synced_row now tid ext r) = xr_parts r"
  "xr_parts (failed_row hash r) = xr_parts r"
  by (simp_all add: claim_row_def ignored_row_def synced_row_def failed_row_def)

lemma pg_update_spec:
  assumes "pg_good w" and "\<And>r. xr_parts (f r) = xr_parts r"
  shows "\<exists>r w'. pg_update verb f p w = (r, w')
    \<and> row_result r = fst (spec_update f p (pg_ledger w))
    \<and> pg_ledger w' = snd (spec_update f p (pg_ledger w)) \<and> pg_good w'"
  using assms
  by (auto simp: pg_update_def spec_update_def row_result_def pg_ledger_def pg_good_set fun_eq_iff
      pg_fetch_set split: option.splits sum.splits)

interpretation pg: xref_store pg_xref_ops pg_ledger "\<lambda>_. True" pg_good
proof
  fix w :: pg_xref and i :: claim_input
  assume g: "pg_good w"
  show "\<exists>w'. xo_claim pg_xref_ops i w = (Inr (fst (spec_claim i (pg_ledger w))), w')
      \<and> pg_ledger w' = snd (spec_claim i (pg_ledger w)) \<and> pg_good w'"
  proof (cases "pg_fetch (ci_parts i) w")
    case None
    then show ?thesis
      using g pg_ledger_snoc [of "claim_row i" w] pg_good_snoc [of w "claim_row i"]
      by (simp add: pg_xref_ops_def pg_claim_def pg_claim_insert_def pg_insert_def bnd_app
          spec_claim_def pg_ledger_def)
  next
    case (Some r)
    then show ?thesis
      using g by (simp add: pg_xref_ops_def pg_claim_def pg_claim_insert_def pg_insert_def bnd_app
          spec_claim_def pg_ledger_def pg_claim_read_def)
  qed
next
  fix w :: pg_xref and p
  assume g: "pg_good w"
  show "\<exists>w'. xo_markIgnored pg_xref_ops p w = (Inr (fst (spec_ignore p (pg_ledger w))), w')
      \<and> pg_ledger w' = snd (spec_ignore p (pg_ledger w)) \<and> pg_good w'"
  proof (cases "pg_fetch p w")
    case None
    then show ?thesis
      using g pg_ledger_snoc [of "ignored_row p" w] pg_good_snoc [of w "ignored_row p"]
      by (simp add: pg_xref_ops_def pg_markIgnored_def spec_ignore_def pg_ledger_def Let_def)
  next
    case (Some r)
    then show ?thesis
      using g by (simp add: pg_xref_ops_def pg_markIgnored_def spec_ignore_def pg_ledger_def Let_def
          pg_good_set fun_eq_iff pg_fetch_set)
  qed
  show "xo_lookup pg_xref_ops p w = (Inr (pg_ledger w p), w)"
    by (simp add: pg_xref_ops_def pg_lookup_def pg_ledger_def)
  show "\<exists>w'. xo_delete pg_xref_ops p w = (Inr (pg_ledger w p), w')
      \<and> pg_ledger w' = (pg_ledger w)(p := None) \<and> pg_good w'"
    using g by (simp add: pg_xref_ops_def pg_delete_def pg_ledger_def pg_good_filter fun_eq_iff
        pg_fetch_filter)
qed (simp_all add: pg_xref_ops_def pg_recordSuccess_def pg_recordFailure_def pg_update_spec)

section \<open>Racing claims\<close>

text \<open>
  Several function instances claim one key on Postgres. Each worker runs \<open>claim\<close> as two
  statements, and any other worker may run between them.
\<close>

datatype claim_pc = ToInsert | ToRead | Answered "js_error + claim_result"

fun won :: "claim_pc \<Rightarrow> bool" where
  "won (Answered (Inr r)) = is_claimed r"
| "won _ = False"

fun answered_ok :: "claim_pc \<Rightarrow> bool" where
  "answered_ok (Answered (Inl _)) = False"
| "answered_ok _ = True"

fun unfinished :: "claim_pc \<Rightarrow> nat" where
  "unfinished ToInsert = 2"
| "unfinished ToRead = 1"
| "unfinished (Answered _) = 0"

inductive claim_race :: "claim_input list \<Rightarrow> pg_xref \<times> claim_pc list \<Rightarrow> pg_xref \<times> claim_pc list \<Rightarrow> bool"
  for inputs where
  inserted: "i < length pcs \<Longrightarrow> pcs ! i = ToInsert \<Longrightarrow> pg_claim_insert (inputs ! i) t = (Inr (Some r), t')
    \<Longrightarrow> claim_race inputs (t, pcs) (t', pcs[i := Answered (Inr (Claimed r))])"
| conflicted: "i < length pcs \<Longrightarrow> pcs ! i = ToInsert \<Longrightarrow> pg_claim_insert (inputs ! i) t = (Inr None, t')
    \<Longrightarrow> claim_race inputs (t, pcs) (t', pcs[i := ToRead])"
| reread: "i < length pcs \<Longrightarrow> pcs ! i = ToRead \<Longrightarrow> pg_claim_read (inputs ! i) t = (r, t')
    \<Longrightarrow> claim_race inputs (t, pcs) (t', pcs[i := Answered r])"

inductive_cases claim_raceE: "claim_race inputs (t, pcs) s'"

definition winners :: "claim_pc list \<Rightarrow> nat" where
  "winners pcs = length (filter won pcs)"

lemma winners_update:
  "i < length pcs \<Longrightarrow> \<not> won (pcs ! i) \<Longrightarrow>
     winners (pcs[i := x]) = winners pcs + (if won x then 1 else 0)"
  by (induction pcs arbitrary: i) (auto simp: winners_def nth_Cons split: nat.splits)

lemma unfinished_update:
  "i < length pcs \<Longrightarrow> sum_list (map unfinished (pcs[i := x])) + unfinished (pcs ! i)
     = sum_list (map unfinished pcs) + unfinished x"
  by (induction pcs arbitrary: i) (auto simp: nth_Cons split: nat.splits)

lemma won_existing [simp]: "\<not> is_claimed (existing_outcome r)"
  by (cases "xr_status r") auto

text \<open>Before the first insertion nobody has been answered; after it there is one winner.\<close>

definition race_inv :: "claim_input list \<Rightarrow> dedup_parts \<Rightarrow> pg_xref \<times> claim_pc list \<Rightarrow> bool" where
  "race_inv inputs p s = (case s of (t, pcs) \<Rightarrow> length pcs = length inputs \<and>
     (if pg_fetch p t = None then pcs = replicate (length inputs) ToInsert
      else winners pcs = 1 \<and> list_all answered_ok pcs))"

lemma race_inv_step:
  assumes "claim_race inputs s s'" and "race_inv inputs p s" and "\<forall>i \<in> set inputs. ci_parts i = p"
  shows "race_inv inputs p s'"
  using assms(1)
proof (cases rule: claim_race.cases)
  case (inserted i pcs t r t')
  with assms have p: "ci_parts (inputs ! i) = p" by (auto simp: race_inv_def)
  from inserted p have n: "pg_fetch p t = None" and t: "t' = t @ [claim_row (inputs ! i)]"
    by (auto simp: pg_claim_insert_def pg_insert_def split: if_splits)
  from assms inserted n have pcs: "pcs = replicate (length inputs) ToInsert"
    by (auto simp: race_inv_def)
  have "winners pcs = 0" by (simp add: winners_def pcs)
  moreover have "list_all answered_ok (pcs[i := Answered (Inr (Claimed r))])"
    by (auto simp: pcs list_all_iff dest: set_update_subset_insert [THEN subsetD])
  ultimately show ?thesis
    using inserted assms p n by (simp add: race_inv_def t pg_fetch_snoc winners_update)
next
  case (conflicted i pcs t t')
  with assms have p: "ci_parts (inputs ! i) = p" by (auto simp: race_inv_def)
  from conflicted p have n: "pg_fetch p t \<noteq> None" and t: "t' = t"
    by (auto simp: pg_claim_insert_def pg_insert_def split: if_splits)
  moreover have "list_all answered_ok (pcs[i := ToRead])"
    using conflicted assms n
    by (auto simp: race_inv_def list_all_iff dest: set_update_subset_insert [THEN subsetD])
  ultimately show ?thesis
    using conflicted assms by (auto simp: race_inv_def winners_update)
next
  case (reread i pcs t r t')
  with assms have p: "ci_parts (inputs ! i) = p" by (auto simp: race_inv_def)
  have n: "pg_fetch p t \<noteq> None"
    using reread assms by (auto simp: race_inv_def split: if_splits)
  then obtain x where x: "pg_fetch p t = Some x" by auto
  with reread p have r: "r = Inr (existing_outcome x)" "t' = t"
    by (auto simp: pg_claim_read_def)
  have "list_all answered_ok (pcs[i := Answered r])"
    using reread assms x r
    by (auto simp: race_inv_def list_all_iff dest: set_update_subset_insert [THEN subsetD])
  then show ?thesis
    using reread assms x r by (simp add: race_inv_def winners_update del: existing_outcome.simps)
qed

lemma race_inv_steps:
  assumes "(claim_race inputs)\<^sup>*\<^sup>* s s'" and "race_inv inputs p s" and "\<forall>i \<in> set inputs. ci_parts i = p"
  shows "race_inv inputs p s'"
  using assms by (induction rule: rtranclp_induct) (auto intro: race_inv_step)

text \<open>
  C31: however the two statements of \<open>PostgresXrefStore.claim\<close> interleave among any number of
  workers on an unclaimed key, at most one worker is ever told \<open>claimed\<close>, and once all have been
  answered exactly one was and no worker got an error.
\<close>

theorem claim_race_one_winner:
  assumes "pg_fetch p t = None" and "\<forall>i \<in> set inputs. ci_parts i = p" and "inputs \<noteq> []"
    and "(claim_race inputs)\<^sup>*\<^sup>* (t, replicate (length inputs) ToInsert) (t', pcs)"
  shows "winners pcs \<le> 1
    \<and> ((\<forall>pc \<in> set pcs. unfinished pc = 0) \<longrightarrow> winners pcs = 1 \<and> list_all answered_ok pcs)"
proof -
  have "race_inv inputs p (t', pcs)"
    using race_inv_steps [OF assms(4) _ assms(2)] assms(1) by (simp add: race_inv_def)
  then show ?thesis
    using assms(3) by (auto simp: race_inv_def winners_def split: if_splits)
qed

text \<open>A race of two workers that has run to its end: the second inserts first.\<close>

definition race_input :: claim_input where
  "race_input = \<lparr>ci_parts = \<lparr>dp_environment = ''dev'', dp_connectionId = ''c1'', dp_entityType = Order,
      dp_sourceSystem = Shopify, dp_sourceId = ''gid''\<rparr>,
     ci_targetSystem = Netsuite, ci_targetExternal = ''e'', ci_sourceHash = None\<rparr>"

lemma claim_race_run:
  "(claim_race [race_input, race_input])\<^sup>*\<^sup>* ([], [ToInsert, ToInsert])
     ([claim_row race_input], [Answered (Inr (AlreadyClaimed (claim_row race_input))),
        Answered (Inr (Claimed (claim_row race_input)))])"
proof -
  let ?r = "claim_row race_input" and ?R = "claim_race [race_input, race_input]"
  have "?R ([], [ToInsert, ToInsert]) ([?r], [ToInsert, ToInsert][1 := Answered (Inr (Claimed ?r))])"
    by (rule inserted) (simp_all add: pg_claim_insert_def pg_insert_def)
  moreover have "?R ([?r], [ToInsert, Answered (Inr (Claimed ?r))])
      ([?r], [ToInsert, Answered (Inr (Claimed ?r))][0 := ToRead])"
    by (rule conflicted) (simp_all add: pg_claim_insert_def pg_insert_def pg_fetch_Cons)
  moreover have "?R ([?r], [ToRead, Answered (Inr (Claimed ?r))])
      ([?r], [ToRead, Answered (Inr (Claimed ?r))][0 := Answered (Inr (AlreadyClaimed ?r))])"
    by (rule reread) (simp_all add: pg_claim_read_def pg_fetch_Cons claim_row_def)
  ultimately show ?thesis
    by (simp add: converse_rtranclp_into_rtranclp)
qed

theorem claim_race_one_winner_witness:
  "winners [Answered (Inr (AlreadyClaimed (claim_row race_input))),
     Answered (Inr (Claimed (claim_row race_input)))] = 1"
proof -
  have l: "replicate (length [race_input, race_input]) ToInsert = [ToInsert, ToInsert]" by simp
  have f: "pg_fetch (ci_parts race_input) [] = None"
    "\<forall>i \<in> set [race_input, race_input]. ci_parts i = ci_parts race_input"
    "[race_input, race_input] \<noteq> []" by simp_all
  show ?thesis
    using claim_race_one_winner [OF f, unfolded l, OF claim_race_run]
    by (simp only: list.set ball_simps ball_empty unfinished.simps simp_thms)
qed

end
