(* ===== verification/Calendar.thy ===== *)
theory Calendar
  imports JsString
begin

text \<open>
  JavaScript's \<open>Date\<close> as the source uses it. A date is its time value, the milliseconds since
  1970-01-01T00:00:00Z; \<open>getUTCFullYear\<close> and its companions, \<open>toISOString\<close> and \<open>Date.parse\<close> are
  functions of that integer. Strings outside the ISO format of ECMA-262 are engine-specific and
  count as invalid here; a date-time without a zone is read in the host's zone, which is UTC where
  the functions run.
\<close>

section \<open>Civil dates\<close>

record civil =
  cv_year :: int
  cv_month :: int
  cv_day :: int

text \<open>Years start in March, so that a leap day is the last of its year; eras have 400 years.\<close>

definition days_of_civil :: "int \<Rightarrow> int \<Rightarrow> int \<Rightarrow> int" where
  "days_of_civil y m d =
     (let y' = (if m \<le> 2 then y - 1 else y);
          era = y' div 400;
          yoe = y' mod 400;
          mp = (if m > 2 then m - 3 else m + 9);
          doy = (153 * mp + 2) div 5 + d - 1
      in era * 146097 + (yoe * 365 + yoe div 4 - yoe div 100 + doy) - 719468)"

definition civil_of_days :: "int \<Rightarrow> civil" where
  "civil_of_days z =
     (let era = (z + 719468) div 146097;
          doe = (z + 719468) mod 146097;
          c = min 3 (doe div 36524);
          doc = doe - 36524 * c;
          q = doc div 1461;
          doq = doc mod 1461;
          r = min 3 (doq div 365);
          doy = doq - 365 * r;
          mp = (5 * doy + 2) div 153;
          m = (if mp < 10 then mp + 3 else mp - 9);
          y = era * 400 + (100 * c + 4 * q + r)
      in \<lparr>cv_year = (if m \<le> 2 then y + 1 else y), cv_month = m,
          cv_day = doy - (153 * mp + 2) div 5 + 1\<rparr>)"

lemma century_bounds:
  fixes doe :: int
  assumes "0 \<le> doe" and "doe < 146097"
  defines "c \<equiv> min 3 (doe div 36524)"
  shows "0 \<le> c" and "c \<le> 3" and "0 \<le> doe - 36524 * c" and "doe - 36524 * c \<le> 36524"
  using assms by (auto simp: c_def min_def)

lemma year_bounds:
  fixes doc :: int
  assumes "0 \<le> doc" and "doc \<le> 36524"
  defines "q \<equiv> doc div 1461" and "r \<equiv> min 3 (doc mod 1461 div 365)"
  shows "0 \<le> q" and "q \<le> 24" and "0 \<le> r" and "r \<le> 3"
    and "0 \<le> doc mod 1461 - 365 * r" and "doc mod 1461 - 365 * r \<le> 365"
  using assms pos_mod_bound [of 1461 doc]
  by (auto simp: q_def r_def min_def)

lemma month_bounds:
  fixes doy :: int
  assumes "0 \<le> doy" and "doy \<le> 365"
  defines "mp \<equiv> (5 * doy + 2) div 153"
  shows "0 \<le> mp" and "mp \<le> 11" and "1 \<le> doy - (153 * mp + 2) div 5 + 1"
    and "doy - (153 * mp + 2) div 5 + 1 \<le> 31"
proof -
  show "0 \<le> mp" "mp \<le> 11" using assms by (auto simp: mp_def)
  have "153 * mp \<le> 5 * doy + 2" "5 * doy + 2 < 153 * mp + 153"
    unfolding mp_def by (auto simp: mult.commute [of 153])
  then show "1 \<le> doy - (153 * mp + 2) div 5 + 1" "doy - (153 * mp + 2) div 5 + 1 \<le> 31"
    by linarith+
qed

lemma civil_parts:
  obtains era c q r doy where
    "z + 719468 = era * 146097 + 36524 * c + 1461 * q + 365 * r + doy"
    "0 \<le> c" "c \<le> 3" "0 \<le> q" "q \<le> 24" "0 \<le> r" "r \<le> 3" "0 \<le> doy" "doy \<le> 365"
    "civil_of_days z =
      (let mp = (5 * doy + 2) div 153; m = (if mp < 10 then mp + 3 else mp - 9);
           y = era * 400 + (100 * c + 4 * q + r)
       in \<lparr>cv_year = (if m \<le> 2 then y + 1 else y), cv_month = m,
           cv_day = doy - (153 * mp + 2) div 5 + 1\<rparr>)"
proof -
  define doe where "doe = (z + 719468) mod 146097"
  define c where "c = min 3 (doe div 36524)"
  define doc where "doc = doe - 36524 * c"
  define r where "r = min 3 (doc mod 1461 div 365)"
  define doy where "doy = doc mod 1461 - 365 * r"
  have doe: "0 \<le> doe" "doe < 146097" by (simp_all add: doe_def)
  have c: "0 \<le> c" "c \<le> 3" "0 \<le> doc" "doc \<le> 36524"
    using century_bounds [OF doe] by (simp_all add: c_def doc_def)
  have q: "0 \<le> doc div 1461" "doc div 1461 \<le> 24" and r: "0 \<le> r" "r \<le> 3" "0 \<le> doy" "doy \<le> 365"
    using year_bounds [OF c(3,4)] by (simp_all only: r_def doy_def)
  have "z + 719468 = ((z + 719468) div 146097) * 146097 + doe"
    by (simp add: doe_def)
  also have "doe = 36524 * c + doc" by (simp add: doc_def)
  also have "doc = 1461 * (doc div 1461) + 365 * r + doy" by (simp add: doy_def)
  finally have eq: "z + 719468 = ((z + 719468) div 146097) * 146097 + 36524 * c
      + 1461 * (doc div 1461) + 365 * r + doy" by simp
  show thesis
    by (rule that [OF eq c(1,2) q r])
      (simp only: civil_of_days_def Let_def doe_def c_def doc_def r_def doy_def)
qed

lemma days_of_civil_of_days:
  "days_of_civil (cv_year (civil_of_days z)) (cv_month (civil_of_days z)) (cv_day (civil_of_days z)) = z"
proof (rule civil_parts [of z])
  fix era c q r doy
  assume z: "z + 719468 = era * 146097 + 36524 * c + 1461 * q + 365 * r + doy"
    and b: "0 \<le> c" "c \<le> 3" "0 \<le> q" "q \<le> 24" "0 \<le> r" "r \<le> 3" "0 \<le> doy" "doy \<le> 365"
    and cv: "civil_of_days z =
      (let mp = (5 * doy + 2) div 153; m = (if mp < 10 then mp + 3 else mp - 9);
           y = era * 400 + (100 * c + 4 * q + r)
       in \<lparr>cv_year = (if m \<le> 2 then y + 1 else y), cv_month = m,
           cv_day = doy - (153 * mp + 2) div 5 + 1\<rparr>)"
  define mp where "mp = (5 * doy + 2) div 153"
  have mp: "0 \<le> mp" "mp \<le> 11" using month_bounds [OF b(7,8)] by (simp_all add: mp_def)
  define yoe where "yoe = 100 * c + 4 * q + r"
  have y: "0 \<le> yoe" "yoe < 400" "yoe div 4 = 25 * c + q" "yoe div 100 = c"
    using b by (auto simp: yoe_def)
  have era: "(era * 400 + yoe) div 400 = era" "(era * 400 + yoe) mod 400 = yoe"
    using y by (auto simp: div_mult_self3 mod_mult_self3)
  have c: "civil_of_days z = \<lparr>cv_year = (if mp < 10 then era * 400 + yoe else era * 400 + yoe + 1),
      cv_month = (if mp < 10 then mp + 3 else mp - 9), cv_day = doy - (153 * mp + 2) div 5 + 1\<rparr>"
    using mp unfolding cv by (simp add: Let_def mp_def yoe_def)
  have "days_of_civil (cv_year (civil_of_days z)) (cv_month (civil_of_days z)) (cv_day (civil_of_days z))
      = era * 146097 + (yoe * 365 + yoe div 4 - yoe div 100 + doy) - 719468"
    using mp era unfolding c days_of_civil_def by (cases "mp < 10") (simp_all add: Let_def)
  then show ?thesis using z y(3,4) by (simp add: yoe_def)
qed

lemma civil_ranges:
  "1 \<le> cv_month (civil_of_days z)" "cv_month (civil_of_days z) \<le> 12"
  "1 \<le> cv_day (civil_of_days z)" "cv_day (civil_of_days z) \<le> 31"
proof -
  have "1 \<le> cv_month (civil_of_days z) \<and> cv_month (civil_of_days z) \<le> 12
    \<and> 1 \<le> cv_day (civil_of_days z) \<and> cv_day (civil_of_days z) \<le> 31"
  proof (rule civil_parts [of z])
    fix era c q r doy :: int
    assume "0 \<le> doy" "doy \<le> 365" and cv: "civil_of_days z =
      (let mp = (5 * doy + 2) div 153; m = (if mp < 10 then mp + 3 else mp - 9);
           y = era * 400 + (100 * c + 4 * q + r)
       in \<lparr>cv_year = (if m \<le> 2 then y + 1 else y), cv_month = m,
           cv_day = doy - (153 * mp + 2) div 5 + 1\<rparr>)"
    then show ?thesis
      using month_bounds [of doy] unfolding cv by (auto simp: Let_def)
  qed
  then show "1 \<le> cv_month (civil_of_days z)" "cv_month (civil_of_days z) \<le> 12"
    "1 \<le> cv_day (civil_of_days z)" "cv_day (civil_of_days z) \<le> 31" by simp_all
qed

section \<open>Reading and printing\<close>

definition ms_per_day :: int where
  "ms_per_day = 86400000"

definition utc_date :: "int \<Rightarrow> civil" where
  "utc_date t = civil_of_days (t div ms_per_day)"

definition pad2 :: "int \<Rightarrow> string" where
  "pad2 n = pad_start 2 (CHR ''0'') (show_int n)"

definition pad3 :: "int \<Rightarrow> string" where
  "pad3 n = pad_start 3 (CHR ''0'') (show_int n)"

text \<open>The year of \<open>toISOString\<close>: four digits, or a sign and six outside 0 to 9999.\<close>

definition iso_year :: "int \<Rightarrow> string" where
  "iso_year y = (if 0 \<le> y \<and> y \<le> 9999 then pad_start 4 (CHR ''0'') (show_int y)
     else (if y < 0 then ''-'' else ''+'') @ pad_start 6 (CHR ''0'') (show_int \<bar>y\<bar>))"

definition iso_day :: "int \<Rightarrow> string" where
  "iso_day t = (let d = utc_date t in
     iso_year (cv_year d) @ ''-'' @ pad2 (cv_month d) @ ''-'' @ pad2 (cv_day d))"

definition iso_time :: "int \<Rightarrow> string" where
  "iso_time t = (let s = t mod ms_per_day in
     pad2 (s div 3600000) @ '':'' @ pad2 (s div 60000 mod 60) @ '':'' @ pad2 (s div 1000 mod 60)
     @ ''.'' @ pad3 (s mod 1000))"

definition toISOString :: "int \<Rightarrow> string" where
  "toISOString t = iso_day t @ ''T'' @ iso_time t @ ''Z''"

text \<open>\<open>take_digits n s\<close>: exactly \<open>n\<close> digits and the rest.\<close>

definition take_digits :: "nat \<Rightarrow> string \<Rightarrow> (int \<times> string) option" where
  "take_digits n s = (if n \<le> length s \<and> list_all is_digit (take n s)
     then Some (digits_value (take n s), drop n s) else None)"

definition take_char :: "char \<Rightarrow> string \<Rightarrow> string option" where
  "take_char c s = (case s of [] \<Rightarrow> None | x # xs \<Rightarrow> if x = c then Some xs else None)"

definition parse_day :: "string \<Rightarrow> ((int \<times> int \<times> int) \<times> string) option" where
  "parse_day s = Option.bind (take_digits 4 s) (\<lambda>(y, s). Option.bind (take_char (CHR ''-'') s) (\<lambda>s.
     Option.bind (take_digits 2 s) (\<lambda>(m, s). Option.bind (take_char (CHR ''-'') s) (\<lambda>s.
     Option.bind (take_digits 2 s) (\<lambda>(d, s).
       if 1 \<le> m \<and> m \<le> 12 \<and> 1 \<le> d \<and> d \<le> 31 then Some ((y, m, d), s) else None)))))"

text \<open>Optional seconds with an optional fraction, of which milliseconds are kept.\<close>

definition parse_fraction :: "string \<Rightarrow> (int \<times> string) option" where
  "parse_fraction s = (case take_char (CHR ''.'') s of
     None \<Rightarrow> Some (0, s)
   | Some s' \<Rightarrow> (let ds = takeWhile is_digit s' in
       if ds = [] then None
       else Some (digits_value (take 3 (ds @ ''00'')), dropWhile is_digit s')))"

definition parse_seconds :: "string \<Rightarrow> ((int \<times> int) \<times> string) option" where
  "parse_seconds s = (case take_char (CHR '':'') s of
     None \<Rightarrow> Some ((0, 0), s)
   | Some s' \<Rightarrow> Option.bind (take_digits 2 s') (\<lambda>(sec, s''). Option.bind (parse_fraction s'')
       (\<lambda>(ms, s3). if sec \<le> 59 then Some ((sec, ms), s3) else None)))"

text \<open>The zone: nothing, \<open>Z\<close>, or an offset; the result is the offset in minutes.\<close>

definition parse_zone :: "string \<Rightarrow> int option" where
  "parse_zone s = (if s = [] \<or> s = ''Z'' then Some 0
     else (let sign = (if hd s = CHR ''-'' then - 1 else 1) in
       if hd s = CHR ''+'' \<or> hd s = CHR ''-'' then
         Option.bind (take_digits 2 (tl s)) (\<lambda>(h, s). Option.bind (take_char (CHR '':'') s) (\<lambda>s.
         Option.bind (take_digits 2 s) (\<lambda>(m, s).
           if s = [] \<and> h \<le> 23 \<and> m \<le> 59 then Some (sign * (60 * h + m)) else None)))
       else None))"

definition parse_time :: "string \<Rightarrow> int option" where
  "parse_time s = Option.bind (take_digits 2 s) (\<lambda>(h, s). Option.bind (take_char (CHR '':'') s) (\<lambda>s.
     Option.bind (take_digits 2 s) (\<lambda>(m, s). Option.bind (parse_seconds s) (\<lambda>((sec, ms), s).
     Option.bind (parse_zone s) (\<lambda>zone.
       if (h \<le> 23 \<and> m \<le> 59) \<or> (h = 24 \<and> m = 0 \<and> sec = 0 \<and> ms = 0)
       then Some (((h * 60 + m - zone) * 60 + sec) * 1000 + ms) else None)))))"

text \<open>\<open>Date.parse\<close>, with \<open>None\<close> for \<open>NaN\<close>.\<close>

definition date_parse :: "string \<Rightarrow> int option" where
  "date_parse s = Option.bind (parse_day s) (\<lambda>((y, m, d), rest).
     let base = days_of_civil y m d * ms_per_day in
     if rest = [] then Some base
     else Option.bind (take_char (CHR ''T'') rest) (\<lambda>rest'. map_option (\<lambda>t. base + t) (parse_time rest')))"

section \<open>Round trip\<close>

lemma take_digits_pad:
  assumes "0 \<le> n" and "length (show_int n) \<le> k"
  shows "take_digits k (pad_start k (CHR ''0'') (show_int n) @ s) = Some (n, s)"
proof -
  have v: "digits_value (replicate j (CHR ''0'') @ t) = digits_value t" for j t
    by (induction j) (simp_all add: digits_value_def digit_value_def)
  have d: "is_digit (CHR ''0'')" by (simp add: is_digit_def)
  have "length (pad_start k (CHR ''0'') (show_int n)) = k"
    using assms(2) by (simp add: pad_start_def)
  moreover have "list_all is_digit (pad_start k (CHR ''0'') (show_int n))"
    using assms(1) dec_digits_digits [of n] d by (auto simp: pad_start_def show_int_def list_all_iff)
  moreover have "digits_value (pad_start k (CHR ''0'') (show_int n)) = n"
    using assms(1) by (simp add: pad_start_def v show_int_def)
  ultimately show ?thesis by (simp add: take_digits_def)
qed

lemma length_show_int: "0 \<le> n \<Longrightarrow> n < 10 ^ Suc k \<Longrightarrow> length (show_int n) \<le> Suc k"
proof (induction k arbitrary: n)
  case 0
  then show ?case by (simp add: show_int_def dec_digits.simps)
next
  case (Suc k)
  show ?case
  proof (cases "n < 10")
    case False
    have "length (show_int (n div 10)) \<le> Suc k"
      using Suc.prems by (intro Suc.IH) auto
    moreover have "0 \<le> n div 10" using Suc.prems by simp
    ultimately have "length (dec_digits (n div 10)) \<le> Suc k" by (simp add: show_int_def)
    with False Suc.prems show ?thesis
      by (simp add: show_int_def dec_digits.simps [of n])
  qed (use Suc.prems in \<open>simp add: show_int_def dec_digits.simps [of n]\<close>)
qed

lemma take_digits_pad2: "0 \<le> n \<Longrightarrow> n < 100 \<Longrightarrow> take_digits 2 (pad2 n @ s) = Some (n, s)"
  using take_digits_pad [of n 2 s] length_show_int [of n 1] by (simp add: pad2_def)

lemma parse_zone_Z [simp]: "parse_zone ''Z'' = Some 0"
  by (simp add: parse_zone_def)

lemma parse_fraction_pad3:
  assumes "0 \<le> n" and "n < 1000"
  shows "parse_fraction (''.'' @ pad3 n @ ''Z'') = Some (n, ''Z'')"
proof -
  have td: "take_digits 3 (pad3 n @ ''Z'') = Some (n, ''Z'')"
    using take_digits_pad [of n 3 "''Z''"] length_show_int [of n 2] assms by (simp add: pad3_def)
  have l: "length (pad3 n) = 3"
    using length_show_int [of n 2] assms by (simp add: pad3_def pad_start_def)
  with td have d: "list_all is_digit (pad3 n)" and v: "digits_value (pad3 n) = n"
    by (auto simp: take_digits_def split: if_splits)
  have z: "\<not> is_digit (CHR ''Z'')" by (simp add: is_digit_def)
  have "takeWhile is_digit (pad3 n @ ''Z'') = pad3 n"
    using d z by (simp add: list_all_iff)
  moreover have "dropWhile is_digit (pad3 n @ ''Z'') = ''Z''"
    using d z by (simp add: list_all_iff)
  moreover have "pad3 n \<noteq> []" using l by auto
  ultimately show ?thesis
    using l v by (simp add: parse_fraction_def take_char_def Let_def)
qed

lemma parse_time_fields:
  assumes "0 \<le> h" "h < 24" "0 \<le> m" "m < 60" "0 \<le> sec" "sec < 60" "0 \<le> ms" "ms < 1000"
  shows "parse_time (pad2 h @ '':'' @ pad2 m @ '':'' @ pad2 sec @ ''.'' @ pad3 ms @ ''Z'')
    = Some (((h * 60 + m) * 60 + sec) * 1000 + ms)"
proof -
  have "parse_seconds ('':'' @ pad2 sec @ ''.'' @ pad3 ms @ ''Z'') = Some ((sec, ms), ''Z'')"
    using assms parse_fraction_pad3 [OF assms(7,8)]
    by (simp add: parse_seconds_def take_char_def take_digits_pad2)
  then show ?thesis
    using assms by (simp add: parse_time_def take_digits_pad2 take_char_def)
qed

lemma parse_time_iso: "parse_time (iso_time t @ ''Z'') = Some (t mod ms_per_day)"
proof -
  define s where "s = t mod ms_per_day"
  have s: "0 \<le> s" "s < 86400000" by (simp_all add: s_def ms_per_day_def)
  have b: "0 \<le> s div 3600000" "s div 3600000 < 24" "0 \<le> s div 60000 mod 60" "s div 60000 mod 60 < 60"
      "0 \<le> s div 1000 mod 60" "s div 1000 mod 60 < 60" "0 \<le> s mod 1000" "s mod 1000 < 1000"
    using s by auto
  have "((s div 3600000 * 60 + s div 60000 mod 60) * 60 + s div 1000 mod 60) * 1000 + s mod 1000 = s"
  proof -
    have "s div 3600000 = s div 60000 div 60" "s div 60000 = s div 1000 div 60"
      by (simp_all add: div_mult2_eq [symmetric] zdiv_zmult2_eq [symmetric])
    then show ?thesis by simp
  qed
  then have "parse_time (iso_time t @ ''Z'') = Some s"
    unfolding iso_time_def Let_def s_def [symmetric]
    using parse_time_fields [OF b] by simp
  then show ?thesis by (simp add: s_def)
qed

lemma parse_day_iso:
  assumes "0 \<le> cv_year (utc_date t)" and "cv_year (utc_date t) \<le> 9999"
  shows "parse_day (iso_day t @ s)
    = Some ((cv_year (utc_date t), cv_month (utc_date t), cv_day (utc_date t)), s)"
  using assms civil_ranges [of "t div ms_per_day"] length_show_int [of "cv_year (utc_date t)" 3]
    take_digits_pad [of "cv_year (utc_date t)" 4]
  by (simp add: iso_day_def Let_def iso_year_def parse_day_def take_digits_pad2 take_char_def
      utc_date_def)

text \<open>Every date of the years 0 to 9999 survives printing and parsing.\<close>

lemma date_parse_toISOString:
  assumes "0 \<le> cv_year (utc_date t)" and "cv_year (utc_date t) \<le> 9999"
  shows "date_parse (toISOString t) = Some t"
  using parse_day_iso [OF assms, of "''T'' @ iso_time t @ ''Z''"] parse_time_iso [of t]
  by (simp add: date_parse_def toISOString_def take_char_def utc_date_def days_of_civil_of_days)

end
