(* ===== verification/CoreStores.thy ===== *)
theory CoreStores
  imports CoreTypes Calendar
begin

text \<open>
  The other stores of \<open>packages/core/src\<close> and their Postgres adapters: error records, the order
  sync log, order attempts, catch-up watermarks, reconciliation snapshots, the in-memory queue, the
  payload archive and the secret providers. Each operation is a function of its store's state; the
  clock is the argument \<open>now\<close>.
\<close>

definition seq_id :: "string \<Rightarrow> nat \<Rightarrow> string" where
  "seq_id prefix n = prefix @ pad_start 8 (CHR ''0'') (show_nat n)"

text \<open>A filter field that is absent or the empty string does not filter.\<close>

definition passes :: "string option \<Rightarrow> string \<Rightarrow> bool" where
  "passes f v \<longleftrightarrow> (case f of None \<Rightarrow> True | Some x \<Rightarrow> x = [] \<or> v = x)"

definition passes_opt :: "'a option \<Rightarrow> 'a \<Rightarrow> bool" where
  "passes_opt f v \<longleftrightarrow> (case f of None \<Rightarrow> True | Some x \<Rightarrow> v = x)"

text \<open>\<open>limit ? all.slice(0, limit) : all\<close>\<close>

definition limited :: "nat option \<Rightarrow> 'a list \<Rightarrow> 'a list" where
  "limited l xs = (case l of None \<Rightarrow> xs | Some n \<Rightarrow> if n = 0 then xs else take n xs)"

section \<open>Error records\<close>

datatype error_status = ErrOpen | ErrRetrying | ErrResolved | ErrIgnored | ErrQuarantined

record new_error =
  ne_environment :: environment
  ne_connectionId :: string
  ne_flow :: string
  ne_dedupKey :: string
  ne_errorClass :: error_class
  ne_message :: string
  ne_stack :: "string option"
  ne_envelope :: jsval

record error_record =
  er_id :: string
  er_environment :: environment
  er_connectionId :: string
  er_flow :: string
  er_dedupKey :: string
  er_errorClass :: error_class
  er_message :: string
  er_stack :: "string option"
  er_envelope :: jsval
  er_retryCount :: nat
  er_status :: error_status
  er_createdAt :: int
  er_updatedAt :: int

record error_store =
  es_rows :: "(string \<times> error_record) list"
  es_seq :: nat

definition empty_error_store :: error_store where
  "empty_error_store = \<lparr>es_rows = [], es_seq = 0\<rparr>"

definition error_row :: "string \<Rightarrow> int \<Rightarrow> new_error \<Rightarrow> error_record" where
  "error_row rid now i = \<lparr>er_id = rid, er_environment = ne_environment i,
     er_connectionId = ne_connectionId i, er_flow = ne_flow i, er_dedupKey = ne_dedupKey i,
     er_errorClass = ne_errorClass i, er_message = ne_message i, er_stack = ne_stack i,
     er_envelope = ne_envelope i, er_retryCount = 0, er_status = ErrOpen, er_createdAt = now,
     er_updatedAt = now\<rparr>"

definition err_record :: "int \<Rightarrow> new_error \<Rightarrow> (error_store, error_record) io" where
  "err_record now i = (\<lambda>s. let n = Suc (es_seq s); row = error_row (seq_id ''err_'' n) now i
     in (Inr row, \<lparr>es_rows = AList.update (er_id row) row (es_rows s), es_seq = n\<rparr>))"

definition err_get :: "string \<Rightarrow> error_store \<Rightarrow> error_record option" where
  "err_get rid s = map_of (es_rows s) rid"

record error_filter =
  ef_environment :: "string option"
  ef_connectionId :: "string option"
  ef_status :: "error_status option"
  ef_errorClass :: "error_class option"

definition err_list :: "error_filter \<Rightarrow> error_store \<Rightarrow> error_record list" where
  "err_list f s = sort_key (\<lambda>r. - er_createdAt r) (filter (\<lambda>r.
     passes (ef_environment f) (er_environment r) \<and> passes (ef_connectionId f) (er_connectionId r)
     \<and> passes_opt (ef_status f) (er_status r) \<and> passes_opt (ef_errorClass f) (er_errorClass r))
     (map snd (es_rows s)))"

definition err_modify :: "(error_record \<Rightarrow> error_record) \<Rightarrow> string \<Rightarrow> (error_store, error_record) io" where
  "err_modify f rid = (\<lambda>s. case map_of (es_rows s) rid of
     None \<Rightarrow> (Inl (plain_error (''InMemoryErrorStore: no error record '' @ rid)), s)
   | Some r \<Rightarrow> (Inr (f r), s\<lparr>es_rows := AList.update rid (f r) (es_rows s)\<rparr>))"

definition err_updateStatus ::
  "int \<Rightarrow> string \<Rightarrow> error_status \<Rightarrow> string option \<Rightarrow> (error_store, error_record) io" where
  "err_updateStatus now rid status message = err_modify (\<lambda>r. r\<lparr>er_status := status,
     er_message := (case message of None \<Rightarrow> er_message r | Some m \<Rightarrow> m), er_updatedAt := now\<rparr>) rid"

definition err_incrementRetry :: "int \<Rightarrow> string \<Rightarrow> (error_store, error_record) io" where
  "err_incrementRetry now rid =
     err_modify (\<lambda>r. r\<lparr>er_retryCount := er_retryCount r + 1, er_updatedAt := now\<rparr>) rid"

section \<open>The order sync log\<close>

datatype sync_status = SyncImported | SyncParked | SyncIgnored

datatype ns_record_type = Salesorder | Cashsale

record sync_log_input =
  sl_environment :: environment
  sl_connectionId :: string
  sl_orderGid :: string
  sl_orderId :: string
  sl_orderName :: "string option"
  sl_createdAt :: "int option"
  sl_processedAt :: "int option"
  sl_updatedAt :: "int option"
  sl_customerEmail :: "string option"
  sl_currencyCode :: "string option"
  sl_totalPrice :: "string option"
  sl_subtotalPrice :: "string option"
  sl_totalTax :: "string option"
  sl_totalDiscounts :: "string option"
  sl_totalShipping :: "string option"
  sl_status :: sync_status
  sl_nsAccountId :: "string option"
  sl_nsRecordType :: "ns_record_type option"
  sl_nsInternalId :: "string option"
  sl_nsTranId :: "string option"
  sl_parkStage :: "string option"
  sl_parkDetail :: "string option"
  sl_parkErrorClass :: "string option"
  sl_ignoredReason :: "string option"
  sl_syncedAt :: "int option"
  sl_attemptCount :: "nat option"
  sl_lastDeliveryCount :: "nat option"
  sl_lastOutboundPayloadUri :: "string option"
  sl_lastInboundEnvelopeUri :: "string option"

text \<open>A stored row: the input it was last written from, and the columns the store adds.\<close>

record sync_log =
  log_id :: string
  log_data :: sync_log_input
  log_createdAt :: int
  log_updatedAt :: int

type_synonym order_ref = "string \<times> string \<times> string"

definition sl_ref :: "sync_log_input \<Rightarrow> order_ref" where
  "sl_ref i = (sl_environment i, sl_connectionId i, sl_orderGid i)"

definition order_ref_key :: "order_ref \<Rightarrow> string" where
  "order_ref_key k = (case k of (env, cid, gid) \<Rightarrow> env @ ''|'' @ cid @ ''|'' @ gid)"

record sync_log_store =
  sls_rows :: "(string \<times> sync_log) list"
  sls_seq :: nat

definition empty_sync_log :: sync_log_store where
  "empty_sync_log = \<lparr>sls_rows = [], sls_seq = 0\<rparr>"

definition log_upsert :: "int \<Rightarrow> sync_log_input \<Rightarrow> sync_log_store \<Rightarrow> sync_log \<times> sync_log_store" where
  "log_upsert now i s = (let k = order_ref_key (sl_ref i) in
     case map_of (sls_rows s) k of
       Some old \<Rightarrow> (let row = \<lparr>log_id = log_id old, log_data = i,
            log_createdAt = log_createdAt old, log_updatedAt = now\<rparr>
          in (row, s\<lparr>sls_rows := AList.update k row (sls_rows s)\<rparr>))
     | None \<Rightarrow> (let n = Suc (sls_seq s);
            row = \<lparr>log_id = seq_id ''log_'' n, log_data = i, log_createdAt = now, log_updatedAt = now\<rparr>
          in (row, \<lparr>sls_rows = AList.update k row (sls_rows s), sls_seq = n\<rparr>)))"

record sync_log_filter =
  lf_environment :: environment
  lf_connectionId :: "string option"
  lf_status :: "sync_status option"
  lf_limit :: "nat option"

definition log_matches :: "sync_log_filter \<Rightarrow> sync_log \<Rightarrow> bool" where
  "log_matches f r \<longleftrightarrow> sl_environment (log_data r) = lf_environment f
     \<and> passes (lf_connectionId f) (sl_connectionId (log_data r))
     \<and> passes_opt (lf_status f) (sl_status (log_data r))"

definition log_time :: "sync_log \<Rightarrow> int" where
  "log_time r = (case sl_syncedAt (log_data r) of Some t \<Rightarrow> t | None \<Rightarrow> log_updatedAt r)"

definition log_list :: "sync_log_filter \<Rightarrow> sync_log_store \<Rightarrow> sync_log list" where
  "log_list f s = limited (lf_limit f)
     (sort_key (\<lambda>r. - log_time r) (filter (log_matches f) (map snd (sls_rows s))))"

definition log_find :: "order_ref \<Rightarrow> sync_log_store \<Rightarrow> sync_log option" where
  "log_find k s = map_of (sls_rows s) (order_ref_key k)"

text \<open>
  The Postgres table: \<open>INSERT .. ON CONFLICT DO UPDATE\<close>. The update copies every column of the
  input, absent ones as \<open>NULL\<close>, except the six that are coalesced with the stored value.
\<close>

definition coalesce :: "'a option \<Rightarrow> 'a option \<Rightarrow> 'a option" where
  "coalesce a b = (case a of Some x \<Rightarrow> Some x | None \<Rightarrow> b)"

definition greatest :: "nat option \<Rightarrow> nat option \<Rightarrow> nat option" where
  "greatest a b = (case (a, b) of (Some x, Some y) \<Rightarrow> Some (max x y) | _ \<Rightarrow> coalesce a b)"

definition pg_log_inserted :: "sync_log_input \<Rightarrow> sync_log_input" where
  "pg_log_inserted i = i\<lparr>sl_attemptCount := coalesce (sl_attemptCount i) (Some 0)\<rparr>"

definition pg_log_merged :: "sync_log_input \<Rightarrow> sync_log_input \<Rightarrow> sync_log_input" where
  "pg_log_merged old i = i\<lparr>sl_nsTranId := coalesce (sl_nsTranId i) (sl_nsTranId old),
     sl_syncedAt := coalesce (sl_syncedAt i) (sl_syncedAt old),
     sl_attemptCount := greatest (sl_attemptCount old) (sl_attemptCount (pg_log_inserted i)),
     sl_lastDeliveryCount := coalesce (sl_lastDeliveryCount i) (sl_lastDeliveryCount old),
     sl_lastOutboundPayloadUri := coalesce (sl_lastOutboundPayloadUri i) (sl_lastOutboundPayloadUri old),
     sl_lastInboundEnvelopeUri := coalesce (sl_lastInboundEnvelopeUri i) (sl_lastInboundEnvelopeUri old)\<rparr>"

record pg_log_table =
  plt_rows :: "sync_log list"
  plt_seq :: nat

definition pg_log_find :: "order_ref \<Rightarrow> pg_log_table \<Rightarrow> sync_log option" where
  "pg_log_find k t = find (\<lambda>r. sl_ref (log_data r) = k) (plt_rows t)"

definition pg_log_upsert :: "int \<Rightarrow> sync_log_input \<Rightarrow> pg_log_table \<Rightarrow> sync_log \<times> pg_log_table" where
  "pg_log_upsert now i t = (let n = Suc (plt_seq t) in
     case pg_log_find (sl_ref i) t of
       None \<Rightarrow> (let row = \<lparr>log_id = show_nat n, log_data = pg_log_inserted i,
            log_createdAt = now, log_updatedAt = now\<rparr>
          in (row, \<lparr>plt_rows = plt_rows t @ [row], plt_seq = n\<rparr>))
     | Some old \<Rightarrow> (let row = old\<lparr>log_data := pg_log_merged (log_data old) i, log_updatedAt := now\<rparr>
          in (row, \<lparr>plt_rows = map (\<lambda>r. if sl_ref (log_data r) = sl_ref i then row else r) (plt_rows t),
               plt_seq = n\<rparr>)))"

definition pg_log_list :: "sync_log_filter \<Rightarrow> pg_log_table \<Rightarrow> sync_log list" where
  "pg_log_list f t = take (case lf_limit f of None \<Rightarrow> 50 | Some n \<Rightarrow> n)
     (sort_key (\<lambda>r. - log_time r) (filter (log_matches f) (plt_rows t)))"

section \<open>Order attempts\<close>

datatype attempt_outcome =
    AttImported
  | AttParked
  | AttIgnoredByEligibility
  | AttAlreadySynced
  | AttAlreadyClaimed
  | AttIgnored
  | AttRejected
  | AttTransientThrow
  | AttAuthThrow
  | AttQuarantined

record attempt_input =
  at_environment :: environment
  at_connectionId :: string
  at_orderGid :: string
  at_deliveryCount :: nat
  at_sbMessageId :: "string option"
  at_sbSessionId :: "string option"
  at_outcome :: attempt_outcome
  at_stage :: "string option"
  at_errorClass :: "string option"
  at_detail :: "string option"
  at_inboundEnvelopeUri :: "string option"
  at_outboundPayloadUri :: "string option"
  at_nsResponseUri :: "string option"
  at_nsResponseStatus :: "int option"
  at_shopifyPayloadUri :: "string option"
  at_payloadDigest :: "jsobj option"
  at_startedAt :: int
  at_finishedAt :: int
  at_durationMs :: int

record attempt =
  att_id :: string
  att_data :: attempt_input
  att_createdAt :: int

text \<open>The store only appends; its counter is the number of rows.\<close>

definition att_record :: "int \<Rightarrow> attempt_input \<Rightarrow> attempt list \<Rightarrow> attempt \<times> attempt list" where
  "att_record now i rows = (let row = \<lparr>att_id = seq_id ''attempt_'' (Suc (length rows)),
     att_data = i, att_createdAt = now\<rparr> in (row, rows @ [row]))"

definition at_ref :: "attempt_input \<Rightarrow> order_ref" where
  "at_ref i = (at_environment i, at_connectionId i, at_orderGid i)"

definition att_listByOrderGid :: "order_ref \<Rightarrow> attempt list \<Rightarrow> attempt list" where
  "att_listByOrderGid k rows =
     sort_key (\<lambda>r. - int (at_deliveryCount (att_data r))) (filter (\<lambda>r. at_ref (att_data r) = k) rows)"

definition pg_att_listByOrderGid :: "order_ref \<Rightarrow> attempt list \<Rightarrow> attempt list" where
  "pg_att_listByOrderGid k rows = sort_key (\<lambda>r. - int (at_deliveryCount (att_data r)))
     (sort_key (\<lambda>r. - at_finishedAt (att_data r)) (filter (\<lambda>r. at_ref (att_data r) = k) rows))"

section \<open>Watermarks\<close>

record watermark_row =
  wm_environment :: environment
  wm_connectionId :: string
  wm_flow :: string
  wm_lastCursor :: "string option"
  wm_updatedAt :: int

definition watermark_get :: "order_ref \<Rightarrow> (string \<times> watermark_row) list \<Rightarrow> watermark_row option" where
  "watermark_get k rows = map_of rows (order_ref_key k)"

definition watermark_set ::
  "int \<Rightarrow> order_ref \<Rightarrow> string \<Rightarrow> (string \<times> watermark_row) list
   \<Rightarrow> watermark_row \<times> (string \<times> watermark_row) list" where
  "watermark_set now k cursor rows = (case k of (env, cid, flow) \<Rightarrow>
     let row = \<lparr>wm_environment = env, wm_connectionId = cid, wm_flow = flow,
       wm_lastCursor = Some cursor, wm_updatedAt = now\<rparr>
     in (row, AList.update (order_ref_key k) row rows))"

section \<open>Reconciliation snapshots\<close>

record snapshot_input =
  sn_environment :: environment
  sn_connectionId :: string
  sn_businessDate :: string
  sn_shopifyOrderCount :: nat
  sn_nsTxnCount :: nat
  sn_shopifyTotal :: string
  sn_nsTotal :: string
  sn_discrepancy :: "jsobj option"

record snapshot =
  sns_data :: snapshot_input
  sns_createdAt :: int

definition sn_ref :: "snapshot_input \<Rightarrow> order_ref" where
  "sn_ref i = (sn_environment i, sn_connectionId i, sn_businessDate i)"

definition recon_upsert ::
  "int \<Rightarrow> snapshot_input \<Rightarrow> (string \<times> snapshot) list \<Rightarrow> snapshot \<times> (string \<times> snapshot) list" where
  "recon_upsert now i rows = (let k = order_ref_key (sn_ref i);
     row = \<lparr>sns_data = i, sns_createdAt = (case map_of rows k of Some old \<Rightarrow> sns_createdAt old | None \<Rightarrow> now)\<rparr>
     in (row, AList.update k row rows))"

section \<open>The in-memory queue\<close>

record 'm queue_message =
  qm_id :: string
  qm_sessionId :: "string option"
  qm_body :: 'm
  qm_deliveryCount :: nat
  qm_enqueuedAt :: int

record 'm mem_queue =
  mq_buffer :: "'m queue_message list"
  mq_seq :: nat

definition queue_enqueue :: "int \<Rightarrow> string option \<Rightarrow> 'm \<Rightarrow> 'm mem_queue \<Rightarrow> 'm mem_queue" where
  "queue_enqueue now session body q = \<lparr>mq_buffer = mq_buffer q @
      [\<lparr>qm_id = seq_id ''msg_'' (Suc (mq_seq q)), qm_sessionId = session, qm_body = body,
        qm_deliveryCount = 0, qm_enqueuedAt = now\<rparr>],
     mq_seq = Suc (mq_seq q)\<rparr>"

definition queue_drain :: "'m mem_queue \<Rightarrow> 'm queue_message list \<times> 'm mem_queue" where
  "queue_drain q = (mq_buffer q, q\<lparr>mq_buffer := []\<rparr>)"

section \<open>The payload archive\<close>

datatype payload_kind = Outbound | NsResponse | ShopifyOrderBody

record payload_ctx =
  pc_environment :: environment
  pc_connectionId :: string
  pc_orderGid :: string
  pc_deliveryCount :: nat
  pc_nsAccountId :: "string option"
  pc_nsRecordType :: "string option"
  pc_attemptStartedAt :: int
  pc_kind :: payload_kind

fun kind_suffix :: "payload_kind \<Rightarrow> string" where
  "kind_suffix NsResponse = ''-response.json''"
| "kind_suffix ShopifyOrderBody = ''-shopify.json''"
| "kind_suffix Outbound = ''.json''"

definition safe_char :: "char \<Rightarrow> char" where
  "safe_char c = (if is_word_char c \<or> c = CHR ''-'' then c else CHR ''_'')"

definition path_stamp :: "int \<Rightarrow> string" where
  "path_stamp t = map (\<lambda>c. if c = CHR '':'' \<or> c = CHR ''.'' then CHR ''-'' else c) (toISOString t)"

definition pathFor :: "payload_ctx \<Rightarrow> string" where
  "pathFor ctx = (let oid = map safe_char (last (split_on (CHR ''/'') (pc_orderGid ctx)));
       d = utc_date (pc_attemptStartedAt ctx)
     in ''mem://outbound/'' @ pc_environment ctx @ ''/'' @ pc_connectionId ctx @ ''/''
        @ show_int (cv_year d) @ ''/'' @ pad2 (cv_month d) @ ''/'' @ pad2 (cv_day d) @ ''/''
        @ oid @ ''-attempt'' @ show_nat (pc_deliveryCount ctx) @ ''-''
        @ path_stamp (pc_attemptStartedAt ctx) @ kind_suffix (pc_kind ctx))"

section \<open>Secrets\<close>

definition env_getSecret :: "(string \<times> string) list \<Rightarrow> string \<Rightarrow> js_error + string" where
  "env_getSecret env ref = (case map_of env ref of
     None \<Rightarrow> Inl (plain_error (''EnvSecretProvider: secret '' @ quoted ref @ '' is not set in process.env''))
   | Some v \<Rightarrow> (if v = [] then Inl (plain_error
       (''EnvSecretProvider: secret '' @ quoted ref @ '' is not set in process.env'')) else Inr v))"

definition mem_getSecret :: "(string \<times> string) list \<Rightarrow> string \<Rightarrow> js_error + string" where
  "mem_getSecret secrets ref = (case map_of secrets ref of
     None \<Rightarrow> Inl (plain_error (''InMemorySecretProvider: secret '' @ quoted ref @ '' not seeded''))
   | Some v \<Rightarrow> Inr v)"

section \<open>Facts\<close>

lemma log_find_upsert_same:
  "fst (log_upsert now i s) = row \<Longrightarrow> log_find (sl_ref i) (snd (log_upsert now i s)) = Some row"
  by (auto simp: log_upsert_def log_find_def Let_def split: option.splits)

lemma log_upsert_data [simp]: "log_data (fst (log_upsert now i s)) = i"
  by (auto simp: log_upsert_def Let_def split: option.splits)

lemma pg_log_find_ref: "pg_log_find k t = Some r \<Longrightarrow> sl_ref (log_data r) = k"
  by (auto simp: pg_log_find_def find_Some_iff)

lemma sl_ref_merged [simp]: "sl_ref (pg_log_merged old i) = sl_ref i" "sl_ref (pg_log_inserted i) = sl_ref i"
  by (simp_all add: sl_ref_def pg_log_merged_def pg_log_inserted_def)

lemma find_snoc: "find P xs = None \<Longrightarrow> find P (xs @ [x]) = (if P x then Some x else None)"
  by (induction xs) (auto split: if_splits)

lemma find_map_replace:
  assumes "find P xs = Some x" and "P y" and "\<And>z. P z \<Longrightarrow> Q z" and "\<And>z. Q z \<Longrightarrow> P z"
  shows "find P (map (\<lambda>r. if Q r then y else r) xs) = Some y"
  using assms by (induction xs) (auto split: if_splits)

lemma pg_log_find_upsert_same:
  "pg_log_find (sl_ref i) (snd (pg_log_upsert now i t)) = Some (fst (pg_log_upsert now i t))"
proof (cases "pg_log_find (sl_ref i) t")
  case None
  then show ?thesis
    by (simp add: pg_log_upsert_def Let_def pg_log_find_def find_snoc)
next
  case (Some old)
  then show ?thesis
    by (auto simp: pg_log_upsert_def Let_def pg_log_find_def intro: find_map_replace)
qed

section \<open>What a sync log promises\<close>

text \<open>
  One row per order: an upsert is found again under its own reference, leaves the other orders
  alone, and the row carries the status of the input. \<open>usable\<close> restricts the references, since
  the in-memory store files a row under a string built from the three parts.
\<close>

locale order_log =
  fixes upsert :: "int \<Rightarrow> sync_log_input \<Rightarrow> 's \<Rightarrow> sync_log \<times> 's"
    and lookup :: "order_ref \<Rightarrow> 's \<Rightarrow> sync_log option"
    and usable :: "order_ref \<Rightarrow> bool"
  assumes found: "lookup (sl_ref i) (snd (upsert now i s)) = Some (fst (upsert now i s))"
    and others: "usable k \<Longrightarrow> usable (sl_ref i) \<Longrightarrow> k \<noteq> sl_ref i \<Longrightarrow>
      lookup k (snd (upsert now i s)) = lookup k s"
    and status: "sl_status (log_data (fst (upsert now i s))) = sl_status i"
begin

lemma history_status:
  assumes "usable k" and "\<forall>(now, i) \<in> set xs. usable (sl_ref i)"
  shows "map_option (\<lambda>r. sl_status (log_data r)) (lookup k (fold (\<lambda>(now, i) s. snd (upsert now i s)) xs s))
    = (case map_of (rev (map (\<lambda>(now, i). (sl_ref i, sl_status i)) xs)) k of
         Some st \<Rightarrow> Some st
       | None \<Rightarrow> map_option (\<lambda>r. sl_status (log_data r)) (lookup k s))"
  using assms(2)
proof (induction xs rule: rev_induct)
  case (snoc x xs)
  obtain now i where x: "x = (now, i)" by force
  then show ?case
    using snoc found others [OF assms(1), of i] status
    by (cases "k = sl_ref i") (auto split: option.splits)
qed simp

end

definition bar_free :: "order_ref \<Rightarrow> bool" where
  "bar_free k = (case k of (a, b, c) \<Rightarrow> CHR ''|'' \<notin> set a \<and> CHR ''|'' \<notin> set b \<and> CHR ''|'' \<notin> set c)"

lemma order_ref_key_inj:
  assumes "bar_free k" and "bar_free k'" and "order_ref_key k = order_ref_key k'"
  shows "k = k'"
proof -
  obtain a b c a' b' c' where k: "k = (a, b, c)" "k' = (a', b', c')" by (metis surj_pair)
  have "join ''|'' [a, b, c] = join ''|'' [a', b', c']"
    using assms(3) by (simp add: order_ref_key_def k)
  then have "[a, b, c] = [a', b', c']"
    using assms(1,2) by (intro join_inject [of "CHR ''|''"]) (auto simp: bar_free_def k)
  then show ?thesis by (simp add: k)
qed

interpretation mem_log: order_log log_upsert log_find bar_free
proof
  fix now i and s :: sync_log_store
  show "log_find (sl_ref i) (snd (log_upsert now i s)) = Some (fst (log_upsert now i s))"
    by (rule log_find_upsert_same) simp
  fix k
  assume "bar_free k" "bar_free (sl_ref i)" "k \<noteq> sl_ref i"
  then have "order_ref_key k \<noteq> order_ref_key (sl_ref i)" using order_ref_key_inj by blast
  then show "log_find k (snd (log_upsert now i s)) = log_find k s"
    by (auto simp: log_upsert_def log_find_def Let_def map_of_update split: option.splits)
qed simp

lemma find_append_other: "\<not> P x \<Longrightarrow> find P (xs @ [x]) = find P xs"
  by (induction xs) auto

lemma find_map_other:
  assumes "\<And>z. Q z \<Longrightarrow> \<not> P z" and "\<not> P y"
  shows "find P (map (\<lambda>r. if Q r then y else r) xs) = find P xs"
  using assms by (induction xs) auto

interpretation pg_log: order_log pg_log_upsert pg_log_find "\<lambda>_. True"
proof
  fix now i and t :: pg_log_table
  show "pg_log_find (sl_ref i) (snd (pg_log_upsert now i t)) = Some (fst (pg_log_upsert now i t))"
    by (rule pg_log_find_upsert_same)
  show "sl_status (log_data (fst (pg_log_upsert now i t))) = sl_status i"
    by (auto simp: pg_log_upsert_def Let_def pg_log_inserted_def pg_log_merged_def split: option.splits)
  fix k
  assume "k \<noteq> sl_ref i"
  then show "pg_log_find k (snd (pg_log_upsert now i t)) = pg_log_find k t"
    by (cases "pg_log_find (sl_ref i) t")
      (auto simp: pg_log_upsert_def Let_def pg_log_find_def find_append_other intro!: find_map_other)
qed

text \<open>
  The Postgres sync log never moves an order's attempt count backwards, whatever order the
  deliveries report in, and an upsert that carries no transaction id or sync time keeps the stored
  ones.
\<close>

theorem pg_log_monotone:
  assumes "pg_log_find (sl_ref i) t = Some old"
    and "pg_log_find (sl_ref i) (snd (pg_log_upsert now i t)) = Some new"
  shows "(\<forall>n. sl_attemptCount (log_data old) = Some n \<longrightarrow>
            (\<exists>m \<ge> n. sl_attemptCount (log_data new) = Some m))
    \<and> (sl_nsTranId i = None \<longrightarrow> sl_nsTranId (log_data new) = sl_nsTranId (log_data old))
    \<and> (sl_syncedAt i = None \<longrightarrow> sl_syncedAt (log_data new) = sl_syncedAt (log_data old))"
proof -
  have "log_data new = pg_log_merged (log_data old) i"
    using assms(2) unfolding pg_log_find_upsert_same
    by (auto simp: pg_log_upsert_def Let_def assms(1))
  then show ?thesis
    by (auto simp: pg_log_merged_def pg_log_inserted_def coalesce_def greatest_def split: option.splits)
qed

definition sample_log_input :: sync_log_input where
  "sample_log_input = \<lparr>sl_environment = ''dev'', sl_connectionId = ''c1'', sl_orderGid = ''g'',
     sl_orderId = ''1'', sl_orderName = None, sl_createdAt = None, sl_processedAt = None,
     sl_updatedAt = None, sl_customerEmail = None, sl_currencyCode = None, sl_totalPrice = None,
     sl_subtotalPrice = None, sl_totalTax = None, sl_totalDiscounts = None, sl_totalShipping = None,
     sl_status = SyncImported, sl_nsAccountId = None, sl_nsRecordType = None, sl_nsInternalId = None,
     sl_nsTranId = Some ''T1'', sl_parkStage = None, sl_parkDetail = None, sl_parkErrorClass = None,
     sl_ignoredReason = None, sl_syncedAt = Some 5, sl_attemptCount = Some 3,
     sl_lastDeliveryCount = None, sl_lastOutboundPayloadUri = None, sl_lastInboundEnvelopeUri = None\<rparr>"

definition sample_log_table :: pg_log_table where
  "sample_log_table = \<lparr>plt_rows = [\<lparr>log_id = ''1'', log_data = sample_log_input, log_createdAt = 5,
     log_updatedAt = 5\<rparr>], plt_seq = 1\<rparr>"

theorem pg_log_monotone_witness:
  "\<exists>m \<ge> 3. sl_attemptCount (log_data (fst (pg_log_upsert 9
     (sample_log_input\<lparr>sl_attemptCount := Some 1\<rparr>) sample_log_table))) = Some m"
proof -
  let ?j = "sample_log_input\<lparr>sl_attemptCount := Some 1\<rparr>"
  have r: "pg_log_find (sl_ref ?j) sample_log_table = Some \<lparr>log_id = ''1'', log_data = sample_log_input,
      log_createdAt = 5, log_updatedAt = 5\<rparr>"
    by (simp add: sl_ref_def pg_log_find_def sample_log_table_def)
  have c: "sl_attemptCount sample_log_input = Some 3" by (simp add: sample_log_input_def)
  show ?thesis
    using pg_log_monotone [OF r pg_log_find_upsert_same [of ?j 9 sample_log_table]] by (simp add: c)
qed

text \<open>The status of the last upsert for an order.\<close>

definition last_status :: "(int \<times> sync_log_input) list \<Rightarrow> order_ref \<Rightarrow> sync_status option" where
  "last_status us k = map_of (rev (map (\<lambda>(now, i). (sl_ref i, sl_status i)) us)) k"

text \<open>
  C35: both sync logs show, for every order, the status of the last upsert for that order and of no
  other, after any history of upserts: the Postgres one without any condition, the in-memory one when the
  references are without its key separator.
\<close>

theorem sync_log_shows_last_status:
  "(bar_free k \<longrightarrow> (\<forall>(now, i) \<in> set us. bar_free (sl_ref i)) \<longrightarrow>
      map_option (\<lambda>r. sl_status (log_data r)) (log_find k (fold (\<lambda>(now, i) s. snd (log_upsert now i s)) us empty_sync_log))
        = last_status us k)
    \<and> map_option (\<lambda>r. sl_status (log_data r))
       (pg_log_find k (fold (\<lambda>(now, i) s. snd (pg_log_upsert now i s)) us \<lparr>plt_rows = [], plt_seq = 0\<rparr>))
      = last_status us k"
  using mem_log.history_status [of k us empty_sync_log]
    pg_log.history_status [where k = k and xs = us and s = "\<lparr>plt_rows = [], plt_seq = 0\<rparr>"]
  by (auto simp: last_status_def empty_sync_log_def log_find_def pg_log_find_def split: option.splits)

theorem sync_log_shows_last_status_witness:
  "map_option (\<lambda>r. sl_status (log_data r))
     (log_find (''dev'', ''c1'', ''g'') (fold (\<lambda>(now, i) s. snd (log_upsert now i s))
        [(1, sample_log_input\<lparr>sl_status := SyncParked\<rparr>), (2, sample_log_input)] empty_sync_log))
   = Some SyncImported"
  using sync_log_shows_last_status [of "(''dev'', ''c1'', ''g'')"
      "[(1, sample_log_input\<lparr>sl_status := SyncParked\<rparr>), (2, sample_log_input)]"]
  by (simp add: last_status_def bar_free_def sl_ref_def sample_log_input_def)

text \<open>
  The in-memory sync log forgets what the Postgres one keeps: an upsert without a transaction
  id over a row that had one leaves the in-memory row without it, the Postgres row with it.
\<close>

theorem sync_logs_differ_on_tran_id:
  "sl_nsTranId (log_data (fst (log_upsert 9 (sample_log_input\<lparr>sl_nsTranId := None\<rparr>)
      (snd (log_upsert 5 sample_log_input empty_sync_log))))) = None
   \<and> sl_nsTranId (log_data (fst (pg_log_upsert 9 (sample_log_input\<lparr>sl_nsTranId := None\<rparr>)
      (snd (pg_log_upsert 5 sample_log_input \<lparr>plt_rows = [], plt_seq = 0\<rparr>))))) = Some ''T1''"
  by (simp add: pg_log_upsert_def Let_def pg_log_find_def pg_log_inserted_def pg_log_merged_def
      sl_ref_def sample_log_input_def coalesce_def)

end
