(* ===== verification/Telemetry.thy ===== *)
theory Telemetry
  imports CoreTypes
begin

text \<open>
  \<open>apps/functions/src/telemetry.ts\<close>: what the pipeline reports, and the custom metrics and events
  the Application Insights implementation sends for a report. Sending is a call into that package;
  the stub sends nothing.
\<close>

datatype telemetry_report =
    TrackImport environment string int
  | TrackPark environment string string string
  | TrackIgnored environment string string
  | TrackCatchupPoll environment string nat nat
  | TrackAuthError environment string string string
  | TrackReconciliationDrift environment string string int string

datatype insight =
    Metric (insight_name: string) (metric_value: int) (insight_props: jsobj)
  | CustomEvent (insight_name: string) (insight_props: jsobj)

definition baseProps :: "environment \<Rightarrow> string \<Rightarrow> jsobj" where
  "baseProps env cid = [(''environment'', JStr env), (''connectionId'', JStr cid)]"

fun app_insights :: "telemetry_report \<Rightarrow> insight list" where
  "app_insights (TrackImport env cid ms) =
     [Metric ''dpi.order.import.success'' 1 (baseProps env cid),
      Metric ''dpi.order.import.time_ms'' ms (baseProps env cid)]"
| "app_insights (TrackPark env cid stage cls) =
     [Metric ''dpi.order.import.parked'' 1
        (baseProps env cid @ [(''stage'', JStr stage), (''errorClass'', JStr cls)])]"
| "app_insights (TrackIgnored env cid reason) =
     [Metric ''dpi.order.import.ignored'' 1 (baseProps env cid @ [(''reason'', JStr reason)])]"
| "app_insights (TrackCatchupPoll env cid observed enqueued) =
     [Metric ''dpi.catchup.observed'' (int observed) (baseProps env cid),
      Metric ''dpi.catchup.enqueued'' (int enqueued) (baseProps env cid)]"
| "app_insights (TrackAuthError env cid flow message) =
     (let props = baseProps env cid @ [(''flow'', JStr flow), (''message'', JStr message)] in
      [Metric ''dpi.auth_error'' 1 props, CustomEvent ''dpi.auth_error'' props])"
| "app_insights (TrackReconciliationDrift env cid day countDiff totalDiff) =
     (let props = baseProps env cid @ [(''businessDate'', JStr day), (''countDiff'', JStr (show_int countDiff)),
        (''totalDiff'', JStr totalDiff)] in
      [Metric ''dpi.reconciliation.drift'' 1 props, CustomEvent ''dpi.reconciliation.drift'' props])"

end
