(* ===== verification/MappingEngine.thy ===== *)
theory MappingEngine
  imports JsValue
begin

text \<open>
  The field-map evaluator: \<open>packages/mapping-engine/src\<close> (\<open>primitives.ts\<close>, \<open>result.ts\<close>,
  \<open>evaluator.ts\<close>, \<open>registries.ts\<close>) and the SQL lookup resolver
  \<open>apps/functions/src/adapters/postgres-lookup-resolver.ts\<close>. The source document is a type
  parameter: \<open>as_js\<close> is how the evaluator's paths see it, and a derive function sees the document
  itself. A value copied from the source to the output is a copy here; the code copies the
  reference, which shows only when a later path writes below it.
\<close>

section \<open>Mappings and results\<close>

text \<open>
  Mappings from configuration are unchecked JSON. \<open>Malformed\<close> is an entry the evaluator throws on,
  with the error; the other constructors are the five kinds.
\<close>

datatype mapping =
    Direct (from_path: string) (to_path: string)
  | Constant jsval (to_path: string)
  | Lookup (table: string) (from_key: string) (to_path: string) (required: "bool option")
  | Derive (fn: string) (args: "jsobj option") (to_path: string)
  | Conditional (when_path: string) (when_equals: jsval) "mapping option" "mapping option"
  | Malformed js_error

record park_reason =
  pr_detail :: string
  pr_construct :: "string option"
  pr_evidence :: "jsobj option"

datatype 'a mapping_result = MapOk 'a | Park park_reason

section \<open>Paths\<close>

definition path_parts :: "string \<Rightarrow> string list" where
  "path_parts path = split_on (CHR ''.'') path"

fun get_parts :: "jsval \<Rightarrow> string list \<Rightarrow> jsval" where
  "get_parts cur [] = cur"
| "get_parts cur (p # ps) = (if is_obj cur then get_parts (get_prop cur p) ps else JUndef)"

definition getPath :: "jsval \<Rightarrow> string \<Rightarrow> jsval" where
  "getPath source path = (if path = [] then source else get_parts source (path_parts path))"

text \<open>
  \<open>cur[key] = v\<close> on an object or array. A named property of an array is not represented, and
  setting an index beyond the end extends the array.
\<close>

definition set_at :: "nat \<Rightarrow> jsval \<Rightarrow> jsval list \<Rightarrow> jsval list" where
  "set_at i v xs = (if i < length xs then xs[i := v] else xs @ replicate (i - length xs) JUndef @ [v])"

fun set_prop :: "jsval \<Rightarrow> string \<Rightarrow> jsval \<Rightarrow> jsval" where
  "set_prop (JObj ps) k v = JObj (oset k v ps)"
| "set_prop (JArr xs) k v = (case array_index k of Some i \<Rightarrow> JArr (set_at i v xs) | None \<Rightarrow> JArr xs)"
| "set_prop w k v = w"

fun set_parts :: "jsval \<Rightarrow> string list \<Rightarrow> jsval \<Rightarrow> jsval" where
  "set_parts cur [] v = cur"
| "set_parts cur [k] v = set_prop cur k v"
| "set_parts cur (k # k' # ks) v =
     (let next = get_prop cur k;
          start = (if is_obj next then next else JObj [])
      in set_prop cur k (set_parts start (k' # ks) v))"

fun obj_fields :: "jsval \<Rightarrow> jsobj" where
  "obj_fields (JObj ps) = ps"
| "obj_fields _ = []"

definition setPath :: "jsobj \<Rightarrow> string \<Rightarrow> jsval \<Rightarrow> js_error + jsobj" where
  "setPath out path v = (if path = [] then Inl (plain_error ''setPath: path must be non-empty'')
     else Inr (obj_fields (set_parts (JObj out) (path_parts path) v)))"

section \<open>The evaluator\<close>

type_synonym 'w lookup_resolver = "string \<Rightarrow> string \<Rightarrow> ('w, string option) io"
type_synonym 's derive_fn = "jsobj \<Rightarrow> 's \<Rightarrow> js_error + jsval"

record ('w, 's) evaluator_ctx =
  ev_lookups :: "'w lookup_resolver"
  ev_derives :: "string \<Rightarrow> 's derive_fn option"
  ev_as_js :: "'s \<Rightarrow> jsval"

definition put :: "jsobj \<Rightarrow> string \<Rightarrow> jsval \<Rightarrow> ('w, jsobj mapping_result) io" where
  "put out to v = bnd (lift_sum (setPath out to v)) (\<lambda>out'. ret (MapOk out'))"

definition applyDirect :: "jsval \<Rightarrow> string \<Rightarrow> string \<Rightarrow> jsobj \<Rightarrow> ('w, jsobj mapping_result) io" where
  "applyDirect source from to out = put out to (getPath source from)"

definition applyConstant :: "jsval \<Rightarrow> string \<Rightarrow> jsobj \<Rightarrow> ('w, jsobj mapping_result) io" where
  "applyConstant v to out = put out to v"

definition lookup_missing_key :: "string \<Rightarrow> string \<Rightarrow> park_reason" where
  "lookup_missing_key tbl key = \<lparr>pr_detail = ''lookup '' @ quoted tbl @ '': source key '' @ quoted key @ '' missing'',
     pr_construct = Some key, pr_evidence = None\<rparr>"

definition lookup_no_row :: "string \<Rightarrow> string \<Rightarrow> jsval \<Rightarrow> park_reason" where
  "lookup_no_row tbl key v = \<lparr>pr_detail = ''lookup '' @ quoted tbl @ '' has no row for key '' @ quoted (to_str v),
     pr_construct = Some tbl, pr_evidence = Some [(key, v)]\<rparr>"

definition applyLookup :: "jsval \<Rightarrow> 'w lookup_resolver \<Rightarrow> string \<Rightarrow> string \<Rightarrow> string \<Rightarrow> bool option
    \<Rightarrow> jsobj \<Rightarrow> ('w, jsobj mapping_result) io" where
  "applyLookup source lookups tbl fromKey to req out =
     (let key = getPath source fromKey in
      if nullish key then
        (if req \<noteq> Some False then ret (Park (lookup_missing_key tbl fromKey)) else put out to JNull)
      else bnd (lookups tbl (to_str key)) (\<lambda>resolved. case resolved of
          None \<Rightarrow> (if req \<noteq> Some False then ret (Park (lookup_no_row tbl fromKey key)) else put out to JNull)
        | Some v \<Rightarrow> put out to (JStr v)))"

definition unregistered_fn :: "string \<Rightarrow> string \<Rightarrow> js_error" where
  "unregistered_fn f to = plain_error (''mapping evaluator: derive fn '' @ quoted f
     @ '' is not registered (referenced by mapping '' @ [CHR 0xE2, CHR 0x86, CHR 0x92] @ '' '' @ quoted to @ '')'')"

definition applyDerive :: "('w, 's) evaluator_ctx \<Rightarrow> 's \<Rightarrow> string \<Rightarrow> jsobj option \<Rightarrow> string
    \<Rightarrow> jsobj \<Rightarrow> ('w, jsobj mapping_result) io" where
  "applyDerive ctx source f as to out = (case ev_derives ctx f of
     None \<Rightarrow> throw (unregistered_fn f to)
   | Some g \<Rightarrow> bnd (lift_sum (g (case as of None \<Rightarrow> [] | Some a \<Rightarrow> a) source)) (\<lambda>v. put out to v))"

fun applyMapping :: "('w, 's) evaluator_ctx \<Rightarrow> 's \<Rightarrow> mapping \<Rightarrow> jsobj \<Rightarrow> ('w, jsobj mapping_result) io" where
  "applyMapping ctx source (Direct from to) out = applyDirect (ev_as_js ctx source) from to out"
| "applyMapping ctx source (Constant v to) out = applyConstant v to out"
| "applyMapping ctx source (Lookup tbl key to req) out =
     applyLookup (ev_as_js ctx source) (ev_lookups ctx) tbl key to req out"
| "applyMapping ctx source (Derive f as to) out = applyDerive ctx source f as to out"
| "applyMapping ctx source (Conditional path eq thn els) out =
     (if strict_eq (getPath (ev_as_js ctx source) path) eq
      then (case thn of None \<Rightarrow> ret (MapOk out) | Some m \<Rightarrow> applyMapping ctx source m out)
      else (case els of None \<Rightarrow> ret (MapOk out) | Some m \<Rightarrow> applyMapping ctx source m out))"
| "applyMapping ctx source (Malformed e) out = throw e"

fun eval_from :: "('w, 's) evaluator_ctx \<Rightarrow> 's \<Rightarrow> mapping list \<Rightarrow> jsobj \<Rightarrow> ('w, jsobj mapping_result) io" where
  "eval_from ctx source [] out = ret (MapOk out)"
| "eval_from ctx source (m # ms) out = bnd (applyMapping ctx source m out) (\<lambda>r. case r of
     Park p \<Rightarrow> ret (Park p)
   | MapOk out' \<Rightarrow> eval_from ctx source ms out')"

definition evaluate :: "('w, 's) evaluator_ctx \<Rightarrow> 's \<Rightarrow> mapping list \<Rightarrow> ('w, jsobj mapping_result) io" where
  "evaluate ctx source ms = eval_from ctx source ms []"

section \<open>Mappings from configuration\<close>

definition type_error :: "string \<Rightarrow> js_error" where
  "type_error msg = plain_error msg"

definition bad_path :: "jsval \<Rightarrow> js_error" where
  "bad_path v = (if nullish v
     then type_error (''Cannot read properties of '' @ to_str v @ '' (reading '' @ quoted ''length'' @ '')'')
     else type_error ''path.split is not a function'')"

fun path_field :: "jsval \<Rightarrow> (string \<Rightarrow> mapping) \<Rightarrow> mapping" where
  "path_field (JStr s) f = f s"
| "path_field v f = Malformed (bad_path v)"

text \<open>
  One entry of \<open>extraOrderHeaderMappings\<close>. An entry of another kind makes \<open>applyMapping\<close> return
  \<open>undefined\<close>, on which the evaluator's \<open>r.ok\<close> throws. The fuel is the nesting depth of the value,
  which the branches of a conditional use up one level at a time.
\<close>

fun js_depth :: "jsval \<Rightarrow> nat" and elems_depth :: "jsval list \<Rightarrow> nat"
  and members_depth :: "(string \<times> jsval) list \<Rightarrow> nat" where
  "js_depth (JArr xs) = Suc (elems_depth xs)"
| "js_depth (JObj ps) = Suc (members_depth ps)"
| "js_depth _ = 0"
| "elems_depth [] = 0"
| "elems_depth (x # xs) = max (js_depth x) (elems_depth xs)"
| "members_depth [] = 0"
| "members_depth ((k, v) # ps) = max (js_depth v) (members_depth ps)"

definition no_kind :: mapping where
  "no_kind = Malformed (type_error (''Cannot read properties of undefined (reading '' @ quoted ''ok'' @ '')''))"

definition bool_field :: "jsval \<Rightarrow> bool option" where
  "bool_field v = (if v = JBool False then Some False else if v = JBool True then Some True else None)"

fun decode_mapping :: "nat \<Rightarrow> jsval \<Rightarrow> mapping" where
  "decode_mapping 0 v = no_kind"
| "decode_mapping (Suc n) v =
     (if nullish v then Malformed (type_error (''Cannot read properties of '' @ to_str v @ '' (reading '' @ quoted ''kind'' @ '')''))
      else if get_prop v ''kind'' = JStr ''direct'' then
        path_field (get_prop v ''from'') (\<lambda>from. path_field (get_prop v ''to'') (\<lambda>to. Direct from to))
      else if get_prop v ''kind'' = JStr ''constant'' then
        path_field (get_prop v ''to'') (\<lambda>to. Constant (get_prop v ''value'') to)
      else if get_prop v ''kind'' = JStr ''lookup'' then
        path_field (get_prop v ''fromKey'') (\<lambda>key. path_field (get_prop v ''to'') (\<lambda>to.
          Lookup (to_str (get_prop v ''table'')) key to (bool_field (get_prop v ''required''))))
      else if get_prop v ''kind'' = JStr ''derive'' then
        path_field (get_prop v ''to'') (\<lambda>to. Derive (to_str (get_prop v ''fn''))
          (case get_prop v ''args'' of JObj a \<Rightarrow> Some a | _ \<Rightarrow> None) to)
      else if get_prop v ''kind'' = JStr ''conditional'' then
        path_field (get_prop (get_prop v ''when'') ''path'') (\<lambda>path. Conditional path (get_prop (get_prop v ''when'') ''equals'')
          (if truthy (get_prop v ''then'') then Some (decode_mapping n (get_prop v ''then'')) else None)
          (if truthy (get_prop v ''else'') then Some (decode_mapping n (get_prop v ''else'')) else None))
      else no_kind)"

definition parse_mapping :: "jsval \<Rightarrow> mapping" where
  "parse_mapping v = decode_mapping (Suc (js_depth v)) v"

section \<open>Registries\<close>

text \<open>The in-memory resolver: rows keyed by lower-cased table and key.\<close>

definition lookup_row_key :: "string \<Rightarrow> string \<Rightarrow> string" where
  "lookup_row_key tbl key = to_lower tbl @ ''|'' @ key"

definition new_lookups :: "(string \<times> (string \<times> string) list) list \<Rightarrow> (string \<times> string) list" where
  "new_lookups seed = fold (\<lambda>(tbl, entries) rows.
     fold (\<lambda>(k, v) rows. AList.update (lookup_row_key tbl k) v rows) entries rows) seed []"

definition lookups_resolve :: "(string \<times> string) list \<Rightarrow> 'w lookup_resolver" where
  "lookups_resolve rows tbl key = ret (map_of rows (lookup_row_key tbl key))"

definition lookups_set ::
  "string \<Rightarrow> string \<Rightarrow> string \<Rightarrow> (string \<times> string) list \<Rightarrow> (string \<times> string) list" where
  "lookups_set tbl key v rows = AList.update (lookup_row_key tbl key) v rows"

text \<open>
  The SQL resolver, bound to a connection. \<open>select\<close> is the query on the named columns of the
  connection's rows; a lookup that misses is cached as well.
\<close>

definition TABLES :: "(string \<times> (string \<times> string)) list" where
  "TABLES = [(''lookup_payment_method'', (''shopify_gateway'', ''ns_account_id'')),
     (''lookup_ship_method'', (''shopify_shipping_title'', ''ns_ship_item_id'')),
     (''lookup_tax'', (''shopify_tax_title'', ''ns_tax_code_id'')),
     (''lookup_location'', (''shopify_location_id'', ''ns_location_id'')),
     (''lookup_currency'', (''currency_code'', ''ns_currency_id''))]"

type_synonym lookup_cache = "(string \<times> string option) list"

definition pg_resolve :: "(string \<Rightarrow> string \<times> string \<Rightarrow> string \<Rightarrow> ('w, string option) io) \<Rightarrow> bool
    \<Rightarrow> (lookup_cache \<times> 'w) lookup_resolver" where
  "pg_resolve select cacheEnabled tbl key = (\<lambda>(cache, w). case map_of TABLES tbl of
     None \<Rightarrow> (Inl (plain_error (''PostgresLookupResolver: unknown lookup table '' @ quoted tbl)), (cache, w))
   | Some meta \<Rightarrow> (let cacheKey = tbl @ ''|'' @ key in
       case (if cacheEnabled then map_of cache cacheKey else None) of
         Some v \<Rightarrow> (Inr v, (cache, w))
       | None \<Rightarrow> (case select tbl meta key w of
           (Inl e, w') \<Rightarrow> (Inl e, (cache, w'))
         | (Inr v, w') \<Rightarrow> (Inr v, (if cacheEnabled then AList.update cacheKey v cache else cache, w')))))"

section \<open>Facts on paths\<close>

definition obj_path :: "string list \<Rightarrow> jsval \<Rightarrow> bool" where
  "obj_path ks v \<longleftrightarrow> (\<forall>n < length ks. \<forall>xs. get_parts v (take n ks) \<noteq> JArr xs)"

lemma obj_path_Cons: "obj_path (k # ks) v \<Longrightarrow> is_obj v \<Longrightarrow> ks \<noteq> [] \<Longrightarrow> obj_path ks (get_prop v k)"
  unfolding obj_path_def by (metis Suc_less_eq get_parts.simps(2) length_Cons take_Suc_Cons)

lemma obj_path_head: "obj_path (k # ks) v \<Longrightarrow> v \<noteq> JArr xs"
  unfolding obj_path_def by (metis get_parts.simps(1) length_greater_0_conv list.distinct(1) take0)

lemma get_parts_undef: "get_parts JUndef ps = JUndef"
  by (cases ps) auto

lemma get_parts_empty: "get_parts (JObj []) ps = (if ps = [] then JObj [] else JUndef)"
  by (cases ps; cases "tl ps") (auto simp: get_parts_undef)

lemma obj_path_empty: "obj_path ks (JObj [])"
  by (simp add: obj_path_def get_parts_empty)

lemma set_parts_obj: "ks \<noteq> [] \<Longrightarrow> \<exists>qs. set_parts (JObj ps) ks v = JObj qs"
  by (cases ks rule: remdups_adj.cases) (auto simp: Let_def)

lemma get_set_parts:
  "ks \<noteq> [] \<Longrightarrow> obj_path ks (JObj ps) \<Longrightarrow> get_parts (set_parts (JObj ps) ks v) ks = v"
proof (induction ks arbitrary: ps)
  case (Cons k ks)
  show ?case
  proof (cases ks)
    case (Cons k' ks')
    let ?n = "get_prop (JObj ps) k"
    have p: "obj_path ks ?n"
      using obj_path_Cons [OF Cons.prems(2)] Cons by simp
    obtain qs where s: "(if is_obj ?n then ?n else JObj []) = JObj qs"
      using obj_path_head [of k' ks' ?n] p Cons by (cases ?n) auto
    have "obj_path ks (JObj qs)"
      using p s obj_path_empty by (auto split: if_splits)
    then have "get_parts (set_parts (JObj qs) ks v) ks = v"
      using Cons.IH [of qs] Cons by simp
    then show ?thesis using s Cons by (auto simp: Let_def split: if_splits)
  qed simp
qed simp

lemma path_parts_nonempty [simp]: "path_parts p \<noteq> []"
  by (simp add: path_parts_def)

text \<open>A write leaves every path alone that starts with another key, and paths that part from it lower down.\<close>

fun diverge :: "string list \<Rightarrow> string list \<Rightarrow> bool" where
  "diverge (a # as) (b # bs) = (a \<noteq> b \<or> diverge as bs)"
| "diverge _ _ = False"

lemma get_set_parts_other:
  "diverge ks js \<Longrightarrow> obj_path ks (JObj ps) \<Longrightarrow>
     get_parts (set_parts (JObj ps) ks v) js = get_parts (JObj ps) js"
proof (induction ks js arbitrary: ps rule: diverge.induct)
  case (1 a as b bs)
  show ?case
  proof (cases "as = []")
    case True
    with 1 show ?thesis by auto
  next
    case False
    then obtain k ks where as: "as = k # ks" by (cases as) auto
    let ?n = "get_prop (JObj ps) a"
    have p: "obj_path as ?n"
      using obj_path_Cons [OF "1.prems"(2)] False by simp
    obtain qs where s: "(if is_obj ?n then ?n else JObj []) = JObj qs"
      using obj_path_head [of k ks ?n] p as by (cases ?n) auto
    have op: "obj_path as (JObj qs)"
      using p s obj_path_empty by (auto split: if_splits)
    have sp: "set_parts (JObj ps) (a # as) v = JObj (oset a (set_parts (JObj qs) as v) ps)"
      unfolding as set_parts.simps Let_def s set_prop.simps by (rule refl)
    show ?thesis
    proof (cases "a = b")
      case True
      then have d: "diverge as bs" using "1.prems" by simp
      then obtain b' bs' where bs: "bs = b' # bs'" using as by (cases bs) auto
      have "get_parts (set_parts (JObj qs) as v) bs = get_parts (JObj qs) bs"
        using "1.IH" [OF d op] .
      moreover have "get_parts (JObj qs) bs = get_parts ?n bs"
      proof (cases "is_obj ?n")
        case True
        with s show ?thesis by simp
      next
        case False
        with s have "qs = []" by simp
        with False bs show ?thesis by (simp add: get_parts_undef)
      qed
      ultimately show ?thesis unfolding sp by (simp add: True)
    next
      case False
      then show ?thesis unfolding sp by simp
    qed
  qed
qed simp_all

lemma obj_fields_set: "ks \<noteq> [] \<Longrightarrow> JObj (obj_fields (set_parts (JObj ps) ks v)) = set_parts (JObj ps) ks v"
  using set_parts_obj [of ks ps v] by auto

text \<open>
  Reading back what was written: unless a path runs through an array, a value set at a dotted
  path is what \<open>getPath\<close> finds there, and every path that parts from it keeps its value.
\<close>

theorem getPath_setPath:
  assumes "setPath out path v = Inr out'" and "obj_path (path_parts path) (JObj out)"
  shows "getPath (JObj out') path = v
    \<and> (\<forall>other. other \<noteq> [] \<longrightarrow> diverge (path_parts path) (path_parts other) \<longrightarrow>
          getPath (JObj out') other = getPath (JObj out) other)"
proof -
  have ne: "path \<noteq> []" and o': "JObj out' = set_parts (JObj out) (path_parts path) v"
    using assms(1) obj_fields_set [of "path_parts path" out v] by (auto simp: setPath_def split: if_splits)
  show ?thesis
    using ne get_set_parts [OF _ assms(2)] get_set_parts_other [OF _ assms(2)]
    by (simp add: getPath_def o')
qed

theorem getPath_setPath_witness:
  "getPath (JObj (obj_fields (set_parts (JObj [(''a'', JNull)]) [''b'', ''c''] (JStr ''x'')))) ''b.c'' = JStr ''x''"
proof -
  have "path_parts ''b.c'' = [''b'', ''c'']" by (simp add: path_parts_def)
  then show ?thesis
    using getPath_setPath [of "[(''a'', JNull)]" "''b.c''" "JStr ''x''"]
    by (auto simp: setPath_def obj_path_def get_parts_undef oget_Cons less_Suc_eq)
qed

section \<open>Park, do not guess\<close>

text \<open>The fields of the output a mapping may write to.\<close>

fun top_fields :: "mapping \<Rightarrow> string set" where
  "top_fields (Direct from to) = {hd (path_parts to)}"
| "top_fields (Constant v to) = {hd (path_parts to)}"
| "top_fields (Lookup t k to req) = {hd (path_parts to)}"
| "top_fields (Derive f as to) = {hd (path_parts to)}"
| "top_fields (Conditional path eq thn els) =
     (case thn of None \<Rightarrow> {} | Some m \<Rightarrow> top_fields m) \<union> (case els of None \<Rightarrow> {} | Some m \<Rightarrow> top_fields m)"
| "top_fields (Malformed e) = {}"

lemma put_result: "put out to v w = (Inr r, w') \<Longrightarrow> w' = w \<and> (\<exists>out'. r = MapOk out' \<and> setPath out to v = Inr out')"
  by (auto simp: put_def bnd_app split: sum.splits)

lemma setPath_other:
  assumes "setPath out path v = Inr out'" and "k \<noteq> hd (path_parts path)"
  shows "oget out' k = oget out k"
proof -
  obtain p ps where p: "path_parts path = p # ps" by (cases "path_parts path") simp_all
  then show ?thesis
    using assms by (cases ps) (auto simp: setPath_def Let_def split: if_splits)
qed

lemma put_other: "put out to v w = (Inr (MapOk out'), w') \<Longrightarrow> k \<noteq> hd (path_parts to) \<Longrightarrow> oget out' k = oget out k"
  by (auto dest!: put_result intro: setPath_other)

lemma applyMapping_writes:
  "applyMapping ctx src m out w = (Inr (MapOk out'), w') \<Longrightarrow> k \<notin> top_fields m \<Longrightarrow> oget out' k = oget out k"
proof (induction m)
  case (Conditional path eq thn els)
  then show ?case by (auto split: if_splits option.splits)
qed (auto simp: applyDirect_def applyConstant_def applyLookup_def applyDerive_def Let_def bnd_app
      split: if_splits option.splits prod.splits sum.splits intro: put_other)

lemma eval_from_append:
  "eval_from ctx s (ms @ ns) out = bnd (eval_from ctx s ms out) (\<lambda>r. case r of
     Park p \<Rightarrow> ret (Park p) | MapOk out' \<Rightarrow> eval_from ctx s ns out')"
proof (induction ms arbitrary: out)
  case (Cons m ms)
  then show ?case
    by (auto simp: bnd_assoc fun_eq_iff intro!: arg_cong2 [where f = bnd] split: mapping_result.splits)
       (auto simp: bnd_def split: prod.splits sum.splits mapping_result.splits)
qed simp

lemma eval_from_writes:
  "eval_from ctx src ms out w = (Inr (MapOk out'), w') \<Longrightarrow> k \<notin> \<Union> (top_fields ` set ms) \<Longrightarrow> oget out' k = oget out k"
proof (induction ms arbitrary: out w)
  case (Cons m ms)
  obtain o1 w1 where m: "applyMapping ctx src m out w = (Inr (MapOk o1), w1)"
    and ms: "eval_from ctx src ms o1 w1 = (Inr (MapOk out'), w')"
    using Cons.prems(1) by (auto simp: bnd_app split: prod.splits sum.splits mapping_result.splits)
  show ?case using Cons.IH [OF ms] applyMapping_writes [OF m] Cons.prems(2) by auto
qed simp

lemma evaluate_prefix:
  assumes "evaluate ctx src ms w = (Inr (MapOk o1), w1)"
  shows "evaluate ctx src (ms @ ns) w = eval_from ctx src ns o1 w1"
  using assms by (simp add: evaluate_def eval_from_append bnd_app)

text \<open>
  C36: the evaluator never improvises. Whatever resolver it is given, and once the mappings before a
  required lookup have succeeded: without the key in the source the run parks and names the key; with a key
  for which the resolver has no row it parks and names the table; when the resolver fails it fails with the
  same error; and the row the resolver found stands in the output at the mapping's field, unless a later
  mapping writes that field again (for a target that is one field of the payload, as in the default maps).
\<close>

theorem evaluate_required_lookups:
  assumes "evaluate ctx src ms w = (Inr (MapOk o1), w1)" and "req \<noteq> Some False"
  shows "let key = getPath (ev_as_js ctx src) k; run = evaluate ctx src (ms @ Lookup t k to req # ns) w in
    if nullish key then run = (Inr (Park (lookup_missing_key t k)), w1)
    else (case ev_lookups ctx t (to_str key) w1 of
        (Inl e, w2) \<Rightarrow> run = (Inl e, w2)
      | (Inr None, w2) \<Rightarrow> run = (Inr (Park (lookup_no_row t k key)), w2)
      | (Inr (Some v), w2) \<Rightarrow> \<forall>out w'. run = (Inr (MapOk out), w') \<longrightarrow> to \<noteq> [] \<longrightarrow> CHR ''.'' \<notin> set to
          \<longrightarrow> to \<notin> \<Union> (top_fields ` set ns) \<longrightarrow> oget out to = JStr v)"
proof -
  have written: "oget out to = JStr v"
    if put_ok: "put o1 to (JStr v) w2 = (Inr r, w3)"
      and rest: "(case r of Park p \<Rightarrow> ret (Park p) | MapOk o2 \<Rightarrow> eval_from ctx src ns o2) w3 = (Inr (MapOk out), w')"
      and to: "to \<noteq> []" "CHR ''.'' \<notin> set to" "\<forall>m \<in> set ns. to \<notin> top_fields m" for v w2 r w3 out w'
  proof -
    have "path_parts to = [to]" using to(2) by (simp add: path_parts_def split_on_free)
    then have "r = MapOk (oset to (JStr v) o1)"
      using put_ok to(1) by (simp add: put_def setPath_def bnd_app)
    then show ?thesis using eval_from_writes [of ctx src ns "oset to (JStr v) o1" w3 out w' to] rest to(3) by simp
  qed
  show ?thesis
    using assms(2)
    by (auto simp: Let_def evaluate_prefix [OF assms(1)] applyLookup_def bnd_app split: prod.splits sum.splits option.splits
        intro: written)
qed

text \<open>So an output means that every required lookup had its key and its row.\<close>

corollary output_means_rows:
  assumes "evaluate ctx src (ms @ Lookup t k to req # ns) w = (Inr (MapOk out), w')" and "req \<noteq> Some False"
  shows "\<exists>o1 w1 v w2. evaluate ctx src ms w = (Inr (MapOk o1), w1) \<and> \<not> nullish (getPath (ev_as_js ctx src) k)
    \<and> ev_lookups ctx t (to_str (getPath (ev_as_js ctx src) k)) w1 = (Inr (Some v), w2)"
  using assms unfolding evaluate_def eval_from_append
  by (auto simp: bnd_app applyLookup_def Let_def split: prod.splits sum.splits mapping_result.splits if_splits option.splits)

definition sample_ctx :: "(unit, jsval) evaluator_ctx" where
  "sample_ctx = \<lparr>ev_lookups = lookups_resolve [(''t|USD'', ''1'')], ev_derives = (\<lambda>_. None), ev_as_js = (\<lambda>v. v)\<rparr>"

lemma sample_currency: "getPath (JObj [(''cur'', JStr ''USD'')]) ''cur'' = JStr ''USD''"
  by (simp add: getPath_def path_parts_def oget_Cons)

theorem evaluate_required_lookups_witness:
  "\<exists>out w'. evaluate sample_ctx (JObj [(''cur'', JStr ''USD'')]) [Lookup ''t'' ''cur'' ''currency'' None, Constant (JBool True) ''done''] ()
      = (Inr (MapOk out), w') \<and> oget out ''currency'' = JStr ''1''"
proof -
  let ?src = "JObj [(''cur'', JStr ''USD'')]" and ?ns = "[Constant (JBool True) ''done'']"
  have parts: "path_parts ''currency'' = [''currency'']" "path_parts ''done'' = [''done'']"
    by (simp_all add: path_parts_def)
  have row: "ev_lookups sample_ctx ''t'' ''USD'' () = (Inr (Some ''1''), ())"
    by (simp add: sample_ctx_def lookups_resolve_def lookup_row_key_def to_lower_def lower_char_def is_upper_def)
  have id: "ev_as_js sample_ctx ?src = ?src" by (simp add: sample_ctx_def)
  obtain out w' where run: "evaluate sample_ctx ?src ([] @ Lookup ''t'' ''cur'' ''currency'' None # ?ns) () = (Inr (MapOk out), w')"
    using row by (simp add: evaluate_def applyLookup_def applyConstant_def id sample_currency bnd_app nullish_def put_def setPath_def parts)
  have start: "evaluate sample_ctx ?src [] () = (Inr (MapOk []), ())" by (simp add: evaluate_def)
  have "oget out ''currency'' = JStr ''1''"
    using evaluate_required_lookups [OF start, of None "''cur''" "''t''" "''currency''" ?ns] run
    by (simp add: Let_def id sample_currency nullish_def row parts)
  with run show ?thesis by auto
qed

end
