(* ===== verification/ShopifyOrder.thy ===== *)
theory ShopifyOrder
  imports CoreTypes
begin

text \<open>
  The order model of \<open>packages/shopify-client/src/order.ts\<close>, its view as a JavaScript object, and
  the translation of the Admin GraphQL response (\<open>http-gateway.ts\<close>, the mapping functions). An
  optional field is an \<open>option\<close>; GraphQL's \<open>null\<close> in an optional string counts as absent.
\<close>

section \<open>The order\<close>

record money =
  amount :: string
  currencyCode :: string

text \<open>A text that may be missing, or there and \<open>null\<close>.\<close>

datatype text_field = Absent | NullText | Text string

text \<open>The text where \<open>null\<close> and \<open>undefined\<close> are the same to the reader: \<open>x ?? y\<close>, \<open>if (x)\<close>.\<close>

definition field_str :: "text_field \<Rightarrow> string option" where
  "field_str f = (case f of Text s \<Rightarrow> Some s | _ \<Rightarrow> None)"

text \<open>\<open>if (x !== undefined) out[k] = x\<close>\<close>

definition field_prop :: "string \<Rightarrow> text_field \<Rightarrow> jsobj" where
  "field_prop k f = (case f of Absent \<Rightarrow> [] | NullText \<Rightarrow> [(k, JNull)] | Text s \<Rightarrow> [(k, JStr s)])"

lemma field_str_simps [simp]: "field_str (Text s) = Some s" "field_str NullText = None" "field_str Absent = None"
  by (simp_all add: field_str_def)

lemma field_prop_simps [simp]:
  "field_prop k (Text s) = [(k, JStr s)]" "field_prop k NullText = [(k, JNull)]" "field_prop k Absent = []"
  by (simp_all add: field_prop_def)

record address =
  ad_id :: text_field
  ad_firstName :: text_field
  ad_lastName :: text_field
  ad_company :: text_field
  ad_address1 :: text_field
  ad_address2 :: text_field
  ad_city :: text_field
  ad_province :: text_field
  ad_provinceCode :: text_field
  ad_country :: text_field
  ad_countryCode :: text_field
  ad_zip :: text_field
  ad_phone :: text_field

record shopify_customer =
  cu_id :: string
  cu_email :: text_field
  cu_firstName :: text_field
  cu_lastName :: text_field
  cu_defaultAddress :: "address option"

record tax_line =
  tl_title :: string
  tl_rate :: jsnum
  tl_price :: money

record discount_allocation =
  da_allocatedAmount :: money
  da_discountTitle :: "string option"

record line_item =
  li_id :: string
  li_title :: string
  li_variantId :: "string option"
  li_sku :: "string option"
  li_quantity :: int
  li_originalUnitPrice :: money
  li_discountedTotal :: money
  li_discountAllocations :: "discount_allocation list"

record shipping_line =
  sh_id :: string
  sh_title :: string
  sh_source :: text_field
  sh_carrierIdentifier :: text_field
  sh_price :: money
  sh_taxLines :: "tax_line list"

datatype transaction_kind = Sale | Authorization | Capture | RefundKind | VoidKind | Change
datatype transaction_status = Success | PendingStatus | Failure | ErrorStatus

record transaction =
  tx_id :: string
  tx_kind :: transaction_kind
  tx_status :: transaction_status
  tx_gateway :: string
  tx_amount :: money
  tx_processedAt :: string

datatype financial_status =
  FPending | FAuthorized | FPartiallyPaid | FPaid | FPartiallyRefunded | FRefunded | FVoided

datatype fulfillment_status = Unfulfilled | Partial | Fulfilled | Restocked

record shopify_order =
  so_id :: string
  so_name :: string
  so_createdAt :: string
  so_updatedAt :: string
  so_processedAt :: string
  so_currencyCode :: string
  so_totalPrice :: money
  so_subtotalPrice :: money
  so_totalTax :: money
  so_totalShippingPrice :: money
  so_totalDiscounts :: money
  so_financialStatus :: financial_status
  so_fulfillmentStatus :: "fulfillment_status option"
  so_test :: bool
  so_fraudHold :: bool
  so_customer :: "shopify_customer option"
  so_lineItems :: "line_item list"
  so_shippingLines :: "shipping_line list"
  so_taxLines :: "tax_line list"
  so_transactions :: "transaction list"
  so_billingAddress :: "address option"
  so_shippingAddress :: "address option"
  so_locationId :: "string option"
  so_note :: "string option"
  so_tags :: "string list option"

fun financial_str :: "financial_status \<Rightarrow> string" where
  "financial_str FPending = ''pending''"
| "financial_str FAuthorized = ''authorized''"
| "financial_str FPartiallyPaid = ''partially_paid''"
| "financial_str FPaid = ''paid''"
| "financial_str FPartiallyRefunded = ''partially_refunded''"
| "financial_str FRefunded = ''refunded''"
| "financial_str FVoided = ''voided''"

fun fulfillment_str :: "fulfillment_status \<Rightarrow> string" where
  "fulfillment_str Unfulfilled = ''unfulfilled''"
| "fulfillment_str Partial = ''partial''"
| "fulfillment_str Fulfilled = ''fulfilled''"
| "fulfillment_str Restocked = ''restocked''"

fun tx_kind_str :: "transaction_kind \<Rightarrow> string" where
  "tx_kind_str Sale = ''sale''"
| "tx_kind_str Authorization = ''authorization''"
| "tx_kind_str Capture = ''capture''"
| "tx_kind_str RefundKind = ''refund''"
| "tx_kind_str VoidKind = ''void''"
| "tx_kind_str Change = ''change''"

fun tx_status_str :: "transaction_status \<Rightarrow> string" where
  "tx_status_str Success = ''success''"
| "tx_status_str PendingStatus = ''pending''"
| "tx_status_str Failure = ''failure''"
| "tx_status_str ErrorStatus = ''error''"

section \<open>The order as an object\<close>

definition money_js :: "money \<Rightarrow> jsval" where
  "money_js m = JObj [(''amount'', JStr (amount m)), (''currencyCode'', JStr (currencyCode m))]"

definition address_js :: "address \<Rightarrow> jsval" where
  "address_js a = JObj (field_prop ''id'' (ad_id a) @ field_prop ''firstName'' (ad_firstName a)
     @ field_prop ''lastName'' (ad_lastName a) @ field_prop ''company'' (ad_company a)
     @ field_prop ''address1'' (ad_address1 a) @ field_prop ''address2'' (ad_address2 a)
     @ field_prop ''city'' (ad_city a) @ field_prop ''province'' (ad_province a)
     @ field_prop ''provinceCode'' (ad_provinceCode a) @ field_prop ''country'' (ad_country a)
     @ field_prop ''countryCode'' (ad_countryCode a) @ field_prop ''zip'' (ad_zip a)
     @ field_prop ''phone'' (ad_phone a))"

definition customer_js :: "shopify_customer \<Rightarrow> jsval" where
  "customer_js c = JObj ([(''id'', JStr (cu_id c))] @ field_prop ''email'' (cu_email c)
     @ field_prop ''firstName'' (cu_firstName c) @ field_prop ''lastName'' (cu_lastName c)
     @ opt_prop ''defaultAddress'' address_js (cu_defaultAddress c))"

definition tax_line_js :: "tax_line \<Rightarrow> jsval" where
  "tax_line_js t = JObj [(''title'', JStr (tl_title t)), (''rate'', JNum (tl_rate t)),
     (''price'', money_js (tl_price t))]"

definition allocation_js :: "discount_allocation \<Rightarrow> jsval" where
  "allocation_js d = JObj ([(''allocatedAmount'', money_js (da_allocatedAmount d))]
     @ opt_prop ''discountTitle'' JStr (da_discountTitle d))"

definition line_item_js :: "line_item \<Rightarrow> jsval" where
  "line_item_js l = JObj ([(''id'', JStr (li_id l)), (''title'', JStr (li_title l)),
     (''quantity'', JNum (of_integer (li_quantity l))),
     (''originalUnitPrice'', money_js (li_originalUnitPrice l)),
     (''discountedTotal'', money_js (li_discountedTotal l)),
     (''discountAllocations'', JArr (map allocation_js (li_discountAllocations l)))]
     @ opt_prop ''sku'' JStr (li_sku l) @ opt_prop ''variantId'' JStr (li_variantId l))"

definition shipping_line_js :: "shipping_line \<Rightarrow> jsval" where
  "shipping_line_js s = JObj ([(''id'', JStr (sh_id s)), (''title'', JStr (sh_title s)),
     (''price'', money_js (sh_price s)), (''taxLines'', JArr (map tax_line_js (sh_taxLines s)))]
     @ field_prop ''source'' (sh_source s)
     @ field_prop ''carrierIdentifier'' (sh_carrierIdentifier s))"

definition transaction_js :: "transaction \<Rightarrow> jsval" where
  "transaction_js t = JObj [(''id'', JStr (tx_id t)), (''kind'', JStr (tx_kind_str (tx_kind t))),
     (''status'', JStr (tx_status_str (tx_status t))), (''gateway'', JStr (tx_gateway t)),
     (''amount'', money_js (tx_amount t)), (''processedAt'', JStr (tx_processedAt t))]"

definition order_js :: "shopify_order \<Rightarrow> jsval" where
  "order_js so = JObj ([(''id'', JStr (so_id so)), (''name'', JStr (so_name so)),
     (''createdAt'', JStr (so_createdAt so)), (''updatedAt'', JStr (so_updatedAt so)),
     (''processedAt'', JStr (so_processedAt so)), (''currencyCode'', JStr (so_currencyCode so)),
     (''totalPrice'', money_js (so_totalPrice so)), (''subtotalPrice'', money_js (so_subtotalPrice so)),
     (''totalTax'', money_js (so_totalTax so)),
     (''totalShippingPrice'', money_js (so_totalShippingPrice so)),
     (''totalDiscounts'', money_js (so_totalDiscounts so)),
     (''financialStatus'', JStr (financial_str (so_financialStatus so))),
     (''fulfillmentStatus'', (case so_fulfillmentStatus so of None \<Rightarrow> JNull | Some f \<Rightarrow> JStr (fulfillment_str f))),
     (''test'', JBool (so_test so)), (''fraudHold'', JBool (so_fraudHold so)),
     (''customer'', (case so_customer so of None \<Rightarrow> JNull | Some c \<Rightarrow> customer_js c)),
     (''lineItems'', JArr (map line_item_js (so_lineItems so))),
     (''shippingLines'', JArr (map shipping_line_js (so_shippingLines so))),
     (''taxLines'', JArr (map tax_line_js (so_taxLines so))),
     (''transactions'', JArr (map transaction_js (so_transactions so)))]
     @ opt_prop ''billingAddress'' address_js (so_billingAddress so)
     @ opt_prop ''shippingAddress'' address_js (so_shippingAddress so)
     @ opt_prop ''locationId'' JStr (so_locationId so) @ opt_prop ''note'' JStr (so_note so)
     @ opt_prop ''tags'' (\<lambda>ts. JArr (map JStr ts)) (so_tags so))"

section \<open>From the GraphQL response\<close>

definition mapFinancialStatus :: "string \<Rightarrow> financial_status" where
  "mapFinancialStatus s = (let lc = to_lower s in
     case find (\<lambda>f. financial_str f = lc)
       [FPending, FAuthorized, FPartiallyPaid, FPaid, FPartiallyRefunded, FRefunded, FVoided] of
       Some f \<Rightarrow> f
     | None \<Rightarrow> FPending)"

definition mapFulfillmentStatus :: "string option \<Rightarrow> fulfillment_status option" where
  "mapFulfillmentStatus s = (case s of
     None \<Rightarrow> None
   | Some t \<Rightarrow> find (\<lambda>f. fulfillment_str f = to_lower t) [Unfulfilled, Partial, Fulfilled, Restocked])"

definition mapTransactionKind :: "string \<Rightarrow> transaction_kind" where
  "mapTransactionKind k = (case find (\<lambda>x. tx_kind_str x = to_lower k)
       [Sale, Authorization, Capture, RefundKind, VoidKind, Change] of
     Some x \<Rightarrow> x | None \<Rightarrow> Change)"

definition mapTransactionStatus :: "string \<Rightarrow> transaction_status" where
  "mapTransactionStatus s = (case find (\<lambda>x. tx_status_str x = to_lower s)
       [Success, PendingStatus, Failure, ErrorStatus] of
     Some x \<Rightarrow> x | None \<Rightarrow> ErrorStatus)"

text \<open>\<open>risk\<close> is absent (\<open>None\<close>), or has a recommendation, possibly null (\<open>Some None\<close>).\<close>

definition isFraudHeld :: "string option option \<Rightarrow> bool" where
  "isFraudHeld risk = (case risk of
     Some (Some rec) \<Rightarrow> rec \<noteq> ''ACCEPT''
   | _ \<Rightarrow> False)"

text \<open>
  The response's order node once its fields are read (\<open>gql_order_of\<close> of \<open>ShopifyHttp\<close> reads them off the
  JSON): money bags, addresses and tax lines as the model's records, the statuses as their raw strings.
\<close>

record gql_line_item =
  gl_id :: string
  gl_title :: string
  gl_sku :: "string option"
  gl_quantity :: int
  gl_variant :: "string option"
  gl_originalUnitPriceSet :: money
  gl_discountedTotalSet :: money
  gl_discountAllocations :: "(money \<times> string option) list"

record gql_transaction =
  gt_id :: string
  gt_kind :: string
  gt_status :: string
  gt_gateway :: string
  gt_processedAt :: string
  gt_amountSet :: money

record gql_order =
  go_id :: string
  go_name :: string
  go_createdAt :: string
  go_updatedAt :: string
  go_processedAt :: string
  go_currencyCode :: string
  go_displayFinancialStatus :: string
  go_displayFulfillmentStatus :: "string option"
  go_test :: bool
  go_note :: "string option"
  go_tags :: "string list option"
  go_totalPriceSet :: money
  go_subtotalPriceSet :: money
  go_totalTaxSet :: money
  go_totalShippingPriceSet :: money
  go_totalDiscountsSet :: money
  go_customer :: "shopify_customer option"
  go_billingAddress :: "address option"
  go_shippingAddress :: "address option"
  go_lineItems :: "gql_line_item list"
  go_shippingLines :: "shipping_line list"
  go_taxLines :: "tax_line list"
  go_transactions :: "gql_transaction list"
  go_physicalLocation :: "string option"
  go_risk :: "string option option"

definition non_empty :: "string option \<Rightarrow> string option" where
  "non_empty s = (case s of Some t \<Rightarrow> if t = [] then None else Some t | None \<Rightarrow> None)"

definition mapLineItem :: "gql_line_item \<Rightarrow> line_item" where
  "mapLineItem n = \<lparr>li_id = gl_id n, li_title = gl_title n, li_variantId = non_empty (gl_variant n),
     li_sku = gl_sku n, li_quantity = gl_quantity n, li_originalUnitPrice = gl_originalUnitPriceSet n,
     li_discountedTotal = gl_discountedTotalSet n,
     li_discountAllocations = map (\<lambda>(m, code). \<lparr>da_allocatedAmount = m, da_discountTitle = non_empty code\<rparr>)
       (gl_discountAllocations n)\<rparr>"

definition mapTransaction :: "gql_transaction \<Rightarrow> transaction" where
  "mapTransaction t = \<lparr>tx_id = gt_id t, tx_kind = mapTransactionKind (gt_kind t),
     tx_status = mapTransactionStatus (gt_status t), tx_gateway = gt_gateway t,
     tx_amount = gt_amountSet t, tx_processedAt = gt_processedAt t\<rparr>"

definition mapGraphQLOrder :: "gql_order \<Rightarrow> shopify_order" where
  "mapGraphQLOrder so = \<lparr>so_id = go_id so, so_name = go_name so, so_createdAt = go_createdAt so,
     so_updatedAt = go_updatedAt so, so_processedAt = go_processedAt so,
     so_currencyCode = go_currencyCode so, so_totalPrice = go_totalPriceSet so,
     so_subtotalPrice = go_subtotalPriceSet so, so_totalTax = go_totalTaxSet so,
     so_totalShippingPrice = go_totalShippingPriceSet so, so_totalDiscounts = go_totalDiscountsSet so,
     so_financialStatus = mapFinancialStatus (go_displayFinancialStatus so),
     so_fulfillmentStatus = mapFulfillmentStatus (go_displayFulfillmentStatus so),
     so_test = go_test so, so_fraudHold = isFraudHeld (go_risk so), so_customer = go_customer so,
     so_lineItems = map mapLineItem (go_lineItems so), so_shippingLines = go_shippingLines so,
     so_taxLines = go_taxLines so, so_transactions = map mapTransaction (go_transactions so),
     so_billingAddress = go_billingAddress so, so_shippingAddress = go_shippingAddress so,
     so_locationId = go_physicalLocation so, so_note = non_empty (go_note so),
     so_tags = (case go_tags so of Some ts \<Rightarrow> if ts = [] then None else Some ts | None \<Rightarrow> None)\<rparr>"

section \<open>A standard order\<close>

text \<open>\<open>makeFakeOrder\<close> of \<open>fake-gateway.ts\<close> without overrides: one line, shipping, tax.\<close>

definition usd :: "string \<Rightarrow> money" where
  "usd s = \<lparr>amount = s, currencyCode = ''USD''\<rparr>"

definition makeFakeOrder :: shopify_order where
  "makeFakeOrder = \<lparr>so_id = ''gid://shopify/Order/100'', so_name = ''#1001'',
     so_createdAt = ''2026-05-16T10:00:00Z'', so_updatedAt = ''2026-05-16T10:00:00Z'',
     so_processedAt = ''2026-05-16T10:00:00Z'', so_currencyCode = ''USD'',
     so_totalPrice = usd ''120.00'', so_subtotalPrice = usd ''100.00'', so_totalTax = usd ''10.00'',
     so_totalShippingPrice = usd ''10.00'', so_totalDiscounts = usd ''0.00'',
     so_financialStatus = FPaid, so_fulfillmentStatus = None, so_test = False, so_fraudHold = False,
     so_customer = Some \<lparr>cu_id = ''gid://shopify/Customer/42'', cu_email = Text ''buyer@example.com'',
       cu_firstName = Text ''Buyer'', cu_lastName = Text ''Example'', cu_defaultAddress = None\<rparr>,
     so_lineItems = [\<lparr>li_id = ''gid://shopify/LineItem/1'', li_title = ''Widget'', li_variantId = None,
       li_sku = Some ''WIDGET-1'', li_quantity = 2, li_originalUnitPrice = usd ''50.00'',
       li_discountedTotal = usd ''100.00'', li_discountAllocations = []\<rparr>],
     so_shippingLines = [\<lparr>sh_id = ''gid://shopify/ShippingLine/1'', sh_title = ''Standard'', sh_source = Absent,
       sh_carrierIdentifier = Absent, sh_price = usd ''10.00'', sh_taxLines = []\<rparr>],
     so_taxLines = [\<lparr>tl_title = ''State Tax'', tl_rate = num (1 / 10), tl_price = usd ''10.00''\<rparr>],
     so_transactions = [\<lparr>tx_id = ''gid://shopify/Transaction/1'', tx_kind = Sale, tx_status = Success,
       tx_gateway = ''shopify_payments'', tx_amount = usd ''120.00'',
       tx_processedAt = ''2026-05-16T10:00:00Z''\<rparr>],
     so_billingAddress = None, so_shippingAddress = None, so_locationId = None, so_note = None,
     so_tags = None\<rparr>"

section \<open>Eligibility\<close>

text \<open>\<open>packages/mapping-engine/src/eligibility.ts\<close>\<close>

datatype eligibility_reason =
    TestOrder
  | FraudHold
  | Voided
  | PendingPayment
  | NoLineItems
  | DisallowedTopic
  | UpdateBeforeCreate

fun reason_str :: "eligibility_reason \<Rightarrow> string" where
  "reason_str TestOrder = ''test_order''"
| "reason_str FraudHold = ''fraud_hold''"
| "reason_str Voided = ''voided''"
| "reason_str PendingPayment = ''pending_payment''"
| "reason_str NoLineItems = ''no_line_items''"
| "reason_str DisallowedTopic = ''disallowed_topic''"
| "reason_str UpdateBeforeCreate = ''update_before_create''"

datatype eligibility = Eligible | Ineligible eligibility_reason "string option"

record eligibility_options =
  allowedTopics :: "string list option"
  allowedFinancialStatuses :: "financial_status list option"

definition DEFAULT_FINANCIAL_STATUSES :: "financial_status list" where
  "DEFAULT_FINANCIAL_STATUSES = [FPaid, FAuthorized, FPartiallyPaid]"

definition no_options :: eligibility_options where
  "no_options = \<lparr>allowedTopics = None, allowedFinancialStatuses = None\<rparr>"

definition checkEligibility :: "shopify_order \<Rightarrow> string \<Rightarrow> eligibility_options \<Rightarrow> eligibility" where
  "checkEligibility so topic opts =
     (if so_test so then Ineligible TestOrder None
      else if so_fraudHold so then Ineligible FraudHold None
      else if so_financialStatus so = FVoided then Ineligible Voided None
      else (let allowed = (case allowedFinancialStatuses opts of None \<Rightarrow> DEFAULT_FINANCIAL_STATUSES | Some fs \<Rightarrow> fs) in
        if so_financialStatus so \<notin> set allowed then
          Ineligible PendingPayment (Some (''financialStatus='' @ financial_str (so_financialStatus so)
            @ '' not in '' @ json (JArr (map (JStr \<circ> financial_str) allowed))))
        else if so_lineItems so = [] then Ineligible NoLineItems None
        else (case allowedTopics opts of
            Some ts \<Rightarrow> (if topic \<notin> set ts then Ineligible DisallowedTopic (Some (''topic='' @ topic
                 @ '' not in '' @ json (JArr (map JStr ts)))) else Eligible)
          | None \<Rightarrow> Eligible)))"

lemma eligible_iff:
  "checkEligibility so topic opts = Eligible \<longleftrightarrow>
     \<not> so_test so \<and> \<not> so_fraudHold so \<and> so_financialStatus so \<noteq> FVoided
     \<and> so_financialStatus so \<in> set (case allowedFinancialStatuses opts of None \<Rightarrow> DEFAULT_FINANCIAL_STATUSES | Some fs \<Rightarrow> fs)
     \<and> so_lineItems so \<noteq> [] \<and> (\<forall>ts. allowedTopics opts = Some ts \<longrightarrow> topic \<in> set ts)"
  by (auto simp: checkEligibility_def Let_def split: option.splits)

lemma financial_str_inject [simp]: "financial_str a = financial_str b \<longleftrightarrow> a = b"
  by (cases a; cases b) simp_all

lemma find_financial_str:
  "f \<noteq> FPending \<Longrightarrow> (case find (\<lambda>f. financial_str f = lc)
       [FPending, FAuthorized, FPartiallyPaid, FPaid, FPartiallyRefunded, FRefunded, FVoided] of
     Some f \<Rightarrow> f | None \<Rightarrow> FPending) = f \<longleftrightarrow> lc = financial_str f"
  by (cases f) auto

lemma mapFinancialStatus_iff: "f \<noteq> FPending \<Longrightarrow> mapFinancialStatus s = f \<longleftrightarrow> to_lower s = financial_str f"
  unfolding mapFinancialStatus_def Let_def by (rule find_financial_str)

lemma isFraudHeld_iff: "isFraudHeld r \<longleftrightarrow> r \<notin> {None, Some None, Some (Some ''ACCEPT'')}"
  by (auto simp: isFraudHeld_def split: option.splits)

text \<open>
  An order fetched over GraphQL is eligible by default exactly when it is not a test, carries no
  fraud recommendation other than \<open>ACCEPT\<close>, has a financial status that spells paid, authorized or
  partially paid in any case, and has a line item; a status the code does not know never qualifies.
\<close>

theorem graphql_eligible_iff:
  "checkEligibility (mapGraphQLOrder g) topic no_options = Eligible \<longleftrightarrow>
     \<not> go_test g \<and> go_risk g \<in> {None, Some None, Some (Some ''ACCEPT'')}
     \<and> to_lower (go_displayFinancialStatus g) \<in> {''paid'', ''authorized'', ''partially_paid''}
     \<and> go_lineItems g \<noteq> []"
  unfolding eligible_iff
  by (auto simp: mapGraphQLOrder_def isFraudHeld_iff no_options_def DEFAULT_FINANCIAL_STATUSES_def
      mapFinancialStatus_iff)

end
