(* ===== verification/PayloadBuilder.thy ===== *)
theory PayloadBuilder
  imports MappingEngine ShopifyOrder Calendar
begin

text \<open>
  From a Shopify order to a NetSuite payload: \<open>packages/netsuite-client/src\<close>, files
  \<open>external-id.ts\<close>, \<open>derive-fns.ts\<close>, \<open>default-order-map.ts\<close>, \<open>payload-builder.ts\<close> and
  \<open>tax-strategy.ts\<close>. A payload is an object, that is its properties in insertion order.
\<close>

section \<open>External ids\<close>

text \<open>
  The regular expression \<open>^gid://shopify/([A-Za-z]+)/(digits)$\<close>. In a string that is not a GID each
  unsafe byte becomes a dash (the source replaces UTF-16 units, which differs outside ASCII).
\<close>

definition gid_parts :: "string \<Rightarrow> (string \<times> string) option" where
  "gid_parts s = (if starts_with s ''gid://shopify/'' then
     (case split_on (CHR ''/'') (drop 14 s) of
        [t, n] \<Rightarrow> (if t \<noteq> [] \<and> list_all is_letter t \<and> n \<noteq> [] \<and> list_all is_digit n then Some (t, n) else None)
      | _ \<Rightarrow> None)
     else None)"

definition url_safe :: "char \<Rightarrow> bool" where
  "url_safe c \<longleftrightarrow> is_word_char c \<or> c = CHR ''-''"

definition shopifyGidToNsExternalId :: "string \<Rightarrow> string" where
  "shopifyGidToNsExternalId externalId = (case gid_parts externalId of
     Some (t, n) \<Rightarrow> ''shopify-'' @ to_lower t @ ''-'' @ n
   | None \<Rightarrow> map (\<lambda>c. if url_safe c then c else CHR ''-'') externalId)"

section \<open>Derive functions\<close>

text \<open>\<open>/\/(\d+)$/\<close>: the digits after the last slash.\<close>

definition numeric_tail :: "string \<Rightarrow> string option" where
  "numeric_tail s = (let parts = split_on (CHR ''/'') s in
     if length parts \<ge> 2 \<and> last parts \<noteq> [] \<and> list_all is_digit (last parts) then Some (last parts) else None)"

definition parseShopifyDate :: "shopify_order derive_fn" where
  "parseShopifyDate as so =
     (let field = (if nullish (oget as ''field'') then [] else to_str (oget as ''field'')) in
      if field = [] then Inl (plain_error ''parseShopifyDate: args.field is required'')
      else (case get_prop (order_js so) field of
          JStr raw \<Rightarrow> (if raw = [] then Inr JNull
            else (case date_parse raw of
                None \<Rightarrow> Inl (plain_error (''parseShopifyDate: '' @ quoted field @ '' is not a valid ISO date: '' @ raw))
              | Some t \<Rightarrow> (let d = utc_date t in
                  Inr (JStr (show_int (cv_year d) @ ''-'' @ pad2 (cv_month d) @ ''-'' @ pad2 (cv_day d))))))
        | _ \<Rightarrow> Inr JNull))"

definition buildLine :: "jsval \<Rightarrow> line_item \<Rightarrow> jsobj" where
  "buildLine defaultItem l =
     [(''item'', if nullish defaultItem then JStr (case li_sku l of None \<Rightarrow> ''UNMAPPED-ITEM'' | Some s \<Rightarrow> s) else defaultItem),
      (''quantity'', JNum (of_integer (li_quantity l))),
      (''rate'', JNum (number_of_string (amount (li_originalUnitPrice l)))),
      (''amount'', JNum (number_of_string (amount (li_discountedTotal l)))),
      (''description'', JStr (li_title l))]"

definition shopifyLineToItemLine :: "shopify_order derive_fn" where
  "shopifyLineToItemLine as so =
     Inr (JArr (map (\<lambda>l. JObj (buildLine (oget as ''defaultItemId'') l)) (so_lineItems so)))"

definition extractShopifyOrderId :: "shopify_order derive_fn" where
  "extractShopifyOrderId as so = (case numeric_tail (so_id so) of
     None \<Rightarrow> Inl (plain_error (''extractShopifyOrderId: cannot extract numeric id from order.id='' @ quoted (so_id so)))
   | Some n \<Rightarrow> Inr (JStr n))"

definition shopifyShippingToLine :: "shopify_order derive_fn" where
  "shopifyShippingToLine as so =
     (let fallback = oget as ''defaultShipItemId'';
          itemRef = (if nullish fallback then JStr ''SHIP-STANDARD''
            else JObj [(''id'', fallback), (''__resolved'', JBool True)])
      in Inr (JArr (map (\<lambda>s. JObj [(''item'', itemRef),
           (''rate'', JNum (number_of_string (amount (sh_price s)))),
           (''amount'', JNum (number_of_string (amount (sh_price s)))),
           (''description'', JStr (sh_title s))]) (so_shippingLines so))))"

text \<open>\<open>if (x) out[k] = x\<close> for an optional string.\<close>

definition put_if_set :: "string \<Rightarrow> string option \<Rightarrow> jsobj \<Rightarrow> jsobj" where
  "put_if_set k v out = (case non_empty v of None \<Rightarrow> out | Some s \<Rightarrow> oset k (JStr s) out)"

definition shopifyAddressToNs :: "address option \<Rightarrow> string option \<Rightarrow> jsobj option" where
  "shopifyAddressToNs addr idField = (case addr of
     None \<Rightarrow> None
   | Some a \<Rightarrow>
       (if \<not> (set_str (field_str (ad_address1 a)) \<or> set_str (field_str (ad_city a)) \<or> set_str (field_str (ad_zip a))) then None
        else (let addressee = trim (join '' '' (concat (map (\<lambda>x. some_list (non_empty (field_str x))) [ad_firstName a, ad_lastName a])));
                  out = fold (\<lambda>(k, v). put_if_set k v)
                    ((''addressee'', Some addressee) # map (\<lambda>(k, f). (k, field_str f))
                      [(''attention'', ad_company a), (''addr1'', ad_address1 a), (''addr2'', ad_address2 a),
                       (''city'', ad_city a), (''state'', ad_provinceCode a), (''zip'', ad_zip a),
                       (''country'', ad_countryCode a), (''addrPhone'', ad_phone a)]) []
              in Some (case non_empty idField of None \<Rightarrow> out | Some f \<Rightarrow> put_if_set f (field_str (ad_id a)) out))))"

definition address_value :: "jsobj option \<Rightarrow> jsval" where
  "address_value a = (case a of None \<Rightarrow> JNull | Some ps \<Rightarrow> JObj ps)"

definition shopifyShippingAddressToNs :: "shopify_order derive_fn" where
  "shopifyShippingAddressToNs as so = Inr (address_value (shopifyAddressToNs (so_shippingAddress so) None))"

definition shopifyBillingAddressToNs :: "shopify_order derive_fn" where
  "shopifyBillingAddressToNs as so = Inr (address_value (shopifyAddressToNs (so_billingAddress so) None))"

definition defaultDeriveRegistry :: "string \<Rightarrow> shopify_order derive_fn option" where
  "defaultDeriveRegistry = map_of [(''parseShopifyDate'', parseShopifyDate),
     (''shopifyLineToItemLine'', shopifyLineToItemLine),
     (''shopifyShippingToLine'', shopifyShippingToLine),
     (''extractShopifyOrderId'', extractShopifyOrderId),
     (''shopifyShippingAddressToNs'', shopifyShippingAddressToNs),
     (''shopifyBillingAddressToNs'', shopifyBillingAddressToNs)]"

section \<open>The default field map\<close>

definition buildDefaultOrderHeaderMap :: "connection \<Rightarrow> mapping list" where
  "buildDefaultOrderHeaderMap c =
     [Constant (JStr (nsSubsidiary c)) ''subsidiary'',
      Constant (JStr ''B'') ''orderStatus'',
      Direct ''name'' ''tranId'',
      Direct ''id'' ''externalId'',
      Derive ''parseShopifyDate'' (Some [(''field'', JStr ''processedAt'')]) ''tranDate'',
      Lookup ''lookup_currency'' ''currencyCode'' ''currency'' None,
      Lookup ''lookup_payment_method'' ''transactions.0.gateway'' ''paymentMethod'' (Some False),
      Lookup ''lookup_ship_method'' ''shippingLines.0.title'' ''shipMethod'' (Some False),
      Derive ''shopifyShippingAddressToNs'' (Some []) ''shippingAddress'',
      Derive ''shopifyBillingAddressToNs'' (Some []) ''billingAddress'']
     @ (case non_empty (nsLocation c) of None \<Rightarrow> [] | Some l \<Rightarrow> [Constant (JStr l) ''location''])
     @ (case extraOrderHeaderMappings c of None \<Rightarrow> [] | Some vs \<Rightarrow> map parse_mapping vs)"

definition buildDefaultLineItemsMap :: mapping where
  "buildDefaultLineItemsMap = Derive ''shopifyLineToItemLine'' (Some []) ''item''"

definition buildDefaultShippingMap :: "connection \<Rightarrow> mapping" where
  "buildDefaultShippingMap c = Derive ''shopifyShippingToLine''
     (Some (opt_prop ''defaultShipItemId'' JStr (non_empty (defaultShipItemId c)))) ''shipping''"

section \<open>Reference wrapping\<close>

definition HEADER_REF_FIELDS :: "string list" where
  "HEADER_REF_FIELDS = [''subsidiary'', ''entity'', ''currency'', ''location'', ''orderStatus'',
     ''paymentMethod'', ''customForm'', ''terms'', ''employee'', ''salesRep'', ''nexus'', ''shipMethod'',
     ''discountItem'']"

definition LINE_REF_FIELDS :: "string list" where
  "LINE_REF_FIELDS = [''item'', ''taxCode'', ''location'', ''units'', ''price'', ''department'', ''class'']"

fun wrapRef :: "jsval \<Rightarrow> jsval" where
  "wrapRef (JStr s) = JObj [(''id'', JStr s)]"
| "wrapRef (JNum n) = JObj [(''id'', JStr (to_str (JNum n)))]"
| "wrapRef v = v"

definition wrapLineRefs :: "jsobj \<Rightarrow> jsobj" where
  "wrapLineRefs line = map (\<lambda>(k, v). (k, if k \<in> set LINE_REF_FIELDS then wrapRef v else v)) line"

text \<open>One entry of the payload: what is emitted for it, if anything.\<close>

definition wrap_entry :: "string \<Rightarrow> jsval \<Rightarrow> jsobj" where
  "wrap_entry key v =
     (if v = JUndef then []
      else if key = ''item'' \<or> key = ''shipping'' then
        (case v of
           JArr ls \<Rightarrow> [(key, JObj [(''items'', JArr (map (\<lambda>l. JObj (wrapLineRefs (obj_fields l))) ls))])]
         | _ \<Rightarrow> [(key, v)])
      else if key \<in> set HEADER_REF_FIELDS then [(key, wrapRef v)]
      else if v = JNull then []
      else [(key, v)])"

definition wrapNsReferences :: "jsobj \<Rightarrow> jsobj" where
  "wrapNsReferences raw = concat (map (\<lambda>(k, v). wrap_entry k v) raw)"

section \<open>The builder\<close>

datatype discount_result = DiscountFields jsobj | DiscountPark park_reason

definition mapOrderDiscount :: "connection \<Rightarrow> shopify_order \<Rightarrow> discount_result" where
  "mapOrderDiscount c so =
     (let amt = parse_float (amount (so_totalDiscounts so)) in
      if \<not> is_finite_num amt \<or> num_le amt (Fin 0) then DiscountFields []
      else (case non_empty (defaultDiscountItemId c) of
          None \<Rightarrow> DiscountPark \<lparr>pr_detail = ''order carries totalDiscounts='' @ to_fixed2 amt @ '' ''
              @ currencyCode (so_totalDiscounts so) @ '' but connection '' @ quoted (connectionId c)
              @ '' has no defaultDiscountItemId '' @ em_dash @ '' set the NS Discount item internal id on the connection (must be ''
              @ [CHR 0x22] @ ''Apply Before Tax'' @ [CHR 0x22] @ '') and replay'',
            pr_construct = Some ''order_discount'', pr_evidence = None\<rparr>
        | Some d \<Rightarrow> DiscountFields [(''discountItem'', JStr d),
            (''discountRate'', JNum (number_of_string (to_fixed2 (num_neg amt))))]))"

definition netsuiteOrderRecordType :: "connection \<Rightarrow> string" where
  "netsuiteOrderRecordType c = (if orderTarget c = SalesOrder then ''salesorder'' else ''cashsale'')"

definition missing_header :: "string \<Rightarrow> park_reason" where
  "missing_header k = \<lparr>pr_detail = k @ '' missing from header map'', pr_construct = Some k, pr_evidence = None\<rparr>"

fun is_str :: "jsval \<Rightarrow> bool" where
  "is_str (JStr _) = True"
| "is_str _ = False"

definition missing_required :: "jsobj \<Rightarrow> string option" where
  "missing_required header = find (\<lambda>k. \<not> is_str (oget header k)) [''subsidiary'', ''externalId'', ''tranId'']"

definition shipping_part :: "jsval \<Rightarrow> jsobj" where
  "shipping_part v = (case v of JArr (l # ls) \<Rightarrow> [(''shipping'', JArr (l # ls))] | _ \<Rightarrow> [])"

text \<open>What follows once the three evaluations have produced their outputs.\<close>

definition assemble :: "connection \<Rightarrow> shopify_order \<Rightarrow> string \<Rightarrow> jsobj \<Rightarrow> jsval \<Rightarrow> jsval \<Rightarrow> jsobj mapping_result" where
  "assemble c so cust header lineItems shippingLines =
     (case missing_required header of
        Some k \<Rightarrow> Park (missing_header k)
      | None \<Rightarrow> (case mapOrderDiscount c so of
          DiscountPark p \<Rightarrow> Park p
        | DiscountFields extra \<Rightarrow> MapOk (wrapNsReferences
            (oassign (oassign (oassign header [(''entity'', JStr cust), (''item'', lineItems)])
               (shipping_part shippingLines)) extra))))"

definition buildOrderPayload :: "connection \<Rightarrow> shopify_order \<Rightarrow> string \<Rightarrow> 'w lookup_resolver
    \<Rightarrow> (string \<Rightarrow> shopify_order derive_fn option) \<Rightarrow> mapping list option \<Rightarrow> ('w, jsobj mapping_result) io" where
  "buildOrderPayload c so cust lookups derives headerOverride =
     (let ctx = \<lparr>ev_lookups = lookups, ev_derives = derives, ev_as_js = order_js\<rparr>;
          headerMappings = (case headerOverride of None \<Rightarrow> buildDefaultOrderHeaderMap c | Some ms \<Rightarrow> ms)
      in bnd (evaluate ctx so headerMappings) (\<lambda>headerResult. case headerResult of
          Park p \<Rightarrow> ret (Park p)
        | MapOk header \<Rightarrow> bnd (evaluate ctx so [buildDefaultLineItemsMap]) (\<lambda>linesResult. case linesResult of
            Park p \<Rightarrow> ret (Park p)
          | MapOk lines \<Rightarrow> (case oget lines ''item'' of
              JArr [] \<Rightarrow> ret (Park \<lparr>pr_detail = ''order has no mappable line items'',
                pr_construct = Some ''lineItems'', pr_evidence = None\<rparr>)
            | JArr (l # ls) \<Rightarrow> bnd (evaluate ctx so [buildDefaultShippingMap c]) (\<lambda>shippingResult. case shippingResult of
                Park p \<Rightarrow> ret (Park p)
              | MapOk shipping \<Rightarrow> ret (assemble c so cust header (JArr (l # ls)) (oget shipping ''shipping'')))
            | _ \<Rightarrow> ret (Park \<lparr>pr_detail = ''line items derive returned non-array'',
                pr_construct = Some ''shopifyLineToItemLine'', pr_evidence = None\<rparr>)))))"

section \<open>Tax\<close>

record tax_part =
  tp_lineTax :: "jsobj list"
  tp_headerTax :: jsobj
  tp_taxItems :: "jsobj list"

definition EMPTY :: tax_part where
  "EMPTY = \<lparr>tp_lineTax = [], tp_headerTax = [], tp_taxItems = []\<rparr>"

definition legacyOrderTax :: "shopify_order \<Rightarrow> tax_part" where
  "legacyOrderTax so =
     (if so_taxLines so = [] \<and> amount (so_totalTax so) = ''0.00'' then EMPTY
      else EMPTY\<lparr>tp_headerTax := (''taxsubtotal'', JStr (amount (so_totalTax so))) #
        (case so_taxLines so of [] \<Rightarrow> []
         | t # _ \<Rightarrow> [(''taxitem'', JStr (tl_title t)), (''taxrate'', JNum (tl_rate t))])\<rparr>)"

definition legacyShippingTax :: "tax_line list \<Rightarrow> tax_part" where
  "legacyShippingTax ts = (case ts of [] \<Rightarrow> EMPTY
     | t # _ \<Rightarrow> EMPTY\<lparr>tp_headerTax := [(''shippingtax1rate'', JNum (tl_rate t)), (''shippingtaxcode'', JStr (tl_title t))]\<rparr>)"

definition buildOrderTax :: "connection \<Rightarrow> shopify_order \<Rightarrow> tax_part" where
  "buildOrderTax c so = (case taxEngine c of Suitetax \<Rightarrow> EMPTY | Legacy \<Rightarrow> legacyOrderTax so)"

definition buildShippingTax :: "connection \<Rightarrow> tax_line list \<Rightarrow> tax_part" where
  "buildShippingTax c ts = (case taxEngine c of Suitetax \<Rightarrow> EMPTY | Legacy \<Rightarrow> legacyShippingTax ts)"

definition applyTaxPayloadHeader :: "jsobj \<Rightarrow> tax_part \<Rightarrow> jsobj" where
  "applyTaxPayloadHeader payload part = oassign payload (tp_headerTax part)"

section \<open>Concrete inputs\<close>

definition sample_connection :: connection where
  "sample_connection = \<lparr>connectionId = ''c1'', cn_environment = ''dev'', shopifyStore = ''x.myshopify.com'',
     shopifyAppTokenRef = ''t'', shopifyWebhookSecretRef = ''s'', nsAccountId = ''N1'', nsSubsidiary = ''2'',
     nsLocation = None, baseCurrency = ''USD'', taxEngine = Legacy, orderTarget = SalesOrder,
     mapVersion = ''v1'', enabled = True, extraOrderHeaderMappings = None,
     defaultShipItemId = Some ''900'', defaultItemId = None, defaultDiscountItemId = Some ''55'',
     writeTagsOnImport = None, shopifyAddressIdField = None\<rparr>"

definition sample_lookups :: "(string \<times> string) list" where
  "sample_lookups = [(''lookup_currency|USD'', ''1'')]"

definition discounted_order :: shopify_order where
  "discounted_order = makeFakeOrder\<lparr>so_totalDiscounts := usd ''12.50'', so_totalPrice := usd ''107.50''\<rparr>"

definition build_sample :: "shopify_order \<Rightarrow> jsobj option" where
  "build_sample so = (case buildOrderPayload sample_connection so ''77'' (lookups_resolve sample_lookups)
       defaultDeriveRegistry None () of (Inr (MapOk p), _) \<Rightarrow> Some p | _ \<Rightarrow> None)"

lemma build_sample_ok: "build_sample discounted_order \<noteq> None"
  by code_simp

lemma build_sample_run: "\<exists>p w'. buildOrderPayload sample_connection discounted_order ''77'' (lookups_resolve sample_lookups)
    defaultDeriveRegistry None () = (Inr (MapOk p), w')"
  using build_sample_ok
  by (auto simp: build_sample_def split: prod.splits sum.splits mapping_result.splits)

section \<open>External ids are safe and faithful\<close>

lemma letters_no_dash: "list_all is_letter t \<Longrightarrow> CHR ''-'' \<notin> set (to_lower t)"
  by (auto simp: to_lower_def list_all_iff lower_char_def is_letter_def is_upper_def is_lower_def
      split: if_splits dest!: arg_cong [where f = "of_char :: char \<Rightarrow> nat"])

lemma digits_no_dash: "list_all is_digit n \<Longrightarrow> CHR ''-'' \<notin> set n"
  by (auto simp: list_all_iff is_digit_def)

lemma gid_parts_chars: "gid_parts s = Some (t, n) \<Longrightarrow> list_all is_letter t \<and> list_all is_digit n"
  by (auto simp: gid_parts_def split: if_splits list.splits)

lemma lower_letter_safe: "is_letter c \<Longrightarrow> url_safe (lower_char c)"
  by (auto simp: url_safe_def is_word_char_def is_letter_def is_upper_def is_lower_def lower_char_def)

lemma url_safe_id: "list_all url_safe (shopifyGidToNsExternalId s)"
proof (cases "gid_parts s")
  case None
  then show ?thesis
    by (auto simp: shopifyGidToNsExternalId_def list_all_iff url_safe_def)
next
  case (Some tn)
  obtain t n where tn: "tn = (t, n)" by force
  have "list_all url_safe (to_lower t)" "list_all url_safe n"
    using gid_parts_chars Some tn lower_letter_safe
    by (auto simp: list_all_iff to_lower_def url_safe_def is_word_char_def)
  moreover have "list_all url_safe ''shopify-''"
    by (simp add: url_safe_def is_word_char_def is_letter_def is_lower_def)
  ultimately show ?thesis
    using Some tn by (simp add: shopifyGidToNsExternalId_def url_safe_def)
qed

text \<open>
  The NetSuite external id of a Shopify GID uses only characters that are safe in a URL path,
  and two GIDs share one exactly when they name the same type (up to case) and the same number, so
  an order keeps its identity and different orders never collide.
\<close>

theorem external_id_faithful:
  assumes "gid_parts a = Some (t, n)" and "gid_parts b = Some (u, m)"
  shows "list_all url_safe (shopifyGidToNsExternalId a)
    \<and> (shopifyGidToNsExternalId a = shopifyGidToNsExternalId b \<longleftrightarrow> to_lower t = to_lower u \<and> n = m)"
  using assms gid_parts_chars [OF assms(1)] gid_parts_chars [OF assms(2)]
    letters_no_dash [of t] letters_no_dash [of u] digits_no_dash [of n] digits_no_dash [of m]
    append_Cons_eq_iff [of "CHR ''-''" "to_lower t" n "to_lower u" m] url_safe_id [of a]
  by (simp add: shopifyGidToNsExternalId_def)

theorem external_id_faithful_witness:
  "shopifyGidToNsExternalId ''gid://shopify/Order/12'' \<noteq> shopifyGidToNsExternalId ''gid://shopify/Order/13''"
proof -
  have "gid_parts ''gid://shopify/Order/12'' = Some (''Order'', ''12'')"
    "gid_parts ''gid://shopify/Order/13'' = Some (''Order'', ''13'')"
    by code_simp+
  then show ?thesis using external_id_faithful by simp
qed

section \<open>Wrapping\<close>

lemma wrapRef_idem [simp]: "wrapRef (wrapRef v) = wrapRef v"
  by (cases v) simp_all

lemma wrap_entry_key: "(k', v') \<in> set (wrap_entry k v) \<Longrightarrow> k' = k"
  by (auto simp: wrap_entry_def split: if_splits jsval.splits)

lemma wrap_entry_idem: "concat (map (\<lambda>(k, v). wrap_entry k v) (wrap_entry k v)) = wrap_entry k v"
proof (cases v)
  case (JArr ls)
  then show ?thesis by (simp add: wrap_entry_def)
qed (simp_all add: wrap_entry_def)

text \<open>
  Reference wrapping can be repeated safely: a payload that has been through
  \<open>wrapNsReferences\<close> comes out of a second pass unchanged, with no reference or sublist wrapped
  twice.
\<close>

theorem wrapNsReferences_idem: "wrapNsReferences (wrapNsReferences raw) = wrapNsReferences raw"
  by (induction raw) (auto simp: wrapNsReferences_def wrap_entry_idem)

lemma map_of_wrap:
  assumes "map_of raw k = Some v" and "wrap_entry k v = [(k, v')]"
  shows "oget (wrapNsReferences raw) k = v'"
  using assms(1)
proof (induction raw)
  case (Cons e raw)
  obtain a b where e: "e = (a, b)" by force
  show ?case
  proof (cases "a = k")
    case True
    then show ?thesis using Cons.prems assms(2) e by (simp add: wrapNsReferences_def oget_Cons)
  next
    case False
    then have "map_of (wrap_entry a b) k = None"
      by (auto simp: map_of_eq_None_iff dest: wrap_entry_key)
    then show ?thesis
      using Cons False e by (simp add: wrapNsReferences_def oget_def map_add_def)
  qed
qed simp

section \<open>The payload that is built\<close>

definition raw_payload :: "string \<Rightarrow> jsobj \<Rightarrow> jsval \<Rightarrow> jsval \<Rightarrow> jsobj \<Rightarrow> jsobj" where
  "raw_payload cust header lineItems shippingLines extra =
     oassign (oassign (oassign header [(''entity'', JStr cust), (''item'', lineItems)])
       (shipping_part shippingLines)) extra"

lemma shipping_part_keys: "fst ` set (shipping_part v) \<subseteq> {''shipping''}"
  by (auto simp: shipping_part_def split: jsval.splits list.splits)

lemma raw_payload_at:
  assumes "k \<notin> fst ` set extra" and "k \<noteq> ''shipping''"
  shows "map_of (raw_payload cust header li sh extra) k =
    (if k = ''item'' then Some li else if k = ''entity'' then Some (JStr cust) else map_of header k)"
proof -
  have "k \<notin> fst ` set (shipping_part sh)" using shipping_part_keys [of sh] assms(2) by auto
  then show ?thesis
    using assms(1) by (simp add: raw_payload_def map_of_oassign_notin map_of_update)
qed

lemma discount_keys: "mapOrderDiscount c so = DiscountFields extra \<Longrightarrow> fst ` set extra \<subseteq> {''discountItem'', ''discountRate''}"
  by (auto simp: mapOrderDiscount_def Let_def split: if_splits option.splits)

lemma assemble_ok:
  assumes "assemble c so cust header li sh = MapOk p"
  obtains extra where "mapOrderDiscount c so = DiscountFields extra" and "missing_required header = None"
    and "p = wrapNsReferences (raw_payload cust header li sh extra)"
  using assms by (auto simp: assemble_def raw_payload_def split: option.splits discount_result.splits)

lemma build_ok:
  assumes "buildOrderPayload c so cust lookups derives hdr w = (Inr (MapOk p), w')"
  obtains header lines shipping l ls w1 w2 where
    "evaluate \<lparr>ev_lookups = lookups, ev_derives = derives, ev_as_js = order_js\<rparr> so
       (case hdr of None \<Rightarrow> buildDefaultOrderHeaderMap c | Some ms \<Rightarrow> ms) w = (Inr (MapOk header), w1)"
    "evaluate \<lparr>ev_lookups = lookups, ev_derives = derives, ev_as_js = order_js\<rparr> so
       [buildDefaultLineItemsMap] w1 = (Inr (MapOk lines), w2)"
    "oget lines ''item'' = JArr (l # ls)"
    "assemble c so cust header (JArr (l # ls)) (oget shipping ''shipping'') = MapOk p"
  using assms
  by (auto simp: buildOrderPayload_def Let_def bnd_app
      split: prod.splits sum.splits mapping_result.splits jsval.splits list.splits)

lemma missing_required_None:
  assumes "missing_required header = None" and "k \<in> {''subsidiary'', ''externalId'', ''tranId''}"
  shows "\<exists>s. map_of header k = Some (JStr s)"
proof -
  have "is_str (oget header k)"
    using assms unfolding missing_required_def find_None_iff by auto
  then obtain s where "oget header k = JStr s" by (auto elim: is_str.elims)
  then show ?thesis by (auto simp: oget_def split: option.splits)
qed

lemma wrapLineRefs_at: "oget (wrapLineRefs line) k = (if k \<in> set LINE_REF_FIELDS then wrapRef (oget line k) else oget line k)"
  by (induction line) (auto simp: wrapLineRefs_def oget_Cons)

text \<open>A line all of whose reference columns are references: no bare id is left in one of them.\<close>

definition refs_wrapped :: "jsval \<Rightarrow> bool" where
  "refs_wrapped l \<longleftrightarrow> (\<exists>ps. l = JObj ps \<and> (\<forall>k \<in> set LINE_REF_FIELDS. \<forall>s n. oget ps k \<noteq> JStr s \<and> oget ps k \<noteq> JNum n))"

lemma wrapRef_no_bare [simp]: "wrapRef v \<noteq> JStr s" "wrapRef v \<noteq> JNum n"
  by (cases v; simp)+

lemma refs_wrapped_line [simp]: "refs_wrapped (JObj (wrapLineRefs line))"
  by (simp add: refs_wrapped_def wrapLineRefs_at)

text \<open>The line NetSuite gets for a line of the order.\<close>

definition booked_line :: "line_item \<Rightarrow> jsval" where
  "booked_line l = JObj [
     (''item'', JObj [(''id'', JStr (case li_sku l of None \<Rightarrow> ''UNMAPPED-ITEM'' | Some s \<Rightarrow> s))]),
     (''quantity'', JNum (of_integer (li_quantity l))),
     (''rate'', JNum (number_of_string (amount (li_originalUnitPrice l)))),
     (''amount'', JNum (number_of_string (amount (li_discountedTotal l)))),
     (''description'', JStr (li_title l))]"

lemma wrapped_buildLine: "JObj (wrapLineRefs (buildLine JUndef l)) = booked_line l"
  by (simp add: wrapLineRefs_def buildLine_def booked_line_def LINE_REF_FIELDS_def nullish_def split: option.split)

lemma default_lines:
  assumes "evaluate \<lparr>ev_lookups = lookups, ev_derives = defaultDeriveRegistry, ev_as_js = order_js\<rparr> so
      [buildDefaultLineItemsMap] w = (Inr (MapOk lines), w')"
  shows "oget lines ''item'' = JArr (map (\<lambda>l. JObj (buildLine JUndef l)) (so_lineItems so))"
proof -
  have "path_parts ''item'' = [''item'']" by (simp add: path_parts_def)
  then show ?thesis
    using assms
    by (auto simp: evaluate_def buildDefaultLineItemsMap_def applyDerive_def defaultDeriveRegistry_def
        shopifyLineToItemLine_def bnd_app put_def setPath_def oget_Cons)
qed

text \<open>
  C37: a payload the builder accepts is complete. Whatever the field map, its extras and the derive
  functions did, it carries the subsidiary and the customer as references, the transaction and external ids
  as strings, and at least one line, and no reference column of a line holds a bare id. With the standard
  derive functions the lines are exactly the order's lines, in their order: the SKU as the reference
  (\<open>UNMAPPED-ITEM\<close> for none), the quantity, the unit price, the discounted total and the title.
\<close>

theorem buildOrderPayload_shape:
  assumes "buildOrderPayload c so cust lookups derives hdr w = (Inr (MapOk p), w')"
  shows "oget p ''entity'' = JObj [(''id'', JStr cust)]
    \<and> (\<exists>s. oget p ''subsidiary'' = JObj [(''id'', JStr s)])
    \<and> (\<exists>s. oget p ''tranId'' = JStr s) \<and> (\<exists>s. oget p ''externalId'' = JStr s)
    \<and> (\<exists>ls. ls \<noteq> [] \<and> oget p ''item'' = JObj [(''items'', JArr ls)] \<and> list_all refs_wrapped ls
         \<and> (derives = defaultDeriveRegistry \<longrightarrow> ls = map booked_line (so_lineItems so)))"
  using assms
proof (rule build_ok)
  fix header lines shipping l ls w1 w2
  assume a: "assemble c so cust header (JArr (l # ls)) (oget shipping ''shipping'') = MapOk p"
    and ev: "evaluate \<lparr>ev_lookups = lookups, ev_derives = derives, ev_as_js = order_js\<rparr> so
       [buildDefaultLineItemsMap] w1 = (Inr (MapOk lines), w2)"
    and li: "oget lines ''item'' = JArr (l # ls)"
  let ?ls = "map (\<lambda>l. JObj (wrapLineRefs (obj_fields l))) (l # ls)"
  have exact: "?ls = map booked_line (so_lineItems so)" if d: "derives = defaultDeriveRegistry"
  proof -
    have "l # ls = map (\<lambda>l. JObj (buildLine JUndef l)) (so_lineItems so)"
      using default_lines [OF ev [unfolded d]] li by simp
    then show ?thesis by (simp only: map_map comp_def obj_fields.simps wrapped_buildLine)
  qed
  have wrapped: "list_all refs_wrapped ?ls" by (simp add: list_all_iff)
  show ?thesis
    using a
  proof (rule assemble_ok)
    fix extra
    assume e: "mapOrderDiscount c so = DiscountFields extra" and r: "missing_required header = None"
      and p: "p = wrapNsReferences (raw_payload cust header (JArr (l # ls)) (oget shipping ''shipping'') extra)"
    let ?raw = "raw_payload cust header (JArr (l # ls)) (oget shipping ''shipping'') extra"
    have at: "map_of ?raw k = (if k = ''item'' then Some (JArr (l # ls)) else if k = ''entity''
        then Some (JStr cust) else map_of header k)"
      if "k \<notin> {''discountItem'', ''discountRate'', ''shipping''}" for k
    proof (rule raw_payload_at)
      show "k \<notin> fst ` set extra" using that discount_keys [OF e] by blast
      show "k \<noteq> ''shipping''" using that by blast
    qed
    obtain s1 s2 s3 where s: "map_of header ''subsidiary'' = Some (JStr s1)"
        "map_of header ''externalId'' = Some (JStr s2)" "map_of header ''tranId'' = Some (JStr s3)"
      using missing_required_None [OF r, of "''subsidiary''"] missing_required_None [OF r, of "''externalId''"]
        missing_required_None [OF r, of "''tranId''"] by auto
    have "oget p ''entity'' = JObj [(''id'', JStr cust)]"
      unfolding p by (rule map_of_wrap [of _ _ "JStr cust"]) (simp_all add: at wrap_entry_def HEADER_REF_FIELDS_def)
    moreover have "oget p ''subsidiary'' = JObj [(''id'', JStr s1)]"
      unfolding p by (rule map_of_wrap [of _ _ "JStr s1"]) (simp_all add: at s wrap_entry_def HEADER_REF_FIELDS_def)
    moreover have "oget p ''externalId'' = JStr s2"
      unfolding p by (rule map_of_wrap [of _ _ "JStr s2"]) (simp_all add: at s wrap_entry_def HEADER_REF_FIELDS_def)
    moreover have "oget p ''tranId'' = JStr s3"
      unfolding p by (rule map_of_wrap [of _ _ "JStr s3"]) (simp_all add: at s wrap_entry_def HEADER_REF_FIELDS_def)
    moreover have "oget p ''item'' = JObj [(''items'', JArr ?ls)]"
      unfolding p by (rule map_of_wrap [of _ _ "JArr (l # ls)"]) (simp_all add: at wrap_entry_def)
    moreover have "?ls \<noteq> []" by simp
    ultimately show ?thesis using exact wrapped by blast
  qed
qed

theorem buildOrderPayload_shape_witness:
  "\<exists>p w'. buildOrderPayload sample_connection discounted_order ''77'' (lookups_resolve sample_lookups)
      defaultDeriveRegistry None () = (Inr (MapOk p), w')
    \<and> oget p ''entity'' = JObj [(''id'', JStr ''77'')]
    \<and> oget p ''item'' = JObj [(''items'', JArr (map booked_line (so_lineItems discounted_order)))]"
proof -
  obtain p w' where run: "buildOrderPayload sample_connection discounted_order ''77''
      (lookups_resolve sample_lookups) defaultDeriveRegistry None () = (Inr (MapOk p), w')"
    using build_sample_run by blast
  with buildOrderPayload_shape [OF run] show ?thesis by auto
qed

text \<open>
  C38: an order discount is never silently dropped. When the builder accepts an order with a positive
  total discount, the connection has a discount item, and the payload carries that item and the
  negated amount, rounded to cents.
\<close>

theorem discount_never_dropped:
  assumes "buildOrderPayload c so cust lookups derives hdr w = (Inr (MapOk p), w')"
    and "parse_float (amount (so_totalDiscounts so)) = Fin a" and "0 < a"
  shows "\<exists>d. defaultDiscountItemId c = Some d \<and> d \<noteq> []
    \<and> oget p ''discountItem'' = JObj [(''id'', JStr d)]
    \<and> oget p ''discountRate'' = JNum (number_of_string (to_fixed2 (Fin (- a))))"
  using assms(1)
proof (rule build_ok)
  fix header lines shipping l ls
  assume a: "assemble c so cust header (JArr (l # ls)) (oget shipping ''shipping'') = MapOk p"
  show ?thesis
    using a
  proof (rule assemble_ok)
    fix extra
    assume e: "mapOrderDiscount c so = DiscountFields extra"
      and p: "p = wrapNsReferences (raw_payload cust header (JArr (l # ls)) (oget shipping ''shipping'') extra)"
    have "\<not> num_le (Fin a) (Fin 0)" using assms(3) by (simp add: num_le_def num_same_def)
    then obtain d where d: "non_empty (defaultDiscountItemId c) = Some d"
        "extra = [(''discountItem'', JStr d), (''discountRate'', JNum (number_of_string (to_fixed2 (Fin (- a)))))]"
      using e assms(2) by (auto simp: mapOrderDiscount_def Let_def simp del: to_fixed2.simps split: option.splits)
    have "oget p ''discountItem'' = JObj [(''id'', JStr d)]"
      unfolding p by (rule map_of_wrap [of _ _ "JStr d"])
        (simp_all add: raw_payload_def d map_of_update wrap_entry_def HEADER_REF_FIELDS_def del: to_fixed2.simps)
    moreover have "oget p ''discountRate'' = JNum (number_of_string (to_fixed2 (Fin (- a))))"
      unfolding p by (rule map_of_wrap [of _ _ "JNum (number_of_string (to_fixed2 (Fin (- a))))"])
        (simp_all add: raw_payload_def d map_of_update wrap_entry_def HEADER_REF_FIELDS_def del: to_fixed2.simps)
    moreover have "defaultDiscountItemId c = Some d \<and> d \<noteq> []"
      using d(1) by (auto simp: non_empty_def split: option.splits if_splits)
    ultimately show ?thesis by blast
  qed
qed

lemma discounted_amount: "parse_float (amount (so_totalDiscounts discounted_order)) = Fin (25 / 2)"
  by code_simp

theorem discount_never_dropped_witness:
  "\<exists>p w'. buildOrderPayload sample_connection discounted_order ''77'' (lookups_resolve sample_lookups)
      defaultDeriveRegistry None () = (Inr (MapOk p), w')
    \<and> oget p ''discountItem'' = JObj [(''id'', JStr ''55'')]"
proof -
  obtain p w' where run: "buildOrderPayload sample_connection discounted_order ''77''
      (lookups_resolve sample_lookups) defaultDeriveRegistry None () = (Inr (MapOk p), w')"
    using build_sample_run by blast
  have "defaultDiscountItemId sample_connection = Some ''55''"
    by (simp add: sample_connection_def)
  then have "oget p ''discountItem'' = JObj [(''id'', JStr ''55'')]"
    using discount_never_dropped [OF run discounted_amount] by auto
  with run show ?thesis by blast
qed

end
