(* ===== verification/NsGateway.thy ===== *)
theory NsGateway
  imports PayloadBuilder
begin

text \<open>
  The NetSuite side of \<open>packages/netsuite-client/src\<close>: the gateway interface (\<open>gateway.ts\<close>), the
  client cache (\<open>client-factory.ts\<close>), the gateway over the \<open>netsuite-sdk\<close> package
  (\<open>sdk-gateway.ts\<close>), the in-memory gateway (\<open>fake-gateway.ts\<close>), the classification of NetSuite
  errors (\<open>error-mapping.ts\<close>) and of any error of the order pipeline
  (\<open>apps/functions/src/triggers/error-classification.ts\<close>). The SDK's transport, its SuiteQL
  runner and its client constructor are parameters.
\<close>

section \<open>The interface\<close>

record raw_response =
  rr_status :: int
  rr_headers :: "jsobj option"
  rr_body :: "jsval option"

record upsert_result =
  ur_internalId :: string
  ur_externalId :: string
  ur_created :: bool
  ur_rawResponse :: "raw_response option"

record addressbook_entry =
  ae_internalId :: string
  ae_shopifyAddressId :: "string option"
  ae_defaultBilling :: bool
  ae_defaultShipping :: bool
  ae_label :: "string option"

text \<open>The arguments: account, record type, external id, and the payload or the wanted columns.\<close>

record 'w ns_ops =
  no_upsert :: "string \<Rightarrow> string \<Rightarrow> string \<Rightarrow> jsobj \<Rightarrow> ('w, upsert_result) io"
  no_find :: "string \<Rightarrow> string \<Rightarrow> string \<Rightarrow> string list option \<Rightarrow> ('w, jsobj option) io"
  no_addressbook :: "string \<Rightarrow> string \<Rightarrow> string \<Rightarrow> ('w, addressbook_entry list) io"
  no_resolveItem :: "string \<Rightarrow> string \<Rightarrow> ('w, string option) io"

section \<open>The client cache\<close>

record ns_account =
  na_accountId :: string
  na_consumerKeyRef :: string
  na_consumerSecretRef :: string
  na_tokenKeyRef :: string
  na_tokenSecretRef :: string
  na_timeoutMs :: "int option"
  na_maxRetries :: "int option"

record ns_config =
  nc_consumerKey :: string
  nc_consumerSecret :: string
  nc_tokenKey :: string
  nc_tokenSecret :: string
  nc_realm :: string
  nc_accountId :: string
  nc_timeout :: "int option"
  nc_maxRetries :: "int option"

text \<open>
  What the gateway uses of the packages around it: the secret provider, the constructor of a client
  (with the governor middleware installed on it), its transport and its SuiteQL runner. A query is
  what the builder is told: the columns, the table and one equality.
\<close>

record suiteql =
  sq_select :: "string list"
  sq_from :: string
  sq_where :: "string \<times> string"

record ns_response =
  nr_status :: int
  nr_headers :: "(string \<times> string) list option"
  nr_body :: jsval

record ('c, 'x) sdk =
  sdk_secret :: "string \<Rightarrow> ('x, string) io"
  sdk_client :: "ns_config \<Rightarrow> 'c"
  sdk_request :: "'c \<Rightarrow> string \<Rightarrow> string \<Rightarrow> jsobj \<Rightarrow> ('x, ns_response) io"
  sdk_query :: "'c \<Rightarrow> suiteql \<Rightarrow> ('x, jsobj list) io"
  sdk_queryOne :: "'c \<Rightarrow> suiteql \<Rightarrow> ('x, jsobj option) io"

record ('c, 'x) sdk_world =
  sw_clients :: "(string \<times> 'c) list"
  sw_items :: "(string \<times> string option) list"
  sw_out :: 'x

text \<open>An effect of the outside, run in the gateway's world.\<close>

definition outside :: "('x, 'a) io \<Rightarrow> (('c, 'x) sdk_world, 'a) io" where
  "outside m = (\<lambda>w. case m (sw_out w) of (r, x) \<Rightarrow> (r, w\<lparr>sw_out := x\<rparr>))"

definition hydrateOAuth :: "('c, 'x) sdk \<Rightarrow> ns_account \<Rightarrow> ('x, ns_config) io" where
  "hydrateOAuth S a =
     bnd (sdk_secret S (na_consumerKeyRef a)) (\<lambda>ck.
     bnd (sdk_secret S (na_consumerSecretRef a)) (\<lambda>cs.
     bnd (sdk_secret S (na_tokenKeyRef a)) (\<lambda>tk.
     bnd (sdk_secret S (na_tokenSecretRef a)) (\<lambda>ts.
       ret \<lparr>nc_consumerKey = ck, nc_consumerSecret = cs, nc_tokenKey = tk, nc_tokenSecret = ts,
         nc_realm = na_accountId a, nc_accountId = na_accountId a, nc_timeout = na_timeoutMs a,
         nc_maxRetries = na_maxRetries a\<rparr>))))"

definition factory_get :: "('c, 'x) sdk \<Rightarrow> ns_account \<Rightarrow> (('c, 'x) sdk_world, 'c) io" where
  "factory_get S a =
     bnd (read_st (\<lambda>w. map_of (sw_clients w) (na_accountId a))) (\<lambda>cached. case cached of
       Some c \<Rightarrow> ret c
     | None \<Rightarrow> bnd (outside (hydrateOAuth S a)) (\<lambda>config.
         let c = sdk_client S config in
         bnd (modify_st (\<lambda>w. w\<lparr>sw_clients := AList.update (na_accountId a) c (sw_clients w)\<rparr>)) (\<lambda>_. ret c)))"

section \<open>The gateway over the SDK\<close>

text \<open>\<open>JSON.stringify(x).slice(0, n)\<close>\<close>

definition json_slice :: "nat \<Rightarrow> jsval \<Rightarrow> string" where
  "json_slice n v = take n (json v)"

definition opt_int_str :: "int option \<Rightarrow> string" where
  "opt_int_str x = (case x of None \<Rightarrow> ''undefined'' | Some i \<Rightarrow> show_int i)"

definition defined :: "jsval \<Rightarrow> jsval option" where
  "defined v = (if v = JUndef then None else Some v)"

definition decorateNsError :: "js_error \<Rightarrow> string \<Rightarrow> jsval \<Rightarrow> js_error" where
  "decorateNsError err context requestBody = (case err of
     NetSuiteError e \<Rightarrow>
       (let detailsStr = (if nse_details e \<noteq> JUndef then '' details='' @ json_slice 1500 (nse_details e) else []);
            bodyStr = (if requestBody \<noteq> JUndef then '' body='' @ json_slice 4000 requestBody else []);
            responseBody = (if nse_body e \<noteq> JUndef then nse_body e else nse_details e)
        in JsError (''NS '' @ context @ '' status='' @ opt_int_str (nse_status e) @ '' '' @ nse_message e
             @ detailsStr @ bodyStr)
           (Some \<lparr>raw_status = nse_status e, raw_body = defined responseBody\<rparr>))
   | _ \<Rightarrow> err)"

definition stripExternalId :: "jsobj \<Rightarrow> jsobj" where
  "stripExternalId payload = filter (\<lambda>(k, v). to_lower k \<noteq> ''externalid'') payload"

definition header :: "ns_response \<Rightarrow> string option" where
  "header r = (case nr_headers r of None \<Rightarrow> None
     | Some hs \<Rightarrow> (case map_of hs ''location'' of Some l \<Rightarrow> Some l | None \<Rightarrow> map_of hs ''Location''))"

definition extractInternalId :: "ns_response \<Rightarrow> string option" where
  "extractInternalId r =
     (if is_obj (nr_body r) \<and> \<not> nullish (get_prop (nr_body r) ''id'')
        then Some (to_str (get_prop (nr_body r) ''id''))
      else (case header r of
          None \<Rightarrow> None
        | Some location \<Rightarrow> (if location = [] then None
            else (let l = last (split_on (CHR ''/'') location) in if l = [] then None else Some l))))"

definition resolveAccount :: "(string \<times> ns_account) list \<Rightarrow> string \<Rightarrow> js_error + ns_account" where
  "resolveAccount accounts acct = (case map_of accounts acct of
     None \<Rightarrow> Inl (plain_error (''SdkNetSuiteGateway: unknown NS account '' @ quoted acct))
   | Some a \<Rightarrow> Inr a)"

definition record_url :: "string \<Rightarrow> string \<Rightarrow> string \<Rightarrow> string" where
  "record_url acct recordType eid =
     ''https://'' @ map (\<lambda>c. if c = CHR ''_'' then CHR ''-'' else c) (to_lower acct)
     @ ''.suitetalk.api.netsuite.com'' @ ''/services/rest/record/v1/'' @ recordType @ ''/eid:'' @ eid"

text \<open>An internal id that is the empty string counts as missing (\<open>if (!internalId)\<close>).\<close>

definition sdk_upsert ::
  "('c, 'x) sdk \<Rightarrow> (string \<times> ns_account) list \<Rightarrow> string \<Rightarrow> string \<Rightarrow> string \<Rightarrow> jsobj
   \<Rightarrow> (('c, 'x) sdk_world, upsert_result) io" where
  "sdk_upsert S accounts acct recordType externalId payload =
     bnd (lift_sum (resolveAccount accounts acct)) (\<lambda>account.
     bnd (factory_get S account) (\<lambda>client.
       let eid = shopifyGidToNsExternalId externalId;
           url = record_url acct recordType eid;
           body = stripExternalId payload
       in bnd (try_catch (outside (sdk_request S client url ''PUT'' body))
            (\<lambda>err. throw (decorateNsError err (''upsert '' @ recordType @ '' eid:'' @ eid) (JObj body))))
          (\<lambda>response. case extractInternalId response of
             Some (c # cs) \<Rightarrow> ret \<lparr>ur_internalId = c # cs, ur_externalId = externalId,
               ur_created = (nr_status response = 201),
               ur_rawResponse = Some \<lparr>rr_status = nr_status response,
                 rr_headers = map_option (map (\<lambda>(k, v). (k, JStr v))) (nr_headers response),
                 rr_body = defined (nr_body response)\<rparr>\<rparr>
           | _ \<Rightarrow> throw (plain_error (''SdkNetSuiteGateway.upsertByExternalId: NS returned status=''
               @ show_int (nr_status response) @ '' but no internal id (Location=''
               @ quoted (case header response of None \<Rightarrow> [] | Some l \<Rightarrow> l) @ '')'')))))"

definition sdk_findByExternalId ::
  "('c, 'x) sdk \<Rightarrow> (string \<times> ns_account) list \<Rightarrow> string \<Rightarrow> string \<Rightarrow> string \<Rightarrow> string list option
   \<Rightarrow> (('c, 'x) sdk_world, jsobj option) io" where
  "sdk_findByExternalId S accounts acct recordType externalId wanted =
     bnd (lift_sum (resolveAccount accounts acct)) (\<lambda>account.
     bnd (factory_get S account) (\<lambda>client.
       let cols = (case wanted of Some (f # fs) \<Rightarrow> f # fs | _ \<Rightarrow> [''id'', ''externalid''])
       in outside (sdk_queryOne S client \<lparr>sq_select = cols, sq_from = to_lower recordType,
            sq_where = (''externalid'', shopifyGidToNsExternalId externalId)\<rparr>)))"

text \<open>The pattern \<open>^[a-z][a-z0-9_]*$\<close>.\<close>

fun valid_field :: "string \<Rightarrow> bool" where
  "valid_field [] = False"
| "valid_field (c # cs) = (is_lower c \<and> list_all (\<lambda>d. is_lower d \<or> is_digit d \<or> d = CHR ''_'') cs)"

definition flag_T :: "jsval \<Rightarrow> bool" where
  "flag_T v \<longleftrightarrow> v = JBool True \<or> v = JStr ''T''"

definition addressbook_row :: "string \<Rightarrow> jsobj \<Rightarrow> addressbook_entry" where
  "addressbook_row field row =
     (let internalId = oget row ''id''; shopifyId = oget row field in
      \<lparr>ae_internalId = (if nullish internalId then [] else to_str internalId),
       ae_shopifyAddressId = (if nullish shopifyId \<or> to_str shopifyId = [] then None else Some (to_str shopifyId)),
       ae_defaultBilling = flag_T (oget row ''defaultbilling''),
       ae_defaultShipping = flag_T (oget row ''defaultshipping''),
       ae_label = (if nullish (oget row ''label'') then None else Some (to_str (oget row ''label'')))\<rparr>)"

definition sdk_getCustomerAddressbook ::
  "('c, 'x) sdk \<Rightarrow> (string \<times> ns_account) list \<Rightarrow> string \<Rightarrow> string \<Rightarrow> string
   \<Rightarrow> (('c, 'x) sdk_world, addressbook_entry list) io" where
  "sdk_getCustomerAddressbook S accounts acct customer field =
     (if \<not> valid_field field
        then throw (plain_error (''SdkNetSuiteGateway.getCustomerAddressbook: invalid shopifyIdField '' @ quoted field))
      else
        bnd (lift_sum (resolveAccount accounts acct)) (\<lambda>account.
        bnd (factory_get S account) (\<lambda>client.
        bnd (outside (sdk_query S client
               \<lparr>sq_select = [''id'', ''defaultbilling'', ''defaultshipping'', ''label'', field],
                sq_from = ''customerAddressbook'', sq_where = (''entity'', customer)\<rparr>)) (\<lambda>rows.
          ret (map (addressbook_row field) rows)))))"

definition item_cache_key :: "string \<Rightarrow> string \<Rightarrow> string" where
  "item_cache_key acct sku = acct @ ''::'' @ sku"

definition sdk_resolveItemId ::
  "('c, 'x) sdk \<Rightarrow> (string \<times> ns_account) list \<Rightarrow> string \<Rightarrow> string
   \<Rightarrow> (('c, 'x) sdk_world, string option) io" where
  "sdk_resolveItemId S accounts acct sku =
     bnd (read_st (\<lambda>w. map_of (sw_items w) (item_cache_key acct sku))) (\<lambda>cached. case cached of
       Some hit \<Rightarrow> ret hit
     | None \<Rightarrow>
        bnd (lift_sum (resolveAccount accounts acct)) (\<lambda>account.
        bnd (factory_get S account) (\<lambda>client.
        bnd (outside (sdk_queryOne S client
               \<lparr>sq_select = [''id''], sq_from = ''item'', sq_where = (''itemid'', sku)\<rparr>)) (\<lambda>row.
          let found = (case row of None \<Rightarrow> None
                | Some r \<Rightarrow> (if nullish (oget r ''id'') then None else Some (to_str (oget r ''id''))))
          in bnd (modify_st (\<lambda>w. w\<lparr>sw_items := AList.update (item_cache_key acct sku) found (sw_items w)\<rparr>))
               (\<lambda>_. ret found)))))"

definition sdk_ns_ops ::
  "('c, 'x) sdk \<Rightarrow> (string \<times> ns_account) list \<Rightarrow> ('c, 'x) sdk_world ns_ops" where
  "sdk_ns_ops S accounts = \<lparr>no_upsert = sdk_upsert S accounts, no_find = sdk_findByExternalId S accounts,
     no_addressbook = sdk_getCustomerAddressbook S accounts, no_resolveItem = sdk_resolveItemId S accounts\<rparr>"

section \<open>The in-memory gateway\<close>

text \<open>
  The nested maps of the source are one map each, keyed by all their keys. The failure queue holds
  the errors the next upserts throw; \<open>latencyMs\<close> only delays.
\<close>

type_synonym record_key = "string \<times> string \<times> string"

record fake_ns =
  fn_store :: "(record_key \<times> (string \<times> jsobj)) list"
  fn_internalIdSeq :: nat
  fn_attempts :: nat
  fn_failureQueue :: "js_error list"
  fn_itemBySku :: "((string \<times> string) \<times> string) list"
  fn_resolveAttempts :: nat
  fn_addressbooks :: "((string \<times> string) \<times> addressbook_entry list) list"

definition empty_fake_ns :: fake_ns where
  "empty_fake_ns = \<lparr>fn_store = [], fn_internalIdSeq = 0, fn_attempts = 0, fn_failureQueue = [],
     fn_itemBySku = [], fn_resolveAttempts = 0, fn_addressbooks = []\<rparr>"

definition fake_result :: "string \<Rightarrow> string \<Rightarrow> string \<Rightarrow> bool \<Rightarrow> upsert_result" where
  "fake_result recordType externalId internalId created =
     \<lparr>ur_internalId = internalId, ur_externalId = externalId, ur_created = created,
      ur_rawResponse = Some \<lparr>rr_status = 204, rr_headers = Some [(''location'',
        JStr (''/services/rest/record/v1/'' @ recordType @ ''/'' @ internalId))], rr_body = None\<rparr>\<rparr>"

definition fake_upsert :: "string \<Rightarrow> string \<Rightarrow> string \<Rightarrow> jsobj \<Rightarrow> (fake_ns, upsert_result) io" where
  "fake_upsert acct rt ext payload = (\<lambda>w0.
     let w = w0\<lparr>fn_attempts := Suc (fn_attempts w0)\<rparr> in
     case fn_failureQueue w of
       e # es \<Rightarrow> (Inl e, w\<lparr>fn_failureQueue := es\<rparr>)
     | [] \<Rightarrow> (case map_of (fn_store w) (acct, rt, ext) of
         Some (nsid, _) \<Rightarrow> (Inr (fake_result rt ext nsid False),
           w\<lparr>fn_store := AList.update (acct, rt, ext) (nsid, payload) (fn_store w)\<rparr>)
       | None \<Rightarrow> (let n = Suc (fn_internalIdSeq w); nsid = ''ns_'' @ acct @ ''_'' @ show_nat n in
           (Inr (fake_result rt ext nsid True),
            w\<lparr>fn_internalIdSeq := n,
              fn_store := AList.update (acct, rt, ext) (nsid, payload) (fn_store w)\<rparr>))))"

definition fake_find :: "string \<Rightarrow> string \<Rightarrow> string \<Rightarrow> string list option \<Rightarrow> (fake_ns, jsobj option) io" where
  "fake_find acct rt ext wanted = read_st (\<lambda>w. case map_of (fn_store w) (acct, rt, ext) of
     None \<Rightarrow> None
   | Some (nsid, payload) \<Rightarrow> Some (oassign [(''id'', JStr nsid), (''externalid'', JStr ext)] payload))"

definition fake_resolveItemId :: "string \<Rightarrow> string \<Rightarrow> (fake_ns, string option) io" where
  "fake_resolveItemId acct sku = (\<lambda>w. (Inr (map_of (fn_itemBySku w) (acct, sku)),
     w\<lparr>fn_resolveAttempts := Suc (fn_resolveAttempts w)\<rparr>))"

definition fake_getCustomerAddressbook ::
  "string \<Rightarrow> string \<Rightarrow> string \<Rightarrow> (fake_ns, addressbook_entry list) io" where
  "fake_getCustomerAddressbook acct customer field = read_st (\<lambda>w.
     case map_of (fn_addressbooks w) (acct, customer) of None \<Rightarrow> [] | Some es \<Rightarrow> es)"

definition failNext :: "js_error \<Rightarrow> fake_ns \<Rightarrow> fake_ns" where
  "failNext e w = w\<lparr>fn_failureQueue := fn_failureQueue w @ [e]\<rparr>"

definition seedItem :: "string \<Rightarrow> string \<Rightarrow> string \<Rightarrow> fake_ns \<Rightarrow> fake_ns" where
  "seedItem acct sku nsid w = w\<lparr>fn_itemBySku := AList.update (acct, sku) nsid (fn_itemBySku w)\<rparr>"

definition seedCustomerAddressbook ::
  "string \<Rightarrow> string \<Rightarrow> addressbook_entry list \<Rightarrow> fake_ns \<Rightarrow> fake_ns" where
  "seedCustomerAddressbook acct customer es w =
     w\<lparr>fn_addressbooks := AList.update (acct, customer) es (fn_addressbooks w)\<rparr>"

definition fake_ns_ops :: "fake_ns ns_ops" where
  "fake_ns_ops = \<lparr>no_upsert = fake_upsert, no_find = fake_find,
     no_addressbook = fake_getCustomerAddressbook, no_resolveItem = fake_resolveItemId\<rparr>"

section \<open>The contract of a gateway\<close>

text \<open>
  What the pipeline relies on: the records are keyed by account, type and external id; an upsert
  that returns wrote exactly its own key and kept the internal id of a record already there; an
  upsert that throws wrote nothing; the reads write nothing.
\<close>

locale ns_gateway =
  fixes ops :: "'w ns_ops"
    and records :: "'w \<Rightarrow> record_key \<Rightarrow> (string \<times> jsobj) option"
  assumes upsert_ok: "no_upsert ops acct rt ext payload w = (Inr u, w') \<Longrightarrow>
      records w' = (records w)((acct, rt, ext) \<mapsto> (ur_internalId u, payload))
      \<and> ur_externalId u = ext
      \<and> (ur_created u \<longleftrightarrow> records w (acct, rt, ext) = None)
      \<and> (\<forall>r. records w (acct, rt, ext) = Some r \<longrightarrow> fst r = ur_internalId u)"
    and upsert_fails: "no_upsert ops acct rt ext payload w = (Inl e, w') \<Longrightarrow> records w' = records w"
    and find_keeps: "keeps records (no_find ops acct rt ext cols)"
    and addressbook_keeps: "keeps records (no_addressbook ops acct customer field)"
    and resolve_keeps: "keeps records (no_resolveItem ops acct sku)"
begin

lemma upsert_again:
  assumes "no_upsert ops acct rt ext p w = (Inr u, w1)" and "records w2 = records w1"
    and "no_upsert ops acct rt ext q w2 = (Inr v, w3)"
  shows "ur_internalId v = ur_internalId u \<and> \<not> ur_created v \<and> dom (records w3) = dom (records w1)"
  using upsert_ok [OF assms(1)] upsert_ok [OF assms(3)] assms(2) by auto

lemma upsert_grows: "no_upsert ops acct rt ext p w = (r, w') \<Longrightarrow> dom (records w) \<subseteq> dom (records w')"
  by (cases r) (auto dest: upsert_ok upsert_fails)

lemma upsert_other:
  "no_upsert ops acct rt ext p w = (r, w') \<Longrightarrow> k \<noteq> (acct, rt, ext) \<Longrightarrow> records w' k = records w k"
  by (cases r) (auto dest: upsert_ok upsert_fails)

end

definition fake_records :: "fake_ns \<Rightarrow> record_key \<Rightarrow> (string \<times> jsobj) option" where
  "fake_records w = map_of (fn_store w)"

lemma fake_upsert_ok:
  assumes "fake_upsert acct rt ext payload w = (Inr u, w')"
  shows "fake_records w' = (fake_records w)((acct, rt, ext) \<mapsto> (ur_internalId u, payload))
      \<and> ur_externalId u = ext
      \<and> (ur_created u \<longleftrightarrow> fake_records w (acct, rt, ext) = None)
      \<and> (\<forall>r. fake_records w (acct, rt, ext) = Some r \<longrightarrow> fst r = ur_internalId u)"
  using assms
  by (auto simp: fake_upsert_def Let_def fake_records_def fake_result_def update_conv' fun_eq_iff
      split: list.splits option.splits)

interpretation fake: ns_gateway fake_ns_ops fake_records
proof unfold_locales
  fix acct rt ext payload w u w'
  assume "no_upsert fake_ns_ops acct rt ext payload w = (Inr u, w')"
  then have *: "fake_upsert acct rt ext payload w = (Inr u, w')" by (simp add: fake_ns_ops_def)
  show "fake_records w' = (fake_records w)((acct, rt, ext) \<mapsto> (ur_internalId u, payload))
      \<and> ur_externalId u = ext
      \<and> (ur_created u \<longleftrightarrow> fake_records w (acct, rt, ext) = None)
      \<and> (\<forall>r. fake_records w (acct, rt, ext) = Some r \<longrightarrow> fst r = ur_internalId u)"
    by (rule fake_upsert_ok [OF *])
next
  fix acct rt ext payload w e w'
  assume "no_upsert fake_ns_ops acct rt ext payload w = (Inl e, w')"
  then show "fake_records w' = fake_records w"
    by (auto simp: fake_ns_ops_def fake_upsert_def Let_def fake_records_def
        split: list.splits option.splits)
qed (simp_all add: fake_ns_ops_def fake_find_def fake_getCustomerAddressbook_def fake_resolveItemId_def
    fake_records_def keeps_def)

text \<open>
  The upsert of the in-memory gateway is idempotent on the external id: writing a key twice
  leaves one record under the internal id of the first write, the second write is reported as an
  update, and no other key appears.
\<close>

theorem upsert_idempotent:
  assumes "fake_upsert acct rt ext p w = (Inr u, w1)" and "fake_upsert acct rt ext q w1 = (Inr v, w2)"
  shows "ur_internalId v = ur_internalId u \<and> \<not> ur_created v
    \<and> dom (fake_records w2) = insert (acct, rt, ext) (dom (fake_records w))
    \<and> fake_records w2 (acct, rt, ext) = Some (ur_internalId u, q)"
  using fake.upsert_again [of acct rt ext p w u w1 w1 q v w2]
    fake.upsert_ok [of acct rt ext p w u w1] fake.upsert_ok [of acct rt ext q w1 v w2] assms
  by (auto simp: fake_ns_ops_def)

definition twice_written :: fake_ns where
  "twice_written = snd (fake_upsert ''SB1'' ''salesorder'' ''x'' [] empty_fake_ns)"

theorem upsert_idempotent_witness:
  "\<exists>u v w2. fake_upsert ''SB1'' ''salesorder'' ''x'' [] empty_fake_ns = (Inr u, twice_written)
    \<and> fake_upsert ''SB1'' ''salesorder'' ''x'' [] twice_written = (Inr v, w2)
    \<and> ur_internalId v = ur_internalId u \<and> \<not> ur_created v"
proof -
  obtain u where u: "fake_upsert ''SB1'' ''salesorder'' ''x'' [] empty_fake_ns = (Inr u, twice_written)"
    by (simp add: twice_written_def fake_upsert_def empty_fake_ns_def Let_def)
  obtain v w2 where v: "fake_upsert ''SB1'' ''salesorder'' ''x'' [] twice_written = (Inr v, w2)"
    by (simp add: twice_written_def fake_upsert_def empty_fake_ns_def Let_def)
  show ?thesis using upsert_idempotent [OF u v] u v by blast
qed

section \<open>NetSuite errors\<close>

text \<open>
  The codes of \<open>details['o:errorDetails']\<close>, which the SDK types as an array; a value of another
  shape, on which the source's \<open>map\<close> would throw, has no codes here.
\<close>

definition detail_codes :: "jsval \<Rightarrow> string list" where
  "detail_codes details = (case get_prop details ''o:errorDetails'' of
     JArr ds \<Rightarrow> concat (map (\<lambda>d. case get_prop d ''o:errorCode'' of
        JStr s \<Rightarrow> if s = [] then [] else [s] | _ \<Rightarrow> []) ds)
   | _ \<Rightarrow> [])"

definition all_codes :: "ns_error \<Rightarrow> string list" where
  "all_codes e = map to_upper (some_list (nse_code e) @ detail_codes (nse_details e))"

definition dataCodePatterns :: "string list" where
  "dataCodePatterns = [''INVALID_KEY_OR_REF'', ''INVALID_FIELD'', ''INVALID_RECORD'',
     ''INVALID_FIELD_VALUE'', ''MISSING_REQD_FIELD'', ''USER_ERROR'', ''INSUFFICIENT_PERMISSION'']"

definition network_message :: "string list \<Rightarrow> string \<Rightarrow> bool" where
  "network_message cues msg = list_ex (includes_str (to_lower msg)) cues"

fun mapNetSuiteError :: "js_error \<Rightarrow> error_class" where
  "mapNetSuiteError (NetSuiteError e) =
     (if nse_is_auth e then Auth
      else if nse_status e = Some 429
           \<or> list_ex (\<lambda>c. includes_str c ''CONCURRENT'' \<or> includes_str c ''GOVERNANCE'') (all_codes e) then Transient
      else if nse_is_retryable e then Transient
      else if (nse_status e = Some 400 \<or> nse_status e = Some 422)
           \<and> list_ex (\<lambda>c. list_ex (includes_str c) dataCodePatterns) (all_codes e) then Data
      else Unknown)"
| "mapNetSuiteError (NonError s) = Unknown"
| "mapNetSuiteError err =
     (if network_message [''econnreset'', ''etimedout'', ''socket hang up''] (err_message err)
      then Transient else Unknown)"

section \<open>HTTP status codes in messages\<close>

text \<open>
  The leftmost match of a pattern: \<open>m\<close> is tried at every position with the character before it.
  Matching is on the lower-cased text, the patterns being case-insensitive.
\<close>

fun re_search :: "(char option \<Rightarrow> string \<Rightarrow> 'a option) \<Rightarrow> char option \<Rightarrow> string \<Rightarrow> 'a option" where
  "re_search m before [] = m before []"
| "re_search m before (c # s) = (case m before (c # s) of Some x \<Rightarrow> Some x | None \<Rightarrow> re_search m (Some c) s)"

definition word_end :: "string \<Rightarrow> bool" where
  "word_end s \<longleftrightarrow> (case s of [] \<Rightarrow> True | c # _ \<Rightarrow> \<not> is_word_char c)"

definition word_start :: "char option \<Rightarrow> bool" where
  "word_start b \<longleftrightarrow> (case b of None \<Rightarrow> True | Some c \<Rightarrow> \<not> is_word_char c)"

text \<open>Three digits, and a word boundary where one is asked for.\<close>

definition three_digits :: "string \<Rightarrow> int option" where
  "three_digits s = (if length (takeWhile is_digit (take 3 s)) = 3 then Some (digits_value (take 3 s)) else None)"

definition status_digits :: "string \<Rightarrow> int option" where
  "status_digits s = (if word_end (drop 3 s) then three_digits s else None)"

definition re_returned :: "char option \<Rightarrow> string \<Rightarrow> int option" where
  "re_returned b s = (if starts_with s ''returned '' then status_digits (drop 9 s) else None)"

definition re_status :: "char option \<Rightarrow> string \<Rightarrow> int option" where
  "re_status b s = (if word_start b \<and> starts_with s ''status'' then
     (let t = drop 6 s; sep = (\<lambda>c. c = CHR ''='' \<or> c = CHR '':'' \<or> is_space c)
      in if takeWhile sep t = [] then None else status_digits (dropWhile sep t)) else None)"

definition re_http :: "char option \<Rightarrow> string \<Rightarrow> int option" where
  "re_http b s = (if word_start b \<and> starts_with s ''http'' then
     (let t = drop 4 s in if takeWhile is_space t = [] then None else status_digits (dropWhile is_space t))
   else None)"

definition phrase_words :: "string list" where
  "phrase_words = [''service'', ''internal'', ''gateway'', ''bad'', ''unauthorized'', ''forbidden'', ''conflict'']"

definition phrase_rest :: "string \<Rightarrow> bool" where
  "phrase_rest t \<longleftrightarrow> list_ex (\<lambda>p. starts_with t p \<and> word_end (drop (length p) t)) phrase_words
     \<or> (starts_with t ''not'' \<and> takeWhile is_space (drop 3 t) \<noteq> []
        \<and> starts_with (dropWhile is_space (drop 3 t)) ''found''
        \<and> word_end (drop 5 (dropWhile is_space (drop 3 t))))"

definition re_phrase :: "char option \<Rightarrow> string \<Rightarrow> int option" where
  "re_phrase b s = (if word_start b \<and> s \<noteq> [] \<and> (hd s = CHR ''4'' \<or> hd s = CHR ''5'')
       \<and> takeWhile is_space (drop 3 s) \<noteq> [] \<and> phrase_rest (dropWhile is_space (drop 3 s))
     then three_digits s else None)"

definition extractHttpStatus :: "string \<Rightarrow> int option" where
  "extractHttpStatus message = (let s = to_lower message in
     case re_search re_returned None s of Some n \<Rightarrow> Some n | None \<Rightarrow>
    (case re_search re_status None s of Some n \<Rightarrow> Some n | None \<Rightarrow>
    (case re_search re_http None s of Some n \<Rightarrow> Some n | None \<Rightarrow>
      re_search re_phrase None s)))"

text \<open>The class of a status, \<open>None\<close> where the source goes on to the message cues.\<close>

definition status_class :: "int \<Rightarrow> error_class option" where
  "status_class st =
     (if st = 401 \<or> st = 403 then Some Auth
      else if st = 429 then Some Transient
      else if 500 \<le> st \<and> st < 600 then Some Transient
      else if 400 \<le> st \<and> st < 500 then Some Data
      else None)"

definition classify_message :: "string \<Rightarrow> error_class" where
  "classify_message msg =
     (if network_message [''econnreset'', ''etimedout'', ''socket hang up'', ''network request failed'',
           ''fetch failed''] msg then Transient
      else if starts_with (to_lower msg) ''shopifyhttpgateway.getorder: graphql errors'' then Data
      else Unknown)"

fun classifyHandlerError :: "js_error \<Rightarrow> error_class" where
  "classifyHandlerError (OrderNotFoundError _ _) = Data"
| "classifyHandlerError (NetSuiteError e) = mapNetSuiteError (NetSuiteError e)"
| "classifyHandlerError (NonError _) = Unknown"
| "classifyHandlerError (JsError msg _) =
     (case extractHttpStatus msg of
        None \<Rightarrow> classify_message msg
      | Some st \<Rightarrow> (case status_class st of Some c \<Rightarrow> c | None \<Rightarrow> classify_message msg))"

definition shouldRetry :: "error_class \<Rightarrow> bool" where
  "shouldRetry cls \<longleftrightarrow> cls = Transient \<or> cls = Auth"

section \<open>How a decorated error is classified\<close>

lemma starts_with_app_cases:
  "starts_with (xs @ ys) p \<Longrightarrow> starts_with xs p \<or> (length xs < length p \<and> starts_with ys (drop (length xs) p))"
proof (induction xs p rule: starts_with.induct)
  case (2 d p)
  then show ?case by auto
qed auto

lemma includes_str_suffix: "starts_with s p \<Longrightarrow> includes_str s p"
  by (cases s; cases p) auto

lemma includes_str_Cons: "includes_str s p \<Longrightarrow> includes_str (c # s) p"
  by simp

lemma re_search_skip:
  assumes "\<And>b t. (\<exists>u. xs = u @ t) \<Longrightarrow> t \<noteq> [] \<Longrightarrow> m b (t @ ys) = None"
  shows "\<exists>b'. (xs = [] \<longrightarrow> b' = b) \<and> (xs \<noteq> [] \<longrightarrow> b' = Some (last xs))
    \<and> re_search m b (xs @ ys) = re_search m b' ys"
  using assms
proof (induction xs arbitrary: b)
  case (Cons c xs)
  have none: "m b (c # xs @ ys) = None" using Cons.prems [of "c # xs" b] by simp
  have sub: "m b' (t @ ys) = None" if "\<exists>u. xs = u @ t" "t \<noteq> []" for b' t
  proof -
    from that obtain u where "c # xs = (c # u) @ t" by auto
    then show ?thesis using Cons.prems [of t b'] that(2) by blast
  qed
  show ?case using Cons.IH [of "Some c", OF sub] none by (cases xs) auto
qed auto

lemma includes_append_suffix: "includes_str t p \<Longrightarrow> includes_str (u @ t) p"
  by (induction u) auto

lemma re_status_skips:
  assumes "\<not> includes_str xs ''status''" and "\<exists>u. xs = u @ t" and "t \<noteq> []"
  shows "re_status b (t @ '' '' @ ys) = None"
proof -
  have "\<not> starts_with (t @ '' '' @ ys) ''status''"
  proof
    assume "starts_with (t @ '' '' @ ys) ''status''"
    then have "starts_with t ''status'' \<or>
        (length t < length ''status'' \<and> starts_with ('' '' @ ys) (drop (length t) ''status''))"
      by (rule starts_with_app_cases)
    moreover have "\<not> starts_with t ''status''"
      using assms includes_str_suffix includes_append_suffix by blast
    moreover have "\<not> (length t < length ''status'' \<and> starts_with ('' '' @ ys) (drop (length t) ''status''))"
      by (auto simp: less_Suc_eq drop_Cons')
    ultimately show False by blast
  qed
  then show ?thesis by (simp add: re_status_def)
qed

lemma three_digit_text:
  assumes "100 \<le> st" and "st \<le> 999"
  shows "\<exists>a b c. show_int st = [digit_char a, digit_char b, digit_char c]
    \<and> 0 \<le> a \<and> a \<le> 9 \<and> 0 \<le> b \<and> b \<le> 9 \<and> 0 \<le> c \<and> c \<le> 9 \<and> st = 100 * a + 10 * b + c"
proof -
  let ?a = "st div 100" and ?b = "st div 10 mod 10" and ?c = "st mod 10"
  have "dec_digits st = [digit_char ?a, digit_char ?b, digit_char ?c]"
    using assms by (subst dec_digits.simps, subst dec_digits.simps, subst dec_digits.simps)
      (auto simp: zdiv_zmult2_eq [symmetric])
  then have "show_int st = [digit_char ?a, digit_char ?b, digit_char ?c]"
    using assms by (simp add: show_int_def)
  moreover have "st = 100 * ?a + 10 * ?b + ?c"
  proof -
    have "st = 10 * (st div 10) + ?c" and "st div 10 = 10 * (st div 10 div 10) + ?b" by simp_all
    moreover have "st div 10 div 10 = ?a" by (simp add: zdiv_zmult2_eq [symmetric])
    ultimately show ?thesis by linarith
  qed
  moreover have "0 \<le> ?a \<and> ?a \<le> 9" using assms by auto
  moreover have "0 \<le> ?b \<and> ?b \<le> 9" and "0 \<le> ?c \<and> ?c \<le> 9"
    using pos_mod_bound [of 10 "st div 10"] pos_mod_bound [of 10 st] by auto
  ultimately show ?thesis by blast
qed

lemma lower_digit_char: "0 \<le> d \<Longrightarrow> d < 10 \<Longrightarrow> lower_char (digit_char d) = digit_char d"
  using is_digit_digit_char [of d] by (auto simp: is_digit_def lower_char_def is_upper_def)

lemma status_digits_text:
  assumes "100 \<le> st" and "st \<le> 999"
  shows "status_digits (to_lower (show_int st) @ '' '' @ ys) = Some st"
    and "\<exists>d ds. to_lower (show_int st) = d # ds \<and> is_digit d"
proof -
  obtain a b c where t: "show_int st = [digit_char a, digit_char b, digit_char c]"
    and r: "0 \<le> a" "a \<le> 9" "0 \<le> b" "b \<le> 9" "0 \<le> c" "c \<le> 9" and st: "st = 100 * a + 10 * b + c"
    using three_digit_text [OF assms] by blast
  have low: "to_lower (show_int st) = [digit_char a, digit_char b, digit_char c]"
    using r by (simp add: t to_lower_def lower_digit_char)
  have "\<not> is_word_char (CHR '' '')"
    by (simp add: is_word_char_def is_letter_def is_upper_def is_lower_def is_digit_def)
  then show "status_digits (to_lower (show_int st) @ '' '' @ ys) = Some st"
    unfolding low using r by (simp add: status_digits_def three_digits_def word_end_def digits_value_def st)
  show "\<exists>d ds. to_lower (show_int st) = d # ds \<and> is_digit d"
    unfolding low using r by simp
qed

definition decorated_prefix :: "string \<Rightarrow> string" where
  "decorated_prefix context = to_lower (''NS '' @ context)"

lemma decorated_class:
  assumes st: "nse_status e = Some st" "400 \<le> st" "st < 600"
    and quiet: "\<not> includes_str (decorated_prefix context) ''status''"
    and nr: "re_search re_returned None
        (to_lower (err_message (decorateNsError (NetSuiteError e) context body))) = None"
  shows "Some (classifyHandlerError (decorateNsError (NetSuiteError e) context body)) = status_class st"
proof -
  define tl where "tl = (if nse_details e \<noteq> JUndef then '' details='' @ json_slice 1500 (nse_details e) else [])
      @ (if body \<noteq> JUndef then '' body='' @ json_slice 4000 body else [])"
  define msg where "msg = (''NS '' @ context) @ '' status='' @ show_int st @ '' '' @ nse_message e @ tl"
  have dec: "\<exists>raw. decorateNsError (NetSuiteError e) context body = JsError msg raw"
    using st(1) by (simp add: decorateNsError_def msg_def tl_def opt_int_str_def Let_def)
  have low: "to_lower msg = decorated_prefix context @ '' '' @ ''status='' @ to_lower (show_int st) @ '' ''
      @ to_lower (nse_message e @ tl)"
    by (simp add: msg_def decorated_prefix_def to_lower_def lower_char_def is_upper_def)
  have "re_status b (t @ '' '' @ ''status='' @ zs) = None"
    if "\<exists>u. decorated_prefix context = u @ t" "t \<noteq> []" for b t zs
    using re_status_skips [OF quiet that] by simp
  then obtain b where "re_search re_status None (to_lower msg) = re_search re_status b
      ('' '' @ ''status='' @ to_lower (show_int st) @ '' '' @ to_lower (nse_message e @ tl))"
    unfolding low using re_search_skip [of "decorated_prefix context" re_status
        "'' '' @ ''status='' @ to_lower (show_int st) @ '' '' @ to_lower (nse_message e @ tl)" None] by blast
  moreover obtain d ds where dd: "to_lower (show_int st) = d # ds" "is_digit d"
    using status_digits_text(2) [of st] st by auto
  moreover have "\<not> is_space d" "d \<noteq> CHR ''=''" "d \<noteq> CHR '':''"
    using dd(2) by (auto simp: is_digit_def is_space_def)
  moreover have "status_digits (to_lower (show_int st) @ '' '' @ to_lower (nse_message e @ tl)) = Some st"
    using status_digits_text(1) st by simp
  ultimately have "re_search re_status None (to_lower msg) = Some st"
    by (simp add: re_status_def word_start_def is_word_char_def is_letter_def is_upper_def is_lower_def
        is_digit_def [of "CHR '' ''"] Let_def)
  then have "extractHttpStatus msg = Some st"
    using nr dec by (auto simp: extractHttpStatus_def)
  moreover have "status_class st \<noteq> None" using st by (auto simp: status_class_def)
  ultimately show ?thesis using dec by auto
qed

text \<open>
  A NetSuite error that goes through the gateway loses its own classification. The gateway wraps
  every \<open>NetSuiteError\<close> of a write in a plain \<open>Error\<close> whose text carries the HTTP status, so an HTTP
  400 that reports the concurrency limit, which \<open>mapNetSuiteError\<close> calls transient (retry), is
  classified as data by the handler (parked, never retried).
\<close>

theorem concurrency_limit_parked:
  assumes "nse_status e = Some 400" and "\<not> nse_is_auth e"
    and "list_ex (\<lambda>c. includes_str c ''CONCURRENT'') (all_codes e)"
    and "\<not> includes_str (decorated_prefix context) ''status''"
    and "re_search re_returned None
        (to_lower (err_message (decorateNsError (NetSuiteError e) context body))) = None"
  shows "mapNetSuiteError (NetSuiteError e) = Transient
    \<and> classifyHandlerError (decorateNsError (NetSuiteError e) context body) = Data
    \<and> \<not> shouldRetry (classifyHandlerError (decorateNsError (NetSuiteError e) context body))"
proof -
  have "mapNetSuiteError (NetSuiteError e) = Transient"
    using assms(2,3) by (auto simp: list_ex_iff)
  moreover have "classifyHandlerError (decorateNsError (NetSuiteError e) context body) = Data"
    using decorated_class [OF assms(1) _ _ assms(4,5)] by (simp add: status_class_def)
  ultimately show ?thesis by (simp add: shouldRetry_def)
qed

definition concurrency_error :: ns_error where
  "concurrency_error = \<lparr>nse_message = ''Bad Request'', nse_is_auth = False, nse_is_retryable = False,
     nse_code = Some ''WS_CONCURRENT_REQUEST_LIMIT_EXCEEDED'', nse_status = Some 400,
     nse_details = JUndef, nse_body = JUndef\<rparr>"

theorem concurrency_limit_parked_witness:
  "mapNetSuiteError (NetSuiteError concurrency_error) = Transient
    \<and> classifyHandlerError (decorateNsError (NetSuiteError concurrency_error)
        ''upsert salesorder eid:shopify-order-1'' (JObj [])) = Data"
proof -
  have "list_ex (\<lambda>c. includes_str c ''CONCURRENT'') (all_codes concurrency_error)" by code_simp
  moreover have "\<not> includes_str (decorated_prefix ''upsert salesorder eid:shopify-order-1'') ''status''"
    by code_simp
  moreover have "re_search re_returned None (to_lower (err_message (decorateNsError
      (NetSuiteError concurrency_error) ''upsert salesorder eid:shopify-order-1'' (JObj [])))) = None"
    by code_simp
  ultimately show ?thesis
    using concurrency_limit_parked [of concurrency_error "''upsert salesorder eid:shopify-order-1''" "JObj []"]
    by (simp add: concurrency_error_def)
qed

end
