(* ===== verification/Balancing.thy ===== *)
theory Balancing
  imports PayloadBuilder
begin

text \<open>
  \<open>packages/netsuite-client/src/balancing.ts\<close>: the totals check before a payload is booked, in
  binary64. The theorem says what the arithmetic amounts to in whole cents.
\<close>

section \<open>The code\<close>

definition round2 :: "jsnum \<Rightarrow> jsnum" where
  "round2 n = num_over (math_round (num_times n 100)) 100"

definition parseAmount :: "string \<Rightarrow> js_error + jsnum" where
  "parseAmount s = (case parse_float s of
     NaN \<Rightarrow> Inl (plain_error (''balancing: cannot parse amount '' @ quoted s @ '' as a number''))
   | n \<Rightarrow> Inr (round2 n))"

fun sum_loop :: "jsnum \<Rightarrow> jsval list \<Rightarrow> js_error + jsnum" where
  "sum_loop acc [] = Inr acc"
| "sum_loop acc (JStr s # vs) = (case parseAmount s of Inl e \<Rightarrow> Inl e | Inr n \<Rightarrow> sum_loop (num_add acc n) vs)"
| "sum_loop acc (JNum n # vs) = sum_loop (num_add acc (round2 n)) vs"
| "sum_loop acc (v # vs) = sum_loop acc vs"

definition sumAmounts :: "jsval list \<Rightarrow> js_error + jsnum" where
  "sumAmounts vs = (case sum_loop (Fin 0) vs of Inl e \<Rightarrow> Inl e | Inr t \<Rightarrow> Inr (round2 t))"

record balancing_options =
  toleranceAmount :: jsnum
  balancingItemId :: string

definition DEFAULT_BALANCING :: balancing_options where
  "DEFAULT_BALANCING = \<lparr>toleranceAmount = num (1 / 20), balancingItemId = ''6540''\<rparr>"

record balancing_diagnostics =
  bd_shopifyTotal :: jsnum
  bd_nsLinesTotal :: jsnum
  bd_nsTaxTotal :: jsnum
  bd_nsShippingTotal :: jsnum
  bd_orderDiscounts :: jsnum
  bd_diff :: jsnum
  bd_applied :: bool

text \<open>\<open>payload.item.items\<close>, and \<open>payload.shipping?.items ?? []\<close>.\<close>

definition item_lines :: "jsobj \<Rightarrow> js_error + jsval list" where
  "item_lines payload = (case get_prop (oget payload ''item'') ''items'' of
     JArr ls \<Rightarrow> Inr ls
   | _ \<Rightarrow> Inl (type_error (''Cannot read properties of undefined (reading '' @ quoted ''map'' @ '')'')))"

definition shipping_lines :: "jsobj \<Rightarrow> js_error + jsval list" where
  "shipping_lines payload =
     (let sh = oget payload ''shipping''; items = (if nullish sh then JUndef else get_prop sh ''items'') in
      case items of JArr ls \<Rightarrow> Inr ls
      | _ \<Rightarrow> (if nullish items then Inr [] else Inl (type_error ''(intermediate value).map is not a function'')))"

definition line_amounts :: "jsval list \<Rightarrow> jsval list" where
  "line_amounts ls = map (\<lambda>l. get_prop l ''amount'') ls"

definition balancing_line :: "balancing_options \<Rightarrow> jsnum \<Rightarrow> jsval" where
  "balancing_line opts diff = JObj [(''item'', JObj [(''id'', JStr (balancingItemId opts))]),
     (''quantity'', JNum (Fin 1)), (''rate'', JNum diff), (''amount'', JNum diff),
     (''description'', JStr ''Rounding adjustment'')]"

definition over_tolerance :: "shopify_order \<Rightarrow> balancing_options \<Rightarrow> balancing_diagnostics \<Rightarrow> park_reason" where
  "over_tolerance so opts d = \<lparr>pr_detail = ''totals differ by '' @ to_fixed2 (bd_diff d) @ '' ''
       @ currencyCode (so_totalPrice so) @ '' (tolerance '' @ to_fixed2 (toleranceAmount opts)
       @ ''); refusing to book until reconciled'',
     pr_construct = Some ''balancing'',
     pr_evidence = Some [(''shopifyTotal'', JNum (bd_shopifyTotal d)), (''nsLinesTotal'', JNum (bd_nsLinesTotal d)),
       (''nsShippingTotal'', JNum (bd_nsShippingTotal d)), (''nsTaxTotal'', JNum (bd_nsTaxTotal d)),
       (''orderDiscounts'', JNum (bd_orderDiscounts d)), (''diff'', JNum (bd_diff d))]\<rparr>"

definition finish_balancing :: "jsobj \<Rightarrow> jsval list \<Rightarrow> shopify_order \<Rightarrow> balancing_options
    \<Rightarrow> balancing_diagnostics \<Rightarrow> (jsobj \<times> balancing_diagnostics) mapping_result" where
  "finish_balancing payload lines so opts d =
     (if num_less (toleranceAmount opts) (num_abs (bd_diff d)) then Park (over_tolerance so opts d)
      else if num_same (bd_diff d) (Fin 0) then MapOk (payload, d\<lparr>bd_applied := False\<rparr>)
      else MapOk (oset ''item'' (JObj [(''items'', JArr (lines @ [balancing_line opts (bd_diff d)]))]) payload,
             d\<lparr>bd_applied := True\<rparr>))"

text \<open>The totals, in the order the code computes them; any of the five may throw.\<close>

definition balancing_totals :: "jsobj \<Rightarrow> shopify_order \<Rightarrow> js_error + (jsval list \<times> balancing_diagnostics)" where
  "balancing_totals payload so =
     (case parseAmount (amount (so_totalPrice so)) of Inl e \<Rightarrow> Inl e | Inr shopifyTotal \<Rightarrow>
     (case parseAmount (amount (so_totalTax so)) of Inl e \<Rightarrow> Inl e | Inr nsTaxTotal \<Rightarrow>
     (case shipping_lines payload of Inl e \<Rightarrow> Inl e | Inr shippings \<Rightarrow>
     (case sumAmounts (line_amounts shippings) of Inl e \<Rightarrow> Inl e | Inr nsShippingTotal \<Rightarrow>
     (case item_lines payload of Inl e \<Rightarrow> Inl e | Inr lines \<Rightarrow>
     (case sumAmounts (line_amounts lines) of Inl e \<Rightarrow> Inl e | Inr nsLinesTotal \<Rightarrow>
     (case parseAmount (amount (so_totalDiscounts so)) of Inl e \<Rightarrow> Inl e | Inr orderDiscounts \<Rightarrow>
       (let nsTotal = round2 (num_sub (num_add (num_add nsLinesTotal nsShippingTotal) nsTaxTotal) orderDiscounts);
            diff = round2 (num_sub shopifyTotal nsTotal)
        in Inr (lines, \<lparr>bd_shopifyTotal = shopifyTotal, bd_nsLinesTotal = nsLinesTotal,
             bd_nsTaxTotal = nsTaxTotal, bd_nsShippingTotal = nsShippingTotal,
             bd_orderDiscounts = orderDiscounts, bd_diff = diff, bd_applied = False\<rparr>)))))))))"

definition applyBalancing :: "jsobj \<Rightarrow> shopify_order \<Rightarrow> balancing_options
    \<Rightarrow> js_error + (jsobj \<times> balancing_diagnostics) mapping_result" where
  "applyBalancing payload so opts = (case balancing_totals payload so of
     Inl e \<Rightarrow> Inl e
   | Inr (lines, d) \<Rightarrow> Inr (finish_balancing payload lines so opts d))"

section \<open>Whole cents\<close>

definition cents :: "int \<Rightarrow> rat" where
  "cents k = fl (of_int k / 100)"

text \<open>A number that means \<open>k\<close> cents: within a tenth of a cent of it.\<close>

definition near :: "jsnum \<Rightarrow> int \<Rightarrow> bool" where
  "near n k \<longleftrightarrow> (\<exists>x. n = Fin x \<and> \<bar>x - of_int k / 100\<bar> \<le> 1 / 1000)"

lemma two_powers: "(2 :: rat) ^ 52 = 4503599627370496" "(1 :: rat) / 2 ^ 1075 \<le> 1 / 2 ^ 53"
  by (simp_all add: field_simps power_increasing)

lemma ten_powers:
  "(10 :: rat) ^ 6 = 1000000" "(10 :: rat) ^ 8 = 100000000" "(10 :: rat) ^ 9 = 1000000000"
  "(10 :: rat) ^ 10 = 10000000000" "(10 :: rat) ^ 11 = 100000000000" "(10 :: rat) ^ 12 = 1000000000000"
  "(10 :: int) ^ 11 = 100000000000" "(10 :: int) ^ 12 = 1000000000000"
  by simp_all

lemma fl_close:
  assumes "1 \<le> b" and "\<bar>x\<bar> \<le> b"
  shows "\<bar>fl x - x\<bar> \<le> b / 2 ^ 52"
proof -
  have "\<bar>fl x - x\<bar> \<le> \<bar>x\<bar> / 2 ^ 53 + 1 / 2 ^ 1075" by (rule fl_error)
  also have "\<dots> \<le> b / 2 ^ 53 + 1 / 2 ^ 53"
    using assms two_powers(2) by (intro add_mono divide_right_mono) auto
  also have "\<dots> \<le> b / 2 ^ 53 + b / 2 ^ 53"
    using assms by (intro add_left_mono divide_right_mono) auto
  also have "\<dots> = b / 2 ^ 52" by simp
  finally show ?thesis .
qed

lemma num_close:
  assumes "1 \<le> b" and "b \<le> 10 ^ 15" and "\<bar>x\<bar> \<le> b"
  shows "num x = Fin (fl x)" and "\<bar>fl x - x\<bar> \<le> b / 4503599627370496"
proof -
  show c: "\<bar>fl x - x\<bar> \<le> b / 4503599627370496"
    using fl_close [OF assms(1,3)] unfolding two_powers(1) .
  have "\<bar>fl x\<bar> < 2 * 10 ^ 15"
    using c assms by linarith
  moreover have "(2 :: rat) * 10 ^ 15 \<le> 2 ^ 1024"
  proof -
    have "(2 :: rat) * 10 ^ 15 \<le> 2 ^ 64" by simp
    also have "\<dots> \<le> 2 ^ 1024" by (rule power_increasing) simp_all
    finally show ?thesis .
  qed
  ultimately show "num x = Fin (fl x)" by (intro num_finite) linarith
qed

lemma cents_close:
  assumes "\<bar>k\<bar> \<le> 10 ^ 12"
  shows "num (of_int k / 100) = Fin (cents k)" and "\<bar>cents k - of_int k / 100\<bar> \<le> 1 / 100000"
proof -
  have b: "\<bar>of_int k / 100 :: rat\<bar> \<le> 10 ^ 10"
  proof -
    have "\<bar>of_int k :: rat\<bar> \<le> of_int (10 ^ 12)" using assms by (simp only: of_int_abs [symmetric] of_int_le_iff)
    then show ?thesis by (simp add: abs_divide)
  qed
  show "num (of_int k / 100) = Fin (cents k)"
    unfolding cents_def using b by (intro num_close(1) [of "10 ^ 10"]) simp_all
  have "\<bar>cents k - of_int k / 100\<bar> \<le> 10 ^ 10 / 4503599627370496"
    unfolding cents_def using b by (intro num_close(2)) simp_all
  then show "\<bar>cents k - of_int k / 100\<bar> \<le> 1 / 100000" by simp
qed

lemma near_cents: "\<bar>k\<bar> \<le> 10 ^ 12 \<Longrightarrow> near (Fin (cents k)) k"
  using cents_close(2) [of k] by (auto simp: near_def)

lemma round2_near:
  assumes "near n k" and "\<bar>k\<bar> \<le> 10 ^ 12"
  shows "round2 n = Fin (cents k)"
proof -
  obtain x where x: "n = Fin x" "\<bar>x - of_int k / 100\<bar> \<le> 1 / 1000"
    using assms(1) by (auto simp: near_def)
  have k: "\<bar>of_int k :: rat\<bar> \<le> 10 ^ 12"
    using assms(2) by (metis of_int_abs of_int_le_iff of_int_numeral of_int_power)
  have d: "\<bar>x * 100 - of_int k\<bar> \<le> 1 / 10"
    using x(2) by linarith
  with k have b: "\<bar>x * 100\<bar> \<le> 2 * 10 ^ 12" unfolding ten_powers by linarith
  have y: "num (x * 100) = Fin (fl (x * 100))" "\<bar>fl (x * 100) - x * 100\<bar> \<le> 2 * 10 ^ 12 / 4503599627370496"
    using num_close [OF _ _ b] by simp_all
  have "\<bar>fl (x * 100) - of_int k\<bar> < 1 / 2"
    using y(2) d unfolding ten_powers by linarith
  then have "\<lfloor>fl (x * 100) + 1 / 2\<rfloor> = k" by (intro floor_unique) linarith+
  then show ?thesis
    using cents_close(1) [OF assms(2)] by (simp add: round2_def x(1) y(1))
qed

section \<open>Sums\<close>

text \<open>A line amount that means \<open>k\<close> cents, up to a million.\<close>

definition amount_cents :: "jsval \<Rightarrow> int \<Rightarrow> bool" where
  "amount_cents v k \<longleftrightarrow> \<bar>k\<bar> \<le> 10 ^ 8
     \<and> ((\<exists>n. v = JNum n \<and> near n k) \<or> (\<exists>s. v = JStr s \<and> near (parse_float s) k))"

lemma parseAmount_near:
  assumes "near (parse_float s) k" and "\<bar>k\<bar> \<le> 10 ^ 12"
  shows "parseAmount s = Inr (Fin (cents k))"
  using round2_near [OF assms] assms(1) by (auto simp: parseAmount_def near_def)

lemma sum_loop_step:
  assumes "amount_cents v k"
  shows "sum_loop acc (v # vs) = sum_loop (num_add acc (Fin (cents k))) vs"
  using assms round2_near [of _ k] parseAmount_near [of _ k] by (auto simp: amount_cents_def)

lemma add_step:
  assumes "\<bar>t - of_int s / 100\<bar> \<le> of_nat i / 1000000" and "i < 1000" and "\<bar>s\<bar> \<le> int i * 10 ^ 8" and "\<bar>k\<bar> \<le> 10 ^ 8"
  shows "\<exists>t'. num_add (Fin t) (Fin (cents k)) = Fin t'
    \<and> \<bar>t' - of_int (s + k) / 100\<bar> \<le> of_nat (Suc i) / 1000000"
proof -
  have k: "\<bar>of_int k :: rat\<bar> \<le> 10 ^ 8"
    using assms(4) by (metis of_int_abs of_int_le_iff of_int_numeral of_int_power)
  have "\<bar>s\<bar> \<le> 10 ^ 11" using assms(2,3) by simp
  then have s: "\<bar>of_int s :: rat\<bar> \<le> 10 ^ 11"
    by (metis of_int_abs of_int_le_iff of_int_numeral of_int_power)
  have i: "(of_nat i :: rat) / 1000000 \<le> 1" using assms(2) by simp
  have kc: "\<bar>of_int k / 100 :: rat\<bar> \<le> 10 ^ 6" using k by (simp add: abs_le_iff)
  have c: "\<bar>cents k - of_int k / 100\<bar> \<le> 10 ^ 6 / 4503599627370496"
    unfolding cents_def using kc by (intro num_close(2)) simp_all
  have b: "\<bar>t + cents k\<bar> \<le> 2 * 10 ^ 9"
    using assms(1) i s c kc unfolding ten_powers by linarith
  have n: "num (t + cents k) = Fin (fl (t + cents k))"
    "\<bar>fl (t + cents k) - (t + cents k)\<bar> \<le> 2 * 10 ^ 9 / 4503599627370496"
    using num_close [OF _ _ b] by simp_all
  have "\<bar>fl (t + cents k) - of_int (s + k) / 100\<bar> \<le> of_nat (Suc i) / 1000000"
    using n(2) assms(1) c unfolding of_int_add of_nat_Suc add_divide_distrib ten_powers by linarith
  then show ?thesis using n(1) by simp
qed

lemma sum_loop_cents:
  assumes "list_all2 amount_cents vs ks" and "i + length vs \<le> 1000"
    and "\<bar>t - of_int s / 100\<bar> \<le> of_nat i / 1000000" and "\<bar>s\<bar> \<le> int i * 10 ^ 8"
  shows "\<exists>t'. sum_loop (Fin t) vs = Inr (Fin t')
    \<and> \<bar>t' - of_int (s + sum_list ks) / 100\<bar> \<le> of_nat (i + length vs) / 1000000
    \<and> \<bar>s + sum_list ks\<bar> \<le> int (i + length vs) * 10 ^ 8"
  using assms
proof (induction vs ks arbitrary: i s t rule: list_all2_induct)
  case (Cons v vs k ks)
  have k: "\<bar>k\<bar> \<le> 10 ^ 8" using Cons.hyps(1) by (simp add: amount_cents_def)
  obtain t1 where t1: "num_add (Fin t) (Fin (cents k)) = Fin t1"
      "\<bar>t1 - of_int (s + k) / 100\<bar> \<le> of_nat (Suc i) / 1000000"
    using add_step [of t s i k] Cons.prems k by auto
  have "\<bar>s + k\<bar> \<le> int (Suc i) * 10 ^ 8" using Cons.prems(3) k by simp
  then show ?case
    using Cons.IH [of "Suc i" t1 "s + k"] Cons.prems(1) t1 sum_loop_step [OF Cons.hyps(1)]
    by (simp add: add.assoc)
qed auto

lemma sumAmounts_cents:
  assumes "list_all2 amount_cents vs ks" and "length vs \<le> 1000"
  shows "sumAmounts vs = Inr (Fin (cents (sum_list ks)))" and "\<bar>sum_list ks\<bar> \<le> 10 ^ 11"
proof -
  obtain t where t: "sum_loop (Fin 0) vs = Inr (Fin t)"
      "\<bar>t - of_int (sum_list ks) / 100\<bar> \<le> of_nat (length vs) / 1000000"
      "\<bar>sum_list ks\<bar> \<le> int (length vs) * 10 ^ 8"
    using sum_loop_cents [OF assms(1), of 0 0 0] assms(2) by auto
  then show s: "\<bar>sum_list ks\<bar> \<le> 10 ^ 11" using assms(2) by simp
  have "(of_nat (length vs) :: rat) / 1000000 \<le> 1 / 1000" using assms(2) by simp
  then have "near (Fin t) (sum_list ks)" using t(2) by (auto simp: near_def)
  then show "sumAmounts vs = Inr (Fin (cents (sum_list ks)))"
    using round2_near [of "Fin t" "sum_list ks"] s t(1) by (simp add: sumAmounts_def)
qed

section \<open>What the check decides\<close>

text \<open>
  The order and its lines speak in whole cents: totals up to a thousand million, at most a thousand
  lines of either kind of up to a million each.
\<close>

record cents_order =
  co_total :: int
  co_tax :: int
  co_discounts :: int
  co_shipping :: "int list"
  co_lines :: "int list"

definition total_cents :: "money \<Rightarrow> int \<Rightarrow> bool" where
  "total_cents m k \<longleftrightarrow> near (parse_float (amount m)) k \<and> \<bar>k\<bar> \<le> 10 ^ 11"

definition in_cents :: "jsobj \<Rightarrow> shopify_order \<Rightarrow> cents_order \<Rightarrow> bool" where
  "in_cents payload so c \<longleftrightarrow>
     total_cents (so_totalPrice so) (co_total c) \<and> total_cents (so_totalTax so) (co_tax c)
     \<and> total_cents (so_totalDiscounts so) (co_discounts c)
     \<and> (\<exists>sh ls. shipping_lines payload = Inr sh \<and> item_lines payload = Inr ls
          \<and> length sh \<le> 1000 \<and> length ls \<le> 1000
          \<and> list_all2 amount_cents (line_amounts sh) (co_shipping c)
          \<and> list_all2 amount_cents (line_amounts ls) (co_lines c))"

definition booked_cents :: "cents_order \<Rightarrow> int" where
  "booked_cents c = sum_list (co_lines c) + sum_list (co_shipping c) + co_tax c - co_discounts c"

lemma num_op_cents:
  assumes "\<bar>x - of_int a / 100\<bar> \<le> e" and "\<bar>y - of_int b / 100\<bar> \<le> e" and "0 \<le> e" and "e \<le> 1 / 10000"
    and "\<bar>a\<bar> \<le> 10 ^ 12" and "\<bar>b\<bar> \<le> 10 ^ 12"
  shows "\<exists>z. num (x + y) = Fin z \<and> \<bar>z - of_int (a + b) / 100\<bar> \<le> 2 * e + 1 / 100000"
    and "\<exists>z. num (x - y) = Fin z \<and> \<bar>z - of_int (a - b) / 100\<bar> \<le> 2 * e + 1 / 100000"
proof -
  have ab: "\<bar>of_int a :: rat\<bar> \<le> 10 ^ 12" "\<bar>of_int b :: rat\<bar> \<le> 10 ^ 12"
    using assms(5,6) by (metis of_int_abs of_int_le_iff of_int_numeral of_int_power)+
  have b1: "\<bar>x + y\<bar> \<le> 3 * 10 ^ 10"
    using assms(1-4) ab unfolding ten_powers by linarith
  have b2: "\<bar>x - y\<bar> \<le> 3 * 10 ^ 10"
    using assms(1-4) ab unfolding ten_powers by linarith
  have "num (x + y) = Fin (fl (x + y))" "\<bar>fl (x + y) - (x + y)\<bar> \<le> 3 * 10 ^ 10 / 4503599627370496"
    using num_close [OF _ _ b1] by simp_all
  then show "\<exists>z. num (x + y) = Fin z \<and> \<bar>z - of_int (a + b) / 100\<bar> \<le> 2 * e + 1 / 100000"
    using assms(1,2) unfolding of_int_add add_divide_distrib ten_powers
    by (intro exI [of _ "fl (x + y)"] conjI) (assumption, linarith)
  have "num (x - y) = Fin (fl (x - y))" "\<bar>fl (x - y) - (x - y)\<bar> \<le> 3 * 10 ^ 10 / 4503599627370496"
    using num_close [OF _ _ b2] by simp_all
  then show "\<exists>z. num (x - y) = Fin z \<and> \<bar>z - of_int (a - b) / 100\<bar> \<le> 2 * e + 1 / 100000"
    using assms(1,2) unfolding of_int_diff diff_divide_distrib ten_powers
    by (intro exI [of _ "fl (x - y)"] conjI) (assumption, linarith)
qed

lemma num_sub_Fin: "num_sub (Fin a) (Fin b) = num (a - b)"
  by (simp add: num_sub_def)

text \<open>The totals come out as the exact cents.\<close>

lemma totals_cents:
  assumes "in_cents payload so c"
  shows "\<exists>ls d. balancing_totals payload so = Inr (ls, d) \<and> item_lines payload = Inr ls
    \<and> bd_diff d = Fin (cents (co_total c - booked_cents c)) \<and> \<bar>co_total c - booked_cents c\<bar> \<le> 10 ^ 12"
proof -
  obtain sh ls where l: "shipping_lines payload = Inr sh" "item_lines payload = Inr ls"
      "length sh \<le> 1000" "length ls \<le> 1000"
      "list_all2 amount_cents (line_amounts sh) (co_shipping c)"
      "list_all2 amount_cents (line_amounts ls) (co_lines c)"
    using assms by (auto simp: in_cents_def)
  let ?S = "sum_list (co_shipping c)" and ?L = "sum_list (co_lines c)"
  have sums: "sumAmounts (line_amounts sh) = Inr (Fin (cents ?S))" "\<bar>?S\<bar> \<le> 10 ^ 11"
    "sumAmounts (line_amounts ls) = Inr (Fin (cents ?L))" "\<bar>?L\<bar> \<le> 10 ^ 11"
    using sumAmounts_cents [OF l(5)] sumAmounts_cents [OF l(6)] l(3,4) by (simp_all add: line_amounts_def)
  have b: "\<bar>co_total c\<bar> \<le> 10 ^ 11" "\<bar>co_tax c\<bar> \<le> 10 ^ 11" "\<bar>co_discounts c\<bar> \<le> 10 ^ 11"
    and p: "parseAmount (amount (so_totalPrice so)) = Inr (Fin (cents (co_total c)))"
      "parseAmount (amount (so_totalTax so)) = Inr (Fin (cents (co_tax c)))"
      "parseAmount (amount (so_totalDiscounts so)) = Inr (Fin (cents (co_discounts c)))"
    using assms by (auto simp: in_cents_def total_cents_def intro!: parseAmount_near)
  have near: "\<bar>cents k - of_int k / 100\<bar> \<le> 1 / 100000" if "\<bar>k\<bar> \<le> 10 ^ 11" for k
    using cents_close(2) [of k] that by simp
  have bs: "\<bar>?L\<bar> \<le> 10 ^ 12" "\<bar>?S\<bar> \<le> 10 ^ 12" "\<bar>?L + ?S\<bar> \<le> 10 ^ 12" "\<bar>?L + ?S + co_tax c\<bar> \<le> 10 ^ 12"
      "\<bar>co_tax c\<bar> \<le> 10 ^ 12" "\<bar>co_discounts c\<bar> \<le> 10 ^ 12" "\<bar>co_total c\<bar> \<le> 10 ^ 12"
    using sums(2,4) b unfolding ten_powers by linarith+
  note op = num_op_cents [unfolded mult_2]
  obtain z1 where z1: "num (cents ?L + cents ?S) = Fin z1" "\<bar>z1 - of_int (?L + ?S) / 100\<bar> \<le> 3 / 100000"
    using op(1) [OF near [OF sums(4)] near [OF sums(2)] _ _ bs(1,2)] by auto
  have n2: "\<bar>cents (co_tax c) - of_int (co_tax c) / 100\<bar> \<le> 3 / 100000"
    using near [OF b(2)] by linarith
  obtain z2 where z2: "num (z1 + cents (co_tax c)) = Fin z2" "\<bar>z2 - of_int (?L + ?S + co_tax c) / 100\<bar> \<le> 7 / 100000"
    using op(1) [OF z1(2) n2 _ _ bs(3,5)] by auto
  have n3: "\<bar>cents (co_discounts c) - of_int (co_discounts c) / 100\<bar> \<le> 7 / 100000"
    using near [OF b(3)] by linarith
  obtain z3 where z3: "num (z2 - cents (co_discounts c)) = Fin z3"
      "\<bar>z3 - of_int (?L + ?S + co_tax c - co_discounts c) / 100\<bar> \<le> 15 / 100000"
    using op(2) [OF z2(2) n3 _ _ bs(4,6)] by auto
  have B: "\<bar>booked_cents c\<bar> \<le> 10 ^ 12"
    using sums(2,4) b unfolding booked_cents_def ten_powers by linarith
  have "near (Fin z3) (booked_cents c)"
    using z3(2) unfolding near_def booked_cents_def by (intro exI [of _ z3] conjI refl) linarith
  then have ns: "round2 (Fin z3) = Fin (cents (booked_cents c))"
    using B by (intro round2_near) simp_all
  have nb: "\<bar>cents (booked_cents c) - of_int (booked_cents c) / 100\<bar> \<le> 1 / 100000"
    using cents_close(2) [of "booked_cents c"] B by simp
  obtain z4 where z4: "num (cents (co_total c) - cents (booked_cents c)) = Fin z4"
      "\<bar>z4 - of_int (co_total c - booked_cents c) / 100\<bar> \<le> 3 / 100000"
    using op(2) [OF near [OF b(1)] nb _ _ bs(7) B] by auto
  have D: "\<bar>co_total c - booked_cents c\<bar> \<le> 10 ^ 12"
    using sums(2,4) b unfolding booked_cents_def ten_powers by linarith
  have "near (Fin z4) (co_total c - booked_cents c)"
    using z4(2) unfolding near_def by (intro exI [of _ z4] conjI refl) linarith
  then have "round2 (Fin z4) = Fin (cents (co_total c - booked_cents c))"
    using D by (intro round2_near)
  then show ?thesis
    using D by (simp add: balancing_totals_def p l sums z1 z2 z3 ns z4 num_sub_Fin Let_def)
qed

lemma cents_five: "num (1 / 20) = Fin (cents 5)" "cents (- 5) = - cents 5" "cents 0 = 0"
  by code_simp+

lemma cents_tolerance:
  assumes "\<bar>d\<bar> \<le> 10 ^ 12"
  shows "num_less (num (1 / 20)) (num_abs (Fin (cents d))) \<longleftrightarrow> 5 < \<bar>d\<bar>"
    and "num_same (Fin (cents d)) (Fin 0) \<longleftrightarrow> d = 0"
proof -
  have c: "\<bar>cents d - of_int d / 100\<bar> \<le> 1 / 100000" and c5: "\<bar>cents 5 - 5 / 100\<bar> \<le> 1 / 100000"
    using cents_close(2) [OF assms] cents_close(2) [of 5] by simp_all
  have "cents 5 < \<bar>cents d\<bar> \<longleftrightarrow> 5 < \<bar>d\<bar>"
  proof -
    consider "d = 5" | "d = - 5" | "\<bar>d\<bar> \<le> 4" | "6 \<le> \<bar>d\<bar>" by linarith
    then show ?thesis
    proof cases
      case 3
      then have "\<bar>of_int d :: rat\<bar> \<le> 4" by linarith
      then show ?thesis using c c5 3 by linarith
    next
      case 4
      then have "6 \<le> \<bar>of_int d :: rat\<bar>" by linarith
      then show ?thesis using c c5 4 by linarith
    qed (use c5 cents_five(2) in \<open>auto simp: abs_le_iff\<close>)
  qed
  then show "num_less (num (1 / 20)) (num_abs (Fin (cents d))) \<longleftrightarrow> 5 < \<bar>d\<bar>"
    by (simp add: cents_five(1))
  have "cents d = 0 \<longleftrightarrow> d = 0"
  proof (cases "d = 0")
    case False
    then have "1 \<le> \<bar>of_int d :: rat\<bar>" by linarith
    with c False show ?thesis by linarith
  qed (simp add: cents_five(3))
  then show "num_same (Fin (cents d)) (Fin 0) \<longleftrightarrow> d = 0" by (simp add: num_same_def)
qed

lemma in_cents_adjusted:
  assumes "in_cents payload so c" and "item_lines payload = Inr ls" and "length (co_lines c) < 1000" and "\<bar>d\<bar> \<le> 5"
  shows "in_cents (oset ''item'' (JObj [(''items'', JArr (ls @ [balancing_line opts (Fin (cents d))]))]) payload) so
    (c\<lparr>co_lines := co_lines c @ [d]\<rparr>)"
proof -
  have "amount_cents (JNum (Fin (cents d))) d"
    using near_cents [of d] assms(4) by (simp add: amount_cents_def)
  then have l: "list_all2 amount_cents (line_amounts (ls @ [balancing_line opts (Fin (cents d))])) (co_lines c @ [d])"
    using assms(1,2) by (auto simp: in_cents_def line_amounts_def balancing_line_def oget_Cons intro: list_all2_appendI)
  have len: "length ls < 1000"
    using assms(1-3) by (auto simp: in_cents_def line_amounts_def dest!: list_all2_lengthD)
  show ?thesis
    using assms(1,2) l len
    by (auto simp: in_cents_def item_lines_def shipping_lines_def oget_Cons)
qed

text \<open>
  C32: balancing decides exactly, binary64 arithmetic notwithstanding. For an order whose total, tax and
  discounts are whole cents of at most a thousand million (within a tenth of a cent), with at most a
  thousand shipping lines and fewer than a thousand item lines whose amounts are whole cents of at most a
  million: the order is parked exactly when NetSuite's total would miss Shopify's by more than five cents;
  otherwise the payload that is returned books Shopify's total to the cent, with an adjustment line
  exactly when there was a difference.
\<close>

theorem balancing_decision:
  assumes "in_cents payload so c" and "length (co_lines c) < 1000"
  shows "if \<bar>co_total c - booked_cents c\<bar> \<le> 5
    then \<exists>p d c'. applyBalancing payload so DEFAULT_BALANCING = Inr (MapOk (p, d))
      \<and> (bd_applied d \<longleftrightarrow> co_total c \<noteq> booked_cents c)
      \<and> in_cents p so c' \<and> co_total c' = co_total c \<and> booked_cents c' = co_total c
    else \<exists>r. applyBalancing payload so DEFAULT_BALANCING = Inr (Park r)"
proof -
  define k where "k = co_total c - booked_cents c"
  obtain ls d where t: "balancing_totals payload so = Inr (ls, d)" "item_lines payload = Inr ls"
      "bd_diff d = Fin (cents k)" and kb: "\<bar>k\<bar> \<le> 10 ^ 12"
    using totals_cents [OF assms(1)] unfolding k_def by blast
  note tol = cents_tolerance [OF kb]
  let ?p = "oset ''item'' (JObj [(''items'', JArr (ls @ [balancing_line DEFAULT_BALANCING (Fin (cents k))]))]) payload"
  have fin: "applyBalancing payload so DEFAULT_BALANCING = Inr (if 5 < \<bar>k\<bar> then Park (over_tolerance so DEFAULT_BALANCING d)
      else if k = 0 then MapOk (payload, d\<lparr>bd_applied := False\<rparr>) else MapOk (?p, d\<lparr>bd_applied := True\<rparr>))"
    using tol by (simp add: applyBalancing_def t finish_balancing_def DEFAULT_BALANCING_def del: num_abs.simps)
  show ?thesis
  proof (cases "\<bar>k\<bar> \<le> 5")
    case True
    have adj: "in_cents ?p so (c\<lparr>co_lines := co_lines c @ [k]\<rparr>)"
      by (rule in_cents_adjusted [OF assms(1) t(2) assms(2) True])
    have b: "booked_cents (c\<lparr>co_lines := co_lines c @ [k]\<rparr>) = co_total c"
      by (simp add: booked_cents_def k_def)
    show ?thesis
    proof (cases "k = 0")
      case True
      then show ?thesis using fin assms(1) by (auto simp: k_def)
    next
      case False
      then have "applyBalancing payload so DEFAULT_BALANCING = Inr (MapOk (?p, d\<lparr>bd_applied := True\<rparr>))"
        using fin True by simp
      then show ?thesis
        using True False adj b unfolding k_def [symmetric]
        by (intro iffD2 [OF if_P]) (auto intro!: exI [of _ "c\<lparr>co_lines := co_lines c @ [k]\<rparr>"] simp: k_def)
    qed
  next
    case False
    then show ?thesis using fin by (simp add: k_def)
  qed
qed

definition sample_payload :: jsobj where
  "sample_payload = [(''item'', JObj [(''items'', JArr [JObj [(''amount'', JNum (Fin 100))]])]),
     (''shipping'', JObj [(''items'', JArr [JObj [(''amount'', JStr ''9.98'')]])])]"

lemma sample_parses:
  "near (parse_float ''120.00'') 12000" "near (parse_float ''10.00'') 1000" "near (parse_float ''0.00'') 0"
  "near (parse_float ''9.98'') 998"
proof -
  have "parse_float ''120.00'' = Fin 120" "parse_float ''10.00'' = Fin 10" "parse_float ''0.00'' = Fin 0"
    "parse_float ''9.98'' = Fin (2809120267572347 / 281474976710656)"
    by code_simp+
  then show "near (parse_float ''120.00'') 12000" "near (parse_float ''10.00'') 1000"
    "near (parse_float ''0.00'') 0" "near (parse_float ''9.98'') 998"
    by (simp_all add: near_def, (intro exI [of _ "2809120267572347 / 281474976710656"], simp)?)
qed

definition sample_cents :: cents_order where
  "sample_cents = \<lparr>co_total = 12000, co_tax = 1000, co_discounts = 0, co_shipping = [998], co_lines = [10000]\<rparr>"

lemma sample_in_cents: "in_cents sample_payload makeFakeOrder sample_cents"
  using sample_parses
  by (auto simp: sample_cents_def in_cents_def total_cents_def makeFakeOrder_def usd_def sample_payload_def
      item_lines_def shipping_lines_def oget_Cons line_amounts_def amount_cents_def nullish_def near_def)

text \<open>Where the difference is small and not zero, the adjustment line is added.\<close>

lemma balancing_applied:
  assumes "in_cents payload so c" and "co_total c - booked_cents c \<noteq> 0" and "\<bar>co_total c - booked_cents c\<bar> \<le> 5"
  shows "\<exists>p d. applyBalancing payload so DEFAULT_BALANCING = Inr (MapOk (p, d)) \<and> bd_applied d"
proof -
  define k where "k = co_total c - booked_cents c"
  obtain ls d where t: "balancing_totals payload so = Inr (ls, d)" "bd_diff d = Fin (cents k)"
      and kb: "\<bar>k\<bar> \<le> 10 ^ 12"
    using totals_cents [OF assms(1)] unfolding k_def by blast
  show ?thesis
    using cents_tolerance [OF kb] assms(2,3)
    by (simp add: applyBalancing_def t finish_balancing_def DEFAULT_BALANCING_def k_def [symmetric]
        del: num_abs.simps)
qed

theorem balancing_decision_witness:
  "\<exists>p d. applyBalancing sample_payload makeFakeOrder DEFAULT_BALANCING = Inr (MapOk (p, d)) \<and> bd_applied d"
  using balancing_decision [OF sample_in_cents] by (auto simp: booked_cents_def sample_cents_def)

end
