(* ===== verification/ItemResolver.thy ===== *)
theory ItemResolver
  imports NsGateway Balancing
begin

text \<open>
  The post-build pass of \<open>packages/netsuite-client/src/item-resolver.ts\<close>: SKUs and shipping titles
  in the lines of a payload are exchanged for NetSuite's internal ids. The interface
  \<open>item_lookup\<close> states what the pass relies on, an \<open>itemid\<close> lookup that answers from a fixed
  table; the in-memory gateway and the SDK gateway's cache provide it.
\<close>

section \<open>The pass\<close>

definition entries_error :: js_error where
  "entries_error = plain_error ''lines.entries is not a function or its return value is not iterable''"

definition sublist_items :: "jsval \<Rightarrow> js_error + jsval list" where
  "sublist_items v = (case get_prop v ''items'' of JArr ls \<Rightarrow> Inr ls | _ \<Rightarrow> Inl entries_error)"

text \<open>\<open>{ ...line, item: { id } }\<close>\<close>

fun with_item_id :: "jsval \<Rightarrow> string \<Rightarrow> jsval" where
  "with_item_id (JObj line) i = JObj (oset ''item'' (JObj [(''id'', JStr i)]) line)"
| "with_item_id v i = JObj [(''item'', JObj [(''id'', JStr i)])]"

definition item_miss :: "string \<Rightarrow> nat \<Rightarrow> string \<Rightarrow> park_reason" where
  "item_miss sublist idx idStr =
     \<lparr>pr_detail = sublist @ ''['' @ show_nat idx @ '']: no NS item matches sku/title '' @ quoted idStr
        @ '' '' @ em_dash @ '' create the item in NS or correct the source'',
      pr_construct = Some (sublist @ '':'' @ idStr), pr_evidence = None\<rparr>"

text \<open>How a line is treated: left alone, its marker stripped, or looked up.\<close>

datatype line_kind = LeaveAlone | PreResolved string | LookUp string

definition line_kind_of :: "jsval \<Rightarrow> line_kind" where
  "line_kind_of line = (let itemRef = get_prop line ''item'' in
     if \<not> is_obj itemRef then LeaveAlone
     else if nullish (get_prop itemRef ''id'') then LeaveAlone
     else if get_prop itemRef ''__resolved'' = JBool True then PreResolved (to_str (get_prop itemRef ''id''))
     else LookUp (to_str (get_prop itemRef ''id'')))"

fun resolve_from ::
  "'w ns_ops \<Rightarrow> string \<Rightarrow> string \<Rightarrow> string option \<Rightarrow> nat \<Rightarrow> jsval list \<Rightarrow> jsval list
   \<Rightarrow> ('w, jsval list mapping_result) io" where
  "resolve_from ns acct sublist fallback idx [] resolved = ret (MapOk resolved)"
| "resolve_from ns acct sublist fallback idx (line # lines) resolved =
     (case line_kind_of line of
        LeaveAlone \<Rightarrow> resolve_from ns acct sublist fallback (Suc idx) lines (resolved @ [line])
      | PreResolved i \<Rightarrow>
          resolve_from ns acct sublist fallback (Suc idx) lines (resolved @ [with_item_id line i])
      | LookUp idStr \<Rightarrow> bnd (no_resolveItem ns acct idStr) (\<lambda>internalId. case internalId of
            Some i \<Rightarrow> resolve_from ns acct sublist fallback (Suc idx) lines (resolved @ [with_item_id line i])
          | None \<Rightarrow> (case fallback of
              Some f \<Rightarrow> resolve_from ns acct sublist fallback (Suc idx) lines (resolved @ [with_item_id line f])
            | None \<Rightarrow> ret (Park (item_miss sublist idx idStr)))))"

definition resolveSublist ::
  "'w ns_ops \<Rightarrow> string \<Rightarrow> string \<Rightarrow> string option \<Rightarrow> jsval list \<Rightarrow> ('w, jsval list mapping_result) io" where
  "resolveSublist ns acct sublist fallback lines = resolve_from ns acct sublist fallback 0 lines []"

definition items_obj :: "jsval list \<Rightarrow> jsval" where
  "items_obj ls = JObj [(''items'', JArr ls)]"

definition resolveItemReferences ::
  "'w ns_ops \<Rightarrow> string \<Rightarrow> string option \<Rightarrow> jsobj \<Rightarrow> ('w, jsobj mapping_result) io" where
  "resolveItemReferences ns acct fallback payload =
     bnd (lift_sum (sublist_items (oget payload ''item''))) (\<lambda>lines.
     bnd (resolveSublist ns acct ''item'' fallback lines) (\<lambda>itemLines. case itemLines of
       Park p \<Rightarrow> ret (Park p)
     | MapOk ils \<Rightarrow>
        (if \<not> truthy (oget payload ''shipping'')
           then ret (MapOk (oset ''item'' (items_obj ils) payload))
         else bnd (lift_sum (sublist_items (oget payload ''shipping''))) (\<lambda>slines.
           bnd (resolveSublist ns acct ''shipping'' None slines) (\<lambda>shippingLines. case shippingLines of
             Park p \<Rightarrow> ret (Park p)
           | MapOk sls \<Rightarrow> ret (MapOk (oset ''shipping'' (items_obj sls) (oset ''item'' (items_obj ils) payload))))))))"

section \<open>What every gateway gives\<close>

text \<open>A line ready for NetSuite: its item reference, where it has one, is \<open>{ id }\<close> alone.\<close>

definition ref_ready :: "jsval \<Rightarrow> bool" where
  "ref_ready line \<longleftrightarrow> line_kind_of line = LeaveAlone
     \<or> (\<exists>i. get_prop line ''item'' = JObj [(''id'', JStr i)])"

definition same_but_item :: "jsval \<Rightarrow> jsval \<Rightarrow> bool" where
  "same_but_item a b \<longleftrightarrow> (\<forall>k. k \<noteq> ''item'' \<longrightarrow> get_prop b k = get_prop a k)"

fun is_line :: "jsval \<Rightarrow> bool" where
  "is_line (JObj _) = True"
| "is_line _ = False"

lemma with_item_id_ready [simp]: "ref_ready (with_item_id line i)"
  by (cases line) (auto simp: ref_ready_def oget_Cons)

lemma with_item_id_same: "is_line line \<Longrightarrow> same_but_item line (with_item_id line i)"
  by (cases line) (auto simp: same_but_item_def)

lemma same_but_item_refl [simp]: "same_but_item line line"
  by (simp add: same_but_item_def)

lemma resolve_from_lines:
  assumes "resolve_from ns acct sub fb idx lines acc w = (Inr (MapOk out), w')" and "list_all is_line lines"
  shows "\<exists>tl. out = acc @ tl \<and> list_all2 same_but_item lines tl \<and> list_all ref_ready tl"
  using assms
proof (induction lines arbitrary: idx acc w)
  case (Cons line lines)
  have step: "\<exists>tl. out = acc @ tl \<and> list_all2 same_but_item (line # lines) tl \<and> list_all ref_ready tl"
    if r: "resolve_from ns acct sub fb (Suc idx) lines (acc @ [l]) v = (Inr (MapOk out), w')"
      and l: "same_but_item line l" "ref_ready l" for l v
  proof -
    have "list_all is_line lines" using Cons.prems(2) by simp
    from Cons.IH [OF r this] obtain tl where
      "out = acc @ l # tl" "list_all2 same_but_item lines tl" "list_all ref_ready tl" by auto
    then show ?thesis using l by (intro exI [of _ "l # tl"]) simp
  qed
  have w: "same_but_item line (with_item_id line i)" for i
    using Cons.prems(2) by (simp add: with_item_id_same)
  show ?case
  proof (cases "line_kind_of line")
    case LeaveAlone
    then have "ref_ready line" by (simp add: ref_ready_def)
    with LeaveAlone show ?thesis using Cons.prems(1) step [of line] by simp
  next
    case (PreResolved i)
    then show ?thesis using Cons.prems(1) step w by auto
  next
    case (LookUp idStr)
    then show ?thesis using Cons.prems(1) step w
      by (auto simp: bnd_app split: prod.splits sum.splits option.splits)
  qed
qed auto

lemma resolveItemReferences_cases:
  assumes "resolveItemReferences ns acct fb payload w = (Inr (MapOk out), w')"
  obtains lines ils w1 where
    "sublist_items (oget payload ''item'') = Inr lines"
    "resolveSublist ns acct ''item'' fb lines w = (Inr (MapOk ils), w1)"
    "oget out ''item'' = items_obj ils"
    "\<forall>k. k \<noteq> ''item'' \<longrightarrow> k \<noteq> ''shipping'' \<longrightarrow> oget out k = oget payload k"
    "\<not> truthy (oget payload ''shipping'') \<and> oget out ''shipping'' = oget payload ''shipping'' \<and> w' = w1
     \<or> (\<exists>slines sls. sublist_items (oget payload ''shipping'') = Inr slines
         \<and> resolveSublist ns acct ''shipping'' None slines w1 = (Inr (MapOk sls), w')
         \<and> oget out ''shipping'' = items_obj sls)"
  using assms unfolding resolveItemReferences_def
  by (auto simp: bnd_app split: prod.splits sum.splits mapping_result.splits if_splits)

definition lines_of :: "jsobj \<Rightarrow> string \<Rightarrow> jsval list" where
  "lines_of payload sub = (case sublist_items (oget payload sub) of Inr ls \<Rightarrow> ls | Inl _ \<Rightarrow> [])"

lemma sublist_items_obj [simp]: "sublist_items (items_obj ls) = Inr ls"
  by (simp add: sublist_items_def items_obj_def oget_Cons)

text \<open>
  Whatever the gateway answers, a payload the pass lets through has the same lines in the same
  order, each with every column but \<open>item\<close> unchanged, and every item reference that carries an id is
  exactly \<open>{ id }\<close>: the \<open>__resolved\<close> marker reaches NetSuite in no line. The other fields of the
  payload are untouched.
\<close>

theorem item_references_ready:
  assumes "resolveItemReferences ns acct fb payload w = (Inr (MapOk out), w')"
    and "list_all is_line (lines_of payload ''item'')" and "list_all is_line (lines_of payload ''shipping'')"
    and "truthy (oget payload ''shipping'')"
  shows "list_all2 same_but_item (lines_of payload ''item'') (lines_of out ''item'')
    \<and> list_all2 same_but_item (lines_of payload ''shipping'') (lines_of out ''shipping'')
    \<and> list_all ref_ready (lines_of out ''item'') \<and> list_all ref_ready (lines_of out ''shipping'')
    \<and> (\<forall>k. k \<noteq> ''item'' \<longrightarrow> k \<noteq> ''shipping'' \<longrightarrow> oget out k = oget payload k)"
  using assms(1)
proof (rule resolveItemReferences_cases)
  fix lines ils w1
  assume li: "sublist_items (oget payload ''item'') = Inr lines"
    and ri: "resolveSublist ns acct ''item'' fb lines w = (Inr (MapOk ils), w1)"
    and oi: "oget out ''item'' = items_obj ils"
    and rest: "\<forall>k. k \<noteq> ''item'' \<longrightarrow> k \<noteq> ''shipping'' \<longrightarrow> oget out k = oget payload k"
    and sh: "\<not> truthy (oget payload ''shipping'') \<and> oget out ''shipping'' = oget payload ''shipping'' \<and> w' = w1
     \<or> (\<exists>slines sls. sublist_items (oget payload ''shipping'') = Inr slines
         \<and> resolveSublist ns acct ''shipping'' None slines w1 = (Inr (MapOk sls), w')
         \<and> oget out ''shipping'' = items_obj sls)"
  from sh assms(4) obtain slines sls where ls: "sublist_items (oget payload ''shipping'') = Inr slines"
    and rs: "resolveSublist ns acct ''shipping'' None slines w1 = (Inr (MapOk sls), w')"
    and os: "oget out ''shipping'' = items_obj sls" by auto
  have "list_all2 same_but_item lines ils \<and> list_all ref_ready ils"
    using resolve_from_lines [OF ri [unfolded resolveSublist_def]] assms(2) li by (auto simp: lines_of_def)
  moreover have "list_all2 same_but_item slines sls \<and> list_all ref_ready sls"
    using resolve_from_lines [OF rs [unfolded resolveSublist_def]] assms(3) ls by (auto simp: lines_of_def)
  ultimately show ?thesis using li ls oi os rest by (simp add: lines_of_def)
qed

section \<open>Gateways that answer from a table\<close>

locale item_lookup =
  fixes ops :: "'w ns_ops" and tab :: "string \<Rightarrow> string \<Rightarrow> string option" and inv :: "'w \<Rightarrow> bool"
  assumes answers: "inv w \<Longrightarrow> \<exists>w'. no_resolveItem ops acct sku w = (Inr (tab acct sku), w') \<and> inv w'"
begin

text \<open>Whether a line gets through, with what fallback.\<close>

definition resolvable :: "string \<Rightarrow> string option \<Rightarrow> jsval \<Rightarrow> bool" where
  "resolvable acct fb line \<longleftrightarrow> (case line_kind_of line of
     LookUp s \<Rightarrow> tab acct s \<noteq> None \<or> fb \<noteq> None | _ \<Rightarrow> True)"

lemma resolve_from_iff:
  assumes "inv w"
  shows "\<exists>r w'. resolve_from ops acct sub fb idx lines acc w = (Inr r, w') \<and> inv w'
    \<and> ((\<exists>out. r = MapOk out) \<longleftrightarrow> list_all (resolvable acct fb) lines)"
  using assms
proof (induction lines arbitrary: idx acc w)
  case (Cons line lines)
  show ?case
  proof (cases "line_kind_of line")
    case (LookUp s)
    obtain w1 where a: "no_resolveItem ops acct s w = (Inr (tab acct s), w1)" "inv w1"
      using answers [OF Cons.prems] by blast
    note ih = Cons.IH [OF a(2)]
    show ?thesis
      using LookUp a ih
      by (cases "tab acct s"; cases fb) (simp_all add: bnd_app resolvable_def)
  qed (use Cons.IH Cons.prems in \<open>simp_all add: resolvable_def\<close>)
qed auto

text \<open>An item line that cannot be resolved parks the payload before its shipping is looked at.\<close>

lemma resolve_parks:
  assumes "inv w" and "sublist_items (oget payload ''item'') = Inr ils" and "\<not> list_all (resolvable acct fb) ils"
  shows "\<exists>r w'. resolveItemReferences ops acct fb payload w = (Inr (Park r), w')"
proof -
  obtain r w1 where r: "resolveSublist ops acct ''item'' fb ils w = (Inr r, w1)"
      "(\<exists>out. r = MapOk out) \<longleftrightarrow> list_all (resolvable acct fb) ils"
    using resolve_from_iff [OF assms(1)] unfolding resolveSublist_def by blast
  then show ?thesis
    using assms(2,3) by (cases r) (simp_all add: resolveItemReferences_def bnd_app)
qed

lemma resolve_iff:
  assumes "inv w" and "sublist_items (oget payload ''item'') = Inr ils"
    and "sublist_items (oget payload ''shipping'') = Inr sls" and "truthy (oget payload ''shipping'')"
  shows "\<exists>r w'. resolveItemReferences ops acct fb payload w = (Inr r, w') \<and> inv w'
    \<and> ((\<exists>out. r = MapOk out) \<longleftrightarrow> list_all (resolvable acct fb) ils \<and> list_all (resolvable acct None) sls)"
proof -
  obtain r w1 where r: "resolveSublist ops acct ''item'' fb ils w = (Inr r, w1)" "inv w1"
      "(\<exists>out. r = MapOk out) \<longleftrightarrow> list_all (resolvable acct fb) ils"
    using resolve_from_iff [OF assms(1)] unfolding resolveSublist_def by blast
  obtain q w2 where q: "resolveSublist ops acct ''shipping'' None sls w1 = (Inr q, w2)" "inv w2"
      "(\<exists>out. q = MapOk out) \<longleftrightarrow> list_all (resolvable acct None) sls"
    using resolve_from_iff [OF r(2)] unfolding resolveSublist_def by blast
  show ?thesis
    using assms r q by (cases r; cases q) (simp_all add: resolveItemReferences_def bnd_app)
qed

end

definition fake_items :: "((string \<times> string) \<times> string) list \<Rightarrow> string \<Rightarrow> string \<Rightarrow> string option" where
  "fake_items tab acct sku = map_of tab (acct, sku)"

interpretation fake_lookup: item_lookup fake_ns_ops "fake_items tab" "\<lambda>w. fn_itemBySku w = tab" for tab
  by unfold_locales (simp add: fake_ns_ops_def fake_resolveItemId_def fake_items_def)

text \<open>The line's own statement of what must be known, for the in-memory gateway's table.\<close>

definition line_resolvable ::
  "((string \<times> string) \<times> string) list \<Rightarrow> string \<Rightarrow> string option \<Rightarrow> jsval \<Rightarrow> bool" where
  "line_resolvable tab acct fb line \<longleftrightarrow> (case line_kind_of line of
     LookUp s \<Rightarrow> map_of tab (acct, s) \<noteq> None \<or> fb \<noteq> None | _ \<Rightarrow> True)"

lemma line_resolvable_eq: "fake_lookup.resolvable tab acct fb = line_resolvable tab acct fb"
  by (auto simp: fun_eq_iff fake_lookup.resolvable_def line_resolvable_def fake_items_def split: line_kind.splits)

text \<open>
  On a gateway that knows a table of items, the pass never throws on a well-formed payload, and
  it lets the payload through exactly when every reference it has to look up is in the table, the
  connection's fallback item counting for item lines only, never for shipping lines.
\<close>

theorem item_resolution_complete:
  assumes "sublist_items (oget payload ''item'') = Inr ils"
    and "sublist_items (oget payload ''shipping'') = Inr sls" and "truthy (oget payload ''shipping'')"
  shows "\<exists>r w'. resolveItemReferences fake_ns_ops acct fb payload w = (Inr r, w')
    \<and> ((\<exists>out. r = MapOk out) \<longleftrightarrow> list_all (line_resolvable (fn_itemBySku w) acct fb) ils
         \<and> list_all (line_resolvable (fn_itemBySku w) acct None) sls)"
  using fake_lookup.resolve_iff [where w = w and acct = acct and fb = fb, OF refl assms] unfolding line_resolvable_eq by blast

definition two_line_payload :: jsobj where
  "two_line_payload = [(''item'', items_obj [JObj [(''item'', JObj [(''id'', JStr ''SKU-1'')]), (''quantity'', JNum (Fin 2))]]),
     (''shipping'', items_obj [JObj [(''item'', JObj [(''id'', JStr ''88''), (''__resolved'', JBool True)])]])]"

theorem item_resolution_complete_witness:
  "\<exists>out w'. resolveItemReferences fake_ns_ops ''SB1'' None two_line_payload
     (seedItem ''SB1'' ''SKU-1'' ''501'' empty_fake_ns) = (Inr (MapOk out), w')"
proof -
  let ?w = "seedItem ''SB1'' ''SKU-1'' ''501'' empty_fake_ns"
  let ?l = "JObj [(''item'', JObj [(''id'', JStr ''SKU-1'')]), (''quantity'', JNum (Fin 2))]"
  let ?s = "JObj [(''item'', JObj [(''id'', JStr ''88''), (''__resolved'', JBool True)])]"
  have "\<exists>r w'. resolveItemReferences fake_ns_ops ''SB1'' None two_line_payload ?w = (Inr r, w')
      \<and> ((\<exists>out. r = MapOk out) \<longleftrightarrow> list_all (line_resolvable (fn_itemBySku ?w) ''SB1'' None) [?l]
         \<and> list_all (line_resolvable (fn_itemBySku ?w) ''SB1'' None) [?s])"
    by (rule item_resolution_complete) (simp_all add: two_line_payload_def oget_Cons, simp add: items_obj_def)
  then show ?thesis
    by (auto simp: line_resolvable_def line_kind_of_def oget_Cons nullish_def seedItem_def)
qed

theorem item_references_ready_witness:
  "\<exists>out w'. resolveItemReferences fake_ns_ops ''SB1'' None two_line_payload
     (seedItem ''SB1'' ''SKU-1'' ''501'' empty_fake_ns) = (Inr (MapOk out), w')
   \<and> list_all ref_ready (lines_of out ''shipping'')"
proof -
  let ?w = "seedItem ''SB1'' ''SKU-1'' ''501'' empty_fake_ns"
  have "fst (resolveItemReferences fake_ns_ops ''SB1'' None two_line_payload ?w) =
      Inr (MapOk [(''item'', items_obj [JObj [(''item'', JObj [(''id'', JStr ''501'')]), (''quantity'', JNum (Fin 2))]]),
        (''shipping'', items_obj [JObj [(''item'', JObj [(''id'', JStr ''88'')])]])])"
    by code_simp
  then obtain out w' where r: "resolveItemReferences fake_ns_ops ''SB1'' None two_line_payload ?w = (Inr (MapOk out), w')"
    by (metis prod.collapse)
  have "list_all2 same_but_item (lines_of two_line_payload ''item'') (lines_of out ''item'')
    \<and> list_all2 same_but_item (lines_of two_line_payload ''shipping'') (lines_of out ''shipping'')
    \<and> list_all ref_ready (lines_of out ''item'') \<and> list_all ref_ready (lines_of out ''shipping'')
    \<and> (\<forall>k. k \<noteq> ''item'' \<longrightarrow> k \<noteq> ''shipping'' \<longrightarrow> oget out k = oget two_line_payload k)"
    by (rule item_references_ready [OF r])
       (simp_all add: two_line_payload_def lines_of_def oget_Cons, simp add: items_obj_def)
  with r show ?thesis by blast
qed

text \<open>
  C39: the line that balances an order is resolved like a SKU. When balancing changed the payload, whatever
  else is in it, and no item of the account is named \<open>6540\<close>, the order of a connection without a fallback
  item never gets past the item resolver: it parks, although its totals were just reconciled.
\<close>

theorem balanced_order_parks:
  assumes "applyBalancing payload so DEFAULT_BALANCING = Inr (MapOk (p, d))" and "bd_applied d"
    and "map_of (fn_itemBySku w) (acct, ''6540'') = None"
  shows "\<exists>r w'. resolveItemReferences fake_ns_ops acct None p w = (Inr (Park r), w')"
proof -
  obtain lines where p: "p = oset ''item'' (items_obj (lines @ [balancing_line DEFAULT_BALANCING (bd_diff d)])) payload"
    using assms(1,2)
    by (auto simp: applyBalancing_def finish_balancing_def items_obj_def
        split: sum.splits prod.splits if_splits)
  have "line_kind_of (balancing_line DEFAULT_BALANCING (bd_diff d)) = LookUp ''6540''"
    by (simp add: line_kind_of_def balancing_line_def DEFAULT_BALANCING_def oget_Cons nullish_def)
  then have "\<not> list_all (line_resolvable (fn_itemBySku w) acct None)
      (lines @ [balancing_line DEFAULT_BALANCING (bd_diff d)])"
    using assms(3) by (simp add: line_resolvable_def)
  then show ?thesis
    using fake_lookup.resolve_parks [where w = w and acct = acct and fb = None and payload = p, OF refl]
    unfolding line_resolvable_eq by (simp add: p)
qed

theorem balanced_order_parks_witness:
  "\<exists>p d r w'. applyBalancing sample_payload makeFakeOrder DEFAULT_BALANCING = Inr (MapOk (p, d))
    \<and> bd_applied d \<and> resolveItemReferences fake_ns_ops ''SB1'' None p empty_fake_ns = (Inr (Park r), w')"
proof -
  obtain p d where b: "applyBalancing sample_payload makeFakeOrder DEFAULT_BALANCING = Inr (MapOk (p, d))"
    and a: "bd_applied d"
    using balancing_applied [OF sample_in_cents] by (auto simp: booked_cents_def sample_cents_def)
  have "\<exists>r w'. resolveItemReferences fake_ns_ops ''SB1'' None p empty_fake_ns = (Inr (Park r), w')"
    by (rule balanced_order_parks [OF b a]) (simp add: empty_fake_ns_def)
  with b a show ?thesis by blast
qed

end
