(* ===== verification/CustomerResolver.thy ===== *)
theory CustomerResolver
  imports NsGateway "HOL-Library.Multiset"
begin

text \<open>
  Customer match-or-create, \<open>apps/functions/src/activities/customer-resolver.ts\<close>: the customer
  payload, the two ways of composing its addressbook, and the lookup, read and upsert that
  \<open>resolveCustomer\<close> sends to the gateway.
\<close>

section \<open>The payload\<close>

record order_addresses =
  oa_billing :: "address option"
  oa_shipping :: "address option"

record customer_resolution =
  cr_internalId :: string
  cr_isGuest :: bool
  cr_created :: bool

definition addressbook_item :: "bool \<Rightarrow> bool \<Rightarrow> string \<Rightarrow> jsobj \<Rightarrow> jsobj" where
  "addressbook_item db ds label addr = [(''defaultBilling'', JBool db), (''defaultShipping'', JBool ds),
     (''label'', JStr label), (''addressbookaddress'', JObj addr)]"

definition buildAddressbookLegacy :: "order_addresses \<Rightarrow> jsobj list" where
  "buildAddressbookLegacy addresses =
     (let billing = shopifyAddressToNs (oa_billing addresses) None;
          shipping = shopifyAddressToNs (oa_shipping addresses) None in
      case (billing, shipping) of
        (None, None) \<Rightarrow> []
      | (Some b, Some s) \<Rightarrow>
          (if json (JObj b) = json (JObj s) then [addressbook_item True True ''Default'' b]
           else [addressbook_item True False ''Billing'' b, addressbook_item False True ''Shipping'' s])
      | (Some b, None) \<Rightarrow> [addressbook_item True True ''Billing'' b]
      | (None, Some s) \<Rightarrow> [addressbook_item True True ''Shipping'' s])"

text \<open>The map from the Shopify address id to the last entry that carries it.\<close>

definition byShopifyId :: "addressbook_entry list \<Rightarrow> (string \<times> addressbook_entry) list" where
  "byShopifyId es = fold (\<lambda>e m. case non_empty (ae_shopifyAddressId e) of
     None \<Rightarrow> m | Some s \<Rightarrow> AList.update s e m) es []"

definition matched_entry :: "addressbook_entry list \<Rightarrow> string option \<Rightarrow> addressbook_entry option" where
  "matched_entry es aid = (case non_empty aid of None \<Rightarrow> None | Some s \<Rightarrow> map_of (byShopifyId es) s)"

definition stamp :: "addressbook_entry option \<Rightarrow> jsobj \<Rightarrow> jsobj" where
  "stamp matched entry = (case matched of None \<Rightarrow> entry | Some e \<Rightarrow> oset ''id'' (JStr (ae_internalId e)) entry)"

definition claimed_ids :: "addressbook_entry option \<Rightarrow> string list" where
  "claimed_ids matched = (case matched of None \<Rightarrow> [] | Some e \<Rightarrow> [ae_internalId e])"

text \<open>\<open>addresses.billing?.id\<close>\<close>

definition address_id :: "address option \<Rightarrow> text_field" where
  "address_id a = (case a of None \<Rightarrow> Absent | Some x \<Rightarrow> ad_id x)"

text \<open>
  \<open>billing?.id !== undefined && shipping?.id !== undefined && billing.id === shipping.id\<close>: two ids that are
  \<open>null\<close> count as the same.
\<close>

definition same_ids :: "order_addresses \<Rightarrow> bool" where
  "same_ids addresses \<longleftrightarrow> (let bid = address_id (oa_billing addresses); sid = address_id (oa_shipping addresses) in
     bid \<noteq> Absent \<and> sid \<noteq> Absent \<and> bid = sid)"

text \<open>The entries of the incoming addresses, with the existing ids they claim.\<close>

definition incoming_entries ::
  "order_addresses \<Rightarrow> addressbook_entry list \<Rightarrow> jsobj option \<Rightarrow> jsobj option \<Rightarrow> jsobj list \<times> string list" where
  "incoming_entries addresses es billing shipping =
     (let bid = field_str (address_id (oa_billing addresses)); sid = field_str (address_id (oa_shipping addresses)) in
      case (if same_ids addresses then billing else None) of
        Some b \<Rightarrow> (let m = Option.bind bid (map_of (byShopifyId es)) in
           ([stamp m (addressbook_item True True ''Default'' b)], claimed_ids m))
      | None \<Rightarrow>
          (let mb = matched_entry es bid; ms = matched_entry es sid;
               bs = (case billing of None \<Rightarrow> ([], [])
                 | Some b \<Rightarrow> ([stamp mb (addressbook_item True (shipping = None) ''Billing'' b)], claimed_ids mb));
               ss = (case shipping of None \<Rightarrow> ([], [])
                 | Some s \<Rightarrow> ([stamp ms (addressbook_item (billing = None) True ''Shipping'' s)], claimed_ids ms))
           in (fst bs @ fst ss, snd bs @ snd ss)))"

definition preserved_entry :: "bool \<Rightarrow> bool \<Rightarrow> addressbook_entry \<Rightarrow> jsobj" where
  "preserved_entry claimsBilling claimsShipping e = put_if_set ''label'' (ae_label e)
     [(''id'', JStr (ae_internalId e)),
      (''defaultBilling'', JBool (if claimsBilling then False else ae_defaultBilling e)),
      (''defaultShipping'', JBool (if claimsShipping then False else ae_defaultShipping e))]"

definition has_flag :: "string \<Rightarrow> jsobj \<Rightarrow> bool" where
  "has_flag k e \<longleftrightarrow> oget e k = JBool True"

definition buildAddressbookMerged :: "order_addresses \<Rightarrow> addressbook_entry list \<Rightarrow> string \<Rightarrow> jsobj list" where
  "buildAddressbookMerged addresses es field =
     (let billing = shopifyAddressToNs (oa_billing addresses) (Some field);
          shipping = shopifyAddressToNs (oa_shipping addresses) (Some field) in
      if billing = None \<and> shipping = None then []
      else (let (out, claimed) = incoming_entries addresses es billing shipping;
                cb = list_ex (has_flag ''defaultBilling'') out;
                cs = list_ex (has_flag ''defaultShipping'') out
            in out @ map (preserved_entry cb cs) (filter (\<lambda>e. ae_internalId e \<notin> set claimed) es)))"

definition company_name :: "shopify_customer \<Rightarrow> string" where
  "company_name c = (case Option.bind (cu_defaultAddress c) (\<lambda>a. field_str (ad_company a)) of
     Some s \<Rightarrow> s
   | None \<Rightarrow> (case field_str (cu_email c) of Some s \<Rightarrow> s | None \<Rightarrow> last (split_on (CHR ''/'') (cu_id c))))"

definition first_phone :: "shopify_customer \<Rightarrow> order_addresses \<Rightarrow> string option" where
  "first_phone c oa = (let ph = (\<lambda>a. Option.bind a (\<lambda>x. field_str (ad_phone x))) in
     case ph (cu_defaultAddress c) of Some p \<Rightarrow> Some p
     | None \<Rightarrow> (case ph (oa_shipping oa) of Some p \<Rightarrow> Some p | None \<Rightarrow> ph (oa_billing oa)))"

definition isPerson :: "shopify_customer \<Rightarrow> bool" where
  "isPerson c \<longleftrightarrow> set_str (field_str (cu_firstName c)) \<or> set_str (field_str (cu_lastName c))"

definition customer_addressbook ::
  "connection \<Rightarrow> order_addresses \<Rightarrow> addressbook_entry list \<Rightarrow> jsobj list" where
  "customer_addressbook conn oa es = (case non_empty (shopifyAddressIdField conn) of
     Some field \<Rightarrow> buildAddressbookMerged oa es field
   | None \<Rightarrow> buildAddressbookLegacy oa)"

definition buildCustomerPayload ::
  "connection \<Rightarrow> shopify_customer \<Rightarrow> order_addresses \<Rightarrow> addressbook_entry list \<Rightarrow> jsobj" where
  "buildCustomerPayload conn c oa es =
     (let p0 = [(''externalid'', JStr (cu_id c)), (''isperson'', JBool (isPerson c)),
            (''subsidiary'', JStr (nsSubsidiary conn))];
          p1 = (if isPerson c
            then put_if_set ''lastname'' (field_str (cu_lastName c)) (put_if_set ''firstname'' (field_str (cu_firstName c)) p0)
            else oset ''companyname'' (JStr (company_name c)) p0);
          p2 = put_if_set ''email'' (field_str (cu_email c)) p1;
          p3 = put_if_set ''phone'' (first_phone c oa) p2;
          addressbook = customer_addressbook conn oa es
      in if addressbook \<noteq> [] then oset ''addressbook'' (JObj [(''items'', JArr (map JObj addressbook))]) p3 else p3)"

section \<open>The resolution\<close>

definition existing_addressbook ::
  "'w ns_ops \<Rightarrow> connection \<Rightarrow> shopify_customer \<Rightarrow> ('w, addressbook_entry list) io" where
  "existing_addressbook ns conn c = (case non_empty (shopifyAddressIdField conn) of
     None \<Rightarrow> ret []
   | Some field \<Rightarrow>
       bnd (no_find ns (nsAccountId conn) ''customer'' (cu_id c) (Some [''id''])) (\<lambda>existing.
         let existingId = (case existing of None \<Rightarrow> JUndef | Some r \<Rightarrow> oget r ''id'') in
         if nullish existingId then ret []
         else no_addressbook ns (nsAccountId conn) (to_str existingId) field))"

definition resolveCustomer ::
  "'w ns_ops \<Rightarrow> string \<Rightarrow> connection \<Rightarrow> shopify_customer option \<Rightarrow> order_addresses
   \<Rightarrow> ('w, customer_resolution) io" where
  "resolveCustomer ns guest conn customer oa = (case customer of
     None \<Rightarrow> ret \<lparr>cr_internalId = guest, cr_isGuest = True, cr_created = False\<rparr>
   | Some c \<Rightarrow>
       bnd (existing_addressbook ns conn c) (\<lambda>es.
       bnd (no_upsert ns (nsAccountId conn) ''customer'' (cu_id c) (buildCustomerPayload conn c oa es)) (\<lambda>r.
         ret \<lparr>cr_internalId = ur_internalId r, cr_isGuest = False, cr_created = ur_created r\<rparr>)))"

section \<open>The merged addressbook\<close>

lemma merged_incoming:
  "buildAddressbookMerged a es field \<noteq> [] \<Longrightarrow> shopifyAddressToNs (oa_billing a) (Some field) \<noteq> None
     \<or> shopifyAddressToNs (oa_shipping a) (Some field) \<noteq> None"
  by (simp add: buildAddressbookMerged_def Let_def split: if_splits)

lemma map_of_byShopifyId_aux:
  "map_of (fold (\<lambda>e m. case non_empty (ae_shopifyAddressId e) of None \<Rightarrow> m | Some s \<Rightarrow> AList.update s e m) es m) s
     = Some e \<Longrightarrow> map_of m s = Some e \<or> (e \<in> set es \<and> ae_shopifyAddressId e = Some s)"
proof (induction es arbitrary: m)
  case (Cons x es)
  then show ?case
    by (cases "ae_shopifyAddressId x")
       (force simp: non_empty_def map_of_update split: option.splits if_splits)+
qed simp

lemma map_of_byShopifyId: "map_of (byShopifyId es) s = Some e \<Longrightarrow> e \<in> set es \<and> ae_shopifyAddressId e = Some s"
proof -
  assume "map_of (byShopifyId es) s = Some e"
  from map_of_byShopifyId_aux [OF this [unfolded byShopifyId_def]] show ?thesis by simp
qed

lemma stamp_flags [simp]:
  "oget (stamp m (addressbook_item db ds l a)) ''defaultBilling'' = JBool db"
  "oget (stamp m (addressbook_item db ds l a)) ''defaultShipping'' = JBool ds"
  by (cases m; simp add: stamp_def addressbook_item_def oget_Cons)+

lemma stamp_id:
  "oget (stamp m (addressbook_item db ds l a)) ''id'' = (case m of None \<Rightarrow> JUndef | Some e \<Rightarrow> JStr (ae_internalId e))"
  by (cases m) (simp_all add: stamp_def addressbook_item_def oget_Cons)

lemma put_label [simp]: "oget (put_if_set ''label'' l xs) k = (if k = ''label'' \<and> set_str l then JStr (the l) else oget xs k)"
  by (auto simp: put_if_set_def non_empty_def set_str_def split: option.splits list.splits)

lemma preserved_flags [simp]:
  "oget (preserved_entry cb cs e) ''defaultBilling'' = JBool (\<not> cb \<and> ae_defaultBilling e)"
  "oget (preserved_entry cb cs e) ''defaultShipping'' = JBool (\<not> cs \<and> ae_defaultShipping e)"
  "oget (preserved_entry cb cs e) ''id'' = JStr (ae_internalId e)"
  by (auto simp: preserved_entry_def oget_Cons)

definition flagged :: "string \<Rightarrow> jsobj list \<Rightarrow> nat" where
  "flagged k es = length (filter (has_flag k) es)"

lemma flagged_simps [simp]:
  "flagged k [] = 0" "flagged k (e # es) = (if has_flag k e then Suc (flagged k es) else flagged k es)"
  "flagged k (es @ fs) = flagged k es + flagged k fs"
  by (simp_all add: flagged_def)

text \<open>The ids of the entries that carry one, as the gateway will read them.\<close>

definition entry_ids :: "jsobj list \<Rightarrow> jsval list" where
  "entry_ids es = filter (\<lambda>v. v \<noteq> JUndef) (map (\<lambda>e. oget e ''id'') es)"

lemma incoming_one_default:
  assumes "billing \<noteq> None \<or> shipping \<noteq> None"
  shows "flagged ''defaultBilling'' (fst (incoming_entries a es billing shipping)) = 1"
    and "flagged ''defaultShipping'' (fst (incoming_entries a es billing shipping)) = 1"
  using assms
  by (auto simp: incoming_entries_def Let_def has_flag_def split: option.splits if_splits)

lemma incoming_ids:
  "entry_ids (fst (incoming_entries a es b s)) = map JStr (snd (incoming_entries a es b s))"
  by (auto simp: incoming_entries_def Let_def entry_ids_def stamp_id claimed_ids_def split: option.splits if_splits)

lemma incoming_claims:
  assumes "distinct (map ae_internalId es)"
  shows "distinct (snd (incoming_entries a es b s))
    \<and> set (snd (incoming_entries a es b s)) \<subseteq> ae_internalId ` set es"
proof -
  have one: "distinct (claimed_ids m) \<and> set (claimed_ids m) \<subseteq> ae_internalId ` set es"
    if "\<And>e. m = Some e \<Longrightarrow> e \<in> set es" for m
    using that by (cases m) (auto simp: claimed_ids_def)
  have hit: "e \<in> set es \<and> ae_shopifyAddressId e = x" if "matched_entry es x = Some e" for x e
    using that map_of_byShopifyId
    by (auto simp: matched_entry_def non_empty_def split: option.splits if_splits)
  let ?bid = "field_str (address_id (oa_billing a))" and ?sid = "field_str (address_id (oa_shipping a))"
  let ?mb = "matched_entry es ?bid" and ?ms = "matched_entry es ?sid"
  show ?thesis
  proof (cases "same_ids a")
    case True
    show ?thesis
    proof (cases b)
      case None
      then show ?thesis using True one [of ?ms] hit
        by (cases s) (auto simp: incoming_entries_def Let_def)
    next
      case (Some x)
      let ?m = "Option.bind ?bid (map_of (byShopifyId es))"
      have "snd (incoming_entries a es b s) = claimed_ids ?m"
        using True Some by (auto simp: incoming_entries_def Let_def)
      moreover have "?m = Some e \<Longrightarrow> e \<in> set es" for e
        using map_of_byShopifyId by (auto simp: bind_eq_Some_conv)
      ultimately show ?thesis using one [of ?m] by simp
    qed
  next
    case False
    have sep: "ae_internalId e \<noteq> ae_internalId f" if "?mb = Some e" "?ms = Some f" for e f
    proof
      assume eq: "ae_internalId e = ae_internalId f"
      have in_es: "e \<in> set es" "f \<in> set es" and ids: "ae_shopifyAddressId e = ?bid" "ae_shopifyAddressId f = ?sid"
        using hit that by auto
      then have "e = f" using eq assms by (auto simp: distinct_map dest: inj_onD)
      then have "?bid = ?sid" using ids by simp
      moreover have "?bid \<noteq> None"
        using that(1) by (cases ?bid) (simp_all add: matched_entry_def non_empty_def)
      ultimately show False
        using False by (auto simp: same_ids_def Let_def field_str_def split: text_field.splits)
    qed
    have snd: "snd (incoming_entries a es b s) =
        (if b = None then [] else claimed_ids ?mb) @ (if s = None then [] else claimed_ids ?ms)"
      using False by (auto simp: incoming_entries_def Let_def split: option.splits)
    have "set (claimed_ids ?mb) \<inter> set (claimed_ids ?ms) = {}"
      using sep by (cases ?mb; cases ?ms) (auto simp: claimed_ids_def)
    then show ?thesis unfolding snd using one [of ?mb] one [of ?ms] hit by auto
  qed
qed

lemma flagged_preserved:
  "cb \<Longrightarrow> flagged ''defaultBilling'' (map (preserved_entry cb cs) es) = 0"
  "cs \<Longrightarrow> flagged ''defaultShipping'' (map (preserved_entry cb cs) es) = 0"
  by (induction es) (simp_all add: has_flag_def)

lemma flagged_some: "flagged k es = 1 \<Longrightarrow> list_ex (has_flag k) es"
  by (induction es) (auto split: if_splits)

lemma merged_unfold:
  assumes "shopifyAddressToNs (oa_billing a) (Some field) \<noteq> None \<or> shopifyAddressToNs (oa_shipping a) (Some field) \<noteq> None"
  shows "\<exists>b s. buildAddressbookMerged a es field = fst (incoming_entries a es b s)
      @ map (preserved_entry True True) (filter (\<lambda>e. ae_internalId e \<notin> set (snd (incoming_entries a es b s))) es)
    \<and> flagged ''defaultBilling'' (fst (incoming_entries a es b s)) = 1
    \<and> flagged ''defaultShipping'' (fst (incoming_entries a es b s)) = 1"
proof -
  define b where "b = shopifyAddressToNs (oa_billing a) (Some field)"
  define s where "s = shopifyAddressToNs (oa_shipping a) (Some field)"
  note one = incoming_one_default [of b s a es]
  have "b \<noteq> None \<or> s \<noteq> None" using assms by (simp add: b_def s_def)
  moreover note one [OF this] and flagged_some [OF one(1) [OF this]] flagged_some [OF one(2) [OF this]]
  ultimately show ?thesis
    by (intro exI [of _ b] exI [of _ s])
       (auto simp: buildAddressbookMerged_def b_def [symmetric] s_def [symmetric] Let_def split: prod.splits)
qed

text \<open>
  C40: an addressbook that is written has exactly one default billing and one default shipping
  address, on both paths, whatever the customer's stored addressbook looked like: the incoming
  address takes the default and every preserved entry gives it up.
\<close>

theorem addressbook_one_default:
  assumes "customer_addressbook conn oa es \<noteq> []"
  shows "flagged ''defaultBilling'' (customer_addressbook conn oa es) = 1
    \<and> flagged ''defaultShipping'' (customer_addressbook conn oa es) = 1"
proof (cases "non_empty (shopifyAddressIdField conn)")
  case None
  then show ?thesis using assms
    by (auto simp: customer_addressbook_def buildAddressbookLegacy_def Let_def has_flag_def addressbook_item_def
        oget_Cons split: option.splits if_splits)
next
  case (Some field)
  then have c: "customer_addressbook conn oa es = buildAddressbookMerged oa es field"
    by (simp add: customer_addressbook_def)
  then have "shopifyAddressToNs (oa_billing oa) (Some field) \<noteq> None \<or> shopifyAddressToNs (oa_shipping oa) (Some field) \<noteq> None"
    using assms merged_incoming by simp
  from merged_unfold [OF this, of es] show ?thesis unfolding c by (auto simp: flagged_preserved)
qed

text \<open>
  Merging loses and duplicates no stored addressbook entry. With distinct stored ids, the ids in
  the written sublist are exactly the stored ones, each once: an entry is either updated by an
  incoming address that carries its Shopify id or preserved.
\<close>

theorem addressbook_merge_keeps_entries:
  assumes "distinct (map ae_internalId es)" and "buildAddressbookMerged oa es field \<noteq> []"
  shows "mset (entry_ids (buildAddressbookMerged oa es field)) = mset (map (\<lambda>e. JStr (ae_internalId e)) es)"
proof -
  have "shopifyAddressToNs (oa_billing oa) (Some field) \<noteq> None \<or> shopifyAddressToNs (oa_shipping oa) (Some field) \<noteq> None"
    by (rule merged_incoming [OF assms(2)])
  from merged_unfold [OF this, of es] obtain b s where
    m: "buildAddressbookMerged oa es field = fst (incoming_entries oa es b s)
      @ map (preserved_entry True True) (filter (\<lambda>e. ae_internalId e \<notin> set (snd (incoming_entries oa es b s))) es)"
    by blast
  define cl where "cl = snd (incoming_entries oa es b s)"
  have cl: "distinct cl" "set cl \<subseteq> ae_internalId ` set es"
    using incoming_claims [OF assms(1), of oa b s] by (auto simp: cl_def)
  have kept: "entry_ids (map (preserved_entry True True) xs) = map (\<lambda>e. JStr (ae_internalId e)) xs" for xs
    by (induction xs) (simp_all add: entry_ids_def)
  have "mset (map ae_internalId es) = mset cl + mset (filter (\<lambda>i. i \<notin> set cl) (map ae_internalId es))"
  proof -
    have "mset (filter (\<lambda>i. i \<in> set cl) (map ae_internalId es)) = mset cl"
      using cl assms(1) by (intro iffD1 [OF set_eq_iff_mset_eq_distinct]) auto
    then show ?thesis
      by (metis mset_filter multiset_partition)
  qed
  then have "mset (map JStr (map ae_internalId es)) = mset (map JStr cl)
      + mset (map JStr (filter (\<lambda>i. i \<notin> set cl) (map ae_internalId es)))"
    by (simp only: mset_map image_mset_union)
  then show ?thesis
    unfolding m cl_def [symmetric]
    using incoming_ids [of oa es b s] kept
    by (simp add: entry_ids_def cl_def [symmetric] filter_map comp_def)
qed

definition sample_address :: "text_field \<Rightarrow> string \<Rightarrow> address" where
  "sample_address aid street = \<lparr>ad_id = aid, ad_firstName = Text ''Ada'', ad_lastName = Absent, ad_company = Absent,
     ad_address1 = Text street, ad_address2 = Absent, ad_city = Text ''Austin'', ad_province = Absent,
     ad_provinceCode = Text ''TX'', ad_country = Absent, ad_countryCode = Text ''US'', ad_zip = Text ''78701'',
     ad_phone = Absent\<rparr>"

definition sample_oa :: order_addresses where
  "sample_oa = \<lparr>oa_billing = Some (sample_address (Text ''g1'') ''1 Main St''),
     oa_shipping = Some (sample_address (Text ''g2'') ''2 Main St'')\<rparr>"

definition sample_entries :: "addressbook_entry list" where
  "sample_entries = [\<lparr>ae_internalId = ''11'', ae_shopifyAddressId = Some ''g2'', ae_defaultBilling = True,
      ae_defaultShipping = False, ae_label = None\<rparr>,
    \<lparr>ae_internalId = ''12'', ae_shopifyAddressId = None, ae_defaultBilling = False,
      ae_defaultShipping = True, ae_label = Some ''Old''\<rparr>]"

definition merging_connection :: connection where
  "merging_connection = sample_connection\<lparr>shopifyAddressIdField := Some ''custrecord_sid''\<rparr>"

text \<open>
  Two addresses that Shopify sends without an id are taken for one. Their ids are \<open>null\<close>, which the
  comparison finds equal and not \<open>undefined\<close>: the customer gets one entry, the billing address, as the
  default for both, and the shipping address is not written. Ids that are left out keep the two apart.
\<close>

theorem null_ids_collapse:
  "let oa = (\<lambda>i. \<lparr>oa_billing = Some (sample_address i ''1 Main St''), oa_shipping = Some (sample_address i ''2 Main St'')\<rparr>);
       written = (\<lambda>i. buildAddressbookMerged (oa i) [] ''custrecord_sid'')
   in written NullText = [addressbook_item True True ''Default'' (the (shopifyAddressToNs (oa_billing (oa NullText)) None))]
     \<and> length (written Absent) = 2"
  by code_simp

lemma sample_merged: "buildAddressbookMerged sample_oa sample_entries ''custrecord_sid'' \<noteq> []"
  by code_simp

theorem addressbook_one_default_witness:
  "flagged ''defaultBilling'' (customer_addressbook merging_connection sample_oa sample_entries) = 1
    \<and> flagged ''defaultShipping'' (customer_addressbook merging_connection sample_oa sample_entries) = 1"
proof (rule addressbook_one_default)
  show "customer_addressbook merging_connection sample_oa sample_entries \<noteq> []"
    using sample_merged by (simp add: customer_addressbook_def merging_connection_def non_empty_def)
qed

theorem addressbook_merge_keeps_entries_witness:
  "mset (entry_ids (buildAddressbookMerged sample_oa sample_entries ''custrecord_sid'')) = {# JStr ''11'', JStr ''12'' #}"
  using addressbook_merge_keeps_entries [OF _ sample_merged] by (simp add: sample_entries_def)

text \<open>
  Resolving a customer on any gateway that keeps the contract: the only record it may write is the
  customer's own, keyed by the Shopify customer id; a guest order writes nothing.
\<close>

context ns_gateway
begin

lemma existing_addressbook_keeps: "keeps records (existing_addressbook ops conn c)"
  unfolding existing_addressbook_def
  by (auto intro!: keeps_rules find_keeps addressbook_keeps simp: Let_def split: option.splits)

lemma resolveCustomer_other:
  assumes "resolveCustomer ops guest conn customer oa w = (r, w')"
    and "\<And>c. customer = Some c \<Longrightarrow> k \<noteq> (nsAccountId conn, ''customer'', cu_id c)"
  shows "records w' k = records w k"
proof (cases customer)
  case None
  then show ?thesis using assms(1) by (auto simp: resolveCustomer_def)
next
  case (Some c)
  then show ?thesis
    using assms existing_addressbook_keeps [of conn c]
    by (auto simp: resolveCustomer_def bnd_app split: prod.splits sum.splits
        dest!: keepsD dest: upsert_other)
qed

end

end
