(* ===== verification/OrderHandler.thy ===== *)
theory OrderHandler
  imports XrefStore CoreStores Telemetry ItemResolver CustomerResolver
begin

text \<open>
  The order-import handler, \<open>apps/functions/src/triggers/order-import-handler.ts\<close>. One delivery of
  a queue message is one run of \<open>handleOrderMessage\<close> over the world of its dependencies. The
  variables its closure shares between \<open>try\<close>, \<open>catch\<close> and \<open>finally\<close> are the record \<open>locals\<close>, kept
  beside the world while the claimed part runs; the early \<open>return\<close>s inside the \<open>try\<close> are the
  constructor \<open>Done\<close> of \<open>stage\<close>.
\<close>

section \<open>Outcomes and dependencies\<close>

datatype park_stage = StFetch | StMapping | StBalancing | StItemResolution | StExternalCall

fun stage_str :: "park_stage \<Rightarrow> string" where
  "stage_str StFetch = ''fetch''"
| "stage_str StMapping = ''mapping''"
| "stage_str StBalancing = ''balancing''"
| "stage_str StItemResolution = ''item_resolution''"
| "stage_str StExternalCall = ''external_call''"

datatype reject_reason = BadMessageShape | UnknownConnection | EnvMismatch

fun reject_str :: "reject_reason \<Rightarrow> string" where
  "reject_str BadMessageShape = ''bad_message_shape''"
| "reject_str UnknownConnection = ''unknown_connection''"
| "reject_str EnvMismatch = ''env_mismatch''"

datatype handler_outcome =
    Imported string string string bool customer_resolution
  | Parked string string park_stage string "error_class option"
  | IgnoredByEligibility string string eligibility_reason "string option"
  | OutAlreadySynced string string
  | OutAlreadyClaimed string string
  | OutIgnored string string
  | Rejected reject_reason string

record attempt_ctx =
  ac_deliveryCount :: nat
  ac_sbMessageId :: "string option"
  ac_sbSessionId :: "string option"
  ac_startedAt :: int

text \<open>
  The dependencies as operations on a world. Optional stores are \<open>option\<close>s; \<open>d_now\<close> is the clock;
  an absent telemetry is the identity of \<open>d_track\<close>.
\<close>

record 'w order_deps =
  d_environment :: environment
  d_findById :: "environment \<Rightarrow> string \<Rightarrow> ('w, connection option) io"
  d_xref :: "'w xref_ops"
  d_getOrder :: "connection \<Rightarrow> string \<Rightarrow> ('w, shopify_order) io"
  d_tagOrder :: "connection \<Rightarrow> string \<Rightarrow> string list \<Rightarrow> ('w, string list) io"
  d_ns :: "'w ns_ops"
  d_guestCustomer :: string
  d_lookupsFor :: "connection \<Rightarrow> 'w lookup_resolver"
  d_derives :: "(string \<Rightarrow> shopify_order derive_fn option) option"
  d_errorStore :: "(new_error \<Rightarrow> ('w, error_record) io) option"
  d_syncLog :: "(sync_log_input \<Rightarrow> ('w, sync_log) io) option"
  d_attempts :: "(attempt_input \<Rightarrow> ('w, attempt) io) option"
  d_payloads :: "(jsobj \<Rightarrow> payload_ctx \<Rightarrow> ('w, string) io) option"
  d_track :: "telemetry_report \<Rightarrow> 'w \<Rightarrow> 'w"
  d_now :: "('w, int) io"

section \<open>The message\<close>

definition required_message_fields :: "string list" where
  "required_message_fields = [''environment'', ''connectionId'', ''shopDomain'', ''topic'', ''orderGid'',
     ''envelopeBlobUri'', ''receivedAt'']"

definition missing_field :: "jsval \<Rightarrow> string \<Rightarrow> string option" where
  "missing_field m k = (case get_prop m k of
     JStr s \<Rightarrow> (if s = [] then Some (''missing/empty string field '' @ quoted k) else None)
   | _ \<Rightarrow> Some (''missing/empty string field '' @ quoted k))"

fun parse_source :: "jsval \<Rightarrow> (delivery_source option) option" where
  "parse_source JUndef = Some None"
| "parse_source (JStr s) = (if s = ''webhook'' then Some (Some FromWebhook)
     else if s = ''catchup'' then Some (Some FromCatchup)
     else if s = ''replay'' then Some (Some FromReplay) else None)"
| "parse_source _ = None"

definition str_field :: "jsval \<Rightarrow> string \<Rightarrow> string" where
  "str_field m k = to_str (get_prop m k)"

definition parseOrderWebhookMessage :: "jsval \<Rightarrow> string + order_message" where
  "parseOrderWebhookMessage m =
     (if \<not> is_obj m then Inl (''expected object, got '' @ js_typeof m)
      else if \<not> strict_eq (get_prop m ''schemaVersion'') (JNum (Fin 1))
        then Inl (''unsupported schemaVersion: '' @ to_str (get_prop m ''schemaVersion''))
      else (case first_error (missing_field m) required_message_fields of
          Some e \<Rightarrow> Inl e
        | None \<Rightarrow> (case parse_source (get_prop m ''source'') of
            None \<Rightarrow> Inl (''invalid source: '' @ to_str (get_prop m ''source''))
          | Some src \<Rightarrow> Inr \<lparr>om_environment = str_field m ''environment'',
              om_connectionId = str_field m ''connectionId'', om_shopDomain = str_field m ''shopDomain'',
              om_topic = str_field m ''topic'', om_orderGid = str_field m ''orderGid'',
              om_envelopeBlobUri = str_field m ''envelopeBlobUri'',
              om_receivedAt = str_field m ''receivedAt'', om_source = src\<rparr>)))"

definition order_key :: "connection \<Rightarrow> order_message \<Rightarrow> dedup_parts" where
  "order_key conn msg = \<lparr>dp_environment = om_environment msg, dp_connectionId = connectionId conn,
     dp_entityType = Order, dp_sourceSystem = Shopify, dp_sourceId = om_orderGid msg\<rparr>"

section \<open>The sync log row\<close>

record sync_shape =
  ss_status :: sync_status
  ss_order :: "shopify_order option"
  ss_nsAccountId :: "string option"
  ss_nsRecordType :: "ns_record_type option"
  ss_nsInternalId :: "string option"
  ss_syncedAt :: "int option"
  ss_parkStage :: "string option"
  ss_parkDetail :: "string option"
  ss_parkErrorClass :: "string option"
  ss_ignoredReason :: "string option"
  ss_attemptCtx :: "attempt_ctx option"
  ss_lastOutboundPayloadUri :: "string option"

definition blank_shape :: "sync_status \<Rightarrow> sync_shape" where
  "blank_shape st = \<lparr>ss_status = st, ss_order = None, ss_nsAccountId = None, ss_nsRecordType = None,
     ss_nsInternalId = None, ss_syncedAt = None, ss_parkStage = None, ss_parkDetail = None,
     ss_parkErrorClass = None, ss_ignoredReason = None, ss_attemptCtx = None,
     ss_lastOutboundPayloadUri = None\<rparr>"

text \<open>
  A Shopify timestamp is an ISO date; one that is not would be an invalid \<open>Date\<close>, here no date. An e-mail
  that is \<open>null\<close> is none, as in the column it is written to.
\<close>

definition sync_input :: "connection \<Rightarrow> order_message \<Rightarrow> sync_shape \<Rightarrow> sync_log_input" where
  "sync_input conn msg sh = (let so = ss_order sh in
     \<lparr>sl_environment = om_environment msg, sl_connectionId = connectionId conn, sl_orderGid = om_orderGid msg,
      sl_orderId = (case numeric_tail (om_orderGid msg) of Some n \<Rightarrow> n | None \<Rightarrow> om_orderGid msg),
      sl_orderName = map_option so_name so,
      sl_createdAt = Option.bind so (\<lambda>x. date_parse (so_createdAt x)),
      sl_processedAt = Option.bind so (\<lambda>x. date_parse (so_processedAt x)),
      sl_updatedAt = Option.bind so (\<lambda>x. date_parse (so_updatedAt x)),
      sl_customerEmail = Option.bind so (\<lambda>x. Option.bind (so_customer x) (\<lambda>c. field_str (cu_email c))),
      sl_currencyCode = map_option so_currencyCode so,
      sl_totalPrice = map_option (\<lambda>x. amount (so_totalPrice x)) so,
      sl_subtotalPrice = map_option (\<lambda>x. amount (so_subtotalPrice x)) so,
      sl_totalTax = map_option (\<lambda>x. amount (so_totalTax x)) so,
      sl_totalDiscounts = map_option (\<lambda>x. amount (so_totalDiscounts x)) so,
      sl_totalShipping = map_option (\<lambda>x. amount (so_totalShippingPrice x)) so,
      sl_status = ss_status sh, sl_nsAccountId = ss_nsAccountId sh, sl_nsRecordType = ss_nsRecordType sh,
      sl_nsInternalId = ss_nsInternalId sh, sl_nsTranId = None, sl_parkStage = ss_parkStage sh,
      sl_parkDetail = ss_parkDetail sh, sl_parkErrorClass = ss_parkErrorClass sh,
      sl_ignoredReason = ss_ignoredReason sh, sl_syncedAt = ss_syncedAt sh,
      sl_attemptCount = map_option ac_deliveryCount (ss_attemptCtx sh),
      sl_lastDeliveryCount = map_option ac_deliveryCount (ss_attemptCtx sh),
      sl_lastOutboundPayloadUri = ss_lastOutboundPayloadUri sh,
      sl_lastInboundEnvelopeUri = non_empty (Some (om_envelopeBlobUri msg))\<rparr>)"

definition writeSyncLog :: "'w order_deps \<Rightarrow> connection \<Rightarrow> order_message \<Rightarrow> sync_shape \<Rightarrow> ('w, unit) io" where
  "writeSyncLog deps conn msg sh =
     when_some (d_syncLog deps) (\<lambda>upsert. bnd (upsert (sync_input conn msg sh)) (\<lambda>_. ret ()))"

section \<open>The attempt row\<close>

record attempt_verdict =
  av_outcome :: attempt_outcome
  av_stage :: "string option"
  av_errorClass :: "string option"
  av_detail :: "string option"

definition verdict :: "attempt_outcome \<Rightarrow> attempt_verdict" where
  "verdict a = \<lparr>av_outcome = a, av_stage = None, av_errorClass = None, av_detail = None\<rparr>"

fun outcome_verdict :: "handler_outcome \<Rightarrow> attempt_verdict" where
  "outcome_verdict (Imported _ _ _ _ _) = verdict AttImported"
| "outcome_verdict (Parked _ _ st detail cls) = (verdict AttParked)\<lparr>av_stage := Some (stage_str st),
     av_errorClass := map_option error_class_str cls, av_detail := Some detail\<rparr>"
| "outcome_verdict (IgnoredByEligibility _ _ r detail) = (verdict AttIgnoredByEligibility)\<lparr>av_detail :=
     Some (case non_empty detail of Some d \<Rightarrow> reason_str r @ '': '' @ d | None \<Rightarrow> reason_str r)\<rparr>"
| "outcome_verdict (OutAlreadySynced _ _) = verdict AttAlreadySynced"
| "outcome_verdict (OutAlreadyClaimed _ _) = verdict AttAlreadyClaimed"
| "outcome_verdict (OutIgnored _ _) = verdict AttIgnored"
| "outcome_verdict (Rejected r detail) = (verdict AttRejected)\<lparr>av_errorClass := Some (reject_str r),
     av_detail := Some detail\<rparr>"

definition resolveAttemptOutcome :: "handler_outcome option \<Rightarrow> js_error option \<Rightarrow> attempt_verdict" where
  "resolveAttemptOutcome out err = (case err of
     Some e \<Rightarrow> (let cls = classifyHandlerError e in
       (verdict (if cls = Auth then AttAuthThrow else AttTransientThrow))\<lparr>
          av_errorClass := Some (error_class_str cls), av_detail := Some (err_message e)\<rparr>)
   | None \<Rightarrow> (case out of
       None \<Rightarrow> (verdict AttTransientThrow)\<lparr>av_detail := Some ''no outcome captured''\<rparr>
     | Some o' \<Rightarrow> outcome_verdict o'))"

record locals =
  lc_order :: "shopify_order option"
  lc_outcome :: "handler_outcome option"
  lc_throwErr :: "js_error option"
  lc_outboundPayloadUri :: "string option"
  lc_nsResponseUri :: "string option"
  lc_nsResponseStatus :: "int option"
  lc_shopifyPayloadUri :: "string option"
  lc_payloadDigest :: "jsobj option"

definition no_locals :: locals where
  "no_locals = \<lparr>lc_order = None, lc_outcome = None, lc_throwErr = None, lc_outboundPayloadUri = None,
     lc_nsResponseUri = None, lc_nsResponseStatus = None, lc_shopifyPayloadUri = None, lc_payloadDigest = None\<rparr>"

definition attempt_row ::
  "attempt_ctx \<Rightarrow> order_message \<Rightarrow> connection \<Rightarrow> locals \<Rightarrow> int \<Rightarrow> attempt_input" where
  "attempt_row ctx msg conn l finishedAt =
     (let r = resolveAttemptOutcome (lc_outcome l) (lc_throwErr l) in
      \<lparr>at_environment = om_environment msg, at_connectionId = connectionId conn, at_orderGid = om_orderGid msg,
       at_deliveryCount = ac_deliveryCount ctx, at_sbMessageId = non_empty (ac_sbMessageId ctx),
       at_sbSessionId = non_empty (ac_sbSessionId ctx), at_outcome = av_outcome r,
       at_stage = non_empty (av_stage r), at_errorClass = non_empty (av_errorClass r),
       at_detail = non_empty (av_detail r), at_inboundEnvelopeUri = non_empty (Some (om_envelopeBlobUri msg)),
       at_outboundPayloadUri = non_empty (lc_outboundPayloadUri l), at_nsResponseUri = non_empty (lc_nsResponseUri l),
       at_nsResponseStatus = lc_nsResponseStatus l, at_shopifyPayloadUri = non_empty (lc_shopifyPayloadUri l),
       at_payloadDigest = lc_payloadDigest l, at_startedAt = ac_startedAt ctx, at_finishedAt = finishedAt,
       at_durationMs = max 0 (finishedAt - ac_startedAt ctx)\<rparr>)"

definition recordAttempt ::
  "'w order_deps \<Rightarrow> attempt_ctx option \<Rightarrow> order_message \<Rightarrow> connection \<Rightarrow> locals \<Rightarrow> ('w, unit) io" where
  "recordAttempt deps ctx msg conn l = (case (d_attempts deps, ctx) of
     (Some record_row, Some c) \<Rightarrow> bnd (d_now deps) (\<lambda>finishedAt.
        try_catch (bnd (record_row (attempt_row c msg conn l finishedAt)) (\<lambda>_. ret ())) (\<lambda>_. ret ()))
   | _ \<Rightarrow> ret ())"

section \<open>The payload digest\<close>

fun has_id :: "jsval \<Rightarrow> bool" where
  "has_id (JObj ps) = (map_of ps ''id'' \<noteq> None)"
| "has_id _ = False"

definition refId :: "jsval \<Rightarrow> jsval" where
  "refId v = (if has_id v then get_prop v ''id'' else v)"

definition digest_entry :: "jsobj \<Rightarrow> string \<Rightarrow> string \<Rightarrow> (jsval \<Rightarrow> jsval) \<Rightarrow> jsobj" where
  "digest_entry p k name f = (if oget p k = JUndef then [] else [(name, f (oget p k))])"

definition buildPayloadDigest :: "jsobj \<Rightarrow> jsobj" where
  "buildPayloadDigest p =
     (let lineCount = (case get_prop (oget p ''item'') ''items'' of JArr ls \<Rightarrow> length ls | _ \<Rightarrow> 0) in
      (''lineCount'', JNum (Fin (of_nat lineCount)))
        # digest_entry p ''tranId'' ''tranId'' id @ digest_entry p ''externalId'' ''externalId'' id
        @ digest_entry p ''subsidiary'' ''subsidiaryId'' refId @ digest_entry p ''entity'' ''entityId'' refId
        @ digest_entry p ''currency'' ''currencyId'' refId @ digest_entry p ''orderStatus'' ''orderStatus'' refId
        @ digest_entry p ''tranDate'' ''tranDate'' id)"

section \<open>Parking and classification\<close>

record park_input =
  pi_stage :: park_stage
  pi_detail :: string
  pi_errorClass :: error_class
  pi_order :: "shopify_order option"
  pi_attemptCtx :: "attempt_ctx option"

definition record_error ::
  "'w order_deps \<Rightarrow> dedup_parts \<Rightarrow> order_message \<Rightarrow> connection \<Rightarrow> string \<Rightarrow> error_class \<Rightarrow> string \<Rightarrow> jsval
   \<Rightarrow> ('w, unit) io" where
  "record_error deps p msg conn flow cls message envelope =
     when_some (d_errorStore deps) (\<lambda>record_row.
       bnd (lift_sum (dedupKey p)) (\<lambda>k.
       bnd (record_row \<lparr>ne_environment = om_environment msg, ne_connectionId = connectionId conn,
         ne_flow = flow, ne_dedupKey = k, ne_errorClass = cls, ne_message = message, ne_stack = None,
         ne_envelope = envelope\<rparr>) (\<lambda>_. ret ())))"

definition park_shape :: "park_input \<Rightarrow> sync_shape" where
  "park_shape pk = (blank_shape SyncParked)\<lparr>ss_order := pi_order pk, ss_parkStage := Some (stage_str (pi_stage pk)),
     ss_parkDetail := Some (pi_detail pk), ss_parkErrorClass := Some (error_class_str (pi_errorClass pk)),
     ss_attemptCtx := pi_attemptCtx pk\<rparr>"

text \<open>\<open>raw\<close> is the message as received, which the error row keeps as its envelope.\<close>

definition parkOutcome ::
  "'w order_deps \<Rightarrow> dedup_parts \<Rightarrow> connection \<Rightarrow> order_message \<Rightarrow> jsval \<Rightarrow> park_input
   \<Rightarrow> ('w, handler_outcome) io" where
  "parkOutcome deps p conn msg raw pk =
     bnd (xo_recordFailure (d_xref deps) p None) (\<lambda>_.
     bnd (record_error deps p msg conn ''order-import'' (pi_errorClass pk)
       (''['' @ stage_str (pi_stage pk) @ ''] '' @ pi_detail pk) raw) (\<lambda>_.
     bnd (modify_st (d_track deps (TrackPark (om_environment msg) (connectionId conn)
       (stage_str (pi_stage pk)) (error_class_str (pi_errorClass pk))))) (\<lambda>_.
     bnd (writeSyncLog deps conn msg (park_shape pk)) (\<lambda>_.
       ret (Parked (connectionId conn) (om_orderGid msg) (pi_stage pk) (pi_detail pk) (Some (pi_errorClass pk)))))))"

fun is_not_found :: "js_error \<Rightarrow> bool" where
  "is_not_found (OrderNotFoundError _ _) = True"
| "is_not_found _ = False"

definition classifyAndRoute ::
  "'w order_deps \<Rightarrow> dedup_parts \<Rightarrow> connection \<Rightarrow> order_message \<Rightarrow> jsval \<Rightarrow> js_error \<Rightarrow> shopify_order option
   \<Rightarrow> attempt_ctx option \<Rightarrow> ('w, handler_outcome) io" where
  "classifyAndRoute deps p conn msg raw err so ctx =
     (let cls = classifyHandlerError err; detail = err_message err in
      if shouldRetry cls then
        bnd (if cls = Auth then
               bnd (record_error deps p msg conn ''order-import'' cls detail raw) (\<lambda>_.
                 modify_st (d_track deps (TrackAuthError (om_environment msg) (connectionId conn)
                   ''order-import'' detail)))
             else ret ()) (\<lambda>_. throw err)
      else parkOutcome deps p conn msg raw \<lparr>pi_stage = (if is_not_found err then StFetch else StExternalCall),
        pi_detail = detail, pi_errorClass = cls, pi_order = so, pi_attemptCtx = ctx\<rparr>)"

section \<open>The claimed part\<close>

text \<open>An effect on the world alone, and assignments to the closure's variables.\<close>

definition in_world :: "('w, 'a) io \<Rightarrow> ('w \<times> locals, 'a) io" where
  "in_world m = (\<lambda>(w, l). case m w of (r, w') \<Rightarrow> (r, (w', l)))"

definition assign :: "(locals \<Rightarrow> locals) \<Rightarrow> ('w \<times> locals, unit) io" where
  "assign f = modify_st (\<lambda>(w, l). (w, f l))"

definition with_locals :: "('w \<times> locals, 'a) io \<Rightarrow> ('w, 'a) io" where
  "with_locals m = (\<lambda>w. case m (w, no_locals) of (r, (w', _)) \<Rightarrow> (r, w'))"

definition finish :: "handler_outcome \<Rightarrow> ('w \<times> locals, handler_outcome) io" where
  "finish out = bnd (assign (\<lambda>l. l\<lparr>lc_outcome := Some out\<rparr>)) (\<lambda>_. ret out)"

definition archive_ctx ::
  "order_message \<Rightarrow> connection \<Rightarrow> attempt_ctx \<Rightarrow> string option \<Rightarrow> string option \<Rightarrow> payload_kind \<Rightarrow> payload_ctx" where
  "archive_ctx msg conn c acct rt kind = \<lparr>pc_environment = om_environment msg, pc_connectionId = connectionId conn,
     pc_orderGid = om_orderGid msg, pc_deliveryCount = ac_deliveryCount c, pc_nsAccountId = acct,
     pc_nsRecordType = rt, pc_attemptStartedAt = ac_startedAt c, pc_kind = kind\<rparr>"

text \<open>\<open>if (store && ctx) uri = await store.put(...).catch(() => undefined)\<close>\<close>

definition archive ::
  "'w order_deps \<Rightarrow> attempt_ctx option \<Rightarrow> jsobj \<Rightarrow> (attempt_ctx \<Rightarrow> payload_ctx)
   \<Rightarrow> (string option \<Rightarrow> locals \<Rightarrow> locals) \<Rightarrow> ('w \<times> locals, unit) io" where
  "archive deps ctx payload mk set_uri = (case (d_payloads deps, ctx) of
     (Some put_blob, Some c) \<Rightarrow>
       bnd (in_world (try_catch (bnd (put_blob payload (mk c)) (\<lambda>u. ret (Some u))) (\<lambda>_. ret None)))
         (\<lambda>u. assign (set_uri u))
   | _ \<Rightarrow> ret ())"

definition headers_js :: "jsobj option \<Rightarrow> jsobj" where
  "headers_js hs = (case hs of None \<Rightarrow> [] | Some h \<Rightarrow> [(''headers'', JObj h)])"

definition raw_response_js :: "raw_response \<Rightarrow> jsobj" where
  "raw_response_js r = (''status'', JNum (of_integer (rr_status r))) # headers_js (rr_headers r)
     @ (case rr_body r of None \<Rightarrow> [] | Some b \<Rightarrow> [(''body'', b)])"

definition raw_ns_js :: "raw_ns \<Rightarrow> jsobj" where
  "raw_ns_js r = (case raw_status r of None \<Rightarrow> [] | Some s \<Rightarrow> [(''status'', JNum (of_integer s))])
     @ (case raw_body r of None \<Rightarrow> [] | Some b \<Rightarrow> [(''body'', b)])"

datatype 'a stage = Done handler_outcome | Go 'a

definition then_go ::
  "('w \<times> locals, 'a stage) io \<Rightarrow> ('a \<Rightarrow> ('w \<times> locals, handler_outcome) io) \<Rightarrow> ('w \<times> locals, handler_outcome) io" where
  "then_go m f = bnd m (\<lambda>r. case r of Done out \<Rightarrow> ret out | Go a \<Rightarrow> f a)"

text \<open>\<open>return finish(await parkOutcome(...))\<close> inside the \<open>try\<close>.\<close>

definition park_here ::
  "'w order_deps \<Rightarrow> connection \<Rightarrow> order_message \<Rightarrow> jsval \<Rightarrow> attempt_ctx option \<Rightarrow> shopify_order
   \<Rightarrow> park_stage \<Rightarrow> string \<Rightarrow> error_class \<Rightarrow> ('w \<times> locals, 'a stage) io" where
  "park_here deps conn msg raw ctx so st detail cls =
     bnd (in_world (parkOutcome deps (order_key conn msg) conn msg raw \<lparr>pi_stage = st, pi_detail = detail,
       pi_errorClass = cls, pi_order = Some so, pi_attemptCtx = ctx\<rparr>)) (\<lambda>out.
     bnd (finish out) (\<lambda>out'. ret (Done out')))"

text \<open>Steps 3 to 4: fetch, archive what Shopify sent, and the eligibility predicate.\<close>

definition fetch_eligible ::
  "'w order_deps \<Rightarrow> connection \<Rightarrow> order_message \<Rightarrow> attempt_ctx option \<Rightarrow> ('w \<times> locals, shopify_order stage) io" where
  "fetch_eligible deps conn msg ctx =
     bnd (in_world (d_getOrder deps conn (om_orderGid msg))) (\<lambda>so.
     bnd (assign (\<lambda>l. l\<lparr>lc_order := Some so\<rparr>)) (\<lambda>_.
     bnd (archive deps ctx (obj_fields (order_js so)) (\<lambda>c. archive_ctx msg conn c None None ShopifyOrderBody)
       (\<lambda>u l. l\<lparr>lc_shopifyPayloadUri := u\<rparr>)) (\<lambda>_.
     case checkEligibility so (om_topic msg) no_options of
       Eligible \<Rightarrow> ret (Go so)
     | Ineligible reason detail \<Rightarrow>
         bnd (in_world (xo_markIgnored (d_xref deps) (order_key conn msg))) (\<lambda>_.
         bnd (in_world (writeSyncLog deps conn msg ((blank_shape SyncIgnored)\<lparr>ss_order := Some so,
           ss_ignoredReason := Some (reason_str reason), ss_attemptCtx := ctx\<rparr>))) (\<lambda>_.
         bnd (in_world (modify_st (d_track deps (TrackIgnored (om_environment msg) (connectionId conn)
           (reason_str reason))))) (\<lambda>_.
         bnd (finish (IgnoredByEligibility (connectionId conn) (om_orderGid msg) reason (non_empty detail)))
           (\<lambda>out. ret (Done out))))))))"

text \<open>Steps 5 to 9: customer, payload, tax, balancing, item ids.\<close>

definition prepare_payload ::
  "'w order_deps \<Rightarrow> connection \<Rightarrow> order_message \<Rightarrow> jsval \<Rightarrow> attempt_ctx option \<Rightarrow> shopify_order
   \<Rightarrow> ('w \<times> locals, (customer_resolution \<times> jsobj) stage) io" where
  "prepare_payload deps conn msg raw ctx so =
     bnd (in_world (resolveCustomer (d_ns deps) (d_guestCustomer deps) conn (so_customer so)
       \<lparr>oa_billing = so_billingAddress so, oa_shipping = so_shippingAddress so\<rparr>)) (\<lambda>customer.
     bnd (in_world (buildOrderPayload conn so (cr_internalId customer) (d_lookupsFor deps conn)
       (case d_derives deps of Some d \<Rightarrow> d | None \<Rightarrow> defaultDeriveRegistry) None)) (\<lambda>payloadResult.
     case payloadResult of
       Park pk \<Rightarrow> park_here deps conn msg raw ctx so StMapping (pr_detail pk) UnmappedConstruct
     | MapOk draft \<Rightarrow>
       bnd (lift_sum (applyBalancing (applyTaxPayloadHeader draft (buildOrderTax conn so)) so DEFAULT_BALANCING))
         (\<lambda>balanced. case balanced of
           Park pk \<Rightarrow> park_here deps conn msg raw ctx so StBalancing (pr_detail pk) Data
         | MapOk (balancedPayload, _) \<Rightarrow>
           bnd (in_world (resolveItemReferences (d_ns deps) (nsAccountId conn) (defaultItemId conn) balancedPayload))
             (\<lambda>resolved. case resolved of
               Park pk \<Rightarrow> park_here deps conn msg raw ctx so StItemResolution (pr_detail pk) UnmappedConstruct
             | MapOk finalPayload \<Rightarrow> ret (Go (customer, finalPayload))))))"

fun record_type_of :: "connection \<Rightarrow> ns_record_type" where
  "record_type_of conn = (if orderTarget conn = SalesOrder then Salesorder else Cashsale)"

text \<open>Step 12: the tag is written back only where the connection asks, and never undoes the import.\<close>

definition tag_import :: "'w order_deps \<Rightarrow> connection \<Rightarrow> order_message \<Rightarrow> string \<Rightarrow> ('w, unit) io" where
  "tag_import deps conn msg targetId =
     (if writeTagsOnImport conn = Some True then
        (let tag = ''netsuite-'' @ targetId in
         try_catch (bnd (d_tagOrder deps conn (om_orderGid msg) [tag]) (\<lambda>_. ret ()))
           (\<lambda>tagErr. record_error deps (order_key conn msg) msg conn ''order-tag-writeback''
              (classifyHandlerError tagErr)
              (''tagOrder('' @ quoted tag @ '') failed for '' @ om_orderGid msg @ '': '' @ err_message tagErr)
              (JObj [(''orderGid'', JStr (om_orderGid msg)), (''tag'', JStr tag), (''targetId'', JStr targetId)])))
      else ret ())"

text \<open>Steps 9b to 12: archive, digest, the NetSuite write, the ledger and the sync log.\<close>

definition book_order ::
  "'w order_deps \<Rightarrow> connection \<Rightarrow> order_message \<Rightarrow> attempt_ctx option \<Rightarrow> shopify_order
   \<Rightarrow> customer_resolution \<Rightarrow> jsobj \<Rightarrow> ('w \<times> locals, handler_outcome) io" where
  "book_order deps conn msg ctx so customer finalPayload =
     (let acct = nsAccountId conn; rt = netsuiteOrderRecordType conn in
      bnd (archive deps ctx finalPayload (\<lambda>c. archive_ctx msg conn c (Some acct) (Some rt) Outbound)
        (\<lambda>u l. l\<lparr>lc_outboundPayloadUri := u\<rparr>)) (\<lambda>_.
      bnd (assign (\<lambda>l. l\<lparr>lc_payloadDigest := Some (buildPayloadDigest finalPayload)\<rparr>)) (\<lambda>_.
      bnd (in_world (no_upsert (d_ns deps) acct rt (om_orderGid msg) finalPayload)) (\<lambda>upserted.
      bnd (case ur_rawResponse upserted of
             None \<Rightarrow> ret ()
           | Some rr \<Rightarrow> bnd (assign (\<lambda>l. l\<lparr>lc_nsResponseStatus := Some (rr_status rr)\<rparr>)) (\<lambda>_.
               archive deps ctx (raw_response_js rr)
                 (\<lambda>c. archive_ctx msg conn c (Some acct) (Some rt) NsResponse)
                 (\<lambda>u l. l\<lparr>lc_nsResponseUri := u\<rparr>))) (\<lambda>_.
      bnd (in_world (d_now deps)) (\<lambda>t.
      bnd (in_world (xo_recordSuccess (d_xref deps) t (order_key conn msg) (ur_internalId upserted) (om_orderGid msg)))
        (\<lambda>_.
      bnd (in_world (d_now deps)) (\<lambda>now.
      bnd (in_world (modify_st (d_track deps (TrackImport (om_environment msg) (connectionId conn)
        (case ctx of None \<Rightarrow> 0 | Some c \<Rightarrow> max 0 (now - ac_startedAt c)))))) (\<lambda>_.
      bnd (read_st (\<lambda>(w, l). lc_outboundPayloadUri l)) (\<lambda>uri.
      bnd (in_world (writeSyncLog deps conn msg ((blank_shape SyncImported)\<lparr>ss_order := Some so,
        ss_nsAccountId := Some acct, ss_nsRecordType := Some (record_type_of conn),
        ss_nsInternalId := Some (ur_internalId upserted), ss_syncedAt := Some now, ss_attemptCtx := ctx,
        ss_lastOutboundPayloadUri := uri\<rparr>))) (\<lambda>_.
      bnd (in_world (tag_import deps conn msg (ur_internalId upserted))) (\<lambda>_.
        finish (Imported (connectionId conn) (om_orderGid msg) (ur_internalId upserted) (ur_created upserted)
          customer)))))))))))))"

definition import_body ::
  "'w order_deps \<Rightarrow> connection \<Rightarrow> order_message \<Rightarrow> jsval \<Rightarrow> attempt_ctx option
   \<Rightarrow> ('w \<times> locals, handler_outcome) io" where
  "import_body deps conn msg raw ctx =
     then_go (fetch_eligible deps conn msg ctx) (\<lambda>so.
     then_go (prepare_payload deps conn msg raw ctx so) (\<lambda>(customer, finalPayload).
       book_order deps conn msg ctx so customer finalPayload))"

fun raw_ns_of :: "js_error \<Rightarrow> raw_ns option" where
  "raw_ns_of (JsError _ r) = r"
| "raw_ns_of _ = None"

text \<open>The \<open>catch\<close>: keep NetSuite's answer, then park or rethrow.\<close>

definition import_catch ::
  "'w order_deps \<Rightarrow> connection \<Rightarrow> order_message \<Rightarrow> jsval \<Rightarrow> attempt_ctx option \<Rightarrow> js_error
   \<Rightarrow> ('w \<times> locals, handler_outcome) io" where
  "import_catch deps conn msg raw ctx err =
     bnd (case raw_ns_of err of
            None \<Rightarrow> ret ()
          | Some r \<Rightarrow> bnd (case raw_status r of None \<Rightarrow> ret ()
                 | Some s \<Rightarrow> assign (\<lambda>l. l\<lparr>lc_nsResponseStatus := Some s\<rparr>)) (\<lambda>_.
              archive deps ctx (raw_ns_js r)
                (\<lambda>c. archive_ctx msg conn c (Some (nsAccountId conn)) None NsResponse)
                (\<lambda>u l. l\<lparr>lc_nsResponseUri := u\<rparr>))) (\<lambda>_.
     bnd (read_st (\<lambda>(w, l). lc_order l)) (\<lambda>so.
       try_catch
         (bnd (in_world (classifyAndRoute deps (order_key conn msg) conn msg raw err so ctx)) finish)
         (\<lambda>rethrown. bnd (assign (\<lambda>l. l\<lparr>lc_throwErr := Some rethrown\<rparr>)) (\<lambda>_. throw rethrown))))"

definition import_claimed ::
  "'w order_deps \<Rightarrow> connection \<Rightarrow> order_message \<Rightarrow> jsval \<Rightarrow> attempt_ctx option \<Rightarrow> ('w, handler_outcome) io" where
  "import_claimed deps conn msg raw ctx = with_locals (try_finally
     (try_catch (import_body deps conn msg raw ctx) (import_catch deps conn msg raw ctx))
     (\<lambda>_. bnd (read_st snd) (\<lambda>l. in_world (recordAttempt deps ctx msg conn l))))"

section \<open>The handler\<close>

text \<open>A short circuit: the outcome is recorded as the delivery's attempt and returned.\<close>

definition answer ::
  "'w order_deps \<Rightarrow> attempt_ctx option \<Rightarrow> order_message \<Rightarrow> connection \<Rightarrow> handler_outcome \<Rightarrow> ('w, handler_outcome) io" where
  "answer deps ctx msg conn out =
     bnd (recordAttempt deps ctx msg conn (no_locals\<lparr>lc_outcome := Some out\<rparr>)) (\<lambda>_. ret out)"

definition claim_and_import ::
  "'w order_deps \<Rightarrow> connection \<Rightarrow> order_message \<Rightarrow> jsval \<Rightarrow> attempt_ctx option \<Rightarrow> ('w, handler_outcome) io" where
  "claim_and_import deps conn msg raw ctx =
     bnd (xo_claim (d_xref deps) \<lparr>ci_parts = order_key conn msg, ci_targetSystem = Netsuite,
       ci_targetExternal = om_orderGid msg, ci_sourceHash = None\<rparr>) (\<lambda>claim. case claim of
       AlreadySynced _ \<Rightarrow> answer deps ctx msg conn (OutAlreadySynced (connectionId conn) (om_orderGid msg))
     | AlreadyClaimed _ \<Rightarrow> answer deps ctx msg conn (OutAlreadyClaimed (connectionId conn) (om_orderGid msg))
     | ClaimIgnored _ \<Rightarrow> answer deps ctx msg conn (OutIgnored (connectionId conn) (om_orderGid msg))
     | Claimed _ \<Rightarrow> import_claimed deps conn msg raw ctx)"

definition from_webhook :: "order_message \<Rightarrow> bool" where
  "from_webhook msg \<longleftrightarrow> (case om_source msg of None \<Rightarrow> True | Some s \<Rightarrow> s = FromWebhook)"

text \<open>The gate before the claim: an update of an order that was never recorded is ignored.\<close>

definition process_message ::
  "'w order_deps \<Rightarrow> connection \<Rightarrow> order_message \<Rightarrow> jsval \<Rightarrow> attempt_ctx option \<Rightarrow> ('w, handler_outcome) io" where
  "process_message deps conn msg raw ctx =
     (if from_webhook msg \<and> om_topic msg = ''orders/updated'' then
        bnd (xo_lookup (d_xref deps) (order_key conn msg)) (\<lambda>existing. case existing of
          Some _ \<Rightarrow> claim_and_import deps conn msg raw ctx
        | None \<Rightarrow>
            bnd (xo_markIgnored (d_xref deps) (order_key conn msg)) (\<lambda>_.
            bnd (writeSyncLog deps conn msg ((blank_shape SyncIgnored)\<lparr>
              ss_ignoredReason := Some (reason_str UpdateBeforeCreate), ss_attemptCtx := ctx\<rparr>)) (\<lambda>_.
            bnd (modify_st (d_track deps (TrackIgnored (om_environment msg) (connectionId conn)
              (reason_str UpdateBeforeCreate)))) (\<lambda>_.
              answer deps ctx msg conn (IgnoredByEligibility (connectionId conn) (om_orderGid msg)
                UpdateBeforeCreate None)))))
      else claim_and_import deps conn msg raw ctx)"

definition handleOrderMessage ::
  "'w order_deps \<Rightarrow> jsval \<Rightarrow> attempt_ctx option \<Rightarrow> ('w, handler_outcome) io" where
  "handleOrderMessage deps message ctx = (case parseOrderWebhookMessage message of
     Inl e \<Rightarrow> ret (Rejected BadMessageShape e)
   | Inr msg \<Rightarrow>
      (if om_environment msg \<noteq> d_environment deps
         then ret (Rejected EnvMismatch (''message env='' @ om_environment msg @ '', handler env='' @ d_environment deps))
       else bnd (d_findById deps (om_environment msg) (om_connectionId msg)) (\<lambda>found. case found of
           None \<Rightarrow> ret (Rejected UnknownConnection (''connectionId='' @ om_connectionId msg))
         | Some conn \<Rightarrow>
             (if \<not> enabled conn then ret (Rejected UnknownConnection (''connectionId='' @ om_connectionId msg))
              else process_message deps conn msg message ctx))))"

definition show_bool :: "bool \<Rightarrow> string" where
  "show_bool b = (if b then ''true'' else ''false'')"

definition dquoted :: "string \<Rightarrow> string" where
  "dquoted s = [CHR 0x22] @ s @ [CHR 0x22]"

fun describeOutcome :: "handler_outcome \<Rightarrow> string" where
  "describeOutcome (Imported c g t created cust) = ''connection='' @ c @ '' order='' @ g @ '' ns='' @ t
     @ '' created='' @ show_bool created @ '' customer='' @ cr_internalId cust"
| "describeOutcome (Parked c g st detail cls) = ''connection='' @ c @ '' order='' @ g @ '' stage='' @ stage_str st
     @ (case cls of None \<Rightarrow> [] | Some k \<Rightarrow> '' class='' @ error_class_str k) @ '' detail='' @ dquoted detail"
| "describeOutcome (IgnoredByEligibility c g r detail) = ''connection='' @ c @ '' order='' @ g @ '' reason=''
     @ reason_str r @ (case non_empty detail of None \<Rightarrow> [] | Some d \<Rightarrow> '' detail='' @ dquoted d)"
| "describeOutcome (Rejected r detail) = ''reason='' @ reject_str r @ '' detail='' @ dquoted detail"
| "describeOutcome (OutAlreadySynced c g) = ''connection='' @ c @ '' order='' @ g"
| "describeOutcome (OutAlreadyClaimed c g) = ''connection='' @ c @ '' order='' @ g"
| "describeOutcome (OutIgnored c g) = ''connection='' @ c @ '' order='' @ g"

section \<open>Messages on the wire\<close>

fun source_js :: "delivery_source \<Rightarrow> jsval" where
  "source_js FromWebhook = JStr ''webhook''"
| "source_js FromCatchup = JStr ''catchup''"
| "source_js FromReplay = JStr ''replay''"

text \<open>The body every producer enqueues.\<close>

definition message_js :: "order_message \<Rightarrow> jsval" where
  "message_js m = JObj ([(''schemaVersion'', JNum (Fin 1)), (''environment'', JStr (om_environment m)),
     (''connectionId'', JStr (om_connectionId m)), (''shopDomain'', JStr (om_shopDomain m)),
     (''topic'', JStr (om_topic m)), (''orderGid'', JStr (om_orderGid m)),
     (''envelopeBlobUri'', JStr (om_envelopeBlobUri m)), (''receivedAt'', JStr (om_receivedAt m))]
     @ opt_prop ''source'' source_js (om_source m))"

end
