(* ===== verification/OrderEnv.thy ===== *)
theory OrderEnv
  imports OrderHandler
begin

text \<open>
  What the order handler promises over any dependencies that keep their contracts. The abstract
  state \<open>order_view\<close> is what the world shows of the ledger, the NetSuite records, the attempt rows
  and the error rows; the locale \<open>order_env\<close> says what each dependency may do to it, failures
  included: an operation that throws leaves the view alone.
\<close>

record order_view =
  ov_ledger :: ledger
  ov_records :: "record_key \<Rightarrow> (string \<times> jsobj) option"
  ov_attempts :: "attempt_input list"
  ov_errors :: "error_record list"

text \<open>
  \<open>ov_records\<close> shows the order records of NetSuite; the customer records the resolver writes are
  outside the view. \<open>reliable\<close> says that the attempt store is wired and never refuses a row; the
  handler also runs without one, and a refused row is lost without a trace.
\<close>

locale order_env =
  fixes deps :: "'w order_deps" and view :: "'w \<Rightarrow> order_view" and reliable :: bool
  assumes claim_ok: "xo_claim (d_xref deps) i w = (Inr c, w') \<Longrightarrow>
      c = fst (spec_claim i (ov_ledger (view w)))
      \<and> view w' = (view w)\<lparr>ov_ledger := snd (spec_claim i (ov_ledger (view w)))\<rparr>"
    and claim_err: "xo_claim (d_xref deps) i w = (Inl e, w') \<Longrightarrow> view w' = view w"
    and success_ok: "xo_recordSuccess (d_xref deps) t p tid ext w = (Inr r, w') \<Longrightarrow>
      view w' = (view w)\<lparr>ov_ledger := (ov_ledger (view w))(p \<mapsto> r)\<rparr>
      \<and> xr_status r = Synced \<and> xr_targetId r = Some tid"
    and success_err: "xo_recordSuccess (d_xref deps) t p tid ext w = (Inl e, w') \<Longrightarrow> view w' = view w"
    and failure_ok: "xo_recordFailure (d_xref deps) p h w = (Inr r, w') \<Longrightarrow>
      view w' = (view w)\<lparr>ov_ledger := (ov_ledger (view w))(p \<mapsto> r)\<rparr> \<and> xr_status r = Errored"
    and failure_err: "xo_recordFailure (d_xref deps) p h w = (Inl e, w') \<Longrightarrow> view w' = view w"
    and ignore_ok: "xo_markIgnored (d_xref deps) p w = (Inr r, w') \<Longrightarrow>
      view w' = (view w)\<lparr>ov_ledger := (ov_ledger (view w))(p \<mapsto> r)\<rparr> \<and> xr_status r = Ignored"
    and ignore_err: "xo_markIgnored (d_xref deps) p w = (Inl e, w') \<Longrightarrow> view w' = view w"
    and lookup_ok: "xo_lookup (d_xref deps) p w = (Inr found, w') \<Longrightarrow>
      view w' = view w \<and> found = ov_ledger (view w) p"
    and lookup_err: "xo_lookup (d_xref deps) p w = (Inl e, w') \<Longrightarrow> view w' = view w"
    and upsert_ok: "rt \<noteq> ''customer'' \<Longrightarrow> no_upsert (d_ns deps) acct rt ext payload w = (Inr u, w') \<Longrightarrow>
      view w' = (view w)\<lparr>ov_records := (ov_records (view w))((acct, rt, ext) \<mapsto> (ur_internalId u, payload))\<rparr>"
    and upsert_err: "no_upsert (d_ns deps) acct rt ext payload w = (Inl e, w') \<Longrightarrow> view w' = view w"
    and customer_keeps: "keeps view (no_upsert (d_ns deps) acct ''customer'' ext payload)"
    and find_keeps: "keeps view (no_find (d_ns deps) acct rt ext cols)"
    and addressbook_keeps: "keeps view (no_addressbook (d_ns deps) acct customer field)"
    and resolve_keeps: "keeps view (no_resolveItem (d_ns deps) acct sku)"
    and connection_keeps: "keeps view (d_findById deps env cid)"
    and order_keeps: "keeps view (d_getOrder deps conn gid)"
    and tag_keeps: "keeps view (d_tagOrder deps conn gid tags)"
    and lookups_keep: "keeps view (d_lookupsFor deps conn tab key)"
    and log_keeps: "d_syncLog deps = Some logger \<Longrightarrow> keeps view (logger li)"
    and blob_keeps: "d_payloads deps = Some put_blob \<Longrightarrow> keeps view (put_blob x pc)"
    and clock_ok: "d_now deps w = (now, w') \<Longrightarrow> view w' = view w \<and> (\<exists>ms. now = Inr ms)"
    and track_keeps: "view (d_track deps rep w) = view w"
    and error_ok: "d_errorStore deps = Some err_rec \<Longrightarrow> err_rec ei w = (Inr er, w') \<Longrightarrow>
      view w' = (view w)\<lparr>ov_errors := ov_errors (view w) @ [er]\<rparr>
      \<and> er_dedupKey er = ne_dedupKey ei \<and> er_errorClass er = ne_errorClass ei"
    and error_err: "d_errorStore deps = Some err_rec \<Longrightarrow> err_rec ei w = (Inl e, w') \<Longrightarrow> view w' = view w"
    and attempt_ok: "d_attempts deps = Some att \<Longrightarrow> att a w = (Inr ar, w') \<Longrightarrow>
      view w' = (view w)\<lparr>ov_attempts := ov_attempts (view w) @ [a]\<rparr>"
    and attempt_err: "d_attempts deps = Some att \<Longrightarrow> att a w = (Inl e, w') \<Longrightarrow> view w' = view w"
    and attempt_sure: "reliable \<Longrightarrow>
      \<exists>att. d_attempts deps = Some att \<and> (\<forall>a w. \<exists>ar w'. att a w = (Inr ar, w'))"

lemma wp_in_world [wp_simps]:
  "wp (in_world m) Q E s = wp m (\<lambda>a w. Q a (w, snd s)) (\<lambda>e w. E e (w, snd s)) (fst s)"
  by (cases s) (auto simp: wp_def in_world_def split: prod.splits sum.splits)

lemma wp_ret_fun: "wp (ret a) Q E = Q a"
  by (simp add: fun_eq_iff wp_ret)

lemma wp_assign [wp_simps]: "wp (assign f) Q E s = Q () (fst s, f (snd s))"
  by (cases s) (simp add: assign_def wp_simps)

lemma wp_finish [wp_simps]: "wp (finish out) Q E s = Q out (fst s, (snd s)\<lparr>lc_outcome := Some out\<rparr>)"
  by (simp add: finish_def wp_simps)

lemma wp_with_locals [wp_simps]:
  "wp (with_locals m) Q E w = wp m (\<lambda>a s. Q a (fst s)) (\<lambda>e s. E e (fst s)) (w, no_locals)"
  by (simp add: wp_def with_locals_def split: prod.splits sum.splits)

lemma wp_then_go [wp_simps]:
  "wp (then_go m f) Q E s = wp m (\<lambda>r. case r of Done out \<Rightarrow> Q out | Go a \<Rightarrow> wp (f a) Q E) E s"
  unfolding then_go_def wp_bnd by (rule arg_cong [where f = "\<lambda>q. wp m q E s"])
    (auto simp: fun_eq_iff wp_ret split: stage.splits)

lemma keeps_eval_from:
  assumes "\<And>t k. keeps v (ev_lookups ctx t k)"
  shows "keeps v (eval_from ctx src ms out)"
proof -
  have app: "keeps v (applyMapping ctx src m out)" for m out
    by (induction m arbitrary: out)
      (auto simp: applyDirect_def applyConstant_def applyLookup_def applyDerive_def put_def Let_def
        intro!: keeps_rules assms split: option.splits sum.splits)
  show ?thesis
    by (induction ms arbitrary: out) (auto intro!: keeps_rules app split: mapping_result.splits)
qed

lemma keeps_buildOrderPayload:
  assumes "\<And>t k. keeps v (lookups t k)"
  shows "keeps v (buildOrderPayload conn so cust lookups derives hdr)"
  unfolding buildOrderPayload_def evaluate_def Let_def
  by (auto intro!: keeps_rules keeps_eval_from simp: assms simp del: eval_from.simps
      split: mapping_result.splits jsval.splits list.splits option.splits)

lemma keeps_resolve_from:
  assumes "\<And>s. keeps v (no_resolveItem ns acct s)"
  shows "keeps v (resolve_from ns acct sub fb idx lines acc)"
  by (induction lines arbitrary: idx acc)
    (auto intro!: keeps_rules assms split: line_kind.splits option.splits)

lemma keeps_resolveItemReferences:
  assumes "\<And>s. keeps v (no_resolveItem ns acct s)"
  shows "keeps v (resolveItemReferences ns acct fb payload)"
  unfolding resolveItemReferences_def resolveSublist_def
  by (auto intro!: keeps_rules keeps_resolve_from assms split: mapping_result.splits)

section \<open>What a run leaves behind\<close>

definition order_record :: "connection \<Rightarrow> order_message \<Rightarrow> record_key" where
  "order_record conn msg = (nsAccountId conn, netsuiteOrderRecordType conn, om_orderGid msg)"

text \<open>Only this order's ledger row and its NetSuite record may change; error rows are added.\<close>

definition own_order :: "connection \<Rightarrow> order_message \<Rightarrow> order_view \<Rightarrow> order_view \<Rightarrow> bool" where
  "own_order conn msg v v' \<longleftrightarrow>
     (\<forall>q. q \<noteq> order_key conn msg \<longrightarrow> ov_ledger v' q = ov_ledger v q)
     \<and> (\<forall>k. k \<noteq> order_record conn msg \<longrightarrow> ov_records v' k = ov_records v k)
     \<and> (\<exists>es. ov_errors v' = ov_errors v @ es)"

definition claimed_inv :: "connection \<Rightarrow> order_message \<Rightarrow> order_view \<Rightarrow> order_view \<Rightarrow> bool" where
  "claimed_inv conn msg v v' \<longleftrightarrow> own_order conn msg v v' \<and> ov_ledger v' (order_key conn msg) \<noteq> None
     \<and> ov_attempts v' = ov_attempts v"

definition row_status :: "dedup_parts \<Rightarrow> order_view \<Rightarrow> xref_status option" where
  "row_status p v = map_option xr_status (ov_ledger v p)"

definition error_recorded :: "dedup_parts \<Rightarrow> error_class \<Rightarrow> order_view \<Rightarrow> bool" where
  "error_recorded p cls v \<longleftrightarrow>
     (\<exists>e \<in> set (ov_errors v). er_errorClass e = cls \<and> dedupKey p = Inr (er_dedupKey e))"

fun before_booking :: "park_stage \<Rightarrow> bool" where
  "before_booking StMapping = True"
| "before_booking StBalancing = True"
| "before_booking StItemResolution = True"
| "before_booking _ = False"

text \<open>
  What each outcome of a claimed delivery promises about the ledger, NetSuite and the error rows; \<open>v\<close>
  is the view before. A park that comes before the booking, and an ineligible order, write nothing
  to NetSuite.
\<close>

fun settled ::
  "connection \<Rightarrow> order_message \<Rightarrow> bool \<Rightarrow> order_view \<Rightarrow> handler_outcome \<Rightarrow> order_view \<Rightarrow> bool" where
  "settled conn msg wired v (Imported c g tid created cust) v' =
     (\<exists>r pl. ov_ledger v' (order_key conn msg) = Some r \<and> xr_status r = Synced \<and> xr_targetId r = Some tid
        \<and> ov_records v' (order_record conn msg) = Some (tid, pl))"
| "settled conn msg wired v (Parked c g st detail cls) v' =
     (row_status (order_key conn msg) v' = Some Errored
        \<and> (\<exists>k. cls = Some k \<and> (wired \<longrightarrow> error_recorded (order_key conn msg) k v'))
        \<and> (before_booking st \<longrightarrow> ov_records v' = ov_records v))"
| "settled conn msg wired v (IgnoredByEligibility c g r detail) v' =
     (row_status (order_key conn msg) v' = Some Ignored \<and> ov_records v' = ov_records v)"
| "settled conn msg wired v _ v' = False"

lemma settled_attempts [simp]: "settled conn msg wired u out (v\<lparr>ov_attempts := as\<rparr>) = settled conn msg wired u out v"
  by (cases out) (simp_all add: row_status_def error_recorded_def)

lemma settled_from [simp]: "settled conn msg wired (u\<lparr>ov_ledger := m\<rparr>) out v = settled conn msg wired u out v"
  by (cases out) simp_all

lemma own_order_refl [simp, intro]: "own_order conn msg v v"
  by (simp add: own_order_def)

lemma own_order_trans: "own_order conn msg u v \<Longrightarrow> own_order conn msg v w \<Longrightarrow> own_order conn msg u w"
  by (auto simp: own_order_def)

lemma own_order_ledger [simp]:
  "ov_ledger v = m \<Longrightarrow> own_order conn msg u (v\<lparr>ov_ledger := m(order_key conn msg := r)\<rparr>) = own_order conn msg u v"
  by (auto simp: own_order_def)

lemma own_order_ledger_left [simp]:
  "ov_ledger u = m \<Longrightarrow> own_order conn msg (u\<lparr>ov_ledger := m(order_key conn msg := r)\<rparr>) v = own_order conn msg u v"
  by (auto simp: own_order_def)

lemma own_order_records [simp]:
  "ov_records v = m \<Longrightarrow> own_order conn msg u (v\<lparr>ov_records := m(order_record conn msg := r)\<rparr>) = own_order conn msg u v"
  by (auto simp: own_order_def)

lemma own_order_errors [simp]:
  "ov_errors v = xs \<Longrightarrow> own_order conn msg u v \<Longrightarrow> own_order conn msg u (v\<lparr>ov_errors := xs @ es\<rparr>)"
  by (auto simp: own_order_def)

lemma own_order_attempts [simp]: "own_order conn msg u (v\<lparr>ov_attempts := as\<rparr>) = own_order conn msg u v"
  by (simp add: own_order_def)

text \<open>
  The state of the claimed part: \<open>running\<close> until an outcome is known, then \<open>finished\<close>. They are
  predicates of the world's view and the closure's variables.
\<close>

definition running :: "connection \<Rightarrow> order_message \<Rightarrow> order_view \<Rightarrow> order_view \<Rightarrow> locals \<Rightarrow> bool" where
  "running conn msg v v' l \<longleftrightarrow> claimed_inv conn msg v v' \<and> lc_throwErr l = None \<and> lc_outcome l = None"

definition finished ::
  "connection \<Rightarrow> order_message \<Rightarrow> bool \<Rightarrow> order_view \<Rightarrow> handler_outcome \<Rightarrow> order_view \<Rightarrow> locals \<Rightarrow> bool" where
  "finished conn msg wired v out v' l \<longleftrightarrow> claimed_inv conn msg v v' \<and> lc_throwErr l = None
     \<and> lc_outcome l = Some out \<and> settled conn msg wired v out v'"

definition after_stage ::
  "connection \<Rightarrow> order_message \<Rightarrow> bool \<Rightarrow> order_view \<Rightarrow> 'a stage \<Rightarrow> order_view \<Rightarrow> locals \<Rightarrow> bool" where
  "after_stage conn msg wired v r v' l = (case r of
     Go _ \<Rightarrow> running conn msg v v' l \<and> ov_records v' = ov_records v | Done out \<Rightarrow> finished conn msg wired v out v' l)"

text \<open>A delivery leaves one attempt row with its verdict, or none where the store may be missing.\<close>

definition audited ::
  "bool \<Rightarrow> connection \<Rightarrow> order_message \<Rightarrow> attempt_ctx option \<Rightarrow> attempt_verdict
   \<Rightarrow> attempt_input list \<Rightarrow> attempt_input list \<Rightarrow> bool" where
  "audited reliable conn msg ctx vd as as' \<longleftrightarrow>
     (\<exists>c l t. ctx = Some c \<and> as' = as @ [attempt_row c msg conn l t]
        \<and> resolveAttemptOutcome (lc_outcome l) (lc_throwErr l) = vd)
     \<or> (\<not> (reliable \<and> ctx \<noteq> None) \<and> as' = as)"

definition existing_answer :: "connection \<Rightarrow> order_message \<Rightarrow> xref_row \<Rightarrow> handler_outcome" where
  "existing_answer conn msg r = (case xr_status r of
     Synced \<Rightarrow> OutAlreadySynced (connectionId conn) (om_orderGid msg)
   | Ignored \<Rightarrow> OutIgnored (connectionId conn) (om_orderGid msg)
   | _ \<Rightarrow> OutAlreadyClaimed (connectionId conn) (om_orderGid msg))"

lemma no_locals_fields [simp]: "lc_throwErr no_locals = None" "lc_outcome no_locals = None"
  by (simp_all add: no_locals_def)

definition thrown_verdict :: "js_error \<Rightarrow> attempt_verdict" where
  "thrown_verdict e = resolveAttemptOutcome None (Some e)"

lemma resolve_outcome [simp]:
  "resolveAttemptOutcome (Some out) None = outcome_verdict out"
  "resolveAttemptOutcome x (Some e) = thrown_verdict e"
  by (simp_all add: resolveAttemptOutcome_def thrown_verdict_def)

text \<open>
  The promise of one delivery that reaches the claim: a key with a row is answered from the row and
  nothing is written but the attempt; a new key ends settled.
\<close>

definition delivered ::
  "bool \<Rightarrow> bool \<Rightarrow> connection \<Rightarrow> order_message \<Rightarrow> attempt_ctx option \<Rightarrow> handler_outcome
   \<Rightarrow> order_view \<Rightarrow> order_view \<Rightarrow> bool" where
  "delivered reliable wired conn msg ctx out v v' \<longleftrightarrow>
     (case ov_ledger v (order_key conn msg) of
        Some r \<Rightarrow> out = existing_answer conn msg r \<and> v' = v\<lparr>ov_attempts := ov_attempts v'\<rparr>
      | None \<Rightarrow> own_order conn msg v v' \<and> settled conn msg wired v out v')
     \<and> audited reliable conn msg ctx (outcome_verdict out) (ov_attempts v) (ov_attempts v')"

text \<open>A delivery that throws: nothing happened, or it was the first of its key, whose row stays.\<close>

definition delivery_threw :: "connection \<Rightarrow> order_message \<Rightarrow> order_view \<Rightarrow> order_view \<Rightarrow> bool" where
  "delivery_threw conn msg v v' \<longleftrightarrow> v' = v
     \<or> ov_ledger v (order_key conn msg) = None \<and> ov_ledger v' (order_key conn msg) \<noteq> None \<and> own_order conn msg v v'"

definition errors_wired :: "'w order_deps \<Rightarrow> bool" where
  "errors_wired deps \<longleftrightarrow> d_errorStore deps \<noteq> None"

section \<open>The claimed part\<close>

context order_env
begin

text \<open>Rules for the calls of the handler, continuation first.\<close>

lemma wp_view:
  assumes "keeps view m" and "\<And>a w'. view w' = view w \<Longrightarrow> Q a w'" and "\<And>e w'. view w' = view w \<Longrightarrow> E e w'"
  shows "wp m Q E w"
  using assms by (rule wp_keeps)

lemma wp_now:
  assumes "\<And>t w'. view w' = view w \<Longrightarrow> Q t w'"
  shows "wp (d_now deps) Q E w"
  using assms clock_ok by (intro wpI) blast+

lemma wp_log:
  assumes "\<And>w'. view w' = view w \<Longrightarrow> Q () w'" and "\<And>e w'. view w' = view w \<Longrightarrow> E e w'"
  shows "wp (writeSyncLog deps conn msg sh) Q E w"
  using assms unfolding writeSyncLog_def
  by (auto simp: wp_simps split: option.splits intro!: wp_view [OF log_keeps])

lemma wp_archive:
  assumes "\<And>u w'. view w' = view (fst s) \<Longrightarrow> Q () (w', set_uri u (snd s))" and "Q () s"
  shows "wp (archive deps ctx payload mk set_uri) Q E s"
  using assms unfolding archive_def
  by (auto simp: wp_simps split: option.splits intro!: wp_view [OF blob_keeps])

lemma wp_error_row:
  assumes "d_errorStore deps = Some err_rec"
    and "\<And>er w'. view w' = (view w)\<lparr>ov_errors := ov_errors (view w) @ [er]\<rparr>
      \<Longrightarrow> er_dedupKey er = ne_dedupKey ei \<Longrightarrow> er_errorClass er = ne_errorClass ei \<Longrightarrow> Q er w'"
    and "\<And>e w'. view w' = view w \<Longrightarrow> E e w'"
  shows "wp (err_rec ei) Q E w"
  using assms(2,3) by (intro wpI) (auto dest: error_ok [OF assms(1)] error_err [OF assms(1)])

lemma wp_error:
  assumes "\<And>k w' er. errors_wired deps \<Longrightarrow> dedupKey p = Inr k \<Longrightarrow> er_dedupKey er = k \<Longrightarrow> er_errorClass er = cls
      \<Longrightarrow> view w' = (view w)\<lparr>ov_errors := ov_errors (view w) @ [er]\<rparr> \<Longrightarrow> Q () w'"
    and "\<not> errors_wired deps \<Longrightarrow> Q () w" and "\<And>e w'. view w' = view w \<Longrightarrow> E e w'"
  shows "wp (record_error deps p msg conn flow cls m env) Q E w"
proof (cases "d_errorStore deps")
  case None
  with assms(2) show ?thesis by (simp add: record_error_def wp_simps errors_wired_def)
next
  case (Some err_rec)
  show ?thesis
    using assms(1,3) Some
    by (auto simp: record_error_def wp_simps errors_wired_def split: sum.splits intro!: wp_error_row [OF Some])
qed

lemma wp_failure:
  assumes "\<And>r w'. view w' = (view w)\<lparr>ov_ledger := (ov_ledger (view w))(p \<mapsto> r)\<rparr> \<Longrightarrow> xr_status r = Errored \<Longrightarrow> Q r w'"
    and "\<And>e w'. view w' = view w \<Longrightarrow> E e w'"
  shows "wp (xo_recordFailure (d_xref deps) p h) Q E w"
  using assms failure_ok failure_err by (intro wpI) blast+

lemma wp_ignore:
  assumes "\<And>r w'. view w' = (view w)\<lparr>ov_ledger := (ov_ledger (view w))(p \<mapsto> r)\<rparr> \<Longrightarrow> xr_status r = Ignored \<Longrightarrow> Q r w'"
    and "\<And>e w'. view w' = view w \<Longrightarrow> E e w'"
  shows "wp (xo_markIgnored (d_xref deps) p) Q E w"
  using assms ignore_ok ignore_err by (intro wpI) blast+

lemma wp_success:
  assumes "\<And>r w'. view w' = (view w)\<lparr>ov_ledger := (ov_ledger (view w))(p \<mapsto> r)\<rparr> \<Longrightarrow> xr_status r = Synced
      \<Longrightarrow> xr_targetId r = Some tid \<Longrightarrow> Q r w'"
    and "\<And>e w'. view w' = view w \<Longrightarrow> E e w'"
  shows "wp (xo_recordSuccess (d_xref deps) t p tid ext) Q E w"
  using assms success_ok success_err by (intro wpI) blast+

lemma wp_upsert:
  assumes "rt \<noteq> ''customer''"
    and "\<And>u w'. view w' = (view w)\<lparr>ov_records := (ov_records (view w))((acct, rt, ext) \<mapsto> (ur_internalId u, payload))\<rparr>
      \<Longrightarrow> Q u w'"
    and "\<And>e w'. view w' = view w \<Longrightarrow> E e w'"
  shows "wp (no_upsert (d_ns deps) acct rt ext payload) Q E w"
  using assms(2,3) by (intro wpI) (auto dest: upsert_ok [OF assms(1)] upsert_err)

lemma keeps_resolveCustomer: "keeps view (resolveCustomer (d_ns deps) g conn customer oa)"
  unfolding resolveCustomer_def existing_addressbook_def
  by (auto intro!: keeps_rules customer_keeps find_keeps addressbook_keeps simp: Let_def split: option.splits)

lemma wp_park:
  assumes "claimed_inv conn msg v (view w)"
    and "before_booking (pi_stage pk) \<Longrightarrow> ov_records (view w) = ov_records v"
    and "\<And>w'. claimed_inv conn msg v (view w') \<Longrightarrow> settled conn msg (errors_wired deps) v
        (Parked (connectionId conn) (om_orderGid msg) (pi_stage pk) (pi_detail pk) (Some (pi_errorClass pk))) (view w')
      \<Longrightarrow> Q (Parked (connectionId conn) (om_orderGid msg) (pi_stage pk) (pi_detail pk) (Some (pi_errorClass pk))) w'"
    and "\<And>e w'. claimed_inv conn msg v (view w') \<Longrightarrow> E e w'"
  shows "wp (parkOutcome deps (order_key conn msg) conn msg raw pk) Q E w"
  using assms unfolding parkOutcome_def
  by (auto simp: wp_simps claimed_inv_def row_status_def error_recorded_def track_keeps
      intro!: wp_failure wp_error wp_log)

text \<open>The stages of the import, each from a running state.\<close>

lemma fetch_stage:
  assumes "running conn msg v (view (fst s)) (snd s)"
    and "ov_records (view (fst s)) = ov_records v"
  shows "wp (fetch_eligible deps conn msg ctx)
    (\<lambda>r t. after_stage conn msg (errors_wired deps) v r (view (fst t)) (snd t))
    (\<lambda>e t. running conn msg v (view (fst t)) (snd t)) s"
  using assms unfolding fetch_eligible_def
  by (auto simp: wp_simps running_def finished_def after_stage_def claimed_inv_def row_status_def track_keeps
      intro!: wp_view [OF order_keeps] wp_archive wp_ignore wp_log split: eligibility.splits)

lemma park_stage:
  assumes "running conn msg v (view (fst s)) (snd s)"
    and "ov_records (view (fst s)) = ov_records v"
  shows "wp (park_here deps conn msg raw ctx so st detail cls)
    (\<lambda>r t. after_stage conn msg (errors_wired deps) v r (view (fst t)) (snd t))
    (\<lambda>e t. running conn msg v (view (fst t)) (snd t)) s"
  using assms unfolding park_here_def running_def
  by (auto simp: wp_simps finished_def after_stage_def simp del: settled.simps intro!: wp_park)

lemma prepare_stage:
  assumes "running conn msg v (view (fst s)) (snd s)"
    and "ov_records (view (fst s)) = ov_records v"
  shows "wp (prepare_payload deps conn msg raw ctx so)
    (\<lambda>r t. after_stage conn msg (errors_wired deps) v r (view (fst t)) (snd t))
    (\<lambda>e t. running conn msg v (view (fst t)) (snd t)) s"
  using assms unfolding prepare_payload_def
  by (auto simp: wp_simps after_stage_def split: mapping_result.splits sum.splits prod.splits
      intro!: wp_view [OF keeps_resolveCustomer] wp_view [OF keeps_buildOrderPayload [OF lookups_keep]]
        wp_view [OF keeps_resolveItemReferences [OF resolve_keeps]] park_stage [unfolded after_stage_def])

lemma not_customer: "netsuiteOrderRecordType conn \<noteq> ''customer''"
  by (simp add: netsuiteOrderRecordType_def)

lemma wp_tag:
  assumes "\<And>w'. ov_ledger (view w') = ov_ledger (view w) \<Longrightarrow> ov_records (view w') = ov_records (view w)
      \<Longrightarrow> ov_attempts (view w') = ov_attempts (view w) \<Longrightarrow> \<forall>u. own_order conn msg u (view w) \<longrightarrow> own_order conn msg u (view w') \<Longrightarrow> Q () w'"
    and "\<And>e w'. view w' = view w \<Longrightarrow> E e w'"
  shows "wp (tag_import deps conn msg tid) Q E w"
  using assms unfolding tag_import_def
  by (auto simp: wp_simps Let_def intro!: wp_view [OF tag_keeps] wp_error)

definition response_part ::
  "connection \<Rightarrow> order_message \<Rightarrow> attempt_ctx option \<Rightarrow> upsert_result \<Rightarrow> ('w \<times> locals, unit) io" where
  "response_part conn msg ctx upserted = (case ur_rawResponse upserted of
     None \<Rightarrow> ret ()
   | Some rr \<Rightarrow> bnd (assign (\<lambda>l. l\<lparr>lc_nsResponseStatus := Some (rr_status rr)\<rparr>)) (\<lambda>_.
       archive deps ctx (raw_response_js rr)
         (\<lambda>c. archive_ctx msg conn c (Some (nsAccountId conn)) (Some (netsuiteOrderRecordType conn)) NsResponse)
         (\<lambda>u l. l\<lparr>lc_nsResponseUri := u\<rparr>)))"

lemma wp_response:
  assumes "\<And>w' l. view w' = view (fst s) \<Longrightarrow> lc_outcome l = lc_outcome (snd s)
      \<Longrightarrow> lc_throwErr l = lc_throwErr (snd s) \<Longrightarrow> Q () (w', l)"
  shows "wp (response_part conn msg ctx upserted) Q E s"
  using assms [of "fst s" "snd s"] assms unfolding response_part_def
  by (auto simp: wp_simps split: option.splits intro!: wp_archive)

lemma book_stage:
  assumes "running conn msg v (view (fst s)) (snd s)"
  shows "wp (book_order deps conn msg ctx so customer payload)
    (\<lambda>out t. finished conn msg (errors_wired deps) v out (view (fst t)) (snd t))
    (\<lambda>e t. running conn msg v (view (fst t)) (snd t)) s"
  using assms unfolding book_order_def Let_def response_part_def [symmetric]
  by (auto simp: wp_simps running_def finished_def claimed_inv_def track_keeps order_record_def [symmetric]
      simp del: record_type_of.simps
      intro!: wp_archive wp_response wp_upsert [OF not_customer] wp_now wp_success wp_log wp_tag)

lemma body_stages:
  assumes "running conn msg v (view (fst s)) (snd s)"
    and "ov_records (view (fst s)) = ov_records v"
  shows "wp (import_body deps conn msg raw ctx)
    (\<lambda>out t. finished conn msg (errors_wired deps) v out (view (fst t)) (snd t))
    (\<lambda>e t. running conn msg v (view (fst t)) (snd t)) s"
  unfolding import_body_def wp_then_go
  by (rule wp_mono [OF fetch_stage [OF assms]])
    (auto simp: after_stage_def wp_then_go split: stage.splits
      intro!: wp_mono [OF prepare_stage] book_stage)

lemma catch_stage:
  assumes "running conn msg v (view (fst s)) (snd s)"
  shows "wp (import_catch deps conn msg raw ctx err)
    (\<lambda>out t. finished conn msg (errors_wired deps) v out (view (fst t)) (snd t))
    (\<lambda>e t. claimed_inv conn msg v (view (fst t)) \<and> lc_outcome (snd t) = None \<and> lc_throwErr (snd t) = Some e) s"
proof -
  have route: "wp (classifyAndRoute deps (order_key conn msg) conn msg raw err so ctx) Q E w"
    if "claimed_inv conn msg v (view w)"
      and "\<And>out w'. claimed_inv conn msg v (view w') \<Longrightarrow> settled conn msg (errors_wired deps) v out (view w') \<Longrightarrow> Q out w'"
      and "\<And>e w'. claimed_inv conn msg v (view w') \<Longrightarrow> E e w'" for so Q E w
    using that unfolding classifyAndRoute_def Let_def
    by (auto simp: wp_simps track_keeps claimed_inv_def simp del: settled.simps intro!: wp_error wp_park)
  show ?thesis
    using assms unfolding import_catch_def running_def finished_def
    by (auto simp: wp_simps split: option.splits simp del: settled.simps intro!: route wp_archive)
qed

lemma wp_attempt:
  assumes post: "\<And>w' as. view w' = (view w)\<lparr>ov_attempts := as\<rparr> \<Longrightarrow> audited reliable conn msg ctx
        (resolveAttemptOutcome (lc_outcome l) (lc_throwErr l)) (ov_attempts (view w)) as \<Longrightarrow> Q () w'"
  shows "wp (recordAttempt deps ctx msg conn l) Q E w"
proof (cases "\<exists>att c. d_attempts deps = Some att \<and> ctx = Some c")
  case False
  then have "\<not> (reliable \<and> ctx \<noteq> None)" using attempt_sure by fastforce
  then have "Q () w" by (intro post [of w "ov_attempts (view w)"]) (simp_all add: audited_def)
  with False show ?thesis by (auto simp: recordAttempt_def wp_simps split: option.splits)
next
  case True
  then obtain att c where wired: "d_attempts deps = Some att" "ctx = Some c" by blast
  have "wp (att (attempt_row c msg conn l t)) (\<lambda>_. Q ()) (\<lambda>_. Q ()) w'" if same: "view w' = view w" for t w'
  proof (intro wpI)
    fix ar w'' assume "att (attempt_row c msg conn l t) w' = (Inr ar, w'')"
    from attempt_ok [OF wired(1) this] same show "Q () w''"
      by (intro post) (auto simp: audited_def wired)
  next
    fix e w'' assume refused: "att (attempt_row c msg conn l t) w' = (Inl e, w'')"
    have "\<not> reliable"
    proof
      assume reliable
      from attempt_sure [OF this] wired(1) have "\<exists>ar w3. att (attempt_row c msg conn l t) w2 = (Inr ar, w3)"
        for w2 by auto
      with refused show False by (metis prod.inject sum.distinct(1))
    qed
    with attempt_err [OF wired(1) refused] same show "Q () w''"
      by (intro post [of w'' "ov_attempts (view w)"]) (auto simp: audited_def)
  qed
  with wired show ?thesis
    by (auto simp: recordAttempt_def wp_simps wp_ret_fun intro!: wp_now)
qed

text \<open>
  The claimed part: it ends with an outcome that is settled, or throws; both ways it wrote only to
  its own order and left its attempt row.
\<close>

lemma claimed_run:
  assumes "ov_ledger (view w) (order_key conn msg) \<noteq> None"
  shows "wp (import_claimed deps conn msg raw ctx)
    (\<lambda>out w'. \<exists>v' as. claimed_inv conn msg (view w) v' \<and> settled conn msg (errors_wired deps) (view w) out v'
       \<and> view w' = v'\<lparr>ov_attempts := as\<rparr>
       \<and> audited reliable conn msg ctx (outcome_verdict out) (ov_attempts (view w)) as)
    (\<lambda>e w'. \<exists>v' as. claimed_inv conn msg (view w) v' \<and> view w' = v'\<lparr>ov_attempts := as\<rparr>
       \<and> audited reliable conn msg ctx (thrown_verdict e) (ov_attempts (view w)) as) w"
proof -
  have start: "running conn msg (view w) (view (fst (w, no_locals))) (snd (w, no_locals))"
    using assms by (simp add: running_def claimed_inv_def no_locals_def)
  have body: "wp (try_catch (import_body deps conn msg raw ctx) (import_catch deps conn msg raw ctx))
    (\<lambda>out t. finished conn msg (errors_wired deps) (view w) out (view (fst t)) (snd t))
    (\<lambda>e t. claimed_inv conn msg (view w) (view (fst t)) \<and> lc_outcome (snd t) = None \<and> lc_throwErr (snd t) = Some e)
    (w, no_locals)"
    unfolding wp_try_catch by (rule wp_mono [OF body_stages [OF start]]) (auto intro: catch_stage)
  show ?thesis
    unfolding import_claimed_def wp_with_locals wp_try_finally
  proof (rule wp_mono [OF body], goal_cases)
    case (1 out t)
    then show ?case
      unfolding finished_def
      by (auto simp: wp_simps simp del: settled.simps intro!: wp_attempt) (metis claimed_inv_def)+
  next
    case (2 e t)
    then show ?case
      by (auto simp: wp_simps intro!: wp_attempt) (metis claimed_inv_def)+
  qed
qed

section \<open>A delivery\<close>

text \<open>A claim of an order that already has a row: the answer is the row's status, and nothing else happens.\<close>

lemma existing_delivery:
  assumes "ov_ledger (view w) (order_key conn msg) = Some r"
  shows "wp (claim_and_import deps conn msg raw ctx)
    (\<lambda>out w'. out = existing_answer conn msg r \<and> (\<exists>as. view w' = (view w)\<lparr>ov_attempts := as\<rparr>
       \<and> audited reliable conn msg ctx (outcome_verdict out) (ov_attempts (view w)) as))
    (\<lambda>e w'. view w' = view w) w"
proof -
  have claim: "wp (xo_claim (d_xref deps) i)
      (\<lambda>c w'. c = existing_outcome r \<and> view w' = view w) (\<lambda>e w'. view w' = view w) w"
    if "ci_parts i = order_key conn msg" for i
    using assms that by (intro wpI) (auto dest!: claim_ok claim_err simp: spec_claim_def)
  show ?thesis
    unfolding claim_and_import_def wp_bnd
    by (rule wp_mono [OF claim])
      (auto simp: existing_answer_def answer_def wp_simps split: xref_status.splits intro!: wp_attempt)
qed

lemma new_delivery:
  assumes "ov_ledger (view w) (order_key conn msg) = None"
  shows "wp (claim_and_import deps conn msg raw ctx)
    (\<lambda>out w'. own_order conn msg (view w) (view w') \<and> settled conn msg (errors_wired deps) (view w) out (view w')
       \<and> audited reliable conn msg ctx (outcome_verdict out) (ov_attempts (view w)) (ov_attempts (view w')))
    (\<lambda>e w'. view w' = view w \<or> own_order conn msg (view w) (view w')
       \<and> ov_ledger (view w') (order_key conn msg) \<noteq> None
       \<and> audited reliable conn msg ctx (thrown_verdict e) (ov_attempts (view w)) (ov_attempts (view w'))) w"
proof -
  let ?i = "\<lparr>ci_parts = order_key conn msg, ci_targetSystem = Netsuite, ci_targetExternal = om_orderGid msg,
    ci_sourceHash = None\<rparr>"
  have claim: "wp (xo_claim (d_xref deps) ?i)
      (\<lambda>c w'. c = Claimed (claim_row ?i) \<and> view w' = (view w)\<lparr>ov_ledger :=
         (ov_ledger (view w))(order_key conn msg \<mapsto> claim_row ?i)\<rparr>) (\<lambda>e w'. view w' = view w) w"
    using assms by (intro wpI) (auto dest!: claim_ok claim_err simp: spec_claim_def)
  show ?thesis
    unfolding claim_and_import_def wp_bnd
  proof (rule wp_mono [OF claim], goal_cases)
    case (1 c w1)
    then have "ov_ledger (view w1) (order_key conn msg) \<noteq> None" "own_order conn msg (view w) (view w1)"
      "ov_attempts (view w1) = ov_attempts (view w)" by auto
    then show ?case
      using 1 by (auto simp: claimed_inv_def intro!: wp_mono [OF claimed_run]
          dest: own_order_trans)
  qed simp
qed

lemma claim_delivery:
  "wp (claim_and_import deps conn msg raw ctx)
    (\<lambda>out w'. delivered reliable (errors_wired deps) conn msg ctx out (view w) (view w'))
    (\<lambda>e w'. delivery_threw conn msg (view w) (view w')) w"
proof (cases "ov_ledger (view w) (order_key conn msg)")
  case None
  show ?thesis
    by (rule wp_mono [OF new_delivery [OF None]]) (auto simp: delivered_def delivery_threw_def None)
next
  case (Some r)
  show ?thesis
    by (rule wp_mono [OF existing_delivery [OF Some]]) (auto simp: delivered_def delivery_threw_def Some)
qed

lemma gated_delivery:
  "wp (process_message deps conn msg raw ctx)
    (\<lambda>out w'. delivered reliable (errors_wired deps) conn msg ctx out (view w) (view w'))
    (\<lambda>e w'. delivery_threw conn msg (view w) (view w')) w"
proof -
  have lookup: "wp (xo_lookup (d_xref deps) (order_key conn msg))
      (\<lambda>found w'. found = ov_ledger (view w) (order_key conn msg) \<and> view w' = view w) (\<lambda>e w'. view w' = view w) w"
    by (intro wpI) (auto dest: lookup_ok lookup_err)
  show ?thesis
    unfolding process_message_def wp_if wp_bnd
  proof (intro if_bool_eq_conj [THEN iffD2] conjI impI claim_delivery, rule wp_mono [OF lookup], goal_cases)
    case (1 found w')
    show ?case
    proof (cases found)
      case None
      with 1 show ?thesis
        by (auto simp: wp_simps wp_ret_fun answer_def delivered_def delivery_threw_def row_status_def track_keeps
            intro!: wp_ignore wp_log wp_attempt)
    next
      case (Some r)
      have "view w' = view w" using 1 by simp
      then show ?thesis using claim_delivery [of conn msg raw ctx w'] by (simp add: Some)
    qed
  qed (simp add: delivery_threw_def)
qed

text \<open>The whole handler: a rejected message changes nothing, any other is a delivery for a connection.\<close>

lemma handler_run:
  "wp (handleOrderMessage deps message ctx)
    (\<lambda>out w'. case parseOrderWebhookMessage message of
        Inl e \<Rightarrow> out = Rejected BadMessageShape e \<and> view w' = view w
      | Inr msg \<Rightarrow> (\<exists>why detail. out = Rejected why detail) \<and> view w' = view w
         \<or> (\<exists>conn. enabled conn \<and> om_environment msg = d_environment deps
              \<and> delivered reliable (errors_wired deps) conn msg ctx out (view w) (view w')))
    (\<lambda>e w'. view w' = view w \<or> (\<exists>msg conn. parseOrderWebhookMessage message = Inr msg
        \<and> delivery_threw conn msg (view w) (view w'))) w"
proof (cases "parseOrderWebhookMessage message")
  case (Inl e)
  then show ?thesis by (simp add: handleOrderMessage_def wp_simps)
next
  case (Inr msg)
  show ?thesis
    unfolding handleOrderMessage_def Inr sum.case
    by (auto simp: wp_simps split: option.splits intro!: wp_view [OF connection_keeps] wp_mono [OF gated_delivery])
qed

end

end
