(* ===== verification/PgStores.thy ===== *)
theory PgStores
  imports CoreStores "HOL-Library.List_Lexorder" "HOL-Library.Char_ord"
begin

text \<open>
  The Postgres versions of the error store, the attempt store, the watermark store and the
  reconciliation store, from \<open>apps/functions/src/adapters\<close>. A table is its rows in insertion order
  together with its sequence; \<open>INSERT .. RETURNING\<close> appends, \<open>ON CONFLICT DO UPDATE\<close> replaces the row
  of the primary key. The blob store names its blobs as the in-memory archive does.
\<close>

section \<open>Error records\<close>

record pg_errors =
  pe_rows :: "error_record list"
  pe_seq :: nat

definition empty_pg_errors :: pg_errors where
  "empty_pg_errors = \<lparr>pe_rows = [], pe_seq = 0\<rparr>"

text \<open>The envelope column is JSON: an absent envelope is stored as \<open>null\<close>.\<close>

definition json_column :: "jsval \<Rightarrow> jsval" where
  "json_column v = (if nullish v then JNull else v)"

definition pg_err_record :: "int \<Rightarrow> new_error \<Rightarrow> (pg_errors, error_record) io" where
  "pg_err_record now i = (\<lambda>t. let n = Suc (pe_seq t);
       row = error_row (show_nat n) now (i\<lparr>ne_envelope := json_column (ne_envelope i)\<rparr>)
     in (Inr row, \<lparr>pe_rows = pe_rows t @ [row], pe_seq = n\<rparr>))"

text \<open>\<open>WHERE id = Number(id)\<close>: a text that is no integer is refused by the column's type.\<close>

fun whole_number :: "jsnum \<Rightarrow> bool" where
  "whole_number (Fin x) = (of_int \<lfloor>x\<rfloor> = x)"
| "whole_number _ = False"

definition by_id :: "string \<Rightarrow> (error_record \<Rightarrow> bool) option" where
  "by_id rid = (let n = number_of_string rid in
     if whole_number n then Some (\<lambda>r. number_of_string (er_id r) = n) else None)"

definition bad_bigint :: "string \<Rightarrow> js_error" where
  "bad_bigint rid = plain_error (''invalid input syntax for type bigint: '' @ [CHR 0x22]
     @ show_num (number_of_string rid) @ [CHR 0x22])"

definition pg_err_get :: "string \<Rightarrow> (pg_errors, error_record option) io" where
  "pg_err_get rid = (case by_id rid of
     None \<Rightarrow> throw (bad_bigint rid)
   | Some P \<Rightarrow> read_st (\<lambda>t. find P (pe_rows t)))"

definition pg_err_list :: "error_filter \<Rightarrow> pg_errors \<Rightarrow> error_record list" where
  "pg_err_list f t = take 200 (sort_key (\<lambda>r. - er_createdAt r) (filter (\<lambda>r.
     passes (ef_environment f) (er_environment r) \<and> passes (ef_connectionId f) (er_connectionId r)
     \<and> passes_opt (ef_status f) (er_status r) \<and> passes_opt (ef_errorClass f) (er_errorClass r))
     (pe_rows t)))"

definition pg_err_modify ::
  "string \<Rightarrow> (error_record \<Rightarrow> error_record) \<Rightarrow> string \<Rightarrow> (pg_errors, error_record) io" where
  "pg_err_modify verb f rid = (case by_id rid of
     None \<Rightarrow> throw (bad_bigint rid)
   | Some P \<Rightarrow> (\<lambda>t. case find P (pe_rows t) of
        None \<Rightarrow> (Inl (plain_error (''PostgresErrorStore.'' @ verb @ '': no row with id '' @ rid)), t)
      | Some r \<Rightarrow> (Inr (f r), t\<lparr>pe_rows := map (\<lambda>x. if P x then f x else x) (pe_rows t)\<rparr>)))"

definition pg_err_updateStatus ::
  "int \<Rightarrow> string \<Rightarrow> error_status \<Rightarrow> string option \<Rightarrow> (pg_errors, error_record) io" where
  "pg_err_updateStatus now rid status message = pg_err_modify ''updateStatus'' (\<lambda>r. r\<lparr>er_status := status,
     er_message := (case message of None \<Rightarrow> er_message r | Some m \<Rightarrow> m), er_updatedAt := now\<rparr>) rid"

definition pg_err_incrementRetry :: "int \<Rightarrow> string \<Rightarrow> (pg_errors, error_record) io" where
  "pg_err_incrementRetry now rid = pg_err_modify ''incrementRetry''
     (\<lambda>r. r\<lparr>er_retryCount := er_retryCount r + 1, er_updatedAt := now\<rparr>) rid"

section \<open>Order attempts\<close>

definition pg_att_record :: "int \<Rightarrow> attempt_input \<Rightarrow> attempt list \<Rightarrow> attempt \<times> attempt list" where
  "pg_att_record now i rows = (let row = \<lparr>att_id = show_nat (Suc (length rows)), att_data = i,
     att_createdAt = now\<rparr> in (row, rows @ [row]))"

section \<open>Watermarks\<close>

definition wm_ref :: "watermark_row \<Rightarrow> order_ref" where
  "wm_ref r = (wm_environment r, wm_connectionId r, wm_flow r)"

definition pg_watermark_get :: "order_ref \<Rightarrow> watermark_row list \<Rightarrow> watermark_row option" where
  "pg_watermark_get k t = find (\<lambda>r. wm_ref r = k) t"

definition pg_watermark_set ::
  "int \<Rightarrow> order_ref \<Rightarrow> string \<Rightarrow> watermark_row list \<Rightarrow> watermark_row \<times> watermark_row list" where
  "pg_watermark_set now k cursor t = (case k of (env, cid, flow) \<Rightarrow>
     let row = \<lparr>wm_environment = env, wm_connectionId = cid, wm_flow = flow,
       wm_lastCursor = Some cursor, wm_updatedAt = now\<rparr>
     in (row, if pg_watermark_get k t = None then t @ [row]
              else map (\<lambda>r. if wm_ref r = k then row else r) t))"

section \<open>Reconciliation snapshots\<close>

record recon_filter =
  rf_environment :: environment
  rf_connectionId :: "string option"
  rf_fromBusinessDate :: "string option"
  rf_toBusinessDate :: "string option"
  rf_limit :: "nat option"

text \<open>Business dates are \<open>YYYY-MM-DD\<close> and are compared as text; the newest comes first.\<close>

definition recon_matches :: "recon_filter \<Rightarrow> snapshot \<Rightarrow> bool" where
  "recon_matches f r \<longleftrightarrow> sn_environment (sns_data r) = rf_environment f
     \<and> passes (rf_connectionId f) (sn_connectionId (sns_data r))
     \<and> (case rf_fromBusinessDate f of None \<Rightarrow> True | Some d \<Rightarrow> d = [] \<or> \<not> sn_businessDate (sns_data r) < d)
     \<and> (case rf_toBusinessDate f of None \<Rightarrow> True | Some d \<Rightarrow> d = [] \<or> \<not> d < sn_businessDate (sns_data r))"

definition newest_first :: "snapshot list \<Rightarrow> snapshot list" where
  "newest_first rows = rev (sort_key (\<lambda>r. sn_businessDate (sns_data r)) (rev rows))"

definition recon_list :: "recon_filter \<Rightarrow> (string \<times> snapshot) list \<Rightarrow> snapshot list" where
  "recon_list f rows = limited (rf_limit f) (newest_first (filter (recon_matches f) (map snd rows)))"

definition pg_recon_find :: "order_ref \<Rightarrow> snapshot list \<Rightarrow> snapshot option" where
  "pg_recon_find k t = find (\<lambda>r. sn_ref (sns_data r) = k) t"

definition pg_recon_upsert :: "int \<Rightarrow> snapshot_input \<Rightarrow> snapshot list \<Rightarrow> snapshot \<times> snapshot list" where
  "pg_recon_upsert now i t = (case pg_recon_find (sn_ref i) t of
     None \<Rightarrow> (let row = \<lparr>sns_data = i, sns_createdAt = now\<rparr> in (row, t @ [row]))
   | Some old \<Rightarrow> (let row = old\<lparr>sns_data := i\<rparr>
       in (row, map (\<lambda>r. if sn_ref (sns_data r) = sn_ref i then row else r) t)))"

definition pg_recon_list :: "recon_filter \<Rightarrow> snapshot list \<Rightarrow> snapshot list" where
  "pg_recon_list f t = take (case rf_limit f of None \<Rightarrow> 30 | Some n \<Rightarrow> n)
     (newest_first (filter (recon_matches f) t))"

section \<open>The blob archive\<close>

definition blob_name :: "payload_ctx \<Rightarrow> string" where
  "blob_name ctx = drop (length ''mem://outbound/'') (pathFor ctx)"

definition encodeBlobPath :: "string \<Rightarrow> string" where
  "encodeBlobPath path = join ''/'' (map encode_uri_component (split_on (CHR ''/'') path))"

text \<open>\<open>upload\<close> is the storage account's answer to writing a blob of a name.\<close>

definition blob_put ::
  "string \<Rightarrow> (string \<Rightarrow> jsobj \<Rightarrow> ('w, unit) io) \<Rightarrow> jsobj \<Rightarrow> payload_ctx \<Rightarrow> ('w, string) io" where
  "blob_put container_url upload payload ctx =
     bnd (upload (blob_name ctx) payload) (\<lambda>_. ret (container_url @ ''/'' @ encodeBlobPath (blob_name ctx)))"

end
