(* ===== verification/Bootstrap.thy ===== *)
theory Bootstrap
  imports OrderEnv PgStores
begin

text \<open>
  The wiring of \<open>apps/functions/src/bootstrap.ts\<close>: the Postgres stores over one database, the NetSuite
  gateway that is wired when no connection names a real account, and Shopify as an arbitrary answer.
  The state \<open>sys\<close> holds the tables, NetSuite's records and the queue. Every call that leaves the
  process takes one step; \<open>cf_fault\<close> says which steps fail before they have an effect, \<open>cf_clock\<close> what
  the clock shows, so a fact about all configurations is a fact about all outages.
\<close>

section \<open>The choice of the NetSuite gateway\<close>

text \<open>\<open>/_/g\<close> becomes \<open>-\<close>, as secret names have no underscores.\<close>

definition sanitized :: "string \<Rightarrow> string" where
  "sanitized a = map (\<lambda>c. if c = CHR ''_'' then CHR ''-'' else c) (to_lower a)"

definition account_config :: "string \<Rightarrow> ns_account" where
  "account_config a = \<lparr>na_accountId = a, na_consumerKeyRef = ''ns-'' @ sanitized a @ ''-consumer-key'',
     na_consumerSecretRef = ''ns-'' @ sanitized a @ ''-consumer-secret'',
     na_tokenKeyRef = ''ns-'' @ sanitized a @ ''-token-id'',
     na_tokenSecretRef = ''ns-'' @ sanitized a @ ''-token-secret'', na_timeoutMs = None, na_maxRetries = None\<rparr>"

definition realAccountIds :: "connection list \<Rightarrow> string list" where
  "realAccountIds conns = rev (remdups (rev (filter (\<lambda>a. a \<noteq> [] \<and> a \<noteq> ''pending'') (map nsAccountId conns))))"

text \<open>\<open>None\<close> is the in-memory gateway, \<open>Some\<close> the accounts of the SDK gateway.\<close>

definition buildNetSuiteGateway :: "connection list \<Rightarrow> (string \<times> ns_account) list option" where
  "buildNetSuiteGateway conns = (case realAccountIds conns of
     [] \<Rightarrow> None
   | ids \<Rightarrow> Some (map (\<lambda>a. (a, account_config a)) ids))"

section \<open>The system\<close>

record sys =
  sys_step :: nat
  sys_xref :: pg_xref
  sys_errors :: pg_errors
  sys_log :: pg_log_table
  sys_attempts :: "attempt list"
  sys_watermarks :: "watermark_row list"
  sys_snapshots :: "snapshot list"
  sys_ns :: fake_ns
  sys_queue :: "(string \<times> jsval) list"

definition empty_sys :: sys where
  "empty_sys = \<lparr>sys_step = 0, sys_xref = [], sys_errors = empty_pg_errors,
     sys_log = \<lparr>plt_rows = [], plt_seq = 0\<rparr>, sys_attempts = [], sys_watermarks = [], sys_snapshots = [],
     sys_ns = empty_fake_ns, sys_queue = []\<rparr>"

record cfg =
  cf_environment :: environment
  cf_repo :: connections_repo
  cf_guest :: string
  cf_lookups :: "connection \<Rightarrow> string \<Rightarrow> string \<Rightarrow> string option"
  cf_shopify :: "nat \<Rightarrow> connection \<Rightarrow> string \<Rightarrow> js_error + shopify_order"
  cf_container :: string
  cf_clock :: "nat \<Rightarrow> int"
  cf_fault :: "nat \<Rightarrow> js_error option"

text \<open>One call on a part of the system, at the clock's time.\<close>

definition call :: "cfg \<Rightarrow> (sys \<Rightarrow> 's) \<Rightarrow> ('s \<Rightarrow> sys \<Rightarrow> sys) \<Rightarrow> (int \<Rightarrow> ('s, 'a) io) \<Rightarrow> (sys, 'a) io" where
  "call cfg get_part set_part m = (\<lambda>w. let n = sys_step w; w1 = w\<lparr>sys_step := Suc n\<rparr> in
     case cf_fault cfg n of
       Some e \<Rightarrow> (Inl e, w1)
     | None \<Rightarrow> (case m (cf_clock cfg n) (get_part w1) of (r, s) \<Rightarrow> (r, set_part s w1)))"

definition tick :: "cfg \<Rightarrow> (sys, int) io" where
  "tick cfg = (\<lambda>w. (Inr (cf_clock cfg (sys_step w)), w\<lparr>sys_step := Suc (sys_step w)\<rparr>))"

text \<open>A call whose answer is given from outside.\<close>

definition ask :: "cfg \<Rightarrow> (nat \<Rightarrow> js_error + 'a) \<Rightarrow> (sys, 'a) io" where
  "ask cfg answer_at = (\<lambda>w. let n = sys_step w in
     ((case cf_fault cfg n of Some e \<Rightarrow> Inl e | None \<Rightarrow> answer_at n), w\<lparr>sys_step := Suc n\<rparr>))"

definition pure_op :: "('s \<Rightarrow> 'a \<times> 's) \<Rightarrow> ('s, 'a) io" where
  "pure_op f = (\<lambda>s. case f s of (a, s') \<Rightarrow> (Inr a, s'))"

definition on_xref :: "cfg \<Rightarrow> (pg_xref, 'a) io \<Rightarrow> (sys, 'a) io" where
  "on_xref cfg m = call cfg sys_xref (\<lambda>t. sys_xref_update (\<lambda>_. t)) (\<lambda>_. m)"

definition on_ns :: "cfg \<Rightarrow> (fake_ns, 'a) io \<Rightarrow> (sys, 'a) io" where
  "on_ns cfg m = call cfg sys_ns (\<lambda>t. sys_ns_update (\<lambda>_. t)) (\<lambda>_. m)"

definition on_errors :: "cfg \<Rightarrow> (int \<Rightarrow> (pg_errors, 'a) io) \<Rightarrow> (sys, 'a) io" where
  "on_errors cfg m = call cfg sys_errors (\<lambda>t. sys_errors_update (\<lambda>_. t)) m"

definition on_log :: "cfg \<Rightarrow> (int \<Rightarrow> (pg_log_table, 'a) io) \<Rightarrow> (sys, 'a) io" where
  "on_log cfg m = call cfg sys_log (\<lambda>t. sys_log_update (\<lambda>_. t)) m"

definition on_attempts :: "cfg \<Rightarrow> (int \<Rightarrow> (attempt list, 'a) io) \<Rightarrow> (sys, 'a) io" where
  "on_attempts cfg m = call cfg sys_attempts (\<lambda>t. sys_attempts_update (\<lambda>_. t)) m"

definition on_watermarks :: "cfg \<Rightarrow> (int \<Rightarrow> (watermark_row list, 'a) io) \<Rightarrow> (sys, 'a) io" where
  "on_watermarks cfg m = call cfg sys_watermarks (\<lambda>t. sys_watermarks_update (\<lambda>_. t)) m"

definition on_snapshots :: "cfg \<Rightarrow> (int \<Rightarrow> (snapshot list, 'a) io) \<Rightarrow> (sys, 'a) io" where
  "on_snapshots cfg m = call cfg sys_snapshots (\<lambda>t. sys_snapshots_update (\<lambda>_. t)) m"

definition sys_enqueue :: "cfg \<Rightarrow> string \<Rightarrow> jsval \<Rightarrow> (sys, unit) io" where
  "sys_enqueue cfg session body =
     call cfg sys_queue (\<lambda>t. sys_queue_update (\<lambda>_. t)) (\<lambda>_. modify_st (\<lambda>q. q @ [(session, body)]))"

definition booted_xref :: "cfg \<Rightarrow> sys xref_ops" where
  "booted_xref cfg = \<lparr>xo_claim = \<lambda>i. on_xref cfg (pg_claim i),
     xo_recordSuccess = \<lambda>t p tid ext. on_xref cfg (pg_recordSuccess t p tid ext),
     xo_recordFailure = \<lambda>p h. on_xref cfg (pg_recordFailure p h),
     xo_markIgnored = \<lambda>p. on_xref cfg (pg_markIgnored p), xo_lookup = \<lambda>p. on_xref cfg (pg_lookup p),
     xo_delete = \<lambda>p. on_xref cfg (pg_delete p)\<rparr>"

definition booted_ns :: "cfg \<Rightarrow> sys ns_ops" where
  "booted_ns cfg = \<lparr>no_upsert = \<lambda>a rt ext p. on_ns cfg (no_upsert fake_ns_ops a rt ext p),
     no_find = \<lambda>a rt ext cols. on_ns cfg (no_find fake_ns_ops a rt ext cols),
     no_addressbook = \<lambda>a c field. on_ns cfg (no_addressbook fake_ns_ops a c field),
     no_resolveItem = \<lambda>a sku. on_ns cfg (no_resolveItem fake_ns_ops a sku)\<rparr>"

text \<open>
  What the registration of the order handler passes to it. The report of telemetry has no effect on
  the state; writing a blob has none that is read back.
\<close>

definition booted_deps :: "cfg \<Rightarrow> sys order_deps" where
  "booted_deps cfg = \<lparr>d_environment = cf_environment cfg,
     d_findById = \<lambda>env cid. ret (findById (cf_repo cfg) env cid), d_xref = booted_xref cfg,
     d_getOrder = \<lambda>conn gid. ask cfg (\<lambda>n. cf_shopify cfg n conn gid),
     d_tagOrder = \<lambda>conn gid tags. ask cfg (\<lambda>_. Inr tags), d_ns = booted_ns cfg, d_guestCustomer = cf_guest cfg,
     d_lookupsFor = \<lambda>conn tab k. ask cfg (\<lambda>_. Inr (cf_lookups cfg conn tab k)), d_derives = None,
     d_errorStore = Some (\<lambda>i. on_errors cfg (\<lambda>now. pg_err_record now i)),
     d_syncLog = Some (\<lambda>i. on_log cfg (\<lambda>now. pure_op (pg_log_upsert now i))),
     d_attempts = Some (\<lambda>i. on_attempts cfg (\<lambda>now. pure_op (pg_att_record now i))),
     d_payloads = Some (blob_put (cf_container cfg) (\<lambda>_ _. ask cfg (\<lambda>_. Inr ()))),
     d_track = \<lambda>_ w. w, d_now = tick cfg\<rparr>"

section \<open>The wiring keeps the handler's contract\<close>

definition order_records :: "fake_ns \<Rightarrow> record_key \<Rightarrow> (string \<times> jsobj) option" where
  "order_records ns k = (if fst (snd k) = ''customer'' then None else fake_records ns k)"

definition sys_view :: "sys \<Rightarrow> order_view" where
  "sys_view w = \<lparr>ov_ledger = (\<lambda>p. pg_fetch p (sys_xref w)),
     ov_records = order_records (sys_ns w),
     ov_attempts = map att_data (sys_attempts w), ov_errors = pe_rows (sys_errors w)\<rparr>"

lemma sys_view_simps [simp]:
  "ov_ledger (sys_view w) = (\<lambda>p. pg_fetch p (sys_xref w))"
  "ov_records (sys_view w) = order_records (sys_ns w)"
  "ov_attempts (sys_view w) = map att_data (sys_attempts w)"
  "ov_errors (sys_view w) = pe_rows (sys_errors w)"
  by (simp_all add: sys_view_def)

lemma sys_view_frame [simp]:
  "sys_view (w\<lparr>sys_step := n\<rparr>) = sys_view w"
  "sys_view (w\<lparr>sys_log := l\<rparr>) = sys_view w"
  "sys_view (w\<lparr>sys_watermarks := wm\<rparr>) = sys_view w"
  "sys_view (w\<lparr>sys_snapshots := sn\<rparr>) = sys_view w"
  "sys_view (w\<lparr>sys_queue := q\<rparr>) = sys_view w"
  by (simp_all add: sys_view_def)

lemma sys_view_part:
  "sys_view (w\<lparr>sys_xref := t\<rparr>) = (sys_view w)\<lparr>ov_ledger := \<lambda>p. pg_fetch p t\<rparr>"
  "sys_view (w\<lparr>sys_errors := es\<rparr>) = (sys_view w)\<lparr>ov_errors := pe_rows es\<rparr>"
  "sys_view (w\<lparr>sys_attempts := as\<rparr>) = (sys_view w)\<lparr>ov_attempts := map att_data as\<rparr>"
  "sys_view (w\<lparr>sys_ns := ns\<rparr>) = (sys_view w)\<lparr>ov_records := order_records ns\<rparr>"
  by (simp_all add: sys_view_def)

lemma call_result:
  assumes "call cfg get_part set_part m w = (r, w')"
  shows "(\<exists>e. r = Inl e \<and> w' = w\<lparr>sys_step := Suc (sys_step w)\<rparr>)
    \<or> (\<exists>s. m (cf_clock cfg (sys_step w)) (get_part (w\<lparr>sys_step := Suc (sys_step w)\<rparr>)) = (r, s)
         \<and> w' = set_part s (w\<lparr>sys_step := Suc (sys_step w)\<rparr>))"
  using assms unfolding call_def Let_def
  by (cases "m (cf_clock cfg (sys_step w)) (get_part (w\<lparr>sys_step := Suc (sys_step w)\<rparr>))")
    (auto split: option.splits)

lemma on_xref_result:
  assumes "on_xref cfg m w = (r, w')"
  shows "(\<exists>e. r = Inl e \<and> sys_view w' = sys_view w)
    \<or> (\<exists>t. m (sys_xref w) = (r, t) \<and> sys_view w' = (sys_view w)\<lparr>ov_ledger := \<lambda>p. pg_fetch p t\<rparr>)"
  using call_result [OF assms [unfolded on_xref_def]] by (auto simp: sys_view_part)

lemma on_ns_result:
  assumes "on_ns cfg m w = (r, w')"
  shows "(\<exists>e. r = Inl e \<and> sys_view w' = sys_view w)
    \<or> (\<exists>s. m (sys_ns w) = (r, s) \<and> sys_view w' = (sys_view w)\<lparr>ov_records := order_records s\<rparr>)"
  using call_result [OF assms [unfolded on_ns_def]] by (auto simp: sys_view_part)

lemma on_errors_result:
  assumes "on_errors cfg m w = (r, w')"
  shows "(\<exists>e. r = Inl e \<and> sys_view w' = sys_view w)
    \<or> (\<exists>s. m (cf_clock cfg (sys_step w)) (sys_errors w) = (r, s) \<and> sys_view w' = (sys_view w)\<lparr>ov_errors := pe_rows s\<rparr>)"
  using call_result [OF assms [unfolded on_errors_def]] by (auto simp: sys_view_part)

lemma on_attempts_result:
  assumes "on_attempts cfg m w = (r, w')"
  shows "(\<exists>e. r = Inl e \<and> cf_fault cfg (sys_step w) = Some e \<and> sys_view w' = sys_view w)
    \<or> (\<exists>s. m (cf_clock cfg (sys_step w)) (sys_attempts w) = (r, s)
         \<and> sys_view w' = (sys_view w)\<lparr>ov_attempts := map att_data s\<rparr>)"
  using assms unfolding on_attempts_def call_def Let_def
  by (auto simp: sys_view_part split: option.splits prod.splits)

lemma on_attempts_sure:
  "cf_fault cfg (sys_step w) = None \<Longrightarrow> \<exists>ar w'. on_attempts cfg (\<lambda>now. pure_op (f now)) w = (Inr ar, w')"
  by (cases "f (cf_clock cfg (sys_step w)) (sys_attempts w)")
    (simp add: on_attempts_def call_def Let_def pure_op_def)

lemma keeps_ask [keeps_rules, intro]: "keeps sys_view (ask cfg f)"
  by (simp add: keeps_def ask_def Let_def)

lemma keeps_on_log: "keeps sys_view (on_log cfg m)"
proof (rule keepsI)
  fix w
  obtain r w' where run: "on_log cfg m w = (r, w')" by force
  from call_result [OF this [unfolded on_log_def]] show "sys_view (snd (on_log cfg m w)) = sys_view w"
    by (auto simp: run)
qed

lemma keeps_on_ns:
  assumes "keeps order_records m"
  shows "keeps sys_view (on_ns cfg m)"
proof (rule keepsI)
  fix w
  obtain r w' where run: "on_ns cfg m w = (r, w')" by force
  from on_ns_result [OF this] show "sys_view (snd (on_ns cfg m w)) = sys_view w"
    by (auto simp: run sys_view_def dest: keepsD [OF assms])
qed

lemma order_records_records: "fake_records s = fake_records s' \<Longrightarrow> order_records s = order_records s'"
  by (simp add: order_records_def fun_eq_iff)

lemma keeps_order_records: "keeps fake_records m \<Longrightarrow> keeps order_records m"
  by (auto simp: keeps_def order_records_def fun_eq_iff)

lemma order_records_upsert:
  assumes "no_upsert fake_ns_ops acct rt ext payload s = (r, s')"
  shows "case r of Inl _ \<Rightarrow> order_records s' = order_records s
    | Inr u \<Rightarrow> order_records s' = (if rt = ''customer'' then order_records s
        else (order_records s)((acct, rt, ext) \<mapsto> (ur_internalId u, payload)))"
  using assms fake.upsert_ok fake.upsert_fails
  by (cases r) (fastforce simp: order_records_def fun_eq_iff)+

lemma pg_fetch_append: "pg_fetch p (t @ [r]) =
    (case pg_fetch p t of Some x \<Rightarrow> Some x | None \<Rightarrow> if xr_parts r = p then Some r else None)"
  by (induction t) (auto simp: pg_fetch_def)

lemma pg_fetch_pg_set:
  assumes "\<And>r. xr_parts (f r) = xr_parts r"
  shows "pg_fetch q (pg_set p f t) = (if q = p then map_option f (pg_fetch q t) else pg_fetch q t)"
  by (induction t) (auto simp: pg_fetch_def pg_set_def assms)

lemma pg_claim_effect: "pg_claim i t = (r, t') \<Longrightarrow>
    (case r of Inr c \<Rightarrow> c = fst (spec_claim i (\<lambda>p. pg_fetch p t))
       \<and> (\<lambda>p. pg_fetch p t') = snd (spec_claim i (\<lambda>p. pg_fetch p t))
     | Inl _ \<Rightarrow> t' = t)"
  by (auto simp: pg_claim_def pg_claim_insert_def pg_claim_read_def pg_insert_def bnd_def spec_claim_def
      claim_row_def fun_eq_iff pg_fetch_append split: option.splits sum.splits if_splits)

lemma pg_update_effect:
  assumes "\<And>r. xr_parts (f r) = xr_parts r" and "pg_update verb f p t = (res, t')"
  shows "case res of Inl _ \<Rightarrow> t' = t
    | Inr r \<Rightarrow> (\<exists>r0. r = f r0) \<and> (\<lambda>q. pg_fetch q t') = (\<lambda>q. pg_fetch q t)(p \<mapsto> r)"
  using assms(2) by (auto simp: pg_update_def pg_fetch_pg_set assms(1) fun_eq_iff split: option.splits sum.splits)

lemma pg_ignore_effect:
  "pg_markIgnored p t = (res, t') \<Longrightarrow> \<exists>r. res = Inr r \<and> xr_status r = Ignored
     \<and> (\<lambda>q. pg_fetch q t') = (\<lambda>q. pg_fetch q t)(p \<mapsto> r)"
  by (auto simp: pg_markIgnored_def pg_fetch_pg_set pg_fetch_append ignored_row_def fun_eq_iff split: option.splits)

lemma status_rows [simp]: "xr_parts (synced_row t tid ext r) = xr_parts r" "xr_parts (failed_row h r) = xr_parts r"
  by (simp_all add: synced_row_def failed_row_def)

text \<open>
  The handler's laws for every configuration: each call either fails and leaves the view, or is the
  operation of the store. Attempt rows are sure to be written where no step fails.
\<close>

lemma keeps_customer: "keeps order_records (no_upsert fake_ns_ops acct ''customer'' ext payload)"
proof (rule keepsI)
  fix s
  obtain r s' where "no_upsert fake_ns_ops acct ''customer'' ext payload s = (r, s')" by force
  from order_records_upsert [OF this] this
  show "order_records (snd (no_upsert fake_ns_ops acct ''customer'' ext payload s)) = order_records s"
    by (simp split: sum.splits)
qed

lemma booted_simps [simp]:
  "xo_claim (d_xref (booted_deps cfg)) i = on_xref cfg (pg_claim i)"
  "xo_recordSuccess (d_xref (booted_deps cfg)) t p tid ext = on_xref cfg (pg_recordSuccess t p tid ext)"
  "xo_recordFailure (d_xref (booted_deps cfg)) p h = on_xref cfg (pg_recordFailure p h)"
  "xo_markIgnored (d_xref (booted_deps cfg)) p = on_xref cfg (pg_markIgnored p)"
  "xo_lookup (d_xref (booted_deps cfg)) p = on_xref cfg (pg_lookup p)"
  "no_upsert (d_ns (booted_deps cfg)) a rt ext pl = on_ns cfg (no_upsert fake_ns_ops a rt ext pl)"
  "no_find (d_ns (booted_deps cfg)) a rt ext cols = on_ns cfg (no_find fake_ns_ops a rt ext cols)"
  "no_addressbook (d_ns (booted_deps cfg)) a c field = on_ns cfg (no_addressbook fake_ns_ops a c field)"
  "no_resolveItem (d_ns (booted_deps cfg)) a sku = on_ns cfg (no_resolveItem fake_ns_ops a sku)"
  "d_findById (booted_deps cfg) env cid = ret (findById (cf_repo cfg) env cid)"
  "d_getOrder (booted_deps cfg) conn gid = ask cfg (\<lambda>n. cf_shopify cfg n conn gid)"
  "d_tagOrder (booted_deps cfg) conn gid tags = ask cfg (\<lambda>_. Inr tags)"
  "d_lookupsFor (booted_deps cfg) conn tab k = ask cfg (\<lambda>_. Inr (cf_lookups cfg conn tab k))"
  "d_errorStore (booted_deps cfg) = Some (\<lambda>i. on_errors cfg (\<lambda>now. pg_err_record now i))"
  "d_syncLog (booted_deps cfg) = Some (\<lambda>i. on_log cfg (\<lambda>now. pure_op (pg_log_upsert now i)))"
  "d_attempts (booted_deps cfg) = Some (\<lambda>i. on_attempts cfg (\<lambda>now. pure_op (pg_att_record now i)))"
  "d_payloads (booted_deps cfg) = Some (blob_put (cf_container cfg) (\<lambda>_ _. ask cfg (\<lambda>_. Inr ())))"
  "d_track (booted_deps cfg) rep w = w"
  "d_now (booted_deps cfg) = tick cfg"
  "d_environment (booted_deps cfg) = cf_environment cfg"
  by (simp_all add: booted_deps_def booted_xref_def booted_ns_def)

interpretation booted: order_env "booted_deps cfg" sys_view "\<forall>n. cf_fault cfg n = None" for cfg
proof (unfold_locales, goal_cases)
  case (1 i w c w')
  then show ?case by (auto dest!: on_xref_result pg_claim_effect)
next
  case (2 i w e w')
  then show ?case by (auto dest!: on_xref_result pg_claim_effect simp: sys_view_def)
next
  case (3 t p tid ext w r w')
  then show ?case
    by (auto simp: pg_recordSuccess_def synced_row_def dest!: on_xref_result pg_update_effect [rotated])
next
  case (4 t p tid ext w e w')
  then show ?case
    by (auto simp: pg_recordSuccess_def sys_view_def dest!: on_xref_result pg_update_effect [rotated])
next
  case (5 p h w r w')
  then show ?case
    by (auto simp: pg_recordFailure_def failed_row_def dest!: on_xref_result pg_update_effect [rotated])
next
  case (6 p h w e w')
  then show ?case
    by (auto simp: pg_recordFailure_def sys_view_def dest!: on_xref_result pg_update_effect [rotated])
next
  case (7 p w r w')
  then show ?case by (auto dest!: on_xref_result pg_ignore_effect)
next
  case (8 p w e w')
  then show ?case by (auto dest!: on_xref_result pg_ignore_effect)
next
  case (9 p w found w')
  then show ?case by (auto simp: pg_lookup_def sys_view_def dest!: on_xref_result)
next
  case (10 p w e w')
  then show ?case by (auto simp: pg_lookup_def sys_view_def dest!: on_xref_result)
next
  case (11 rt acct ext payload w u w')
  then show ?case by (auto dest!: on_ns_result order_records_upsert)
next
  case (12 acct rt ext payload w e w')
  then show ?case by (auto simp: sys_view_def dest!: on_ns_result order_records_upsert)
next
  case (13 acct ext payload)
  then show ?case by (simp add: keeps_on_ns keeps_customer)
next
  case (14 acct rt ext cols)
  then show ?case by (auto intro!: keeps_on_ns keeps_order_records fake.find_keeps)
next
  case (15 acct customer field)
  then show ?case by (auto intro!: keeps_on_ns keeps_order_records fake.addressbook_keeps)
next
  case (16 acct sku)
  then show ?case by (auto intro!: keeps_on_ns keeps_order_records fake.resolve_keeps)
next
  case 17
  then show ?case by auto
next
  case 29
  then show ?case by (auto intro!: on_attempts_sure)
qed (auto simp: keeps_on_log blob_put_def tick_def pg_err_record_def error_row_def pure_op_def pg_att_record_def
    Let_def intro!: keeps_rules keeps_ask dest!: on_errors_result on_attempts_result)

end
