(* ===== verification/OrderRun.thy ===== *)
theory OrderRun
  imports Bootstrap
begin

text \<open>
  The import against a reference: \<open>plan\<close> computes the NetSuite payload of an order with no world at
  all, from the lookup table and the item table. On a system where nothing fails the handler books
  exactly that payload.
\<close>

section \<open>Effects that compute a value\<close>

text \<open>
  \<open>mirrors I m m'\<close>: from every world with \<open>I\<close>, \<open>m\<close> gives the result that \<open>m'\<close> gives in the one-point
  world, and keeps \<open>I\<close>.
\<close>

definition mirrors :: "('w \<Rightarrow> bool) \<Rightarrow> ('w, 'e, 'a) eff \<Rightarrow> (unit, 'e, 'a) eff \<Rightarrow> bool" where
  "mirrors I m m' \<longleftrightarrow> (\<forall>w. I w \<longrightarrow> I (snd (m w)) \<and> fst (m w) = fst (m' ()))"

named_theorems mirrors_rules "rules for effects that compute a value"

lemma mirrors_ret [mirrors_rules]: "mirrors I (ret a) (ret a)"
  by (simp add: mirrors_def)

lemma mirrors_throw [mirrors_rules]: "mirrors I (throw e) (throw e)"
  by (simp add: mirrors_def)

lemma mirrors_lift_sum [mirrors_rules]: "mirrors I (lift_sum r) (lift_sum r)"
  by (simp add: mirrors_def)

lemma mirrors_bnd [mirrors_rules]:
  assumes "mirrors I m m'" and "\<And>a. mirrors I (f a) (f' a)"
  shows "mirrors I (bnd m f) (bnd m' f')"
  unfolding mirrors_def
proof (intro allI impI)
  fix w assume "I w"
  obtain r v where m: "m w = (r, v)" by force
  obtain r' where m': "m' () = (r', ())" by (metis old.unit.exhaust surj_pair)
  have "r = r'" "I v" using assms(1) \<open>I w\<close> m m' by (auto simp: mirrors_def)
  then show "I (snd (bnd m f w)) \<and> fst (bnd m f w) = fst (bnd m' f' ())"
    using assms(2) \<open>I w\<close> by (cases r') (auto simp: bnd_def m m' mirrors_def)
qed

lemma mirrors_if [mirrors_rules]:
  "(c \<Longrightarrow> mirrors I m m') \<Longrightarrow> (\<not> c \<Longrightarrow> mirrors I n n') \<Longrightarrow> mirrors I (if c then m else n) (if c then m' else n')"
  by simp

lemma wp_mirrors:
  assumes "mirrors I m m'" and "I w" and "fst (m' ()) = Inr a" and "\<And>w'. I w' \<Longrightarrow> Q a w'"
  shows "wp m Q E w"
proof -
  have "I (snd (m w))" "fst (m w) = Inr a" using assms(1-3) by (auto simp: mirrors_def)
  then show ?thesis using assms(4) by (cases "m w") (auto simp: wp_def)
qed

lemma mirrors_put [mirrors_rules]: "mirrors I (put out to v) (put out to v)"
  unfolding put_def by (intro mirrors_rules)

lemma mirrors_eval_from:
  assumes "\<And>t k. mirrors I (ev_lookups ctx t k) (ev_lookups ctx' t k)"
    and "ev_derives ctx' = ev_derives ctx" and "ev_as_js ctx' = ev_as_js ctx"
  shows "mirrors I (eval_from ctx src ms out) (eval_from ctx' src ms out)"
proof -
  have app: "mirrors I (applyMapping ctx src m out) (applyMapping ctx' src m out)" for m out
    by (induction m arbitrary: out)
      (auto simp: assms applyDirect_def applyConstant_def applyLookup_def applyDerive_def Let_def
        intro!: mirrors_rules split: option.splits)
  show ?thesis
    by (induction ms arbitrary: out) (auto intro!: mirrors_rules app split: mapping_result.splits)
qed

lemma mirrors_build:
  assumes "\<And>t k. mirrors I (lookups t k) (lookups' t k)"
  shows "mirrors I (buildOrderPayload conn so cust lookups derives hdr)
    (buildOrderPayload conn so cust lookups' derives hdr)"
  unfolding buildOrderPayload_def evaluate_def Let_def
  by (auto intro!: mirrors_rules mirrors_eval_from simp: assms simp del: eval_from.simps
      split: mapping_result.splits jsval.splits list.splits option.splits)

lemma mirrors_resolve:
  assumes "\<And>s. mirrors I (no_resolveItem ns acct s) (no_resolveItem ns' acct s)"
  shows "mirrors I (resolveItemReferences ns acct fb payload) (resolveItemReferences ns' acct fb payload)"
proof -
  have "mirrors I (resolve_from ns acct sub fb idx lines acc) (resolve_from ns' acct sub fb idx lines acc)"
    for sub fb idx lines acc
    by (induction lines arbitrary: idx acc)
      (auto intro!: mirrors_rules assms split: line_kind.splits option.splits)
  then show ?thesis
    unfolding resolveItemReferences_def resolveSublist_def
    by (auto intro!: mirrors_rules split: mapping_result.splits)
qed

section \<open>The reference\<close>

definition table_ns :: "(string \<Rightarrow> string option) \<Rightarrow> unit ns_ops" where
  "table_ns items = \<lparr>no_upsert = \<lambda>_ _ _ _. throw (plain_error []), no_find = \<lambda>_ _ _ _. ret None,
     no_addressbook = \<lambda>_ _ _. ret [], no_resolveItem = \<lambda>_ s. ret (items s)\<rparr>"

definition plan_effect ::
  "connection \<Rightarrow> shopify_order \<Rightarrow> string \<Rightarrow> (string \<Rightarrow> string \<Rightarrow> string option) \<Rightarrow> (string \<Rightarrow> string option)
   \<Rightarrow> (unit, jsobj mapping_result) io" where
  "plan_effect conn so cust lk items =
     bnd (buildOrderPayload conn so cust (\<lambda>t k. ret (lk t k)) defaultDeriveRegistry None) (\<lambda>r. case r of
       Park p \<Rightarrow> ret (Park p)
     | MapOk draft \<Rightarrow>
        bnd (lift_sum (applyBalancing (applyTaxPayloadHeader draft (buildOrderTax conn so)) so DEFAULT_BALANCING))
          (\<lambda>b. case b of
            Park p \<Rightarrow> ret (Park p)
          | MapOk (balanced, _) \<Rightarrow>
              resolveItemReferences (table_ns items) (nsAccountId conn) (defaultItemId conn) balanced))"

definition plan ::
  "connection \<Rightarrow> shopify_order \<Rightarrow> string \<Rightarrow> (string \<Rightarrow> string \<Rightarrow> string option) \<Rightarrow> (string \<Rightarrow> string option)
   \<Rightarrow> js_error + jsobj mapping_result" where
  "plan conn so cust lk items = fst (plan_effect conn so cust lk items ())"

section \<open>A system where nothing fails\<close>

text \<open>The parts of the system an import reads: NetSuite and the ledger.\<close>

definition core :: "sys \<Rightarrow> fake_ns \<times> pg_xref" where
  "core w = (sys_ns w, sys_xref w)"

definition ready :: "(string \<Rightarrow> string option) \<Rightarrow> string \<Rightarrow> dedup_parts \<Rightarrow> sys \<Rightarrow> bool" where
  "ready items acct p w \<longleftrightarrow> (\<forall>s. map_of (fn_itemBySku (sys_ns w)) (acct, s) = items s)
     \<and> fn_failureQueue (sys_ns w) = [] \<and> pg_fetch p (sys_xref w) \<noteq> None"

definition no_faults :: "cfg \<Rightarrow> bool" where
  "no_faults cfg \<longleftrightarrow> (\<forall>n. cf_fault cfg n = None)"

lemma ready_core: "core w' = core w \<Longrightarrow> ready items acct p w' = ready items acct p w"
  by (simp add: core_def ready_def)

lemma call_runs:
  "no_faults cfg \<Longrightarrow> call cfg get_part set_part m w =
     (case m (cf_clock cfg (sys_step w)) (get_part (w\<lparr>sys_step := Suc (sys_step w)\<rparr>)) of
        (r, s) \<Rightarrow> (r, set_part s (w\<lparr>sys_step := Suc (sys_step w)\<rparr>)))"
  by (simp add: no_faults_def call_def Let_def)

lemma wp_ask:
  assumes "no_faults cfg" and "f (sys_step w) = Inr a" and "\<And>w'. core w' = core w \<Longrightarrow> Q a w'"
  shows "wp (ask cfg f) Q E w"
  using assms by (simp add: wp_def ask_def Let_def no_faults_def core_def)

lemma wp_tick: "(\<And>t w'. core w' = core w \<Longrightarrow> Q t w') \<Longrightarrow> wp (tick cfg) Q E w"
  by (simp add: wp_def tick_def core_def)

lemma wp_on_log_runs:
  assumes "no_faults cfg" and "\<And>r w'. core w' = core w \<Longrightarrow> Q r w'"
  shows "wp (on_log cfg (\<lambda>now. pure_op (f now))) Q E w"
  using assms by (simp add: wp_def on_log_def call_runs pure_op_def core_def split: prod.splits)

lemma wp_log_runs:
  assumes "no_faults cfg" and "\<And>w'. core w' = core w \<Longrightarrow> Q () w'"
  shows "wp (writeSyncLog (booted_deps cfg) conn msg sh) Q E w"
  using assms(2) by (auto simp: writeSyncLog_def wp_simps wp_ret_fun intro!: wp_on_log_runs [OF assms(1)])

lemma wp_archive_runs:
  assumes "no_faults cfg" and "\<And>u w'. core w' = core (fst s) \<Longrightarrow> Q () (w', set_uri u (snd s))" and "Q () s"
  shows "wp (archive (booted_deps cfg) ctx payload mk set_uri) Q E s"
  using assms(2,3) unfolding archive_def
  by (auto simp: wp_simps blob_put_def split: option.splits intro!: wp_ask [OF assms(1)])

lemma wp_upsert_runs:
  assumes "no_faults cfg" and "ready items a' p w"
    and "\<And>u w'. ready items a' p w' \<Longrightarrow>
      fake_records (sys_ns w') = (fake_records (sys_ns w))((acct, rt, ext) \<mapsto> (ur_internalId u, payload)) \<Longrightarrow> Q u w'"
  shows "wp (on_ns cfg (no_upsert fake_ns_ops acct rt ext payload)) Q E w"
proof -
  have "\<exists>u s. no_upsert fake_ns_ops acct rt ext payload (sys_ns w) = (Inr u, s)
      \<and> fn_itemBySku s = fn_itemBySku (sys_ns w) \<and> fn_failureQueue s = []"
    using assms(2)
    by (cases "map_of (fn_store (sys_ns w)) (acct, rt, ext)")
      (auto simp: fake_ns_ops_def fake_upsert_def Let_def ready_def)
  then obtain u s where run: "no_upsert fake_ns_ops acct rt ext payload (sys_ns w) = (Inr u, s)"
      and kept: "fn_itemBySku s = fn_itemBySku (sys_ns w)" "fn_failureQueue s = []" by blast
  have "Q u (w\<lparr>sys_step := Suc (sys_step w), sys_ns := s\<rparr>)"
    using fake.upsert_ok [OF run] assms(2) kept by (intro assms(3)) (simp_all add: ready_def)
  then show ?thesis by (simp add: wp_def on_ns_def call_runs [OF assms(1)] run)
qed

lemma wp_success_runs:
  assumes "no_faults cfg" and "pg_fetch p (sys_xref w) \<noteq> None"
    and "\<And>r w'. sys_ns w' = sys_ns w \<Longrightarrow> Q r w'"
  shows "wp (on_xref cfg (pg_recordSuccess t p tid ext)) Q E w"
  using assms(2,3)
  by (auto simp: wp_def on_xref_def call_runs [OF assms(1)] ready_def pg_recordSuccess_def pg_update_def)

lemma wp_find_runs:
  assumes "no_faults cfg" and "\<And>x w'. core w' = core w \<Longrightarrow> Q x w'"
  shows "wp (on_ns cfg (no_find fake_ns_ops a rt ext cols)) Q E w"
  using assms(2) by (simp add: wp_def on_ns_def call_runs [OF assms(1)] fake_ns_ops_def fake_find_def core_def)

lemma wp_addressbook_runs:
  assumes "no_faults cfg" and "\<And>x w'. core w' = core w \<Longrightarrow> Q x w'"
  shows "wp (on_ns cfg (no_addressbook fake_ns_ops a c field)) Q E w"
  using assms(2) by (simp add: wp_def on_ns_def call_runs [OF assms(1)] fake_ns_ops_def
      fake_getCustomerAddressbook_def core_def)

lemma wp_existing_runs:
  assumes "no_faults cfg" and R: "\<And>x w'. core w' = core w \<Longrightarrow> Q x w'"
  shows "wp (existing_addressbook (d_ns (booted_deps cfg)) conn c) Q E w"
proof (cases "non_empty (shopifyAddressIdField conn)")
  case None
  then show ?thesis by (simp add: existing_addressbook_def wp_ret R)
next
  case (Some field)
  show ?thesis
    unfolding existing_addressbook_def Some option.case wp_bnd booted_simps Let_def wp_if
  proof (rule wp_find_runs [OF assms(1)])
    fix x w'
    assume same: "core w' = core w"
    have "wp (on_ns cfg (no_addressbook fake_ns_ops a c field)) Q E w'" for a c
      by (rule wp_addressbook_runs [OF assms(1)]) (simp add: R same)
    then show "if nullish (case x of None \<Rightarrow> JUndef | Some r \<Rightarrow> oget r ''id'') then wp (ret []) Q E w'
      else wp (on_ns cfg (no_addressbook fake_ns_ops (nsAccountId conn)
          (to_str (case x of None \<Rightarrow> JUndef | Some r \<Rightarrow> oget r ''id'')) field)) Q E w'"
      by (simp add: wp_ret R same)
  qed
qed

lemma wp_customer_runs:
  assumes "no_faults cfg" and "ready items acct p w" and "\<And>cust w'. ready items acct p w' \<Longrightarrow> Q cust w'"
  shows "wp (resolveCustomer (d_ns (booted_deps cfg)) guest conn customer oa) Q E w"
proof (cases customer)
  case None
  then show ?thesis using assms(2,3) by (simp add: resolveCustomer_def wp_ret)
next
  case (Some c)
  show ?thesis
    unfolding resolveCustomer_def Some option.case wp_bnd wp_ret_fun booted_simps(6)
  proof (rule wp_existing_runs [OF assms(1)], rule wp_upsert_runs [OF assms(1)])
    fix x w' assume "core w' = core w"
    then show "ready items acct p w'" using assms(2) ready_core by blast
  qed (rule assms(3))
qed

lemma plan_ok:
  assumes "plan conn so cust lk items = Inr (MapOk payload)"
  obtains draft balanced d where
    "fst (buildOrderPayload conn so cust (\<lambda>t k. ret (lk t k)) defaultDeriveRegistry None ()) = Inr (MapOk draft)"
    and "applyBalancing (applyTaxPayloadHeader draft (buildOrderTax conn so)) so DEFAULT_BALANCING = Inr (MapOk (balanced, d))"
    and "fst (resolveItemReferences (table_ns items) (nsAccountId conn) (defaultItemId conn) balanced ()) = Inr (MapOk payload)"
proof -
  obtain r u where b: "buildOrderPayload conn so cust (\<lambda>t k. ret (lk t k)) defaultDeriveRegistry None () = (r, u)"
    by (rule prod.exhaust)
  show ?thesis
  proof (cases r)
    case (Inl e)
    then show ?thesis using assms by (simp add: plan_def plan_effect_def bnd_def b)
  next
    case (Inr m)
    then obtain draft where draft: "r = Inr (MapOk draft)"
      using assms by (cases m) (simp_all add: plan_def plan_effect_def bnd_def b)
    show ?thesis
    proof (cases "applyBalancing (applyTaxPayloadHeader draft (buildOrderTax conn so)) so DEFAULT_BALANCING")
      case (Inl e)
      then show ?thesis using assms by (simp add: plan_def plan_effect_def bnd_def b draft)
    next
      case (Inr x)
      then obtain balanced d where x: "x = MapOk (balanced, d)"
        using assms by (cases x) (auto simp: plan_def plan_effect_def bnd_def b draft)
      have "fst (resolveItemReferences (table_ns items) (nsAccountId conn) (defaultItemId conn) balanced ()) = Inr (MapOk payload)"
        using assms Inr by (simp add: plan_def plan_effect_def bnd_def b draft x)
      with Inr draft x b show ?thesis by (intro that) simp_all
    qed
  qed
qed

lemma ready_lookups: "no_faults cfg \<Longrightarrow>
    mirrors (ready items acct p) (ask cfg (\<lambda>_. Inr x)) (ret x)"
  by (simp add: mirrors_def ask_def Let_def no_faults_def ready_def)

lemma ready_items:
  "no_faults cfg \<Longrightarrow> mirrors (ready items acct p)
     (no_resolveItem (d_ns (booted_deps cfg)) acct s) (no_resolveItem (table_ns items) acct s)"
  by (simp add: mirrors_def on_ns_def call_runs fake_ns_ops_def fake_resolveItemId_def table_ns_def ready_def)

lemma prepare_runs:
  assumes "no_faults cfg" and "ready items (nsAccountId conn) p (fst s)"
    and "\<And>cust. plan conn so cust (cf_lookups cfg conn) items = Inr (MapOk (payload cust))"
    and "\<And>c w'. ready items (nsAccountId conn) p w' \<Longrightarrow> Q (Go (c, payload (cr_internalId c))) (w', snd s)"
  shows "wp (prepare_payload (booted_deps cfg) conn msg raw ctx so) Q E s"
proof -
  let ?I = "ready items (nsAccountId conn) p"
  have build: "mirrors ?I (buildOrderPayload conn so c (d_lookupsFor (booted_deps cfg) conn) defaultDeriveRegistry None)
      (buildOrderPayload conn so c (\<lambda>t k. ret (cf_lookups cfg conn t k)) defaultDeriveRegistry None)" for c
    by (rule mirrors_build) (simp add: ready_lookups [OF assms(1)])
  have resolve: "mirrors ?I (resolveItemReferences (d_ns (booted_deps cfg)) (nsAccountId conn) (defaultItemId conn) p')
      (resolveItemReferences (table_ns items) (nsAccountId conn) (defaultItemId conn) p')" for p'
    by (rule mirrors_resolve) (rule ready_items [OF assms(1)])
  have derives: "d_derives (booted_deps cfg) = None" by (simp add: booted_deps_def)
  show ?thesis
    unfolding prepare_payload_def wp_bnd wp_in_world derives option.case
  proof (rule wp_customer_runs [OF assms(1,2)])
    fix c :: customer_resolution and w1 assume I1: "?I w1"
    obtain draft balanced d where pl:
        "fst (buildOrderPayload conn so (cr_internalId c) (\<lambda>t k. ret (cf_lookups cfg conn t k)) defaultDeriveRegistry None ()) = Inr (MapOk draft)"
        "applyBalancing (applyTaxPayloadHeader draft (buildOrderTax conn so)) so DEFAULT_BALANCING = Inr (MapOk (balanced, d))"
        "fst (resolveItemReferences (table_ns items) (nsAccountId conn) (defaultItemId conn) balanced ()) = Inr (MapOk (payload (cr_internalId c)))"
      by (rule plan_ok [OF assms(3) [of "cr_internalId c"]])
    have lastly: "wp (resolveItemReferences (d_ns (booted_deps cfg)) (nsAccountId conn) (defaultItemId conn) balanced)
        (\<lambda>a w. wp (case a of Park pk \<Rightarrow> park_here (booted_deps cfg) conn msg raw ctx so StItemResolution (pr_detail pk) UnmappedConstruct
            | MapOk finalPayload \<Rightarrow> ret (Go (c, finalPayload))) Q E (w, snd s)) R v" if "?I v" for R v
      by (rule wp_mirrors [OF resolve that pl(3)]) (simp add: wp_ret assms(4))
    show "wp (buildOrderPayload conn so (cr_internalId c) (d_lookupsFor (booted_deps cfg) conn) defaultDeriveRegistry None)
      (\<lambda>a w. wp (case a of Park pk \<Rightarrow> park_here (booted_deps cfg) conn msg raw ctx so StMapping (pr_detail pk) UnmappedConstruct
        | MapOk draft \<Rightarrow>
          bnd (lift_sum (applyBalancing (applyTaxPayloadHeader draft (buildOrderTax conn so)) so DEFAULT_BALANCING))
           (\<lambda>balanced. case balanced of
              Park pk \<Rightarrow> park_here (booted_deps cfg) conn msg raw ctx so StBalancing (pr_detail pk) Data
            | MapOk (balancedPayload, uu) \<Rightarrow>
              bnd (in_world (resolveItemReferences (d_ns (booted_deps cfg)) (nsAccountId conn) (defaultItemId conn) balancedPayload))
               (\<lambda>resolved. case resolved of
                  Park pk \<Rightarrow> park_here (booted_deps cfg) conn msg raw ctx so StItemResolution (pr_detail pk) UnmappedConstruct
                | MapOk finalPayload \<Rightarrow> ret (Go (c, finalPayload))))) Q E (w, snd (w1, snd s)))
      R (fst (w1, snd s))" for R
      by (simp only: fst_conv snd_conv, rule wp_mirrors [OF build I1 pl(1)])
        (simp add: wp_bnd wp_lift_sum pl(2) wp_in_world lastly)
  qed
qed

lemma fetch_runs:
  assumes "no_faults cfg" and "ready items acct p (fst s)" and "\<And>n. cf_shopify cfg n conn (om_orderGid msg) = Inr so"
    and "checkEligibility so (om_topic msg) no_options = Eligible"
    and "\<And>w' l'. ready items acct p w' \<Longrightarrow> Q (Go so) (w', l')"
  shows "wp (fetch_eligible (booted_deps cfg) conn msg ctx) Q E s"
  unfolding fetch_eligible_def assms(4)
  by (auto simp: wp_simps assms(2-5) ready_core intro!: wp_ask [OF assms(1)] wp_archive_runs [OF assms(1)])

lemma wp_tag_runs:
  assumes "no_faults cfg" and "\<And>w'. core w' = core w \<Longrightarrow> Q () w'"
  shows "wp (tag_import (booted_deps cfg) conn msg tid) Q E w"
  using assms(2) unfolding tag_import_def Let_def by (auto simp: wp_simps intro!: wp_ask [OF assms(1)])

lemma wp_attempt_runs:
  assumes "no_faults cfg" and "\<And>w'. core w' = core w \<Longrightarrow> Q () w'"
  shows "wp (recordAttempt (booted_deps cfg) ctx msg conn l) Q E w"
proof -
  have row: "wp (on_attempts cfg (\<lambda>now. pure_op (pg_att_record now i))) R E' v"
    if "\<And>r v'. core v' = core v \<Longrightarrow> R r v'" for i R E' v
    using that by (simp add: wp_def on_attempts_def call_runs [OF assms(1)] pure_op_def core_def split: prod.splits)
  show ?thesis
    using assms(2) unfolding recordAttempt_def
    by (auto simp: wp_simps wp_ret_fun split: option.splits intro!: wp_tick row)
qed

lemma book_runs:
  assumes "no_faults cfg" and "ready items (nsAccountId conn) p (fst s)" and "p = order_key conn msg"
    and "\<And>tid created w' l'. fake_records (sys_ns w') (order_record conn msg) = Some (tid, payload)
      \<Longrightarrow> Q (Imported (connectionId conn) (om_orderGid msg) tid created cust) (w', l')"
  shows "wp (book_order (booted_deps cfg) conn msg ctx so cust payload) Q E s"
proof -
  let ?I = "ready items (nsAccountId conn) p"
  have resp: "wp (booted.response_part cfg conn msg ctx u) R E' t"
    if "\<And>w' l'. core w' = core (fst t) \<Longrightarrow> R () (w', l')" for u R E' t
    using that that [of "fst t" "snd t"] unfolding booted.response_part_def
    by (auto simp: wp_simps split: option.splits intro!: wp_archive_runs [OF assms(1)])
  show ?thesis
    unfolding book_order_def Let_def booted.response_part_def [symmetric]
    using assms(2-4)
    by (auto simp: wp_simps core_def ready_def order_record_def simp del: record_type_of.simps
        intro!: wp_archive_runs [OF assms(1)] wp_upsert_runs [OF assms(1), of items "nsAccountId conn" p] resp wp_tick
          wp_success_runs [OF assms(1)] wp_log_runs [OF assms(1)] wp_tag_runs [OF assms(1)])
qed

text \<open>A message that passes every check before the claim, for a connection of this configuration.\<close>

definition admitted :: "cfg \<Rightarrow> jsval \<Rightarrow> order_message \<Rightarrow> connection \<Rightarrow> bool" where
  "admitted cfg message msg conn \<longleftrightarrow> parseOrderWebhookMessage message = Inr msg
     \<and> om_environment msg = cf_environment cfg
     \<and> findById (cf_repo cfg) (om_environment msg) (om_connectionId msg) = Some conn \<and> enabled conn"

definition gated :: "order_message \<Rightarrow> bool" where
  "gated msg \<longleftrightarrow> from_webhook msg \<and> om_topic msg = ''orders/updated''"

lemma admitted_handle:
  assumes "admitted cfg message msg conn"
  shows "handleOrderMessage (booted_deps cfg) message ctx = process_message (booted_deps cfg) conn msg message ctx"
  using assms by (auto simp: admitted_def handleOrderMessage_def)

lemma ungated_handle:
  assumes "admitted cfg message msg conn" and "\<not> gated msg"
  shows "handleOrderMessage (booted_deps cfg) message ctx = claim_and_import (booted_deps cfg) conn msg message ctx"
  using assms(2) by (auto simp: admitted_handle [OF assms(1)] process_message_def gated_def)

lemma wp_claim_runs:
  assumes "no_faults cfg" and "pg_fetch (ci_parts i) (sys_xref w) = None"
    and "\<And>w'. sys_ns w' = sys_ns w \<Longrightarrow> pg_fetch (ci_parts i) (sys_xref w') = Some (claim_row i)
      \<Longrightarrow> Q (Claimed (claim_row i)) w'"
  shows "wp (on_xref cfg (pg_claim i)) Q E w"
proof -
  have "Q (Claimed (claim_row i)) (w\<lparr>sys_step := Suc (sys_step w), sys_xref := sys_xref w @ [claim_row i]\<rparr>)"
    using assms(2) by (intro assms(3)) (simp_all add: pg_fetch_append claim_row_def)
  then show ?thesis
    using assms(2)
    by (simp add: wp_def on_xref_def call_runs [OF assms(1)] pg_claim_def pg_claim_insert_def pg_insert_def
        bnd_def claim_row_def)
qed

lemma import_runs:
  assumes "no_faults cfg" and "admitted cfg message msg conn" and "\<not> gated msg"
    and "pg_fetch (order_key conn msg) (sys_xref w) = None"
    and "\<And>n. cf_shopify cfg n conn (om_orderGid msg) = Inr so"
    and "checkEligibility so (om_topic msg) no_options = Eligible"
    and "fn_failureQueue (sys_ns w) = []"
    and "\<And>cust. plan conn so cust (cf_lookups cfg conn)
           (\<lambda>s. map_of (fn_itemBySku (sys_ns w)) (nsAccountId conn, s)) = Inr (MapOk (payload cust))"
  shows "\<exists>tid created cust w'. handleOrderMessage (booted_deps cfg) message ctx w
        = (Inr (Imported (connectionId conn) (om_orderGid msg) tid created cust), w')
      \<and> fake_records (sys_ns w') (order_record conn msg) = Some (tid, payload (cr_internalId cust))"
proof -
  define items where "items = (\<lambda>s. map_of (fn_itemBySku (sys_ns w)) (nsAccountId conn, s))"
  let ?I = "ready items (nsAccountId conn) (order_key conn msg)"
  let ?booked = "\<lambda>out w'. \<exists>tid created cust. out = Imported (connectionId conn) (om_orderGid msg) tid created cust
      \<and> fake_records (sys_ns w') (order_record conn msg) = Some (tid, payload (cr_internalId cust))"
  have body: "wp (import_body (booted_deps cfg) conn msg message ctx) (\<lambda>out t. ?booked out (fst t)) (\<lambda>_ _. False) s"
    if "?I (fst s)" for s
    unfolding import_body_def wp_then_go
    by (rule fetch_runs [OF assms(1) that assms(5,6)])
      (auto simp: wp_then_go items_def intro!: prepare_runs [OF assms(1), where items = items and p = "order_key conn msg"]
        assms(8) book_runs [OF assms(1), where items = items])
  have "wp (import_claimed (booted_deps cfg) conn msg message ctx) ?booked (\<lambda>_ _. False) v" if "?I v" for v
    unfolding import_claimed_def wp_with_locals wp_try_finally wp_try_catch
    by (rule wp_mono [OF body]) (auto simp: wp_simps that core_def intro!: wp_attempt_runs [OF assms(1)])
  moreover have "?I v" if "sys_ns v = sys_ns w" "pg_fetch (order_key conn msg) (sys_xref v) = Some r" for v r
    using that assms(7) by (simp add: ready_def items_def)
  ultimately have "wp (claim_and_import (booted_deps cfg) conn msg message ctx) ?booked (\<lambda>_ _. False) w"
    unfolding claim_and_import_def wp_bnd booted_simps
    by (intro wp_claim_runs [OF assms(1)]) (auto simp: assms(4))
  then show ?thesis
    unfolding ungated_handle [OF assms(2,3)] by (auto simp: wp_def split: prod.splits sum.splits)
qed

text \<open>
  C3: an eligible order is imported, and what is booked is the reference payload. On a system where no
  call fails and NetSuite refuses nothing, take an admitted message for an order without a ledger row that
  is not a webhook's \<open>orders/updated\<close> (C10: the gate ignores those): when Shopify's order is eligible and has
  a plan, the delivery returns \<open>imported\<close>, and NetSuite's record under the order's GID is the planned payload
  for the resolved customer.
\<close>

theorem import_books_plan:
  assumes "no_faults cfg" and "admitted cfg message msg conn" and "\<not> gated msg"
    and "pg_fetch (order_key conn msg) (sys_xref w) = None"
    and "\<And>n. cf_shopify cfg n conn (om_orderGid msg) = Inr so"
    and "checkEligibility so (om_topic msg) no_options = Eligible"
    and "fn_failureQueue (sys_ns w) = []"
    and "\<And>cust. plan conn so cust (cf_lookups cfg conn)
           (\<lambda>s. map_of (fn_itemBySku (sys_ns w)) (nsAccountId conn, s)) = Inr (MapOk (payload cust))"
  shows "\<exists>tid created cust w'. handleOrderMessage (booted_deps cfg) message ctx w
        = (Inr (Imported (connectionId conn) (om_orderGid msg) tid created cust), w')
      \<and> fake_records (sys_ns w') (order_record conn msg) = Some (tid, payload (cr_internalId cust))"
  using import_runs [OF assms] .

section \<open>A run\<close>

lemma balancing_exact:
  assumes "in_cents payload so c" and "co_total c = booked_cents c"
  shows "\<exists>d. applyBalancing payload so DEFAULT_BALANCING = Inr (MapOk (payload, d))"
proof -
  obtain ls d where t: "balancing_totals payload so = Inr (ls, d)" "bd_diff d = Fin (cents 0)"
    using totals_cents [OF assms(1)] assms(2) by fastforce
  show ?thesis
    using cents_tolerance [of 0]
    by (simp add: applyBalancing_def t finish_balancing_def DEFAULT_BALANCING_def del: num_abs.simps)
qed

definition sample_draft :: "string \<Rightarrow> jsobj" where
  "sample_draft cust = [(''subsidiary'', JObj [(''id'', JStr ''2'')]), (''orderStatus'', JObj [(''id'', JStr ''B'')]),
     (''tranId'', JStr ''#1001''), (''externalId'', JStr ''gid://shopify/Order/100''),
     (''tranDate'', JStr ''2026-05-16''), (''currency'', JObj [(''id'', JStr ''1'')]),
     (''paymentMethod'', JNull), (''shipMethod'', JNull), (''entity'', JObj [(''id'', JStr cust)]),
     (''item'', JObj [(''items'', JArr [JObj [(''item'', JObj [(''id'', JStr ''WIDGET-1'')]),
        (''quantity'', JNum (Fin 2)), (''rate'', JNum (Fin 50)), (''amount'', JNum (Fin 100)),
        (''description'', JStr ''Widget'')]])]),
     (''shipping'', JObj [(''items'', JArr [JObj [(''item'', JObj [(''id'', JStr ''900''), (''__resolved'', JBool True)]),
        (''rate'', JNum (Fin 10)), (''amount'', JNum (Fin 10)), (''description'', JStr ''Standard'')]])])]"

definition sample_table :: "string \<Rightarrow> string \<Rightarrow> string option" where
  "sample_table t k = map_of sample_lookups (lookup_row_key t k)"

lemma sample_builds:
  "fst (buildOrderPayload sample_connection makeFakeOrder cust (\<lambda>t k. ret (sample_table t k)) defaultDeriveRegistry None ())
     = Inr (MapOk (sample_draft cust))"
  by code_simp

definition sample_taxed :: "string \<Rightarrow> jsval \<Rightarrow> jsobj" where
  "sample_taxed cust rate = sample_draft cust @ [(''taxsubtotal'', JStr ''10.00''), (''taxitem'', JStr ''State Tax''),
     (''taxrate'', rate)]"

lemma sample_tax: "applyTaxPayloadHeader (sample_draft cust) (buildOrderTax sample_connection makeFakeOrder)
    = sample_taxed cust (JNum (num (1 / 10)))"
  by (simp add: applyTaxPayloadHeader_def buildOrderTax_def sample_connection_def legacyOrderTax_def makeFakeOrder_def
      EMPTY_def sample_taxed_def sample_draft_def oassign_def usd_def)

definition exact_cents :: cents_order where
  "exact_cents = \<lparr>co_total = 12000, co_tax = 1000, co_discounts = 0, co_shipping = [1000], co_lines = [10000]\<rparr>"

lemma taxed_in_cents: "in_cents (sample_taxed cust r) makeFakeOrder exact_cents"
  using sample_parses
  by (auto simp: exact_cents_def in_cents_def total_cents_def makeFakeOrder_def usd_def sample_taxed_def sample_draft_def
      item_lines_def shipping_lines_def oget_Cons line_amounts_def amount_cents_def nullish_def near_def)

definition sample_items :: "string \<Rightarrow> string option" where
  "sample_items s = (if s = ''WIDGET-1'' then Some ''501'' else None)"

definition sample_final :: "string \<Rightarrow> jsobj" where
  "sample_final cust =
     (case resolveItemReferences (table_ns sample_items) ''N1'' None (sample_taxed cust (JNum (num (1 / 10)))) () of
        (Inr (MapOk p), _) \<Rightarrow> p | _ \<Rightarrow> [])"

lemma sample_resolves:
  "fst (resolveItemReferences (table_ns sample_items) ''N1'' None (sample_taxed cust (JNum (num (1 / 10)))) ())
     = Inr (MapOk (sample_final cust))"
  by (simp add: sample_final_def sample_taxed_def sample_draft_def resolveItemReferences_def resolveSublist_def
      sublist_items_def oget_Cons line_kind_of_def nullish_def table_ns_def sample_items_def bnd_def)

lemma sample_plan: "plan sample_connection makeFakeOrder cust sample_table sample_items = Inr (MapOk (sample_final cust))"
proof -
  obtain d where d: "applyBalancing (sample_taxed cust (JNum (num (1 / 10)))) makeFakeOrder DEFAULT_BALANCING
      = Inr (MapOk (sample_taxed cust (JNum (num (1 / 10))), d))"
    using balancing_exact [OF taxed_in_cents] by (auto simp: exact_cents_def booked_cents_def)
  obtain u where "buildOrderPayload sample_connection makeFakeOrder cust (\<lambda>t k. ret (sample_table t k))
      defaultDeriveRegistry None () = (Inr (MapOk (sample_draft cust)), u)"
    using sample_builds [of cust] by (metis prod.collapse)
  moreover have "nsAccountId sample_connection = ''N1''" "defaultItemId sample_connection = None"
    by (simp_all add: sample_connection_def)
  ultimately show ?thesis
    using sample_resolves by (simp add: plan_def plan_effect_def bnd_def sample_tax d)
qed

definition sample_repo :: connections_repo where
  "sample_repo = \<lparr>cr_byShop = [(shopKeyFor ''dev'' ''x.myshopify.com'', sample_connection)],
     cr_byId = [(idKeyFor ''dev'' ''c1'', sample_connection)], cr_all = [sample_connection]\<rparr>"

definition sample_cfg :: cfg where
  "sample_cfg = \<lparr>cf_environment = ''dev'', cf_repo = sample_repo, cf_guest = ''1'', cf_lookups = \<lambda>_. sample_table,
     cf_shopify = \<lambda>_ _ _. Inr makeFakeOrder, cf_container = ''https://acct.blob/outbound'', cf_clock = int,
     cf_fault = \<lambda>_. None\<rparr>"

definition sample_sys :: sys where
  "sample_sys = empty_sys\<lparr>sys_ns := seedItem ''N1'' ''WIDGET-1'' ''501'' empty_fake_ns\<rparr>"

definition sample_order_message :: "string \<Rightarrow> order_message" where
  "sample_order_message topic = \<lparr>om_environment = ''dev'', om_connectionId = ''c1'', om_shopDomain = ''x.myshopify.com'',
     om_topic = topic, om_orderGid = ''gid://shopify/Order/100'', om_envelopeBlobUri = ''https://acct.blob/in/1'',
     om_receivedAt = ''2026-05-16T10:00:00.000Z'', om_source = Some FromWebhook\<rparr>"

section \<open>Messages on the wire\<close>

definition well_formed :: "order_message \<Rightarrow> bool" where
  "well_formed m \<longleftrightarrow> om_environment m \<noteq> [] \<and> om_connectionId m \<noteq> [] \<and> om_shopDomain m \<noteq> [] \<and> om_topic m \<noteq> []
     \<and> om_orderGid m \<noteq> [] \<and> om_envelopeBlobUri m \<noteq> [] \<and> om_receivedAt m \<noteq> []"

lemma message_fields [simp]:
  "get_prop (message_js m) ''schemaVersion'' = JNum (Fin 1)"
  "get_prop (message_js m) ''environment'' = JStr (om_environment m)"
  "get_prop (message_js m) ''connectionId'' = JStr (om_connectionId m)"
  "get_prop (message_js m) ''shopDomain'' = JStr (om_shopDomain m)"
  "get_prop (message_js m) ''topic'' = JStr (om_topic m)"
  "get_prop (message_js m) ''orderGid'' = JStr (om_orderGid m)"
  "get_prop (message_js m) ''envelopeBlobUri'' = JStr (om_envelopeBlobUri m)"
  "get_prop (message_js m) ''receivedAt'' = JStr (om_receivedAt m)"
  by (simp_all add: message_js_def oget_Cons)

lemma message_source: "parse_source (get_prop (message_js m) ''source'') = Some (om_source m)"
proof (cases "om_source m")
  case None
  then show ?thesis by (simp add: message_js_def oget_Cons)
next
  case (Some src)
  then show ?thesis by (cases src) (simp_all add: message_js_def oget_Cons)
qed

lemma message_is_obj [simp]: "is_obj (message_js m)"
  by (simp add: message_js_def)

lemma str_missing: "get_prop v k = JStr t \<Longrightarrow> missing_field v k = None \<longleftrightarrow> t \<noteq> []"
  by (simp add: missing_field_def)

lemma parse_message_js:
  "parseOrderWebhookMessage (message_js m) = Inr m \<longleftrightarrow> well_formed m"
proof -
  have all_set: "first_error (missing_field (message_js m)) required_message_fields = None \<longleftrightarrow> well_formed m"
    unfolding first_error_None required_message_fields_def
    by (simp add: str_missing well_formed_def)
  show ?thesis
  proof (cases "well_formed m")
    case True
    then show ?thesis
      using all_set message_source [of m]
      by (simp add: parseOrderWebhookMessage_def str_field_def num_same_def)
  next
    case False
    then obtain e where "first_error (missing_field (message_js m)) required_message_fields = Some e"
      using all_set by auto
    with False show ?thesis by (simp add: parseOrderWebhookMessage_def num_same_def)
  qed
qed

section \<open>The run of the sample order\<close>

lemma sample_admitted:
  "admitted sample_cfg (message_js (sample_order_message topic)) (sample_order_message topic) sample_connection
     \<longleftrightarrow> topic \<noteq> []"
  by (auto simp: admitted_def parse_message_js well_formed_def sample_order_message_def sample_cfg_def sample_repo_def
      findById_def sample_connection_def)

lemma sample_eligible: "checkEligibility makeFakeOrder ''orders/create'' no_options = Eligible"
  by code_simp

lemma sample_table_items: "(\<lambda>s. map_of (fn_itemBySku (sys_ns sample_sys)) (nsAccountId sample_connection, s)) = sample_items"
  by (auto simp: fun_eq_iff sample_sys_def empty_sys_def seedItem_def empty_fake_ns_def sample_items_def sample_connection_def)

lemma sample_facts:
  "no_faults sample_cfg"
  "admitted sample_cfg (message_js (sample_order_message ''orders/create''))
      (sample_order_message ''orders/create'') sample_connection"
  "\<not> gated (sample_order_message ''orders/create'')"
  "pg_fetch (order_key sample_connection (sample_order_message ''orders/create'')) (sys_xref sample_sys) = None"
  "cf_shopify sample_cfg n sample_connection (om_orderGid (sample_order_message ''orders/create'')) = Inr makeFakeOrder"
  "checkEligibility makeFakeOrder (om_topic (sample_order_message ''orders/create'')) no_options = Eligible"
  "fn_failureQueue (sys_ns sample_sys) = []"
  "plan sample_connection makeFakeOrder cust (cf_lookups sample_cfg sample_connection)
      (\<lambda>s. map_of (fn_itemBySku (sys_ns sample_sys)) (nsAccountId sample_connection, s)) = Inr (MapOk (sample_final cust))"
proof -
  show "plan sample_connection makeFakeOrder cust (cf_lookups sample_cfg sample_connection)
      (\<lambda>s. map_of (fn_itemBySku (sys_ns sample_sys)) (nsAccountId sample_connection, s)) = Inr (MapOk (sample_final cust))"
    using sample_plan [of cust] unfolding sample_table_items by (simp add: sample_cfg_def)
qed (simp_all add: no_faults_def gated_def sample_admitted sample_eligible sample_order_message_def pg_fetch_def
    sample_cfg_def sample_sys_def empty_sys_def seedItem_def empty_fake_ns_def
    sample_admitted [unfolded sample_cfg_def sample_order_message_def])

lemmas sample_imports = import_runs [OF sample_facts]

theorem import_books_plan_witness:
  "\<exists>tid created cust w'. handleOrderMessage (booted_deps sample_cfg) (message_js (sample_order_message ''orders/create''))
       None sample_sys
     = (Inr (Imported (connectionId sample_connection) (om_orderGid (sample_order_message ''orders/create'')) tid created cust), w')
     \<and> fake_records (sys_ns w') (order_record sample_connection (sample_order_message ''orders/create''))
       = Some (tid, sample_final (cr_internalId cust))"
  by (rule import_books_plan [OF sample_facts])

end
