(* ===== verification/NsFrame.thy ===== *)
theory NsFrame
  imports OrderRun
begin

text \<open>
  When a delivery leaves NetSuite alone. Of the calls of the handler only the customer, the item lookup and
  the booking reach NetSuite, so a delivery that is answered from the ledger, or whose order never turns
  out eligible, leaves all of its records as they are, whatever fails on the way.
\<close>

section \<open>Calls that do not reach NetSuite\<close>

named_theorems ns_frame "effects that keep NetSuite"

lemma keeps_call:
  assumes "\<And>t w. sys_ns (set_part t w) = sys_ns w"
  shows "keeps sys_ns (call cfg get_part set_part m)"
  using assms by (simp add: keeps_def call_def Let_def split: option.split prod.split)

lemma ns_on [ns_frame]:
  "keeps sys_ns (on_xref cfg mx)" "keeps sys_ns (on_errors cfg me)" "keeps sys_ns (on_log cfg ml)"
  "keeps sys_ns (on_attempts cfg ma)"
  unfolding on_xref_def on_errors_def on_log_def on_attempts_def by (simp_all add: keeps_call)

lemma ns_ask [ns_frame]: "keeps sys_ns (ask cfg f)" "keeps sys_ns (tick cfg)"
  by (simp_all add: keeps_def ask_def tick_def Let_def)

abbreviation ns_of :: "sys \<times> locals \<Rightarrow> fake_ns" where
  "ns_of s \<equiv> sys_ns (fst s)"

lemma keeps_in_world [ns_frame]: "keeps sys_ns m \<Longrightarrow> keeps ns_of (in_world m)"
  by (auto simp: keeps_def in_world_def split: prod.split) (metis snd_conv)

lemma keeps_assign [ns_frame]: "keeps ns_of (assign f)" "keeps ns_of (finish out)"
  by (auto simp: finish_def assign_def intro!: keeps_rules)

lemma keeps_with_locals:
  assumes "keeps ns_of m"
  shows "keeps sys_ns (with_locals m)"
proof (rule keepsI)
  fix w
  obtain r w' l where "m (w, no_locals) = (r, (w', l))" by (metis surj_pair)
  with keepsD [OF assms this] show "sys_ns (snd (with_locals m w)) = sys_ns w" by (simp add: with_locals_def)
qed

lemma ns_archive [ns_frame]: "keeps ns_of (archive (booted_deps cfg) ctx payload mk set_uri)"
  unfolding archive_def by (auto simp: blob_put_def split: option.split intro!: keeps_rules ns_frame)

lemma ns_log [ns_frame]: "keeps sys_ns (writeSyncLog (booted_deps cfg) conn msg sh)"
  unfolding writeSyncLog_def by (auto intro!: keeps_rules ns_frame)

lemma ns_error [ns_frame]: "keeps sys_ns (record_error (booted_deps cfg) p msg conn flow cls m env)"
  unfolding record_error_def by (auto intro!: keeps_rules ns_frame)

lemma ns_attempt [ns_frame]: "keeps sys_ns (recordAttempt (booted_deps cfg) ctx msg conn l)"
  unfolding recordAttempt_def by (auto split: option.split intro!: keeps_rules ns_frame)

lemma ns_park [ns_frame]: "keeps sys_ns (parkOutcome (booted_deps cfg) p conn msg raw pk)"
  unfolding parkOutcome_def by (auto intro!: keeps_rules ns_frame)

lemma ns_route [ns_frame]: "keeps sys_ns (classifyAndRoute (booted_deps cfg) p conn msg raw err so ctx)"
  unfolding classifyAndRoute_def Let_def booted_simps by (intro keeps_rules ns_frame) simp_all

lemma ns_catch: "keeps ns_of (import_catch (booted_deps cfg) conn msg raw ctx err)"
  unfolding import_catch_def by (auto split: option.split intro!: keeps_rules ns_frame)

lemma ns_answer [ns_frame]: "keeps sys_ns (answer (booted_deps cfg) ctx msg conn out)"
  unfolding answer_def by (auto intro!: keeps_rules ns_frame)

section \<open>Orders that are not eligible\<close>

definition never_eligible :: "cfg \<Rightarrow> connection \<Rightarrow> order_message \<Rightarrow> bool" where
  "never_eligible cfg conn msg \<longleftrightarrow>
     (\<forall>n so. cf_shopify cfg n conn (om_orderGid msg) = Inr so \<longrightarrow> checkEligibility so (om_topic msg) no_options \<noteq> Eligible)"

lemma wp_ask_frame:
  assumes "\<And>n a w'. f n = Inr a \<Longrightarrow> sys_ns w' = sys_ns w \<Longrightarrow> Q a w'" and "\<And>e w'. sys_ns w' = sys_ns w \<Longrightarrow> E e w'"
  shows "wp (ask cfg f) Q E w"
  using assms by (auto simp: wp_def ask_def Let_def split: option.split sum.split)

lemma wp_ns:
  assumes "keeps v m" and "v w = N" and "\<And>a w'. v w' = N \<Longrightarrow> Q a w'" and "\<And>e w'. v w' = N \<Longrightarrow> E e w'"
  shows "wp m Q E w"
  using assms by (intro wp_keeps [OF assms(1)]) simp_all

lemma fetch_ineligible:
  assumes "never_eligible cfg conn msg"
  shows "wp (fetch_eligible (booted_deps cfg) conn msg ctx)
    (\<lambda>r t. (\<exists>out. r = Done out) \<and> ns_of t = ns_of s) (\<lambda>_ t. ns_of t = ns_of s) s"
  using assms unfolding fetch_eligible_def never_eligible_def
  by (auto simp: wp_simps split: eligibility.split
      intro!: wp_ask_frame wp_ns [OF ns_archive] wp_ns [OF ns_on(1)] wp_ns [OF ns_log])

lemma ns_ineligible:
  assumes "never_eligible cfg conn msg"
  shows "keeps sys_ns (process_message (booted_deps cfg) conn msg raw ctx)"
proof -
  have "keeps ns_of (import_body (booted_deps cfg) conn msg raw ctx)"
  proof (rule keepsI)
    fix s
    have "wp (import_body (booted_deps cfg) conn msg raw ctx) (\<lambda>_ t. ns_of t = ns_of s) (\<lambda>_ t. ns_of t = ns_of s) s"
      unfolding import_body_def wp_then_go by (rule wp_mono [OF fetch_ineligible [OF assms]]) auto
    then show "ns_of (snd (import_body (booted_deps cfg) conn msg raw ctx s)) = ns_of s"
      by (auto simp: wp_def split: prod.splits sum.splits)
  qed
  then have "keeps sys_ns (import_claimed (booted_deps cfg) conn msg raw ctx)"
    unfolding import_claimed_def by (auto intro!: keeps_with_locals keeps_rules ns_catch ns_frame)
  then have "keeps sys_ns (claim_and_import (booted_deps cfg) conn msg raw ctx)"
    unfolding claim_and_import_def booted_simps by (auto split: claim_result.split intro!: keeps_rules ns_frame)
  then show ?thesis
    unfolding process_message_def booted_simps by (auto split: option.split intro!: keeps_rules ns_frame)
qed

text \<open>Where no call fails, the order is recorded as ignored, for the predicate's reason.\<close>

lemma wp_ignore_runs:
  assumes "no_faults cfg" and "\<And>r w'. sys_ns w' = sys_ns w \<Longrightarrow> Q r w'"
  shows "wp (on_xref cfg (pg_markIgnored p)) Q E w"
  using assms(2) by (simp add: wp_def on_xref_def call_runs [OF assms(1)] pg_markIgnored_def split: option.splits)

lemma ineligible_runs:
  assumes "no_faults cfg" and "admitted cfg message msg conn" and "\<not> gated msg"
    and "pg_fetch (order_key conn msg) (sys_xref w) = None"
    and "\<And>n. cf_shopify cfg n conn (om_orderGid msg) = Inr so"
    and "checkEligibility so (om_topic msg) no_options = Ineligible reason detail"
  shows "fst (handleOrderMessage (booted_deps cfg) message ctx w)
    = Inr (IgnoredByEligibility (connectionId conn) (om_orderGid msg) reason (non_empty detail))"
proof -
  let ?out = "IgnoredByEligibility (connectionId conn) (om_orderGid msg) reason (non_empty detail)"
  have body: "wp (import_body (booted_deps cfg) conn msg message ctx) (\<lambda>out _. out = ?out) (\<lambda>_ _. False) s" for s
    unfolding import_body_def wp_then_go fetch_eligible_def
    by (auto simp: wp_simps assms(5,6) intro!: wp_ask [OF assms(1)] wp_archive_runs [OF assms(1)] wp_ignore_runs [OF assms(1)]
        wp_log_runs [OF assms(1)])
  have "wp (import_claimed (booted_deps cfg) conn msg message ctx) (\<lambda>out _. out = ?out) (\<lambda>_ _. False) v" for v
    unfolding import_claimed_def wp_with_locals wp_try_finally wp_try_catch
    by (rule wp_mono [OF body]) (auto simp: wp_simps intro!: wp_attempt_runs [OF assms(1)])
  then have "wp (claim_and_import (booted_deps cfg) conn msg message ctx) (\<lambda>out _. out = ?out) (\<lambda>_ _. False) w"
    unfolding claim_and_import_def wp_bnd booted_simps
    by (intro wp_claim_runs [OF assms(1)]) (auto simp: assms(4))
  then show ?thesis
    unfolding ungated_handle [OF assms(2,3)] by (auto simp: wp_def split: prod.splits sum.splits)
qed

section \<open>Orders with a row\<close>

lemma wp_xref_frame:
  assumes "\<And>a t w'. m (sys_xref w) = (Inr a, t) \<Longrightarrow> sys_ns w' = sys_ns w \<Longrightarrow> sys_xref w' = t \<Longrightarrow> Q a w'"
    and "\<And>e w'. sys_ns w' = sys_ns w \<Longrightarrow> E e w'"
  shows "wp (on_xref cfg m) Q E w"
  using assms by (auto simp: wp_def on_xref_def call_def Let_def split: option.split sum.split prod.split)

lemma claimed_row:
  assumes "pg_fetch (ci_parts i) t = Some r" and "pg_claim i t = (Inr c, t')"
  shows "\<nexists>r'. c = Claimed r'"
proof -
  have "c = fst (spec_claim i (\<lambda>p. pg_fetch p t))" using pg_claim_effect [OF assms(2)] by simp
  then show ?thesis
    using assms(1) by (auto simp: spec_claim_def split: xref_status.splits)
qed

lemma ns_recorded:
  assumes "pg_fetch (order_key conn msg) (sys_xref w) = Some r"
  shows "sys_ns (snd (process_message (booted_deps cfg) conn msg raw ctx w)) = sys_ns w"
proof -
  have claim: "wp (claim_and_import (booted_deps cfg) conn msg raw ctx) (\<lambda>_ w'. sys_ns w' = sys_ns w) (\<lambda>_ w'. sys_ns w' = sys_ns w) v"
    if "sys_ns v = sys_ns w" "sys_xref v = sys_xref w" for v
    unfolding claim_and_import_def wp_bnd booted_simps
  proof (rule wp_xref_frame)
    fix c t and w' :: sys
    assume c: "pg_claim \<lparr>ci_parts = order_key conn msg, ci_targetSystem = Netsuite, ci_targetExternal = om_orderGid msg,
        ci_sourceHash = None\<rparr> (sys_xref v) = (Inr c, t)" and w': "sys_ns w' = sys_ns v"
    then show "wp (case c of
          AlreadySynced _ \<Rightarrow> answer (booted_deps cfg) ctx msg conn (OutAlreadySynced (connectionId conn) (om_orderGid msg))
        | AlreadyClaimed _ \<Rightarrow> answer (booted_deps cfg) ctx msg conn (OutAlreadyClaimed (connectionId conn) (om_orderGid msg))
        | ClaimIgnored _ \<Rightarrow> answer (booted_deps cfg) ctx msg conn (OutIgnored (connectionId conn) (om_orderGid msg))
        | Claimed _ \<Rightarrow> import_claimed (booted_deps cfg) conn msg raw ctx)
        (\<lambda>_ w'. sys_ns w' = sys_ns w) (\<lambda>_ w'. sys_ns w' = sys_ns w) w'"
      using claimed_row [OF _ c] assms that
      by (auto split: claim_result.split intro!: wp_ns [OF ns_answer])
  qed (simp add: that(1))
  have "wp (process_message (booted_deps cfg) conn msg raw ctx) (\<lambda>_ w'. sys_ns w' = sys_ns w) (\<lambda>_ w'. sys_ns w' = sys_ns w) w"
    unfolding process_message_def booted_simps wp_if
    by (auto simp: wp_bnd pg_lookup_def assms intro!: claim wp_xref_frame)
  then show ?thesis by (auto simp: wp_def split: prod.splits sum.splits)
qed

end
