(* ===== verification/JsJson.thy ===== *)
theory JsJson
  imports JsValue
begin

text \<open>
  \<open>JSON.parse\<close> on texts as byte strings (UTF-8), the counterpart of \<open>json\<close>: webhook bodies, admin
  requests and queue messages arrive through it. A text that is no JSON (a \<open>SyntaxError\<close>) is \<open>None\<close>.
  The parser runs on fuel; every second nested call sees a shorter text, so twice the length of the text
  is enough (\<open>json_more_fuel\<close>: more fuel changes nothing).
\<close>

section \<open>Strings\<close>

definition json_space :: "char \<Rightarrow> bool" where
  "json_space c \<longleftrightarrow> code c = 32 \<or> code c = 9 \<or> code c = 10 \<or> code c = 13"

definition skip_space :: "string \<Rightarrow> string" where
  "skip_space s = dropWhile json_space s"

definition expect :: "char \<Rightarrow> string \<Rightarrow> string option" where
  "expect c s = (case skip_space s of [] \<Rightarrow> None | d # r \<Rightarrow> if d = c then Some r else None)"

definition simple_escape :: "char \<Rightarrow> char option" where
  "simple_escape d =
     (if code d = 34 \<or> code d = 92 \<or> d = CHR ''/'' then Some d
      else if d = CHR ''b'' then Some (char_of (8 :: nat))
      else if d = CHR ''f'' then Some (char_of (12 :: nat))
      else if d = CHR ''n'' then Some (char_of (10 :: nat))
      else if d = CHR ''r'' then Some (char_of (13 :: nat))
      else if d = CHR ''t'' then Some (char_of (9 :: nat)) else None)"

definition hex4 :: "string \<Rightarrow> nat option" where
  "hex4 s = (if length s = 4 \<and> list_all (\<lambda>c. radix_digit c < 16) s
     then Some (nat (foldl (\<lambda>n c. 16 * n + radix_digit c) 0 s)) else None)"

text \<open>A code point as UTF-8 bytes; a lone surrogate becomes its three bytes.\<close>

definition utf8 :: "nat \<Rightarrow> string" where
  "utf8 n = map char_of
     (if n < 128 then [n]
      else if n < 2048 then [192 + n div 64, 128 + n mod 64]
      else if n < 65536 then [224 + n div 4096, 128 + n div 64 mod 64, 128 + n mod 64]
      else [240 + n div 262144, 128 + n div 4096 mod 64, 128 + n div 64 mod 64, 128 + n mod 64])"

text \<open>\<open>\u\<close> escapes; a high and a low surrogate make one code point. The result is the bytes and their length in the text.\<close>

definition low_surrogate :: "string \<Rightarrow> nat option" where
  "low_surrogate s = (if length s \<ge> 2 \<and> code (s ! 0) = 92 \<and> s ! 1 = CHR ''u'' then
     (case hex4 (take 4 (drop 2 s)) of
        Some l \<Rightarrow> if 56320 \<le> l \<and> l < 57344 then Some l else None
      | None \<Rightarrow> None) else None)"

definition unicode_escape :: "string \<Rightarrow> (string \<times> nat) option" where
  "unicode_escape s = (case hex4 (take 4 s) of
     None \<Rightarrow> None
   | Some h \<Rightarrow> (case (if 55296 \<le> h \<and> h < 56320 then low_surrogate (drop 4 s) else None) of
        Some l \<Rightarrow> Some (utf8 (65536 + (h - 55296) * 1024 + (l - 56320)), 10)
      | None \<Rightarrow> Some (utf8 h, 4)))"

definition put_front :: "string \<Rightarrow> (string \<times> string) option \<Rightarrow> (string \<times> string) option" where
  "put_front p x = map_option (\<lambda>(t, r). (p @ t, r)) x"

text \<open>The characters after an opening quote, and the text after the closing one.\<close>

function json_chars :: "string \<Rightarrow> (string \<times> string) option" where
  "json_chars [] = None"
| "json_chars (c # s) =
     (if code c = 34 then Some ([], s)
      else if code c < 32 then None
      else if code c \<noteq> 92 then put_front [c] (json_chars s)
      else (case s of
          [] \<Rightarrow> None
        | d # t \<Rightarrow>
            (if d = CHR ''u'' then
               (case unicode_escape t of None \<Rightarrow> None | Some (bs, k) \<Rightarrow> put_front bs (json_chars (drop k t)))
             else (case simple_escape d of None \<Rightarrow> None | Some x \<Rightarrow> put_front [x] (json_chars t)))))"
  by pat_completeness auto
termination by (relation "measure length") auto

section \<open>Numbers and literals\<close>

definition number_char :: "char \<Rightarrow> bool" where
  "number_char c \<longleftrightarrow> is_digit c \<or> c \<in> set ''+-.eE''"

definition digits1 :: "string \<Rightarrow> string option" where
  "digits1 s = (if s \<noteq> [] \<and> is_digit (hd s) then Some (dropWhile is_digit s) else None)"

definition exponent_ok :: "string \<Rightarrow> bool" where
  "exponent_ok s \<longleftrightarrow> s = [] \<or> hd s \<in> set ''eE''
     \<and> digits1 (if tl s \<noteq> [] \<and> hd (tl s) \<in> set ''+-'' then tl (tl s) else tl s) = Some []"

definition fraction_ok :: "string \<Rightarrow> bool" where
  "fraction_ok s \<longleftrightarrow> (if s \<noteq> [] \<and> hd s = CHR ''.'' then (case digits1 (tl s) of None \<Rightarrow> False | Some r \<Rightarrow> exponent_ok r)
     else exponent_ok s)"

text \<open>\<open>-?(0|[1-9][0-9]*)(\.[0-9]+)?([eE][+-]?[0-9]+)?\<close>\<close>

definition json_number_ok :: "string \<Rightarrow> bool" where
  "json_number_ok s \<longleftrightarrow> (let t = (if s \<noteq> [] \<and> hd s = CHR ''-'' then tl s else s) in
     if t \<noteq> [] \<and> hd t = CHR ''0'' then fraction_ok (tl t)
     else (case digits1 t of None \<Rightarrow> False | Some r \<Rightarrow> fraction_ok r))"

definition json_number :: "string \<Rightarrow> (jsval \<times> string) option" where
  "json_number s = (let tok = takeWhile number_char s in
     if json_number_ok tok then Some (JNum (number_of_string tok), dropWhile number_char s) else None)"

definition json_literal :: "string \<Rightarrow> (jsval \<times> string) option" where
  "json_literal s =
     (if take 4 s = ''null'' then Some (JNull, drop 4 s)
      else if take 4 s = ''true'' then Some (JBool True, drop 4 s)
      else if take 5 s = ''false'' then Some (JBool False, drop 5 s) else None)"

section \<open>Values\<close>

fun json_value :: "nat \<Rightarrow> string \<Rightarrow> (jsval \<times> string) option"
  and json_items :: "nat \<Rightarrow> string \<Rightarrow> (jsval list \<times> string) option"
  and json_fields :: "nat \<Rightarrow> string \<Rightarrow> (jsobj \<times> string) option" where
  "json_value 0 s = None"
| "json_value (Suc n) s = (case skip_space s of
     [] \<Rightarrow> None
   | c # t \<Rightarrow>
      (if code c = 34 then map_option (\<lambda>(x, r). (JStr x, r)) (json_chars t)
       else if c = CHR ''['' then (case expect (CHR '']'') t of
           Some r \<Rightarrow> Some (JArr [], r)
         | None \<Rightarrow> map_option (\<lambda>(xs, r). (JArr xs, r)) (json_items n t))
       else if c = CHR ''{'' then (case expect (CHR ''}'') t of
           Some r \<Rightarrow> Some (JObj [], r)
         | None \<Rightarrow> map_option (\<lambda>(ps, r). (JObj (oassign [] ps), r)) (json_fields n t))
       else (case json_literal (c # t) of Some x \<Rightarrow> Some x | None \<Rightarrow> json_number (c # t))))"
| "json_items 0 s = None"
| "json_items (Suc n) s = (case json_value n s of
     None \<Rightarrow> None
   | Some (v, r) \<Rightarrow> (case expect (CHR '']'') r of
        Some r' \<Rightarrow> Some ([v], r')
      | None \<Rightarrow> (case expect (CHR '','') r of
          None \<Rightarrow> None
        | Some r' \<Rightarrow> map_option (\<lambda>(vs, q). (v # vs, q)) (json_items n r'))))"
| "json_fields 0 s = None"
| "json_fields (Suc n) s = (case Option.bind (expect (char_of (34 :: nat)) s) json_chars of
     None \<Rightarrow> None
   | Some (k, r0) \<Rightarrow> (case Option.bind (expect (CHR '':'') r0) (json_value n) of
        None \<Rightarrow> None
      | Some (v, r) \<Rightarrow> (case expect (CHR ''}'') r of
          Some r' \<Rightarrow> Some ([(k, v)], r')
        | None \<Rightarrow> (case expect (CHR '','') r of
            None \<Rightarrow> None
          | Some r' \<Rightarrow> map_option (\<lambda>(ps, q). ((k, v) # ps, q)) (json_fields n r')))))"

text \<open>\<open>JSON.parse(s)\<close>\<close>

definition json_parse :: "string \<Rightarrow> jsval option" where
  "json_parse s = (case json_value (Suc (2 * length s)) s of
     Some (v, r) \<Rightarrow> if skip_space r = [] then Some v else None
   | None \<Rightarrow> None)"

section \<open>The fuel is enough\<close>

lemma skip_space_shorter: "length (skip_space s) \<le> length s"
  by (simp add: skip_space_def length_dropWhile_le)

lemma expect_shorter: "expect c s = Some r \<Longrightarrow> length r < length s"
  using skip_space_shorter [of s] by (auto simp: expect_def split: list.splits if_splits)

lemma json_chars_shorter: "json_chars s = Some (t, r) \<Longrightarrow> length r < length s"
proof (induction s arbitrary: t r rule: json_chars.induct)
  case (2 c s)
  then show ?case
    by (fastforce simp: put_front_def split: if_splits list.splits option.splits)
qed simp

lemma json_number_shorter: "json_number s = Some (v, r) \<Longrightarrow> length r < length s"
proof -
  assume run: "json_number s = Some (v, r)"
  have "\<not> json_number_ok []" by (simp add: json_number_ok_def digits1_def)
  then have "takeWhile number_char s \<noteq> []" "r = dropWhile number_char s"
    using run by (auto simp: json_number_def Let_def split: if_splits)
  moreover have "length (takeWhile number_char s) + length (dropWhile number_char s) = length s"
    by (metis length_append takeWhile_dropWhile_id)
  ultimately show ?thesis by (cases "takeWhile number_char s") auto
qed

lemma json_literal_shorter: "json_literal s = Some (v, r) \<Longrightarrow> length r < length s"
  by (cases s) (auto simp: json_literal_def split: if_splits)

lemma json_shorter:
  "json_value n s = Some (v, r) \<Longrightarrow> length r < length s"
  "json_items n s = Some (vs, r) \<Longrightarrow> length r < length s"
  "json_fields n s = Some (ps, r) \<Longrightarrow> length r < length s"
proof (induction n s and n s and n s arbitrary: v r and vs r and ps r rule: json_value_json_items_json_fields.induct)
  case (2 n s)
  show ?case
  proof (cases "skip_space s")
    case (Cons c t)
    then have "length t < length s" using skip_space_shorter [of s] by simp
    then show ?thesis
      using 2 Cons expect_shorter [of _ t] json_chars_shorter [of t] json_literal_shorter [of "c # t"] json_number_shorter [of "c # t"]
      by (fastforce split: if_splits option.splits)
  qed (use 2 in simp)
next
  case (4 n s)
  then show ?case by (fastforce split: option.splits dest!: expect_shorter)
next
  case (6 n s)
  then show ?case
    by (fastforce split: option.splits bind_splits dest!: expect_shorter json_chars_shorter)
qed simp_all

lemma json_more_fuel:
  "2 * length s < n \<Longrightarrow> json_value (Suc n) s = json_value n s"
  "2 * length s + 1 < n \<Longrightarrow> json_items (Suc n) s = json_items n s"
  "2 * length s + 1 < n \<Longrightarrow> json_fields (Suc n) s = json_fields n s"
proof (induction n s and n s and n s rule: json_value_json_items_json_fields.induct)
  case (2 n s)
  show ?case
  proof (cases "skip_space s")
    case (Cons c t)
    then have "length t < length s" using skip_space_shorter [of s] by simp
    with 2 Cons show ?thesis by (auto split: option.splits)
  qed simp
next
  case (4 n s)
  have same: "json_value (Suc n) s = json_value n s" using 4(1,3) by simp
  show ?case
  proof (cases "json_value n s")
    case None
    then show ?thesis by (simp add: same del: json_value.simps)
  next
    case (Some x)
    obtain v r where x: "x = (v, r)" by (cases x)
    have "json_items (Suc n) r' = json_items n r'" if "expect (CHR '']'') r = None" "expect (CHR '','') r = Some r'" for r'
      using 4(2) [OF Some x [symmetric] that] json_shorter(1) [OF Some [unfolded x]] expect_shorter [OF that(2)] 4(3) by simp
    then show ?thesis by (simp add: same Some x del: json_value.simps split: option.splits)
  qed
next
  case (6 n s)
  show ?case
  proof (cases "Option.bind (expect (char_of (34 :: nat)) s) json_chars")
    case (Some y)
    obtain k r0 where y: "y = (k, r0)" by (cases y)
    have r0: "length r0 < length s"
      using Some y by (auto split: bind_splits dest!: expect_shorter json_chars_shorter)
    show ?thesis
    proof (cases "expect (CHR '':'') r0")
      case None
      then show ?thesis by (simp add: Some y)
    next
      case colon: (Some r1)
      have same: "json_value (Suc n) r1 = json_value n r1"
        using 6(1) [OF Some y [symmetric] colon] expect_shorter [OF colon] r0 6(3) by simp
      show ?thesis
      proof (cases "json_value n r1")
        case None
        then show ?thesis by (simp add: Some y colon same del: json_value.simps)
      next
        case val: (Some x)
        obtain v r where x: "x = (v, r)" by (cases x)
        have "json_fields (Suc n) r' = json_fields n r'" if "expect (CHR ''}'') r = None" "expect (CHR '','') r = Some r'" for r'
          using 6(2) [OF Some y [symmetric] _ x [symmetric] that] colon val json_shorter(1) [OF val [unfolded x]] expect_shorter [OF that(2)]
            expect_shorter [OF colon] r0 6(3) by simp
        then show ?thesis by (simp add: Some y colon same val x del: json_value.simps split: option.splits)
      qed
    qed
  qed simp
qed simp_all

section \<open>Reading back what was written\<close>

text \<open>The escapes that \<open>json_char\<close> writes for control characters, read back.\<close>

definition escape_reads :: "nat \<Rightarrow> bool" where
  "escape_reads n = (case json_char (char_of n) of
     [b, d] \<Rightarrow> code b = 92 \<and> d \<noteq> CHR ''u'' \<and> simple_escape d = Some (char_of n)
   | [b, u, h1, h2, h3, h4] \<Rightarrow> code b = 92 \<and> u = CHR ''u'' \<and> hex4 [h1, h2, h3, h4] = Some n
   | _ \<Rightarrow> False)"

lemma control_escapes: "list_all escape_reads [0..<32]"
  by code_simp

lemma json_chars_char: "json_chars (json_char c @ t) = put_front [c] (json_chars t)"
proof (cases "code c < 32")
  case False
  consider "code c = 34" | "code c = 92" | "code c \<noteq> 34" "code c \<noteq> 92" by blast
  then show ?thesis
    using False by cases (auto simp: json_char_def simple_escape_def)
next
  case True
  then have "code c \<in> set [0..<32]" by simp
  then have "escape_reads (code c)" using control_escapes by (metis list_all_iff)
  then consider b d where "json_char c = [b, d]" "code b = 92" "d \<noteq> CHR ''u''" "simple_escape d = Some c"
    | b h1 h2 h3 h4 where "json_char c = [b, CHR ''u'', h1, h2, h3, h4]" "code b = 92"
        "hex4 [h1, h2, h3, h4] = Some (code c)"
    by (auto simp: escape_reads_def split: list.splits)
  then show ?thesis
    using True by cases (simp_all add: unicode_escape_def utf8_def)
qed

lemma json_chars_quote: "json_chars (concat (map json_char s) @ char_of (34 :: nat) # r) = Some (s, r)"
  by (induction s) (simp_all add: json_chars_char put_front_def)

text \<open>
  The values that read back: no \<open>undefined\<close> inside, no key twice, and numbers whose decimal text reads
  as the number (\<open>JSON.stringify\<close> writes those that are not finite as \<open>null\<close>).
\<close>

definition number_reads :: "jsnum \<Rightarrow> bool" where
  "number_reads n \<longleftrightarrow> is_finite_num n \<and> json_number_ok (show_num n) \<and> list_all number_char (show_num n)
     \<and> number_of_string (show_num n) = n"

fun readable :: "jsval \<Rightarrow> bool"
  and readable_items :: "jsval list \<Rightarrow> bool"
  and readable_fields :: "jsobj \<Rightarrow> bool" where
  "readable JUndef = False"
| "readable (JNum n) = number_reads n"
| "readable (JArr xs) = readable_items xs"
| "readable (JObj ps) = (distinct (map fst ps) \<and> readable_fields ps)"
| "readable _ = True"
| "readable_items [] = True"
| "readable_items (x # xs) = (readable x \<and> readable_items xs)"
| "readable_fields [] = True"
| "readable_fields ((k, v) # ps) = (readable v \<and> readable_fields ps)"

definition ends_value :: "string \<Rightarrow> bool" where
  "ends_value r \<longleftrightarrow> r = [] \<or> \<not> number_char (hd r)"

lemma number_head:
  assumes "json_number_ok s"
  obtains c t where "s = c # t" "is_digit c \<or> c = CHR ''-''"
  using assms by (cases s) (auto simp: json_number_ok_def digits1_def Let_def is_digit_def split: if_splits)

lemma json_number_reads:
  assumes "json_number_ok tok" and "list_all number_char tok" and "ends_value r"
  shows "json_number (tok @ r) = Some (JNum (number_of_string tok), r)"
proof -
  have "takeWhile number_char (tok @ r) = tok" "dropWhile number_char (tok @ r) = r"
    using assms(2,3) by (auto simp: takeWhile_append dropWhile_append list_all_iff ends_value_def
        takeWhile_eq_Nil_iff dropWhile_eq_Cons_conv split: if_splits) (cases r; simp)+
  then show ?thesis by (simp add: json_number_def Let_def assms(1))
qed

lemma expect_hit [simp]: "\<not> json_space c \<Longrightarrow> expect c (c # r) = Some r"
  by (simp add: expect_def skip_space_def)

lemma expect_miss: "\<not> json_space d \<Longrightarrow> d \<noteq> c \<Longrightarrow> expect c (d # r) = None"
  by (simp add: expect_def skip_space_def)

lemma punctuation_space [simp]:
  "\<not> json_space (CHR '','')" "\<not> json_space (CHR '']'')" "\<not> json_space (CHR ''}'')" "\<not> json_space (CHR '':'')"
  "\<not> json_space (CHR ''['')" "\<not> json_space (CHR ''{'')" "\<not> json_space (char_of (34 :: nat))"
  "\<not> json_space (CHR 0x22)"
  by (simp_all add: json_space_def)

lemma punctuation_ends [simp]:
  "ends_value (CHR '','' # r)" "ends_value (CHR '']'' # r)" "ends_value (CHR ''}'' # r)"
  by (simp_all add: ends_value_def number_char_def is_digit_def)

lemma ends_value_Nil [simp]: "ends_value []"
  by (simp add: ends_value_def)

lemma quote_char: "char_of (34 :: nat) = CHR 0x22"
  by code_simp

text \<open>How every readable text starts.\<close>

definition value_start :: "char \<Rightarrow> bool" where
  "value_start c \<longleftrightarrow> \<not> json_space c \<and> c \<noteq> CHR '']'' \<and> c \<noteq> CHR ''}'' \<and> c \<noteq> CHR '',''"

lemma json_start:
  assumes "readable v"
  obtains c t where "json v = c # t" "value_start c"
proof (cases v)
  case (JNum n)
  then have "json_number_ok (show_num n)" "json v = show_num n" using assms by (simp_all add: number_reads_def)
  moreover obtain c t where "show_num n = c # t" "is_digit c \<or> c = CHR ''-''" using number_head calculation(1) by blast
  moreover from this have "value_start c" by (auto simp: value_start_def json_space_def is_digit_def)
  ultimately show ?thesis using that by simp
next
  case (JBool b)
  then show ?thesis using that by (cases b) (auto simp: value_start_def json_space_def)
qed (use assms that in \<open>auto simp: json_quote_def value_start_def json_space_def quote_char\<close>)

fun need :: "jsval \<Rightarrow> nat"
  and need_items :: "jsval list \<Rightarrow> nat"
  and need_fields :: "jsobj \<Rightarrow> nat" where
  "need (JArr xs) = Suc (need_items xs)"
| "need (JObj ps) = Suc (need_fields ps)"
| "need _ = 1"
| "need_items [] = 0"
| "need_items (x # xs) = Suc (max (need x) (need_items xs))"
| "need_fields [] = 0"
| "need_fields ((k, v) # ps) = Suc (max (need v) (need_fields ps))"

lemma oassign_distinct: "distinct (map fst (acc @ ps)) \<Longrightarrow> oassign acc ps = acc @ ps"
proof (induction ps arbitrary: acc)
  case (Cons p ps)
  obtain k v where p: "p = (k, v)" by (cases p)
  have "oset k v acc = acc @ [(k, v)]" using Cons.prems p by (induction acc) auto
  then show ?case using Cons.IH [of "acc @ [(k, v)]"] Cons.prems by (simp add: oassign_def p)
qed (simp add: oassign_def)

lemma skip_start [simp]: "value_start c \<Longrightarrow> skip_space (c # r) = c # r"
  by (simp add: skip_space_def value_start_def)

lemma readable_members: "readable_fields ps \<Longrightarrow> json_members ps = map (\<lambda>(k, v). json_quote k @ '':'' @ json v) ps"
  by (induction ps) auto

lemma json_reads:
  "readable v \<Longrightarrow> need v \<le> n \<Longrightarrow> ends_value r \<Longrightarrow> json_value n (json v @ r) = Some (v, r)"
  "readable_items xs \<Longrightarrow> need_items xs \<le> n \<Longrightarrow> xs \<noteq> [] \<Longrightarrow>
     json_items n (join '','' (json_elems xs) @ CHR '']'' # r) = Some (xs, r)"
  "readable_fields ps \<Longrightarrow> need_fields ps \<le> n \<Longrightarrow> ps \<noteq> [] \<Longrightarrow>
     json_fields n (join '','' (json_members ps) @ CHR ''}'' # r) = Some (ps, r)"
proof (induction v and xs and ps arbitrary: n r and n r and n r rule: json_json_elems_json_members.induct)
  case (4 x)
  then obtain c t where ct: "show_num x = c # t" "is_digit c \<or> c = CHR ''-''"
    using number_head by (auto simp: number_reads_def)
  have start: "value_start c" using ct(2) by (auto simp: value_start_def json_space_def is_digit_def)
  obtain m where n: "n = Suc m" using 4 by (cases n) auto
  have "json_literal (c # t @ r) = None" "code c \<noteq> 34" "c \<noteq> CHR ''['' \<and> c \<noteq> CHR ''{''"
    using ct(2) by (auto simp: json_literal_def is_digit_def)
  moreover have "json_number (c # t @ r) = Some (JNum x, r)"
    using json_number_reads [of "show_num x" r] 4 by (simp add: number_reads_def ct(1))
  ultimately show ?case using 4 start by (simp add: n ct(1) number_reads_def)
next
  case (5 s)
  then obtain m where n: "n = Suc m" by (cases n) auto
  have "skip_space (char_of (34 :: nat) # t) = char_of (34 :: nat) # t" for t by (simp add: skip_space_def)
  then show ?case by (simp add: n json_quote_def json_chars_quote)
next
  case (6 xs)
  obtain m where n: "n = Suc m" "need_items xs \<le> m" using 6 by (cases n) auto
  show ?case
  proof (cases xs)
    case Nil
    then show ?thesis by (simp add: n skip_space_def)
  next
    case (Cons x ys)
    obtain c t where c: "json x = c # t" "value_start c" using 6 Cons json_start by (metis readable.simps(3) readable_items.simps(2))
    have "expect (CHR '']'') (join '','' (json_elems xs) @ CHR '']'' # r) = None"
      using c by (cases ys) (auto simp: Cons expect_miss value_start_def)
    then show ?thesis using 6 n Cons by (simp add: skip_space_def)
  qed
next
  case (7 ps)
  obtain m where n: "n = Suc m" "need_fields ps \<le> m" using 7 by (cases n) auto
  show ?case
  proof (cases ps)
    case Nil
    then show ?thesis by (simp add: n skip_space_def)
  next
    case (Cons p qs)
    then have "expect (CHR ''}'') (join '','' (json_members ps) @ CHR ''}'' # r) = None"
      using 7(2) by (cases p; cases qs) (auto simp: readable_members expect_miss json_quote_def quote_char)
    then show ?thesis using 7 n Cons oassign_distinct [of "[]" ps] by (simp add: skip_space_def)
  qed
next
  case (9 x xs)
  obtain m where n: "n = Suc m" "need x \<le> m" "need_items xs \<le> m" using 9 by (cases n) auto
  show ?case
  proof (cases xs)
    case Nil
    then show ?thesis using 9 n by (simp del: json_value.simps)
  next
    case (Cons y ys)
    have "json_value m (json x @ CHR '','' # t) = Some (x, CHR '','' # t)" for t using 9 n by simp
    then show ?thesis using 9 n Cons by (simp add: expect_miss del: json_value.simps)
  qed
next
  case (11 k v ps)
  obtain m where n: "n = Suc m" "need v \<le> m" "need_fields ps \<le> m" using 11 by (cases n) auto
  have v: "v \<noteq> JUndef" using 11 by auto
  have key: "Option.bind (expect (char_of (34 :: nat)) (json_quote k @ t)) json_chars = Some (k, t)" for t
    by (simp add: json_quote_def json_chars_quote)
  show ?case
  proof (cases "json_members ps")
    case Nil
    then have "ps = []" using 11 by (cases ps) (auto simp: readable_members)
    then show ?thesis using 11 n v key by (simp del: json_value.simps)
  next
    case (Cons y ys)
    then have "ps \<noteq> []" by auto
    have "json_value m (json v @ CHR '','' # t) = Some (v, CHR '','' # t)" for t using 11 n v by simp
    then show ?thesis using 11 n v key Cons \<open>ps \<noteq> []\<close> by (simp add: expect_miss del: json_value.simps)
  qed
qed (auto simp: json_literal_def skip_space_def json_space_def Suc_le_eq gr0_conv_Suc)

lemma need_bound:
  "readable v \<Longrightarrow> need v \<le> length (json v)"
  "readable_items xs \<Longrightarrow> need_items xs \<le> Suc (length (join '','' (json_elems xs)))"
  "readable_fields ps \<Longrightarrow> need_fields ps \<le> Suc (length (join '','' (json_members ps)))"
proof (induction v and xs and ps rule: json_json_elems_json_members.induct)
  case (4 x)
  then have "json_number_ok (show_num x)" by (simp add: number_reads_def)
  then obtain c t where "show_num x = c # t" by (rule number_head)
  then show ?case using 4 by (simp add: number_reads_def)
next
  case (9 x xs)
  then show ?case by (cases xs) auto
next
  case (11 k v ps)
  then have "v \<noteq> JUndef" by auto
  with 11 show ?case by (cases ps) (auto simp: readable_members)
qed (auto simp: json_quote_def)

lemma json_roundtrip: "readable v \<Longrightarrow> json_parse (json v) = Some v"
  using json_reads(1) [of v "Suc (2 * length (json v))" "[]"] need_bound(1) [of v]
  by (simp add: json_parse_def skip_space_def del: json_value.simps)

end
