(* ===== verification/OrderProps.thy ===== *)
theory OrderProps
  imports NsFrame JsJson
begin

text \<open>
  What the order import guarantees on the wired system, for every configuration and every pattern of
  failing calls unless a property says otherwise: the outcomes and what they leave in the tables, the
  ledger over any sequence of deliveries, and the two ways an order is lost for good.
\<close>

section \<open>Deliveries\<close>

text \<open>
  A delivery: the configuration in force (which carries the outages), the message body and the
  runtime's attempt context. The queue may deliver anything in any order, also repeatedly.
\<close>

type_synonym a_delivery = "cfg \<times> jsval \<times> attempt_ctx option"

fun deliver :: "a_delivery \<Rightarrow> sys \<Rightarrow> sys" where
  "deliver (cfg, message, ctx) w = snd (handleOrderMessage (booted_deps cfg) message ctx w)"

definition deliveries :: "a_delivery list \<Rightarrow> sys \<Rightarrow> sys" where
  "deliveries ds w = fold deliver ds w"

lemma booted_wired [simp]: "errors_wired (booted_deps cfg)"
  by (simp add: errors_wired_def)

lemma own_record: "order_records ns (order_record conn msg) = fake_records ns (order_record conn msg)"
  by (simp add: order_records_def order_record_def netsuiteOrderRecordType_def)

lemma admitted_delivery:
  assumes "admitted cfg message msg conn"
  shows "wp (handleOrderMessage (booted_deps cfg) message ctx)
    (\<lambda>out w'. delivered (no_faults cfg) True conn msg ctx out (sys_view w) (sys_view w'))
    (\<lambda>e w'. delivery_threw conn msg (sys_view w) (sys_view w')) w"
  using booted.gated_delivery [of cfg conn msg message ctx w]
  by (simp add: admitted_handle [OF assms] no_faults_def)

lemma delivered_result:
  assumes "admitted cfg message msg conn"
    and "handleOrderMessage (booted_deps cfg) message ctx w = (Inr out, w')"
  shows "delivered (no_faults cfg) True conn msg ctx out (sys_view w) (sys_view w')"
  using wp_Inr [OF admitted_delivery [OF assms(1)] assms(2)] .

text \<open>An outcome that is not a short circuit comes from the first delivery of the key.\<close>

fun short_circuit :: "handler_outcome \<Rightarrow> bool" where
  "short_circuit (OutAlreadySynced _ _) = True"
| "short_circuit (OutAlreadyClaimed _ _) = True"
| "short_circuit (OutIgnored _ _) = True"
| "short_circuit _ = False"

lemma first_delivery:
  assumes "delivered reliable wired conn msg ctx out v v'" and "\<not> short_circuit out"
  shows "ov_ledger v (order_key conn msg) = None \<and> settled conn msg wired v out v'"
  using assms by (auto simp: delivered_def existing_answer_def split: option.splits xref_status.splits)

lemma row_stays:
  assumes "pg_fetch p (sys_xref w) = Some r"
  shows "pg_fetch p (sys_xref (deliver d w)) = Some r"
proof -
  obtain cfg message ctx where d: "d = (cfg, message, ctx)" by (cases d)
  have "wp (handleOrderMessage (booted_deps cfg) message ctx)
    (\<lambda>_ w'. ov_ledger (sys_view w') p = Some r) (\<lambda>_ w'. ov_ledger (sys_view w') p = Some r) w"
  proof (rule wp_mono [OF booted.handler_run], goal_cases)
    case (1 out w')
    show ?case
    proof (cases "sys_view w' = sys_view w")
      case False
      with 1 obtain msg conn where
          run: "delivered (\<forall>n. cf_fault cfg n = None) (errors_wired (booted_deps cfg)) conn msg ctx out (sys_view w) (sys_view w')"
        by (auto split: sum.splits)
      show ?thesis
      proof (cases "ov_ledger (sys_view w) (order_key conn msg)")
        case None
        then show ?thesis
          using run assms by (cases "p = order_key conn msg") (simp_all add: delivered_def own_order_def)
      next
        case (Some r0)
        then have "ov_ledger (sys_view w') = ov_ledger (sys_view w)"
          using run by (auto simp: delivered_def)
        then show ?thesis using assms by simp
      qed
    qed (simp add: assms)
  next
    case (2 e w')
    then consider "sys_view w' = sys_view w"
      | msg conn where "ov_ledger (sys_view w) (order_key conn msg) = None" "own_order conn msg (sys_view w) (sys_view w')"
      by (auto simp: delivery_threw_def)
    then show ?case
    proof cases
      case 2
      then show ?thesis using assms by (cases "p = order_key conn msg") (simp_all add: own_order_def)
    qed (simp add: assms)
  qed
  then show ?thesis by (auto simp: d wp_def split: prod.splits sum.splits)
qed

lemma rows_stay:
  "pg_fetch p (sys_xref w) = Some r \<Longrightarrow> pg_fetch p (sys_xref (deliveries ds w)) = Some r"
  unfolding deliveries_def by (induction ds arbitrary: w) (simp_all add: row_stays)

lemma answered_from_row:
  assumes "admitted cfg message msg conn" and "pg_fetch (order_key conn msg) (sys_xref w) = Some r"
    and "handleOrderMessage (booted_deps cfg) message ctx w = (Inr out, w')"
  shows "out = existing_answer conn msg r"
  using delivered_result [OF assms(1,3)] assms(2) by (simp add: delivered_def)

text \<open>
  What any later delivery of the order comes to, after any traffic, under any configuration and outage: it
  leaves every record of NetSuite as it is, and an answer, if it gets to one, is the given one.
\<close>

definition always_answered ::
  "dedup_parts \<Rightarrow> (connection \<Rightarrow> order_message \<Rightarrow> handler_outcome) \<Rightarrow> sys \<Rightarrow> bool" where
  "always_answered p reply w \<longleftrightarrow>
     (\<forall>ds cfg message msg conn ctx. admitted cfg message msg conn \<longrightarrow> order_key conn msg = p \<longrightarrow>
        (case handleOrderMessage (booted_deps cfg) message ctx (deliveries ds w) of (res, w') \<Rightarrow>
           sys_ns w' = sys_ns (deliveries ds w) \<and> (\<forall>out. res = Inr out \<longrightarrow> out = reply conn msg)))"

lemma row_answers:
  assumes "pg_fetch p (sys_xref w) = Some r" and "\<And>conn msg. existing_answer conn msg r = reply conn msg"
  shows "always_answered p reply w"
  unfolding always_answered_def
proof (intro allI impI)
  fix ds cfg message msg conn ctx
  assume adm: "admitted cfg message msg conn" and p: "order_key conn msg = p"
  obtain res w' where run: "handleOrderMessage (booted_deps cfg) message ctx (deliveries ds w) = (res, w')" by force
  have row: "pg_fetch (order_key conn msg) (sys_xref (deliveries ds w)) = Some r"
    using rows_stay [OF assms(1)] p by simp
  have "sys_ns w' = sys_ns (deliveries ds w)"
    using ns_recorded [OF row, of cfg message ctx] run by (simp add: admitted_handle [OF adm])
  moreover have "out = reply conn msg" if "res = Inr out" for out
    using answered_from_row [OF adm row] run that assms(2) by simp
  ultimately show "case handleOrderMessage (booted_deps cfg) message ctx (deliveries ds w) of (res, w') \<Rightarrow>
      sys_ns w' = sys_ns (deliveries ds w) \<and> (\<forall>out. res = Inr out \<longrightarrow> out = reply conn msg)"
    by (simp add: run)
qed

section \<open>Outcomes\<close>

text \<open>
  C1: an order reported as imported is booked. When a delivery ends with \<open>imported\<close> and a NetSuite id,
  whatever failed on the way, the order had no ledger row before, its row is now \<open>synced\<close> with that id,
  and NetSuite holds a record under the order's GID with that id.
\<close>

theorem imported_is_booked:
  assumes "admitted cfg message msg conn"
    and "handleOrderMessage (booted_deps cfg) message ctx w = (Inr (Imported c g tid created cust), w')"
  shows "pg_fetch (order_key conn msg) (sys_xref w) = None
    \<and> (\<exists>r. pg_fetch (order_key conn msg) (sys_xref w') = Some r \<and> xr_status r = Synced \<and> xr_targetId r = Some tid)
    \<and> (\<exists>payload. fake_records (sys_ns w') (order_record conn msg) = Some (tid, payload))"
  using first_delivery [OF delivered_result [OF assms]] by (auto simp: own_record)

theorem imported_is_booked_witness:
  "\<exists>tid (w' :: sys). (\<exists>payload. fake_records (sys_ns w') (order_record sample_connection (sample_order_message ''orders/create''))
       = Some (tid, payload))
     \<and> (\<exists>r. pg_fetch (order_key sample_connection (sample_order_message ''orders/create'')) (sys_xref w') = Some r
       \<and> xr_status r = Synced \<and> xr_targetId r = Some tid)"
proof -
  obtain tid created cust w' where "handleOrderMessage (booted_deps sample_cfg)
      (message_js (sample_order_message ''orders/create'')) None sample_sys
     = (Inr (Imported (connectionId sample_connection) (om_orderGid (sample_order_message ''orders/create'')) tid created cust), w')"
    using sample_imports by blast
  from imported_is_booked [OF sample_facts(2) this] show ?thesis by blast
qed

text \<open>
  C4: a parked order leaves its trace and nothing in NetSuite. When a delivery ends \<open>parked\<close>, the
  ledger row is \<open>error\<close> and the error table has a row of the order's dedup key with the reported class;
  when the park came from the mapping, the balancing or the item resolution, no order record of NetSuite
  has changed.
\<close>

theorem parked_is_recorded:
  assumes "admitted cfg message msg conn"
    and "handleOrderMessage (booted_deps cfg) message ctx w = (Inr (Parked c g stage detail cls), w')"
  shows "row_status (order_key conn msg) (sys_view w') = Some Errored
    \<and> (\<exists>k. cls = Some k \<and> error_recorded (order_key conn msg) k (sys_view w'))
    \<and> (before_booking stage \<longrightarrow> order_records (sys_ns w') = order_records (sys_ns w))"
  using first_delivery [OF delivered_result [OF assms]] by auto

definition unmapped_cfg :: cfg where
  "unmapped_cfg = sample_cfg\<lparr>cf_lookups := \<lambda>_ _ _. None\<rparr>"

abbreviation sample_create :: order_message where
  "sample_create \<equiv> sample_order_message ''orders/create''"

abbreviation sample_update :: order_message where
  "sample_update \<equiv> sample_order_message ''orders/updated''"

lemma sample_parks: "case handleOrderMessage (booted_deps unmapped_cfg) (message_js sample_create) None sample_sys of
    (Inr (Parked c g st d cls), w') \<Rightarrow> st = StMapping \<and> cls = Some UnmappedConstruct | _ \<Rightarrow> False"
  by code_simp

lemma unmapped_admitted: "admitted unmapped_cfg (message_js sample_create) sample_create sample_connection"
proof -
  have "admitted unmapped_cfg m msg conn = admitted sample_cfg m msg conn" for m msg conn
    by (simp add: admitted_def unmapped_cfg_def)
  then show ?thesis using sample_facts(2) by simp
qed

theorem parked_is_recorded_witness:
  "\<exists>w' :: sys. row_status (order_key sample_connection sample_create) (sys_view w') = Some Errored
     \<and> error_recorded (order_key sample_connection sample_create) UnmappedConstruct (sys_view w')
     \<and> order_records (sys_ns w') = order_records (sys_ns sample_sys)"
proof -
  obtain c g d w' where "handleOrderMessage (booted_deps unmapped_cfg) (message_js sample_create) None sample_sys
      = (Inr (Parked c g StMapping d (Some UnmappedConstruct)), w')"
    using sample_parks by (auto split: prod.splits sum.splits handler_outcome.splits)
  from parked_is_recorded [OF unmapped_admitted this] show ?thesis by auto
qed

text \<open>
  C5: an order that is not eligible never reaches NetSuite. When the predicate refuses the order Shopify
  answers with, an admitted message for it leaves every record of NetSuite as it is, its customers
  included, whatever calls fail and however the delivery ends. Where no call fails, the message is not a
  webhook's \<open>orders/updated\<close> and the order has no ledger row, the delivery ends \<open>ignored_by_eligibility\<close> with
  the predicate's reason and the row is \<open>ignored\<close>.
\<close>

theorem ineligible_never_booked:
  assumes "admitted cfg message msg conn" and "\<forall>n. cf_shopify cfg n conn (om_orderGid msg) = Inr so"
    and "checkEligibility so (om_topic msg) no_options = Ineligible reason detail"
    and "handleOrderMessage (booted_deps cfg) message ctx w = (res, w')"
  shows "sys_ns w' = sys_ns w
    \<and> (no_faults cfg \<and> \<not> gated msg \<and> pg_fetch (order_key conn msg) (sys_xref w) = None \<longrightarrow>
        res = Inr (IgnoredByEligibility (connectionId conn) (om_orderGid msg) reason (non_empty detail))
        \<and> row_status (order_key conn msg) (sys_view w') = Some Ignored)"
proof -
  have "never_eligible cfg conn msg" using assms(2,3) by (simp add: never_eligible_def)
  from ns_ineligible [OF this, of message ctx] have "sys_ns w' = sys_ns w"
    using assms(4) unfolding admitted_handle [OF assms(1)] by (rule keepsD)
  moreover have "row_status (order_key conn msg) (sys_view w') = Some Ignored"
    if "res = Inr (IgnoredByEligibility c g why det)" for c g why det
    using first_delivery [OF delivered_result [OF assms(1) assms(4) [unfolded that]]] by simp
  ultimately show ?thesis
    using ineligible_runs [OF _ assms(1) _ _ _ assms(3), of w ctx] assms(2,4) by auto
qed

definition voided_cfg :: cfg where
  "voided_cfg = sample_cfg\<lparr>cf_shopify := \<lambda>_ _ _. Inr (makeFakeOrder\<lparr>so_financialStatus := FVoided\<rparr>)\<rparr>"

theorem ineligible_never_booked_witness:
  "\<exists>w' :: sys. handleOrderMessage (booted_deps voided_cfg) (message_js sample_create) None sample_sys
      = (Inr (IgnoredByEligibility (connectionId sample_connection) (om_orderGid sample_create) Voided None), w')
    \<and> sys_ns w' = sys_ns sample_sys \<and> row_status (order_key sample_connection sample_create) (sys_view w') = Some Ignored"
proof -
  obtain res w' where run: "handleOrderMessage (booted_deps voided_cfg) (message_js sample_create) None sample_sys = (res, w')"
    by force
  have "admitted voided_cfg m msg conn = admitted sample_cfg m msg conn" for m msg conn
    by (simp add: admitted_def voided_cfg_def)
  then have adm: "admitted voided_cfg (message_js sample_create) sample_create sample_connection" using sample_facts(2) by simp
  have order: "\<forall>n. cf_shopify voided_cfg n sample_connection (om_orderGid sample_create) = Inr (makeFakeOrder\<lparr>so_financialStatus := FVoided\<rparr>)"
    by (simp add: voided_cfg_def)
  have voided: "checkEligibility (makeFakeOrder\<lparr>so_financialStatus := FVoided\<rparr>) (om_topic sample_create) no_options = Ineligible Voided None"
    by code_simp
  have "no_faults voided_cfg" using sample_facts(1) by (simp add: no_faults_def voided_cfg_def)
  then show ?thesis
    using ineligible_never_booked [OF adm order voided run] sample_facts(3,4) run by (auto simp: non_empty_def)
qed

text \<open>
  C2: the first delivery decides. A ledger row that exists is the same after any further deliveries, of
  any messages, under any configurations and outages; and every delivery of that order from then on, of a
  message that is admitted (the others change nothing, C7), leaves all of NetSuite's records as they are
  and, if it gets to an answer, answers from the row: no redelivery imports the order again, nor repairs
  its row.
\<close>

theorem ledger_rows_final:
  assumes "pg_fetch p (sys_xref w) = Some r"
  shows "pg_fetch p (sys_xref (deliveries ds w)) = Some r
    \<and> (\<forall>cfg message msg conn ctx. admitted cfg message msg conn \<longrightarrow> order_key conn msg = p \<longrightarrow>
        (case handleOrderMessage (booted_deps cfg) message ctx (deliveries ds w) of (res, w') \<Rightarrow>
           sys_ns w' = sys_ns (deliveries ds w) \<and> (\<forall>out. res = Inr out \<longrightarrow> out = existing_answer conn msg r)))"
  using rows_stay [OF assms, of ds] row_answers [OF assms refl] unfolding always_answered_def by simp

definition sample_row :: xref_row where
  "sample_row = claim_row \<lparr>ci_parts = order_key sample_connection sample_create, ci_targetSystem = Netsuite,
     ci_targetExternal = om_orderGid sample_create, ci_sourceHash = None\<rparr>"

lemma sample_row_parts: "xr_parts sample_row = order_key sample_connection sample_create"
  by (simp add: sample_row_def claim_row_def)

abbreviation stuck_sys :: sys where
  "stuck_sys \<equiv> sample_sys\<lparr>sys_xref := [sample_row]\<rparr>"

lemma stuck_row: "pg_fetch (order_key sample_connection sample_create) (sys_xref stuck_sys) = Some sample_row"
  by (simp add: pg_fetch_def sample_row_parts)

definition busy_sys :: sys where
  "busy_sys = deliveries [(sample_cfg, message_js sample_create, None), (unmapped_cfg, message_js sample_update, None)] stuck_sys"

theorem ledger_rows_final_witness:
  "pg_fetch (order_key sample_connection sample_create) (sys_xref busy_sys) = Some sample_row
    \<and> sys_ns (snd (handleOrderMessage (booted_deps sample_cfg) (message_js sample_create) None busy_sys)) = sys_ns busy_sys"
proof -
  obtain res w' where run: "handleOrderMessage (booted_deps sample_cfg) (message_js sample_create) None busy_sys = (res, w')"
    by force
  note final = ledger_rows_final [OF stuck_row, of "[(sample_cfg, message_js sample_create, None),
    (unmapped_cfg, message_js sample_update, None)]", folded busy_sys_def]
  from final [THEN conjunct2, rule_format, OF sample_facts(2) refl, of None] have "sys_ns w' = sys_ns busy_sys"
    by (simp add: run)
  then show ?thesis using final [THEN conjunct1] by (simp add: run)
qed

section \<open>Messages that are not for this app\<close>

text \<open>
  C7: the handler rejects exactly the messages that are not admitted: a body that does not parse, another
  environment, an unknown or a disabled connection. A rejected message changes nothing, and an admitted
  one is never rejected.
\<close>

theorem rejected_iff_foreign:
  "if \<exists>msg conn. admitted cfg message msg conn
   then \<nexists>reason detail. fst (handleOrderMessage (booted_deps cfg) message ctx w) = Inr (Rejected reason detail)
   else \<exists>reason detail. handleOrderMessage (booted_deps cfg) message ctx w = (Inr (Rejected reason detail), w)"
proof (cases "\<exists>msg conn. admitted cfg message msg conn")
  case True
  then obtain msg conn where adm: "admitted cfg message msg conn" by blast
  have no: "\<not> delivered reliable wired conn msg ctx (Rejected r d) v v'" for reliable wired r d v v'
    by (auto simp: delivered_def existing_answer_def split: option.splits xref_status.splits)
  have "fst (handleOrderMessage (booted_deps cfg) message ctx w) \<noteq> Inr (Rejected r d)" for r d
    using no delivered_result [OF adm, of ctx w "Rejected r d"] by (metis prod.collapse)
  with True show ?thesis by simp
next
  case False
  have "\<exists>reason detail. handleOrderMessage (booted_deps cfg) message ctx w = (Inr (Rejected reason detail), w)"
    using False unfolding handleOrderMessage_def admitted_def
    by (auto split: sum.splits option.splits)
  with False show ?thesis by simp
qed

section \<open>The audit trail\<close>

text \<open>
  C6: every delivery of an admitted message leaves one attempt row. Where no call fails, a delivery with a
  runtime context whose message is for this app (C7: it is not rejected) and that ends with an outcome adds
  exactly one row, for this order, with the delivery count of the runtime and the outcome's verdict.
\<close>

theorem every_delivery_audited:
  assumes "no_faults cfg" and "admitted cfg message msg conn"
    and "handleOrderMessage (booted_deps cfg) message (Some ctx) w = (Inr out, w')"
  shows "\<exists>a. map att_data (sys_attempts w') = map att_data (sys_attempts w) @ [a] \<and> at_orderGid a = om_orderGid msg
    \<and> at_deliveryCount a = ac_deliveryCount ctx \<and> at_outcome a = av_outcome (outcome_verdict out)
    \<and> 0 \<le> at_durationMs a"
  using delivered_result [OF assms(2,3)] assms(1)
  by (auto simp: delivered_def audited_def attempt_row_def Let_def)

definition sample_ctx :: attempt_ctx where
  "sample_ctx = \<lparr>ac_deliveryCount = 3, ac_sbMessageId = None, ac_sbSessionId = None, ac_startedAt = 0\<rparr>"

theorem every_delivery_audited_witness:
  "\<exists>(w' :: sys) a. map att_data (sys_attempts w') = map att_data (sys_attempts sample_sys) @ [a] \<and> at_deliveryCount a = 3
     \<and> at_outcome a = AttImported"
proof -
  obtain tid created cust w' where "handleOrderMessage (booted_deps sample_cfg) (message_js sample_create) (Some sample_ctx) sample_sys
     = (Inr (Imported (connectionId sample_connection) (om_orderGid sample_create) tid created cust), w')"
    using sample_imports by blast
  from every_delivery_audited [OF sample_facts(1,2) this] show ?thesis
    by (auto simp: verdict_def sample_ctx_def)
qed

section \<open>The wire\<close>

lemma message_readable: "readable (message_js m)"
proof -
  have one: "number_reads (Fin 1)" by code_simp
  show ?thesis
  proof (cases "om_source m")
    case None
    then show ?thesis by (simp add: message_js_def opt_prop_def one)
  next
    case (Some src)
    then show ?thesis by (cases src) (simp_all add: message_js_def opt_prop_def one)
  qed
qed

text \<open>
  C8: what a producer enqueues is what the handler reads. A message written as JSON, read back with
  \<open>JSON.parse\<close> and parsed by the handler is the message again, exactly when none of its required fields
  is empty.
\<close>

theorem message_roundtrip:
  "map_option parseOrderWebhookMessage (json_parse (json (message_js m))) = Some (Inr m) \<longleftrightarrow> well_formed m"
  by (simp add: json_roundtrip [OF message_readable] parse_message_js)

end
