(* ===== verification/LostOrders.thy ===== *)
theory LostOrders
  imports OrderProps
begin

text \<open>
  How an order is lost: an error that is meant to be retried, an update that overtakes the create, and a
  failing call after the booking. In each case the ledger row that is left answers every later delivery.
\<close>

definition says_claimed :: "connection \<Rightarrow> order_message \<Rightarrow> handler_outcome" where
  "says_claimed conn msg = OutAlreadyClaimed (connectionId conn) (om_orderGid msg)"

definition says_ignored :: "connection \<Rightarrow> order_message \<Rightarrow> handler_outcome" where
  "says_ignored conn msg = OutIgnored (connectionId conn) (om_orderGid msg)"

section \<open>A retryable error\<close>

lemma wp_ask_fails:
  assumes "f (sys_step w) = Inl e" and "\<And>e w'. core w' = core w \<Longrightarrow> E e w'"
  shows "wp (ask cfg f) Q E w"
  using assms by (auto simp: wp_def ask_def Let_def core_def split: option.splits)

lemma wp_on_errors_runs:
  assumes "\<And>r w'. core w' = core w \<Longrightarrow> Q r w'" and "\<And>e w'. core w' = core w \<Longrightarrow> E e w'"
  shows "wp (on_errors cfg (\<lambda>now. pg_err_record now i)) Q E w"
  using assms by (simp add: wp_def on_errors_def call_def Let_def pg_err_record_def core_def split: option.splits)

lemma wp_error_runs:
  assumes "\<And>w'. core w' = core w \<Longrightarrow> Q () w'" and "\<And>e w'. core w' = core w \<Longrightarrow> E e w'"
  shows "wp (record_error (booted_deps cfg) p msg conn flow cls m env) Q E w"
  using assms
  by (cases "dedupKey p") (auto simp: record_error_def wp_simps wp_ret_fun intro!: wp_on_errors_runs)

text \<open>The row of the running delivery: it stays \<open>pending\<close> until the delivery has thrown.\<close>

definition left_pending :: "dedup_parts \<Rightarrow> sys \<Rightarrow> bool" where
  "left_pending p w \<longleftrightarrow> (\<exists>r. pg_fetch p (sys_xref w) = Some r \<and> xr_status r = Pending)"

lemma left_pending_core: "core w' = core w \<Longrightarrow> left_pending p w \<Longrightarrow> left_pending p w'"
  by (simp add: core_def left_pending_def)

lemma fetch_fails:
  assumes "\<And>n. cf_shopify cfg n conn (om_orderGid msg) = Inl e" and "no_faults cfg" and "left_pending p (fst s)"
  shows "wp (fetch_eligible (booted_deps cfg) conn msg ctx) (\<lambda>_ _. False) (\<lambda>e' t. e' = e \<and> left_pending p (fst t)) s"
proof -
  have "wp (ask cfg (\<lambda>n. cf_shopify cfg n conn (om_orderGid msg))) (\<lambda>_ _. False)
      (\<lambda>e' w. e' = e \<and> left_pending p w) (fst s)"
    using assms by (simp add: wp_def ask_def Let_def no_faults_def left_pending_def)
  then show ?thesis
    unfolding fetch_eligible_def wp_bnd wp_in_world booted_simps by (rule wp_mono) simp_all
qed

lemma route_fails:
  assumes "shouldRetry (classifyHandlerError e)" and "left_pending p v"
  shows "wp (classifyAndRoute (booted_deps cfg) q conn msg raw e so ctx) (\<lambda>_ _. False) (\<lambda>_. left_pending p) v"
  using assms left_pending_core unfolding classifyAndRoute_def Let_def
  by (simp add: wp_simps, intro impI wp_error_runs) (auto simp: wp_simps)

lemma catch_fails:
  assumes "no_faults cfg" and "shouldRetry (classifyHandlerError e)" and "left_pending p (fst s)"
  shows "wp (import_catch (booted_deps cfg) conn msg raw ctx e) (\<lambda>_ _. False) (\<lambda>_ t. left_pending p (fst t)) s"
proof -
  have route: "wp (bnd (read_st (\<lambda>(w, l). lc_order l)) (\<lambda>so. try_catch
         (bnd (in_world (classifyAndRoute (booted_deps cfg) (order_key conn msg) conn msg raw e so ctx)) finish)
         (\<lambda>rethrown. bnd (assign (\<lambda>l. l\<lparr>lc_throwErr := Some rethrown\<rparr>)) (\<lambda>_. throw rethrown))))
      (\<lambda>_ _. False) (\<lambda>_ t. left_pending p (fst t)) t" if "left_pending p (fst t)" for t
    by (simp add: wp_simps, rule wp_mono [OF route_fails [OF assms(2) that]]) simp_all
  show ?thesis
    unfolding import_catch_def wp_bnd [where f = "\<lambda>_. bnd (read_st _) _"]
    by (cases "raw_ns_of e")
      (auto simp: wp_ret wp_bnd wp_assign assms(3) left_pending_core [OF _ assms(3)] split: option.splits
        intro!: route [unfolded wp_bnd] wp_archive_runs [OF assms(1)])
qed

lemma retry_throws:
  assumes "no_faults cfg" and "admitted cfg message msg conn" and "\<not> gated msg"
    and "pg_fetch (order_key conn msg) (sys_xref w) = None"
    and "\<And>n. cf_shopify cfg n conn (om_orderGid msg) = Inl e" and "shouldRetry (classifyHandlerError e)"
  shows "\<exists>e' w'. handleOrderMessage (booted_deps cfg) message ctx w = (Inl e', w') \<and> left_pending (order_key conn msg) w'"
proof -
  let ?pending = "left_pending (order_key conn msg)"
  have body: "wp (import_body (booted_deps cfg) conn msg message ctx) (\<lambda>_ _. False)
      (\<lambda>e' t. e' = e \<and> ?pending (fst t)) s" if "?pending (fst s)" for s
    unfolding import_body_def wp_then_go by (rule wp_mono [OF fetch_fails [OF assms(5,1) that]]) auto
  have attempt: "wp (bnd (read_st snd) (\<lambda>l. in_world (recordAttempt (booted_deps cfg) ctx msg conn l)))
      (\<lambda>_ t. ?pending (fst t)) (\<lambda>_ t. ?pending (fst t)) s" if "?pending (fst s)" for s
    by (simp add: wp_simps, rule wp_attempt_runs [OF assms(1)]) (auto intro: left_pending_core that)
  have "wp (import_claimed (booted_deps cfg) conn msg message ctx) (\<lambda>_ _. False) (\<lambda>_. ?pending) v" if "?pending v" for v
    unfolding import_claimed_def wp_with_locals wp_try_finally wp_try_catch
    by (rule wp_mono [OF body])
      (auto simp: that intro!: wp_mono [OF catch_fails [OF assms(1,6)]] attempt)
  then have "wp (claim_and_import (booted_deps cfg) conn msg message ctx) (\<lambda>_ _. False) (\<lambda>_. ?pending) w"
    unfolding claim_and_import_def wp_bnd booted_simps
    by (intro wp_claim_runs [OF assms(1)]) (auto simp: assms(4) left_pending_def claim_row_def)
  then show ?thesis
    unfolding ungated_handle [OF assms(2,3)] by (auto simp: wp_def split: prod.splits sum.splits)
qed

lemma left_pending_answers:
  assumes "left_pending p w"
  shows "always_answered p says_claimed w"
proof -
  obtain r where "pg_fetch p (sys_xref w) = Some r" "xr_status r = Pending"
    using assms by (auto simp: left_pending_def)
  then show ?thesis by (intro row_answers) (auto simp: existing_answer_def says_claimed_def)
qed

text \<open>
  C9: a transient failure of Shopify loses the order. Take an admitted message, not a webhook's
  \<open>orders/updated\<close>, for an order without a ledger row. When the only failing call is Shopify's, which
  answers with an error the handler means to be retried, the delivery throws, leaves NetSuite's records as
  they are and leaves a \<open>pending\<close> ledger row behind. From then on, after any traffic and also when Shopify
  is back, every delivery of the order that gets to an answer, the queue's redelivery and the catch-up
  poller's message included, is answered \<open>already_claimed\<close> and leaves NetSuite's records as they are.
\<close>

theorem retry_is_answered_claimed:
  assumes "no_faults cfg" and "admitted cfg message msg conn" and "\<not> gated msg"
    and "pg_fetch (order_key conn msg) (sys_xref w) = None"
    and "\<And>n. cf_shopify cfg n conn (om_orderGid msg) = Inl e" and "shouldRetry (classifyHandlerError e)"
  shows "\<exists>e' w'. handleOrderMessage (booted_deps cfg) message ctx w = (Inl e', w')
    \<and> sys_ns w' = sys_ns w \<and> row_status (order_key conn msg) (sys_view w') = Some Pending
    \<and> always_answered (order_key conn msg) says_claimed w'"
proof -
  obtain e' w' where run: "handleOrderMessage (booted_deps cfg) message ctx w = (Inl e', w')"
      "left_pending (order_key conn msg) w'"
    using retry_throws [OF assms, of ctx] by blast
  have "never_eligible cfg conn msg" using assms(5) by (simp add: never_eligible_def)
  from ns_ineligible [OF this, of message ctx] have "sys_ns w' = sys_ns w"
    using run(1) unfolding admitted_handle [OF assms(2)] by (rule keepsD)
  moreover have "row_status (order_key conn msg) (sys_view w') = Some Pending"
    using run(2) by (auto simp: left_pending_def row_status_def)
  ultimately show ?thesis using run left_pending_answers by blast
qed

section \<open>The gate for updates\<close>

lemma wp_lookup_runs:
  assumes "no_faults cfg" and "\<And>w'. core w' = core w \<Longrightarrow> Q (pg_fetch p (sys_xref w)) w'"
  shows "wp (on_xref cfg (pg_lookup p)) Q E w"
  using assms(2) by (simp add: wp_def on_xref_def call_runs [OF assms(1)] pg_lookup_def core_def)

lemma gate_ignores:
  assumes "no_faults cfg" and "admitted cfg message msg conn" and "gated msg"
    and "pg_fetch (order_key conn msg) (sys_xref w) = None"
  shows "\<exists>w'. handleOrderMessage (booted_deps cfg) message ctx w
    = (Inr (IgnoredByEligibility (connectionId conn) (om_orderGid msg) UpdateBeforeCreate None), w') \<and> sys_ns w' = sys_ns w"
proof -
  let ?out = "IgnoredByEligibility (connectionId conn) (om_orderGid msg) UpdateBeforeCreate None"
  have "wp (process_message (booted_deps cfg) conn msg message ctx) (\<lambda>out w'. out = ?out \<and> sys_ns w' = sys_ns w) (\<lambda>_ _. False) w"
    using assms(3,4) unfolding process_message_def gated_def answer_def
    by (auto simp: wp_simps core_def intro!: wp_lookup_runs [OF assms(1)] wp_ignore_runs [OF assms(1)]
        wp_log_runs [OF assms(1)] wp_attempt_runs [OF assms(1)])
  then show ?thesis unfolding admitted_handle [OF assms(2)] by (auto simp: wp_def split: prod.splits sum.splits)
qed

text \<open>
  C10: an update that overtakes the create loses the order. Where no call fails, a webhook's
  \<open>orders/updated\<close> (a message with the source \<open>webhook\<close>, or none) that is admitted and whose order has no
  ledger row yet is ignored: NetSuite's records stay as they are and the row is \<open>ignored\<close>. From then on,
  after any traffic and under any configuration, every delivery of the order that gets to an answer, its
  \<open>orders/create\<close> and the catch-up poller's message included, is answered \<open>ignored\<close> and leaves NetSuite's
  records as they are.
\<close>

theorem early_update_ignores_order:
  assumes "no_faults cfg" and "admitted cfg message msg conn" and "gated msg"
    and "pg_fetch (order_key conn msg) (sys_xref w) = None"
  shows "\<exists>w'. handleOrderMessage (booted_deps cfg) message ctx w
      = (Inr (IgnoredByEligibility (connectionId conn) (om_orderGid msg) UpdateBeforeCreate None), w')
    \<and> sys_ns w' = sys_ns w \<and> row_status (order_key conn msg) (sys_view w') = Some Ignored
    \<and> always_answered (order_key conn msg) says_ignored w'"
proof -
  obtain w' where run: "handleOrderMessage (booted_deps cfg) message ctx w
      = (Inr (IgnoredByEligibility (connectionId conn) (om_orderGid msg) UpdateBeforeCreate None), w')"
      "sys_ns w' = sys_ns w"
    using gate_ignores [OF assms] by blast
  have row: "row_status (order_key conn msg) (sys_view w') = Some Ignored"
    using first_delivery [OF delivered_result [OF assms(2) run(1)]] by simp
  then obtain r where r: "pg_fetch (order_key conn msg) (sys_xref w') = Some r" "xr_status r = Ignored"
    by (auto simp: row_status_def)
  have "always_answered (order_key conn msg) says_ignored w'"
    by (rule row_answers [OF r(1)]) (simp add: existing_answer_def says_ignored_def r(2))
  with run row show ?thesis by blast
qed

section \<open>A failure after the booking\<close>

text \<open>One step of the system, and only one, fails.\<close>

definition one_fault :: "nat \<Rightarrow> js_error \<Rightarrow> cfg \<Rightarrow> bool" where
  "one_fault n e cfg \<longleftrightarrow> cf_fault cfg = (\<lambda>k. if k = n then Some e else None)"

lemma wp_ns_at:
  assumes "one_fault n e cfg" and "sys_step w \<noteq> n" and "m (sys_ns w) = (Inr a, s)"
    and "Q a (w\<lparr>sys_step := Suc (sys_step w), sys_ns := s\<rparr>)"
  shows "wp (on_ns cfg m) Q E w"
  using assms by (simp add: wp_def on_ns_def call_def Let_def one_fault_def)

lemma wp_xref_at:
  assumes "one_fault n e cfg" and "sys_step w \<noteq> n" and "m (sys_xref w) = (Inr a, t)"
    and "Q a (w\<lparr>sys_step := Suc (sys_step w), sys_xref := t\<rparr>)"
  shows "wp (on_xref cfg m) Q E w"
  using assms by (simp add: wp_def on_xref_def call_def Let_def one_fault_def)

lemma wp_log_fails:
  assumes "one_fault (sys_step w) e cfg" and "E e (w\<lparr>sys_step := Suc (sys_step w)\<rparr>)"
  shows "wp (writeSyncLog (booted_deps cfg) conn msg sh) Q E w"
  using assms by (simp add: writeSyncLog_def wp_simps wp_def on_log_def call_def Let_def one_fault_def bnd_def)

lemma wp_tick_now: "wp (tick cfg) Q E w = Q (cf_clock cfg (sys_step w)) (w\<lparr>sys_step := Suc (sys_step w)\<rparr>)"
  by (simp add: wp_def tick_def)

lemma recordSuccess_row:
  assumes "pg_fetch p t = Some r"
  shows "\<exists>r' t'. pg_recordSuccess now p tid ext t = (Inr r', t') \<and> pg_fetch p t' = Some r'"
  using assms by (simp add: pg_recordSuccess_def pg_update_def pg_fetch_pg_set)

lemma book_until_log:
  assumes "one_fault (sys_step w + 4) e cfg" and "fn_failureQueue (sys_ns w) = []"
    and "pg_fetch (order_key conn msg) (sys_xref w) = Some r"
    and "\<And>tid w' l' r'. sys_step w' = sys_step w + 5 \<Longrightarrow>
      fake_records (sys_ns w') (order_record conn msg) = Some (tid, payload) \<Longrightarrow>
      pg_fetch (order_key conn msg) (sys_xref w') = Some r' \<Longrightarrow> E e (w', l')"
  shows "wp (book_order (booted_deps cfg) conn msg None so cust payload) Q E (w, l)"
proof -
  let ?acct = "nsAccountId conn" and ?rt = "netsuiteOrderRecordType conn" and ?key = "order_key conn msg"
  obtain u s where run: "no_upsert fake_ns_ops ?acct ?rt (om_orderGid msg) payload (sys_ns w) = (Inr u, s)"
    using assms(2) by (cases "map_of (fn_store (sys_ns w)) (?acct, ?rt, om_orderGid msg)")
      (auto simp: fake_ns_ops_def fake_upsert_def Let_def)
  have rec: "fake_records s (order_record conn msg) = Some (ur_internalId u, payload)"
    using fake.upsert_ok [OF run] by (simp add: order_record_def)
  let ?now = "cf_clock cfg (Suc (sys_step w))"
  obtain r1 t where suc: "pg_recordSuccess ?now ?key (ur_internalId u) (om_orderGid msg) (sys_xref w) = (Inr r1, t)"
      "pg_fetch ?key t = Some r1"
    using recordSuccess_row [OF assms(3)] by blast
  have resp: "wp (booted.response_part cfg conn msg None u) R E' (w1, l1)"
    if "\<And>l'. R () (w1, l')" for R E' w1 l1
    using that by (simp add: booted.response_part_def wp_simps archive_def split: option.splits)
  have no_arch: "archive deps None p mk f = ret ()" for deps :: "sys order_deps" and p mk f
    by (simp add: archive_def split: option.splits)
  have logged: "one_fault (Suc (Suc (Suc (Suc (sys_step w))))) e cfg"
    using assms(1) by (simp add: eval_nat_numeral)
  have row: "wp (on_xref cfg (pg_recordSuccess ?now ?key (ur_internalId u) (om_orderGid msg))) R E' v"
    if "sys_xref v = sys_xref w" "sys_step v \<noteq> sys_step w + 4"
      "R r1 (v\<lparr>sys_step := Suc (sys_step v), sys_xref := t\<rparr>)" for R E' v
    by (rule wp_xref_at [OF assms(1) that(2), where m = "pg_recordSuccess ?now ?key (ur_internalId u) (om_orderGid msg)"])
      (use that suc in simp_all)
  show ?thesis
    unfolding book_order_def Let_def booted.response_part_def [symmetric]
    apply (simp only: wp_bnd no_arch wp_ret wp_assign booted_simps wp_in_world fst_conv snd_conv)
  proof (rule wp_ns_at [where m = "no_upsert fake_ns_ops ?acct ?rt (om_orderGid msg) payload"])
    show "one_fault (sys_step w + 4) e cfg" by (rule assms(1))
    show "sys_step w \<noteq> sys_step w + 4" by simp
    show "no_upsert fake_ns_ops ?acct ?rt (om_orderGid msg) payload (sys_ns w) = (Inr u, s)" by (rule run)
  qed (auto simp: wp_simps wp_tick_now rec simp del: record_type_of.simps 
      intro!: resp row wp_log_fails [where e = e] logged assms(4) suc(2))
qed

lemma wp_errors_at:
  assumes "one_fault n e cfg" and "sys_step w \<noteq> n"
    and "\<And>r w'. sys_step w' = Suc (sys_step w) \<Longrightarrow> core w' = core w \<Longrightarrow> Q r w'"
  shows "wp (on_errors cfg (\<lambda>now. pg_err_record now i)) Q E w"
  using assms by (simp add: wp_def on_errors_def call_def Let_def one_fault_def pg_err_record_def core_def)

lemma wp_log_at:
  assumes "one_fault n e cfg" and "sys_step w \<noteq> n" and "\<And>w'. core w' = core w \<Longrightarrow> Q () w'"
  shows "wp (writeSyncLog (booted_deps cfg) conn msg sh) Q E w"
  using assms
  by (simp add: writeSyncLog_def wp_simps wp_def on_log_def call_def Let_def one_fault_def bnd_def pure_op_def core_def
      split: prod.splits)

lemma park_after_fault:
  assumes "one_fault n e cfg" and "n < sys_step w" and "pg_fetch (order_key conn msg) (sys_xref w) = Some r"
    and "dedupKey (order_key conn msg) = Inr k"
    and "\<And>out w'. out = Parked (connectionId conn) (om_orderGid msg) (pi_stage pk) (pi_detail pk) (Some (pi_errorClass pk))
      \<Longrightarrow> row_status (order_key conn msg) (sys_view w') = Some Errored \<Longrightarrow> sys_ns w' = sys_ns w \<Longrightarrow> Q out w'"
  shows "wp (parkOutcome (booted_deps cfg) (order_key conn msg) conn msg raw pk) Q E w"
proof -
  obtain t where fail: "pg_recordFailure (order_key conn msg) None (sys_xref w) = (Inr (failed_row None r), t)"
      "pg_fetch (order_key conn msg) t = Some (failed_row None r)"
    using assms(3) by (simp add: pg_recordFailure_def pg_update_def pg_fetch_pg_set)
  have "xr_status (failed_row None r) = Errored" by (simp add: failed_row_def)
  show ?thesis
    unfolding parkOutcome_def wp_bnd booted_simps
  proof (rule wp_xref_at [where m = "pg_recordFailure (order_key conn msg) None"])
    show "one_fault n e cfg" by (rule assms(1))
    show "sys_step w \<noteq> n" using assms(2) by simp
    show "pg_recordFailure (order_key conn msg) None (sys_xref w) = (Inr (failed_row None r), t)" by (rule fail(1))
  qed (use assms(2) fail(2) \<open>xr_status _ = Errored\<close> in
      \<open>auto simp: record_error_def wp_simps wp_ret_fun assms(4) core_def row_status_def
        intro!: wp_errors_at [OF assms(1)] wp_log_at [OF assms(1)] assms(5)\<close>)
qed

lemma catch_after_book:
  assumes "one_fault n e cfg" and "n < sys_step (fst s)" and "pg_fetch (order_key conn msg) (sys_xref (fst s)) = Some r"
    and "dedupKey (order_key conn msg) = Inr k" and "raw_ns_of e = None" and "\<not> shouldRetry (classifyHandlerError e)"
    and "\<And>stage cls out t. out = Parked (connectionId conn) (om_orderGid msg) stage (err_message e) cls
      \<Longrightarrow> row_status (order_key conn msg) (sys_view (fst t)) = Some Errored \<Longrightarrow> sys_ns (fst t) = sys_ns (fst s) \<Longrightarrow> Q out t"
  shows "wp (import_catch (booted_deps cfg) conn msg raw None e) Q E s"
  using assms(2,3,6) unfolding import_catch_def classifyAndRoute_def Let_def
  by (auto simp: wp_simps assms(5) intro!: park_after_fault [OF assms(1)] assms(4) assms(7))

lemma book_then_park:
  assumes "one_fault (sys_step w + 4) e cfg" and "fn_failureQueue (sys_ns w) = []"
    and "pg_fetch (order_key conn msg) (sys_xref w) = Some r" and "dedupKey (order_key conn msg) = Inr k"
    and "raw_ns_of e = None" and "\<not> shouldRetry (classifyHandlerError e)"
  shows "wp (try_catch (book_order (booted_deps cfg) conn msg None so cust payload)
      (import_catch (booted_deps cfg) conn msg raw None))
    (\<lambda>out t. (\<exists>stage cls. out = Parked (connectionId conn) (om_orderGid msg) stage (err_message e) cls)
      \<and> row_status (order_key conn msg) (sys_view (fst t)) = Some Errored
      \<and> (\<exists>tid. fake_records (sys_ns (fst t)) (order_record conn msg) = Some (tid, payload)))
    (\<lambda>_ _. False) (w, l)"
  unfolding wp_try_catch
  by (rule book_until_log [OF assms(1-3)])
    (rule catch_after_book [OF assms(1) _ _ assms(4-6)], auto)

text \<open>
  A failing sync-log write unbooks the order in the ledger only. When the one call that fails is the
  write of the sync log that follows the booking, with an error that is not retried, the delivery ends
  \<open>parked\<close> and the ledger row goes back from \<open>synced\<close> to \<open>error\<close>, while NetSuite holds the record.
\<close>

theorem booked_order_parks:
  assumes "one_fault (sys_step w + 4) e cfg" and "fn_failureQueue (sys_ns w) = []"
    and "pg_fetch (order_key conn msg) (sys_xref w) = Some r" and "dedupKey (order_key conn msg) = Inr k"
    and "raw_ns_of e = None" and "\<not> shouldRetry (classifyHandlerError e)"
  shows "\<exists>stage cls t. try_catch (book_order (booted_deps cfg) conn msg None so cust payload)
      (import_catch (booted_deps cfg) conn msg raw None) (w, l)
      = (Inr (Parked (connectionId conn) (om_orderGid msg) stage (err_message e) cls), t)
    \<and> row_status (order_key conn msg) (sys_view (fst t)) = Some Errored
    \<and> (\<exists>tid. fake_records (sys_ns (fst t)) (order_record conn msg) = Some (tid, payload))"
  using book_then_park [OF assms, of so cust payload raw l] by (auto simp: wp_def split: prod.splits sum.splits)

section \<open>Runs\<close>

definition down_error :: js_error where
  "down_error = plain_error ''x.myshopify.com returned 503: down''"

definition down_cfg :: cfg where
  "down_cfg = sample_cfg\<lparr>cf_shopify := \<lambda>_ _ _. Inl down_error\<rparr>"

lemma down_facts:
  "no_faults down_cfg" "admitted down_cfg (message_js sample_create) sample_create sample_connection"
  "cf_shopify down_cfg n conn gid = Inl down_error" "shouldRetry (classifyHandlerError down_error)"
proof -
  have "admitted down_cfg m msg conn = admitted sample_cfg m msg conn" for m msg conn
    by (simp add: admitted_def down_cfg_def)
  then show "admitted down_cfg (message_js sample_create) sample_create sample_connection" using sample_facts(2) by simp
  show "shouldRetry (classifyHandlerError down_error)" by code_simp
qed (simp_all add: down_cfg_def no_faults_def sample_cfg_def)

theorem retry_is_answered_claimed_witness:
  "\<exists>e' w'. handleOrderMessage (booted_deps down_cfg) (message_js sample_create) None sample_sys = (Inl e', w')
     \<and> sys_ns w' = sys_ns sample_sys
     \<and> row_status (order_key sample_connection sample_create) (sys_view w') = Some Pending
     \<and> always_answered (order_key sample_connection sample_create) says_claimed w'"
  by (rule retry_is_answered_claimed [OF down_facts(1,2) sample_facts(3,4) down_facts(3,4)])

theorem early_update_ignores_order_witness:
  "\<exists>w'. handleOrderMessage (booted_deps sample_cfg) (message_js sample_update) None sample_sys
      = (Inr (IgnoredByEligibility (connectionId sample_connection) (om_orderGid sample_update) UpdateBeforeCreate None), w')
    \<and> sys_ns w' = sys_ns sample_sys
    \<and> row_status (order_key sample_connection sample_update) (sys_view w') = Some Ignored
    \<and> always_answered (order_key sample_connection sample_update) says_ignored w'"
proof (rule early_update_ignores_order)
  show "no_faults sample_cfg" by (rule sample_facts(1))
  show "admitted sample_cfg (message_js sample_update) sample_update sample_connection" by (simp add: sample_admitted)
  show "gated sample_update" by (simp add: gated_def from_webhook_def sample_order_message_def)
  show "pg_fetch (order_key sample_connection sample_update) (sys_xref sample_sys) = None"
    by (simp add: sample_sys_def empty_sys_def pg_fetch_def)
qed

definition db_error :: js_error where
  "db_error = plain_error ''Connection terminated unexpectedly''"

definition log_down_cfg :: cfg where
  "log_down_cfg = sample_cfg\<lparr>cf_fault := \<lambda>k. if k = 4 then Some db_error else None\<rparr>"

theorem booked_order_parks_witness:
  "\<exists>stage cls t. try_catch (book_order (booted_deps log_down_cfg) sample_connection sample_create None makeFakeOrder
        \<lparr>cr_internalId = ''7'', cr_isGuest = False, cr_created = False\<rparr> [(''tranId'', JStr ''#1001'')])
      (import_catch (booted_deps log_down_cfg) sample_connection sample_create (message_js sample_create) None)
      (sample_sys\<lparr>sys_xref := [sample_row]\<rparr>, no_locals)
      = (Inr (Parked (connectionId sample_connection) (om_orderGid sample_create) stage (err_message db_error) cls), t)
    \<and> row_status (order_key sample_connection sample_create) (sys_view (fst t)) = Some Errored
    \<and> (\<exists>tid. fake_records (sys_ns (fst t)) (order_record sample_connection sample_create)
         = Some (tid, [(''tranId'', JStr ''#1001'')]))"
proof (rule booked_order_parks)
  show "one_fault (sys_step (sample_sys\<lparr>sys_xref := [sample_row]\<rparr>) + 4) db_error log_down_cfg"
    by (simp add: one_fault_def log_down_cfg_def sample_sys_def empty_sys_def)
  show "fn_failureQueue (sys_ns (sample_sys\<lparr>sys_xref := [sample_row]\<rparr>)) = []" using sample_facts(7) by simp
  show "pg_fetch (order_key sample_connection sample_create) (sys_xref (sample_sys\<lparr>sys_xref := [sample_row]\<rparr>)) = Some sample_row"
    by (simp add: pg_fetch_def sample_row_parts)
  show "dedupKey (order_key sample_connection sample_create) = Inr ''dev|c1|order|shopify|gid://shopify/Order/100''"
    by code_simp
  show "raw_ns_of db_error = None" by (simp add: db_error_def)
  show "\<not> shouldRetry (classifyHandlerError db_error)" by code_simp
qed

end
