(* ===== verification/Replay.thy ===== *)
theory Replay
  imports OrderHandler JsJson
begin

text \<open>
  The operator's replay of one order: the shared primitive of \<open>packages/core/src/replay/replay.ts\<close> and
  its HTTP surface \<open>apps/functions/src/triggers/admin-replay.ts\<close>. A replay deletes the ledger row of the
  order and publishes a fresh message; it is the only operation that removes a row.
\<close>

section \<open>The primitive\<close>

record replay_request =
  rr_environment :: environment
  rr_connectionId :: string
  rr_orderGid :: string
  rr_topic :: "jsval option"
  rr_force :: bool

datatype replay_outcome =
    Replayed "xref_status option" string
  | RefusedAlreadySynced "string option"
  | ReplayUnknownConnection string

record 'w replay_deps =
  rd_findById :: "environment \<Rightarrow> string \<Rightarrow> ('w, connection option) io"
  rd_xref :: "'w xref_ops"
  rd_enqueue :: "string \<Rightarrow> jsval \<Rightarrow> ('w, unit) io"
  rd_now :: "('w, int) io"

definition replay_key :: "replay_request \<Rightarrow> dedup_parts" where
  "replay_key req = \<lparr>dp_environment = rr_environment req, dp_connectionId = rr_connectionId req,
     dp_entityType = Order, dp_sourceSystem = Shopify, dp_sourceId = rr_orderGid req\<rparr>"

definition replay_uri :: "replay_request \<Rightarrow> int \<Rightarrow> string" where
  "replay_uri req now = ''replay://dpi/'' @ rr_environment req @ ''/'' @ rr_connectionId req @ ''/''
     @ encode_uri_component (rr_orderGid req) @ ''/'' @ toISOString now"

text \<open>
  The body. The HTTP surface passes the topic on as it came, so it need not be a string; with a string
  it is the wire form of a message.
\<close>

definition replay_body :: "replay_request \<Rightarrow> connection \<Rightarrow> int \<Rightarrow> jsval" where
  "replay_body req conn now = JObj [(''schemaVersion'', JNum (Fin 1)),
     (''environment'', JStr (rr_environment req)), (''connectionId'', JStr (rr_connectionId req)),
     (''shopDomain'', JStr (shopifyStore conn)),
     (''topic'', (case rr_topic req of None \<Rightarrow> JStr ''orders/updated'' | Some t \<Rightarrow> t)),
     (''orderGid'', JStr (rr_orderGid req)), (''envelopeBlobUri'', JStr (replay_uri req now)),
     (''receivedAt'', JStr (toISOString now)), (''source'', JStr ''replay'')]"

definition publish_replay ::
  "'w replay_deps \<Rightarrow> replay_request \<Rightarrow> connection \<Rightarrow> xref_status option \<Rightarrow> ('w, replay_outcome) io" where
  "publish_replay deps req conn previous =
     (let session = rr_connectionId req @ '':'' @ rr_orderGid req in
      bnd (rd_now deps) (\<lambda>now.
      bnd (rd_enqueue deps session (replay_body req conn now)) (\<lambda>_.
        ret (Replayed previous session))))"

definition requestReplay :: "'w replay_deps \<Rightarrow> replay_request \<Rightarrow> ('w, replay_outcome) io" where
  "requestReplay deps req =
     bnd (rd_findById deps (rr_environment req) (rr_connectionId req)) (\<lambda>found. case found of
       None \<Rightarrow> ret (ReplayUnknownConnection (rr_connectionId req))
     | Some conn \<Rightarrow>
         bnd (xo_lookup (rd_xref deps) (replay_key req)) (\<lambda>existing. case existing of
           None \<Rightarrow> publish_replay deps req conn None
         | Some r \<Rightarrow>
             (if xr_status r = Synced \<and> \<not> rr_force req then ret (RefusedAlreadySynced (xr_targetId r))
              else bnd (xo_delete (rd_xref deps) (replay_key req)) (\<lambda>_.
                publish_replay deps req conn (Some (xr_status r))))))"

section \<open>The HTTP surface\<close>

record http_response =
  hr_status :: nat
  hr_jsonBody :: jsobj

record 'w admin_replay_deps =
  ar_environment :: environment
  ar_findById :: "environment \<Rightarrow> string \<Rightarrow> ('w, connection option) io"
  ar_xref :: "'w xref_ops option"
  ar_enqueue :: "string \<Rightarrow> jsval \<Rightarrow> ('w, unit) io"
  ar_now :: "('w, int) io"

definition order_gid_prefix :: string where
  "order_gid_prefix = ''gid://shopify/Order/''"

definition all_digits :: "string \<Rightarrow> bool" where
  "all_digits s \<longleftrightarrow> s \<noteq> [] \<and> list_all is_digit s"

fun normalizeOrderGid :: "jsval \<Rightarrow> string option" where
  "normalizeOrderGid (JStr s) =
     (if s = [] then None
      else if starts_with s order_gid_prefix \<and> all_digits (drop (length order_gid_prefix) s) then Some s
      else if all_digits s then Some (order_gid_prefix @ s) else None)"
| "normalizeOrderGid _ = None"

definition bad_request :: "string \<Rightarrow> http_response" where
  "bad_request detail = \<lparr>hr_status = 400, hr_jsonBody = [(''ok'', JBool False), (''reason'', JStr ''bad_request''),
     (''detail'', JStr detail)]\<rparr>"

fun replay_response :: "string \<Rightarrow> replay_outcome \<Rightarrow> http_response" where
  "replay_response cid (Replayed previous session) = \<lparr>hr_status = 202, hr_jsonBody = [(''ok'', JBool True),
     (''outcome'', JStr ''replayed''),
     (''previousStatus'', JStr (case previous of None \<Rightarrow> ''absent'' | Some st \<Rightarrow> xref_status_str st)),
     (''sessionId'', JStr session)]\<rparr>"
| "replay_response cid (RefusedAlreadySynced target) = \<lparr>hr_status = 409, hr_jsonBody = [(''ok'', JBool False),
     (''outcome'', JStr ''refused_already_synced''),
     (''detail'', JStr ''order already imported; pass force=true to re-replay''),
     (''targetId'', (case target of None \<Rightarrow> JNull | Some t \<Rightarrow> JStr t))]\<rparr>"
| "replay_response cid (ReplayUnknownConnection c) = \<lparr>hr_status = 404, hr_jsonBody = [(''ok'', JBool False),
     (''outcome'', JStr ''unknown_connection''), (''connectionId'', JStr cid)]\<rparr>"

text \<open>The fields of the request, or what is wrong with it; a body that is \<open>null\<close> cannot be destructured.\<close>

definition replay_request_of :: "environment \<Rightarrow> jsval \<Rightarrow> js_error + http_response + replay_request" where
  "replay_request_of env v =
     (if nullish v then Inl (plain_error (''Cannot destructure property '' @ quoted ''connectionId'' @ '' of ''
        @ quoted ''parsed'' @ '' as it is null.''))
      else (case get_prop v ''connectionId'' of
          JStr cid \<Rightarrow>
            (if cid = [] then Inr (Inl (bad_request ''connectionId required''))
             else (case normalizeOrderGid (get_prop v ''orderGid'') of
                None \<Rightarrow> Inr (Inl (bad_request ''orderGid required (gid:// or numeric)''))
              | Some gid \<Rightarrow> Inr (Inr \<lparr>rr_environment = env, rr_connectionId = cid, rr_orderGid = gid,
                  rr_topic = (if truthy (get_prop v ''topic'') then Some (get_prop v ''topic'') else None),
                  rr_force = truthy (get_prop v ''force'')\<rparr>)))
        | _ \<Rightarrow> Inr (Inl (bad_request ''connectionId required''))))"

definition handleAdminReplay :: "'w admin_replay_deps \<Rightarrow> string \<Rightarrow> ('w, http_response) io" where
  "handleAdminReplay deps rawBody = (case ar_xref deps of
     None \<Rightarrow> ret \<lparr>hr_status = 503, hr_jsonBody = [(''ok'', JBool False), (''reason'', JStr ''not_ready''),
       (''detail'', JStr ''xref store not wired'')]\<rparr>
   | Some xref \<Rightarrow> (case json_parse rawBody of
       None \<Rightarrow> ret (bad_request ''body is not valid JSON'')
     | Some v \<Rightarrow> (case replay_request_of (ar_environment deps) v of
          Inl e \<Rightarrow> throw e
        | Inr (Inl resp) \<Rightarrow> ret resp
        | Inr (Inr req) \<Rightarrow>
            bnd (requestReplay \<lparr>rd_findById = ar_findById deps, rd_xref = xref, rd_enqueue = ar_enqueue deps,
                rd_now = ar_now deps\<rparr> req)
              (\<lambda>out. ret (replay_response (rr_connectionId req) out)))))"

section \<open>Facts\<close>

lemma digits_of_gid: "all_digits (order_gid_prefix @ s) \<Longrightarrow> False"
  by (simp add: all_digits_def order_gid_prefix_def is_digit_def)

text \<open>A normalised id is the GID of a number, and normalising it again changes nothing.\<close>

lemma normalized_gid:
  "normalizeOrderGid v = Some g \<longleftrightarrow>
     (\<exists>n. all_digits n \<and> g = order_gid_prefix @ n \<and> (v = JStr n \<or> v = JStr g))"
proof (cases "\<exists>s. v = JStr s")
  case True
  then obtain s where v: "v = JStr s" by blast
  show ?thesis
    unfolding v using digits_of_gid
    by (auto simp: starts_with_iff) (auto simp: all_digits_def order_gid_prefix_def is_digit_def starts_with_iff)
qed (cases v; simp)

text \<open>The body of a replay with a textual topic is the wire form of a message from a replay.\<close>

definition replay_message :: "replay_request \<Rightarrow> connection \<Rightarrow> string \<Rightarrow> int \<Rightarrow> order_message" where
  "replay_message req conn topic now = \<lparr>om_environment = rr_environment req, om_connectionId = rr_connectionId req,
     om_shopDomain = shopifyStore conn, om_topic = topic, om_orderGid = rr_orderGid req,
     om_envelopeBlobUri = replay_uri req now, om_receivedAt = toISOString now, om_source = Some FromReplay\<rparr>"

lemma replay_body_message:
  assumes "rr_topic req = None \<and> topic = ''orders/updated'' \<or> rr_topic req = Some (JStr topic)"
  shows "replay_body req conn now = message_js (replay_message req conn topic now)"
  using assms by (auto simp: replay_body_def message_js_def replay_message_def opt_prop_def)

end
