(* ===== verification/Webhook.thy ===== *)
theory Webhook
  imports OrderHandler JsJson
begin

text \<open>
  The webhook receiver, \<open>apps/functions/src/triggers/shopify-webhook.ts\<close>, the HMAC check of
  \<open>packages/shopify-client/src/hmac.ts\<close> and the archive of the raw envelope,
  \<open>adapters/blob-envelope-store.ts\<close>. SHA-256 and the base64 decoder of the runtime are the parameter
  \<open>hmac_lib\<close>.
\<close>

section \<open>The HMAC\<close>

record hmac_lib =
  hl_sha256 :: "string \<Rightarrow> string \<Rightarrow> string" \<comment> \<open>secret, data\<close>
  hl_base64 :: "string \<Rightarrow> string"

definition verifyShopifyHmac :: "hmac_lib \<Rightarrow> string \<Rightarrow> string \<Rightarrow> string \<Rightarrow> bool" where
  "verifyShopifyHmac lib rawBody hmac secret \<longleftrightarrow> hmac \<noteq> [] \<and> secret \<noteq> []
     \<and> (let expected = hl_sha256 lib secret rawBody; provided = hl_base64 lib hmac in
        length provided = length expected \<and> expected = provided)"

section \<open>The envelope archive\<close>

record envelope =
  en_environment :: environment
  en_connectionId :: string
  en_shopDomain :: string
  en_topic :: string
  en_orderGid :: string
  en_hmac :: string
  en_headers :: "(string \<times> string) list"
  en_rawBody :: string
  en_receivedAt :: int

definition envelope_blob_name :: "envelope \<Rightarrow> string" where
  "envelope_blob_name e = (let d = utc_date (en_receivedAt e);
       oid = map safe_char (last (split_on (CHR ''/'') (en_orderGid e)))
     in en_environment e @ ''/'' @ en_connectionId e @ ''/'' @ en_topic e @ ''/'' @ show_int (cv_year d) @ ''/''
        @ pad2 (cv_month d) @ ''/'' @ pad2 (cv_day d) @ ''/'' @ oid @ ''-'' @ path_stamp (en_receivedAt e) @ ''.json'')"

definition envelope_path :: "string \<Rightarrow> string" where
  "envelope_path path = join ''/'' (map encode_uri_component (split_on (CHR ''/'') path))"

text \<open>\<open>upload\<close> is the storage account's answer to writing a blob of a name.\<close>

definition envelope_put :: "string \<Rightarrow> (string \<Rightarrow> string \<Rightarrow> ('w, unit) io) \<Rightarrow> envelope \<Rightarrow> ('w, string) io" where
  "envelope_put container_url upload e = bnd (upload (envelope_blob_name e) (en_rawBody e)) (\<lambda>_.
     ret (container_url @ ''/'' @ envelope_path (envelope_blob_name e)))"

section \<open>The receiver\<close>

record 'w webhook_deps =
  wd_environment :: environment
  wd_findByShopDomain :: "environment \<Rightarrow> string \<Rightarrow> ('w, connection option) io"
  wd_getSecret :: "string \<Rightarrow> ('w, string) io"
  wd_putEnvelope :: "envelope \<Rightarrow> ('w, string) io"
  wd_enqueue :: "string \<Rightarrow> jsval \<Rightarrow> ('w, unit) io"
  wd_now :: "('w, int) io"
  wd_hmac :: hmac_lib

datatype webhook_reason = Enqueued | MissingHeaders | UnknownShop | InvalidHmac | BodyNotJson | BodyMissingId
  | SecretLookupFailed | EnvelopePersistFailed | EnqueueFailed

fun webhook_status :: "webhook_reason \<Rightarrow> nat" where
  "webhook_status Enqueued = 200"
| "webhook_status MissingHeaders = 401"
| "webhook_status UnknownShop = 401"
| "webhook_status InvalidHmac = 401"
| "webhook_status BodyNotJson = 400"
| "webhook_status BodyMissingId = 400"
| "webhook_status SecretLookupFailed = 500"
| "webhook_status EnvelopePersistFailed = 500"
| "webhook_status EnqueueFailed = 500"

record webhook_outcome =
  wo_status :: nat
  wo_reason :: webhook_reason
  wo_connectionId :: "string option"
  wo_orderGid :: "string option"
  wo_envelopeUri :: "string option"

definition outcome_of ::
  "webhook_reason \<Rightarrow> string option \<Rightarrow> string option \<Rightarrow> string option \<Rightarrow> webhook_outcome" where
  "outcome_of r cid gid uri = \<lparr>wo_status = webhook_status r, wo_reason = r, wo_connectionId = cid,
     wo_orderGid = gid, wo_envelopeUri = uri\<rparr>"

record webhook_request =
  wr_rawBody :: string
  wr_headers :: "(string \<times> string) list"

definition header :: "webhook_request \<Rightarrow> string \<Rightarrow> string option" where
  "header req name = non_empty (map_of (wr_headers req) name)"

text \<open>A call whose failure becomes an answer: \<open>try \<dots> catch \<dots> return\<close>.\<close>

definition or_answer :: "('w, 'a) io \<Rightarrow> 'b \<Rightarrow> ('a \<Rightarrow> ('w, 'b) io) \<Rightarrow> ('w, 'b) io" where
  "or_answer m b f = bnd (try_catch (bnd m (\<lambda>a. ret (Some a))) (\<lambda>_. ret None))
     (\<lambda>r. case r of None \<Rightarrow> ret b | Some a \<Rightarrow> f a)"

definition webhook_message :: "environment \<Rightarrow> connection \<Rightarrow> string \<Rightarrow> string \<Rightarrow> string \<Rightarrow> string \<Rightarrow> int \<Rightarrow> order_message" where
  "webhook_message env conn shopDomain topic gid uri receivedAt = \<lparr>om_environment = env,
     om_connectionId = connectionId conn, om_shopDomain = shopDomain, om_topic = topic, om_orderGid = gid,
     om_envelopeBlobUri = uri, om_receivedAt = toISOString receivedAt, om_source = Some FromWebhook\<rparr>"

text \<open>Steps 5 to 8, for a body that came with a valid HMAC.\<close>

definition accept_webhook ::
  "'w webhook_deps \<Rightarrow> webhook_request \<Rightarrow> connection \<Rightarrow> string \<Rightarrow> string \<Rightarrow> string \<Rightarrow> ('w, webhook_outcome) io" where
  "accept_webhook deps req conn shopDomain hmac topic =
     (let cid = Some (connectionId conn) in
      case json_parse (wr_rawBody req) of
        None \<Rightarrow> ret (outcome_of BodyNotJson cid None None)
      | Some parsed \<Rightarrow> (let orderIdRaw = get_prop parsed ''id'' in
          if nullish orderIdRaw \<or> to_str orderIdRaw = [] then ret (outcome_of BodyMissingId cid None None)
          else (let gid = ''gid://shopify/Order/'' @ to_str orderIdRaw in
            bnd (wd_now deps) (\<lambda>receivedAt.
            or_answer (wd_putEnvelope deps \<lparr>en_environment = wd_environment deps,
                en_connectionId = connectionId conn, en_shopDomain = shopDomain, en_topic = topic,
                en_orderGid = gid, en_hmac = hmac, en_headers = wr_headers req, en_rawBody = wr_rawBody req,
                en_receivedAt = receivedAt\<rparr>)
              (outcome_of EnvelopePersistFailed cid (Some gid) None) (\<lambda>uri.
            or_answer (wd_enqueue deps (sessionKeyFor (connectionId conn) gid)
                (message_js (webhook_message (wd_environment deps) conn shopDomain topic gid uri receivedAt)))
              (outcome_of EnqueueFailed cid (Some gid) (Some uri)) (\<lambda>_.
                ret (outcome_of Enqueued cid (Some gid) (Some uri))))))))"

definition handleShopifyWebhook :: "'w webhook_deps \<Rightarrow> webhook_request \<Rightarrow> ('w, webhook_outcome) io" where
  "handleShopifyWebhook deps req =
     (case (header req ''x-shopify-shop-domain'', header req ''x-shopify-hmac-sha256'', header req ''x-shopify-topic'') of
        (Some shopDomain, Some hmac, Some topic) \<Rightarrow>
          bnd (wd_findByShopDomain deps (wd_environment deps) shopDomain) (\<lambda>found. case found of
            None \<Rightarrow> ret (outcome_of UnknownShop None None None)
          | Some conn \<Rightarrow>
             (if \<not> enabled conn then ret (outcome_of UnknownShop (Some (connectionId conn)) None None)
              else or_answer (wd_getSecret deps (shopifyWebhookSecretRef conn))
                (outcome_of SecretLookupFailed (Some (connectionId conn)) None None) (\<lambda>secret.
                if \<not> verifyShopifyHmac (wd_hmac deps) (wr_rawBody req) hmac secret
                  then ret (outcome_of InvalidHmac (Some (connectionId conn)) None None)
                else accept_webhook deps req conn shopDomain hmac topic)))
      | _ \<Rightarrow> ret (outcome_of MissingHeaders None None None))"

section \<open>Facts\<close>

lemma wp_or_answer [wp_simps]:
  "wp (or_answer m b f) Q E w = wp m (\<lambda>a. wp (f a) Q E) (\<lambda>_ w'. Q b w') w"
  by (auto simp: or_answer_def wp_def bnd_def try_catch_def split: prod.splits sum.splits)

end
