(* ===== verification/Catchup.thy ===== *)
theory Catchup
  imports OrderHandler
begin

text \<open>
  The catch-up poller, \<open>apps/functions/src/triggers/order-catchup-poller.ts\<close>: every ten minutes, for
  each enabled connection, one page of the orders updated since the connection's watermark; what the
  ledger has not resolved is published again.
\<close>

record order_summary =
  os_id :: string
  os_updatedAt :: string

record 'w catchup_deps =
  cu_environment :: environment
  cu_listEnabled :: "environment \<Rightarrow> ('w, connection list) io"
  cu_findById :: "environment \<Rightarrow> string \<Rightarrow> ('w, connection option) io"
  cu_xref :: "'w xref_ops option"
  cu_watermark_get :: "(order_ref \<Rightarrow> ('w, watermark_row option) io) option"
  cu_watermark_set :: "order_ref \<Rightarrow> string \<Rightarrow> ('w, watermark_row) io"
  cu_listOrders :: "connection \<Rightarrow> string \<Rightarrow> nat \<Rightarrow> ('w, order_summary list) io"
  cu_enqueue :: "string \<Rightarrow> jsval \<Rightarrow> ('w, unit) io"
  cu_now :: "('w, int) io"
  cu_track :: "telemetry_report \<Rightarrow> 'w \<Rightarrow> 'w"

record catchup_config =
  cc_schedule :: string
  cc_bootstrapLookbackHours :: int
  cc_overlapSecondsOnEmpty :: int
  cc_pageSize :: nat

definition DEFAULT_CATCHUP_CONFIG :: catchup_config where
  "DEFAULT_CATCHUP_CONFIG = \<lparr>cc_schedule = ''0 */10 * * * *'', cc_bootstrapLookbackHours = 24,
     cc_overlapSecondsOnEmpty = 60, cc_pageSize = 50\<rparr>"

definition CATCHUP_FLOW :: string where
  "CATCHUP_FLOW = ''order-catchup''"

datatype catchup_outcome =
    Polled (polled_id: string) (polled_observed: nat) (polled_enqueued: nat) (polled_from: string) (polled_to: string)
  | SkippedNotReady string

definition catchup_key :: "environment \<Rightarrow> string \<Rightarrow> string \<Rightarrow> dedup_parts" where
  "catchup_key env cid gid = \<lparr>dp_environment = env, dp_connectionId = cid, dp_entityType = Order,
     dp_sourceSystem = Shopify, dp_sourceId = gid\<rparr>"

definition catchup_message :: "environment \<Rightarrow> connection \<Rightarrow> string \<Rightarrow> string \<Rightarrow> int \<Rightarrow> order_message" where
  "catchup_message env conn cid gid now = \<lparr>om_environment = env, om_connectionId = cid,
     om_shopDomain = shopifyStore conn, om_topic = ''orders/updated'', om_orderGid = gid,
     om_envelopeBlobUri = ''catchup://dpi/'' @ env @ ''/'' @ cid @ ''/'' @ encode_uri_component gid @ ''/'' @ toISOString now,
     om_receivedAt = toISOString now, om_source = Some FromCatchup\<rparr>"

text \<open>Rows that are settled, \<open>synced\<close> or \<open>ignored\<close>, are left alone.\<close>

definition resolved_row :: "xref_row option \<Rightarrow> bool" where
  "resolved_row r \<longleftrightarrow> (case r of None \<Rightarrow> False | Some x \<Rightarrow> xr_status x = Synced \<or> xr_status x = Ignored)"

definition catchup_one ::
  "'w catchup_deps \<Rightarrow> 'w xref_ops \<Rightarrow> connection \<Rightarrow> string \<Rightarrow> int \<Rightarrow> nat \<Rightarrow> order_summary \<Rightarrow> ('w, nat) io" where
  "catchup_one deps xref conn cid now enqueued summary =
     bnd (xo_lookup xref (catchup_key (cu_environment deps) cid (os_id summary))) (\<lambda>existing.
       if resolved_row existing then ret enqueued
       else bnd (cu_enqueue deps (cid @ '':'' @ os_id summary)
              (message_js (catchup_message (cu_environment deps) conn cid (os_id summary) now)))
            (\<lambda>_. ret (enqueued + 1)))"

definition next_cursor :: "catchup_config \<Rightarrow> int \<Rightarrow> order_summary list \<Rightarrow> string" where
  "next_cursor config now orders = (if orders \<noteq> [] then os_updatedAt (last orders)
     else toISOString (now - cc_overlapSecondsOnEmpty config * 1000))"

text \<open>\<open>existing?.lastCursor ?? \<dots>\<close>\<close>

definition from_cursor :: "catchup_config \<Rightarrow> int \<Rightarrow> watermark_row option \<Rightarrow> string" where
  "from_cursor config now existing = (case Option.bind existing wm_lastCursor of
     Some c \<Rightarrow> c
   | None \<Rightarrow> toISOString (now - cc_bootstrapLookbackHours config * 3600000))"

definition pollOneConnection ::
  "'w catchup_deps \<Rightarrow> catchup_config \<Rightarrow> 'w xref_ops \<Rightarrow> (order_ref \<Rightarrow> ('w, watermark_row option) io) \<Rightarrow> string
   \<Rightarrow> ('w, catchup_outcome) io" where
  "pollOneConnection deps config xref get_mark cid =
     bnd (cu_now deps) (\<lambda>now.
     bnd (cu_findById deps (cu_environment deps) cid) (\<lambda>found. case found of
       None \<Rightarrow> ret (SkippedNotReady cid)
     | Some conn \<Rightarrow>
        (let mark = (cu_environment deps, cid, CATCHUP_FLOW) in
         bnd (get_mark mark) (\<lambda>existing.
         bnd (cu_listOrders deps conn (from_cursor config now existing) (cc_pageSize config)) (\<lambda>orders.
         bnd (fold_eff (catchup_one deps xref conn cid now) 0 orders) (\<lambda>enqueued.
         bnd (cu_watermark_set deps mark (next_cursor config now orders)) (\<lambda>_.
         bnd (modify_st (cu_track deps (TrackCatchupPoll (cu_environment deps) cid (length orders) enqueued))) (\<lambda>_.
           ret (Polled cid (length orders) enqueued (from_cursor config now existing)
             (next_cursor config now orders))))))))))"

definition poll_step ::
  "'w catchup_deps \<Rightarrow> catchup_config \<Rightarrow> catchup_outcome list \<Rightarrow> connection \<Rightarrow> ('w, catchup_outcome list) io" where
  "poll_step deps config results conn = (case (cu_xref deps, cu_watermark_get deps) of
     (Some xref, Some get_mark) \<Rightarrow>
        bnd (pollOneConnection deps config xref get_mark (connectionId conn)) (\<lambda>r. ret (results @ [r]))
   | _ \<Rightarrow> ret (results @ [SkippedNotReady (connectionId conn)]))"

definition pollCatchup :: "'w catchup_deps \<Rightarrow> catchup_config \<Rightarrow> ('w, catchup_outcome list) io" where
  "pollCatchup deps config = bnd (cu_listEnabled deps (cu_environment deps))
     (fold_eff (poll_step deps config) [])"

end
