(* ===== verification/Producers.thy ===== *)
theory Producers
  imports LostOrders Replay Webhook Catchup
begin

text \<open>
  The three producers of order messages on the wired system: the operator's replay, the webhook receiver
  and the catch-up poller, each composed with the import handler that consumes its messages.
\<close>

section \<open>Replay\<close>

definition booted_replay :: "cfg \<Rightarrow> sys replay_deps" where
  "booted_replay cfg = \<lparr>rd_findById = \<lambda>env cid. ret (findById (cf_repo cfg) env cid), rd_xref = booted_xref cfg,
     rd_enqueue = sys_enqueue cfg, rd_now = tick cfg\<rparr>"

definition booted_admin_replay :: "cfg \<Rightarrow> sys admin_replay_deps" where
  "booted_admin_replay cfg = \<lparr>ar_environment = cf_environment cfg,
     ar_findById = \<lambda>env cid. ret (findById (cf_repo cfg) env cid), ar_xref = Some (booted_xref cfg),
     ar_enqueue = sys_enqueue cfg, ar_now = tick cfg\<rparr>"

lemma replay_deps_simps [simp]:
  "rd_findById (booted_replay cfg) env cid = ret (findById (cf_repo cfg) env cid)"
  "xo_lookup (rd_xref (booted_replay cfg)) p = on_xref cfg (pg_lookup p)"
  "xo_delete (rd_xref (booted_replay cfg)) p = on_xref cfg (pg_delete p)"
  "rd_enqueue (booted_replay cfg) = sys_enqueue cfg" "rd_now (booted_replay cfg) = tick cfg"
  by (simp_all add: booted_replay_def booted_xref_def)

lemma wp_enqueue_runs:
  assumes "no_faults cfg"
    and "\<And>w'. core w' = core w \<Longrightarrow> sys_queue w' = sys_queue w @ [(session, body)] \<Longrightarrow> sys_watermarks w' = sys_watermarks w
      \<Longrightarrow> Q () w'"
  shows "wp (sys_enqueue cfg session body) Q E w"
  using assms(2) by (simp add: wp_def sys_enqueue_def call_runs [OF assms(1)] core_def)

lemma pg_fetch_delete: "pg_fetch q (filter (\<lambda>r. xr_parts r \<noteq> p) t) = (if q = p then None else pg_fetch q t)"
  by (induction t) (auto simp: pg_fetch_def)

lemma wp_lookup_frame:
  assumes "no_faults cfg"
    and "\<And>w'. core w' = core w \<Longrightarrow> sys_queue w' = sys_queue w \<Longrightarrow> sys_watermarks w' = sys_watermarks w
      \<Longrightarrow> Q (pg_fetch p (sys_xref w)) w'"
  shows "wp (on_xref cfg (pg_lookup p)) Q E w"
  using assms(2) by (simp add: wp_def on_xref_def call_runs [OF assms(1)] pg_lookup_def core_def)

lemma wp_delete_runs:
  assumes "no_faults cfg"
    and "\<And>w'. sys_ns w' = sys_ns w \<Longrightarrow> sys_queue w' = sys_queue w
      \<Longrightarrow> (\<And>q. pg_fetch q (sys_xref w') = (if q = p then None else pg_fetch q (sys_xref w))) \<Longrightarrow> Q (pg_fetch p (sys_xref w)) w'"
  shows "wp (on_xref cfg (pg_delete p)) Q E w"
  using assms(2) by (simp add: wp_def on_xref_def call_runs [OF assms(1)] pg_delete_def pg_fetch_delete)

lemma wp_tick_frame:
  assumes "\<And>t w'. core w' = core w \<Longrightarrow> sys_queue w' = sys_queue w \<Longrightarrow> sys_watermarks w' = sys_watermarks w \<Longrightarrow> Q t w'"
  shows "wp (tick cfg) Q E w"
  using assms by (simp add: wp_def tick_def core_def)

text \<open>
  An operator's request for an order of a connection this app knows, enabled or not. The topic is the
  request's, or \<open>orders/updated\<close> where it names none; a topic that is not a non-empty string is queued as
  it is, and the delivery of such a message is rejected.
\<close>

definition replayable :: "cfg \<Rightarrow> replay_request \<Rightarrow> connection \<Rightarrow> string \<Rightarrow> bool" where
  "replayable cfg req conn topic \<longleftrightarrow> findById (cf_repo cfg) (rr_environment req) (rr_connectionId req) = Some conn
     \<and> cf_environment cfg = rr_environment req \<and> connectionId conn = rr_connectionId req
     \<and> rr_environment req \<noteq> [] \<and> rr_connectionId req \<noteq> [] \<and> rr_orderGid req \<noteq> [] \<and> shopifyStore conn \<noteq> []
     \<and> (rr_topic req = None \<and> topic = ''orders/updated'' \<or> rr_topic req = Some (JStr topic) \<and> topic \<noteq> [])"

lemma toISOString_nonempty [simp]: "toISOString t \<noteq> []"
  by (simp add: toISOString_def)

lemma replay_runs:
  assumes "no_faults cfg" and "replayable cfg req conn topic"
    and "\<forall>r. pg_fetch (replay_key req) (sys_xref w) = Some r \<longrightarrow> xr_status r \<noteq> Synced \<or> rr_force req"
  shows "wp (requestReplay (booted_replay cfg) req)
    (\<lambda>out w'. out = Replayed (map_option xr_status (pg_fetch (replay_key req) (sys_xref w))) (rr_connectionId req @ '':'' @ rr_orderGid req)
       \<and> (\<exists>now. sys_queue w' = sys_queue w @ [(rr_connectionId req @ '':'' @ rr_orderGid req,
            message_js (replay_message req conn topic now))])
       \<and> sys_ns w' = sys_ns w
       \<and> (\<forall>q. pg_fetch q (sys_xref w') = (if q = replay_key req then None else pg_fetch q (sys_xref w))))
    (\<lambda>_ _. False) w"
proof -
  have conn: "findById (cf_repo cfg) (rr_environment req) (rr_connectionId req) = Some conn"
    using assms(2) by (simp add: replayable_def)
  have body: "replay_body req conn now = message_js (replay_message req conn topic now)" for now
    by (rule replay_body_message) (use assms(2) in \<open>auto simp: replayable_def\<close>)
  show ?thesis
    using assms(3) unfolding requestReplay_def publish_replay_def Let_def
    by (auto simp: wp_simps conn body core_def split: option.splits
        intro!: wp_lookup_frame [OF assms(1)] wp_delete_runs [OF assms(1)] wp_tick_frame wp_enqueue_runs [OF assms(1)])
      (rule exI, rule refl)+
qed

lemma replay_parses:
  assumes "replayable cfg req conn topic"
  shows "parseOrderWebhookMessage (message_js (replay_message req conn topic now)) = Inr (replay_message req conn topic now)"
  using assms by (auto simp: parse_message_js well_formed_def replay_message_def replayable_def replay_uri_def)

lemma replay_fields [simp]:
  "om_environment (replay_message req conn topic now) = rr_environment req"
  "om_connectionId (replay_message req conn topic now) = rr_connectionId req"
  "om_orderGid (replay_message req conn topic now) = rr_orderGid req"
  "om_topic (replay_message req conn topic now) = topic"
  "om_source (replay_message req conn topic now) = Some FromReplay"
  by (simp_all add: replay_message_def)

lemma replay_delivered:
  assumes "replayable cfg req conn topic"
  shows "enabled conn \<Longrightarrow> admitted cfg (message_js (replay_message req conn topic now)) (replay_message req conn topic now) conn"
    and "\<not> gated (replay_message req conn topic now)"
    and "order_key conn (replay_message req conn topic now) = replay_key req"
    and "\<not> enabled conn \<Longrightarrow>
      handleOrderMessage (booted_deps cfg) (message_js (replay_message req conn topic now)) ctx w
        = (Inr (Rejected UnknownConnection (''connectionId='' @ rr_connectionId req)), w)"
  using assms replay_parses [OF assms, of now]
  by (simp_all add: admitted_def replayable_def gated_def from_webhook_def order_key_def replay_key_def
      handleOrderMessage_def)

text \<open>
  C11: a replay brings a lost order in, if its connection is enabled. Take a request for a connection this
  app knows, in its environment, with ids and a store that are not empty and with no topic or one that is
  a non-empty text. Where no call fails and NetSuite refuses nothing, the replay of an order whose row is
  not \<open>synced\<close> (or is forced) deletes the row and queues one message; when that message is delivered, the
  connection is enabled and the order is eligible under that topic (\<open>orders/updated\<close> for none) and has a
  plan, the order is imported and NetSuite holds the planned payload. If the connection is disabled, the
  row is gone all the same and the message is rejected.
\<close>

theorem replay_imports:
  assumes "no_faults cfg" and "replayable cfg req conn topic"
    and "\<forall>r. pg_fetch (replay_key req) (sys_xref w) = Some r \<longrightarrow> xr_status r \<noteq> Synced \<or> rr_force req"
    and "\<And>n. cf_shopify cfg n conn (rr_orderGid req) = Inr so"
    and "checkEligibility so topic no_options = Eligible" and "fn_failureQueue (sys_ns w) = []"
    and "\<And>cust. plan conn so cust (cf_lookups cfg conn)
           (\<lambda>s. map_of (fn_itemBySku (sys_ns w)) (nsAccountId conn, s)) = Inr (MapOk (payload cust))"
  shows "\<exists>session body w1.
    requestReplay (booted_replay cfg) req w
      = (Inr (Replayed (map_option xr_status (pg_fetch (replay_key req) (sys_xref w))) session), w1)
    \<and> sys_queue w1 = sys_queue w @ [(session, body)] \<and> pg_fetch (replay_key req) (sys_xref w1) = None
    \<and> (if enabled conn
        then \<exists>tid created cust w2.
          handleOrderMessage (booted_deps cfg) body ctx w1
            = (Inr (Imported (connectionId conn) (rr_orderGid req) tid created cust), w2)
          \<and> fake_records (sys_ns w2) (nsAccountId conn, netsuiteOrderRecordType conn, rr_orderGid req)
            = Some (tid, payload (cr_internalId cust))
        else handleOrderMessage (booted_deps cfg) body ctx w1
            = (Inr (Rejected UnknownConnection (''connectionId='' @ rr_connectionId req)), w1))"
proof -
  obtain now w1 where run: "requestReplay (booted_replay cfg) req w
      = (Inr (Replayed (map_option xr_status (pg_fetch (replay_key req) (sys_xref w))) (rr_connectionId req @ '':'' @ rr_orderGid req)), w1)"
    "sys_queue w1 = sys_queue w @ [(rr_connectionId req @ '':'' @ rr_orderGid req,
        message_js (replay_message req conn topic now))]"
    "sys_ns w1 = sys_ns w" "pg_fetch (replay_key req) (sys_xref w1) = None"
    using replay_runs [OF assms(1-3)] by (auto simp: wp_def split: prod.splits sum.splits)
  let ?m = "replay_message req conn topic now"
  have "\<exists>tid created cust w2. handleOrderMessage (booted_deps cfg) (message_js ?m) ctx w1
      = (Inr (Imported (connectionId conn) (rr_orderGid req) tid created cust), w2)
    \<and> fake_records (sys_ns w2) (nsAccountId conn, netsuiteOrderRecordType conn, rr_orderGid req)
      = Some (tid, payload (cr_internalId cust))" if "enabled conn"
    using import_runs [OF assms(1) replay_delivered(1,2) [OF assms(2), of now], where w = w1 and so = so and payload = payload and ctx = ctx]
      assms(4-7) run(3,4) that by (auto simp: replay_delivered(3) [OF assms(2)] order_record_def)
  then show ?thesis using run(1,2,4) replay_delivered(4) [OF assms(2), of now ctx w1] by auto
qed

text \<open>
  A replay never reopens an imported order by itself. Without \<open>force\<close>, a replay of an order whose row
  is \<open>synced\<close> that returns at all leaves the ledger and the queue as they are, whatever calls fail.
\<close>

theorem replay_keeps_synced:
  assumes "pg_fetch (replay_key req) (sys_xref w) = Some r" and "xr_status r = Synced" and "\<not> rr_force req"
    and "requestReplay (booted_replay cfg) req w = (Inr out, w')"
  shows "(out = RefusedAlreadySynced (xr_targetId r) \<or> out = ReplayUnknownConnection (rr_connectionId req))
    \<and> sys_xref w' = sys_xref w \<and> sys_queue w' = sys_queue w"
proof -
  have "wp (on_xref cfg (pg_lookup (replay_key req))) (\<lambda>found w'. found = Some r \<and> sys_xref w' = sys_xref w
      \<and> sys_queue w' = sys_queue w) (\<lambda>_ _. True) w"
    using assms(1) by (simp add: wp_def on_xref_def call_def Let_def pg_lookup_def split: option.splits)
  then have "wp (requestReplay (booted_replay cfg) req)
      (\<lambda>out w'. (out = RefusedAlreadySynced (xr_targetId r) \<or> out = ReplayUnknownConnection (rr_connectionId req))
        \<and> sys_xref w' = sys_xref w \<and> sys_queue w' = sys_queue w) (\<lambda>_ _. True) w"
    unfolding requestReplay_def
    by (auto simp: wp_simps assms(2,3) split: option.splits elim!: wp_mono)
  from wp_Inr [OF this assms(4)] show ?thesis .
qed

text \<open>
  A replay is not atomic. When the one call that fails is the publication, after the delete, the
  replay throws: the ledger row is gone and nothing is queued, also for the row of an imported order
  that was replayed by force.
\<close>

theorem replay_not_atomic:
  assumes "one_fault (sys_step w + 3) e cfg" and "replayable cfg req conn topic"
    and "pg_fetch (replay_key req) (sys_xref w) = Some r" and "xr_status r \<noteq> Synced \<or> rr_force req"
  shows "\<exists>w'. requestReplay (booted_replay cfg) req w = (Inl e, w')
    \<and> pg_fetch (replay_key req) (sys_xref w') = None \<and> sys_queue w' = sys_queue w"
proof -
  have conn: "findById (cf_repo cfg) (rr_environment req) (rr_connectionId req) = Some conn"
    using assms(2) by (simp add: replayable_def)
  have fault: "cf_fault cfg = (\<lambda>k. if k = sys_step w + 3 then Some e else None)"
    using assms(1) by (simp add: one_fault_def)
  have look: "on_xref cfg (pg_lookup (replay_key req)) w = (Inr (Some r), w\<lparr>sys_step := Suc (sys_step w)\<rparr>)"
    by (simp add: on_xref_def call_def Let_def fault pg_lookup_def assms(3))
  let ?w2 = "w\<lparr>sys_step := Suc (Suc (sys_step w)), sys_xref := filter (\<lambda>r. xr_parts r \<noteq> replay_key req) (sys_xref w)\<rparr>"
  have del: "on_xref cfg (pg_delete (replay_key req)) (w\<lparr>sys_step := Suc (sys_step w)\<rparr>) = (Inr (Some r), ?w2)"
    by (simp add: on_xref_def call_def Let_def fault pg_delete_def assms(3))
  have tick: "tick cfg ?w2 = (Inr (cf_clock cfg (Suc (Suc (sys_step w)))), ?w2\<lparr>sys_step := Suc (Suc (Suc (sys_step w)))\<rparr>)"
    by (simp add: tick_def)
  have publish: "sys_enqueue cfg s b v = (Inl e, v\<lparr>sys_step := Suc (sys_step v)\<rparr>)"
    if "sys_step v = Suc (Suc (Suc (sys_step w)))" for s b v
    using that by (simp add: sys_enqueue_def call_def Let_def fault eval_nat_numeral)
  have "requestReplay (booted_replay cfg) req w = (Inl e, ?w2\<lparr>sys_step := Suc (Suc (Suc (Suc (sys_step w))))\<rparr>)"
    unfolding requestReplay_def publish_replay_def Let_def replay_deps_simps bnd_ret conn option.case
    using assms(4) by (simp add: bnd_app look del tick publish)
  then show ?thesis by (simp add: pg_fetch_delete)
qed

definition sample_request :: replay_request where
  "sample_request = \<lparr>rr_environment = ''dev'', rr_connectionId = ''c1'', rr_orderGid = ''gid://shopify/Order/100'',
     rr_topic = None, rr_force = False\<rparr>"

lemma sample_replayable: "replayable sample_cfg sample_request sample_connection ''orders/updated''"
  by (simp add: replayable_def sample_request_def sample_cfg_def sample_repo_def findById_def sample_connection_def)

lemma sample_replay_key: "replay_key sample_request = order_key sample_connection sample_create"
  by (simp add: replay_key_def sample_request_def order_key_def sample_order_message_def sample_connection_def)

lemma sample_row_pending: "xr_status sample_row = Pending"
  by (simp add: sample_row_def claim_row_def)

lemma sample_enabled: "enabled sample_connection"
  by (simp add: sample_connection_def)

theorem replay_imports_witness:
  "\<exists>session body w1 tid created cust w2.
    requestReplay (booted_replay sample_cfg) sample_request stuck_sys
      = (Inr (Replayed (Some Pending) session), w1)
    \<and> sys_queue w1 = sys_queue stuck_sys @ [(session, body)]
    \<and> handleOrderMessage (booted_deps sample_cfg) body None w1
      = (Inr (Imported (connectionId sample_connection) (rr_orderGid sample_request) tid created cust), w2)
    \<and> fake_records (sys_ns w2) (nsAccountId sample_connection, netsuiteOrderRecordType sample_connection, rr_orderGid sample_request)
      = Some (tid, sample_final (cr_internalId cust))"
proof -
  have "pg_fetch (replay_key sample_request) (sys_xref stuck_sys) = Some sample_row"
    unfolding sample_replay_key by (rule stuck_row)
  moreover have "checkEligibility makeFakeOrder ''orders/updated'' no_options = Eligible" by code_simp
  ultimately show ?thesis
    using replay_imports [OF sample_facts(1) sample_replayable, of stuck_sys makeFakeOrder sample_final None]
      sample_facts(5,7,8) sample_row_pending sample_enabled by (simp add: sample_request_def sample_order_message_def) blast
qed

definition sample_synced :: xref_row where
  "sample_synced = synced_row 0 ''ns_1'' ''gid://shopify/Order/100'' sample_row"

theorem replay_keeps_synced_witness:
  "\<exists>out w'. requestReplay (booted_replay sample_cfg) sample_request (sample_sys\<lparr>sys_xref := [sample_synced]\<rparr>) = (Inr out, w')
     \<and> sys_xref w' = [sample_synced] \<and> sys_queue w' = []"
proof -
  let ?w = "sample_sys\<lparr>sys_xref := [sample_synced]\<rparr>"
  have row: "pg_fetch (replay_key sample_request) (sys_xref ?w) = Some sample_synced" "xr_status sample_synced = Synced"
    unfolding sample_replay_key by (simp_all add: pg_fetch_def sample_synced_def sample_row_parts synced_row_def)
  have "wp (requestReplay (booted_replay sample_cfg) sample_request) (\<lambda>_ _. True) (\<lambda>_ _. False) ?w"
    using row sample_replayable unfolding requestReplay_def replayable_def
    by (auto simp: wp_simps sample_request_def intro!: wp_lookup_frame [OF sample_facts(1)])
  then have "\<exists>out w'. requestReplay (booted_replay sample_cfg) sample_request ?w = (Inr out, w')"
    by (auto simp: wp_def split: prod.splits sum.splits)
  then obtain out w' where run: "requestReplay (booted_replay sample_cfg) sample_request ?w = (Inr out, w')" by blast
  have "\<not> rr_force sample_request" by (simp add: sample_request_def)
  from replay_keeps_synced [OF row this run] run show ?thesis
    by (auto simp: sample_sys_def empty_sys_def)
qed

definition queue_down_cfg :: cfg where
  "queue_down_cfg = sample_cfg\<lparr>cf_fault := \<lambda>k. if k = 3 then Some db_error else None\<rparr>"

theorem replay_not_atomic_witness:
  "\<exists>w'. requestReplay (booted_replay queue_down_cfg) sample_request stuck_sys = (Inl db_error, w')
    \<and> pg_fetch (replay_key sample_request) (sys_xref w') = None \<and> sys_queue w' = sys_queue stuck_sys"
proof (rule replay_not_atomic)
  show "one_fault (sys_step stuck_sys + 3) db_error queue_down_cfg"
    by (simp add: one_fault_def queue_down_cfg_def sample_sys_def empty_sys_def)
  show "replayable queue_down_cfg sample_request sample_connection ''orders/updated''"
    using sample_replayable by (simp add: replayable_def queue_down_cfg_def)
  show "pg_fetch (replay_key sample_request) (sys_xref stuck_sys) = Some sample_row"
    unfolding sample_replay_key by (rule stuck_row)
  show "xr_status sample_row \<noteq> Synced \<or> rr_force sample_request" by (simp add: sample_row_pending)
qed

section \<open>The webhook receiver\<close>

definition booted_webhook ::
  "cfg \<Rightarrow> string \<Rightarrow> (string \<Rightarrow> js_error + string) \<Rightarrow> hmac_lib \<Rightarrow> sys webhook_deps" where
  "booted_webhook cfg inbound secrets lib = \<lparr>wd_environment = cf_environment cfg,
     wd_findByShopDomain = \<lambda>env shop. ret (findByShopDomain (cf_repo cfg) env shop),
     wd_getSecret = \<lambda>r. ask cfg (\<lambda>_. secrets r),
     wd_putEnvelope = envelope_put inbound (\<lambda>_ _. ask cfg (\<lambda>_. Inr ())),
     wd_enqueue = sys_enqueue cfg, wd_now = tick cfg, wd_hmac = lib\<rparr>"

lemma webhook_deps_simps [simp]:
  "wd_environment (booted_webhook cfg inbound secrets lib) = cf_environment cfg"
  "wd_findByShopDomain (booted_webhook cfg inbound secrets lib) env shop = ret (findByShopDomain (cf_repo cfg) env shop)"
  "wd_getSecret (booted_webhook cfg inbound secrets lib) r = ask cfg (\<lambda>_. secrets r)"
  "wd_putEnvelope (booted_webhook cfg inbound secrets lib) = envelope_put inbound (\<lambda>_ _. ask cfg (\<lambda>_. Inr ()))"
  "wd_enqueue (booted_webhook cfg inbound secrets lib) = sys_enqueue cfg"
  "wd_now (booted_webhook cfg inbound secrets lib) = tick cfg"
  "wd_hmac (booted_webhook cfg inbound secrets lib) = lib"
  by (simp_all add: booted_webhook_def)

text \<open>What an accepted webhook has shown, and what it queues.\<close>

definition verified_sender ::
  "cfg \<Rightarrow> (string \<Rightarrow> js_error + string) \<Rightarrow> hmac_lib \<Rightarrow> webhook_request \<Rightarrow> connection \<Rightarrow> bool" where
  "verified_sender cfg secrets lib req conn \<longleftrightarrow>
     (\<exists>shop hmac secret. header req ''x-shopify-shop-domain'' = Some shop
        \<and> header req ''x-shopify-hmac-sha256'' = Some hmac
        \<and> findByShopDomain (cf_repo cfg) (cf_environment cfg) shop = Some conn \<and> enabled conn
        \<and> secrets (shopifyWebhookSecretRef conn) = Inr secret
        \<and> verifyShopifyHmac lib (wr_rawBody req) hmac secret)"

definition webhook_queued :: "cfg \<Rightarrow> connection \<Rightarrow> webhook_outcome \<Rightarrow> sys \<Rightarrow> sys \<Rightarrow> bool" where
  "webhook_queued cfg conn out w w' \<longleftrightarrow>
     (\<exists>msg. sys_queue w' = sys_queue w @ [(sessionKeyFor (connectionId conn) (om_orderGid msg), message_js msg)]
        \<and> om_source msg = Some FromWebhook \<and> om_connectionId msg = connectionId conn
        \<and> om_environment msg = cf_environment cfg \<and> wo_orderGid out = Some (om_orderGid msg)
        \<and> wo_envelopeUri out = Some (om_envelopeBlobUri msg))"

definition quiet :: "sys \<Rightarrow> sys \<Rightarrow> bool" where
  "quiet w w' \<longleftrightarrow> core w' = core w \<and> sys_queue w' = sys_queue w"

lemma wp_ask_any:
  assumes "\<And>a w'. f (sys_step w) = Inr a \<Longrightarrow> quiet w w' \<Longrightarrow> Q a w'" and "\<And>e w'. quiet w w' \<Longrightarrow> E e w'"
  shows "wp (ask cfg f) Q E w"
  using assms by (auto simp: wp_def ask_def Let_def quiet_def core_def split: option.splits sum.splits)

lemma wp_enqueue_any:
  assumes "\<And>w'. core w' = core w \<Longrightarrow> sys_queue w' = sys_queue w @ [(session, body)] \<Longrightarrow> Q () w'"
    and "\<And>e w'. quiet w w' \<Longrightarrow> E e w'"
  shows "wp (sys_enqueue cfg session body) Q E w"
  using assms by (auto simp: wp_def sys_enqueue_def call_def Let_def quiet_def core_def split: option.splits)

lemma wp_tick_quiet:
  assumes "\<And>t w'. quiet w w' \<Longrightarrow> Q t w'"
  shows "wp (tick cfg) Q E w"
  using assms by (simp add: wp_def tick_def quiet_def core_def)

lemma quiet_trans [trans]: "quiet u v \<Longrightarrow> quiet v w \<Longrightarrow> quiet u w"
  by (simp add: quiet_def)

lemma quiet_refl [simp]: "quiet w w"
  by (simp add: quiet_def)

definition webhook_result ::
  "cfg \<Rightarrow> (string \<Rightarrow> js_error + string) \<Rightarrow> hmac_lib \<Rightarrow> webhook_request \<Rightarrow> sys \<Rightarrow> webhook_outcome \<Rightarrow> sys \<Rightarrow> bool" where
  "webhook_result cfg secrets lib req w out w' \<longleftrightarrow>
     (if wo_status out = 200
      then core w' = core w \<and> (\<exists>conn. verified_sender cfg secrets lib req conn \<and> webhook_queued cfg conn out w w')
      else quiet w w')"

lemma webhook_queuedI:
  assumes "sys_queue w' = sys_queue w @ [(sessionKeyFor (connectionId conn) gid,
      message_js (webhook_message (cf_environment cfg) conn shop topic gid uri t))]"
    and "wo_orderGid out = Some gid" and "wo_envelopeUri out = Some uri"
  shows "webhook_queued cfg conn out w w'"
  unfolding webhook_queued_def using assms
  by (intro exI [of _ "webhook_message (cf_environment cfg) conn shop topic gid uri t"]) (simp add: webhook_message_def)

lemma accept_result:
  assumes "quiet w0 w"
  shows "wp (accept_webhook (booted_webhook cfg inbound secrets lib) req conn shop hmac topic)
    (\<lambda>out w'. if wo_status out = 200 then core w' = core w0 \<and> webhook_queued cfg conn out w0 w' else quiet w0 w')
    (\<lambda>_ _. False) w"
  using assms unfolding accept_webhook_def Let_def envelope_put_def webhook_deps_simps
  by (auto simp: wp_simps outcome_of_def quiet_def split: option.splits
      intro!: wp_tick_quiet wp_ask_any wp_enqueue_any)
    (rule webhook_queuedI, assumption, simp_all)

lemma webhook_refused: "quiet w w' \<Longrightarrow> st \<noteq> 200 \<Longrightarrow> webhook_result cfg secrets lib req w
    \<lparr>wo_status = st, wo_reason = r, wo_connectionId = c, wo_orderGid = g, wo_envelopeUri = u\<rparr> w'"
  by (simp add: webhook_result_def)

lemma webhook_accepted:
  assumes "header req ''x-shopify-shop-domain'' = Some shop" and "header req ''x-shopify-hmac-sha256'' = Some hmac"
    and "findByShopDomain (cf_repo cfg) (cf_environment cfg) shop = Some conn" and "enabled conn"
    and "secrets (shopifyWebhookSecretRef conn) = Inr secret"
    and "verifyShopifyHmac lib (wr_rawBody req) hmac secret"
    and "if wo_status out = 200 then core w' = core w \<and> webhook_queued cfg conn out w w' else quiet w w'"
  shows "webhook_result cfg secrets lib req w out w'"
  using assms by (auto simp: webhook_result_def verified_sender_def split: if_splits)

lemma webhook_runs:
  "wp (handleShopifyWebhook (booted_webhook cfg inbound secrets lib) req) (webhook_result cfg secrets lib req w)
    (\<lambda>_ _. False) w"
  unfolding handleShopifyWebhook_def webhook_deps_simps
  by (auto simp: wp_simps outcome_of_def split: option.splits
      intro!: wp_ask_any wp_mono [OF accept_result] webhook_refused intro: webhook_accepted)

text \<open>
  C13: only a verified webhook gets into the queue, and none is lost behind a 200. Whatever calls fail,
  the receiver answers and does not throw, and leaves the ledger and NetSuite alone. It answers 200
  exactly when it has queued one message, with the GID and the archive address it reports, from an
  enabled shop whose secret verifies the body; with any other status the queue is as it was.
\<close>

theorem webhook_accepts_verified:
  "\<exists>out w'. handleShopifyWebhook (booted_webhook cfg inbound secrets lib) req w = (Inr out, w')
     \<and> webhook_result cfg secrets lib req w out w'"
  using webhook_runs [of cfg inbound secrets lib req w] by (auto simp: wp_def split: prod.splits sum.splits)

section \<open>The catch-up poller\<close>

text \<open>\<open>orders\<close> is Shopify's answer to a page of a connection since a cursor.\<close>

definition booted_catchup ::
  "cfg \<Rightarrow> (connection \<Rightarrow> string \<Rightarrow> nat \<Rightarrow> order_summary list) \<Rightarrow> sys catchup_deps" where
  "booted_catchup cfg orders = \<lparr>cu_environment = cf_environment cfg,
     cu_listEnabled = \<lambda>env. ret (listEnabled (cf_repo cfg) env),
     cu_findById = \<lambda>env cid. ret (findById (cf_repo cfg) env cid), cu_xref = Some (booted_xref cfg),
     cu_watermark_get = Some (\<lambda>k. on_watermarks cfg (\<lambda>_. read_st (pg_watermark_get k))),
     cu_watermark_set = \<lambda>k c. on_watermarks cfg (\<lambda>now. pure_op (pg_watermark_set now k c)),
     cu_listOrders = \<lambda>conn since n. ask cfg (\<lambda>_. Inr (orders conn since n)),
     cu_enqueue = sys_enqueue cfg, cu_now = tick cfg, cu_track = \<lambda>_ w. w\<rparr>"

definition poll :: "cfg \<Rightarrow> (connection \<Rightarrow> string \<Rightarrow> nat \<Rightarrow> order_summary list) \<Rightarrow> catchup_config \<Rightarrow> string
    \<Rightarrow> (sys, catchup_outcome) io" where
  "poll cfg orders config cid = pollOneConnection (booted_catchup cfg orders) config (booted_xref cfg)
     (\<lambda>k. on_watermarks cfg (\<lambda>_. read_st (pg_watermark_get k))) cid"

lemma catchup_deps_simps [simp]:
  "cu_environment (booted_catchup cfg orders) = cf_environment cfg"
  "cu_findById (booted_catchup cfg orders) env cid = ret (findById (cf_repo cfg) env cid)"
  "xo_lookup (booted_xref cfg) p = on_xref cfg (pg_lookup p)"
  "cu_watermark_set (booted_catchup cfg orders) k c = on_watermarks cfg (\<lambda>now. pure_op (pg_watermark_set now k c))"
  "cu_listOrders (booted_catchup cfg orders) conn since n = ask cfg (\<lambda>_. Inr (orders conn since n))"
  "cu_enqueue (booted_catchup cfg orders) = sys_enqueue cfg" "cu_now (booted_catchup cfg orders) = tick cfg"
  "cu_track (booted_catchup cfg orders) rep v = v"
  by (simp_all add: booted_catchup_def booted_xref_def)

definition unresolved :: "cfg \<Rightarrow> string \<Rightarrow> sys \<Rightarrow> order_summary list \<Rightarrow> order_summary list" where
  "unresolved cfg cid w page = filter (\<lambda>s. \<not> resolved_row
     (pg_fetch (catchup_key (cf_environment cfg) cid (os_id s)) (sys_xref w))) page"

definition catchup_entry :: "cfg \<Rightarrow> connection \<Rightarrow> string \<Rightarrow> int \<Rightarrow> order_summary \<Rightarrow> string \<times> jsval" where
  "catchup_entry cfg conn cid now s =
     (cid @ '':'' @ os_id s, message_js (catchup_message (cf_environment cfg) conn cid (os_id s) now))"

lemma unresolved_core: "core w' = core w \<Longrightarrow> unresolved cfg cid w' page = unresolved cfg cid w page"
  by (simp add: unresolved_def core_def)

lemma catchup_one_runs:
  assumes "no_faults cfg"
    and "\<And>w'. core w' = core w \<Longrightarrow> sys_watermarks w' = sys_watermarks w
      \<Longrightarrow> sys_queue w' = sys_queue w @ map (catchup_entry cfg conn cid now) (unresolved cfg cid w [s])
      \<Longrightarrow> Q (n + length (unresolved cfg cid w [s])) w'"
  shows "wp (catchup_one (booted_catchup cfg orders) (booted_xref cfg) conn cid now n s) Q E w"
  unfolding catchup_one_def wp_bnd catchup_deps_simps wp_if
  by (rule wp_lookup_frame [OF assms(1)])
    (use assms(2) in \<open>auto simp: wp_ret wp_bnd unresolved_def catchup_entry_def intro!: wp_enqueue_runs [OF assms(1)]\<close>)

lemma catchup_loop:
  assumes "no_faults cfg"
  shows "wp (fold_eff (catchup_one (booted_catchup cfg orders) (booted_xref cfg) conn cid now) n page)
    (\<lambda>m w'. m = n + length (unresolved cfg cid w page) \<and> core w' = core w \<and> sys_watermarks w' = sys_watermarks w
       \<and> sys_queue w' = sys_queue w @ map (catchup_entry cfg conn cid now) (unresolved cfg cid w page)) (\<lambda>_ _. False) w"
proof (induction page arbitrary: n w)
  case Nil
  show ?case by (simp add: wp_def unresolved_def)
next
  case (Cons s page)
  have rest: "wp (fold_eff (catchup_one (booted_catchup cfg orders) (booted_xref cfg) conn cid now) n' page)
      (\<lambda>m w'. m = n + length (unresolved cfg cid w (s # page)) \<and> core w' = core w \<and> sys_watermarks w' = sys_watermarks w
         \<and> sys_queue w' = sys_queue w @ map (catchup_entry cfg conn cid now) (unresolved cfg cid w (s # page)))
      (\<lambda>_ _. False) v"
    if "core v = core w" "sys_watermarks v = sys_watermarks w"
      "sys_queue v = sys_queue w @ map (catchup_entry cfg conn cid now) (unresolved cfg cid w [s])"
      "n' = n + length (unresolved cfg cid w [s])" for v n'
  proof -
    have "unresolved cfg cid w (s # page) = unresolved cfg cid w [s] @ unresolved cfg cid v page"
      using unresolved_core [OF that(1)] by (simp add: unresolved_def)
    then show ?thesis using that by (intro wp_mono [OF Cons.IH]) auto
  qed
  show ?case
    unfolding fold_eff.simps wp_bnd
    by (rule catchup_one_runs [OF assms]) (rule rest; simp)
qed

lemma watermark_set_get: "pg_watermark_get k (snd (pg_watermark_set now k c t)) = Some (fst (pg_watermark_set now k c t))"
proof -
  obtain env cid flow where k: "k = (env, cid, flow)" by (cases k)
  have "find (\<lambda>r. wm_ref r = k) (map (\<lambda>r. if wm_ref r = k then row else r) t) = Some row"
    if "wm_ref row = k" "find (\<lambda>r. wm_ref r = k) t \<noteq> None" for row
    using that by (induction t) auto
  moreover have "find (\<lambda>r. wm_ref r = k) (t @ [row]) = Some row"
    if "wm_ref row = k" "find (\<lambda>r. wm_ref r = k) t = None" for row
    using that by (induction t) (auto split: if_splits)
  ultimately show ?thesis
    by (simp add: pg_watermark_set_def pg_watermark_get_def k Let_def wm_ref_def)
qed

lemma wp_mark_get_runs:
  assumes "no_faults cfg"
    and "\<And>w'. core w' = core w \<Longrightarrow> sys_queue w' = sys_queue w \<Longrightarrow> sys_watermarks w' = sys_watermarks w
      \<Longrightarrow> Q (pg_watermark_get k (sys_watermarks w)) w'"
  shows "wp (on_watermarks cfg (\<lambda>_. read_st (pg_watermark_get k))) Q E w"
  using assms(2) by (simp add: wp_def on_watermarks_def call_runs [OF assms(1)] core_def)

lemma wp_mark_set_runs:
  assumes "no_faults cfg"
    and "\<And>r w'. core w' = core w \<Longrightarrow> sys_queue w' = sys_queue w
      \<Longrightarrow> Option.bind (pg_watermark_get k (sys_watermarks w')) wm_lastCursor = Some c \<Longrightarrow> Q r w'"
  shows "wp (on_watermarks cfg (\<lambda>now. pure_op (pg_watermark_set now k c))) Q E w"
proof -
  obtain r t where set: "pg_watermark_set (cf_clock cfg (sys_step w)) k c (sys_watermarks w) = (r, t)" by force
  have "wm_lastCursor r = Some c" using set by (cases k) (auto simp: pg_watermark_set_def Let_def)
  then have "Option.bind (pg_watermark_get k t) wm_lastCursor = Some c"
    using watermark_set_get [of k "cf_clock cfg (sys_step w)" c "sys_watermarks w"] by (simp add: set)
  then show ?thesis
    using assms(2) by (simp add: wp_def on_watermarks_def call_runs [OF assms(1)] pure_op_def set core_def)
qed

lemma wp_orders_runs:
  assumes "no_faults cfg"
    and "\<And>w'. core w' = core w \<Longrightarrow> sys_queue w' = sys_queue w \<Longrightarrow> sys_watermarks w' = sys_watermarks w \<Longrightarrow> Q x w'"
  shows "wp (ask cfg (\<lambda>_. Inr x)) Q E w"
  using assms by (simp add: wp_def ask_def Let_def no_faults_def core_def)

text \<open>The page a poll reads at a time, and the cursor it reads from.\<close>

definition poll_from :: "cfg \<Rightarrow> catchup_config \<Rightarrow> string \<Rightarrow> int \<Rightarrow> sys \<Rightarrow> string" where
  "poll_from cfg config cid now w =
     from_cursor config now (pg_watermark_get (cf_environment cfg, cid, CATCHUP_FLOW) (sys_watermarks w))"

definition stored_cursor :: "cfg \<Rightarrow> string \<Rightarrow> sys \<Rightarrow> string option" where
  "stored_cursor cfg cid w =
     Option.bind (pg_watermark_get (cf_environment cfg, cid, CATCHUP_FLOW) (sys_watermarks w)) wm_lastCursor"

definition polled_well ::
  "cfg \<Rightarrow> (connection \<Rightarrow> string \<Rightarrow> nat \<Rightarrow> order_summary list) \<Rightarrow> catchup_config \<Rightarrow> connection \<Rightarrow> string \<Rightarrow> int
   \<Rightarrow> sys \<Rightarrow> catchup_outcome \<Rightarrow> sys \<Rightarrow> bool" where
  "polled_well cfg orders config conn cid now w out w' \<longleftrightarrow>
     (let from = poll_from cfg config cid now w; page = orders conn from (cc_pageSize config) in
      out = Polled cid (length page) (length (unresolved cfg cid w page)) from (next_cursor config now page)
      \<and> sys_queue w' = sys_queue w @ map (catchup_entry cfg conn cid now) (unresolved cfg cid w page)
      \<and> stored_cursor cfg cid w' = Some (next_cursor config now page) \<and> core w' = core w)"

lemma poll_runs:
  assumes "no_faults cfg" and "findById (cf_repo cfg) (cf_environment cfg) cid = Some conn"
  shows "wp (poll cfg orders config cid) (\<lambda>out w'. \<exists>now. polled_well cfg orders config conn cid now w out w') (\<lambda>_ _. False) w"
proof -
  have rest: "wp (poll cfg orders config cid) (\<lambda>out w'. \<exists>now. polled_well cfg orders config conn cid now w out w')
      (\<lambda>_ _. False) w"
    unfolding poll_def pollOneConnection_def Let_def wp_bnd catchup_deps_simps wp_ret assms(2) option.case
  proof (intro wp_tick_frame wp_mark_get_runs [OF assms(1)] wp_orders_runs [OF assms(1)], goal_cases)
    case (1 now w1 w2 w3)
    let ?page = "orders conn (from_cursor config now (pg_watermark_get (cf_environment cfg, cid, CATCHUP_FLOW) (sys_watermarks w1)))
        (cc_pageSize config)"
    have un: "unresolved cfg cid w3 ?page = unresolved cfg cid w ?page"
      using 1 by (intro unresolved_core) simp
    show ?case
      by (rule wp_mono [OF catchup_loop [OF assms(1)]])
        (use 1 un in \<open>auto simp: polled_well_def Let_def poll_from_def stored_cursor_def wp_simps
          intro!: wp_mark_set_runs [OF assms(1)] exI [of _ now]\<close>)
  qed
  show ?thesis by (rule rest)
qed

text \<open>
  A poll queues exactly what the ledger has not settled. Where no call fails, a poll of a known
  connection reads one page since the stored cursor (or since the lookback on the first run), queues one
  message for each order of the page whose row is missing, \<open>pending\<close> or \<open>error\<close>, in the order of the page,
  stores the last order's \<open>updatedAt\<close> as the next cursor, and leaves the ledger and NetSuite alone.
\<close>

theorem catchup_queues_unsettled:
  assumes "no_faults cfg" and "findById (cf_repo cfg) (cf_environment cfg) cid = Some conn"
  shows "\<exists>now out w'. poll cfg orders config cid w = (Inr out, w') \<and> polled_well cfg orders config conn cid now w out w'"
  using poll_runs [OF assms, of orders config w] by (auto simp: wp_def split: prod.splits sum.splits)

text \<open>An order of the page, for a connection of this app.\<close>

definition catchable :: "cfg \<Rightarrow> connection \<Rightarrow> string \<Rightarrow> bool" where
  "catchable cfg conn gid \<longleftrightarrow> findById (cf_repo cfg) (cf_environment cfg) (connectionId conn) = Some conn
     \<and> enabled conn \<and> cf_environment cfg \<noteq> [] \<and> connectionId conn \<noteq> [] \<and> shopifyStore conn \<noteq> [] \<and> gid \<noteq> []"

lemma catchup_admitted:
  assumes "catchable cfg conn gid"
  shows "admitted cfg (message_js (catchup_message (cf_environment cfg) conn (connectionId conn) gid now))
      (catchup_message (cf_environment cfg) conn (connectionId conn) gid now) conn"
    and "\<not> gated (catchup_message (cf_environment cfg) conn (connectionId conn) gid now)"
    and "order_key conn (catchup_message (cf_environment cfg) conn (connectionId conn) gid now)
      = catchup_key (cf_environment cfg) (connectionId conn) gid"
  using assms
  by (simp_all add: admitted_def parse_message_js well_formed_def catchup_message_def catchable_def gated_def
      from_webhook_def order_key_def catchup_key_def)

lemma polled_entry:
  assumes "polled_well cfg orders config conn cid now w out w'"
    and "s \<in> set (orders conn (poll_from cfg config cid now w) (cc_pageSize config))"
    and "\<not> resolved_row (pg_fetch (catchup_key (cf_environment cfg) cid (os_id s)) (sys_xref w))"
  shows "catchup_entry cfg conn cid now s \<in> set (sys_queue w')"
proof -
  have "s \<in> set (unresolved cfg cid w (orders conn (poll_from cfg config cid now w) (cc_pageSize config)))"
    using assms(2,3) by (simp add: unresolved_def)
  then show ?thesis using assms(1) by (auto simp: polled_well_def Let_def)
qed

text \<open>
  C15: an order whose webhook was lost comes in through the poller. Where no call fails, a poll whose page
  shows an order without a ledger row queues a message for it; delivering that message, when the order is
  eligible and has a plan, imports the order and books the planned payload.
\<close>

theorem catchup_imports_missed:
  assumes "no_faults cfg" and "catchable cfg conn (os_id s)"
    and "\<And>now. s \<in> set (orders conn (poll_from cfg config (connectionId conn) now w) (cc_pageSize config))"
    and "pg_fetch (catchup_key (cf_environment cfg) (connectionId conn) (os_id s)) (sys_xref w) = None"
    and "\<And>n. cf_shopify cfg n conn (os_id s) = Inr so"
    and "checkEligibility so ''orders/updated'' no_options = Eligible" and "fn_failureQueue (sys_ns w) = []"
    and "\<And>cust. plan conn so cust (cf_lookups cfg conn)
           (\<lambda>s. map_of (fn_itemBySku (sys_ns w)) (nsAccountId conn, s)) = Inr (MapOk (payload cust))"
  shows "\<exists>out w1 session body tid created cust w2.
    poll cfg orders config (connectionId conn) w = (Inr out, w1) \<and> (session, body) \<in> set (sys_queue w1)
    \<and> handleOrderMessage (booted_deps cfg) body ctx w1 = (Inr (Imported (connectionId conn) (os_id s) tid created cust), w2)
    \<and> fake_records (sys_ns w2) (nsAccountId conn, netsuiteOrderRecordType conn, os_id s)
      = Some (tid, payload (cr_internalId cust))"
proof -
  have found: "findById (cf_repo cfg) (cf_environment cfg) (connectionId conn) = Some conn"
    using assms(2) by (simp add: catchable_def)
  obtain now out w1 where run: "poll cfg orders config (connectionId conn) w = (Inr out, w1)"
      "polled_well cfg orders config conn (connectionId conn) now w out w1"
    using poll_runs [OF assms(1) found, of orders config w] by (auto simp: wp_def split: prod.splits sum.splits)
  let ?m = "catchup_message (cf_environment cfg) conn (connectionId conn) (os_id s) now"
  have entry: "catchup_entry cfg conn (connectionId conn) now s \<in> set (sys_queue w1)"
    by (rule polled_entry [OF run(2) assms(3)]) (simp add: assms(4) resolved_row_def)
  have core: "sys_ns w1 = sys_ns w" "sys_xref w1 = sys_xref w"
    using run(2) by (simp_all add: polled_well_def core_def Let_def)
  have fields: "om_orderGid ?m = os_id s" "om_topic ?m = ''orders/updated''" by (simp_all add: catchup_message_def)
  obtain tid created cust w2 where "handleOrderMessage (booted_deps cfg) (message_js ?m) ctx w1
      = (Inr (Imported (connectionId conn) (om_orderGid ?m) tid created cust), w2)"
    "fake_records (sys_ns w2) (order_record conn ?m) = Some (tid, payload (cr_internalId cust))"
    using import_runs [OF assms(1) catchup_admitted(1,2) [OF assms(2), of now], where w = w1 and so = so and payload = payload and ctx = ctx]
      assms(4-8) core by (auto simp: fields catchup_admitted(3) [OF assms(2)])
  moreover have "(connectionId conn @ '':'' @ os_id s, message_js ?m) \<in> set (sys_queue w1)"
    using entry by (simp add: catchup_entry_def)
  ultimately show ?thesis using run(1) unfolding fields order_record_def by blast
qed

text \<open>
  C16: the poller does not rescue an order whose row is \<open>pending\<close> or \<open>error\<close>. A poll whose page shows such
  an order queues it, but its messages, like all others of the order, are answered \<open>already_claimed\<close>
  from then on, under any configuration and after any deliveries.
\<close>

theorem catchup_cannot_rescue:
  assumes "no_faults cfg" and "catchable cfg conn (os_id s)"
    and "\<And>now. s \<in> set (orders conn (poll_from cfg config (connectionId conn) now w) (cc_pageSize config))"
    and "pg_fetch (catchup_key (cf_environment cfg) (connectionId conn) (os_id s)) (sys_xref w) = Some r"
    and "xr_status r = Pending \<or> xr_status r = Errored"
  shows "\<exists>now out w1. poll cfg orders config (connectionId conn) w = (Inr out, w1)
    \<and> catchup_entry cfg conn (connectionId conn) now s \<in> set (sys_queue w1)
    \<and> always_answered (catchup_key (cf_environment cfg) (connectionId conn) (os_id s)) says_claimed w1"
proof -
  have found: "findById (cf_repo cfg) (cf_environment cfg) (connectionId conn) = Some conn"
    using assms(2) by (simp add: catchable_def)
  obtain now out w1 where run: "poll cfg orders config (connectionId conn) w = (Inr out, w1)"
      "polled_well cfg orders config conn (connectionId conn) now w out w1"
    using poll_runs [OF assms(1) found, of orders config w] by (auto simp: wp_def split: prod.splits sum.splits)
  have "catchup_entry cfg conn (connectionId conn) now s \<in> set (sys_queue w1)"
    by (rule polled_entry [OF run(2) assms(3)]) (use assms(4,5) in \<open>auto simp: resolved_row_def\<close>)
  moreover have "pg_fetch (catchup_key (cf_environment cfg) (connectionId conn) (os_id s)) (sys_xref w1) = Some r"
    using run(2) assms(4) by (simp add: polled_well_def core_def Let_def)
  then have "always_answered (catchup_key (cf_environment cfg) (connectionId conn) (os_id s)) says_claimed w1"
    by (rule row_answers) (use assms(5) in \<open>auto simp: existing_answer_def says_claimed_def\<close>)
  ultimately show ?thesis using run(1) by blast
qed

text \<open>
  C17: a full page of one timestamp stops the poller. When the page since the stored cursor ends with an
  order whose \<open>updatedAt\<close> is that cursor, every later poll that gets the same answer reads the same page
  and stores the same cursor, however often it runs: orders beyond the page are not seen again.
\<close>

theorem catchup_stuck_on_full_page:
  assumes "no_faults cfg" and "findById (cf_repo cfg) (cf_environment cfg) cid = Some conn"
    and "stored_cursor cfg cid w = Some c" and "orders conn c (cc_pageSize config) \<noteq> []"
    and "os_updatedAt (last (orders conn c (cc_pageSize config))) = c"
  shows "stored_cursor cfg cid (((\<lambda>v. snd (poll cfg orders config cid v)) ^^ n) w) = Some c"
proof (induction n)
  case (Suc n)
  let ?v = "((\<lambda>v. snd (poll cfg orders config cid v)) ^^ n) w"
  obtain now out w' where run: "poll cfg orders config cid ?v = (Inr out, w')"
      "polled_well cfg orders config conn cid now ?v out w'"
    using poll_runs [OF assms(1,2), of orders config ?v] by (auto simp: wp_def split: prod.splits sum.splits)
  have "poll_from cfg config cid now ?v = c"
    using Suc by (simp add: poll_from_def from_cursor_def stored_cursor_def)
  then have "stored_cursor cfg cid w' = Some c"
    using run(2) assms(4,5) by (simp add: polled_well_def Let_def next_cursor_def)
  then show ?case by (simp add: run(1))
qed (simp add: assms(3))

section \<open>Runs of the poller\<close>

definition sample_summary :: order_summary where
  "sample_summary = \<lparr>os_id = ''gid://shopify/Order/100'', os_updatedAt = ''2026-05-16T10:00:00Z''\<rparr>"

definition sample_page :: "connection \<Rightarrow> string \<Rightarrow> nat \<Rightarrow> order_summary list" where
  "sample_page conn since n = take n [sample_summary]"

lemma sample_in_page: "sample_summary \<in> set (sample_page conn since (cc_pageSize DEFAULT_CATCHUP_CONFIG))"
  by (simp add: sample_page_def DEFAULT_CATCHUP_CONFIG_def)

lemma sample_catchable: "catchable sample_cfg sample_connection (os_id sample_summary)"
  by (simp add: catchable_def sample_cfg_def sample_repo_def findById_def sample_connection_def sample_summary_def)

lemma sample_catchup_key: "catchup_key (cf_environment sample_cfg) (connectionId sample_connection) (os_id sample_summary)
    = order_key sample_connection sample_create"
  by (simp add: catchup_key_def order_key_def sample_order_message_def sample_connection_def sample_cfg_def sample_summary_def)

theorem catchup_queues_unsettled_witness:
  "\<exists>now out w'. poll sample_cfg sample_page DEFAULT_CATCHUP_CONFIG ''c1'' sample_sys = (Inr out, w')
     \<and> polled_well sample_cfg sample_page DEFAULT_CATCHUP_CONFIG sample_connection ''c1'' now sample_sys out w'"
  by (rule catchup_queues_unsettled [OF sample_facts(1)])
    (simp add: sample_cfg_def sample_repo_def findById_def)

theorem catchup_imports_missed_witness:
  "\<exists>out w1 session body tid created cust w2.
    poll sample_cfg sample_page DEFAULT_CATCHUP_CONFIG (connectionId sample_connection) sample_sys = (Inr out, w1)
    \<and> (session, body) \<in> set (sys_queue w1)
    \<and> handleOrderMessage (booted_deps sample_cfg) body None w1
      = (Inr (Imported (connectionId sample_connection) (os_id sample_summary) tid created cust), w2)
    \<and> fake_records (sys_ns w2) (nsAccountId sample_connection, netsuiteOrderRecordType sample_connection, os_id sample_summary)
      = Some (tid, sample_final (cr_internalId cust))"
proof (rule catchup_imports_missed [OF sample_facts(1) sample_catchable])
  show "sample_summary \<in> set (sample_page sample_connection
      (poll_from sample_cfg DEFAULT_CATCHUP_CONFIG (connectionId sample_connection) now sample_sys) (cc_pageSize DEFAULT_CATCHUP_CONFIG))"
    for now by (rule sample_in_page)
  show "pg_fetch (catchup_key (cf_environment sample_cfg) (connectionId sample_connection) (os_id sample_summary))
      (sys_xref sample_sys) = None"
    unfolding sample_catchup_key by (rule sample_facts(4))
  show "cf_shopify sample_cfg n sample_connection (os_id sample_summary) = Inr makeFakeOrder" for n
    by (simp add: sample_cfg_def)
  show "checkEligibility makeFakeOrder ''orders/updated'' no_options = Eligible" by code_simp
qed (rule sample_facts(7,8))+

theorem catchup_cannot_rescue_witness:
  "\<exists>now out w1. poll sample_cfg sample_page DEFAULT_CATCHUP_CONFIG (connectionId sample_connection) stuck_sys = (Inr out, w1)
    \<and> catchup_entry sample_cfg sample_connection (connectionId sample_connection) now sample_summary \<in> set (sys_queue w1)
    \<and> always_answered (catchup_key (cf_environment sample_cfg) (connectionId sample_connection) (os_id sample_summary))
        says_claimed w1"
proof (rule catchup_cannot_rescue [OF sample_facts(1) sample_catchable])
  show "sample_summary \<in> set (sample_page sample_connection
      (poll_from sample_cfg DEFAULT_CATCHUP_CONFIG (connectionId sample_connection) now stuck_sys) (cc_pageSize DEFAULT_CATCHUP_CONFIG))"
    for now by (rule sample_in_page)
  show "pg_fetch (catchup_key (cf_environment sample_cfg) (connectionId sample_connection) (os_id sample_summary))
      (sys_xref stuck_sys) = Some sample_row"
    unfolding sample_catchup_key by (rule stuck_row)
qed (simp add: sample_row_pending)

definition sample_mark :: watermark_row where
  "sample_mark = \<lparr>wm_environment = ''dev'', wm_connectionId = ''c1'', wm_flow = CATCHUP_FLOW,
     wm_lastCursor = Some ''2026-05-16T10:00:00Z'', wm_updatedAt = 0\<rparr>"

theorem catchup_stuck_on_full_page_witness:
  "stored_cursor sample_cfg ''c1'' (((\<lambda>v. snd (poll sample_cfg sample_page DEFAULT_CATCHUP_CONFIG ''c1'' v)) ^^ 7)
     (sample_sys\<lparr>sys_watermarks := [sample_mark]\<rparr>)) = Some ''2026-05-16T10:00:00Z''"
  by (rule catchup_stuck_on_full_page [OF sample_facts(1), where conn = sample_connection])
    (simp_all add: sample_cfg_def sample_repo_def findById_def stored_cursor_def pg_watermark_get_def sample_mark_def
      wm_ref_def sample_page_def sample_summary_def DEFAULT_CATCHUP_CONFIG_def)

end
