(* ===== verification/DeadLetter.thy ===== *)
theory DeadLetter
  imports OrderHandler PgStores
begin

text \<open>
  The dead-letter listener, \<open>apps/functions/src/triggers/order-dlq-handler.ts\<close>: a message Service Bus
  has given up becomes an error row with status \<open>quarantined\<close>, an attempt row, and a bump of the order's
  sync-log row.
\<close>

record 'w dlq_deps =
  dq_environment :: environment
  dq_findById :: "environment \<Rightarrow> string \<Rightarrow> ('w, connection option) io"
  dq_errorStore :: "((new_error \<Rightarrow> ('w, error_record) io) \<times> (string \<Rightarrow> error_status \<Rightarrow> ('w, error_record) io)) option"
  dq_attempts :: "(attempt_input \<Rightarrow> ('w, attempt) io) option"
  dq_syncLog :: "((order_ref \<Rightarrow> ('w, sync_log option) io) \<times> (sync_log_input \<Rightarrow> ('w, sync_log) io)) option"
  dq_now :: "('w, int) io"

text \<open>What the binding's \<open>triggerMetadata\<close> shows of the dead-lettered message.\<close>

record dlq_meta =
  dm_reason :: jsval
  dm_description :: jsval
  dm_deliveryCount :: "nat option"

datatype dlq_reason = BadEnvelope | DlqUnknownConnection | NoErrorStore

datatype dlq_outcome = DlqRecorded string string | DlqUnrecorded dlq_reason string

text \<open>The envelope check: the fields the listener needs, read without looking at the others.\<close>

record dlq_envelope =
  de_environment :: environment
  de_connectionId :: string
  de_orderGid :: string
  de_envelopeUri :: "string option"

definition dlq_fields :: "string list" where
  "dlq_fields = [''environment'', ''connectionId'', ''shopDomain'', ''topic'', ''orderGid'']"

definition dlq_missing :: "jsval \<Rightarrow> string \<Rightarrow> string option" where
  "dlq_missing m k = (case get_prop m k of
     JStr s \<Rightarrow> (if s = [] then Some (''missing/empty field '' @ quoted k) else None)
   | _ \<Rightarrow> Some (''missing/empty field '' @ quoted k))"

definition parseEnvelope :: "jsval \<Rightarrow> string + dlq_envelope" where
  "parseEnvelope m =
     (if \<not> is_obj m then Inl (''expected object, got '' @ js_typeof m)
      else if \<not> strict_eq (get_prop m ''schemaVersion'') (JNum (Fin 1))
        then Inl (''unsupported schemaVersion: '' @ to_str (get_prop m ''schemaVersion''))
      else (case first_error (dlq_missing m) dlq_fields of
          Some e \<Rightarrow> Inl e
        | None \<Rightarrow> Inr \<lparr>de_environment = str_field m ''environment'', de_connectionId = str_field m ''connectionId'',
            de_orderGid = str_field m ''orderGid'',
            de_envelopeUri = (case get_prop m ''envelopeBlobUri'' of JStr u \<Rightarrow> non_empty (Some u) | _ \<Rightarrow> None)\<rparr>))"

definition dlq_key :: "dlq_envelope \<Rightarrow> dedup_parts" where
  "dlq_key env = \<lparr>dp_environment = de_environment env, dp_connectionId = de_connectionId env,
     dp_entityType = Order, dp_sourceSystem = Shopify, dp_sourceId = de_orderGid env\<rparr>"

definition dlq_ref :: "dlq_envelope \<Rightarrow> order_ref" where
  "dlq_ref env = (de_environment env, de_connectionId env, de_orderGid env)"

definition dlq_error :: "environment \<Rightarrow> string \<Rightarrow> string \<Rightarrow> string \<Rightarrow> jsval \<Rightarrow> new_error" where
  "dlq_error env cid key msg envelope = \<lparr>ne_environment = env, ne_connectionId = cid, ne_flow = ''order-import'',
     ne_dedupKey = key, ne_errorClass = Unknown, ne_message = msg, ne_stack = None, ne_envelope = envelope\<rparr>"

text \<open>\<open>String(x ?? '')\<close>\<close>

definition text_or_empty :: "jsval \<Rightarrow> string" where
  "text_or_empty v = (if nullish v then [] else to_str v)"

definition dlq_summary :: "dlq_meta \<Rightarrow> string" where
  "dlq_summary meta = (let reason = text_or_empty (dm_reason meta); detail = text_or_empty (dm_description meta) in
     if reason \<noteq> [] \<or> detail \<noteq> []
       then ''DLQ: '' @ (if reason = [] then ''unknown reason'' else reason)
         @ (if detail = [] then [] else '' '' @ em_dash @ '' '' @ detail)
     else ''DLQ: message exhausted SB redeliveries (deliveryCount='' @ show_nat (case dm_deliveryCount meta of None \<Rightarrow> 0 | Some n \<Rightarrow> n)
       @ ''); cause not propagated by binding'')"

definition dlq_attempt :: "dlq_envelope \<Rightarrow> nat \<Rightarrow> string \<Rightarrow> int \<Rightarrow> attempt_input" where
  "dlq_attempt env dcount summary now = \<lparr>at_environment = de_environment env, at_connectionId = de_connectionId env,
     at_orderGid = de_orderGid env, at_deliveryCount = dcount, at_sbMessageId = None, at_sbSessionId = None,
     at_outcome = AttQuarantined, at_stage = None, at_errorClass = Some ''unknown'', at_detail = Some summary,
     at_inboundEnvelopeUri = de_envelopeUri env, at_outboundPayloadUri = None, at_nsResponseUri = None,
     at_nsResponseStatus = None, at_shopifyPayloadUri = None, at_payloadDigest = None,
     at_startedAt = now, at_finishedAt = now, at_durationMs = 0\<rparr>"

text \<open>The bump passes the status and the counts; every other column of the input is left out.\<close>

definition dlq_bump :: "dlq_envelope \<Rightarrow> sync_log \<Rightarrow> nat \<Rightarrow> sync_log_input" where
  "dlq_bump env existing dcount = \<lparr>sl_environment = de_environment env, sl_connectionId = de_connectionId env,
     sl_orderGid = de_orderGid env,
     sl_orderId = (case numeric_tail (de_orderGid env) of Some n \<Rightarrow> n | None \<Rightarrow> de_orderGid env),
     sl_orderName = None, sl_createdAt = None, sl_processedAt = None, sl_updatedAt = None, sl_customerEmail = None,
     sl_currencyCode = None, sl_totalPrice = None, sl_subtotalPrice = None, sl_totalTax = None,
     sl_totalDiscounts = None, sl_totalShipping = None, sl_status = sl_status (log_data existing),
     sl_nsAccountId = None, sl_nsRecordType = None, sl_nsInternalId = None, sl_nsTranId = None,
     sl_parkStage = None, sl_parkDetail = None, sl_parkErrorClass = None, sl_ignoredReason = None,
     sl_syncedAt = None, sl_attemptCount = Some dcount, sl_lastDeliveryCount = Some dcount,
     sl_lastOutboundPayloadUri = None, sl_lastInboundEnvelopeUri = None\<rparr>"

definition swallow :: "('w, 'a) io \<Rightarrow> ('w, unit) io" where
  "swallow m = try_catch (bnd m (\<lambda>_. ret ())) (\<lambda>_. ret ())"

definition quarantine_attempt ::
  "'w dlq_deps \<Rightarrow> dlq_envelope \<Rightarrow> nat \<Rightarrow> string \<Rightarrow> ('w, unit) io" where
  "quarantine_attempt deps env dcount summary = (case dq_attempts deps of
     Some record_row \<Rightarrow>
       (if dcount > 0 then bnd (dq_now deps) (\<lambda>now. swallow (record_row (dlq_attempt env dcount summary now)))
        else ret ())
   | None \<Rightarrow> ret ())"

definition bump_sync_log :: "'w dlq_deps \<Rightarrow> dlq_envelope \<Rightarrow> nat \<Rightarrow> ('w, unit) io" where
  "bump_sync_log deps env dcount = (case dq_syncLog deps of
     Some (find_row, upsert_row) \<Rightarrow>
       (if dcount > 0 then swallow (bnd (find_row (dlq_ref env)) (\<lambda>existing. case existing of
            None \<Rightarrow> ret ()
          | Some r \<Rightarrow> bnd (upsert_row (dlq_bump env r dcount)) (\<lambda>_. ret ())))
        else ret ())
   | None \<Rightarrow> ret ())"

definition handleDeadLetteredOrder :: "'w dlq_deps \<Rightarrow> jsval \<Rightarrow> dlq_meta \<Rightarrow> ('w, dlq_outcome) io" where
  "handleDeadLetteredOrder deps message meta = (case dq_errorStore deps of
     None \<Rightarrow> ret (DlqUnrecorded NoErrorStore ''bootstrap missing PG / errorStore'')
   | Some (record_row, set_status) \<Rightarrow> (case parseEnvelope message of
       Inl err \<Rightarrow>
         bnd (record_row (dlq_error (dq_environment deps) ''unknown'' ''unparseable''
           (''DLQ envelope unparseable: '' @ err) message)) (\<lambda>_. ret (DlqUnrecorded BadEnvelope err))
     | Inr env \<Rightarrow>
         bnd (dq_findById deps (de_environment env) (de_connectionId env)) (\<lambda>found.
         bnd (lift_sum (dedupKey (dlq_key env))) (\<lambda>dedup. case found of
           None \<Rightarrow>
             bnd (record_row (dlq_error (de_environment env) (de_connectionId env) dedup
               (''DLQ: connection '' @ quoted (de_connectionId env) @ '' not found for env '' @ quoted (de_environment env))
               message)) (\<lambda>_. ret (DlqUnrecorded DlqUnknownConnection (''connectionId='' @ de_connectionId env)))
         | Some _ \<Rightarrow>
             (let dcount = (case dm_deliveryCount meta of None \<Rightarrow> 0 | Some n \<Rightarrow> n); summary = dlq_summary meta in
              bnd (record_row (dlq_error (de_environment env) (de_connectionId env) dedup summary message)) (\<lambda>row.
              bnd (set_status (er_id row) ErrQuarantined) (\<lambda>_.
              bnd (quarantine_attempt deps env dcount summary) (\<lambda>_.
              bnd (bump_sync_log deps env dcount) (\<lambda>_.
                ret (DlqRecorded (er_id row) dedup))))))))))"

end
