(* ===== verification/Reconcile.thy ===== *)
theory Reconcile
  imports OrderHandler Balancing PgStores
begin

text \<open>
  The daily reconciliation, \<open>apps/functions/src/triggers/reconciliation-sweep.ts\<close>: Shopify's count and
  total of a day against the imported rows of the sync log, a snapshot either way and an event on drift.
\<close>

section \<open>Days\<close>

text \<open>\<open>utcDayString\<close>; the year is not padded.\<close>

definition utcDayString :: "int \<Rightarrow> string" where
  "utcDayString t = (let d = utc_date t in show_int (cv_year d) @ ''-'' @ pad2 (cv_month d) @ ''-'' @ pad2 (cv_day d))"

definition day_start :: "string \<Rightarrow> string" where
  "day_start d = d @ ''T00:00:00Z''"

text \<open>The next day; the fields of an invalid date print as \<open>NaN\<close>.\<close>

definition nextUtcDay :: "string \<Rightarrow> string" where
  "nextUtcDay d = (case date_parse (day_start d) of
     None \<Rightarrow> ''NaN-NaN-NaN'' | Some t \<Rightarrow> utcDayString (t + ms_per_day))"

text \<open>\<open>t >= new Date(a) && t < new Date(b)\<close>; a comparison with an invalid date is false.\<close>

definition in_window :: "string \<Rightarrow> string \<Rightarrow> int \<Rightarrow> bool" where
  "in_window a b t = (case (date_parse a, date_parse b) of (Some x, Some y) \<Rightarrow> x \<le> t \<and> t < y | _ \<Rightarrow> False)"

section \<open>One day\<close>

record order_aggregate =
  oa_count :: nat
  oa_totals :: "(string \<times> string) list"

record 'w reconcile_deps =
  rc_environment :: environment
  rc_listEnabled :: "environment \<Rightarrow> ('w, connection list) io"
  rc_findById :: "environment \<Rightarrow> string \<Rightarrow> ('w, connection option) io"
  rc_aggregate :: "connection \<Rightarrow> string \<Rightarrow> string \<Rightarrow> ('w, order_aggregate) io"
  rc_listLog :: "(sync_log_filter \<Rightarrow> ('w, sync_log list) io) option"
  rc_upsert :: "(snapshot_input \<Rightarrow> ('w, snapshot) io) option"
  rc_track :: "telemetry_report \<Rightarrow> 'w \<Rightarrow> 'w"
  rc_now :: "('w, int) io"

record reconcile_config =
  rg_schedule :: string
  rg_daysBack :: nat
  rg_totalToleranceAmount :: jsnum

definition DEFAULT_RECONCILIATION_CONFIG :: reconcile_config where
  "DEFAULT_RECONCILIATION_CONFIG = \<lparr>rg_schedule = ''0 0 6 * * *'', rg_daysBack = 1,
     rg_totalToleranceAmount = num (5 / 100)\<rparr>"

record reconcile_result =
  rs_connectionId :: string
  rs_businessDate :: string
  rs_snapshot :: "snapshot option"
  rs_drift :: bool
  rs_skipped :: bool

definition not_ready :: "string \<Rightarrow> string \<Rightarrow> reconcile_result" where
  "not_ready cid day = \<lparr>rs_connectionId = cid, rs_businessDate = day, rs_snapshot = None, rs_drift = False,
     rs_skipped = True\<rparr>"

text \<open>The rows of the day, their number and the sum of their totals; a total that is no number counts nothing.\<close>

definition ledger_for_day :: "string \<Rightarrow> sync_log list \<Rightarrow> sync_log list" where
  "ledger_for_day day rows = filter (\<lambda>r. in_window (day_start day) (day_start (nextUtcDay day)) (log_time r)) rows"

definition add_total :: "jsnum \<Rightarrow> sync_log \<Rightarrow> jsnum" where
  "add_total acc r = (let amt = parse_float (case sl_totalPrice (log_data r) of None \<Rightarrow> ''0'' | Some s \<Rightarrow> s) in
     if is_finite_num amt then num_add acc amt else acc)"

definition ledger_total :: "sync_log list \<Rightarrow> jsnum" where
  "ledger_total rows = foldl add_total (Fin 0) rows"

definition shopify_total :: "connection \<Rightarrow> order_aggregate \<Rightarrow> jsnum" where
  "shopify_total conn agg = parse_float (case map_of (oa_totals agg) (baseCurrency conn) of None \<Rightarrow> ''0'' | Some s \<Rightarrow> s)"

definition total_drifts :: "reconcile_config \<Rightarrow> jsnum \<Rightarrow> bool" where
  "total_drifts config diff \<longleftrightarrow> num_less (rg_totalToleranceAmount config) (num_abs diff)"

definition discrepancy_of :: "reconcile_config \<Rightarrow> int \<Rightarrow> jsnum \<Rightarrow> jsobj option" where
  "discrepancy_of config countDiff diff =
     (if countDiff \<noteq> 0 \<or> total_drifts config diff then
        Some [(''countDiff'', JNum (of_integer countDiff)), (''totalDiff'', JStr (to_fixed2 diff)),
          (''toleranceAmount'', JNum (rg_totalToleranceAmount config)),
          (''reason'', JStr (if countDiff \<noteq> 0 \<and> total_drifts config diff then ''count_and_total_diff''
             else if countDiff \<noteq> 0 then ''count_diff'' else ''total_diff''))]
      else None)"

definition day_snapshot ::
  "environment \<Rightarrow> reconcile_config \<Rightarrow> string \<Rightarrow> connection \<Rightarrow> string \<Rightarrow> order_aggregate \<Rightarrow> sync_log list
   \<Rightarrow> snapshot_input" where
  "day_snapshot env config cid conn day agg rows =
     (let nsTotal = ledger_total rows; shopifyTotal = shopify_total conn agg;
          countDiff = int (oa_count agg) - int (length rows) in
      \<lparr>sn_environment = env, sn_connectionId = cid, sn_businessDate = day,
       sn_shopifyOrderCount = oa_count agg, sn_nsTxnCount = length rows, sn_shopifyTotal = to_fixed2 shopifyTotal,
       sn_nsTotal = to_fixed2 nsTotal,
       sn_discrepancy = discrepancy_of config countDiff (round2 (num_sub shopifyTotal nsTotal))\<rparr>)"

definition imported_filter :: "environment \<Rightarrow> string \<Rightarrow> sync_log_filter" where
  "imported_filter env cid = \<lparr>lf_environment = env, lf_connectionId = Some cid, lf_status = Some SyncImported,
     lf_limit = Some 10000\<rparr>"

definition report_drift ::
  "'w reconcile_deps \<Rightarrow> string \<Rightarrow> connection \<Rightarrow> string \<Rightarrow> order_aggregate \<Rightarrow> sync_log list \<Rightarrow> ('w, unit) io" where
  "report_drift deps cid conn day agg rows = modify_st (rc_track deps (TrackReconciliationDrift (rc_environment deps)
     cid day (int (oa_count agg) - int (length rows))
     (to_fixed2 (round2 (num_sub (shopify_total conn agg) (ledger_total rows))))))"

definition reconcileOneDay ::
  "'w reconcile_deps \<Rightarrow> string \<Rightarrow> string \<Rightarrow> reconcile_config \<Rightarrow> ('w, reconcile_result) io" where
  "reconcileOneDay deps cid day config = (case (rc_listLog deps, rc_upsert deps) of
     (Some list_log, Some upsert) \<Rightarrow>
       bnd (rc_findById deps (rc_environment deps) cid) (\<lambda>found. case found of
         None \<Rightarrow> ret (not_ready cid day)
       | Some conn \<Rightarrow>
          (if \<not> enabled conn then ret (not_ready cid day)
           else bnd (rc_aggregate deps conn (day_start day) (day_start (nextUtcDay day))) (\<lambda>agg.
             bnd (list_log (imported_filter (rc_environment deps) cid)) (\<lambda>rows0.
               let rows = ledger_for_day day rows0;
                   input = day_snapshot (rc_environment deps) config cid conn day agg rows in
               bnd (upsert input) (\<lambda>snap.
               bnd (if sn_discrepancy input \<noteq> None then report_drift deps cid conn day agg rows else ret ()) (\<lambda>_.
                 ret \<lparr>rs_connectionId = cid, rs_businessDate = day, rs_snapshot = Some snap,
                   rs_drift = (sn_discrepancy input \<noteq> None), rs_skipped = False\<rparr>))))))
   | _ \<Rightarrow> ret (not_ready cid day))"

definition sweep_days ::
  "'w reconcile_deps \<Rightarrow> reconcile_config \<Rightarrow> int \<Rightarrow> reconcile_result list \<Rightarrow> connection \<Rightarrow> ('w, reconcile_result list) io" where
  "sweep_days deps config now results conn = fold_eff (\<lambda>acc i.
     bnd (reconcileOneDay deps (connectionId conn) (utcDayString (now - int i * 86400000)) config)
       (\<lambda>r. ret (acc @ [r]))) results [1..<Suc (rg_daysBack config)]"

definition runReconciliation :: "'w reconcile_deps \<Rightarrow> reconcile_config \<Rightarrow> ('w, reconcile_result list) io" where
  "runReconciliation deps config = bnd (rc_now deps) (\<lambda>now.
     bnd (rc_listEnabled deps (rc_environment deps)) (fold_eff (sweep_days deps config now) []))"

end
