(* ===== verification/Amounts.thy ===== *)
theory Amounts
  imports Balancing Calendar
begin

text \<open>
  Numerals as the stores and the Shopify answers write them: a whole number below \<open>2 ^ 53\<close> is read back
  exactly, an amount with two decimals is read as the binary64 value of its cents and printed again by
  \<open>toFixed(2)\<close>.
\<close>

section \<open>Digit strings\<close>

lemma digits_value_append: "digits_value (s @ t) = digits_value s * 10 ^ length t + digits_value t"
proof (induction t rule: rev_induct)
  case Nil
  then show ?case by (simp add: digits_value_def)
next
  case (snoc c t)
  then show ?case by (simp add: algebra_simps flip: append_assoc)
qed

lemma digits_value_pad [simp]: "digits_value (pad_start k (CHR ''0'') t) = digits_value t"
proof -
  have "digits_value (replicate j (CHR ''0'') @ t) = digits_value t" for j
    by (induction j) (simp_all add: digits_value_def digit_value_def)
  then show ?thesis by (simp add: pad_start_def)
qed

lemma digit_facts:
  assumes "is_digit c"
  shows "\<not> is_space c" "c \<noteq> CHR ''-''" "c \<noteq> CHR ''+''" "c \<noteq> CHR ''I''" "lower_char c = c" "c \<noteq> CHR ''.''"
    "c \<noteq> CHR ''x''" "c \<noteq> CHR ''o''" "c \<noteq> CHR ''b''"
  using assms by (auto simp: is_digit_def is_space_def lower_char_def is_upper_def)

lemma drop_no_space: "list_all is_digit s \<Longrightarrow> dropWhile is_space s = s"
  by (cases s) (auto simp: digit_facts)

lemma trim_digits: "list_all is_digit s \<Longrightarrow> trim s = s"
  by (simp add: trim_def trim_start_def drop_no_space)

lemma takeWhile_digits [simp]: "list_all is_digit s \<Longrightarrow> takeWhile is_digit s = s" "list_all is_digit s \<Longrightarrow> dropWhile is_digit s = []"
  by (auto simp: list_all_iff)

lemma decimal_prefix_digits:
  assumes "list_all is_digit s" and "s \<noteq> []"
  shows "decimal_prefix s = Some (of_int (digits_value s), [])"
  using assms by (simp add: decimal_prefix_def exponent_part_def)

lemma digits_no_sign:
  assumes "list_all is_digit s" and "s \<noteq> []"
  shows "signed_prefix (s @ t) = (case decimal_prefix (s @ t) of None \<Rightarrow> None | Some (x, rest) \<Rightarrow> Some (num x, rest))"
proof -
  obtain c u where s: "s = c # u" using assms(2) by (cases s) auto
  have "is_digit c" using assms(1) by (simp add: s)
  then show ?thesis by (auto simp: signed_prefix_def s digit_facts split: option.splits prod.splits)
qed

lemma number_of_digits:
  assumes "list_all is_digit s" and "s \<noteq> []"
  shows "number_of_string s = num (of_int (digits_value s))"
proof -
  obtain c u where s: "s = c # u" using assms(2) by (cases s) auto
  have "to_lower (take 2 s) \<notin> {''0x'', ''0o'', ''0b''}"
    using assms(1) by (cases u) (auto simp: s to_lower_def digit_facts)
  then show ?thesis
    using digits_no_sign [OF assms, of "[]"]
    by (simp add: number_of_string_def trim_digits [OF assms(1)] assms Let_def decimal_prefix_digits [OF assms])
qed

section \<open>Whole numbers\<close>

lemma fl_of_int:
  assumes "\<bar>n\<bar> < 2 ^ 53"
  shows "fl (of_int n) = of_int n"
proof (cases "n = 0")
  case False
  define e where "e = max (binexp \<bar>of_int n\<bar> - 52) (- 1074)"
  have "(2 :: rat) powi (binexp \<bar>of_int n\<bar>) \<le> \<bar>of_int n\<bar>" using False by (intro binexp_le) simp
  also have "\<bar>of_int n :: rat\<bar> < 2 powi 53"
    using assms by (metis of_int_abs of_int_less_iff of_int_numeral of_int_power power_int_numeral)
  finally have less: "(2 :: rat) powi (binexp \<bar>of_int n\<bar>) < 2 powi 53" .
  have "binexp \<bar>of_int n\<bar> < 53"
  proof (rule ccontr)
    assume "\<not> binexp \<bar>of_int n\<bar> < 53"
    then have "(2 :: rat) powi 53 \<le> 2 powi (binexp \<bar>of_int n\<bar>)" by (intro powi2_le_imp) simp
    then show False using less by simp
  qed
  then have e: "e \<le> 0" by (simp add: e_def)
  have u: "ulp (of_int n) = 2 powi e" by (simp add: ulp_def e_def)
  have "(of_int n :: rat) / 2 powi e = of_int (n * 2 ^ nat (- e))"
    using e by (simp add: power_int_def field_simps split: if_splits)
  then have "fl (of_int n) = of_int (n * 2 ^ nat (- e)) * 2 powi e"
    using False by (simp only: fl_def u rne_of_int) simp
  also have "\<dots> = of_int n"
    using e by (simp add: power_int_def field_simps split: if_splits)
  finally show ?thesis .
qed simp

lemma num_of_int:
  assumes "\<bar>n\<bar> < 2 ^ 53"
  shows "num (of_int n) = Fin (of_int n)"
proof -
  have "\<bar>of_int n :: rat\<bar> < 2 ^ 53"
    using assms by (metis of_int_abs of_int_less_iff of_int_numeral of_int_power)
  also have "(2 :: rat) ^ 53 \<le> 2 ^ 1024" by (rule power_increasing) simp_all
  finally show ?thesis using num_finite [of "of_int n"] fl_of_int [OF assms] by simp
qed

lemma number_of_show_nat:
  assumes "n < 2 ^ 53"
  shows "number_of_string (show_nat n) = Fin (of_nat n)"
proof -
  have "\<bar>int n\<bar> < 2 ^ 53" using assms by simp
  then show ?thesis
    using number_of_digits [OF show_nat_digits show_nat_nonempty, of n] num_of_int [of "int n"]
    by (simp add: show_nat_def)
qed

section \<open>Amounts with two decimals\<close>

lemma decimal_prefix_cents:
  assumes "list_all is_digit a" and "a \<noteq> []" and "list_all is_digit b" and "length b = 2"
  shows "decimal_prefix (a @ ''.'' @ b) = Some (of_int (digits_value (a @ b)) * 10 powi (- 2), [])"
proof -
  have "\<not> is_digit (CHR ''.'')" by (simp add: is_digit_def)
  then have "takeWhile is_digit (a @ ''.'' @ b) = a" "dropWhile is_digit (a @ ''.'' @ b) = ''.'' @ b"
    using assms(1) by (auto simp: list_all_iff)
  then show ?thesis using assms by (simp add: decimal_prefix_def exponent_part_def)
qed

lemma pad2_digits:
  assumes "0 \<le> n" and "n < 100"
  shows "list_all is_digit (pad_start 2 (CHR ''0'') (dec_digits n))" and "length (pad_start 2 (CHR ''0'') (dec_digits n)) = 2"
proof -
  have "is_digit (CHR ''0'')" by (simp add: is_digit_def)
  then show "list_all is_digit (pad_start 2 (CHR ''0'') (dec_digits n))"
    using dec_digits_digits [OF assms(1)] by (auto simp: pad_start_def list_all_iff)
  show "length (pad_start 2 (CHR ''0'') (dec_digits n)) = 2"
    using length_show_int [of n 1] assms by (simp add: pad_start_def show_int_def)
qed

lemma parse_show_cents:
  assumes "0 \<le> k" and "k \<le> 10 ^ 12"
  shows "parse_float (show_cents k) = Fin (cents k)"
proof -
  let ?a = "dec_digits (k div 100)" and ?b = "pad_start 2 (CHR ''0'') (dec_digits (k mod 100))"
  have a: "list_all is_digit ?a" "?a \<noteq> []" using assms(1) by (simp_all add: dec_digits_digits)
  have b: "list_all is_digit ?b" "length ?b = 2" using pad2_digits [of "k mod 100"] by simp_all
  have v: "digits_value (?a @ ?b) = k"
    using assms(1) b(2) by (simp add: digits_value_append)
  obtain c u where cu: "?a = c # u" using a(2) by (cases ?a) auto
  have "\<not> is_space c" using a(1) by (simp add: cu digit_facts)
  then have t: "trim_start (show_cents k) = show_cents k" by (simp add: trim_start_def show_cents_def cu)
  have "signed_prefix (?a @ ''.'' @ ?b) = Some (num (of_int k * 10 powi (- 2)), [])"
    using digits_no_sign [OF a, of "''.'' @ ?b"] unfolding decimal_prefix_cents [OF a b] v by simp
  then show ?thesis
    using cents_close(1) [of k] assms
    by (simp add: parse_float_def t) (simp add: show_cents_def power_int_minus)
qed

lemma rne_nonneg: "0 \<le> m \<Longrightarrow> 0 \<le> rne m"
  by (simp add: rne_def Let_def)

lemma fl_nonneg:
  assumes "0 \<le> x"
  shows "0 \<le> fl x"
proof -
  have "0 \<le> x / ulp x" using assms by (intro divide_nonneg_nonneg less_imp_le [OF ulp_pos])
  then have "0 \<le> rne (x / ulp x)" by (rule rne_nonneg)
  then show ?thesis by (auto simp: fl_def intro!: mult_nonneg_nonneg less_imp_le [OF ulp_pos])
qed

lemma cents_nonneg: "0 \<le> k \<Longrightarrow> 0 \<le> cents k"
  by (simp add: cents_def fl_nonneg)

lemma to_fixed2_near:
  assumes "0 \<le> x" and "\<bar>x - of_int k / 100\<bar> \<le> 1 / 1000" and "\<bar>k\<bar> \<le> 10 ^ 12"
  shows "to_fixed2 (Fin x) = show_cents k"
proof -
  have k: "\<bar>of_int k :: rat\<bar> \<le> 10 ^ 12"
    using assms(3) by (metis of_int_abs of_int_le_iff of_int_numeral of_int_power)
  then have "x < 2 * 10 ^ 12" using assms(2) unfolding ten_powers by linarith
  also have "\<dots> \<le> 10 ^ 21" by simp
  finally have "x < 10 ^ 21" .
  moreover have "cents_of x = k"
    unfolding cents_of_def using assms(2) by (intro floor_unique) linarith+
  ultimately show ?thesis using assms(1) by (simp add: show_num.simps)
qed

lemma to_fixed2_cents: "0 \<le> k \<Longrightarrow> k \<le> 10 ^ 12 \<Longrightarrow> to_fixed2 (Fin (cents k)) = show_cents k"
  using cents_close(2) [of k] by (intro to_fixed2_near) (auto intro: cents_nonneg)

text \<open>An amount written with two decimals survives reading and printing.\<close>

lemma amount_roundtrip: "0 \<le> k \<Longrightarrow> k \<le> 10 ^ 12 \<Longrightarrow> to_fixed2 (parse_float (show_cents k)) = show_cents k"
  by (simp only: parse_show_cents to_fixed2_cents)

section \<open>Sums of amounts\<close>

text \<open>Adding a further amount keeps the running sum non-negative and close to the exact cents.\<close>

lemma add_cents_step:
  assumes "0 \<le> t" and "\<bar>t - of_int s / 100\<bar> \<le> of_nat i / 1000000" and "i < 1000" and "\<bar>s\<bar> \<le> int i * 10 ^ 8"
    and "0 \<le> k" and "k \<le> 10 ^ 8"
  shows "\<exists>t'. num_add (Fin t) (Fin (cents k)) = Fin t' \<and> 0 \<le> t'
    \<and> \<bar>t' - of_int (s + k) / 100\<bar> \<le> of_nat (Suc i) / 1000000 \<and> \<bar>s + k\<bar> \<le> int (Suc i) * 10 ^ 8"
proof -
  obtain t' where t': "num_add (Fin t) (Fin (cents k)) = Fin t'"
      "\<bar>t' - of_int (s + k) / 100\<bar> \<le> of_nat (Suc i) / 1000000"
    using add_step [OF assms(2-4), of k] assms(5,6) by auto
  have "t' = fl (t + cents k)" using t'(1) by (auto simp: num_def Let_def split: if_splits)
  then have "0 \<le> t'" using assms(1) cents_nonneg [OF assms(5)] by (simp add: fl_nonneg)
  then show ?thesis using t' assms(4-6) by auto
qed

end
