(* ===== verification/Followup.thy ===== *)
theory Followup
  imports Producers DeadLetter Reconcile Amounts
begin

text \<open>
  What follows the import on the wired system: the dead-letter listener and the daily reconciliation.
\<close>

section \<open>The dead-letter listener\<close>

definition booted_dlq :: "cfg \<Rightarrow> sys dlq_deps" where
  "booted_dlq cfg = \<lparr>dq_environment = cf_environment cfg,
     dq_findById = \<lambda>env cid. ret (findById (cf_repo cfg) env cid),
     dq_errorStore = Some (\<lambda>i. on_errors cfg (\<lambda>now. pg_err_record now i),
       \<lambda>rid st. on_errors cfg (\<lambda>now. pg_err_updateStatus now rid st None)),
     dq_attempts = Some (\<lambda>i. on_attempts cfg (\<lambda>now. pure_op (pg_att_record now i))),
     dq_syncLog = Some (\<lambda>k. on_log cfg (\<lambda>_. read_st (pg_log_find k)), \<lambda>i. on_log cfg (\<lambda>now. pure_op (pg_log_upsert now i))),
     dq_now = tick cfg\<rparr>"

lemma dlq_deps_simps [simp]:
  "dq_findById (booted_dlq cfg) env cid = ret (findById (cf_repo cfg) env cid)"
  "dq_errorStore (booted_dlq cfg) = Some (\<lambda>i. on_errors cfg (\<lambda>now. pg_err_record now i),
     \<lambda>rid st. on_errors cfg (\<lambda>now. pg_err_updateStatus now rid st None))"
  "dq_attempts (booted_dlq cfg) = Some (\<lambda>i. on_attempts cfg (\<lambda>now. pure_op (pg_att_record now i)))"
  "dq_syncLog (booted_dlq cfg) = Some (\<lambda>k. on_log cfg (\<lambda>_. read_st (pg_log_find k)),
     \<lambda>i. on_log cfg (\<lambda>now. pure_op (pg_log_upsert now i)))"
  "dq_now (booted_dlq cfg) = tick cfg"
  by (simp_all add: booted_dlq_def)

text \<open>The row a dead letter leaves, and what it leaves alone.\<close>

definition quarantined_row :: "string \<Rightarrow> string \<Rightarrow> jsval \<Rightarrow> string \<Rightarrow> error_record \<Rightarrow> bool" where
  "quarantined_row rid key message summary r \<longleftrightarrow> er_id r = rid \<and> er_status r = ErrQuarantined \<and> er_dedupKey r = key
     \<and> er_envelope r = message \<and> er_errorClass r = Unknown \<and> er_message r = summary"

definition same_orders :: "sys \<Rightarrow> sys \<Rightarrow> bool" where
  "same_orders w w' \<longleftrightarrow> sys_xref w' = sys_xref w \<and> sys_ns w' = sys_ns w \<and> sys_queue w' = sys_queue w"

lemma same_orders_trans: "same_orders u v \<Longrightarrow> same_orders v w \<Longrightarrow> same_orders u w"
  by (simp add: same_orders_def)

text \<open>A swallowed step on the attempts or the sync log: whatever it does, the listener goes on.\<close>

definition errors_kept :: "sys \<Rightarrow> sys \<Rightarrow> bool" where
  "errors_kept w w' \<longleftrightarrow> same_orders w w' \<and> sys_errors w' = sys_errors w"

lemma errors_kept_refl [simp]: "errors_kept w w"
  by (simp add: errors_kept_def same_orders_def)

lemma wp_swallow [wp_simps]: "wp (swallow m) Q E w = wp m (\<lambda>_. Q ()) (\<lambda>_. Q ()) w"
  by (simp add: swallow_def wp_simps wp_ret_fun)

lemma wp_on_attempts_any:
  assumes "\<And>r w'. errors_kept w w' \<Longrightarrow> sys_log w' = sys_log w \<Longrightarrow> Q r w'"
    and "\<And>e w'. errors_kept w w' \<Longrightarrow> sys_log w' = sys_log w \<Longrightarrow> E e w'"
  shows "wp (on_attempts cfg m) Q E w"
  using assms by (auto simp: wp_def on_attempts_def call_def Let_def errors_kept_def same_orders_def
      split: option.splits prod.splits sum.splits)

lemma wp_on_log_any:
  assumes "\<And>r w'. errors_kept w w' \<Longrightarrow> Q r w'" and "\<And>e w'. errors_kept w w' \<Longrightarrow> E e w'"
  shows "wp (on_log cfg m) Q E w"
  using assms by (auto simp: wp_def on_log_def call_def Let_def errors_kept_def same_orders_def
      split: option.splits prod.splits sum.splits)

lemma errors_kept_trans: "errors_kept u v \<Longrightarrow> errors_kept v w \<Longrightarrow> errors_kept u w"
  by (simp add: errors_kept_def same_orders_def)

lemma wp_tick_kept:
  assumes "\<And>t w'. errors_kept w w' \<Longrightarrow> sys_log w' = sys_log w \<Longrightarrow> Q t w'"
  shows "wp (tick cfg) Q E w"
  using assms by (simp add: wp_def tick_def errors_kept_def same_orders_def)

lemma attempt_kept:
  assumes "\<And>w'. errors_kept w w' \<Longrightarrow> sys_log w' = sys_log w \<Longrightarrow> Q () w'"
  shows "wp (quarantine_attempt (booted_dlq cfg) env n summary) Q E w"
  using assms
  by (auto simp: quarantine_attempt_def wp_simps wp_ret intro!: wp_tick_kept wp_on_attempts_any)
    (metis errors_kept_trans)+

lemma bump_kept:
  assumes "\<And>w'. errors_kept w w' \<Longrightarrow> Q () w'"
  shows "wp (bump_sync_log (booted_dlq cfg) env n) Q E w"
  using assms
  by (auto simp: bump_sync_log_def wp_simps wp_ret split: option.splits intro!: wp_on_log_any)
    (blast intro: errors_kept_trans)+

lemma by_id_show_nat:
  assumes "n < 2 ^ 53"
  shows "by_id (show_nat n) = Some (\<lambda>r. number_of_string (er_id r) = Fin (of_nat n))"
  by (simp add: by_id_def number_of_show_nat [OF assms])

lemma wp_record_row:
  assumes "cf_fault cfg (sys_step w) = None"
    and "\<And>now w'. same_orders w w' \<Longrightarrow> sys_step w' = Suc (sys_step w)
      \<Longrightarrow> error_row (show_nat (Suc (pe_seq (sys_errors w)))) now (i\<lparr>ne_envelope := json_column (ne_envelope i)\<rparr>)
        \<in> set (pe_rows (sys_errors w')) \<Longrightarrow> sys_log w' = sys_log w
      \<Longrightarrow> Q (error_row (show_nat (Suc (pe_seq (sys_errors w)))) now (i\<lparr>ne_envelope := json_column (ne_envelope i)\<rparr>)) w'"
  shows "wp (on_errors cfg (\<lambda>now. pg_err_record now i)) Q E w"
  using assms by (simp add: wp_def on_errors_def call_def Let_def pg_err_record_def same_orders_def)

lemma wp_status_row:
  assumes "cf_fault cfg (sys_step w) = None" and "row \<in> set (pe_rows (sys_errors w))" and "er_id row = show_nat n" and "n < 2 ^ 53"
    and "\<And>now r w'. same_orders w w' \<Longrightarrow> row\<lparr>er_status := st, er_updatedAt := now\<rparr> \<in> set (pe_rows (sys_errors w'))
      \<Longrightarrow> sys_log w' = sys_log w \<Longrightarrow> Q r w'"
  shows "wp (on_errors cfg (\<lambda>now. pg_err_updateStatus now (er_id row) st None)) Q E w"
proof -
  obtain r where "find (\<lambda>r. number_of_string (er_id r) = Fin (of_nat n)) (pe_rows (sys_errors w)) = Some r"
    using assms(2,3) number_of_show_nat [OF assms(4)]
    by (cases "find (\<lambda>r. number_of_string (er_id r) = Fin (of_nat n)) (pe_rows (sys_errors w))") (auto simp: find_None_iff)
  then show ?thesis
    using assms(2,3) number_of_show_nat [OF assms(4)]
    by (auto simp: wp_def on_errors_def call_def Let_def assms(1) pg_err_updateStatus_def pg_err_modify_def by_id_show_nat [OF assms(4)]
        same_orders_def intro!: assms(5) [where now = "cf_clock cfg (sys_step w)"] rev_image_eqI [of row])
qed

text \<open>The listener up to the point where the row is quarantined; \<open>Q\<close> is what the swallowed rest leaves.\<close>

lemma dead_letter_upto:
  assumes "cf_fault cfg (sys_step w) = None" and "cf_fault cfg (Suc (sys_step w)) = None"
    and "Suc (pe_seq (sys_errors w)) < 2 ^ 53" and "parseEnvelope message = Inr env"
    and "findById (cf_repo cfg) (de_environment env) (de_connectionId env) = Some conn"
    and "dedupKey (dlq_key env) = Inr key"
    and "\<And>rid r v. same_orders w v \<Longrightarrow> sys_log v = sys_log w \<Longrightarrow> r \<in> set (pe_rows (sys_errors v))
      \<Longrightarrow> quarantined_row rid key message (dlq_summary meta) r
      \<Longrightarrow> wp (quarantine_attempt (booted_dlq cfg) env (case dm_deliveryCount meta of None \<Rightarrow> 0 | Some n \<Rightarrow> n) (dlq_summary meta))
        (\<lambda>_. wp (bump_sync_log (booted_dlq cfg) env (case dm_deliveryCount meta of None \<Rightarrow> 0 | Some n \<Rightarrow> n))
          (\<lambda>_. Q (DlqRecorded rid key)) E) E v"
  shows "wp (handleDeadLetteredOrder (booted_dlq cfg) message meta) Q E w"
proof -
  let ?n = "Suc (pe_seq (sys_errors w))"
  have "is_obj message" using assms(4) by (auto simp: parseEnvelope_def split: if_splits)
  then have col: "json_column message = message" by (cases message) (simp_all add: json_column_def nullish_def)
  have same: "i\<lparr>ne_envelope := json_column (ne_envelope i)\<rparr> = i" if "i = dlq_error e c k m message" for i e c k m
    by (simp add: that dlq_error_def col)
  have row: "quarantined_row (show_nat ?n) key message (dlq_summary meta)
      ((error_row (show_nat ?n) t (dlq_error e c key (dlq_summary meta) message))\<lparr>er_status := ErrQuarantined, er_updatedAt := t'\<rparr>)"
    for t t' e c by (simp add: quarantined_row_def error_row_def dlq_error_def)
  show ?thesis
    unfolding handleDeadLetteredOrder_def dlq_deps_simps option.case prod.case assms(4) sum.case wp_bnd wp_ret assms(5,6) wp_lift_sum Let_def
  proof (rule wp_record_row [OF assms(1)], unfold same [OF refl], goal_cases)
    case (1 now w1)
    let ?row = "error_row (show_nat ?n) now (dlq_error (de_environment env) (de_connectionId env) key (dlq_summary meta) message)"
    have rid: "er_id ?row = show_nat ?n" by (simp add: error_row_def)
    show ?case
    proof (rule wp_status_row [where row = ?row and n = ?n], goal_cases)
      case (5 t r w2)
      have "same_orders w w2" using 1(1) 5(1) by (rule same_orders_trans)
      moreover have "sys_log w2 = sys_log w" using 1(4) 5(3) by simp
      ultimately show ?case unfolding rid by (rule assms(7) [OF _ _ 5(2) row])
    qed (use 1 assms(2,3) rid in simp_all)
  qed
qed

lemma dead_letter_runs:
  assumes "cf_fault cfg (sys_step w) = None" and "cf_fault cfg (Suc (sys_step w)) = None"
    and "Suc (pe_seq (sys_errors w)) < 2 ^ 53" and "parseEnvelope message = Inr env"
    and "findById (cf_repo cfg) (de_environment env) (de_connectionId env) = Some conn"
    and "dedupKey (dlq_key env) = Inr key"
  shows "wp (handleDeadLetteredOrder (booted_dlq cfg) message meta)
    (\<lambda>out w'. \<exists>rid. out = DlqRecorded rid key \<and> same_orders w w'
       \<and> (\<exists>r \<in> set (pe_rows (sys_errors w')). quarantined_row rid key message (dlq_summary meta) r)) (\<lambda>_ _. False) w"
  by (rule dead_letter_upto [OF assms], intro attempt_kept bump_kept)
    (auto simp: errors_kept_def dest: same_orders_trans)

text \<open>
  C18: a dead letter is not lost. A dead-lettered message of a known connection becomes an error row
  \<open>quarantined\<close> with the message, its key and Service Bus's reason, as soon as the two calls that write
  the row succeed; whatever fails afterwards is swallowed. The ledger, NetSuite and the queue stay as they
  are, so a row the failed deliveries left \<open>pending\<close> stays \<open>pending\<close>.
\<close>

theorem dead_letter_quarantined:
  assumes "cf_fault cfg (sys_step w) = None" and "cf_fault cfg (Suc (sys_step w)) = None"
    and "Suc (pe_seq (sys_errors w)) < 2 ^ 53" and "parseEnvelope message = Inr env"
    and "findById (cf_repo cfg) (de_environment env) (de_connectionId env) = Some conn"
    and "dedupKey (dlq_key env) = Inr key"
  shows "\<exists>rid r w'. handleDeadLetteredOrder (booted_dlq cfg) message meta w = (Inr (DlqRecorded rid key), w')
    \<and> r \<in> set (pe_rows (sys_errors w')) \<and> quarantined_row rid key message (dlq_summary meta) r \<and> same_orders w w'"
  using dead_letter_runs [OF assms, of meta] by (auto simp: wp_def split: prod.splits sum.splits)

section \<open>The bump of the sync log\<close>

text \<open>What the bump leaves of a row: the status and the time, not the order.\<close>

lemma bumped_row:
  assumes "pg_log_find (dlq_ref env) t = Some old"
  shows "\<exists>row. pg_log_find (dlq_ref env) (snd (pg_log_upsert now (dlq_bump env old n) t)) = Some row
    \<and> log_data row = pg_log_merged (log_data old) (dlq_bump env old n)"
proof -
  have ref: "sl_ref (dlq_bump env old n) = dlq_ref env" by (simp add: sl_ref_def dlq_bump_def dlq_ref_def)
  let ?row = "old\<lparr>log_data := pg_log_merged (log_data old) (dlq_bump env old n), log_updatedAt := now\<rparr>"
  have "sl_ref (log_data ?row) = dlq_ref env" by (simp add: sl_ref_def dlq_bump_def dlq_ref_def pg_log_merged_def)
  then have "find (\<lambda>r. sl_ref (log_data r) = dlq_ref env) (map (\<lambda>r. if sl_ref (log_data r) = dlq_ref env then ?row else r) rows) = Some ?row"
    if "find (\<lambda>r. sl_ref (log_data r) = dlq_ref env) rows = Some old" for rows
    using that by (induction rows) (auto split: if_splits)
  then show ?thesis
    using assms by (simp add: pg_log_upsert_def ref pg_log_find_def Let_def)
qed

text \<open>The bump on the wired system, where no call fails.\<close>

lemma bump_runs:
  assumes "no_faults cfg" and "pg_log_find (dlq_ref env) (sys_log w) = Some old" and "0 < n"
    and "\<And>row w'. pg_log_find (dlq_ref env) (sys_log w') = Some row
      \<Longrightarrow> log_data row = pg_log_merged (log_data old) (dlq_bump env old n) \<Longrightarrow> Q () w'"
  shows "wp (bump_sync_log (booted_dlq cfg) env n) Q E w"
proof -
  let ?w1 = "w\<lparr>sys_step := Suc (sys_step w)\<rparr>"
  have get: "on_log cfg (\<lambda>_. read_st (pg_log_find k)) w = (Inr (pg_log_find k (sys_log w)), ?w1)" for k
    by (simp add: on_log_def call_runs [OF assms(1)])
  obtain r t where up: "pg_log_upsert (cf_clock cfg (sys_step ?w1)) (dlq_bump env old n) (sys_log ?w1) = (r, t)" by force
  then have set: "on_log cfg (\<lambda>now. pure_op (pg_log_upsert now (dlq_bump env old n))) ?w1
      = (Inr r, ?w1\<lparr>sys_step := Suc (sys_step ?w1), sys_log := t\<rparr>)"
    by (simp add: on_log_def call_runs [OF assms(1)] pure_op_def)
  obtain row where "pg_log_find (dlq_ref env) t = Some row" "log_data row = pg_log_merged (log_data old) (dlq_bump env old n)"
    using bumped_row [of env "sys_log ?w1" old "cf_clock cfg (sys_step ?w1)" n] assms(2) up by auto
  then show ?thesis
    using assms(3) by (simp add: bump_sync_log_def wp_simps, simp add: wp_def get assms(2) bnd_app set [simplified] assms(4))
qed

definition erased_order :: "sync_log_input \<Rightarrow> sync_log \<Rightarrow> bool" where
  "erased_order old row \<longleftrightarrow> sl_status (log_data row) = sl_status old \<and> sl_syncedAt (log_data row) = sl_syncedAt old
     \<and> sl_totalPrice (log_data row) = None \<and> sl_nsInternalId (log_data row) = None \<and> sl_orderName (log_data row) = None
     \<and> sl_customerEmail (log_data row) = None \<and> (\<forall>acc. add_total acc row = num_add acc (Fin 0))"

lemma bump_erases: "log_data row = pg_log_merged (log_data old) (dlq_bump env old n) \<Longrightarrow> erased_order (log_data old) row"
proof -
  have "parse_float ''0'' = Fin 0" by code_simp
  then show "log_data row = pg_log_merged (log_data old) (dlq_bump env old n) \<Longrightarrow> erased_order (log_data old) row"
    by (simp add: erased_order_def pg_log_merged_def dlq_bump_def coalesce_def add_total_def)
qed

text \<open>
  C19: the dead letter of a logged order erases its sync-log row. When the dead-lettered order already has
  a row, the bump of its attempt count keeps the status and the time of the row but overwrites the total,
  the NetSuite id, the name and the customer with \<open>NULL\<close>: an imported order then counts as zero in the
  reconciliation and can no longer be found by its NetSuite id.
\<close>

theorem dlq_bump_erases:
  assumes "no_faults cfg" and "Suc (pe_seq (sys_errors w)) < 2 ^ 53" and "parseEnvelope message = Inr env"
    and "findById (cf_repo cfg) (de_environment env) (de_connectionId env) = Some conn"
    and "dedupKey (dlq_key env) = Inr key" and "dm_deliveryCount meta = Some n" and "0 < n"
    and "pg_log_find (dlq_ref env) (sys_log w) = Some old"
  shows "\<exists>rid row w'. handleDeadLetteredOrder (booted_dlq cfg) message meta w = (Inr (DlqRecorded rid key), w')
    \<and> pg_log_find (dlq_ref env) (sys_log w') = Some row \<and> erased_order (log_data old) row"
proof -
  have "cf_fault cfg k = None" for k using assms(1) by (simp add: no_faults_def)
  then have "wp (handleDeadLetteredOrder (booted_dlq cfg) message meta)
      (\<lambda>out w'. \<exists>rid row. out = DlqRecorded rid key \<and> pg_log_find (dlq_ref env) (sys_log w') = Some row
        \<and> erased_order (log_data old) row) (\<lambda>_ _. False) w"
    by (intro dead_letter_upto [OF _ _ assms(2-5)] attempt_kept)
      (use assms(7,8) in \<open>auto simp: assms(6) intro!: bump_runs [OF assms(1)] intro: bump_erases\<close>)
  then show ?thesis by (auto simp: wp_def split: prod.splits sum.splits)
qed

section \<open>The daily reconciliation\<close>

text \<open>\<open>agg\<close> is Shopify's answer to the aggregate of a window.\<close>

definition booted_reconcile ::
  "cfg \<Rightarrow> (connection \<Rightarrow> string \<Rightarrow> string \<Rightarrow> order_aggregate) \<Rightarrow> sys reconcile_deps" where
  "booted_reconcile cfg agg = \<lparr>rc_environment = cf_environment cfg,
     rc_listEnabled = \<lambda>env. ret (listEnabled (cf_repo cfg) env),
     rc_findById = \<lambda>env cid. ret (findById (cf_repo cfg) env cid),
     rc_aggregate = \<lambda>conn a b. ask cfg (\<lambda>_. Inr (agg conn a b)),
     rc_listLog = Some (\<lambda>f. on_log cfg (\<lambda>_. read_st (pg_log_list f))),
     rc_upsert = Some (\<lambda>i. on_snapshots cfg (\<lambda>now. pure_op (pg_recon_upsert now i))),
     rc_track = \<lambda>_ w. w, rc_now = tick cfg\<rparr>"

lemma reconcile_deps_simps [simp]:
  "rc_environment (booted_reconcile cfg agg) = cf_environment cfg"
  "rc_findById (booted_reconcile cfg agg) env cid = ret (findById (cf_repo cfg) env cid)"
  "rc_aggregate (booted_reconcile cfg agg) conn a b = ask cfg (\<lambda>_. Inr (agg conn a b))"
  "rc_listLog (booted_reconcile cfg agg) = Some (\<lambda>f. on_log cfg (\<lambda>_. read_st (pg_log_list f)))"
  "rc_upsert (booted_reconcile cfg agg) = Some (\<lambda>i. on_snapshots cfg (\<lambda>now. pure_op (pg_recon_upsert now i)))"
  "rc_track (booted_reconcile cfg agg) rep v = v"
  by (simp_all add: booted_reconcile_def)

text \<open>
  A day's ledger in whole cents: every total is a text that reads as the amount, as the one with two
  decimals (\<open>parse_show_cents\<close>) and the one the \<open>DECIMAL(18,4)\<close> column prints both do.
\<close>

definition reads_cents :: "string option \<Rightarrow> int \<Rightarrow> bool" where
  "reads_cents s k \<longleftrightarrow> parse_float (case s of None \<Rightarrow> ''0'' | Some t \<Rightarrow> t) = Fin (cents k)"


definition row_cents :: "sync_log \<Rightarrow> int \<Rightarrow> bool" where
  "row_cents r k \<longleftrightarrow> reads_cents (sl_totalPrice (log_data r)) k \<and> 0 \<le> k \<and> k \<le> 10 ^ 8"

lemma add_total_cents: "row_cents r k \<Longrightarrow> add_total acc r = num_add acc (Fin (cents k))"
  by (simp add: row_cents_def reads_cents_def add_total_def)

lemma ledger_fold_cents:
  assumes "list_all2 row_cents rows ks" and "0 \<le> t" and "\<bar>t - of_int s / 100\<bar> \<le> of_nat i / 1000000"
    and "i + length rows \<le> 1000" and "\<bar>s\<bar> \<le> int i * 10 ^ 8"
  shows "\<exists>t'. foldl add_total (Fin t) rows = Fin t' \<and> 0 \<le> t'
    \<and> \<bar>t' - of_int (s + sum_list ks) / 100\<bar> \<le> of_nat (i + length rows) / 1000000
    \<and> \<bar>s + sum_list ks\<bar> \<le> int (i + length rows) * 10 ^ 8"
  using assms
proof (induction rows ks arbitrary: i s t rule: list_all2_induct)
  case (Cons r rows k ks)
  have k: "0 \<le> k" "k \<le> 10 ^ 8" using Cons.hyps(1) by (simp_all add: row_cents_def)
  have i: "i < 1000" using Cons.prems(3) by simp
  obtain t1 where "num_add (Fin t) (Fin (cents k)) = Fin t1" "0 \<le> t1"
      "\<bar>t1 - of_int (s + k) / 100\<bar> \<le> of_nat (Suc i) / 1000000" "\<bar>s + k\<bar> \<le> int (Suc i) * 10 ^ 8"
    using add_cents_step [OF Cons.prems(1,2) i Cons.prems(4) k] by blast
  then show ?case
    using Cons.IH [of t1 "s + k" "Suc i"] Cons.prems(3) add_total_cents [OF Cons.hyps(1)]
    by (simp add: add.assoc)
qed auto

lemma ledger_total_cents:
  assumes "list_all2 row_cents rows ks" and "length rows < 1000"
  shows "\<exists>t. ledger_total rows = Fin t \<and> 0 \<le> t \<and> \<bar>t - of_int (sum_list ks) / 100\<bar> \<le> 999 / 1000000
    \<and> \<bar>sum_list ks\<bar> \<le> 10 ^ 11"
proof -
  obtain t where t: "foldl add_total (Fin 0) rows = Fin t" "0 \<le> t"
      "\<bar>t - of_int (sum_list ks) / 100\<bar> \<le> of_nat (length rows) / 1000000"
      "\<bar>sum_list ks\<bar> \<le> int (length rows) * 10 ^ 8"
    using ledger_fold_cents [OF assms(1), of 0 0 0] assms(2) by auto
  have "(of_nat (length rows) :: rat) / 1000000 \<le> 999 / 1000000" using assms(2) by simp
  then show ?thesis using t assms(2) by (auto simp: ledger_total_def)
qed

text \<open>The difference of Shopify's total and the ledger's, as the sweep computes it.\<close>

lemma sweep_difference:
  assumes "0 \<le> t" and "\<bar>t - of_int s / 100\<bar> \<le> 999 / 1000000" and "\<bar>s\<bar> \<le> 10 ^ 11" and "0 \<le> k" and "k \<le> 10 ^ 11"
  shows "round2 (num_sub (Fin (cents k)) (Fin t)) = Fin (cents (k - s))"
proof -
  have b: "\<bar>of_int k :: rat\<bar> \<le> 10 ^ 11" "\<bar>of_int s :: rat\<bar> \<le> 10 ^ 11"
    using assms(3-5) by (metis abs_of_nonneg of_int_abs of_int_le_iff of_int_numeral of_int_power)+
  have c: "\<bar>cents k - of_int k / 100\<bar> \<le> 10 ^ 9 / 4503599627370496"
    unfolding cents_def using b(1) by (intro num_close(2)) (simp_all add: abs_divide)
  have d: "\<bar>cents k - t\<bar> \<le> 3 * 10 ^ 9" using c b assms(2) unfolding ten_powers by linarith
  have n: "num (cents k - t) = Fin (fl (cents k - t))" "\<bar>fl (cents k - t) - (cents k - t)\<bar> \<le> 3 * 10 ^ 9 / 4503599627370496"
    using num_close [OF _ _ d] by simp_all
  have "near (Fin (fl (cents k - t))) (k - s)"
    unfolding near_def
    using n(2) c assms(2) unfolding of_int_diff diff_divide_distrib ten_powers
    by (intro exI [of _ "fl (cents k - t)"] conjI refl) linarith
  moreover have "\<bar>k - s\<bar> \<le> 10 ^ 12" using assms(3-5) unfolding ten_powers by linarith
  ultimately show ?thesis using n(1) round2_near by (simp add: num_sub_Fin)
qed

definition drift_cents :: "order_aggregate \<Rightarrow> sync_log list \<Rightarrow> int \<Rightarrow> bool" where
  "drift_cents agg rows d \<longleftrightarrow> oa_count agg \<noteq> length rows \<or> 5 < \<bar>d\<bar>"

text \<open>The snapshot of a day in whole cents.\<close>

definition exact_snapshot :: "order_aggregate \<Rightarrow> sync_log list \<Rightarrow> int \<Rightarrow> int \<Rightarrow> snapshot_input \<Rightarrow> bool" where
  "exact_snapshot agg rows k s i \<longleftrightarrow> sn_shopifyOrderCount i = oa_count agg \<and> sn_nsTxnCount i = length rows
     \<and> sn_shopifyTotal i = show_cents k \<and> sn_nsTotal i = show_cents s
     \<and> (sn_discrepancy i \<noteq> None \<longleftrightarrow> drift_cents agg rows (k - s))"

lemma day_snapshot_cents:
  assumes "list_all2 row_cents rows ks" and "length rows < 1000"
    and "reads_cents (map_of (oa_totals agg) (baseCurrency conn)) k" and "0 \<le> k" and "k \<le> 10 ^ 11"
  shows "exact_snapshot agg rows k (sum_list ks) (day_snapshot env DEFAULT_RECONCILIATION_CONFIG cid conn day agg rows)"
proof -
  obtain t where t: "ledger_total rows = Fin t" "0 \<le> t" "\<bar>t - of_int (sum_list ks) / 100\<bar> \<le> 999 / 1000000"
      "\<bar>sum_list ks\<bar> \<le> 10 ^ 11"
    using ledger_total_cents [OF assms(1,2)] by blast
  have sh: "shopify_total conn agg = Fin (cents k)"
    using assms(3) by (simp add: shopify_total_def reads_cents_def)
  note d = sweep_difference [OF t(2-4) assms(4,5)]
  have "\<bar>k - sum_list ks\<bar> \<le> 10 ^ 12" using t(4) assms(4,5) unfolding ten_powers by linarith
  note tol = cents_tolerance(1) [OF this]
  have "to_fixed2 (Fin t) = show_cents (sum_list ks)" "to_fixed2 (Fin (cents k)) = show_cents k"
    using to_fixed2_near [OF t(2), of "sum_list ks"] t(3,4) to_fixed2_cents [of k] assms(4,5) by simp_all
  then show ?thesis
    using tol by (auto simp: exact_snapshot_def day_snapshot_def Let_def t(1) sh d discrepancy_of_def total_drifts_def
        drift_cents_def DEFAULT_RECONCILIATION_CONFIG_def simp del: num_abs.simps to_fixed2.simps)
qed

lemma recon_upsert_find: "pg_recon_find (sn_ref i) (snd (pg_recon_upsert now i t)) = Some (fst (pg_recon_upsert now i t))
    \<and> sns_data (fst (pg_recon_upsert now i t)) = i"
proof -
  have "find (\<lambda>r. sn_ref (sns_data r) = sn_ref i) (map (\<lambda>r. if sn_ref (sns_data r) = sn_ref i then row else r) t) = Some row"
    if "sns_data row = i" "find (\<lambda>r. sn_ref (sns_data r) = sn_ref i) t \<noteq> None" for row
    using that by (induction t) auto
  moreover have "find (\<lambda>r. sn_ref (sns_data r) = sn_ref i) (t @ [row]) = Some row"
    if "sns_data row = i" "find (\<lambda>r. sn_ref (sns_data r) = sn_ref i) t = None" for row
    using that by (induction t) (auto split: if_splits)
  ultimately show ?thesis
    by (auto simp: pg_recon_upsert_def pg_recon_find_def Let_def split: option.splits)
qed

lemma wp_snapshot_runs:
  assumes "no_faults cfg"
    and "\<And>r w'. pg_recon_find (sn_ref i) (sys_snapshots w') = Some r \<Longrightarrow> sns_data r = i \<Longrightarrow> core w' = core w \<Longrightarrow> Q r w'"
  shows "wp (on_snapshots cfg (\<lambda>now. pure_op (pg_recon_upsert now i))) Q E w"
proof -
  obtain r t where set: "pg_recon_upsert (cf_clock cfg (sys_step w)) i (sys_snapshots w) = (r, t)" by force
  then show ?thesis
    using recon_upsert_find [of i "cf_clock cfg (sys_step w)" "sys_snapshots w"] assms(2)
    by (simp add: wp_def on_snapshots_def call_runs [OF assms(1)] pure_op_def core_def)
qed

lemma wp_log_read_runs:
  assumes "no_faults cfg" and "\<And>w'. core w' = core w \<Longrightarrow> Q (f (sys_log w)) w'"
  shows "wp (on_log cfg (\<lambda>_. read_st f)) Q E w"
  using assms(2) by (simp add: wp_def on_log_def call_runs [OF assms(1)] core_def)

lemma wp_aggregate_runs:
  assumes "no_faults cfg" and "\<And>w'. core w' = core w \<Longrightarrow> sys_log w' = sys_log w \<Longrightarrow> Q x w'"
  shows "wp (ask cfg (\<lambda>_. Inr x)) Q E w"
  using assms by (simp add: wp_def ask_def Let_def no_faults_def core_def)

text \<open>The ledger rows of a day, as the sweep reads them.\<close>

definition day_rows :: "cfg \<Rightarrow> string \<Rightarrow> string \<Rightarrow> sys \<Rightarrow> sync_log list" where
  "day_rows cfg cid day w = ledger_for_day day (pg_log_list (imported_filter (cf_environment cfg) cid) (sys_log w))"

lemma reconcile_runs:
  assumes "no_faults cfg" and "findById (cf_repo cfg) (cf_environment cfg) cid = Some conn" and "enabled conn"
    and "rows = day_rows cfg cid day w" and "a = agg conn (day_start day) (day_start (nextUtcDay day))"
  shows "wp (reconcileOneDay (booted_reconcile cfg agg) cid day config)
    (\<lambda>rs w'. \<exists>s. rs_snapshot rs = Some s \<and> pg_recon_find (cf_environment cfg, cid, day) (sys_snapshots w') = Some s
       \<and> sns_data s = day_snapshot (cf_environment cfg) config cid conn day a rows
       \<and> rs_drift rs = (sn_discrepancy (sns_data s) \<noteq> None) \<and> \<not> rs_skipped rs \<and> core w' = core w) (\<lambda>_ _. False) w"
proof -
  have ref: "sn_ref (day_snapshot (cf_environment cfg) config cid conn day a rows) = (cf_environment cfg, cid, day)"
    by (simp add: sn_ref_def day_snapshot_def Let_def)
  have on: "\<not> \<not> enabled conn" using assms(3) by simp
  show ?thesis
    unfolding reconcileOneDay_def reconcile_deps_simps option.case prod.case wp_bnd wp_ret assms(2) Let_def
    unfolding if_not_P [OF on] wp_bnd assms(5) [symmetric]
  proof (rule wp_aggregate_runs [OF assms(1)],
      rule wp_log_read_runs [OF assms(1), where f = "pg_log_list (imported_filter (cf_environment cfg) cid)"], goal_cases)
    case (1 w1 w2)
    have "ledger_for_day day (pg_log_list (imported_filter (cf_environment cfg) cid) (sys_log w1)) = rows"
      using 1(2) by (simp add: assms(4) day_rows_def)
    then show ?case
      using 1(1,3) ref by (auto simp: report_drift_def wp_simps intro!: wp_snapshot_runs [OF assms(1)])
  qed
qed

text \<open>
  C20: the reconciliation is exact to the cent. For a day of an enabled connection whose totals read as
  whole cents (fewer than a thousand rows of up to a million each), the sweep stores a snapshot
  with both counts and both exact totals, and reports drift exactly when the counts differ or the totals
  are more than five cents apart, binary64 sums notwithstanding.
\<close>

theorem reconciliation_exact:
  assumes "no_faults cfg" and "findById (cf_repo cfg) (cf_environment cfg) cid = Some conn" and "enabled conn"
    and "list_all2 row_cents (day_rows cfg cid day w) ks" and "length ks < 1000"
    and "reads_cents (map_of (oa_totals (agg conn (day_start day) (day_start (nextUtcDay day)))) (baseCurrency conn)) k"
    and "0 \<le> k" and "k \<le> 10 ^ 11"
  shows "\<exists>rs s w'. reconcileOneDay (booted_reconcile cfg agg) cid day DEFAULT_RECONCILIATION_CONFIG w = (Inr rs, w')
    \<and> pg_recon_find (cf_environment cfg, cid, day) (sys_snapshots w') = Some s
    \<and> exact_snapshot (agg conn (day_start day) (day_start (nextUtcDay day))) (day_rows cfg cid day w) k (sum_list ks) (sns_data s)
    \<and> (rs_drift rs \<longleftrightarrow> drift_cents (agg conn (day_start day) (day_start (nextUtcDay day))) (day_rows cfg cid day w) (k - sum_list ks))"
proof -
  have len: "length (day_rows cfg cid day w) < 1000" using assms(4,5) by (auto dest: list_all2_lengthD)
  show ?thesis
    using reconcile_runs [OF assms(1-3) refl refl, where day = day and w = w and agg = agg and config = DEFAULT_RECONCILIATION_CONFIG]
      day_snapshot_cents [OF assms(4) len assms(6-8), of "cf_environment cfg" cid day]
    by (auto simp: wp_def exact_snapshot_def split: prod.splits sum.splits)
qed

section \<open>Runs\<close>

definition sample_meta :: dlq_meta where
  "sample_meta = \<lparr>dm_reason = JStr ''MaxDeliveryCountExceeded'', dm_description = JUndef, dm_deliveryCount = Some 10\<rparr>"

definition sample_envelope :: dlq_envelope where
  "sample_envelope = \<lparr>de_environment = ''dev'', de_connectionId = ''c1'', de_orderGid = ''gid://shopify/Order/100'',
     de_envelopeUri = Some ''https://acct.blob/in/1''\<rparr>"

definition sample_key :: string where
  "sample_key = ''dev|c1|order|shopify|gid://shopify/Order/100''"

lemma sample_dead_letter:
  "parseEnvelope (message_js sample_create) = Inr sample_envelope"
  "findById (cf_repo sample_cfg) (de_environment sample_envelope) (de_connectionId sample_envelope) = Some sample_connection"
  "dedupKey (dlq_key sample_envelope) = Inr sample_key"
  by code_simp+

definition sample_log :: sync_log where
  "sample_log = \<lparr>log_id = ''1'', log_data = sync_input sample_connection sample_create
     ((blank_shape SyncImported)\<lparr>ss_order := Some makeFakeOrder, ss_nsInternalId := Some ''ns_1'', ss_syncedAt := Some 5\<rparr>),
     log_createdAt = 5, log_updatedAt = 5\<rparr>"

definition logged_sys :: sys where
  "logged_sys = sample_sys\<lparr>sys_log := \<lparr>plt_rows = [sample_log], plt_seq = 1\<rparr>\<rparr>"

lemma logged_sys_simps [simp]: "pe_seq (sys_errors logged_sys) = 0" "sys_step logged_sys = 0"
  by (simp_all add: logged_sys_def sample_sys_def empty_sys_def empty_pg_errors_def)

theorem dead_letter_quarantined_witness:
  "\<exists>rid r (w' :: sys). handleDeadLetteredOrder (booted_dlq sample_cfg) (message_js sample_create) sample_meta logged_sys
      = (Inr (DlqRecorded rid sample_key), w')
    \<and> r \<in> set (pe_rows (sys_errors w'))
    \<and> quarantined_row rid sample_key (message_js sample_create) (dlq_summary sample_meta) r \<and> same_orders logged_sys w'"
  by (rule dead_letter_quarantined [OF _ _ _ sample_dead_letter])
    (use sample_facts(1) in \<open>simp_all add: no_faults_def\<close>)

lemma sample_log_found: "pg_log_find (dlq_ref sample_envelope) (sys_log logged_sys) = Some sample_log"
  by code_simp

theorem dlq_bump_erases_witness:
  "\<exists>rid row (w' :: sys). handleDeadLetteredOrder (booted_dlq sample_cfg) (message_js sample_create) sample_meta logged_sys
      = (Inr (DlqRecorded rid sample_key), w')
    \<and> pg_log_find (dlq_ref sample_envelope) (sys_log w') = Some row \<and> erased_order (log_data sample_log) row"
  by (rule dlq_bump_erases [OF sample_facts(1) _ sample_dead_letter _ _ sample_log_found, where n = 10])
    (simp_all add: sample_meta_def)

lemma sample_day:
  "day_rows sample_cfg ''c1'' ''1970-01-01'' logged_sys = [sample_log]" "row_cents sample_log 12000"
  "findById (cf_repo sample_cfg) (cf_environment sample_cfg) ''c1'' = Some sample_connection" "enabled sample_connection"
  "reads_cents (Some ''119.00'') 11900" "reads_cents (Some ''119.0000'') 11900"
  by code_simp+

definition sample_aggregate :: "connection \<Rightarrow> string \<Rightarrow> string \<Rightarrow> order_aggregate" where
  "sample_aggregate conn a b = \<lparr>oa_count = 1, oa_totals = [(''USD'', ''119.00'')]\<rparr>"

theorem reconciliation_exact_witness:
  "\<exists>rs s (w' :: sys). reconcileOneDay (booted_reconcile sample_cfg sample_aggregate) ''c1'' ''1970-01-01''
      DEFAULT_RECONCILIATION_CONFIG logged_sys = (Inr rs, w')
    \<and> pg_recon_find (cf_environment sample_cfg, ''c1'', ''1970-01-01'') (sys_snapshots w') = Some s
    \<and> exact_snapshot (sample_aggregate sample_connection (day_start ''1970-01-01'') (day_start (nextUtcDay ''1970-01-01'')))
        [sample_log] 11900 12000 (sns_data s) \<and> rs_drift rs"
  using reconciliation_exact [OF sample_facts(1) sample_day(3,4), of "''1970-01-01''" logged_sys "[12000]" sample_aggregate 11900]
    sample_day(1,2,5)
  by (simp add: sample_aggregate_def sample_connection_def drift_cents_def)

end
