(* ===== verification/AdminApi.thy ===== *)
theory AdminApi
  imports Replay Reconcile
begin

text \<open>
  The admin API, \<open>apps/functions/src/triggers/admin-api.ts\<close>: read-mostly queries over the tables, the
  run of the reconciliation on demand and the proxy of archived payloads with the blob reader of
  \<open>adapters/blob-payload-store.ts\<close>. A \<open>SELECT\<close> is its meaning on the rows of the table; the text Postgres
  gives a timestamp and the URL parser of the runtime are parameters.
\<close>

section \<open>Request parameters\<close>

text \<open>\<open>URLSearchParams.get\<close>: the first value of a name.\<close>

type_synonym search_params = "(string \<times> string) list"

definition param :: "search_params \<Rightarrow> string \<Rightarrow> string option" where
  "param q k = map_of q k"

definition text_param :: "search_params \<Rightarrow> string \<Rightarrow> string" where
  "text_param q k = trim (case param q k of None \<Rightarrow> [] | Some s \<Rightarrow> s)"

text \<open>
  \<open>Number.parseInt(s, 10)\<close>: a sign and the digits at the head; \<open>None\<close> is \<open>NaN\<close>. The number is the exact
  one; rounding it to binary64 moves only offsets beyond \<open>2 ^ 53\<close>, which lie behind the end of any table.
\<close>

definition parse_int :: "string \<Rightarrow> int option" where
  "parse_int s = (let t = trim_start s;
       (neg, u) = (case t of [] \<Rightarrow> (False, t)
         | c # r \<Rightarrow> if c = CHR ''-'' then (True, r) else if c = CHR ''+'' then (False, r) else (False, t));
       ds = takeWhile is_digit u
     in if ds = [] then None else Some (if neg then - digits_value ds else digits_value ds))"

definition clampInt :: "string option \<Rightarrow> int \<Rightarrow> int \<Rightarrow> int \<Rightarrow> int" where
  "clampInt raw fallback lo hi = (case Option.bind raw parse_int of
     None \<Rightarrow> fallback
   | Some n \<Rightarrow> if is_finite_num (of_integer n) then max lo (min hi n) else fallback)"

definition offset_param :: "search_params \<Rightarrow> nat" where
  "offset_param q = nat (case parse_int (case param q ''offset'' of None \<Rightarrow> ''0'' | Some s \<Rightarrow> s) of
     None \<Rightarrow> 0 | Some n \<Rightarrow> n)"

section \<open>\<open>ILIKE\<close>\<close>

text \<open>A pattern of Postgres: \<open>%\<close> is any text, \<open>_\<close> any character, a backslash takes the next one literally.\<close>

fun like :: "string \<Rightarrow> string \<Rightarrow> bool" where
  "like [] t = (t = [])"
| "like (d # p) t =
     (if d = CHR ''%'' then like p t \<or> (case t of [] \<Rightarrow> False | _ # u \<Rightarrow> like (d # p) u)
      else if code d = 92 then (case (p, t) of (e # q, c # u) \<Rightarrow> e = c \<and> like q u | _ \<Rightarrow> False)
      else (case t of [] \<Rightarrow> False | c # u \<Rightarrow> (d = CHR ''_'' \<or> d = c) \<and> like p u))"

definition ilike :: "string \<Rightarrow> string option \<Rightarrow> bool" where
  "ilike p col = (case col of None \<Rightarrow> False | Some t \<Rightarrow> like (to_lower p) (to_lower t))"

section \<open>Dependencies\<close>

record blob =
  bb_body :: string
  bb_size :: nat
  bb_contentType :: string

datatype blob_answer = TooLarge nat | Blob blob

text \<open>\<open>ul_parse\<close>: origin and path of a text that is a URL.\<close>

record url_lib =
  ul_parse :: "string \<Rightarrow> (string \<times> string) option"

record 'w blob_reader =
  br_getJson :: "string \<Rightarrow> ('w, blob_answer) io"
  br_head :: "string \<Rightarrow> ('w, nat \<times> string) io"

text \<open>
  A query sees the database's time and the rows of its table, in the order of its scan, which may be
  another one for each query.
\<close>

record 'w admin_deps =
  aa_environment :: environment
  aa_log :: "('w, int \<times> sync_log list) io"
  aa_attempts :: "('w, attempt list) io"
  aa_snapshots :: "('w, snapshot list) io"
  aa_listEnabled :: "environment \<Rightarrow> ('w, connection list) io"
  aa_reconciliation :: "'w reconcile_deps option"
  aa_blobReader :: "'w blob_reader option"
  aa_blobAccountUrl :: "string option"
  aa_time :: "int \<Rightarrow> string"
  aa_url :: url_lib

section \<open>Rows as JSON\<close>

definition col_js :: "string option \<Rightarrow> jsval" where
  "col_js s = (case s of None \<Rightarrow> JNull | Some t \<Rightarrow> JStr t)"

definition js_nat :: "nat \<Rightarrow> jsval" where
  "js_nat n = JNum (of_integer (int n))"

definition js_obj :: "jsobj option \<Rightarrow> jsval" where
  "js_obj v = (case v of None \<Rightarrow> JNull | Some ps \<Rightarrow> JObj ps)"

fun sync_status_str :: "sync_status \<Rightarrow> string" where
  "sync_status_str SyncImported = ''imported''"
| "sync_status_str SyncParked = ''parked''"
| "sync_status_str SyncIgnored = ''ignored''"

fun attempt_outcome_str :: "attempt_outcome \<Rightarrow> string" where
  "attempt_outcome_str AttImported = ''imported''"
| "attempt_outcome_str AttParked = ''parked''"
| "attempt_outcome_str AttIgnoredByEligibility = ''ignored_by_eligibility''"
| "attempt_outcome_str AttAlreadySynced = ''already_synced''"
| "attempt_outcome_str AttAlreadyClaimed = ''already_claimed''"
| "attempt_outcome_str AttIgnored = ''ignored''"
| "attempt_outcome_str AttRejected = ''rejected''"
| "attempt_outcome_str AttTransientThrow = ''transient_throw''"
| "attempt_outcome_str AttAuthThrow = ''auth_throw''"
| "attempt_outcome_str AttQuarantined = ''quarantined''"

fun record_type_str :: "ns_record_type \<Rightarrow> string" where
  "record_type_str Salesorder = ''salesorder''"
| "record_type_str Cashsale = ''cashsale''"

definition toRecentOrderRow :: "'w admin_deps \<Rightarrow> sync_log \<Rightarrow> jsval" where
  "toRecentOrderRow deps r = (let d = log_data r in JObj [(''shopifyOrderId'', JStr (sl_orderId d)),
     (''shopifyOrderName'', col_js (sl_orderName d)), (''connectionId'', JStr (sl_connectionId d)),
     (''status'', JStr (sync_status_str (sl_status d))), (''customerEmail'', col_js (sl_customerEmail d)),
     (''totalPrice'', col_js (sl_totalPrice d)), (''currencyCode'', col_js (sl_currencyCode d)),
     (''nsInternalId'', col_js (sl_nsInternalId d)), (''syncedAt'', col_js (map_option (aa_time deps) (sl_syncedAt d))),
     (''updatedAt'', JStr (aa_time deps (log_updatedAt r)))])"

text \<open>
  \<open>ORDER BY COALESCE(synced_at, updated_at) DESC\<close>, which has no tie-breaker. The rows are given in the order
  the executor meets them, which nothing fixes and which may differ from query to query: rows of one time
  come out in that order, so every arrangement of the rows with falling times is an answer of the query
  (\<open>by_time_any\<close>).
\<close>

definition by_time :: "sync_log list \<Rightarrow> sync_log list" where
  "by_time rows = sort_key (\<lambda>r. - log_time r) rows"

lemma by_time_any:
  assumes "sorted_wrt (\<lambda>r s. log_time s \<le> log_time r) rows"
  shows "by_time rows = rows"
  unfolding by_time_def using assms by (intro sort_key_id_if_sorted) (simp add: sorted_wrt_map)

definition of_env :: "environment \<Rightarrow> sync_log list \<Rightarrow> sync_log list" where
  "of_env env rows = filter (\<lambda>r. sl_environment (log_data r) = env) rows"

definition status_count :: "sync_status \<Rightarrow> sync_log list \<Rightarrow> nat" where
  "status_count st rows = length (filter (\<lambda>r. sl_status (log_data r) = st) rows)"

definition ok_response :: "jsobj \<Rightarrow> http_response" where
  "ok_response body = \<lparr>hr_status = 200, hr_jsonBody = body\<rparr>"

definition refused :: "nat \<Rightarrow> string \<Rightarrow> http_response" where
  "refused st reason = \<lparr>hr_status = st, hr_jsonBody = [(''ok'', JBool False), (''reason'', JStr reason)]\<rparr>"

section \<open>The status page\<close>

text \<open>\<open>MAX\<close> of a column, \<open>NULL\<close> of no rows.\<close>

definition max_of :: "string list \<Rightarrow> string option" where
  "max_of xs = (case xs of [] \<Rightarrow> None | x # r \<Rightarrow> Some (foldl max x r))"

definition drifted :: "environment \<Rightarrow> snapshot list \<Rightarrow> snapshot list" where
  "drifted env rows = filter (\<lambda>r. sn_environment (sns_data r) = env \<and> sn_discrepancy (sns_data r) \<noteq> None) rows"

definition status_counts :: "sync_log list \<Rightarrow> jsval" where
  "status_counts rows = (let i = status_count SyncImported rows; p = status_count SyncParked rows;
       g = status_count SyncIgnored rows in
     JObj [(''imported'', js_nat i), (''parked'', js_nat p), (''ignored'', js_nat g), (''total'', js_nat (i + p + g))])"

definition last_day :: "int \<Rightarrow> sync_log list \<Rightarrow> jsval" where
  "last_day now rows = (let recent = filter (\<lambda>r. now - ms_per_day \<le> log_time r) rows in
     JObj [(''imported'', js_nat (status_count SyncImported recent)), (''parked'', js_nat (status_count SyncParked recent))])"

definition handleAdminStatus :: "'w admin_deps \<Rightarrow> ('w, http_response) io" where
  "handleAdminStatus deps = (let env = aa_environment deps in
     bnd (aa_log deps) (\<lambda>(_, all).
     bnd (aa_log deps) (\<lambda>(now, rows).
     bnd (aa_log deps) (\<lambda>(_, latest).
     bnd (aa_snapshots deps) (\<lambda>snaps.
       ret (ok_response [(''environment'', JStr env), (''counts'', status_counts (of_env env all)),
         (''last24h'', last_day now (of_env env rows)),
         (''mostRecent'', JArr (map (toRecentOrderRow deps) (take 10 (by_time (of_env env latest))))),
         (''drift'', JObj [(''snapshotsWithDrift'', js_nat (length (drifted env snaps))),
           (''mostRecentBusinessDate'', col_js (max_of (map (\<lambda>r. sn_businessDate (sns_data r)) (drifted env snaps))))])]))))))"

section \<open>The connections page\<close>

definition tax_engine_str :: "tax_engine \<Rightarrow> string" where
  "tax_engine_str t = (case t of Suitetax \<Rightarrow> ''suitetax'' | Legacy \<Rightarrow> ''legacy'')"

definition order_target_str :: "order_target \<Rightarrow> string" where
  "order_target_str t = (case t of SalesOrder \<Rightarrow> ''sales_order'' | CashSale \<Rightarrow> ''cash_sale'')"

definition connection_row :: "connection \<Rightarrow> jsval" where
  "connection_row c = JObj [(''connectionId'', JStr (connectionId c)), (''environment'', JStr (cn_environment c)),
     (''shopifyStore'', JStr (shopifyStore c)), (''nsAccountId'', JStr (nsAccountId c)),
     (''nsSubsidiary'', JStr (nsSubsidiary c)), (''nsLocation'', col_js (nsLocation c)),
     (''baseCurrency'', JStr (baseCurrency c)), (''taxEngine'', JStr (tax_engine_str (taxEngine c))),
     (''orderTarget'', JStr (order_target_str (orderTarget c))), (''mapVersion'', JStr (mapVersion c)),
     (''enabled'', JBool (enabled c)), (''defaultShipItemId'', col_js (defaultShipItemId c)),
     (''defaultDiscountItemId'', col_js (defaultDiscountItemId c)), (''defaultItemId'', col_js (defaultItemId c)),
     (''writeTagsOnImport'', JBool (writeTagsOnImport c = Some True)),
     (''extraOrderHeaderMappingsCount'', js_nat (case extraOrderHeaderMappings c of None \<Rightarrow> 0 | Some ms \<Rightarrow> length ms))]"

definition handleAdminConnections :: "'w admin_deps \<Rightarrow> ('w, http_response) io" where
  "handleAdminConnections deps = bnd (aa_listEnabled deps (aa_environment deps)) (\<lambda>cs.
     ret (ok_response [(''rows'', JArr (map connection_row cs))]))"

section \<open>The reconciliation on demand\<close>

definition num_min :: "jsnum \<Rightarrow> jsnum \<Rightarrow> jsnum" where
  "num_min a b = (if a = NaN \<or> b = NaN then NaN else if num_less b a then b else a)"

definition num_max :: "jsnum \<Rightarrow> jsnum \<Rightarrow> jsnum" where
  "num_max a b = (if a = NaN \<or> b = NaN then NaN else if num_less a b then b else a)"

text \<open>How often \<open>for (let i = 1; i <= n; i++)\<close> runs.\<close>

fun loop_count :: "jsnum \<Rightarrow> nat" where
  "loop_count (Fin x) = nat \<lfloor>x\<rfloor>"
| "loop_count _ = 0"

definition requested_days :: "jsval \<Rightarrow> jsnum" where
  "requested_days v = num_max (Fin 1) (num_min (Fin 7)
     (to_number (if nullish (get_prop v ''daysBack'') then JNum (Fin 1) else get_prop v ''daysBack'')))"

definition snapshot_js :: "snapshot \<Rightarrow> jsval" where
  "snapshot_js s = (let d = sns_data s in JObj [(''shopifyOrderCount'', js_nat (sn_shopifyOrderCount d)),
     (''nsTxnCount'', js_nat (sn_nsTxnCount d)), (''shopifyTotal'', JStr (sn_shopifyTotal d)),
     (''nsTotal'', JStr (sn_nsTotal d)), (''discrepancy'', js_obj (sn_discrepancy d))])"

definition reconcile_row :: "reconcile_result \<Rightarrow> jsval" where
  "reconcile_row r = JObj [(''connectionId'', JStr (rs_connectionId r)), (''businessDate'', JStr (rs_businessDate r)),
     (''drift'', JBool (rs_drift r)), (''skipped'', (if rs_skipped r then JStr ''not_ready'' else JNull)),
     (''snapshot'', (case rs_snapshot r of None \<Rightarrow> JNull | Some s \<Rightarrow> snapshot_js s))]"

text \<open>A body that is no JSON counts as \<open>{}\<close>; one that is \<open>null\<close> has no property to read.\<close>

definition run_request :: "string \<Rightarrow> js_error + jsval" where
  "run_request body = (case (if body = [] then Some (JObj []) else json_parse body) of
     None \<Rightarrow> Inr (JObj [])
   | Some v \<Rightarrow> (if nullish v then Inl (type_error (''Cannot read properties of null (reading '' @ quoted ''daysBack'' @ '')''))
       else Inr v))"

definition run_config :: "nat \<Rightarrow> reconcile_config" where
  "run_config n = \<lparr>rg_schedule = [], rg_daysBack = n, rg_totalToleranceAmount = num (5 / 100)\<rparr>"

definition handleAdminReconcileRun :: "'w admin_deps \<Rightarrow> string \<Rightarrow> ('w, http_response) io" where
  "handleAdminReconcileRun deps body = (case aa_reconciliation deps of
     None \<Rightarrow> ret (refused 503 ''not_ready'')
   | Some sweep \<Rightarrow> bnd (lift_sum (run_request body)) (\<lambda>v.
       bnd (runReconciliation sweep (run_config (loop_count (requested_days v)))) (\<lambda>results.
         ret (ok_response [(''ok'', JBool True), (''perConnection'', JArr (map reconcile_row results))]))))"

section \<open>One order\<close>

definition order_ref_row :: "order_ref \<Rightarrow> sync_log \<Rightarrow> bool" where
  "order_ref_row k r \<longleftrightarrow> sl_ref (log_data r) = k"

definition order_detail :: "'w admin_deps \<Rightarrow> string \<Rightarrow> sync_log \<Rightarrow> jsval" where
  "order_detail deps gid r = (let d = log_data r; time = (\<lambda>t. col_js (map_option (aa_time deps) t)) in
     JObj [(''shopifyOrderGid'', JStr gid), (''shopifyOrderId'', JStr (sl_orderId d)),
       (''shopifyOrderName'', col_js (sl_orderName d)), (''connectionId'', JStr (sl_connectionId d)),
       (''status'', JStr (sync_status_str (sl_status d))), (''customerEmail'', col_js (sl_customerEmail d)),
       (''currencyCode'', col_js (sl_currencyCode d)), (''totalPrice'', col_js (sl_totalPrice d)),
       (''subtotalPrice'', col_js (sl_subtotalPrice d)), (''totalTax'', col_js (sl_totalTax d)),
       (''totalDiscounts'', col_js (sl_totalDiscounts d)), (''totalShipping'', col_js (sl_totalShipping d)),
       (''shopifyCreatedAt'', time (sl_createdAt d)), (''shopifyProcessedAt'', time (sl_processedAt d)),
       (''nsAccountId'', col_js (sl_nsAccountId d)), (''nsRecordType'', col_js (map_option record_type_str (sl_nsRecordType d))),
       (''nsInternalId'', col_js (sl_nsInternalId d)), (''nsTranId'', col_js (sl_nsTranId d)),
       (''parkStage'', col_js (sl_parkStage d)), (''parkDetail'', col_js (sl_parkDetail d)),
       (''parkErrorClass'', col_js (sl_parkErrorClass d)), (''ignoredReason'', col_js (sl_ignoredReason d)),
       (''syncedAt'', time (sl_syncedAt d)), (''updatedAt'', JStr (aa_time deps (log_updatedAt r)))])"

definition attempt_row_js :: "'w admin_deps \<Rightarrow> attempt \<Rightarrow> jsval" where
  "attempt_row_js deps r = (let a = att_data r in JObj [(''deliveryCount'', js_nat (at_deliveryCount a)),
     (''outcome'', JStr (attempt_outcome_str (at_outcome a))), (''stage'', col_js (at_stage a)),
     (''errorClass'', col_js (at_errorClass a)), (''detail'', col_js (at_detail a)),
     (''inboundEnvelopeUri'', col_js (at_inboundEnvelopeUri a)), (''outboundPayloadUri'', col_js (at_outboundPayloadUri a)),
     (''nsResponseUri'', col_js (at_nsResponseUri a)),
     (''nsResponseStatus'', (case at_nsResponseStatus a of None \<Rightarrow> JNull | Some n \<Rightarrow> JNum (of_integer n))),
     (''shopifyPayloadUri'', col_js (at_shopifyPayloadUri a)), (''payloadDigest'', js_obj (at_payloadDigest a)),
     (''startedAt'', JStr (aa_time deps (at_startedAt a))), (''finishedAt'', JStr (aa_time deps (at_finishedAt a))),
     (''durationMs'', JNum (of_integer (at_durationMs a)))])"

definition attempts_of :: "order_ref \<Rightarrow> attempt list \<Rightarrow> attempt list" where
  "attempts_of k rows = take 50 (sort_key (\<lambda>r. - at_startedAt (att_data r)) (filter (\<lambda>r. at_ref (att_data r) = k) rows))"

definition handleAdminOrderDetail :: "'w admin_deps \<Rightarrow> search_params \<Rightarrow> ('w, http_response) io" where
  "handleAdminOrderDetail deps q = (let cid = text_param q ''connection''; orderIdRaw = text_param q ''orderId'' in
     if cid = [] \<or> orderIdRaw = [] then ret (bad_request ''connection + orderId required'')
     else (case normalizeOrderGid (JStr orderIdRaw) of
       None \<Rightarrow> ret (bad_request ''orderId must be numeric or full GID'')
     | Some gid \<Rightarrow> (let k = (aa_environment deps, cid, gid) in
         bnd (aa_log deps) (\<lambda>(_, rows). case find (order_ref_row k) rows of
           None \<Rightarrow> ret (refused 404 ''not_found'')
         | Some head \<Rightarrow> bnd (aa_attempts deps) (\<lambda>attempts.
             ret (ok_response [(''order'', order_detail deps gid head),
               (''attempts'', JArr (map (attempt_row_js deps) (attempts_of k attempts)))]))))))"

section \<open>The reconciliation page\<close>

definition recon_row_js :: "'w admin_deps \<Rightarrow> snapshot \<Rightarrow> jsval" where
  "recon_row_js deps s = (let d = sns_data s in JObj [(''businessDate'', JStr (sn_businessDate d)),
     (''connectionId'', JStr (sn_connectionId d)), (''shopifyOrderCount'', js_nat (sn_shopifyOrderCount d)),
     (''nsTxnCount'', js_nat (sn_nsTxnCount d)), (''shopifyTotal'', JStr (sn_shopifyTotal d)),
     (''nsTotal'', JStr (sn_nsTotal d)), (''discrepancy'', js_obj (sn_discrepancy d)),
     (''createdAt'', JStr (aa_time deps (sns_createdAt s)))])"

definition recon_selected :: "environment \<Rightarrow> search_params \<Rightarrow> snapshot \<Rightarrow> bool" where
  "recon_selected env q r \<longleftrightarrow> sn_environment (sns_data r) = env
     \<and> passes (non_empty (param q ''connection'')) (sn_connectionId (sns_data r))
     \<and> (param q ''drift'' = Some ''true'' \<longrightarrow> sn_discrepancy (sns_data r) \<noteq> None)"

definition handleAdminReconciliation :: "'w admin_deps \<Rightarrow> search_params \<Rightarrow> ('w, http_response) io" where
  "handleAdminReconciliation deps q = bnd (aa_snapshots deps) (\<lambda>rows.
     ret (ok_response [(''rows'', JArr (map (recon_row_js deps)
       (take (nat (clampInt (param q ''limit'') 30 1 200))
         (newest_first (sort_key (\<lambda>r. sn_connectionId (sns_data r))
           (filter (recon_selected (aa_environment deps) q) rows))))))]))"

section \<open>The orders page\<close>

definition status_param :: "search_params \<Rightarrow> sync_status option" where
  "status_param q = (let s = param q ''status'' in
     if s = Some ''imported'' then Some SyncImported else if s = Some ''parked'' then Some SyncParked
     else if s = Some ''ignored'' then Some SyncIgnored else None)"

definition search_hits :: "string \<Rightarrow> sync_log_input \<Rightarrow> bool" where
  "search_hits s d \<longleftrightarrow> (let p = ''%'' @ s @ ''%'' in
     ilike p (Some (sl_orderId d)) \<or> ilike p (sl_customerEmail d) \<or> ilike p (sl_nsInternalId d) \<or> ilike p (sl_orderName d))"

definition order_selected :: "environment \<Rightarrow> search_params \<Rightarrow> sync_log \<Rightarrow> bool" where
  "order_selected env q r \<longleftrightarrow> sl_environment (log_data r) = env
     \<and> passes (non_empty (param q ''connection'')) (sl_connectionId (log_data r))
     \<and> passes_opt (status_param q) (sl_status (log_data r))
     \<and> (text_param q ''search'' = [] \<or> search_hits (text_param q ''search'') (log_data r))"

text \<open>The rows of the \<open>WHERE\<close> clause, newest first, and the page of them a request asks for.\<close>

definition selected_orders :: "environment \<Rightarrow> search_params \<Rightarrow> sync_log list \<Rightarrow> sync_log list" where
  "selected_orders env q rows = by_time (filter (order_selected env q) rows)"

definition orders_limit :: "search_params \<Rightarrow> nat" where
  "orders_limit q = nat (clampInt (param q ''limit'') 25 1 200)"

definition order_page :: "environment \<Rightarrow> search_params \<Rightarrow> sync_log list \<Rightarrow> sync_log list" where
  "order_page env q rows = take (orders_limit q) (drop (offset_param q) (selected_orders env q rows))"

definition next_offset :: "nat \<Rightarrow> nat \<Rightarrow> nat \<Rightarrow> nat option" where
  "next_offset off n tot = (if off + n < tot then Some (off + n) else None)"

text \<open>The two queries, the count and the page, may see different tables.\<close>

definition handleAdminOrders :: "'w admin_deps \<Rightarrow> search_params \<Rightarrow> ('w, http_response) io" where
  "handleAdminOrders deps q = (let env = aa_environment deps in
     bnd (aa_log deps) (\<lambda>(_, counted).
     bnd (aa_log deps) (\<lambda>(_, rows).
       let tot = length (filter (order_selected env q) counted); page = order_page env q rows in
       ret (ok_response [(''rows'', JArr (map (toRecentOrderRow deps) page)),
         (''nextOffset'', (case next_offset (offset_param q) (length page) tot of None \<Rightarrow> JNull | Some n \<Rightarrow> js_nat n)),
         (''total'', js_nat tot)]))))"

end
