(* ===== verification/PayloadProxy.thy ===== *)
theory PayloadProxy
  imports AdminApi
begin

text \<open>
  The proxy of archived payloads (\<open>handleAdminPayload\<close> of \<open>triggers/admin-api.ts\<close>) and the blob reader it
  uses (\<open>adapters/blob-payload-store.ts\<close>). The storage account is a parameter: the properties of a blob and
  the chunks of its download.
\<close>

section \<open>\<open>decodeURIComponent\<close>\<close>

text \<open>Well-formed UTF-8, byte by byte.\<close>

definition tail_byte :: "nat \<Rightarrow> bool" where
  "tail_byte b \<longleftrightarrow> 128 \<le> b \<and> b < 192"

fun utf8_ok :: "nat list \<Rightarrow> bool" where
  "utf8_ok [] = True"
| "utf8_ok (a # s) =
     (if a < 128 then utf8_ok s
      else case s of [] \<Rightarrow> False | b # s1 \<Rightarrow>
        if 194 \<le> a \<and> a < 224 then tail_byte b \<and> utf8_ok s1
        else (case s1 of [] \<Rightarrow> False | c # s2 \<Rightarrow>
          if 224 \<le> a \<and> a < 240
            then tail_byte b \<and> tail_byte c \<and> (a = 224 \<longrightarrow> 160 \<le> b) \<and> (a = 237 \<longrightarrow> b < 160) \<and> utf8_ok s2
          else (case s2 of [] \<Rightarrow> False | d # s3 \<Rightarrow>
            240 \<le> a \<and> a < 245 \<and> tail_byte b \<and> tail_byte c \<and> tail_byte d \<and> (a = 240 \<longrightarrow> 144 \<le> b) \<and> (a = 244 \<longrightarrow> b < 144)
              \<and> utf8_ok s3)))"

definition hex_value :: "char \<Rightarrow> nat option" where
  "hex_value c = (let n = code c in
     if 48 \<le> n \<and> n < 58 then Some (n - 48) else if 65 \<le> n \<and> n < 71 then Some (n - 55)
     else if 97 \<le> n \<and> n < 103 then Some (n - 87) else None)"

fun percent_decode :: "string \<Rightarrow> string option" where
  "percent_decode [] = Some []"
| "percent_decode (c # s) =
     (if c = CHR ''%'' then (case s of
          h # l # r \<Rightarrow> (case (hex_value h, hex_value l) of
              (Some a, Some b) \<Rightarrow> map_option (\<lambda>t. char_of (16 * a + b) # t) (percent_decode r)
            | _ \<Rightarrow> None)
        | _ \<Rightarrow> None)
      else map_option (\<lambda>t. c # t) (percent_decode s))"

text \<open>\<open>None\<close> is the \<open>URIError\<close>.\<close>

definition decode_uri_component :: "string \<Rightarrow> string option" where
  "decode_uri_component s = (case percent_decode s of
     None \<Rightarrow> None | Some t \<Rightarrow> if utf8_ok (map code t) then Some t else None)"

section \<open>The blob reader\<close>

definition MAX_PAYLOAD_FETCH_BYTES :: nat where
  "MAX_PAYLOAD_FETCH_BYTES = 5 * 1024 * 1024"

definition path_segments :: "string \<Rightarrow> string list" where
  "path_segments path = filter (\<lambda>s. s \<noteq> []) (split_on (CHR ''/'') path)"

definition bad_segment :: "string \<Rightarrow> bool" where
  "bad_segment s \<longleftrightarrow> s = ''..'' \<or> s = ''.'' \<or> s = []"

text \<open>All the segments decoded, or the first that does not decode.\<close>

fun decode_all :: "string list \<Rightarrow> string list option" where
  "decode_all [] = Some []"
| "decode_all (s # r) = (case decode_uri_component s of
     None \<Rightarrow> None | Some t \<Rightarrow> map_option (\<lambda>ts. t # ts) (decode_all r))"

definition origin_of :: "url_lib \<Rightarrow> string \<Rightarrow> js_error + string" where
  "origin_of lib u = (case ul_parse lib u of None \<Rightarrow> Inl (type_error ''Invalid URL'') | Some (a, _) \<Rightarrow> Inr a)"

definition parseBlobUri :: "url_lib \<Rightarrow> string \<Rightarrow> string \<Rightarrow> js_error + string \<times> string" where
  "parseBlobUri lib uri serviceUrl = (case ul_parse lib uri of
     None \<Rightarrow> Inl (type_error ''Invalid URL'')
   | Some (a, path) \<Rightarrow> (case origin_of lib serviceUrl of
       Inl e \<Rightarrow> Inl e
     | Inr expected \<Rightarrow>
        (if a \<noteq> expected then Inl (plain_error (''BlobReader: URI origin '' @ quoted a @ '' does not match service '' @ quoted expected))
         else (case path_segments path of
           container # b # r \<Rightarrow> (case decode_all (b # r) of
               None \<Rightarrow> Inl (plain_error ''URI malformed'')
             | Some parts \<Rightarrow> (case find bad_segment parts of
                 Some p \<Rightarrow> Inl (plain_error (''BlobReader: rejected path segment '' @ quoted p @ '' in URI''))
               | None \<Rightarrow> Inr (container, join ''/'' parts)))
         | _ \<Rightarrow> Inl (plain_error (''BlobReader: URI '' @ quoted uri @ '' missing container/blob path''))))))"

record 'w storage =
  st_url :: string
  st_properties :: "string \<Rightarrow> string \<Rightarrow> ('w, nat option \<times> string option) io"
  st_download :: "string \<Rightarrow> string \<Rightarrow> ('w, string list option) io"

text \<open>The chunks of the stream, up to the cap.\<close>

fun read_chunks :: "string list \<Rightarrow> nat \<Rightarrow> string \<Rightarrow> nat + string" where
  "read_chunks [] n acc = Inr acc"
| "read_chunks (c # cs) n acc = (let m = n + length c in
     if MAX_PAYLOAD_FETCH_BYTES < m then Inl m else read_chunks cs m (acc @ c))"

definition content_type :: "string option \<Rightarrow> string" where
  "content_type t = (case t of None \<Rightarrow> ''application/json'' | Some x \<Rightarrow> x)"

definition blob_getJson :: "url_lib \<Rightarrow> 'w storage \<Rightarrow> string \<Rightarrow> ('w, blob_answer) io" where
  "blob_getJson lib st uri = bnd (lift_sum (parseBlobUri lib uri (st_url st))) (\<lambda>(container, name).
     bnd (st_properties st container name) (\<lambda>(len, ctype).
       if MAX_PAYLOAD_FETCH_BYTES < (case len of None \<Rightarrow> 0 | Some n \<Rightarrow> n)
         then ret (TooLarge (case len of None \<Rightarrow> 0 | Some n \<Rightarrow> n))
       else bnd (st_download st container name) (\<lambda>dl. case dl of
          None \<Rightarrow> throw (plain_error ''BlobReader: empty stream from download'')
        | Some chunks \<Rightarrow> ret (case read_chunks chunks 0 [] of
            Inl n \<Rightarrow> TooLarge n
          | Inr body \<Rightarrow> Blob \<lparr>bb_body = body, bb_size = length body, bb_contentType = content_type ctype\<rparr>))))"

definition blob_head :: "url_lib \<Rightarrow> 'w storage \<Rightarrow> string \<Rightarrow> ('w, nat \<times> string) io" where
  "blob_head lib st uri = bnd (lift_sum (parseBlobUri lib uri (st_url st))) (\<lambda>(container, name).
     bnd (st_properties st container name) (\<lambda>(len, ctype).
       ret (case len of None \<Rightarrow> 0 | Some n \<Rightarrow> n, content_type ctype)))"

definition blob_reader :: "url_lib \<Rightarrow> 'w storage \<Rightarrow> 'w blob_reader" where
  "blob_reader lib st = \<lparr>br_getJson = blob_getJson lib st, br_head = blob_head lib st\<rparr>"

section \<open>The proxy\<close>

datatype payload_answer =
    PayloadRefused http_response
  | PayloadHead nat string
  | PayloadBody blob

text \<open>What the checks before the database find wrong with a URI.\<close>

fun segments_fault :: "string list \<Rightarrow> string option" where
  "segments_fault [] = None"
| "segments_fault (s # r) = (case decode_uri_component s of
     None \<Rightarrow> Some ''invalid url encoding''
   | Some t \<Rightarrow> if bad_segment t then Some ''rejected path segment'' else segments_fault r)"

definition bad_origin :: "string \<Rightarrow> http_response" where
  "bad_origin expected = \<lparr>hr_status = 400, hr_jsonBody = [(''ok'', JBool False), (''reason'', JStr ''bad_origin''),
     (''detail'', JStr (''origin must be '' @ expected))]\<rparr>"

definition uri_fault :: "url_lib \<Rightarrow> string \<Rightarrow> string \<Rightarrow> js_error + http_response option" where
  "uri_fault lib account uri =
     (if uri = [] then Inr (Some (bad_request ''uri required''))
      else (case ul_parse lib uri of
        None \<Rightarrow> Inr (Some (bad_request ''uri not a valid URL''))
      | Some (a, path) \<Rightarrow> (case origin_of lib account of
          Inl e \<Rightarrow> Inl e
        | Inr expected \<Rightarrow>
            (if a \<noteq> expected then Inr (Some (bad_origin expected))
             else if length (path_segments path) < 2 then Inr (Some (bad_request ''uri missing container/blob path''))
             else Inr (map_option bad_request (segments_fault (path_segments path)))))))"

definition archived_uri :: "environment \<Rightarrow> string \<Rightarrow> attempt \<Rightarrow> bool" where
  "archived_uri env uri r \<longleftrightarrow> (let a = att_data r in at_environment a = env
     \<and> Some uri \<in> {at_inboundEnvelopeUri a, at_shopifyPayloadUri a, at_outboundPayloadUri a, at_nsResponseUri a})"

definition too_large :: "nat \<Rightarrow> http_response" where
  "too_large n = \<lparr>hr_status = 413, hr_jsonBody = [(''ok'', JBool False), (''reason'', JStr ''too_large''),
     (''detail'', JStr (''Blob is '' @ show_nat n @ '' bytes '' @ em_dash @ '' exceeds ''
        @ show_nat MAX_PAYLOAD_FETCH_BYTES @ '' byte cap''))]\<rparr>"

definition read_payload :: "'w blob_reader \<Rightarrow> string \<Rightarrow> bool \<Rightarrow> ('w, payload_answer) io" where
  "read_payload reader uri headOnly = try_catch
     (if headOnly then bnd (br_head reader uri) (\<lambda>(n, t). ret (PayloadHead n t))
      else bnd (br_getJson reader uri) (\<lambda>b. ret (case b of
        TooLarge n \<Rightarrow> PayloadRefused (too_large n) | Blob x \<Rightarrow> PayloadBody x)))
     (\<lambda>_. ret (PayloadRefused (refused 404 ''not_found'')))"

definition handleAdminPayload :: "'w admin_deps \<Rightarrow> string \<Rightarrow> bool \<Rightarrow> ('w, payload_answer) io" where
  "handleAdminPayload deps uri headOnly = (case (aa_blobReader deps, non_empty (aa_blobAccountUrl deps)) of
     (Some reader, Some account) \<Rightarrow>
       bnd (lift_sum (uri_fault (aa_url deps) account uri)) (\<lambda>fault. case fault of
         Some r \<Rightarrow> ret (PayloadRefused r)
       | None \<Rightarrow> bnd (aa_attempts deps) (\<lambda>rows.
           if \<not> list_ex (archived_uri (aa_environment deps) uri) rows then ret (PayloadRefused (refused 404 ''not_found''))
           else read_payload reader uri headOnly))
   | _ \<Rightarrow> ret (PayloadRefused \<lparr>hr_status = 503, hr_jsonBody = [(''ok'', JBool False), (''reason'', JStr ''not_ready''),
       (''detail'', JStr ''blob reader not wired'')]\<rparr>))"

end
