(* ===== verification/AdminProps.thy ===== *)
theory AdminProps
  imports PayloadProxy Amounts
begin

text \<open>What the admin API promises: paging, search, the payload proxy and the run of the reconciliation.\<close>

section \<open>Paging\<close>

lemma takeWhile_show_nat [simp]: "takeWhile is_digit (show_nat n) = show_nat n"
  by (rule takeWhile_digits) (rule show_nat_digits)

lemma parse_int_show_nat [simp]: "parse_int (show_nat n) = Some (int n)"
proof -
  obtain c u where s: "show_nat n = c # u" using show_nat_nonempty [of n] by (cases "show_nat n") auto
  have "is_digit c" using show_nat_digits [of n] by (simp add: s)
  then have "trim_start (show_nat n) = show_nat n" "c \<noteq> CHR ''-''" "c \<noteq> CHR ''+''"
    by (simp_all add: trim_start_def s digit_facts)
  moreover have "digits_value (show_nat n) = int n" by (simp add: show_nat_def)
  ultimately show ?thesis
    using takeWhile_show_nat [of n] by (simp add: parse_int_def Let_def s)
qed

text \<open>A client that follows \<open>nextOffset\<close>, with fuel for its calls.\<close>

fun collect_pages :: "nat \<Rightarrow> (nat \<Rightarrow> ('w, 'a list \<times> nat option) io) \<Rightarrow> nat \<Rightarrow> ('w, 'a list option) io" where
  "collect_pages 0 page off = ret None"
| "collect_pages (Suc f) page off = bnd (page off) (\<lambda>(rows, next). case next of
     None \<Rightarrow> ret (Some rows)
   | Some n \<Rightarrow> bnd (collect_pages f page n) (\<lambda>r. ret (map_option (\<lambda>more. rows @ more) r)))"

lemma collect_pages_all:
  assumes "\<And>off w. I w \<Longrightarrow> \<exists>w'. page off w
        = (Inr (take l (drop off xs), next_offset off (length (take l (drop off xs))) (length xs)), w') \<and> I w'"
    and "0 < l" and "length xs - off \<le> f" and "I w"
  shows "\<exists>w'. collect_pages (Suc f) page off w = (Inr (Some (drop off xs)), w') \<and> I w'"
  using assms(3,4)
proof (induction f arbitrary: off w)
  case 0
  with assms(1) [of w off] show ?case by (auto simp: bnd_app next_offset_def)
next
  case (Suc f)
  obtain w1 where w1: "page off w = (Inr (take l (drop off xs), next_offset off (length (take l (drop off xs))) (length xs)), w1)" "I w1"
    using assms(1) Suc.prems(2) by blast
  show ?case
  proof (cases "length xs \<le> off + l")
    case False
    then have "length xs - (off + l) \<le> f" using Suc.prems(1) assms(2) by simp
    from Suc.IH [OF this w1(2)] obtain w' where "collect_pages (Suc f) page (off + l) w1 = (Inr (Some (drop (off + l) xs)), w')" "I w'"
      by blast
    moreover have "page off w = (Inr (take l (drop off xs), Some (off + l)), w1)"
      using False w1(1) by (simp add: next_offset_def)
    ultimately show ?thesis
      by (simp add: bnd_app append_take_drop_id [of l "drop off xs", simplified drop_drop] add.commute
          del: collect_pages.simps(2) add: collect_pages.simps(2) [of "Suc f"])
  qed (use w1 Suc.prems in \<open>auto simp: bnd_app next_offset_def\<close>)
qed

text \<open>A request for a page, as the client reads the answer.\<close>

definition orders_call :: "'w admin_deps \<Rightarrow> search_params \<Rightarrow> nat \<Rightarrow> ('w, jsval list \<times> nat option) io" where
  "orders_call deps q off = bnd (handleAdminOrders deps ((''offset'', show_nat off) # q)) (\<lambda>r.
     ret (case oget (hr_jsonBody r) ''rows'' of JArr rs \<Rightarrow> rs | _ \<Rightarrow> [],
       case oget (hr_jsonBody r) ''nextOffset'' of JNum (Fin x) \<Rightarrow> Some (nat \<lfloor>x\<rfloor>) | _ \<Rightarrow> None))"

text \<open>
  The table while nobody writes it: in the worlds of \<open>I\<close> each query meets the rows \<open>rows\<close>, in whatever
  order.
\<close>

definition quiet_table :: "'w admin_deps \<Rightarrow> sync_log list \<Rightarrow> ('w \<Rightarrow> bool) \<Rightarrow> bool" where
  "quiet_table deps rows I \<longleftrightarrow>
     (\<forall>w. I w \<longrightarrow> (\<exists>now rs w'. aa_log deps w = (Inr (now, rs), w') \<and> mset rs = mset rows \<and> I w'))"

lemma param_offset [simp]:
  "param ((''offset'', v) # q) k = (if k = ''offset'' then Some v else param q k)"
  by (simp add: param_def)

lemma select_offset [simp]:
  "order_selected env ((''offset'', v) # q) = order_selected env q" "orders_limit ((''offset'', v) # q) = orders_limit q"
  by (simp_all add: order_selected_def status_param_def text_param_def orders_limit_def fun_eq_iff)

lemma orders_call_app:
  fixes deps :: "'w admin_deps"
  assumes "aa_log deps w = (Inr (t1, counted), w1)" and "aa_log deps w1 = (Inr (t2, rows), w2)"
    and "mset counted = mset rows" and "length rows < 2 ^ 53"
  shows "orders_call deps q off w =
    (let page = map (toRecentOrderRow deps) (take (orders_limit q) (drop off (selected_orders (aa_environment deps) q rows))) in
     (Inr (page, next_offset off (length page) (length (filter (order_selected (aa_environment deps) q) rows))), w2))"
proof -
  let ?sel = "selected_orders (aa_environment deps) q rows"
  let ?page = "take (orders_limit q) (drop off ?sel)"
  have "mset (filter (order_selected (aa_environment deps) q) counted) = mset (filter (order_selected (aa_environment deps) q) rows)"
    using assms(3) by simp
  then have len: "length (filter (order_selected (aa_environment deps) q) counted) = length (filter (order_selected (aa_environment deps) q) rows)"
    by (rule mset_eq_length)
  have page: "order_page (aa_environment deps) ((''offset'', show_nat off) # q) rows = ?page"
    by (simp add: order_page_def offset_param_def selected_orders_def)
  have off: "offset_param ((''offset'', show_nat off) # q) = off" by (simp add: offset_param_def)
  have exact: "of_integer (int n) = Fin (of_nat n)" if "n < 2 ^ 53" for n
    using num_of_int [of "int n"] that by (simp add: of_integer_def)
  have "n < 2 ^ 53" if "next_offset off (length ?page) (length (filter (order_selected (aa_environment deps) q) rows)) = Some n" for n
    using that le_less_trans [OF length_filter_le [of "order_selected (aa_environment deps) q" rows] assms(4)]
    unfolding next_offset_def by (metis option.distinct(1) option.inject order_less_trans)
  then show ?thesis
    using exact
    by (cases "next_offset off (length ?page) (length (filter (order_selected (aa_environment deps) q) rows))")
      (simp_all add: orders_call_def handleAdminOrders_def bnd_app assms(1,2) page off len Let_def ok_response_def js_nat_def oget_Cons)
qed

lemma selected_orders_quiet:
  assumes "mset rs = mset rows" and "distinct (map log_time (filter (order_selected env q) rows))"
  shows "selected_orders env q rs = selected_orders env q rows"
proof -
  have same: "mset (filter (order_selected env q) rs) = mset (filter (order_selected env q) rows)" using assms(1) by simp
  have "inj_on log_time (set (filter (order_selected env q) rows))" using assms(2) by (simp only: distinct_map)
  then have "inj_on (\<lambda>r. - log_time r) (set (filter (order_selected env q) rs))"
    unfolding mset_eq_setD [OF same] by (simp add: inj_on_def)
  then have "by_time (filter (order_selected env q) rs) = by_time (filter (order_selected env q) rows)"
    unfolding by_time_def by (rule sort_key_inj_key_eq [rotated]) (simp_all add: assms(1))
  then show ?thesis by (simp only: selected_orders_def)
qed

text \<open>
  C26: paging shows every order once, if no two orders have the same time. While nobody writes the table
  (of fewer than \<open>2 ^ 53\<close> rows), and however each query happens to scan it, a client that starts at offset 0 and follows \<open>nextOffset\<close>
  receives exactly the orders of the \<open>WHERE\<close> clause, newest first, each once, after at most one call per
  order and one more, whatever page size it asks for, provided that the times the list is ordered by are
  distinct. (Where two times agree, the clause orders nothing: \<open>ties_repeat_an_order\<close>.)
\<close>

theorem orders_paging_complete:
  assumes "quiet_table deps rows I" and "length rows < 2 ^ 53" and "I w"
    and "distinct (map log_time (filter (order_selected (aa_environment deps) q) rows))"
  shows "\<exists>w'. collect_pages (Suc (length rows)) (orders_call deps q) 0 w
    = (Inr (Some (map (toRecentOrderRow deps) (selected_orders (aa_environment deps) q rows))), w')"
proof -
  let ?sel = "map (toRecentOrderRow deps) (selected_orders (aa_environment deps) q rows)"
  have len: "length (filter (order_selected (aa_environment deps) q) rows) = length ?sel" "length ?sel \<le> length rows"
    by (simp_all add: selected_orders_def by_time_def)
  have "\<exists>w'. orders_call deps q off w = (Inr (take (orders_limit q) (drop off ?sel),
      next_offset off (length (take (orders_limit q) (drop off ?sel))) (length ?sel)), w') \<and> I w'" if world: "I w" for off w
  proof -
    obtain t1 counted w1 where 1: "aa_log deps w = (Inr (t1, counted), w1)" "mset counted = mset rows" "I w1"
      using assms(1) world unfolding quiet_table_def by blast
    obtain t2 rs w2 where 2: "aa_log deps w1 = (Inr (t2, rs), w2)" "mset rs = mset rows" "I w2"
      using assms(1) 1(3) unfolding quiet_table_def by blast
    note run = 1(1) 2(1) and same = 1(2) 2(2)
    have "length (filter (order_selected (aa_environment deps) q) rs) = length (filter (order_selected (aa_environment deps) q) rows)"
      using same(2) by (intro mset_eq_length) simp
    moreover have "length rs < 2 ^ 53" using assms(2) mset_eq_length [OF same(2)] by simp
    ultimately show ?thesis
      using orders_call_app [OF run, of q off] same selected_orders_quiet [OF same(2) assms(4)] len(1) 2(3)
      by (simp add: Let_def take_map drop_map)
  qed
  moreover have "0 < orders_limit q" by (auto simp: orders_limit_def clampInt_def split: option.splits)
  ultimately show ?thesis
    using collect_pages_all [of I "orders_call deps q" "orders_limit q" ?sel 0 "length rows" w] len(2) assms(3) by auto
qed

section \<open>Search\<close>

definition plain_text :: "string \<Rightarrow> bool" where
  "plain_text s \<longleftrightarrow> CHR ''%'' \<notin> set s \<and> CHR ''_'' \<notin> set s \<and> char_of (92 :: nat) \<notin> set s"

lemma like_any: "like (CHR ''%'' # p) t \<longleftrightarrow> (\<exists>a b. t = a @ b \<and> like p b)"
proof (induction t)
  case (Cons c u)
  then show ?case by (auto simp: Cons_eq_append_conv)
qed simp

lemma like_text: "plain_text s \<Longrightarrow> like (s @ p) t \<longleftrightarrow> (\<exists>b. t = s @ b \<and> like p b)"
proof (induction s arbitrary: t)
  case (Cons d s)
  have "code d \<noteq> 92" using Cons.prems by (auto simp: plain_text_def) (metis char_of_char)
  then show ?case using Cons by (cases t) (auto simp: plain_text_def)
qed simp

lemma like_contains: "plain_text s \<Longrightarrow> like (''%'' @ s @ ''%'') t \<longleftrightarrow> includes_str t s"
  using like_any [of "s @ ''%''" t] by (auto simp: like_text like_any [of "[]"] includes_str_iff simp del: like.simps(2))

lemma lower_char_special: "lower_char c = d \<Longrightarrow> code d \<in> {37, 92, 95} \<Longrightarrow> c = d"
  by (auto simp: lower_char_def is_upper_def code_char_of split: if_splits)

lemma plain_text_lower: "plain_text s \<Longrightarrow> plain_text (to_lower s)"
  using lower_char_special [of _ "CHR ''%''"] lower_char_special [of _ "CHR ''_''"] lower_char_special [of _ "char_of (92 :: nat)"]
  by (auto simp: plain_text_def to_lower_def) metis+

text \<open>A row is found when one of the four columns contains the text, whatever the case of either.\<close>

definition contains_ci :: "string \<Rightarrow> string option \<Rightarrow> bool" where
  "contains_ci s col \<longleftrightarrow> (\<exists>t. col = Some t \<and> includes_str (to_lower t) (to_lower s))"

lemma ilike_contains: "plain_text s \<Longrightarrow> ilike (''%'' @ s @ ''%'') col \<longleftrightarrow> contains_ci s col"
  using like_contains [OF plain_text_lower]
  by (auto simp: ilike_def contains_ci_def lower_char_def is_upper_def to_lower_def split: option.splits simp del: like.simps(2))

text \<open>
  The search finds what it says. For a search text without \<open>%\<close>, \<open>_\<close> and backslash, a row passes the
  search clause exactly when its order id, e-mail, NetSuite id or order name contains the text, in any
  case.
\<close>

lemma search_finds:
  assumes "plain_text s"
  shows "search_hits s d \<longleftrightarrow> contains_ci s (Some (sl_orderId d)) \<or> contains_ci s (sl_customerEmail d)
    \<or> contains_ci s (sl_nsInternalId d) \<or> contains_ci s (sl_orderName d)"
  by (simp add: search_hits_def Let_def ilike_contains [OF assms, simplified])

section \<open>Archived payloads\<close>

lemma hex_value_char: "d < 16 \<Longrightarrow> hex_value (hex_char d) = Some d"
  by (auto simp: hex_value_def hex_char_def code_char_of)

lemma unreserved_plain: "uri_unreserved c \<Longrightarrow> c \<noteq> CHR ''%'' \<and> c \<noteq> CHR ''/''"
  by (auto simp: uri_unreserved_def is_letter_def is_upper_def is_lower_def is_digit_def)

lemma hex_char_no_slash: "d < 16 \<Longrightarrow> hex_char d \<noteq> CHR ''/''"
proof
  assume d: "d < 16" and "hex_char d = CHR ''/''"
  then have "hex_value (CHR ''/'') = Some d" using hex_value_char [OF d] by simp
  then show False by (simp add: hex_value_def)
qed

lemma encode_Cons: "encode_uri_component (c # s) = (if uri_unreserved c then [c]
    else [CHR ''%'', hex_char (code c div 16), hex_char (code c mod 16)]) @ encode_uri_component s"
  by (simp add: encode_uri_component_def)

lemma encode_Nil [simp]: "encode_uri_component [] = []"
  by (simp add: encode_uri_component_def)

lemma hex_digits: "code c div 16 < 16" "code c mod 16 < 16"
  using code_less_256 [of c] by (simp_all only: div_less_iff_less_mult)

lemma percent_decode_encode: "percent_decode (encode_uri_component s) = Some s"
proof (induction s)
  case (Cons c s)
  note hex_digits [of c]
  moreover have "char_of (16 * (code c div 16) + code c mod 16) = c"
    by (simp only: mult_div_mod_eq char_of_char)
  ultimately show ?case
    using Cons.IH unreserved_plain [of c] by (auto simp: encode_Cons hex_value_char)
qed simp

lemma decode_encode: "utf8_ok (map code s) \<Longrightarrow> decode_uri_component (encode_uri_component s) = Some s"
  by (simp add: decode_uri_component_def percent_decode_encode)

lemma encode_no_slash: "CHR ''/'' \<notin> set (encode_uri_component s)"
proof (induction s)
  case (Cons c s)
  from hex_digits [of c] have "hex_char (code c div 16) \<noteq> CHR ''/''" "hex_char (code c mod 16) \<noteq> CHR ''/''"
    by (simp_all add: hex_char_no_slash)
  then show ?case using Cons.IH unreserved_plain [of c] by (auto simp: encode_Cons)
qed simp

lemma encode_eq_Nil [simp]: "encode_uri_component s = [] \<longleftrightarrow> s = []"
  by (cases s) (simp_all add: encode_Cons)

text \<open>Names the archive writes: no empty segment, no dot segment, UTF-8.\<close>

definition plain_name :: "string \<Rightarrow> bool" where
  "plain_name n \<longleftrightarrow> (\<forall>s \<in> set (split_on (CHR ''/'') n). \<not> bad_segment s \<and> utf8_ok (map code s))"

lemma decode_all_encode: "\<forall>s \<in> set ss. utf8_ok (map code s) \<Longrightarrow> decode_all (map encode_uri_component ss) = Some ss"
  by (induction ss) (simp_all add: decode_encode)

lemma segments_written:
  assumes "plain_name n" and "container \<noteq> []" and "CHR ''/'' \<notin> set container"
  shows "path_segments (''/'' @ container @ ''/'' @ encodeBlobPath n)
    = container # map encode_uri_component (split_on (CHR ''/'') n)"
proof -
  let ?ws = "map encode_uri_component (split_on (CHR ''/'') n)"
  have "split_on (CHR ''/'') (encodeBlobPath n) = ?ws"
    unfolding encodeBlobPath_def by (rule split_join) (simp_all add: encode_no_slash)
  then have "split_on (CHR ''/'') (''/'' @ container @ ''/'' @ encodeBlobPath n) = [] # container # ?ws"
    using split_on_append [OF assms(3), of "encodeBlobPath n"] by simp
  moreover have "filter (\<lambda>s. s \<noteq> []) ?ws = ?ws"
    using assms(1) by (auto simp: filter_id_conv plain_name_def bad_segment_def)
  ultimately show ?thesis using assms(2) by (simp add: path_segments_def)
qed

lemma parse_written:
  assumes "ul_parse lib uri = Some (account, ''/'' @ container @ ''/'' @ encodeBlobPath n)"
    and "ul_parse lib service = Some (account, base)" and "plain_name n" and "container \<noteq> []" and "CHR ''/'' \<notin> set container"
  shows "parseBlobUri lib uri service = Inr (container, n)"
proof -
  let ?ss = "split_on (CHR ''/'') n"
  obtain b r where br: "map encode_uri_component ?ss = b # r" by (cases ?ss) auto
  have "decode_all (b # r) = Some ?ss"
    unfolding br [symmetric] using assms(3) by (intro decode_all_encode) (simp add: plain_name_def)
  moreover have "find bad_segment ?ss = None" using assms(3) by (auto simp: plain_name_def find_None_iff)
  ultimately show ?thesis
    using segments_written [OF assms(3-5)] join_split [of "CHR ''/''" n]
    by (simp add: parseBlobUri_def assms(1,2) origin_of_def br del: decode_all.simps)
qed

text \<open>
  An archived payload is found under the URI that was written down. For a URL parser that keeps the
  path of the archive's URI, the reader takes the URI \<open>blob_put\<close> returned apart into the container and the
  very blob name that was written, whatever characters the order's ids put into it.
\<close>

theorem blob_uri_roundtrip:
  assumes "blob_put (account @ ''/'' @ container) upload payload ctx w = (Inr uri, w')"
    and "ul_parse lib (account @ ''/'' @ container @ ''/'' @ encodeBlobPath (blob_name ctx))
      = Some (account, ''/'' @ container @ ''/'' @ encodeBlobPath (blob_name ctx))"
    and "ul_parse lib service = Some (account, base)" and "plain_name (blob_name ctx)"
    and "container \<noteq> []" and "CHR ''/'' \<notin> set container"
  shows "parseBlobUri lib uri service = Inr (container, blob_name ctx)"
proof -
  have "uri = account @ ''/'' @ container @ ''/'' @ encodeBlobPath (blob_name ctx)"
    using assms(1) by (auto simp: blob_put_def bnd_app split: prod.splits sum.splits)
  then show ?thesis using parse_written [OF _ assms(3-6)] assms(2) by simp
qed

section \<open>The payload proxy\<close>

definition served :: "payload_answer \<Rightarrow> bool" where
  "served a \<longleftrightarrow> (\<forall>r. a \<noteq> PayloadRefused r)"

text \<open>A path with at least a container and a blob, none of whose segments decodes to a dot segment.\<close>

definition safe_path :: "string \<Rightarrow> bool" where
  "safe_path path \<longleftrightarrow> 2 \<le> length (path_segments path)
     \<and> (\<forall>s \<in> set (path_segments path). \<exists>t. decode_uri_component s = Some t \<and> \<not> bad_segment t)"

lemma segments_fault_None: "segments_fault ss = None \<longleftrightarrow> (\<forall>s \<in> set ss. \<exists>t. decode_uri_component s = Some t \<and> \<not> bad_segment t)"
  by (induction ss) (auto split: option.splits)

lemma uri_fault_None:
  "uri_fault lib account uri = Inr None \<longleftrightarrow>
     uri \<noteq> [] \<and> (\<exists>a path. ul_parse lib uri = Some (a, path) \<and> origin_of lib account = Inr a \<and> safe_path path)"
  by (auto simp: uri_fault_def safe_path_def segments_fault_None split: option.splits sum.splits)

text \<open>
  C25: the proxy serves only what the pipeline archived. Whatever URI is asked for, a payload (or its
  size) is served only if the URI has the origin of the storage account, its path names a container and a
  blob in segments that, decoded once, are none of them empty, \<open>.\<close> or \<open>..\<close>, and an attempt of this
  environment names it as one of its four artifacts.
\<close>

theorem payload_only_archived:
  assumes "handleAdminPayload deps uri headOnly w = (Inr a, w')" and "served a"
  shows "\<exists>account origin path rows w1 r. aa_blobAccountUrl deps = Some account
    \<and> origin_of (aa_url deps) account = Inr origin \<and> ul_parse (aa_url deps) uri = Some (origin, path) \<and> safe_path path
    \<and> aa_attempts deps w = (Inr rows, w1) \<and> r \<in> set rows \<and> archived_uri (aa_environment deps) uri r"
proof -
  obtain reader account where dep: "aa_blobReader deps = Some reader" "aa_blobAccountUrl deps = Some account"
    using assms by (auto simp: handleAdminPayload_def served_def non_empty_def split: option.splits if_splits)
  have none: "uri_fault (aa_url deps) account uri = Inr None"
    using assms by (auto simp: handleAdminPayload_def served_def dep non_empty_def bnd_app split: option.splits if_splits sum.splits)
  then obtain rows w1 where rows: "aa_attempts deps w = (Inr rows, w1)" "list_ex (archived_uri (aa_environment deps) uri) rows"
    using assms by (auto simp: handleAdminPayload_def served_def dep non_empty_def bnd_app split: option.splits if_splits sum.splits prod.splits)
  then show ?thesis using none dep(2) by (auto simp: uri_fault_None list_ex_iff)
qed

section \<open>The reconciliation on demand\<close>

lemma loop_count_bounds: "loop_count (num_max (Fin 1) (num_min (Fin 7) n)) \<le> 7
    \<and> (loop_count (num_max (Fin 1) (num_min (Fin 7) n)) = 0 \<longleftrightarrow> n = NaN)"
proof (cases n)
  case (Fin x)
  have "\<lfloor>min 7 x\<rfloor> \<le> 7" by (simp add: floor_le_iff)
  then show ?thesis using Fin by (auto simp: num_max_def num_min_def) linarith+
qed (auto simp: num_max_def num_min_def)

lemma fold_eff_length:
  assumes "fold_eff f acc xs w = (Inr out, w')"
    and "\<And>b x v c v'. f b x v = (Inr c, v') \<Longrightarrow> length c = length b + n"
  shows "length out = length acc + n * length xs"
  using assms(1)
proof (induction xs arbitrary: acc w)
  case (Cons x xs)
  obtain c v where c: "f acc x w = (Inr c, v)" "fold_eff f c xs v = (Inr out, w')"
    using Cons.prems by (auto simp: bnd_app split: prod.splits sum.splits)
  then show ?case using Cons.IH [OF c(2)] assms(2) [OF c(1)] by simp
qed simp

lemma run_length:
  assumes "runReconciliation sweep config w = (Inr out, w')"
  shows "\<exists>now conns v1 v2. rc_listEnabled sweep (rc_environment sweep) v1 = (Inr conns, v2)
    \<and> length out = rg_daysBack config * length conns"
proof -
  obtain now v1 conns v2 where run: "rc_now sweep w = (Inr now, v1)" "rc_listEnabled sweep (rc_environment sweep) v1 = (Inr conns, v2)"
      "fold_eff (sweep_days sweep config now) [] conns v2 = (Inr out, w')"
    using assms by (auto simp: runReconciliation_def bnd_app split: prod.splits sum.splits)
  have "length c = length b + rg_daysBack config" if "sweep_days sweep config now b x v = (Inr c, v')" for b x v c v'
  proof -
    have "length c = length b + 1 * length [1..<Suc (rg_daysBack config)]"
      by (rule fold_eff_length [OF that [unfolded sweep_days_def]])
        (auto simp: bnd_app split: prod.splits sum.splits)
    then show ?thesis by (simp del: upt_Suc)
  qed
  from fold_eff_length [OF run(3) this] show ?thesis using run(2) by fastforce
qed

text \<open>
  A run on demand is bounded. Whatever its body, a run that answers reports every enabled connection
  for the same number of days, at most seven; it reports none at all exactly when \<open>daysBack\<close> is no number.
\<close>

theorem reconcile_run_bounded:
  assumes "aa_reconciliation deps = Some sweep" and "run_request body = Inr v"
    and "handleAdminReconcileRun deps body w = (Inr r, w')"
  shows "\<exists>n conns rows v1 v2. rc_listEnabled sweep (rc_environment sweep) v1 = (Inr conns, v2)
    \<and> oget (hr_jsonBody r) ''perConnection'' = JArr rows \<and> length rows = n * length conns \<and> n \<le> 7
    \<and> (n = 0 \<longleftrightarrow> to_number (if nullish (get_prop v ''daysBack'') then JNum (Fin 1) else get_prop v ''daysBack'') = NaN)"
proof -
  let ?n = "loop_count (requested_days v)"
  obtain out where run: "runReconciliation sweep (run_config ?n) w = (Inr out, w')"
      "r = ok_response [(''ok'', JBool True), (''perConnection'', JArr (map reconcile_row out))]"
    using assms by (auto simp: handleAdminReconcileRun_def bnd_app split: prod.splits sum.splits)
  obtain conns v1 v2 where "rc_listEnabled sweep (rc_environment sweep) v1 = (Inr conns, v2)" "length out = ?n * length conns"
    using run_length [OF run(1)] by (auto simp: run_config_def)
  then show ?thesis
    using run(2) loop_count_bounds unfolding requested_days_def
    by (intro exI [of _ ?n] exI [of _ conns] exI [of _ "map reconcile_row out"]) (auto simp: ok_response_def oget_Cons requested_days_def)
qed

section \<open>Runs\<close>

definition sample_msg :: "string \<Rightarrow> order_message" where
  "sample_msg gid = \<lparr>om_environment = ''dev'', om_connectionId = ''c1'', om_shopDomain = ''x.myshopify.com'',
     om_topic = ''orders/create'', om_orderGid = gid, om_envelopeBlobUri = ''https://acct.blob/in/1'', om_receivedAt = [],
     om_source = Some FromWebhook\<rparr>"

definition sample_entry :: "string \<Rightarrow> int \<Rightarrow> sync_log" where
  "sample_entry gid t = \<lparr>log_id = ''1'', log_data = sync_input sample_connection (sample_msg gid)
     ((blank_shape SyncImported)\<lparr>ss_order := Some makeFakeOrder, ss_nsInternalId := Some ''ns_1'', ss_syncedAt := Some t\<rparr>),
     log_createdAt = t, log_updatedAt = t\<rparr>"

definition sample_entries :: "sync_log list" where
  "sample_entries = [sample_entry ''gid://shopify/Order/100'' 5, sample_entry ''gid://shopify/Order/101'' 9]"

definition sample_account :: string where
  "sample_account = ''https://acct.blob''"

definition sample_url :: url_lib where
  "sample_url = \<lparr>ul_parse = \<lambda>u. if starts_with u sample_account then Some (sample_account, drop (length sample_account) u) else None\<rparr>"

definition sample_artifact :: attempt where
  "sample_artifact = \<lparr>att_id = ''1'', att_data = \<lparr>at_environment = ''dev'', at_connectionId = ''c1'',
     at_orderGid = ''gid://shopify/Order/100'', at_deliveryCount = 1, at_sbMessageId = None, at_sbSessionId = None,
     at_outcome = AttImported, at_stage = None, at_errorClass = None, at_detail = None,
     at_inboundEnvelopeUri = Some ''https://acct.blob/in/1'', at_outboundPayloadUri = None, at_nsResponseUri = None,
     at_nsResponseStatus = None, at_shopifyPayloadUri = None, at_payloadDigest = None, at_startedAt = 0,
     at_finishedAt = 0, at_durationMs = 0\<rparr>, att_createdAt = 0\<rparr>"

definition sample_storage :: "unit storage" where
  "sample_storage = \<lparr>st_url = sample_account, st_properties = \<lambda>_ _. ret (Some 2, None), st_download = \<lambda>_ _. ret (Some [''{}''])\<rparr>"

definition sample_sweep :: "unit reconcile_deps" where
  "sample_sweep = \<lparr>rc_environment = ''dev'', rc_listEnabled = \<lambda>_. ret [sample_connection], rc_findById = \<lambda>_ _. ret None,
     rc_aggregate = \<lambda>_ _ _. throw (plain_error ''down''), rc_listLog = None, rc_upsert = None, rc_track = \<lambda>_ w. w, rc_now = ret 0\<rparr>"

definition sample_admin :: "unit admin_deps" where
  "sample_admin = \<lparr>aa_environment = ''dev'', aa_log = ret (0, sample_entries), aa_attempts = ret [sample_artifact],
     aa_snapshots = ret [], aa_listEnabled = \<lambda>_. ret [sample_connection], aa_reconciliation = Some sample_sweep,
     aa_blobReader = Some (blob_reader sample_url sample_storage), aa_blobAccountUrl = Some sample_account,
     aa_time = toISOString, aa_url = sample_url\<rparr>"

text \<open>A table whose rows the queries meet in changing order.\<close>

definition scanned_admin :: "(nat \<Rightarrow> sync_log list) \<Rightarrow> nat admin_deps" where
  "scanned_admin scan = \<lparr>aa_environment = ''dev'', aa_log = \<lambda>n. (Inr (0, scan n), Suc n), aa_attempts = ret [],
     aa_snapshots = ret [], aa_listEnabled = \<lambda>_. ret [], aa_reconciliation = None, aa_blobReader = None,
     aa_blobAccountUrl = None, aa_time = toISOString, aa_url = sample_url\<rparr>"

lemma scanned_quiet:
  assumes "\<And>n. mset (scan n) = mset rows"
  shows "quiet_table (scanned_admin scan) rows (\<lambda>_. True)"
  using assms by (simp add: quiet_table_def scanned_admin_def)

lemma scanned_simps: "aa_environment (scanned_admin scan) = ''dev''" "aa_log (scanned_admin scan) n = (Inr (0, scan n), Suc n)"
  by (simp_all add: scanned_admin_def)

definition flipping :: "nat \<Rightarrow> sync_log list" where
  "flipping n = (if even n then sample_entries else rev sample_entries)"

theorem orders_paging_complete_witness:
  "\<exists>w'. collect_pages 3 (orders_call (scanned_admin flipping) [(''limit'', ''1'')]) 0 0
     = (Inr (Some (map (toRecentOrderRow (scanned_admin flipping)) (selected_orders ''dev'' [(''limit'', ''1'')] sample_entries))), w')"
proof -
  have "quiet_table (scanned_admin flipping) sample_entries (\<lambda>_. True)"
    by (rule scanned_quiet) (simp add: flipping_def)
  moreover have "distinct (map log_time (filter (order_selected ''dev'' [(''limit'', ''1'')]) sample_entries))" by code_simp
  ultimately show ?thesis
    using orders_paging_complete [of "scanned_admin flipping" sample_entries "\<lambda>_. True" 0 "[(''limit'', ''1'')]"]
    by (simp add: scanned_simps sample_entries_def numeral_3_eq_3)
qed

text \<open>
  Where times agree, a page may repeat an order of the page before and another order is never shown: two
  orders of the same time, met in one order by the queries of the first page and in the other by those of
  the second.
\<close>

definition tied_entries :: "sync_log list" where
  "tied_entries = [sample_entry ''gid://shopify/Order/100'' 5, sample_entry ''gid://shopify/Order/101'' 5]"

definition rescanned :: "nat \<Rightarrow> sync_log list" where
  "rescanned n = (if n < 2 then tied_entries else rev tied_entries)"

theorem ties_repeat_an_order:
  "quiet_table (scanned_admin rescanned) tied_entries (\<lambda>_. True)
    \<and> fst (collect_pages 3 (orders_call (scanned_admin rescanned) [(''limit'', ''1'')]) 0 0)
      = Inr (Some [toRecentOrderRow (scanned_admin rescanned) (tied_entries ! 0), toRecentOrderRow (scanned_admin rescanned) (tied_entries ! 0)])"
proof
  show "quiet_table (scanned_admin rescanned) tied_entries (\<lambda>_. True)"
    by (rule scanned_quiet) (simp add: rescanned_def)
  let ?q = "[(''limit'', ''1'')]"
  have sel: "orders_limit ?q = 1" "selected_orders ''dev'' ?q tied_entries = tied_entries"
    "selected_orders ''dev'' ?q (rev tied_entries) = rev tied_entries" "length (filter (order_selected ''dev'' ?q) tied_entries) = 2"
    "length (filter (order_selected ''dev'' ?q) (rev tied_entries)) = 2"
    by code_simp+
  have call: "orders_call (scanned_admin rescanned) ?q 0 0 = (Inr ([toRecentOrderRow (scanned_admin rescanned) (tied_entries ! 0)], Some 1), 2)"
    "orders_call (scanned_admin rescanned) ?q 1 2 = (Inr ([toRecentOrderRow (scanned_admin rescanned) (tied_entries ! 0)], None), 4)"
    using orders_call_app [of "scanned_admin rescanned" 0 0 "rescanned 0" 1 0 "rescanned 1" 2 ?q 0]
      orders_call_app [of "scanned_admin rescanned" 2 0 "rescanned 2" 3 0 "rescanned 3" 4 ?q 1]
    by (simp_all add: scanned_simps rescanned_def sel next_offset_def, simp_all add: tied_entries_def)
  show "fst (collect_pages 3 (orders_call (scanned_admin rescanned) ?q) 0 0)
      = Inr (Some [toRecentOrderRow (scanned_admin rescanned) (tied_entries ! 0), toRecentOrderRow (scanned_admin rescanned) (tied_entries ! 0)])"
    using call by (simp add: numeral_3_eq_3 bnd_app)
qed

lemma search_finds_sample: "search_hits ''BUYER@'' (log_data (sample_entry ''gid://shopify/Order/100'' 5))"
proof -
  have "plain_text ''BUYER@''" "contains_ci ''BUYER@'' (Some ''buyer@example.com'')"
    unfolding contains_ci_def by (code_simp, simp, code_simp)
  moreover have "sl_customerEmail (log_data (sample_entry ''gid://shopify/Order/100'' 5)) = Some ''buyer@example.com''"
    by code_simp
  ultimately show ?thesis by (simp add: search_finds)
qed

theorem payload_only_archived_witness:
  "\<exists>a. handleAdminPayload sample_admin ''https://acct.blob/in/1'' False () = (Inr a, ())
     \<and> (\<exists>account origin path rows w1 r. aa_blobAccountUrl sample_admin = Some account
        \<and> origin_of (aa_url sample_admin) account = Inr origin
        \<and> ul_parse (aa_url sample_admin) ''https://acct.blob/in/1'' = Some (origin, path) \<and> safe_path path
        \<and> aa_attempts sample_admin () = (Inr rows, w1) \<and> r \<in> set rows
        \<and> archived_uri (aa_environment sample_admin) ''https://acct.blob/in/1'' r)"
proof -
  have facts: "uri_fault sample_url sample_account ''https://acct.blob/in/1'' = Inr None"
      "list_ex (archived_uri ''dev'' ''https://acct.blob/in/1'') [sample_artifact]"
      "parseBlobUri sample_url ''https://acct.blob/in/1'' sample_account = Inr (''in'', ''1'')"
    by code_simp+
  have account: "non_empty (Some sample_account) = Some sample_account" by (simp add: non_empty_def sample_account_def)
  have run: "handleAdminPayload sample_admin ''https://acct.blob/in/1'' False ()
      = (Inr (PayloadBody \<lparr>bb_body = ''{}'', bb_size = 2, bb_contentType = ''application/json''\<rparr>), ())"
    using facts(2)
    by (simp add: handleAdminPayload_def sample_admin_def account facts(1) read_payload_def blob_reader_def blob_getJson_def
        sample_storage_def facts(3) bnd_app try_catch_def MAX_PAYLOAD_FETCH_BYTES_def content_type_def)
  show ?thesis
    by (rule exI, rule conjI, rule run, rule payload_only_archived [OF run]) (simp add: served_def)
qed

definition sample_ctx_out :: payload_ctx where
  "sample_ctx_out = \<lparr>pc_environment = ''dev'', pc_connectionId = ''c1'', pc_orderGid = ''gid://shopify/Order/100'',
     pc_deliveryCount = 1, pc_nsAccountId = None, pc_nsRecordType = None, pc_attemptStartedAt = 0, pc_kind = Outbound\<rparr>"

theorem blob_uri_roundtrip_witness:
  "\<exists>uri. fst (blob_put (sample_account @ ''/'' @ ''out'') (\<lambda>_ _. ret ()) [] sample_ctx_out ()) = Inr uri
     \<and> parseBlobUri sample_url uri sample_account = Inr (''out'', blob_name sample_ctx_out)"
proof -
  let ?uri = "sample_account @ ''/'' @ ''out'' @ ''/'' @ encodeBlobPath (blob_name sample_ctx_out)"
  have put: "blob_put (sample_account @ ''/'' @ ''out'') (\<lambda>_ _. ret ()) [] sample_ctx_out () = (Inr ?uri, ())"
    by (simp add: blob_put_def bnd_app)
  have name: "plain_name (blob_name sample_ctx_out)" by code_simp
  have "ul_parse sample_url ?uri = Some (sample_account, ''/'' @ ''out'' @ ''/'' @ encodeBlobPath (blob_name sample_ctx_out))"
    "ul_parse sample_url sample_account = Some (sample_account, [])"
    using starts_with_append [of sample_account] starts_with_append [of sample_account "[]"] by (simp_all add: sample_url_def)
  from blob_uri_roundtrip [OF put this name]
  have "parseBlobUri sample_url ?uri sample_account = Inr (''out'', blob_name sample_ctx_out)" by simp
  moreover have "fst (blob_put (sample_account @ ''/'' @ ''out'') (\<lambda>_ _. ret ()) [] sample_ctx_out ()) = Inr ?uri"
    by (simp only: put fst_conv)
  ultimately show ?thesis by blast
qed

definition sample_body :: string where
  "sample_body = ''{'' @ json_quote ''daysBack'' @ '':30}''"

theorem reconcile_run_bounded_witness:
  "\<exists>r n conns rows. fst (handleAdminReconcileRun sample_admin sample_body ()) = Inr r
     \<and> oget (hr_jsonBody r) ''perConnection'' = JArr rows \<and> length rows = n * length (conns :: connection list) \<and> n \<le> 7 \<and> n \<noteq> 0"
proof -
  let ?v = "JObj [(''daysBack'', JNum (Fin 30))]"
  have body: "run_request sample_body = Inr ?v" by code_simp
  have sweep: "aa_reconciliation sample_admin = Some sample_sweep" by (simp add: sample_admin_def)
  have "case handleAdminReconcileRun sample_admin sample_body () of (Inr _, _) \<Rightarrow> True | _ \<Rightarrow> False" by code_simp
  then obtain r where run: "handleAdminReconcileRun sample_admin sample_body () = (Inr r, ())"
    by (auto split: prod.splits sum.splits)
  have "to_number (if nullish (get_prop ?v ''daysBack'') then JNum (Fin 1) else get_prop ?v ''daysBack'') \<noteq> NaN"
    by (simp add: oget_Cons nullish_def)
  then show ?thesis using reconcile_run_bounded [OF sweep body run] by (simp add: run) metis
qed

end
