(* ===== verification/AdminCli.thy ===== *)
theory AdminCli
  imports AdminApi
begin

text \<open>
  The operators' command line, \<open>apps/admin/src\<close>: the dispatch (\<open>cli.ts\<close>), the verbs (\<open>commands\<close>), the table
  printer (\<open>lib/format.ts\<close>) and the log query (\<open>lib/insights.ts\<close>). The environment variables, the
  clock, the send to Service Bus, the \<open>az\<close> tool and the text Postgres gives a timestamp are parameters; a
  query is its meaning on the rows.
\<close>

section \<open>The terminal\<close>

record cli_env =
  ce_var :: "string \<Rightarrow> string option"
  ce_tty :: bool
  ce_now :: int
  ce_stamp :: "int \<Rightarrow> string"
  ce_send :: "string \<Rightarrow> jsval \<Rightarrow> js_error option"
  ce_az :: "string \<Rightarrow> js_error + string"
  ce_syntaxError :: "string \<Rightarrow> js_error"

text \<open>
  What a command works on: the output, the exit code, the tables and the queue. \<open>updated_at\<close> of a ledger
  row is a column of its own, which the ledger's model does not have.
\<close>

record cli =
  cl_out :: "string list"
  cl_err :: string
  cl_exit :: "int option"
  cl_xref :: pg_xref
  cl_touched :: "dedup_parts \<Rightarrow> int"
  cl_log :: pg_log_table
  cl_attempts :: "attempt list"
  cl_snapshots :: "snapshot list"
  cl_queue :: "(string \<times> jsval) list"

definition say :: "string \<Rightarrow> (cli, unit) io" where
  "say s = modify_st (\<lambda>w. w\<lparr>cl_out := cl_out w @ [s]\<rparr>)"

definition newline :: string where
  "newline = [CHR 0x0A]"

definition ansi :: "cli_env \<Rightarrow> string \<Rightarrow> string" where
  "ansi E sgr = (if ce_tty E then CHR 0x1B # ''['' @ sgr @ ''m'' else [])"

definition styled :: "cli_env \<Rightarrow> string \<Rightarrow> string \<Rightarrow> string" where
  "styled E sgr s = ansi E sgr @ s @ ansi E ''0''"

definition heading :: "cli_env \<Rightarrow> string \<Rightarrow> string" where
  "heading E s = styled E ''1'' s"

definition dim :: "cli_env \<Rightarrow> string \<Rightarrow> string" where
  "dim E s = styled E ''2'' s"

definition red :: "cli_env \<Rightarrow> string \<Rightarrow> string" where
  "red E s = styled E ''31'' s"

definition yellow :: "cli_env \<Rightarrow> string \<Rightarrow> string" where
  "yellow E s = styled E ''33'' s"

definition statusColor :: "cli_env \<Rightarrow> string \<Rightarrow> string" where
  "statusColor E status =
     (if status = ''synced'' then styled E ''32'' status
      else if status = ''error'' then styled E ''31'' status
      else if status = ''pending'' then styled E ''33'' status
      else if status = ''ignored'' then styled E ''36'' status
      else status)"

text \<open>What is left after \<open>ESC [ digits and semicolons m\<close> at the start of a text.\<close>

definition ansi_rest :: "string \<Rightarrow> string option" where
  "ansi_rest s = (case s of
     e # b # t \<Rightarrow> (if e = CHR 0x1B \<and> b = CHR ''['' then
         (case dropWhile (\<lambda>c. is_digit c \<or> c = CHR '';'') t of m # r \<Rightarrow> if m = CHR ''m'' then Some r else None | [] \<Rightarrow> None)
       else None)
   | _ \<Rightarrow> None)"

lemma ansi_rest_shorter: "ansi_rest s = Some r \<Longrightarrow> length r < length s"
proof -
  assume "ansi_rest s = Some r"
  then obtain e b t m where "s = e # b # t" "dropWhile (\<lambda>c. is_digit c \<or> c = CHR '';'') t = m # r"
    by (auto simp: ansi_rest_def split: list.splits if_splits)
  moreover have "length (dropWhile (\<lambda>c. is_digit c \<or> c = CHR '';'') t) \<le> length t" by (rule length_dropWhile_le)
  ultimately show ?thesis by simp
qed

function stripAnsi :: "string \<Rightarrow> string" where
  "stripAnsi [] = []"
| "stripAnsi (c # s) = (case ansi_rest (c # s) of Some r \<Rightarrow> stripAnsi r | None \<Rightarrow> c # stripAnsi s)"
  by pat_completeness auto
termination by (relation "measure length") (auto dest: ansi_rest_shorter)

text \<open>The length of a text in UTF-16 code units; texts are UTF-8 bytes here.\<close>

definition code_units :: "string \<Rightarrow> nat" where
  "code_units s = length (filter (\<lambda>c. code c < 128 \<or> 192 \<le> code c) s) + length (filter (\<lambda>c. 240 \<le> code c) s)"

definition padToWidth :: "string \<Rightarrow> nat \<Rightarrow> string" where
  "padToWidth s w = (let visible = code_units (stripAnsi s) in
     if w \<le> visible then s else s @ replicate (w - visible) (CHR '' ''))"

definition padEnd :: "string \<Rightarrow> nat \<Rightarrow> string" where
  "padEnd s w = s @ replicate (w - code_units s) (CHR '' '')"

type_synonym table_row = "(string \<times> string) list"

definition cell :: "table_row \<Rightarrow> string \<Rightarrow> string" where
  "cell r k = (case map_of r k of None \<Rightarrow> [] | Some s \<Rightarrow> s)"

definition col_width :: "table_row list \<Rightarrow> string \<Rightarrow> nat" where
  "col_width rows k = foldr max (map (\<lambda>r. code_units (stripAnsi (cell r k))) rows) (code_units k)"

definition table_line :: "table_row list \<Rightarrow> string list \<Rightarrow> table_row \<Rightarrow> string" where
  "table_line rows keys r = join ''  '' (map (\<lambda>k. padToWidth (cell r k) (col_width rows k)) keys)"

definition table_header :: "table_row list \<Rightarrow> string list \<Rightarrow> string" where
  "table_header rows keys = join ''  '' (map (\<lambda>k. padEnd k (col_width rows k)) keys)"

definition table_rule :: "table_row list \<Rightarrow> string list \<Rightarrow> string" where
  "table_rule rows keys = join ''  '' (map (\<lambda>k. replicate (col_width rows k) (CHR ''-'')) keys)"

definition renderTable :: "cli_env \<Rightarrow> table_row list \<Rightarrow> string" where
  "renderTable E rows = (case rows of
     [] \<Rightarrow> dim E ''  (no rows)''
   | r # _ \<Rightarrow> (let keys = map fst r in
       heading E (table_header rows keys) @ newline @ dim E (table_rule rows keys) @ newline
       @ join newline (map (table_line rows keys) rows)))"

section \<open>Arguments\<close>

definition is_option :: "string \<Rightarrow> bool" where
  "is_option a \<longleftrightarrow> starts_with a ''--''"

definition arg_after :: "string list \<Rightarrow> string \<Rightarrow> string option" where
  "arg_after argv name = (case dropWhile (\<lambda>a. a \<noteq> name) argv of _ # v # _ \<Rightarrow> Some v | _ \<Rightarrow> None)"

definition flagValue :: "string list \<Rightarrow> string \<Rightarrow> string option" where
  "flagValue argv name = (case arg_after argv name of
     None \<Rightarrow> None | Some v \<Rightarrow> if is_option v then None else Some v)"

definition positive :: "jsnum \<Rightarrow> bool" where
  "positive n \<longleftrightarrow> is_finite_num n \<and> \<not> num_le n (Fin 0)"

definition parseLimit :: "string \<Rightarrow> string list \<Rightarrow> js_error + jsnum" where
  "parseLimit verb argv =
     (if ''--limit'' \<notin> set argv then Inr (Fin 20)
      else (let v = (case arg_after argv ''--limit'' of None \<Rightarrow> NaN | Some a \<Rightarrow> number_of_string a) in
        if positive v then Inr v else Inl (plain_error (verb @ ''--limit must be a positive integer''))))"

definition parseNum :: "string list \<Rightarrow> string \<Rightarrow> rat \<Rightarrow> js_error + jsnum" where
  "parseNum argv name fallback = (case flagValue argv name of
     None \<Rightarrow> Inr (Fin fallback)
   | Some v \<Rightarrow> (let n = number_of_string v in
       if positive n then Inr n
       else Inl (plain_error (''dpi reconcile: '' @ name @ '' must be a positive integer''))))"

text \<open>The limit as a \<open>bigint\<close> parameter: Postgres refuses a text that is no integer.\<close>

definition sql_limit :: "jsnum \<Rightarrow> js_error + nat" where
  "sql_limit n = (case n of
     Fin x \<Rightarrow> (if whole_number n then Inr (nat \<lfloor>x\<rfloor>) else Inl (bad_bigint (show_num n)))
   | _ \<Rightarrow> Inl (bad_bigint (show_num n)))"

definition env_name :: "cli_env \<Rightarrow> string" where
  "env_name E = (case ce_var E ''DPI_ENVIRONMENT'' of None \<Rightarrow> ''dev'' | Some s \<Rightarrow> s)"

text \<open>\<open>buildPool\<close> as far as it can fail before a query: three variables must be set.\<close>

definition db_required :: "cli_env \<Rightarrow> string \<Rightarrow> js_error + unit" where
  "db_required E key = (if set_str (ce_var E key) then Inr () else Inl (plain_error (
     ''dpi cli: required env var '' @ quoted key @ '' not set. '' @
     ''Export DPI_PG_HOST, DPI_PG_DATABASE, DPI_PG_USER (your Entra principal name).'')))"

definition buildPool :: "cli_env \<Rightarrow> (cli, unit) io" where
  "buildPool E = bnd (lift_sum (db_required E ''DPI_PG_HOST'')) (\<lambda>_.
     bnd (lift_sum (db_required E ''DPI_PG_DATABASE'')) (\<lambda>_. lift_sum (db_required E ''DPI_PG_USER'')))"

definition shortenGid :: "string \<Rightarrow> string" where
  "shortenGid gid = (let p = ''gid://shopify/'' in
     if starts_with gid p \<and> drop (length p) gid \<noteq> [] then drop (length p) gid else gid)"

text \<open>The first nineteen characters of a timestamp's text, the first \<open>T\<close> a space.\<close>

definition short_stamp :: "cli_env \<Rightarrow> int \<Rightarrow> string" where
  "short_stamp E t = (let s = ce_stamp E t; a = takeWhile (\<lambda>c. c \<noteq> CHR ''T'') s in
     take 19 (if a = s then s else a @ CHR '' '' # drop (Suc (length a)) s))"

definition or_dash :: "cli_env \<Rightarrow> string option \<Rightarrow> string" where
  "or_dash E s = (case s of None \<Rightarrow> dim E ''-'' | Some t \<Rightarrow> t)"

section \<open>The log query\<close>

text \<open>The rows of the first table of an answer as objects.\<close>

definition table_objects :: "jsval \<Rightarrow> js_error + jsval list" where
  "table_objects v =
     (if nullish v then Inl (plain_error (''Cannot read properties of null (reading '' @ quoted ''tables'' @ '')''))
      else (let table = get_prop (get_prop v ''tables'') ''0'' in
        if \<not> truthy table then Inr []
        else (let names = (case get_prop table ''columns'' of JArr cs \<Rightarrow> map (\<lambda>c. to_str (get_prop c ''name'')) cs | _ \<Rightarrow> []);
                  rows = (case get_prop table ''rows'' of JArr rs \<Rightarrow> rs | _ \<Rightarrow> [])
          in Inr (map (\<lambda>row. JObj (foldl (\<lambda>obj i. oset (names ! i) (get_prop row (show_nat i)) obj) []
               [0..<length names])) rows))))"

definition runKql :: "cli_env \<Rightarrow> string \<Rightarrow> js_error + jsval list" where
  "runKql E query =
     (if \<not> set_str (ce_var E ''DPI_AI_APP_ID'')
        then Inl (plain_error ''dpi cli: DPI_AI_APP_ID is not set (App Insights component appId).'')
      else (case ce_az E query of
          Inl e \<Rightarrow> Inl e
        | Inr raw \<Rightarrow> (case json_parse raw of None \<Rightarrow> Inl (ce_syntaxError E raw) | Some v \<Rightarrow> table_objects v)))"

section \<open>Tables line up\<close>

lemma code_units_append [simp]: "code_units (s @ t) = code_units s + code_units t"
  by (simp add: code_units_def)

lemma code_units_replicate [simp]: "code_units (replicate n (CHR '' '')) = n" "code_units (replicate n (CHR ''-'')) = n"
  by (simp_all add: code_units_def)

lemma ansi_rest_space:
  "ansi_rest ((c # s) @ CHR '' '' # t) = (case ansi_rest (c # s) of None \<Rightarrow> None | Some r \<Rightarrow> Some (r @ CHR '' '' # t))"
proof (cases s)
  case (Cons b u)
  let ?P = "\<lambda>c. is_digit c \<or> c = CHR '';''"
  have sp: "\<not> is_digit (CHR '' '')" by (simp add: is_digit_def)
  then have "dropWhile ?P (u @ CHR '' '' # t) = dropWhile ?P u @ CHR '' '' # t" by (simp add: dropWhile_append)
  then show ?thesis by (auto simp: Cons ansi_rest_def sp split: list.split)
qed (simp add: ansi_rest_def)

lemma code_units_space [simp]: "code_units (CHR '' '' # s) = Suc (code_units s)"
  by (simp add: code_units_def)

text \<open>An escape sequence has no space in it, so a space splits a text.\<close>

lemma stripAnsi_space: "stripAnsi (s @ CHR '' '' # t) = stripAnsi s @ CHR '' '' # stripAnsi t"
proof (induction s rule: stripAnsi.induct)
  case 1
  have "ansi_rest (CHR '' '' # t) = None" by (simp add: ansi_rest_def split: list.split)
  then show ?case by simp
next
  case (2 c s)
  then show ?case using ansi_rest_space [of c s t] by (auto split: option.split)
qed

lemma stripAnsi_padded: "stripAnsi (s @ replicate n (CHR '' '')) = stripAnsi s @ replicate n (CHR '' '')"
proof (induction n arbitrary: s)
  case (Suc n)
  have "stripAnsi (replicate n (CHR '' '')) = replicate n (CHR '' '')" using Suc.IH [of "[]"] by simp
  then show ?case by (simp add: stripAnsi_space)
qed simp

lemma padToWidth_width: "code_units (stripAnsi s) \<le> w \<Longrightarrow> code_units (stripAnsi (padToWidth s w)) = w"
  by (auto simp: padToWidth_def Let_def stripAnsi_padded)

lemma col_width_fits:
  "r \<in> set rows \<Longrightarrow> code_units (stripAnsi (cell r k)) \<le> col_width rows k" "code_units k \<le> col_width rows k"
  unfolding col_width_def by (induction rows) auto

lemma joined_width:
  assumes "\<And>k. k \<in> set ks \<Longrightarrow> code_units (stripAnsi (f k)) = w k"
  shows "code_units (stripAnsi (join ''  '' (map f ks))) = sum_list (map w ks) + 2 * (length ks - 1)"
  using assms
proof (induction ks rule: induct_list012)
  case (3 k l ks)
  have "stripAnsi (f k @ CHR '' '' # CHR '' '' # join ''  '' (map f (l # ks)))
      = stripAnsi (f k) @ ''  '' @ stripAnsi (join ''  '' (map f (l # ks)))"
    by (simp add: stripAnsi_space stripAnsi_space [of "[]", simplified])
  then show ?case using 3 by simp
qed (simp_all add: code_units_def)

text \<open>Every row of a table is as wide on the screen as every other, colours aside.\<close>

lemma table_lines_aligned:
  assumes "x \<in> set rows" and "y \<in> set rows"
  shows "code_units (stripAnsi (table_line rows keys x)) = code_units (stripAnsi (table_line rows keys y))"
proof -
  have "code_units (stripAnsi (table_line rows keys r))
      = sum_list (map (col_width rows) keys) + 2 * (length keys - 1)" if "r \<in> set rows" for r
    unfolding table_line_def using that by (intro joined_width padToWidth_width col_width_fits)
  then show ?thesis using assms by simp
qed

end
