(* ===== verification/ShopifyTokens.thy ===== *)
theory ShopifyTokens
  imports NsGateway JsJson
begin

text \<open>
  \<open>packages/shopify-client/src/token-service.ts\<close>: the HTTP exchange for a short-lived access token, the
  cache of tokens per shop, and the one request a shop has in flight. \<open>fetch\<close>, the clock and the text of
  the engine's syntax errors are the environment's. A call that finds a request of its shop in flight waits
  for that request's promise: promises are numbered in the order they are created. What calls that overlap
  do is the step relation of the last section.
\<close>

section \<open>HTTP\<close>

record http_request =
  hq_url :: string
  hq_method :: string
  hq_headers :: "(string \<times> string) list"
  hq_body :: string

text \<open>A reply: its status, and what reading its body gives.\<close>

record http_reply =
  hp_status :: int
  hp_body :: "js_error + string"

record 'x http_env =
  he_fetch :: "http_request \<Rightarrow> ('x, http_reply) io"
  he_now :: "('x, int) io"
  he_await :: "nat \<Rightarrow> ('x, string) io"
  he_syntaxError :: "string \<Rightarrow> js_error"

definition reply_ok :: "http_reply \<Rightarrow> bool" where
  "reply_ok r \<longleftrightarrow> 200 \<le> hp_status r \<and> hp_status r \<le> 299"

text \<open>\<open>res.text().catch(() => '')\<close> and \<open>res.json()\<close>\<close>

definition reply_text :: "http_reply \<Rightarrow> string" where
  "reply_text r = (case hp_body r of Inl _ \<Rightarrow> [] | Inr t \<Rightarrow> t)"

definition reply_json :: "'x http_env \<Rightarrow> http_reply \<Rightarrow> js_error + jsval" where
  "reply_json E r = (case hp_body r of
     Inl e \<Rightarrow> Inl e
   | Inr t \<Rightarrow> (case json_parse t of None \<Rightarrow> Inl (he_syntaxError E t) | Some v \<Rightarrow> Inr v))"

text \<open>\<open>v.key\<close>, which throws on \<open>null\<close> and \<open>undefined\<close>.\<close>

definition member_of :: "jsval \<Rightarrow> string \<Rightarrow> js_error + jsval" where
  "member_of v k = (if nullish v
     then Inl (type_error (''Cannot read properties of '' @ to_str v @ '' (reading '' @ quoted k @ '')''))
     else Inr (get_prop v k))"

text \<open>One component of \<open>URLSearchParams\<close>: letters, digits and \<open>*-._\<close> stay, a space is a plus.\<close>

definition form_char :: "char \<Rightarrow> string" where
  "form_char c = (if is_letter c \<or> is_digit c \<or> c \<in> set ''*-._'' then [c]
     else if c = CHR '' '' then ''+''
     else CHR ''%'' # hex_char (code c div 16) # [hex_char (code c mod 16)])"

definition form_encode :: "(string \<times> string) list \<Rightarrow> string" where
  "form_encode ps = join ''&'' (map (\<lambda>(k, v). concat (map form_char k) @ ''='' @ concat (map form_char v)) ps)"

section \<open>The exchange\<close>

record cached_token =
  ct_accessToken :: string
  ct_expiresAt :: jsnum
  ct_scope :: string

record credentials =
  cr_shopDomain :: string
  cr_clientId :: string
  cr_clientSecret :: string

definition token_request :: "credentials \<Rightarrow> http_request" where
  "token_request creds = \<lparr>hq_url = ''https://'' @ cr_shopDomain creds @ ''/admin/oauth/access_token'',
     hq_method = ''POST'', hq_headers = [(''Content-Type'', ''application/x-www-form-urlencoded'')],
     hq_body = form_encode [(''client_id'', cr_clientId creds), (''client_secret'', cr_clientSecret creds),
       (''grant_type'', ''client_credentials'')]\<rparr>"

text \<open>\<open>json.expires_in ?? 3600\<close>, in milliseconds after \<open>now\<close>\<close>

definition expiry :: "int \<Rightarrow> jsval \<Rightarrow> jsnum" where
  "expiry now expires_in = num_add (of_integer now)
     (num_times (if nullish expires_in then Fin 3600 else to_number expires_in) 1000)"

definition fetchToken :: "'x http_env \<Rightarrow> credentials \<Rightarrow> ('x, cached_token) io" where
  "fetchToken E creds = bnd (he_fetch E (token_request creds)) (\<lambda>res.
     if \<not> reply_ok res then throw (plain_error (''ShopifyTokenService: '' @ cr_shopDomain creds @ '' returned ''
          @ show_int (hp_status res) @ '' on token exchange: '' @ reply_text res))
     else bnd (lift_sum (reply_json E res)) (\<lambda>v. bnd (lift_sum (member_of v ''access_token'')) (\<lambda>token.
       if \<not> truthy token then throw (plain_error (''ShopifyTokenService: '' @ cr_shopDomain creds
            @ '' returned no access_token in response''))
       else bnd (he_now E) (\<lambda>now.
         ret \<lparr>ct_accessToken = to_str token, ct_expiresAt = expiry now (get_prop v ''expires_in''),
           ct_scope = (if nullish (get_prop v ''scope'') then [] else to_str (get_prop v ''scope''))\<rparr>))))"

section \<open>The service\<close>

record token_service =
  ts_cache :: "(string \<times> cached_token) list"
  ts_inFlight :: "(string \<times> nat) list"
  ts_next :: nat

definition empty_tokens :: token_service where
  "empty_tokens = \<lparr>ts_cache = [], ts_inFlight = [], ts_next = 0\<rparr>"

definition DEFAULT_REFRESH_BUFFER_MS :: int where
  "DEFAULT_REFRESH_BUFFER_MS = 300000"

text \<open>\<open>cached.expiresAt - refreshBufferMs > now\<close>\<close>

definition fresh_token :: "int \<Rightarrow> int \<Rightarrow> cached_token \<Rightarrow> bool" where
  "fresh_token buffer now t \<longleftrightarrow> num_less (of_integer now) (num_sub (ct_expiresAt t) (of_integer buffer))"

definition open_flight :: "string \<Rightarrow> token_service \<Rightarrow> token_service" where
  "open_flight shop s = s\<lparr>ts_inFlight := AList.update shop (ts_next s) (ts_inFlight s), ts_next := Suc (ts_next s)\<rparr>"

definition store_token :: "string \<Rightarrow> cached_token \<Rightarrow> token_service \<Rightarrow> token_service" where
  "store_token shop t s = s\<lparr>ts_cache := AList.update shop t (ts_cache s)\<rparr>"

definition close_flight :: "string \<Rightarrow> token_service \<Rightarrow> token_service" where
  "close_flight shop s = s\<lparr>ts_inFlight := AList.delete shop (ts_inFlight s)\<rparr>"

definition invalidate :: "string \<Rightarrow> token_service \<Rightarrow> token_service" where
  "invalidate shop s = s\<lparr>ts_cache := AList.delete shop (ts_cache s)\<rparr>"

text \<open>What the fetching call does when its promise settles: the \<open>try\<close> block and its \<open>finally\<close>.\<close>

definition settle_token :: "string \<Rightarrow> js_error + cached_token \<Rightarrow> token_service \<Rightarrow> token_service" where
  "settle_token shop r s = close_flight shop (case r of Inl _ \<Rightarrow> s | Inr t \<Rightarrow> store_token shop t s)"

section \<open>One call\<close>

record 'x shop_world =
  sx_tokens :: token_service
  sx_out :: 'x

definition shop_out :: "('x, 'a) io \<Rightarrow> ('x shop_world, 'a) io" where
  "shop_out m = (\<lambda>w. case m (sx_out w) of (r, x) \<Rightarrow> (r, w\<lparr>sx_out := x\<rparr>))"

definition on_tokens :: "(token_service \<Rightarrow> token_service) \<Rightarrow> ('x shop_world, unit) io" where
  "on_tokens f = modify_st (\<lambda>w. w\<lparr>sx_tokens := f (sx_tokens w)\<rparr>)"

text \<open>The cached token when it is fresh; the clock is read only when there is one.\<close>

definition cached_hit :: "'x http_env \<Rightarrow> int \<Rightarrow> string \<Rightarrow> ('x shop_world, cached_token option) io" where
  "cached_hit E buffer shop = bnd (read_st (\<lambda>w. map_of (ts_cache (sx_tokens w)) shop)) (\<lambda>cached. case cached of
     None \<Rightarrow> ret None
   | Some t \<Rightarrow> bnd (shop_out (he_now E)) (\<lambda>now. ret (if fresh_token buffer now t then Some t else None)))"

text \<open>The access token; the promise of another call is the environment's to settle.\<close>

definition getAccessToken :: "'x http_env \<Rightarrow> int \<Rightarrow> credentials \<Rightarrow> ('x shop_world, string) io" where
  "getAccessToken E buffer creds = (let shop = cr_shopDomain creds in
     bnd (cached_hit E buffer shop) (\<lambda>hit. case hit of
       Some t \<Rightarrow> ret (ct_accessToken t)
     | None \<Rightarrow> bnd (read_st (\<lambda>w. map_of (ts_inFlight (sx_tokens w)) shop)) (\<lambda>existing. case existing of
         Some p \<Rightarrow> shop_out (he_await E p)
       | None \<Rightarrow> bnd (on_tokens (open_flight shop)) (\<lambda>_.
           try_finally
             (bnd (shop_out (fetchToken E creds)) (\<lambda>t. bnd (on_tokens (store_token shop t)) (\<lambda>_. ret (ct_accessToken t))))
             (\<lambda>_. on_tokens (close_flight shop))))))"

lemma shop_out_app [io_simps]:
  "m (sx_out w) = (r, x) \<Longrightarrow> shop_out m w = (r, w\<lparr>sx_out := x\<rparr>)"
  by (simp add: shop_out_def)

lemma on_tokens_app [io_simps, simp]: "on_tokens f w = (Inr (), w\<lparr>sx_tokens := f (sx_tokens w)\<rparr>)"
  by (simp add: on_tokens_def)

lemma keeps_shop_out [keeps_rules, intro]: "keeps sx_tokens (shop_out m)"
  by (rule keepsI) (simp add: shop_out_def split: prod.splits)

section \<open>Calls that overlap\<close>

text \<open>
  The service with the calls that are under way: \<open>tn_requests\<close> are the exchanges sent so far (promise and
  shop), \<open>tn_settled\<close> the outcomes that have arrived, \<open>tn_fetching\<close> the calls that wait for an exchange
  of their own, \<open>tn_joined\<close> those that wait for another's, and \<open>tn_answers\<close> what calls returned.
\<close>

record token_net =
  tn_service :: token_service
  tn_requests :: "(nat \<times> string) list"
  tn_settled :: "(nat \<times> (js_error + cached_token)) list"
  tn_fetching :: "(nat \<times> string) list"
  tn_joined :: "(nat \<times> string) list"
  tn_answers :: "(string \<times> (js_error + cached_token)) list"

definition idle_net :: token_net where
  "idle_net = \<lparr>tn_service = empty_tokens, tn_requests = [], tn_settled = [], tn_fetching = [], tn_joined = [],
     tn_answers = []\<rparr>"

definition token_miss :: "int \<Rightarrow> int \<Rightarrow> string \<Rightarrow> token_service \<Rightarrow> bool" where
  "token_miss buffer now shop s \<longleftrightarrow>
     (case map_of (ts_cache s) shop of None \<Rightarrow> True | Some t \<Rightarrow> \<not> fresh_token buffer now t)"

inductive token_step :: "int \<Rightarrow> token_net \<Rightarrow> token_net \<Rightarrow> bool" for buffer where
  hit: "map_of (ts_cache (tn_service n)) shop = Some t \<Longrightarrow> fresh_token buffer now t
    \<Longrightarrow> token_step buffer n (n\<lparr>tn_answers := (shop, Inr t) # tn_answers n\<rparr>)"
| join: "token_miss buffer now shop (tn_service n) \<Longrightarrow> map_of (ts_inFlight (tn_service n)) shop = Some p
    \<Longrightarrow> token_step buffer n (n\<lparr>tn_joined := (p, shop) # tn_joined n\<rparr>)"
| send: "token_miss buffer now shop (tn_service n) \<Longrightarrow> map_of (ts_inFlight (tn_service n)) shop = None
    \<Longrightarrow> token_step buffer n (n\<lparr>tn_service := open_flight shop (tn_service n),
          tn_requests := (ts_next (tn_service n), shop) # tn_requests n,
          tn_fetching := (ts_next (tn_service n), shop) # tn_fetching n\<rparr>)"
| settle: "(p, shop) \<in> set (tn_requests n) \<Longrightarrow> map_of (tn_settled n) p = None
    \<Longrightarrow> token_step buffer n (n\<lparr>tn_settled := (p, r) # tn_settled n\<rparr>)"
| resume: "(p, shop) \<in> set (tn_fetching n) \<Longrightarrow> map_of (tn_settled n) p = Some r
    \<Longrightarrow> token_step buffer n (n\<lparr>tn_service := settle_token shop r (tn_service n),
          tn_fetching := remove1 (p, shop) (tn_fetching n), tn_answers := (shop, r) # tn_answers n\<rparr>)"
| wake: "(p, shop) \<in> set (tn_joined n) \<Longrightarrow> map_of (tn_settled n) p = Some r
    \<Longrightarrow> token_step buffer n (n\<lparr>tn_joined := remove1 (p, shop) (tn_joined n),
          tn_answers := (shop, r) # tn_answers n\<rparr>)"
| evict: "token_step buffer n (n\<lparr>tn_service := invalidate shop (tn_service n)\<rparr>)"

text \<open>An exchange whose outcome has not arrived.\<close>

definition open_request :: "token_net \<Rightarrow> nat \<Rightarrow> string \<Rightarrow> bool" where
  "open_request n p shop \<longleftrightarrow> (p, shop) \<in> set (tn_requests n) \<and> map_of (tn_settled n) p = None"

text \<open>\<open>issued n shop t\<close>: an exchange for \<open>shop\<close> returned \<open>t\<close>.\<close>

definition issued :: "token_net \<Rightarrow> string \<Rightarrow> js_error + cached_token \<Rightarrow> bool" where
  "issued n shop r \<longleftrightarrow> (\<exists>p. (p, shop) \<in> set (tn_requests n) \<and> map_of (tn_settled n) p = Some r)"

text \<open>
  The invariant in three parts: the promises are numbered apart and every call waits for a request of its
  own shop; a shop is in flight exactly while some call fetches for it, and an open request has its caller;
  what is cached or answered was issued.
\<close>

definition ids_ok :: "token_net \<Rightarrow> bool" where
  "ids_ok n \<longleftrightarrow>
     distinct (map fst (tn_requests n)) \<and> (\<forall>(p, shop)\<in>set (tn_requests n). p < ts_next (tn_service n))
     \<and> distinct (tn_fetching n) \<and> set (tn_fetching n) \<union> set (tn_joined n) \<subseteq> set (tn_requests n)
     \<and> fst ` set (tn_settled n) \<subseteq> fst ` set (tn_requests n)"

definition flights_ok :: "token_net \<Rightarrow> bool" where
  "flights_ok n \<longleftrightarrow>
     (\<forall>shop p. map_of (ts_inFlight (tn_service n)) shop = Some p \<longleftrightarrow> (p, shop) \<in> set (tn_fetching n))
     \<and> (\<forall>p shop. open_request n p shop \<longrightarrow> (p, shop) \<in> set (tn_fetching n))"

definition issued_ok :: "token_net \<Rightarrow> bool" where
  "issued_ok n \<longleftrightarrow>
     (\<forall>shop t. map_of (ts_cache (tn_service n)) shop = Some t \<longrightarrow> issued n shop (Inr t))
     \<and> (\<forall>shop r. (shop, r) \<in> set (tn_answers n) \<longrightarrow> issued n shop r)"

definition tokens_ok :: "token_net \<Rightarrow> bool" where
  "tokens_ok n \<longleftrightarrow> ids_ok n \<and> flights_ok n \<and> issued_ok n"

lemma tokens_ok_idle: "tokens_ok idle_net"
  by (simp add: tokens_ok_def ids_ok_def flights_ok_def issued_ok_def idle_net_def empty_tokens_def open_request_def)

text \<open>An outcome, once there, stays: what was issued is issued for good.\<close>

lemma issued_settle:
  "map_of (tn_settled n) p = None \<Longrightarrow> issued n shop r \<Longrightarrow> issued (n\<lparr>tn_settled := (p, q) # tn_settled n\<rparr>) shop r"
  by (auto simp: issued_def)

lemma issued_frame [simp]:
  "issued (n\<lparr>tn_service := s\<rparr>) shop r = issued n shop r"
  "issued (n\<lparr>tn_fetching := fs\<rparr>) shop r = issued n shop r"
  "issued (n\<lparr>tn_joined := js\<rparr>) shop r = issued n shop r"
  "issued (n\<lparr>tn_answers := as\<rparr>) shop r = issued n shop r"
  by (simp_all add: issued_def)

lemma open_cong:
  "tn_requests m = tn_requests n \<Longrightarrow> tn_settled m = tn_settled n \<Longrightarrow> open_request m p shop = open_request n p shop"
  by (simp add: open_request_def)

lemma flightsI:
  assumes "\<And>shop p. map_of (ts_inFlight (tn_service n)) shop = Some p \<longleftrightarrow> (p, shop) \<in> set (tn_fetching n)"
    and "\<And>p shop. open_request n p shop \<Longrightarrow> (p, shop) \<in> set (tn_fetching n)"
  shows "flights_ok n"
  using assms by (simp add: flights_ok_def)

lemma flight_iff:
  "flights_ok n \<Longrightarrow> map_of (ts_inFlight (tn_service n)) shop = Some p \<longleftrightarrow> (p, shop) \<in> set (tn_fetching n)"
  by (simp add: flights_ok_def)

lemma open_is_fetched: "flights_ok n \<Longrightarrow> open_request n p shop \<Longrightarrow> (p, shop) \<in> set (tn_fetching n)"
  by (simp add: flights_ok_def)

lemma issuedI:
  assumes "\<And>shop t. map_of (ts_cache (tn_service n)) shop = Some t \<Longrightarrow> issued n shop (Inr t)"
    and "\<And>shop r. (shop, r) \<in> set (tn_answers n) \<Longrightarrow> issued n shop r"
  shows "issued_ok n"
  using assms by (simp add: issued_ok_def)

lemma cached_issued: "issued_ok n \<Longrightarrow> map_of (ts_cache (tn_service n)) shop = Some t \<Longrightarrow> issued n shop (Inr t)"
  by (simp add: issued_ok_def)

lemma answer_issued: "issued_ok n \<Longrightarrow> (shop, r) \<in> set (tn_answers n) \<Longrightarrow> issued n shop r"
  by (simp add: issued_ok_def)

lemma one_flight:
  "flights_ok n \<Longrightarrow> (p, shop) \<in> set (tn_fetching n) \<Longrightarrow> (q, shop) \<in> set (tn_fetching n) \<Longrightarrow> p = q"
  by (metis flight_iff option.inject)

lemma fetched_is_requested: "ids_ok n \<Longrightarrow> x \<in> set (tn_fetching n) \<Longrightarrow> x \<in> set (tn_requests n)"
  by (auto simp: ids_ok_def)

lemma joined_is_requested: "ids_ok n \<Longrightarrow> x \<in> set (tn_joined n) \<Longrightarrow> x \<in> set (tn_requests n)"
  by (auto simp: ids_ok_def)

abbreviation sent_by :: "token_net \<Rightarrow> string \<Rightarrow> token_net" where
  "sent_by n shop \<equiv> n\<lparr>tn_service := open_flight shop (tn_service n),
     tn_requests := (ts_next (tn_service n), shop) # tn_requests n,
     tn_fetching := (ts_next (tn_service n), shop) # tn_fetching n\<rparr>"

lemma next_is_new:
  assumes "ids_ok n"
  shows "(ts_next (tn_service n), s) \<notin> set (tn_requests n)" and "(ts_next (tn_service n), s) \<notin> set (tn_fetching n)"
    and "ts_next (tn_service n) \<notin> fst ` set (tn_requests n)" and "map_of (tn_settled n) (ts_next (tn_service n)) = None"
proof -
  show new: "(ts_next (tn_service n), s) \<notin> set (tn_requests n)" for s using assms by (auto simp: ids_ok_def)
  then show "(ts_next (tn_service n), s) \<notin> set (tn_fetching n)" using fetched_is_requested [OF assms] by blast
  from new show "ts_next (tn_service n) \<notin> fst ` set (tn_requests n)" by force
  then show "map_of (tn_settled n) (ts_next (tn_service n)) = None"
    using assms by (auto simp: ids_ok_def map_of_eq_None_iff)
qed

lemma ids_ok_send: "ids_ok n \<Longrightarrow> ids_ok (sent_by n shop)"
  using next_is_new(2) [of n shop] next_is_new(3) [of n]
  unfolding ids_ok_def open_flight_def by (auto simp: less_Suc_eq)

lemma flights_ok_send:
  assumes "ids_ok n" and ok: "flights_ok n" and free: "map_of (ts_inFlight (tn_service n)) shop = None"
  shows "flights_ok (sent_by n shop)"
proof (rule flightsI)
  have idle: "(q, shop) \<notin> set (tn_fetching n)" for q using flight_iff [OF ok] free by (metis option.distinct(1))
  fix s p
  show "map_of (ts_inFlight (tn_service (sent_by n shop))) s = Some p \<longleftrightarrow> (p, s) \<in> set (tn_fetching (sent_by n shop))"
    using idle flight_iff [OF ok, of s p] by (auto simp: open_flight_def map_of_update)
next
  fix p s
  assume "open_request (sent_by n shop) p s"
  then have "open_request n p s \<or> (p, s) = (ts_next (tn_service n), shop)" by (auto simp: open_request_def)
  then show "(p, s) \<in> set (tn_fetching (sent_by n shop))" using open_is_fetched [OF ok] by auto
qed

lemma issued_ok_send: "issued_ok n \<Longrightarrow> issued_ok (sent_by n shop)"
proof (rule issuedI)
  have more: "issued n s r \<Longrightarrow> issued (sent_by n shop) s r" for s r by (auto simp: issued_def)
  fix s t r
  assume ok: "issued_ok n"
  show "issued (sent_by n shop) s (Inr t)" if "map_of (ts_cache (tn_service (sent_by n shop))) s = Some t"
    using more [OF cached_issued [OF ok]] that by (simp add: open_flight_def)
  show "issued (sent_by n shop) s r" if "(s, r) \<in> set (tn_answers (sent_by n shop))"
    using more [OF answer_issued [OF ok]] that by simp
qed

lemma tokens_ok_settle:
  assumes ok: "tokens_ok n" and req: "(p, shop) \<in> set (tn_requests n)" and none: "map_of (tn_settled n) p = None"
  shows "tokens_ok (n\<lparr>tn_settled := (p, r) # tn_settled n\<rparr>)"
proof -
  have "ids_ok (n\<lparr>tn_settled := (p, r) # tn_settled n\<rparr>)"
    using ok imageI [OF req, of fst] unfolding tokens_ok_def ids_ok_def by auto
  moreover have "open_request n q s" if "open_request (n\<lparr>tn_settled := (p, r) # tn_settled n\<rparr>) q s" for q s
    using that by (auto simp: open_request_def split: if_splits)
  then have "flights_ok (n\<lparr>tn_settled := (p, r) # tn_settled n\<rparr>)"
    using ok by (simp add: tokens_ok_def flights_ok_def)
  moreover have "issued_ok (n\<lparr>tn_settled := (p, r) # tn_settled n\<rparr>)"
    using ok issued_settle [OF none] by (simp add: tokens_ok_def issued_ok_def)
  ultimately show ?thesis by (simp add: tokens_ok_def)
qed

lemma issued_ok_resume:
  assumes ok: "issued_ok n" and i: "issued n shop r"
  shows "issued_ok (n\<lparr>tn_service := settle_token shop r (tn_service n),
          tn_fetching := fs, tn_answers := (shop, r) # tn_answers n\<rparr>)" (is "issued_ok ?m")
proof (rule issuedI)
  have eq: "issued ?m s q = issued n s q" for s q by simp
  fix s t q
  show "issued ?m s q" if "(s, q) \<in> set (tn_answers ?m)"
    using that i answer_issued [OF ok] unfolding eq by auto
  show "issued ?m s (Inr t)" if "map_of (ts_cache (tn_service ?m)) s = Some t"
    using that i cached_issued [OF ok, of s t] unfolding eq
    by (cases r) (auto simp: settle_token_def close_flight_def store_token_def map_of_update split: if_splits)
qed

lemma flights_ok_resume:
  assumes ok: "flights_ok n" and d: "distinct (tn_fetching n)" and f: "(p, shop) \<in> set (tn_fetching n)"
    and r: "map_of (tn_settled n) p = Some r"
  shows "flights_ok (n\<lparr>tn_service := settle_token shop r (tn_service n),
          tn_fetching := remove1 (p, shop) (tn_fetching n), tn_answers := as\<rparr>)"
proof -
  let ?m = "n\<lparr>tn_service := settle_token shop r (tn_service n),
          tn_fetching := remove1 (p, shop) (tn_fetching n), tn_answers := as\<rparr>"
  have fetching: "(q, s) \<in> set (tn_fetching ?m) \<longleftrightarrow> (q, s) \<in> set (tn_fetching n) \<and> s \<noteq> shop" for q s
    using one_flight [OF ok f, of q] by (auto simp: set_remove1_eq [OF d])
  have flight: "ts_inFlight (tn_service ?m) = AList.delete shop (ts_inFlight (tn_service n))"
    by (cases r) (simp_all add: settle_token_def close_flight_def store_token_def)
  show ?thesis
  proof (rule flightsI)
    fix s q
    show "map_of (ts_inFlight (tn_service ?m)) s = Some q \<longleftrightarrow> (q, s) \<in> set (tn_fetching ?m)"
      unfolding fetching flight using flight_iff [OF ok, of s q] by (auto simp: map_of_delete)
    assume "open_request ?m q s"
    then have "open_request n q s" by (simp add: open_request_def)
    then show "(q, s) \<in> set (tn_fetching ?m)"
      unfolding fetching using r open_is_fetched [OF ok] one_flight [OF ok f, of q] by (auto simp: open_request_def)
  qed
qed

lemma tokens_ok_resume:
  assumes ok: "tokens_ok n" and f: "(p, shop) \<in> set (tn_fetching n)" and r: "map_of (tn_settled n) p = Some r"
  shows "tokens_ok (n\<lparr>tn_service := settle_token shop r (tn_service n),
          tn_fetching := remove1 (p, shop) (tn_fetching n), tn_answers := (shop, r) # tn_answers n\<rparr>)"
proof -
  have parts: "ids_ok n" "flights_ok n" "issued_ok n" "distinct (tn_fetching n)"
    using ok by (auto simp: tokens_ok_def ids_ok_def)
  have "ts_next (settle_token shop r (tn_service n)) = ts_next (tn_service n)"
    by (cases r) (simp_all add: settle_token_def close_flight_def store_token_def)
  then have "ids_ok (n\<lparr>tn_service := settle_token shop r (tn_service n),
          tn_fetching := remove1 (p, shop) (tn_fetching n), tn_answers := (shop, r) # tn_answers n\<rparr>)"
    using parts(1) by (auto simp: ids_ok_def dest: set_mp [OF set_remove1_subset])
  moreover have "issued n shop r" using f r fetched_is_requested [OF parts(1)] by (auto simp: issued_def)
  ultimately show ?thesis
    using flights_ok_resume [OF parts(2,4) f r] issued_ok_resume [OF parts(3)] by (simp add: tokens_ok_def)
qed

text \<open>A step that leaves requests, outcomes, flights and fetching calls alone.\<close>

lemma tokens_ok_frame:
  assumes "tokens_ok n" and "tn_requests m = tn_requests n" and "tn_settled m = tn_settled n"
    and "tn_fetching m = tn_fetching n" and "ts_inFlight (tn_service m) = ts_inFlight (tn_service n)"
    and "ts_next (tn_service m) = ts_next (tn_service n)" and "set (tn_joined m) \<subseteq> set (tn_requests n)"
    and "issued_ok m"
  shows "tokens_ok m"
  using assms unfolding tokens_ok_def ids_ok_def flights_ok_def by (simp add: open_cong [of m n])

lemma joined_subset: "tokens_ok n \<Longrightarrow> set (tn_joined n) \<subseteq> set (tn_requests n)"
  by (simp add: tokens_ok_def ids_ok_def)

lemma issued_ok_answer:
  "issued_ok n \<Longrightarrow> issued n shop r \<Longrightarrow> issued_ok (n\<lparr>tn_joined := js, tn_answers := (shop, r) # tn_answers n\<rparr>)"
  by (auto simp: issued_ok_def)

lemma token_step_ok: "token_step buffer n m \<Longrightarrow> tokens_ok n \<Longrightarrow> tokens_ok m"
proof (induction rule: token_step.induct)
  case (hit n shop t now)
  then have "issued_ok (n\<lparr>tn_answers := (shop, Inr t) # tn_answers n\<rparr>)"
      using issued_ok_answer [of n shop "Inr t" "tn_joined n"] cached_issued [of n shop t] by (simp add: tokens_ok_def)
  then show ?case by (rule tokens_ok_frame [OF hit(3), rotated -1]) (simp_all add: joined_subset [OF hit(3)])
next
  case (join now shop n p)
  then have "(p, shop) \<in> set (tn_requests n)"
    using fetched_is_requested [of n "(p, shop)"] by (simp add: tokens_ok_def flight_iff)
  moreover have "issued_ok (n\<lparr>tn_joined := (p, shop) # tn_joined n\<rparr>)"
    using join.prems by (simp add: tokens_ok_def issued_ok_def)
  ultimately show ?case by (intro tokens_ok_frame [OF join(3)]) (simp_all add: joined_subset [OF join(3)])
next
  case (send now shop n)
  then show ?case by (simp add: tokens_ok_def ids_ok_send flights_ok_send issued_ok_send)
next
  case (wake p shop n r)
  then have "issued n shop r" using joined_is_requested [of n "(p, shop)"] by (auto simp: tokens_ok_def issued_def)
  then have "issued_ok (n\<lparr>tn_joined := remove1 (p, shop) (tn_joined n), tn_answers := (shop, r) # tn_answers n\<rparr>)"
    using wake.prems by (intro issued_ok_answer) (simp_all add: tokens_ok_def)
  moreover have "set (remove1 (p, shop) (tn_joined n)) \<subseteq> set (tn_requests n)"
    using joined_subset [OF wake.prems] set_remove1_subset [of "(p, shop)" "tn_joined n"] by blast
  ultimately show ?case
    by (intro tokens_ok_frame [OF wake(3)]) simp_all
next
  case (evict n shop)
  then have "issued_ok (n\<lparr>tn_service := invalidate shop (tn_service n)\<rparr>)"
    by (simp add: tokens_ok_def issued_ok_def invalidate_def map_of_delete)
  then show ?case by (rule tokens_ok_frame [OF evict, rotated -1]) (simp_all add: joined_subset [OF evict] invalidate_def)
next
  case (settle p shop n r)
  then show ?case by (intro tokens_ok_settle)
next
  case (resume p shop n r)
  then show ?case by (intro tokens_ok_resume)
qed

definition token_runs :: "int \<Rightarrow> token_net \<Rightarrow> bool" where
  "token_runs buffer n \<longleftrightarrow> (token_step buffer)\<^sup>*\<^sup>* idle_net n"

lemma token_runs_ok: "token_runs buffer n \<Longrightarrow> tokens_ok n"
  unfolding token_runs_def
  by (induction rule: rtranclp_induct) (auto intro: tokens_ok_idle token_step_ok)

text \<open>
  C24: single flight. However calls for tokens overlap, a shop never has two exchanges open at once; a call
  that waits, waits for an exchange of its own shop, whose outcome is there or whose sender still waits for
  it; and every call, also one answered from the cache or by another call's exchange, returns what an
  exchange for its own shop brought.
\<close>

theorem token_single_flight:
  assumes "token_runs buffer n"
  shows "(\<forall>p q shop. open_request n p shop \<and> open_request n q shop \<longrightarrow> p = q)
    \<and> (\<forall>(p, shop)\<in>set (tn_joined n) \<union> set (tn_fetching n). (p, shop) \<in> set (tn_requests n)
         \<and> (map_of (tn_settled n) p \<noteq> None \<or> (p, shop) \<in> set (tn_fetching n)))
    \<and> (\<forall>(shop, r)\<in>set (tn_answers n). issued n shop r)"
proof -
  have ok: "ids_ok n" "flights_ok n" "issued_ok n"
    using token_runs_ok [OF assms] by (simp_all add: tokens_ok_def)
  have "p = q" if "open_request n p shop" "open_request n q shop" for p q shop
    using that by (blast intro: one_flight [OF ok(2)] open_is_fetched [OF ok(2)])
  moreover have "map_of (tn_settled n) p \<noteq> None \<or> (p, shop) \<in> set (tn_fetching n)"
    if "(p, shop) \<in> set (tn_requests n)" for p shop
    using open_is_fetched [OF ok(2), of p shop] that by (auto simp: open_request_def)
  ultimately show ?thesis
    using fetched_is_requested [OF ok(1)] joined_is_requested [OF ok(1)] answer_issued [OF ok(3)] by blast
qed

definition sample_token :: cached_token where
  "sample_token = \<lparr>ct_accessToken = ''shpat_1'', ct_expiresAt = Fin 90000000, ct_scope = []\<rparr>"

text \<open>Two calls for a shop: the first sends, the second joins, the outcome arrives and both return.\<close>

definition sent_net :: token_net where
  "sent_net = idle_net\<lparr>tn_service := open_flight ''s'' empty_tokens, tn_requests := [(0, ''s'')], tn_fetching := [(0, ''s'')]\<rparr>"

definition answered_net :: token_net where
  "answered_net = sent_net\<lparr>tn_service := store_token ''s'' sample_token (close_flight ''s'' (open_flight ''s'' empty_tokens)),
     tn_settled := [(0, Inr sample_token)], tn_fetching := [],
     tn_answers := [(''s'', Inr sample_token), (''s'', Inr sample_token)]\<rparr>"

lemma answered_net_runs: "token_runs 300000 answered_net"
proof -
  let ?joined = "sent_net\<lparr>tn_joined := [(0, ''s'')]\<rparr>"
  let ?settled = "?joined\<lparr>tn_settled := [(0, Inr sample_token)]\<rparr>"
  let ?woken = "?settled\<lparr>tn_joined := [], tn_answers := [(''s'', Inr sample_token)]\<rparr>"
  have "token_step 300000 idle_net sent_net"
    using send [of 300000 0 "''s''" idle_net]
    by (simp add: sent_net_def idle_net_def empty_tokens_def token_miss_def)
  moreover have "token_step 300000 sent_net ?joined"
    using join [of 300000 0 "''s''" sent_net 0]
    by (simp add: sent_net_def idle_net_def empty_tokens_def token_miss_def open_flight_def)
  moreover have "token_step 300000 ?joined ?settled"
    using settle [of 0 "''s''" ?joined 300000 "Inr sample_token"] by (simp add: sent_net_def idle_net_def)
  moreover have "token_step 300000 ?settled ?woken"
    using wake [of 0 "''s''" ?settled "Inr sample_token" 300000] by (simp add: sent_net_def idle_net_def)
  moreover have "token_step 300000 ?woken answered_net"
    using resume [of 0 "''s''" ?woken "Inr sample_token" 300000]
    by (simp add: sent_net_def idle_net_def answered_net_def settle_token_def close_flight_def store_token_def
        open_flight_def empty_tokens_def)
  ultimately show ?thesis unfolding token_runs_def by (meson rtranclp.rtrancl_into_rtrancl rtranclp.rtrancl_refl)
qed

theorem token_single_flight_witness:
  "token_runs 300000 answered_net \<and> length (tn_answers answered_net) = 2 \<and> length (tn_requests answered_net) = 1
    \<and> issued answered_net ''s'' (Inr sample_token)"
  using token_single_flight [OF answered_net_runs] answered_net_runs
  by (simp add: answered_net_def sent_net_def idle_net_def)

end
