(* ===== verification/Adapters.thy ===== *)
theory Adapters
  imports ShopifyTokens
begin

text \<open>
  The in-process caches in front of Azure: \<open>adapters/key-vault-secret-provider.ts\<close> (secrets, for a fixed
  time) and \<open>adapters/pg-pool.ts\<close> (one database token, until a minute before its own expiry), and the
  producer of \<open>adapters/service-bus-queue-producer.ts\<close>. The clients of the Azure SDKs are parameters.
  Both caches, and the Shopify token service, are one interface: they serve the value that arrived last
  under a key, as long as it is valid, and ask again otherwise.
\<close>

section \<open>A cache of values that expire\<close>

text \<open>
  \<open>serve s k now\<close> is what the cache answers at time \<open>now\<close>, \<open>keep k v t s\<close> takes in the value \<open>v\<close> that
  arrived at time \<open>t\<close>, and \<open>valid v t now\<close> says whether such a value may still be served.
\<close>

locale expiring_cache =
  fixes serve :: "'s \<Rightarrow> 'k \<Rightarrow> int \<Rightarrow> 'v option"
    and keep :: "'k \<Rightarrow> 'v \<Rightarrow> int \<Rightarrow> 's \<Rightarrow> 's"
    and valid :: "'v \<Rightarrow> int \<Rightarrow> int \<Rightarrow> bool"
    and start :: 's
  assumes serve_start: "serve start k now = None"
    and serve_keep: "serve (keep k v t s) k' now = (if k' = k then (if valid v t now then Some v else None) else serve s k' now)"
begin

text \<open>The cache after a list of arrivals, the newest first.\<close>

fun after :: "('k \<times> 'v \<times> int) list \<Rightarrow> 's" where
  "after [] = start"
| "after ((k, v, t) # as) = keep k v t (after as)"

lemma serve_after:
  "serve (after as) k now = (case map_of as k of None \<Rightarrow> None | Some (v, t) \<Rightarrow> if valid v t now then Some v else None)"
  by (induction as rule: after.induct) (simp_all add: serve_start serve_keep)

lemma served_arrived:
  "serve (after as) k now = Some v \<Longrightarrow> \<exists>t. (k, v, t) \<in> set as \<and> valid v t now"
  by (auto simp: serve_after split: option.splits if_splits) (metis map_of_SomeD)

lemma served_latest:
  "serve (after as) k now = Some v \<Longrightarrow> \<exists>t. map_of as k = Some (v, t) \<and> valid v t now"
  by (auto simp: serve_after split: option.splits if_splits)

end

section \<open>Secrets\<close>

type_synonym secret_cache = "(string \<times> (string \<times> int)) list"

definition DEFAULT_TTL_MS :: int where
  "DEFAULT_TTL_MS = 300000"

text \<open>What the provider uses of the vault's client and the clock.\<close>

record 'x vault =
  vt_getSecret :: "string \<Rightarrow> ('x, string option) io"
  vt_now :: "('x, int) io"

record 'x vault_world =
  vw_cache :: secret_cache
  vw_out :: 'x

definition vault_out :: "('x, 'a) io \<Rightarrow> ('x vault_world, 'a) io" where
  "vault_out m = (\<lambda>w. case m (vw_out w) of (r, x) \<Rightarrow> (r, w\<lparr>vw_out := x\<rparr>))"

text \<open>\<open>cached && cached.expiresAt > now\<close>\<close>

definition unexpired :: "secret_cache \<Rightarrow> string \<Rightarrow> int \<Rightarrow> string option" where
  "unexpired c ref now = (case map_of c ref of
     None \<Rightarrow> None | Some (v, expiresAt) \<Rightarrow> if expiresAt > now then Some v else None)"

definition remember :: "int \<Rightarrow> string \<Rightarrow> string \<Rightarrow> int \<Rightarrow> secret_cache \<Rightarrow> secret_cache" where
  "remember ttl ref v now c = AList.update ref (v, now + ttl) c"

definition kv_lookup :: "'x vault \<Rightarrow> string \<Rightarrow> ('x vault_world, string option) io" where
  "kv_lookup V ref = bnd (read_st (\<lambda>w. map_of (vw_cache w) ref)) (\<lambda>cached. case cached of
     None \<Rightarrow> ret None
   | Some (v, expiresAt) \<Rightarrow> bnd (vault_out (vt_now V)) (\<lambda>now. ret (if expiresAt > now then Some v else None)))"

definition kv_ask :: "'x vault \<Rightarrow> int \<Rightarrow> string \<Rightarrow> ('x vault_world, string) io" where
  "kv_ask V ttl ref = bnd (vault_out (vt_getSecret V ref)) (\<lambda>result. case result of
     Some (c # cs) \<Rightarrow> bnd (vault_out (vt_now V)) (\<lambda>now.
       bnd (modify_st (\<lambda>w. w\<lparr>vw_cache := remember ttl ref (c # cs) now (vw_cache w)\<rparr>)) (\<lambda>_. ret (c # cs)))
   | _ \<Rightarrow> throw (plain_error (''KeyVaultSecretProvider: secret '' @ quoted ref @ '' has no value'')))"

definition kv_getSecret :: "'x vault \<Rightarrow> int \<Rightarrow> string \<Rightarrow> ('x vault_world, string) io" where
  "kv_getSecret V ttl ref = bnd (kv_lookup V ref) (\<lambda>hit. case hit of Some v \<Rightarrow> ret v | None \<Rightarrow> kv_ask V ttl ref)"

interpretation secrets: expiring_cache unexpired "remember ttl" "\<lambda>v t now. now < t + ttl" "[]" for ttl
  by unfold_locales (auto simp: unexpired_def remember_def map_of_update)

section \<open>The database password\<close>

definition TOKEN_REFRESH_BUFFER_MS :: int where
  "TOKEN_REFRESH_BUFFER_MS = 60000"

record db_token =
  dt_token :: string
  dt_expiresAt :: int

record 'x db_credential =
  dc_getToken :: "('x, db_token option) io"
  dc_now :: "('x, int) io"

record 'x db_world =
  dw_cached :: "db_token option"
  dw_out :: 'x

definition db_out :: "('x, 'a) io \<Rightarrow> ('x db_world, 'a) io" where
  "db_out m = (\<lambda>w. case m (dw_out w) of (r, x) \<Rightarrow> (r, w\<lparr>dw_out := x\<rparr>))"

definition usable_token :: "db_token option \<Rightarrow> unit \<Rightarrow> int \<Rightarrow> db_token option" where
  "usable_token c k now = (case c of
     None \<Rightarrow> None | Some t \<Rightarrow> if dt_expiresAt t - TOKEN_REFRESH_BUFFER_MS > now then Some t else None)"

definition pg_password :: "'x db_credential \<Rightarrow> ('x db_world, string) io" where
  "pg_password C =
     bnd (read_st dw_cached) (\<lambda>cached.
     bnd (case cached of
            None \<Rightarrow> ret None
          | Some t \<Rightarrow> bnd (db_out (dc_now C)) (\<lambda>now. ret (usable_token (Some t) () now))) (\<lambda>hit.
     case hit of
       Some t \<Rightarrow> ret (dt_token t)
     | None \<Rightarrow> bnd (db_out (dc_getToken C)) (\<lambda>result. case result of
         None \<Rightarrow> throw (plain_error ''pg-pool: credential returned no token for Postgres'')
       | Some t \<Rightarrow> bnd (modify_st (\<lambda>w. w\<lparr>dw_cached := Some t\<rparr>)) (\<lambda>_. ret (dt_token t)))))"

interpretation db_tokens: expiring_cache usable_token "\<lambda>k t now c. Some t"
    "\<lambda>t arrived now. now < dt_expiresAt t - TOKEN_REFRESH_BUFFER_MS" None
  by unfold_locales (auto simp: usable_token_def)

text \<open>The pool's configuration, with the defaults of \<open>buildPgPool\<close>.\<close>

record pg_pool_config =
  pp_host :: string
  pp_port :: "int option"
  pp_database :: string
  pp_user :: string
  pp_maxConnections :: "int option"

record pool_settings =
  ps_host :: string
  ps_port :: int
  ps_database :: string
  ps_user :: string
  ps_max :: int
  ps_rejectUnauthorized :: bool

definition buildPgPool :: "pg_pool_config \<Rightarrow> pool_settings" where
  "buildPgPool c = \<lparr>ps_host = pp_host c, ps_port = (case pp_port c of None \<Rightarrow> 5432 | Some p \<Rightarrow> p),
     ps_database = pp_database c, ps_user = pp_user c,
     ps_max = (case pp_maxConnections c of None \<Rightarrow> 4 | Some m \<Rightarrow> m), ps_rejectUnauthorized = True\<rparr>"

section \<open>Shopify's tokens\<close>

definition served_token :: "int \<Rightarrow> token_service \<Rightarrow> string \<Rightarrow> int \<Rightarrow> cached_token option" where
  "served_token buffer s shop now = (case map_of (ts_cache s) shop of
     None \<Rightarrow> None | Some t \<Rightarrow> if fresh_token buffer now t then Some t else None)"

interpretation shop_tokens: expiring_cache "served_token buffer" "\<lambda>shop t now. store_token shop t"
    "\<lambda>t arrived now. fresh_token buffer now t" empty_tokens for buffer
  by unfold_locales (auto simp: served_token_def store_token_def empty_tokens_def map_of_update)

section \<open>The producer\<close>

record bus_message =
  bm_body :: jsval
  bm_sessionId :: "string option"
  bm_contentType :: string

definition bus_message_of :: "string option \<Rightarrow> jsval \<Rightarrow> bus_message" where
  "bus_message_of session body = \<lparr>bm_body = body, bm_sessionId = session, bm_contentType = ''application/json''\<rparr>"

definition bus_enqueue :: "(bus_message \<Rightarrow> ('x, unit) io) \<Rightarrow> string option \<Rightarrow> jsval \<Rightarrow> ('x, unit) io" where
  "bus_enqueue sendMessages session body = sendMessages (bus_message_of session body)"

section \<open>How old a secret can be\<close>

text \<open>
  What is assumed of the vault and the clock. The clock never fails and never goes back; the vault's answer
  is what it holds under the name at some time of the call, and it is stored at most \<open>L\<close> milliseconds
  after that time.
\<close>

definition vault_clock :: "'x vault \<Rightarrow> ('x \<Rightarrow> int) \<Rightarrow> bool" where
  "vault_clock V time \<longleftrightarrow> (\<forall>x. \<exists>x'. vt_now V x = (Inr (time x'), x') \<and> time x \<le> time x')"

definition answers_held :: "'x vault \<Rightarrow> ('x \<Rightarrow> int) \<Rightarrow> (int \<Rightarrow> string \<Rightarrow> string option) \<Rightarrow> int \<Rightarrow> bool" where
  "answers_held V time held L \<longleftrightarrow> (\<forall>x ref a y. vt_getSecret V ref x = (Inr a, y) \<longrightarrow>
     (\<exists>t. time x \<le> t \<and> a = held t ref \<and> (\<forall>now z. vt_now V y = (Inr now, z) \<longrightarrow> now \<le> t + L)))"

lemma wp_vault_out [wp_simps]:
  "wp (vault_out m) Q E w = wp m (\<lambda>a x. Q a (w\<lparr>vw_out := x\<rparr>)) (\<lambda>e x. E e (w\<lparr>vw_out := x\<rparr>)) (vw_out w)"
  by (simp add: wp_def vault_out_def split: prod.splits sum.splits)

lemma wp_vault_now:
  assumes "vault_clock V time" and "\<And>x'. vt_now V x = (Inr (time x'), x') \<Longrightarrow> time x \<le> time x' \<Longrightarrow> Q (time x') x'"
  shows "wp (vt_now V) Q E x"
proof -
  obtain x' where "vt_now V x = (Inr (time x'), x')" "time x \<le> time x'"
    using assms(1) by (auto simp: vault_clock_def)
  then show ?thesis using assms(2) by (simp add: wp_def)
qed

lemma lookup_unexpired:
  assumes "vault_clock V time"
  shows "wp (kv_lookup V ref) (\<lambda>hit w'. vw_cache w' = vw_cache w \<and> time (vw_out w) \<le> time (vw_out w')
      \<and> (\<forall>v. hit = Some v \<longrightarrow> unexpired (vw_cache w) ref (time (vw_out w')) = Some v)) (\<lambda>_ _. False) w"
  by (auto simp: kv_lookup_def wp_simps unexpired_def split: option.splits intro!: wp_vault_now [OF assms])

lemma ask_stores_held:
  assumes "vault_clock V time" and "answers_held V time held L"
  shows "wp (kv_ask V ttl ref) (\<lambda>v w'. \<exists>t s. time (vw_out w) \<le> t \<and> held t ref = Some v \<and> s \<le> t + L
      \<and> vw_cache w' = remember ttl ref v s (vw_cache w)) (\<lambda>_ w'. vw_cache w' = vw_cache w) w"
proof -
  have "wp (vt_getSecret V ref) (\<lambda>a y. \<exists>t. time (vw_out w) \<le> t \<and> a = held t ref
      \<and> (\<forall>now z. vt_now V y = (Inr now, z) \<longrightarrow> now \<le> t + L)) (\<lambda>_ _. True) (vw_out w)"
    using assms(2) by (auto simp: answers_held_def intro!: wpI)
  then show ?thesis unfolding kv_ask_def wp_simps
    by (rule wp_mono) (auto simp: wp_simps split: option.splits list.splits intro!: wp_vault_now [OF assms(1)])
qed

text \<open>The cache holds only values that the vault held shortly before they were stored.\<close>

definition cache_honest :: "(int \<Rightarrow> string \<Rightarrow> string option) \<Rightarrow> int \<Rightarrow> int \<Rightarrow> secret_cache \<Rightarrow> bool" where
  "cache_honest held L ttl c \<longleftrightarrow> (\<exists>as. c = secrets.after ttl as
     \<and> (\<forall>(ref, v, s) \<in> set as. \<exists>t. held t ref = Some v \<and> s \<le> t + L))"

lemma cache_honest_empty: "cache_honest held L ttl []"
  unfolding cache_honest_def by (rule exI [of _ "[]"]) simp

lemma cache_honest_remember:
  "cache_honest held L ttl c \<Longrightarrow> held t ref = Some v \<Longrightarrow> s \<le> t + L \<Longrightarrow> cache_honest held L ttl (remember ttl ref v s c)"
  unfolding cache_honest_def
  by (elim exE conjE, rule_tac x = "(ref, v, s) # as" in exI) auto

lemma cache_honest_age:
  "cache_honest held L ttl c \<Longrightarrow> unexpired c ref now = Some v \<Longrightarrow> \<exists>t. held t ref = Some v \<and> now < t + L + ttl"
  unfolding cache_honest_def by (force dest!: secrets.served_arrived)

lemma getSecret_honest:
  assumes "vault_clock V time" and "answers_held V time held L" and "cache_honest held L ttl (vw_cache w)"
  shows "wp (kv_getSecret V ttl ref)
    (\<lambda>v w'. cache_honest held L ttl (vw_cache w') \<and> (\<exists>t. held t ref = Some v \<and> time (vw_out w) < t + L + ttl \<or>
        held t ref = Some v \<and> time (vw_out w) \<le> t))
    (\<lambda>_ w'. cache_honest held L ttl (vw_cache w')) w"
  unfolding kv_getSecret_def wp_bnd
proof (rule wp_mono [OF lookup_unexpired [OF assms(1)]])
  fix hit and w1 :: "'a vault_world"
  assume l: "vw_cache w1 = vw_cache w \<and> time (vw_out w) \<le> time (vw_out w1)
      \<and> (\<forall>v. hit = Some v \<longrightarrow> unexpired (vw_cache w) ref (time (vw_out w1)) = Some v)"
  show "wp (case hit of Some v \<Rightarrow> ret v | None \<Rightarrow> kv_ask V ttl ref)
      (\<lambda>v w'. cache_honest held L ttl (vw_cache w') \<and> (\<exists>t. held t ref = Some v \<and> time (vw_out w) < t + L + ttl \<or>
          held t ref = Some v \<and> time (vw_out w) \<le> t))
      (\<lambda>_ w'. cache_honest held L ttl (vw_cache w')) w1"
  proof (cases hit)
    case None
    then show ?thesis using l assms(3)
      by (auto intro!: wp_mono [OF ask_stores_held [OF assms(1,2)]] cache_honest_remember)
  next
    case (Some v)
    with l obtain t where "held t ref = Some v" "time (vw_out w1) < t + L + ttl"
      using cache_honest_age [OF assms(3)] by blast
    with l Some assms(3) show ?thesis by (auto simp: wp_simps intro!: exI [of _ t])
  qed
qed simp

inductive secret_runs :: "'x vault \<Rightarrow> ('x \<Rightarrow> int) \<Rightarrow> int \<Rightarrow> 'x vault_world \<Rightarrow> bool" for V time ttl where
  new_provider: "secret_runs V time ttl \<lparr>vw_cache = [], vw_out = x\<rparr>"
| secret_asked: "secret_runs V time ttl w \<Longrightarrow> kv_getSecret V ttl ref w = (r, w') \<Longrightarrow> secret_runs V time ttl w'"
| time_passes: "secret_runs V time ttl w \<Longrightarrow> time (vw_out w) \<le> time x \<Longrightarrow> secret_runs V time ttl (w\<lparr>vw_out := x\<rparr>)"

lemma runs_honest:
  assumes "vault_clock V time" and "answers_held V time held L" and "secret_runs V time ttl w"
  shows "cache_honest held L ttl (vw_cache w)"
  using assms(3)
proof (induction rule: secret_runs.induct)
  case (secret_asked w ref r w')
  show ?case using getSecret_honest [OF assms(1,2) secret_asked.IH, of ref] secret_asked.hyps(2)
    by (cases r) (auto simp: wp_def)
qed (simp_all add: cache_honest_empty)

text \<open>
  C27: a rotated secret is in use after the cache's lifetime. If the vault has held the value \<open>v\<close> under a
  name since the time \<open>t0\<close>, then in every state the provider can be in, a call that starts at least the
  lifetime plus the vault's latency after \<open>t0\<close> and returns, returns \<open>v\<close>, whatever was cached.
\<close>

theorem secret_rotation:
  assumes "vault_clock V time" and "answers_held V time held L" and "0 \<le> L" and "0 \<le> ttl"
    and "secret_runs V time ttl w" and "\<And>t. t0 \<le> t \<Longrightarrow> held t ref = Some v"
    and "t0 + L + ttl \<le> time (vw_out w)" and "kv_getSecret V ttl ref w = (Inr u, w')"
  shows "u = v"
proof -
  obtain t where "held t ref = Some u" "time (vw_out w) < t + L + ttl \<or> time (vw_out w) \<le> t"
    using wp_Inr [OF getSecret_honest [OF assms(1,2) runs_honest [OF assms(1,2,5)]] assms(8)] by blast
  moreover from this(2) have "t0 \<le> t" using assms(3,4,7) by linarith
  ultimately show ?thesis using assms(6) by fastforce
qed

text \<open>A vault whose secret \<open>shop-token\<close> was rotated at time 1000, asked at time 0 and again at time 400000.\<close>

definition rotated :: "int \<Rightarrow> string \<Rightarrow> string option" where
  "rotated t ref = (if ref = ''shop-token'' then Some (if t < 1000 then ''old'' else ''new'') else None)"

definition slow_vault :: "int vault" where
  "slow_vault = \<lparr>vt_getSecret = \<lambda>ref t. (Inr (rotated t ref), t + 50), vt_now = \<lambda>t. (Inr t, t)\<rparr>"

lemma secret_rotation_witness:
  "kv_getSecret slow_vault DEFAULT_TTL_MS ''shop-token''
     (snd (kv_getSecret slow_vault DEFAULT_TTL_MS ''shop-token'' \<lparr>vw_cache = [], vw_out = 0\<rparr>)\<lparr>vw_out := 400000\<rparr>)
   = (Inr ''new'', \<lparr>vw_cache = [(''shop-token'', ''new'', 700050)], vw_out = 400050\<rparr>)"
proof -
  let ?w = "snd (kv_getSecret slow_vault DEFAULT_TTL_MS ''shop-token'' \<lparr>vw_cache = [], vw_out = 0\<rparr>)\<lparr>vw_out := 400000\<rparr>"
  have eval: "kv_getSecret slow_vault DEFAULT_TTL_MS ''shop-token'' ?w
      = (Inr ''new'', \<lparr>vw_cache = [(''shop-token'', ''new'', 700050)], vw_out = 400050\<rparr>)"
    by code_simp
  have honest: "vault_clock slow_vault id" "answers_held slow_vault id rotated 50"
    by (auto simp: vault_clock_def answers_held_def slow_vault_def)
  have runs: "secret_runs slow_vault id DEFAULT_TTL_MS ?w"
  proof (rule time_passes)
    show "secret_runs slow_vault id DEFAULT_TTL_MS
        (snd (kv_getSecret slow_vault DEFAULT_TTL_MS ''shop-token'' \<lparr>vw_cache = [], vw_out = 0\<rparr>))"
      by (rule secret_asked [OF new_provider prod.collapse [symmetric]])
    show "id (vw_out (snd (kv_getSecret slow_vault DEFAULT_TTL_MS ''shop-token'' \<lparr>vw_cache = [], vw_out = 0\<rparr>))) \<le> id 400000"
      by code_simp
  qed
  have "''new'' = ''new''"
    by (rule secret_rotation [OF honest _ _ runs _ _ eval, where ?t0.0 = 1000])
      (simp_all add: rotated_def DEFAULT_TTL_MS_def)
  with eval show ?thesis by blast
qed

section \<open>How fresh a database password is\<close>

lemma wp_db_out [wp_simps]:
  "wp (db_out m) Q E w = wp m (\<lambda>a x. Q a (w\<lparr>dw_out := x\<rparr>)) (\<lambda>e x. E e (w\<lparr>dw_out := x\<rparr>)) (dw_out w)"
  by (simp add: wp_def db_out_def split: prod.splits sum.splits)

text \<open>
  A password is the token just issued, or the one issued last, and then it is valid for more than a minute
  on the clock that was read.
\<close>

lemma pg_password_fresh:
  assumes "pg_password C w = (Inr p, w')"
  shows "(\<exists>x y t. dc_getToken C x = (Inr (Some t), y) \<and> p = dt_token t \<and> dw_cached w' = Some t)
    \<or> (\<exists>t now. dc_now C (dw_out w) = (Inr now, dw_out w') \<and> dw_cached w = Some t \<and> dw_cached w' = Some t
         \<and> p = dt_token t \<and> now + TOKEN_REFRESH_BUFFER_MS < dt_expiresAt t)"
  using assms
  by (auto simp: pg_password_def bnd_app db_out_def usable_token_def split: prod.splits sum.splits option.splits if_splits)
    (metis surj_pair)+

end
