(* ===== verification/Wiring.thy ===== *)
theory Wiring
  imports Bootstrap Governor Adapters Replay
begin

text \<open>
  How the function app is put together: \<open>apps/functions/src/bootstrap.ts\<close> reads the environment variables
  into one context per process, \<open>index.ts\<close> refuses to register the order handler's dependencies without a
  database, \<open>telemetry.ts\<close> chooses where reports go, and \<open>triggers/ns-diagnostic.ts\<close> probes the NetSuite
  gateway that was chosen. The constructors of the Azure clients are taken to succeed.
\<close>

section \<open>Environment variables\<close>

type_synonym env_vars = "(string \<times> string) list"

definition requireEnv :: "env_vars \<Rightarrow> string \<Rightarrow> js_error + string" where
  "requireEnv env key = (case map_of env key of
     Some (c # cs) \<Rightarrow> Inr (c # cs)
   | _ \<Rightarrow> Inl (plain_error (''bootstrap: required env var '' @ quoted key @ '' is not set'')))"

text \<open>\<open>process.env[key] ?? d\<close>: an empty value is a value.\<close>

definition env_or :: "env_vars \<Rightarrow> string \<Rightarrow> string \<Rightarrow> string" where
  "env_or env key d = (case map_of env key of None \<Rightarrow> d | Some v \<Rightarrow> v)"

text \<open>The text of the engine's syntax error is a parameter.\<close>

definition parseConnectionsConfig :: "(string \<Rightarrow> js_error) \<Rightarrow> string \<Rightarrow> js_error + connection list" where
  "parseConnectionsConfig syntaxError raw = (case json_parse raw of
     None \<Rightarrow> Inl (plain_error (''parseConnectionsConfig: input is not valid JSON: '' @ err_message (syntaxError raw)))
   | Some v \<Rightarrow> parseConnectionsValue v)"

section \<open>The context\<close>

text \<open>
  \<open>ac_ns\<close> is the choice of the NetSuite gateway: \<open>None\<close> is the in-memory one. The stores of \<open>AppContext\<close> that
  live in Postgres are there exactly when the pool is.
\<close>

record app_context =
  ac_environment :: environment
  ac_connections :: connections_repo
  ac_vaultUri :: string
  ac_envelopes :: "string \<times> string"
  ac_queue :: "string \<times> string"
  ac_ns :: "(string \<times> ns_account) list option"
  ac_guest :: string
  ac_pgPool :: "pool_settings option"
  ac_payloads :: "string \<times> string"
  ac_blobAccountUrl :: string

text \<open>\<open>if (pgHost && pgDatabase && pgUser)\<close>\<close>

definition pool_of :: "env_vars \<Rightarrow> pool_settings option" where
  "pool_of env = (case (env_or env ''POSTGRES_HOST'' [], env_or env ''POSTGRES_DATABASE'' [],
       env_or env ''POSTGRES_MI_USER'' (env_or env ''WEBSITE_SITE_NAME'' [])) of
     (h # host, d # db, u # user) \<Rightarrow> Some (buildPgPool \<lparr>pp_host = h # host, pp_port = None, pp_database = d # db,
       pp_user = u # user, pp_maxConnections = None\<rparr>)
   | _ \<Rightarrow> None)"

definition buildAppContext :: "(string \<Rightarrow> js_error) \<Rightarrow> env_vars \<Rightarrow> ('w, app_context) io" where
  "buildAppContext syntaxError env =
     bnd (lift_sum (requireEnv env ''DPI_ENVIRONMENT'')) (\<lambda>environment.
     bnd (if isEnvironment (JStr environment) then ret ()
          else throw (plain_error (''DPI_ENVIRONMENT='' @ quoted environment @ '' invalid; expected one of dev|sandbox|prod''))) (\<lambda>_.
     bnd (lift_sum (requireEnv env ''KEY_VAULT_URI'')) (\<lambda>vaultUri.
     bnd (lift_sum (requireEnv env ''SERVICE_BUS_NAMESPACE'')) (\<lambda>namespace.
     bnd (lift_sum (requireEnv env ''BLOB_ACCOUNT_URL'')) (\<lambda>blobAccountUrl.
     bnd (lift_sum (requireEnv env ''DPI_CONNECTIONS_JSON'')) (\<lambda>connectionsJson.
     bnd (lift_sum (parseConnectionsConfig syntaxError connectionsJson)) (\<lambda>parsed.
     bnd (lift_sum (new_connections_repo parsed)) (\<lambda>repo.
       ret \<lparr>ac_environment = environment, ac_connections = repo, ac_vaultUri = vaultUri,
         ac_envelopes = (blobAccountUrl, env_or env ''INBOUND_BLOB_CONTAINER'' ''inbound-webhooks''),
         ac_queue = (namespace, env_or env ''SERVICE_BUS_TOPIC'' ''orders-in''),
         ac_ns = buildNetSuiteGateway parsed, ac_guest = env_or env ''GUEST_CUSTOMER_NS_ID'' ''1'',
         ac_pgPool = pool_of env,
         ac_payloads = (blobAccountUrl, env_or env ''DPI_OUTBOUND_PAYLOAD_CONTAINER'' ''outbound-netsuite''),
         ac_blobAccountUrl = blobAccountUrl\<rparr>))))))))"

text \<open>One context per process, built on the first call that succeeds.\<close>

definition getAppContext :: "(string \<Rightarrow> js_error) \<Rightarrow> env_vars \<Rightarrow> (app_context option, app_context) io" where
  "getAppContext syntaxError env = bnd (read_st id) (\<lambda>cached. case cached of
     Some a \<Rightarrow> ret a
   | None \<Rightarrow> bnd (buildAppContext syntaxError env) (\<lambda>a. bnd (modify_st (\<lambda>_. Some a)) (\<lambda>_. ret a)))"

definition resetAppContextForTests :: "(app_context option, unit) io" where
  "resetAppContextForTests = modify_st (\<lambda>_. None)"

text \<open>The ceiling of the governor in front of the SDK gateway.\<close>

definition boot_governor :: "governor_config \<times> (js_error + shared_governor)" where
  "boot_governor = (let config = \<lparr>perAccountCeiling = 10, pollIntervalMs = None, acquireTimeoutMs = None\<rparr>
     in (config, new_shared_governor (perAccountCeiling config)))"

section \<open>The registration of the order handler\<close>

definition order_registration :: "(app_context \<Rightarrow> 'd) \<Rightarrow> app_context \<Rightarrow> js_error + 'd" where
  "order_registration deps a = (case ac_pgPool a of
     None \<Rightarrow> Inl (plain_error (''order-import handler invoked but bootstrap has no XrefStore '' @ em_dash
       @ '' POSTGRES_HOST / POSTGRES_DATABASE / POSTGRES_MI_USER (or WEBSITE_SITE_NAME) not set''))
   | Some _ \<Rightarrow> Inr (deps a))"

text \<open>The configuration of the wired system for a context without a real NetSuite account; a container's URL
  is its account's with its name.\<close>

definition boot_cfg :: "cfg \<Rightarrow> app_context \<Rightarrow> cfg" where
  "boot_cfg around a = around\<lparr>cf_environment := ac_environment a, cf_repo := ac_connections a,
     cf_guest := ac_guest a, cf_container := fst (ac_payloads a) @ ''/'' @ snd (ac_payloads a)\<rparr>"

section \<open>Where reports go\<close>

definition getTelemetry :: "env_vars \<Rightarrow> (telemetry_report \<Rightarrow> insight list) option
    \<Rightarrow> (telemetry_report \<Rightarrow> insight list) \<times> (telemetry_report \<Rightarrow> insight list) option" where
  "getTelemetry env cached = (case cached of
     Some t \<Rightarrow> (t, cached)
   | None \<Rightarrow> (let t = (if env_or env ''APPLICATIONINSIGHTS_CONNECTION_STRING'' [] \<noteq> [] then app_insights else (\<lambda>_. []))
       in (t, Some t)))"

section \<open>The diagnostic endpoint\<close>

text \<open>The name of an error of the SDK is its class's, which the SDK chooses.\<close>

record 'w diagnostic_deps =
  dd_ns :: "'w ns_ops"
  dd_nsAccountId :: string
  dd_nsSubsidiary :: string
  dd_now :: "('w, int) io"
  dd_nameOf :: "ns_error \<Rightarrow> string"

text \<open>
  \<open>errMsg\<close>. \<open>JSON.stringify(e.details)\<close> is \<open>undefined\<close> where an error has no details, and \<open>slice\<close> on it throws.
\<close>

definition slice_error :: js_error where
  "slice_error = type_error (''Cannot read properties of undefined (reading '' @ quoted ''slice'' @ '')'')"

definition errMsg :: "(ns_error \<Rightarrow> string) \<Rightarrow> js_error \<Rightarrow> js_error + string" where
  "errMsg nameOf err = (case err of
     NetSuiteError e \<Rightarrow>
       (if nse_details e = JUndef then Inl slice_error
        else Inr (nameOf e @ '' status='' @ (case nse_status e of None \<Rightarrow> ''?'' | Some s \<Rightarrow> show_int s)
          @ '' code='' @ (case nse_code e of None \<Rightarrow> ''?'' | Some c \<Rightarrow> c) @ '' message='' @ nse_message e
          @ '' details='' @ json_slice 400 (nse_details e)))
   | _ \<Rightarrow> Inl slice_error)"

definition probe :: "string \<Rightarrow> bool \<Rightarrow> string \<Rightarrow> jsval" where
  "probe nm ok detail = JObj [(''name'', JStr nm), (''ok'', JBool ok), (''detail'', JStr detail)]"

definition read_probe_name :: string where
  "read_probe_name = ''read (findByExternalId customer)''"

definition write_probe_name :: string where
  "write_probe_name = ''write (upsertByExternalId customer)''"

text \<open>\<open>try { \<dots> } catch (err) { probes.push({ \<dots>, ok: false, detail: errMsg(err) }) }\<close>\<close>

definition probed :: "'w diagnostic_deps \<Rightarrow> string \<Rightarrow> ('w, string) io \<Rightarrow> ('w, jsval) io" where
  "probed D nm m = try_catch (bnd m (\<lambda>detail. ret (probe nm True detail)))
     (\<lambda>err. bnd (lift_sum (errMsg (dd_nameOf D) err)) (\<lambda>detail. ret (probe nm False detail)))"

definition diag_customer :: "'w diagnostic_deps \<Rightarrow> jsobj" where
  "diag_customer D = [(''isperson'', JBool True), (''firstname'', JStr ''Diag''), (''lastname'', JStr ''Probe''),
     (''email'', JStr ''diagnostic-probe@example.com''), (''phone'', JStr ''+15555550100''),
     (''subsidiary'', JStr (dd_nsSubsidiary D))]"

definition read_probe :: "'w diagnostic_deps \<Rightarrow> ('w, jsval) io" where
  "read_probe D = probed D read_probe_name (bnd (dd_now D) (\<lambda>now.
     bnd (no_find (dd_ns D) (dd_nsAccountId D) ''customer'' (''definitely-does-not-exist-'' @ show_int now) None) (\<lambda>r.
       ret (if r = None then ''no row (expected)'' else ''row returned''))))"

definition write_probe :: "'w diagnostic_deps \<Rightarrow> ('w, jsval) io" where
  "write_probe D = bnd (dd_now D) (\<lambda>now. probed D write_probe_name
     (bnd (no_upsert (dd_ns D) (dd_nsAccountId D) ''customer'' (''diag-'' @ show_int now) (diag_customer D)) (\<lambda>r.
       ret (''internalId='' @ ur_internalId r @ '' created='' @ show_bool (ur_created r)))))"

definition nsDiagnostic :: "'w diagnostic_deps \<Rightarrow> ('w, http_response) io" where
  "nsDiagnostic D = bnd (dd_now D) (\<lambda>nodeNow.
     let clock = probe ''clock'' True (''node now='' @ toISOString nodeNow @ '' (Az host time; NS expects <5 min drift)'')
     in bnd (read_probe D) (\<lambda>read_result. bnd (write_probe D) (\<lambda>write_result.
       ret \<lparr>hr_status = 200, hr_jsonBody = [(''accountId'', JStr (dd_nsAccountId D)),
         (''subsidiary'', JStr (dd_nsSubsidiary D)), (''probes'', JArr [clock, read_result, write_result])]\<rparr>)))"

text \<open>\<open>registerNsDiagnostic\<close>: the account and the subsidiary are constants.\<close>

definition diagnostic_registration :: "'w ns_ops \<Rightarrow> ('w, int) io \<Rightarrow> (ns_error \<Rightarrow> string) \<Rightarrow> 'w diagnostic_deps" where
  "diagnostic_registration ns now nameOf = \<lparr>dd_ns = ns, dd_nsAccountId = ''11541804_SB1'', dd_nsSubsidiary = ''1'',
     dd_now = now, dd_nameOf = nameOf\<rparr>"

section \<open>What the context says\<close>

lemma added_connections:
  assumes "add_connections cs byShop byId = Inr (byShop', byId')"
  shows "(\<forall>k v. map_of byShop k = Some v \<longrightarrow> map_of byShop' k = Some v)
    \<and> (\<forall>k v. map_of byId k = Some v \<longrightarrow> map_of byId' k = Some v)
    \<and> (\<forall>c \<in> set cs. map_of byShop' (shopKeyFor (cn_environment c) (shopifyStore c)) = Some c
         \<and> map_of byId' (idKeyFor (cn_environment c) (connectionId c)) = Some c)"
  using assms
proof (induction cs byShop byId rule: add_connections.induct)
  case (2 c cs byShop byId)
  let ?s = "shopKeyFor (cn_environment c) (shopifyStore c)" and ?i = "idKeyFor (cn_environment c) (connectionId c)"
  from 2(2) have new: "map_of byShop ?s = None" "map_of byId ?i = None"
    and rest: "add_connections cs (AList.update ?s c byShop) (AList.update ?i c byId) = Inr (byShop', byId')"
    by (auto simp: Let_def split: if_splits)
  have ih: "(\<forall>k v. map_of (AList.update ?s c byShop) k = Some v \<longrightarrow> map_of byShop' k = Some v)
    \<and> (\<forall>k v. map_of (AList.update ?i c byId) k = Some v \<longrightarrow> map_of byId' k = Some v)
    \<and> (\<forall>c \<in> set cs. map_of byShop' (shopKeyFor (cn_environment c) (shopifyStore c)) = Some c
         \<and> map_of byId' (idKeyFor (cn_environment c) (connectionId c)) = Some c)"
    using new rest by (intro 2(1)) auto
  show ?case using ih new
    by (auto simp: map_of_update split: if_splits) (metis option.distinct(1))+
qed simp

lemma connections_found:
  assumes "new_connections_repo conns = Inr r" and "c \<in> set conns"
  shows "findById r (cn_environment c) (connectionId c) = Some c"
    and "findByShopDomain r (cn_environment c) (shopifyStore c) = Some c"
  using assms added_connections [of conns "[]" "[]"]
  by (auto simp: new_connections_repo_def findById_def findByShopDomain_def split: sum.splits)

lemma requireEnv_Inr: "requireEnv env key = Inr v \<longleftrightarrow> map_of env key = Some v \<and> v \<noteq> []"
  by (auto simp: requireEnv_def split: option.splits list.splits)

lemma buildAppContext_state: "snd (buildAppContext syntaxError env w) = w"
  by (simp add: buildAppContext_def bnd_app lift_sum_def split: sum.splits)

text \<open>
  The context is what the environment says, once. When the first call of \<open>getAppContext\<close> returns, the
  environment's name is one of the three, each connection of \<open>DPI_CONNECTIONS_JSON\<close> is found under its own
  id and its own shop, the stores are wired exactly when the three database variables are not empty, and
  every later call returns the same context, whatever has become of the variables.
\<close>

theorem context_from_environment:
  assumes "getAppContext syntaxError env None = (Inr a, cached)"
  shows "isEnvironment (JStr (ac_environment a)) \<and> map_of env ''DPI_ENVIRONMENT'' = Some (ac_environment a)
    \<and> (\<exists>raw conns. map_of env ''DPI_CONNECTIONS_JSON'' = Some raw \<and> parseConnectionsConfig syntaxError raw = Inr conns
        \<and> ac_ns a = buildNetSuiteGateway conns
        \<and> (\<forall>c \<in> set conns. findById (ac_connections a) (cn_environment c) (connectionId c) = Some c
            \<and> findByShopDomain (ac_connections a) (cn_environment c) (shopifyStore c) = Some c))
    \<and> (ac_pgPool a \<noteq> None \<longleftrightarrow> env_or env ''POSTGRES_HOST'' [] \<noteq> [] \<and> env_or env ''POSTGRES_DATABASE'' [] \<noteq> []
        \<and> env_or env ''POSTGRES_MI_USER'' (env_or env ''WEBSITE_SITE_NAME'' []) \<noteq> [])
    \<and> getAppContext syntaxError env' cached = (Inr a, cached)"
proof -
  obtain raw conns where built: "isEnvironment (JStr (ac_environment a))" "map_of env ''DPI_ENVIRONMENT'' = Some (ac_environment a)"
      "map_of env ''DPI_CONNECTIONS_JSON'' = Some raw" "parseConnectionsConfig syntaxError raw = Inr conns"
      "new_connections_repo conns = Inr (ac_connections a)" "ac_ns a = buildNetSuiteGateway conns" "ac_pgPool a = pool_of env"
      and kept: "cached = Some a"
    using assms
    by (auto simp: getAppContext_def buildAppContext_def bnd_app requireEnv_Inr split: prod.splits sum.splits if_splits)
  have "pool_of env \<noteq> None \<longleftrightarrow> env_or env ''POSTGRES_HOST'' [] \<noteq> [] \<and> env_or env ''POSTGRES_DATABASE'' [] \<noteq> []
      \<and> env_or env ''POSTGRES_MI_USER'' (env_or env ''WEBSITE_SITE_NAME'' []) \<noteq> []"
    by (auto simp: pool_of_def split: list.splits)
  moreover have "getAppContext syntaxError env' cached = (Inr a, cached)"
    by (simp add: getAppContext_def kept bnd_app)
  ultimately show ?thesis using built connections_found [OF built(5)] by auto
qed

section \<open>A placeholder account beside a real one\<close>

lemma realAccountIds_iff: "x \<in> set (realAccountIds conns) \<longleftrightarrow> x \<noteq> [] \<and> x \<noteq> ''pending'' \<and> x \<in> nsAccountId ` set conns"
  by (auto simp: realAccountIds_def)

lemma gateway_accounts:
  assumes "d \<in> set conns" and "nsAccountId d \<noteq> []" and "nsAccountId d \<noteq> ''pending''"
  obtains accounts where "buildNetSuiteGateway conns = Some accounts"
    and "\<And>a. map_of accounts a = (if a \<in> set (realAccountIds conns) then Some (account_config a) else None)"
proof -
  have "nsAccountId d \<in> set (realAccountIds conns)" using assms by (auto simp: realAccountIds_iff)
  then obtain b bs where ids: "realAccountIds conns = b # bs" by (cases "realAccountIds conns") auto
  have pairs: "map_of (map (\<lambda>a. (a, f a)) xs) a = (if a \<in> set xs then Some (f a) else None)" for f :: "string \<Rightarrow> ns_account" and xs a
    by (induction xs) auto
  show thesis
    by (rule that [of "map (\<lambda>a. (a, account_config a)) (realAccountIds conns)"])
      (simp_all add: buildNetSuiteGateway_def ids pairs)
qed

definition unknown_account :: js_error where
  "unknown_account = plain_error (''SdkNetSuiteGateway: unknown NS account '' @ quoted ''pending'')"

text \<open>
  A placeholder account beside a real one stops its connection. When some connection names a real
  account and another one is \<open>pending\<close>, the SDK gateway is chosen for all of them, and every upsert and every
  lookup by external id for the placeholder fails without a request; the failure is classed as unknown, so
  the order is parked and not retried. The in-memory gateway is chosen only when no account is real.
\<close>

theorem pending_beside_real_fails:
  assumes "d \<in> set conns" and "nsAccountId d \<noteq> []" and "nsAccountId d \<noteq> ''pending''"
    and "c \<in> set conns" and "nsAccountId c = ''pending''"
  shows "\<exists>accounts. buildNetSuiteGateway conns = Some accounts
    \<and> no_upsert (sdk_ns_ops S accounts) (nsAccountId c) rt ext payload w = (Inl unknown_account, w)
    \<and> no_find (sdk_ns_ops S accounts) (nsAccountId c) rt ext cols w = (Inl unknown_account, w)
    \<and> classifyHandlerError unknown_account = Unknown \<and> \<not> shouldRetry (classifyHandlerError unknown_account)"
proof -
  obtain accounts where chosen: "buildNetSuiteGateway conns = Some accounts"
    and known: "\<And>a. map_of accounts a = (if a \<in> set (realAccountIds conns) then Some (account_config a) else None)"
    using gateway_accounts [OF assms(1-3)] by blast
  have "resolveAccount accounts (nsAccountId c) = Inl unknown_account"
    by (simp add: resolveAccount_def known realAccountIds_iff assms(5) unknown_account_def)
  moreover have "classifyHandlerError unknown_account = Unknown" by code_simp
  ultimately show ?thesis
    by (auto simp: chosen sdk_ns_ops_def sdk_upsert_def sdk_findByExternalId_def bnd_app shouldRetry_def)
qed

section \<open>What the diagnostic can say\<close>

lemma errMsg_plain: "(\<And>e. err \<noteq> NetSuiteError e) \<Longrightarrow> errMsg nameOf err = Inl slice_error"
  by (cases err) (auto simp: errMsg_def)

lemma wp_outside [wp_simps]:
  "wp (outside m) Q E w = wp m (\<lambda>a x. Q a (w\<lparr>sw_out := x\<rparr>)) (\<lambda>e x. E e (w\<lparr>sw_out := x\<rparr>)) (sw_out w)"
  by (simp add: wp_def outside_def split: prod.splits sum.splits)

lemma wp_served:
  assumes "\<And>ref x. \<exists>v y. sdk_secret S ref x = (Inr v, y)" and "\<And>v y. Q v y"
  shows "wp (sdk_secret S ref) Q E x"
  using assms(1) [of ref x] assms(2) by (auto simp: wp_def)

text \<open>Where the secrets are served, a failed upsert of the SDK gateway never throws the SDK's own error.\<close>

lemma sdk_upsert_error:
  assumes "\<And>ref x. \<exists>v y. sdk_secret S ref x = (Inr v, y)"
  shows "wp (sdk_upsert S accounts acct rt ext payload) (\<lambda>_ _. True) (\<lambda>err _. \<forall>e. err \<noteq> NetSuiteError e) w"
proof -
  have known: "resolveAccount accounts acct = Inl err \<Longrightarrow> err \<noteq> NetSuiteError e" for err e
    by (auto simp: resolveAccount_def split: option.splits)
  have decorated: "decorateNsError err c b \<noteq> NetSuiteError e" for err c b e
    by (cases err) (simp_all add: decorateNsError_def Let_def)
  have sent: "wp (sdk_request S client url verb body) Q E x" if "\<And>a x. Q a x" and "\<And>e x. E e x" for client url verb body Q E x
    using that by (auto intro: wpI)
  have client: "wp (factory_get S account) (\<lambda>_ _. True) (\<lambda>_ _. False) w" for account
    by (auto simp: factory_get_def hydrateOAuth_def wp_simps Let_def split: option.splits intro!: wp_served [OF assms])
  show ?thesis unfolding sdk_upsert_def wp_bnd wp_lift_sum
    by (auto simp: wp_simps Let_def known decorated split: sum.splits option.splits list.splits
        intro!: wp_mono [OF client] sent)
qed

text \<open>
  The diagnostic endpoint cannot report a failed write. Wired on the SDK gateway, where the secrets are
  served, whatever NetSuite answers: if the endpoint answers at all, its write probe says \<open>ok\<close>. A write
  that fails throws an error without details, whose \<open>JSON.stringify\<close> is undefined, and the endpoint throws.
\<close>

theorem diagnostic_hides_failed_write:
  assumes "dd_ns D = sdk_ns_ops S accounts" and "\<And>ref x. \<exists>v y. sdk_secret S ref x = (Inr v, y)"
    and "nsDiagnostic D w = (Inr resp, w')"
  shows "\<exists>clock reading detail. get_prop (JObj (hr_jsonBody resp)) ''probes'' = JArr [clock, reading, probe write_probe_name True detail]"
proof -
  have "wp (write_probe D) (\<lambda>v _. \<exists>detail. v = probe write_probe_name True detail) (\<lambda>_ _. True) x" for x
  proof -
    have up: "wp (no_upsert (dd_ns D) (dd_nsAccountId D) ''customer'' ext (diag_customer D)) (\<lambda>_ _. True)
        (\<lambda>err _. \<forall>e. err \<noteq> NetSuiteError e) y" for ext y
      using sdk_upsert_error [OF assms(2)] by (simp add: assms(1) sdk_ns_ops_def)
    have now: "wp (dd_now D) (\<lambda>_ _. True) (\<lambda>_ _. True) x" by (rule wpI) auto
    show ?thesis unfolding write_probe_def probed_def wp_simps
      by (rule wp_mono [OF now]) (auto simp: wp_simps errMsg_plain intro!: wp_mono [OF up])
  qed
  note written = this
  have "wp (nsDiagnostic D) (\<lambda>resp _. \<exists>clock reading detail.
      get_prop (JObj (hr_jsonBody resp)) ''probes'' = JArr [clock, reading, probe write_probe_name True detail]) (\<lambda>_ _. True) w"
  proof -
    have any: "wp m (\<lambda>_ _. True) (\<lambda>_ _. True) x" for m :: "('a, 'b) sdk_world \<Rightarrow> (js_error + 'x) \<times> ('a, 'b) sdk_world" and x
      by (rule wpI) auto
    show ?thesis unfolding nsDiagnostic_def wp_bnd Let_def
      by (rule wp_mono [OF any]; simp?; rule wp_mono [OF any]; simp?; rule wp_mono [OF written])
        (auto simp: wp_simps oget_Cons)
  qed
  from wp_Inr [OF this assms(3)] show ?thesis .
qed

section \<open>Witnesses\<close>

definition acme :: connection where
  "acme = \<lparr>connectionId = ''acme'', cn_environment = ''dev'', shopifyStore = ''a.b'', shopifyAppTokenRef = ''t'',
     shopifyWebhookSecretRef = ''w'', nsAccountId = ''7_SB1'', nsSubsidiary = ''1'', nsLocation = None,
     baseCurrency = ''USD'', taxEngine = Legacy, orderTarget = CashSale, mapVersion = ''1'', enabled = True,
     extraOrderHeaderMappings = None, defaultShipItemId = None, defaultItemId = None, defaultDiscountItemId = None,
     writeTagsOnImport = None, shopifyAddressIdField = None\<rparr>"

definition acme_json :: string where
  "acme_json = json (JArr [JObj [(''connectionId'', JStr ''acme''), (''environment'', JStr ''dev''), (''shopifyStore'', JStr ''a.b''),
     (''shopifyAppTokenRef'', JStr ''t''), (''shopifyWebhookSecretRef'', JStr ''w''), (''nsAccountId'', JStr ''7_SB1''),
     (''nsSubsidiary'', JStr ''1''), (''baseCurrency'', JStr ''USD''), (''taxEngine'', JStr ''legacy''),
     (''orderTarget'', JStr ''cash_sale''), (''mapVersion'', JStr ''1'')]])"

definition acme_env :: env_vars where
  "acme_env = [(''DPI_ENVIRONMENT'', ''dev''), (''KEY_VAULT_URI'', ''https://kv''), (''SERVICE_BUS_NAMESPACE'', ''sb''),
     (''BLOB_ACCOUNT_URL'', ''https://acct.blob''), (''DPI_CONNECTIONS_JSON'', acme_json), (''POSTGRES_HOST'', ''db'')]"

definition acme_context :: app_context where
  "acme_context = \<lparr>ac_environment = ''dev'',
     ac_connections = \<lparr>cr_byShop = [(''dev|a.b'', acme)], cr_byId = [(''dev|acme'', acme)], cr_all = [acme]\<rparr>,
     ac_vaultUri = ''https://kv'', ac_envelopes = (''https://acct.blob'', ''inbound-webhooks''), ac_queue = (''sb'', ''orders-in''),
     ac_ns = Some [(''7_SB1'', account_config ''7_SB1'')], ac_guest = ''1'', ac_pgPool = None,
     ac_payloads = (''https://acct.blob'', ''outbound-netsuite''), ac_blobAccountUrl = ''https://acct.blob''\<rparr>"

lemma acme_built: "getAppContext plain_error acme_env None = (Inr acme_context, Some acme_context)"
  by code_simp

lemma context_from_environment_witness:
  "getAppContext plain_error acme_env None = (Inr acme_context, Some acme_context)
   \<and> getAppContext plain_error [] (Some acme_context) = (Inr acme_context, Some acme_context)
   \<and> isEnvironment (JStr (ac_environment acme_context))"
  using context_from_environment [OF acme_built, of "[]"] acme_built by blast

definition idle_sdk :: "(unit, int) sdk" where
  "idle_sdk = \<lparr>sdk_secret = ret, sdk_client = \<lambda>_. (),
     sdk_request = \<lambda>_ _ _ _. ret \<lparr>nr_status = 201, nr_headers = None, nr_body = JObj [(''id'', JStr ''55'')]\<rparr>,
     sdk_query = \<lambda>_ _. ret [], sdk_queryOne = \<lambda>_ _. ret None\<rparr>"

lemma pending_beside_real_fails_witness:
  "\<exists>accounts. buildNetSuiteGateway [acme, acme\<lparr>nsAccountId := ''pending''\<rparr>] = Some accounts
    \<and> no_upsert (sdk_ns_ops idle_sdk accounts) ''pending'' ''cashSale'' ''1'' [] \<lparr>sw_clients = [], sw_items = [], sw_out = 0\<rparr>
      = (Inl unknown_account, \<lparr>sw_clients = [], sw_items = [], sw_out = 0\<rparr>)"
  using pending_beside_real_fails [of acme "[acme, acme\<lparr>nsAccountId := ''pending''\<rparr>]" "acme\<lparr>nsAccountId := ''pending''\<rparr>"
      idle_sdk "''cashSale''" "''1''" "[]" "\<lparr>sw_clients = [], sw_items = [], sw_out = 0\<rparr>" None]
  by (auto simp: acme_def)

definition idle_diagnostic :: "(unit, int) sdk_world diagnostic_deps" where
  "idle_diagnostic = diagnostic_registration (sdk_ns_ops idle_sdk [(''11541804_SB1'', account_config ''11541804_SB1'')])
     (ret 0) (\<lambda>_. ''NetSuiteError'')"

lemma diagnostic_hides_failed_write_witness:
  "\<exists>resp w' clock reading detail. nsDiagnostic idle_diagnostic \<lparr>sw_clients = [], sw_items = [], sw_out = 0\<rparr> = (Inr resp, w')
    \<and> get_prop (JObj (hr_jsonBody resp)) ''probes'' = JArr [clock, reading, probe write_probe_name True detail]"
proof -
  let ?w = "\<lparr>sw_clients = [], sw_items = [], sw_out = 0\<rparr> :: (unit, int) sdk_world"
  have "case fst (nsDiagnostic idle_diagnostic ?w) of Inl _ \<Rightarrow> False | Inr _ \<Rightarrow> True"
    by code_simp
  then obtain resp w' where run: "nsDiagnostic idle_diagnostic ?w = (Inr resp, w')"
    by (cases "nsDiagnostic idle_diagnostic ?w") (auto split: sum.splits)
  have wired: "dd_ns idle_diagnostic = sdk_ns_ops idle_sdk [(''11541804_SB1'', account_config ''11541804_SB1'')]"
    by (simp add: idle_diagnostic_def diagnostic_registration_def)
  have served: "\<exists>v y. sdk_secret idle_sdk ref x = (Inr v, y)" for ref x
    by (simp add: idle_sdk_def)
  show ?thesis using run diagnostic_hides_failed_write [OF wired served run] by blast
qed

end
