(* ===== verification/AdminCommands.thy ===== *)
theory AdminCommands
  imports AdminCli Wiring
begin

text \<open>
  The verbs of \<open>apps/admin/src/commands\<close> and the dispatch of \<open>cli.ts\<close>. Every verb prints; \<open>replay\<close> alone
  changes a table and the queue.
\<close>

section \<open>Parked orders\<close>

definition parked_kql :: string where
  "parked_kql = join newline [[],
     ''          traces'',
     ''          | where timestamp > ago(7d) and message contains '' @ quoted ''outcome=parked'',
     ''          | extend order = extract('' @ quoted (''order=([^'' @ replicate 2 (CHR 0x5C) @ ''s]+)'') @ '', 1, message)'',
     ''          | extend stage = extract('' @ quoted ''stage=([a-z_]+)'' @ '', 1, message)'',
     ''          | extend detail = extract('' @ quoted (''detail='' @ [CHR 0x22] @ ''([^'' @ [CHR 0x22] @ '']+)'' @ [CHR 0x22]) @ '', 1, message)'',
     ''          | summarize arg_max(timestamp, stage, detail) by order'',
     ''        '']"

definition db_rows :: "jsnum \<Rightarrow> 'a list \<Rightarrow> js_error + 'a list" where
  "db_rows limit rows = (case sql_limit limit of Inl e \<Rightarrow> Inl e | Inr n \<Rightarrow> Inr (take n rows))"

definition in_env :: "cli_env \<Rightarrow> xref_row \<Rightarrow> bool" where
  "in_env E r \<longleftrightarrow> dp_environment (xr_parts r) = env_name E"

definition last_touched :: "cli \<Rightarrow> xref_row list \<Rightarrow> xref_row list" where
  "last_touched w rows = sort_key (\<lambda>r. - cl_touched w (xr_parts r)) rows"

definition parked_rows :: "cli_env \<Rightarrow> cli \<Rightarrow> xref_row list" where
  "parked_rows E w = last_touched w (filter (\<lambda>r. in_env E r \<and> xr_status r = Errored) (cl_xref w))"

text \<open>The reasons by order, from the log; a failing query is only reported.\<close>

definition shown :: "cli_env \<Rightarrow> jsval \<Rightarrow> string \<Rightarrow> string" where
  "shown E v other = (if nullish v then dim E other else to_str v)"

definition park_reasons :: "cli_env \<Rightarrow> (cli, (string \<times> jsval) list) io" where
  "park_reasons E =
     (if \<not> set_str (ce_var E ''DPI_AI_APP_ID'') then ret []
      else (case runKql E parked_kql of
          Inl e \<Rightarrow> bnd (say (dim E (''  (App Insights query failed: '' @ err_message e @ '')''))) (\<lambda>_. ret [])
        | Inr found \<Rightarrow> ret (foldl (\<lambda>m r. AList.update (to_str (get_prop r ''order'')) r m) [] found)))"

definition parked_row :: "cli_env \<Rightarrow> cli \<Rightarrow> (string \<times> jsval) list \<Rightarrow> xref_row \<Rightarrow> table_row" where
  "parked_row E w reasons r = (let gid = dp_sourceId (xr_parts r);
       reason = (case map_of reasons gid of None \<Rightarrow> JUndef | Some x \<Rightarrow> x) in
     [(''order'', shortenGid gid), (''connection'', dp_connectionId (xr_parts r)), (''status'', statusColor E ''error''),
      (''stage'', shown E (get_prop reason ''stage'') ''-''),
      (''reason'', shown E (get_prop reason ''detail'') ''(no recent log; check App Insights manually)''),
      (''parked_at'', short_stamp E (cl_touched w (xr_parts r)))])"

definition retry_hint :: string where
  "retry_hint = ''Retry a row: DELETE FROM entity_xref WHERE source_id='' @ quoted ''gid://shopify/Order/<id>''
     @ ''; then redeliver.''"

definition parkedCommand :: "cli_env \<Rightarrow> string list \<Rightarrow> (cli, unit) io" where
  "parkedCommand E argv =
     bnd (lift_sum (parseLimit [] argv)) (\<lambda>limit.
     bnd (buildPool E) (\<lambda>_.
     bnd (say (newline @ heading E (''Parked orders ('' @ env_name E @ '', top '' @ show_num limit @ '')'') @ newline)) (\<lambda>_.
     bnd (bnd (read_st (parked_rows E)) (\<lambda>rows. lift_sum (db_rows limit rows))) (\<lambda>rows.
       if rows = [] then say (dim E ''  (nothing parked)'')
       else bnd (park_reasons E) (\<lambda>reasons.
         bnd (read_st (\<lambda>w. map (parked_row E w reasons) rows)) (\<lambda>tbl.
         bnd (say (renderTable E tbl)) (\<lambda>_. say (newline @ dim E retry_hint @ newline))))))))"

section \<open>The status screen\<close>

definition status_order :: "xref_status list" where
  "status_order = [Errored, Ignored, Pending, Synced]"

definition backlog :: "cli_env \<Rightarrow> cli \<Rightarrow> (xref_status \<times> nat) list" where
  "backlog E w = filter (\<lambda>p. snd p \<noteq> 0)
     (map (\<lambda>st. (st, length (filter (\<lambda>r. in_env E r \<and> xr_status r = st) (cl_xref w)))) status_order)"

definition recent_xref :: "cli_env \<Rightarrow> cli \<Rightarrow> xref_row list" where
  "recent_xref E w = take 10 (last_touched w (filter (in_env E) (cl_xref w)))"

definition outcomes_kql :: string where
  "outcomes_kql = ''traces | where timestamp > ago(1h) and message contains '' @ quoted ''orderImportHandler outcome=''
     @ '' | extend outcome = extract('' @ quoted ''outcome=([a-z_]+)''
     @ '', 1, message) | summarize count_=count() by outcome | order by count_ desc''"

definition say_table :: "cli_env \<Rightarrow> string \<Rightarrow> table_row list \<Rightarrow> (cli, unit) io" where
  "say_table E none rows = say (if rows = [] then dim E none else renderTable E rows)"

definition say_outcomes :: "cli_env \<Rightarrow> (cli, unit) io" where
  "say_outcomes E =
     (if set_str (ce_var E ''DPI_AI_APP_ID'') then
        bnd (say (newline @ heading E ''Handler outcomes (last 1h)'')) (\<lambda>_. case runKql E outcomes_kql of
          Inl e \<Rightarrow> say (dim E (''  (App Insights query failed: '' @ err_message e @ '')''))
        | Inr rows \<Rightarrow> say_table E ''  (no handler activity)'' (map (\<lambda>r. [(''outcome'', to_str (get_prop r ''outcome'')),
            (''count'', to_str (get_prop r ''count_''))]) rows))
      else say (newline @ dim E ''Tip: set DPI_AI_APP_ID for last-hour outcome counts.''))"

definition statusCommand :: "cli_env \<Rightarrow> (cli, unit) io" where
  "statusCommand E =
     bnd (buildPool E) (\<lambda>_.
     bnd (say (newline @ heading E (''dp-integrator '' @ em_dash @ '' '' @ env_name E) @ newline)) (\<lambda>_.
     bnd (say (heading E ''Backlog by xref status'')) (\<lambda>_.
     bnd (read_st (backlog E)) (\<lambda>counts.
     bnd (say_table E ''  (no rows)'' (map (\<lambda>(st, n). [(''status'', statusColor E (xref_status_str st)), (''count'', show_nat n)]) counts)) (\<lambda>_.
     bnd (say (newline @ heading E ''Last 10 xref changes'')) (\<lambda>_.
     bnd (read_st (\<lambda>w. map (\<lambda>r. [(''order'', shortenGid (dp_sourceId (xr_parts r))),
         (''status'', statusColor E (xref_status_str (xr_status r))), (''ns_id'', or_dash E (xr_targetId r)),
         (''updated'', short_stamp E (cl_touched w (xr_parts r)))]) (recent_xref E w))) (\<lambda>rows.
     bnd (say_table E ''  (no rows)'' rows) (\<lambda>_.
     bnd (say_outcomes E) (\<lambda>_. say [])))))))))"

section \<open>The order ledger\<close>

definition rowStatus :: "string \<Rightarrow> string" where
  "rowStatus s = (if s = ''imported'' then ''synced'' else if s = ''parked'' then ''error'' else s)"

definition noteFor :: "sync_log_input \<Rightarrow> string option" where
  "noteFor d =
     (if sl_status d = SyncParked \<and> set_str (sl_parkStage d) then
        (let detail = (case sl_parkDetail d of None \<Rightarrow> [] | Some t \<Rightarrow> take 60 t); stage = the (sl_parkStage d)
         in Some (if detail \<noteq> [] then stage @ '': '' @ detail else stage))
      else if sl_status d = SyncIgnored \<and> set_str (sl_ignoredReason d) then sl_ignoredReason d
      else None)"

definition formatTries :: "cli_env \<Rightarrow> nat option \<Rightarrow> sync_status \<Rightarrow> string" where
  "formatTries E n status = (let v = (case n of None \<Rightarrow> 0 | Some k \<Rightarrow> k); label = show_nat (if v = 0 then 1 else v) in
     if v \<le> 1 then dim E label
     else if status = SyncParked then red E label
     else if status = SyncImported then yellow E label
     else label)"

definition formatMoney :: "string option \<Rightarrow> string option \<Rightarrow> string" where
  "formatMoney amt currency = (if \<not> set_str amt then ''-''
     else (let n = parse_float (the amt) in
       if \<not> is_finite_num n then the amt
       else (if set_str currency then the currency @ '' '' else []) @ to_fixed2 n))"

definition isPositiveAmount :: "string option \<Rightarrow> bool" where
  "isPositiveAmount amt \<longleftrightarrow> set_str amt \<and> positive (parse_float (the amt))"

definition recent_row :: "cli_env \<Rightarrow> sync_log \<Rightarrow> table_row" where
  "recent_row E r = (let d = log_data r in
     [(''order'', (case sl_orderName d of Some n \<Rightarrow> n | None \<Rightarrow> CHR ''#'' # sl_orderId d)),
      (''email'', or_dash E (sl_customerEmail d)), (''total'', formatMoney (sl_totalPrice d) (sl_currencyCode d)),
      (''discount'', (if isPositiveAmount (sl_totalDiscounts d)
         then CHR ''-'' # formatMoney (sl_totalDiscounts d) (sl_currencyCode d) else dim E ''-'')),
      (''status'', statusColor E (rowStatus (sync_status_str (sl_status d)))),
      (''tries'', formatTries E (sl_attemptCount d) (sl_status d)),
      (''ns'', (if set_str (sl_nsInternalId d) then ''SO '' @ the (sl_nsInternalId d) else dim E ''-'')),
      (''note'', or_dash E (noteFor d)), (''at'', short_stamp E (log_time r))])"

definition recent_rows :: "cli_env \<Rightarrow> string option \<Rightarrow> string option \<Rightarrow> cli \<Rightarrow> sync_log list" where
  "recent_rows E conn status w = by_time (filter (\<lambda>r. sl_environment (log_data r) = env_name E
     \<and> (set_str conn \<longrightarrow> Some (sl_connectionId (log_data r)) = conn)
     \<and> (set_str status \<longrightarrow> Some (sync_status_str (sl_status (log_data r))) = status)) (plt_rows (cl_log w)))"

definition titled :: "string \<Rightarrow> string option \<Rightarrow> string list" where
  "titled name v = (if set_str v then [name @ the v] else [])"

definition recentCommand :: "cli_env \<Rightarrow> string list \<Rightarrow> (cli, unit) io" where
  "recentCommand E argv =
     bnd (lift_sum (parseLimit ''dpi recent: '' argv)) (\<lambda>limit.
       let conn = flagValue argv ''--connection''; status = flagValue argv ''--status'' in
       if set_str status \<and> the status \<notin> {''imported'', ''parked'', ''ignored''}
         then throw (plain_error ''dpi recent: --status must be one of: imported, parked, ignored'')
       else bnd (buildPool E) (\<lambda>_.
         bnd (say (newline @ heading E (''Recent order sync log ('' @ join '', '' ((''env='' @ env_name E) # titled ''conn='' conn
           @ titled ''status='' status @ [''top '' @ show_num limit]) @ '')'') @ newline)) (\<lambda>_.
         bnd (bnd (read_st (recent_rows E conn status)) (\<lambda>rows. lift_sum (db_rows limit rows))) (\<lambda>rows.
           if rows = [] then say (dim E ''  (no rows)'')
           else bnd (say (renderTable E (map (recent_row E) rows))) (\<lambda>_. say [])))))"

section \<open>The deliveries of an order\<close>

definition outcomeToStatus :: "string \<Rightarrow> string" where
  "outcomeToStatus x =
     (if x = ''imported'' then ''synced''
      else if x \<in> {''parked'', ''quarantined'', ''rejected'', ''transient_throw'', ''auth_throw''} then ''error''
      else if x \<in> {''already_synced'', ''already_claimed''} then ''pending''
      else if x \<in> {''ignored'', ''ignored_by_eligibility''} then ''ignored''
      else x)"

definition formatDelivery :: "cli_env \<Rightarrow> nat \<Rightarrow> string \<Rightarrow> string" where
  "formatDelivery E n outcome = (if n \<le> 1 then dim E (show_nat n)
     else if outcome = ''imported'' then yellow E (show_nat n)
     else if outcome = ''parked'' \<or> outcome = ''quarantined'' then red E (show_nat n)
     else show_nat n)"

definition formatDigest :: "cli_env \<Rightarrow> jsobj option \<Rightarrow> string" where
  "formatDigest E d = (case d of
     None \<Rightarrow> dim E ''-''
   | Some ps \<Rightarrow> (let parts = (case oget ps ''tranId'' of JStr s \<Rightarrow> [s] | _ \<Rightarrow> [])
         @ (case oget ps ''lineCount'' of JNum n \<Rightarrow> [show_num n @ ''L''] | _ \<Rightarrow> [])
       in if parts \<noteq> [] then join '' '' parts else dim E ''-''))"

definition check_mark :: string where
  "check_mark = [CHR 0xE2, CHR 0x9C, CHR 0x93]"

definition attempt_line :: "cli_env \<Rightarrow> attempt \<Rightarrow> table_row" where
  "attempt_line E a = (let d = att_data a; outcome = attempt_outcome_str (at_outcome d) in
     [(''#'', formatDelivery E (at_deliveryCount d) outcome), (''outcome'', statusColor E (outcomeToStatus outcome)),
      (''stage'', or_dash E (at_stage d)), (''class'', or_dash E (at_errorClass d)), (''ms'', show_int (at_durationMs d)),
      (''digest'', formatDigest E (at_payloadDigest d)),
      (''inbound'', (if set_str (at_inboundEnvelopeUri d) then check_mark else dim E ''-'')),
      (''outbound'', (if set_str (at_outboundPayloadUri d) then check_mark else dim E ''-'')),
      (''at'', short_stamp E (at_finishedAt d))])"

definition say_labelled :: "cli_env \<Rightarrow> string \<Rightarrow> string option \<Rightarrow> (cli, unit) io" where
  "say_labelled E label v = (if set_str v then say (dim E label @ '' '' @ the v) else ret ())"

definition say_attempts :: "cli_env \<Rightarrow> attempt list \<Rightarrow> (cli, unit) io" where
  "say_attempts E rows = (case rows of
     [] \<Rightarrow> say (dim E (''  (no attempts found '' @ em_dash
       @ '' order may not have been delivered yet, or it was synced before slice M2-D)''))
   | newest # _ \<Rightarrow> (let d = att_data newest in
       bnd (say (renderTable E (map (attempt_line E) rows))) (\<lambda>_.
       bnd (say []) (\<lambda>_.
       bnd (say_labelled E ''detail:'' (map_option (take 240) (at_detail d))) (\<lambda>_.
       bnd (say_labelled E ''inbound:'' (at_inboundEnvelopeUri d)) (\<lambda>_.
       bnd (say_labelled E ''outbound:'' (at_outboundPayloadUri d)) (\<lambda>_. say [])))))))"

definition attempts_of_order :: "cli_env \<Rightarrow> string \<Rightarrow> string \<Rightarrow> (cli, unit) io" where
  "attempts_of_order E cid gid =
     bnd (buildPool E) (\<lambda>_.
     bnd (say (newline @ heading E (''Attempts for '' @ gid @ '' (env='' @ env_name E @ '', conn='' @ cid @ '')'') @ newline)) (\<lambda>_.
     bnd (read_st (\<lambda>w. pg_att_listByOrderGid (env_name E, cid, gid) (cl_attempts w))) (say_attempts E)))"

text \<open>A full id is taken as it is; anything else is taken as the tail of one.\<close>

definition attemptsCommand :: "cli_env \<Rightarrow> string list \<Rightarrow> (cli, unit) io" where
  "attemptsCommand E argv = (case find (\<lambda>a. \<not> is_option a) argv of
     Some (c # cs) \<Rightarrow>
      (let conn = flagValue argv ''--connection'' in
       if \<not> set_str conn then throw (plain_error ''dpi attempts: --connection <id> is required'')
       else attempts_of_order E (the conn)
         (if starts_with (c # cs) order_gid_prefix then c # cs else order_gid_prefix @ c # cs))
   | _ \<Rightarrow> throw (plain_error ''dpi attempts: <gid|orderId> is required''))"

section \<open>Reconciliation snapshots\<close>

definition delta :: string where
  "delta = [CHR 0xCE, CHR 0x94]"

definition driftLabel :: "cli_env \<Rightarrow> jsobj option \<Rightarrow> string" where
  "driftLabel E discrepancy = (case discrepancy of
     None \<Rightarrow> dim E em_dash
   | Some ps \<Rightarrow> (let part = (\<lambda>k other. if nullish (oget ps k) then other else to_str (oget ps k)) in
       red E (part ''reason'' ''drift'' @ '' ('' @ delta @ ''count='' @ part ''countDiff'' ''?''
         @ '', '' @ delta @ ''total='' @ part ''totalDiff'' ''?'' @ '')'')))"

definition snapshot_row :: "cli_env \<Rightarrow> snapshot \<Rightarrow> table_row" where
  "snapshot_row E s = (let d = sns_data s in
     [(''date'', sn_businessDate d), (''connection'', sn_connectionId d),
      (''shopify'', show_nat (sn_shopifyOrderCount d) @ '' / '' @ sn_shopifyTotal d),
      (''ns'', show_nat (sn_nsTxnCount d) @ '' / '' @ sn_nsTotal d), (''drift'', driftLabel E (sn_discrepancy d)),
      (''at'', short_stamp E (sns_createdAt s))])"

text \<open>\<open>ORDER BY business_date DESC, connection_id\<close>\<close>

definition snapshot_rows ::
  "cli_env \<Rightarrow> string option \<Rightarrow> string option \<Rightarrow> string option \<Rightarrow> cli \<Rightarrow> snapshot list" where
  "snapshot_rows E conn from to w = newest_first (sort_key (\<lambda>s. sn_connectionId (sns_data s))
     (filter (recon_matches \<lparr>rf_environment = env_name E,
        rf_connectionId = (if set_str conn then conn else None), rf_fromBusinessDate = from, rf_toBusinessDate = to,
        rf_limit = None\<rparr>) (cl_snapshots w)))"

definition reconcileCommand :: "cli_env \<Rightarrow> string list \<Rightarrow> (cli, unit) io" where
  "reconcileCommand E argv =
     bnd (lift_sum (parseNum argv ''--limit'' 14)) (\<lambda>limit.
       let conn = flagValue argv ''--connection''; from = flagValue argv ''--from''; to = flagValue argv ''--to'' in
       bnd (buildPool E) (\<lambda>_.
       bnd (say (newline @ heading E (''Reconciliation snapshots ('' @ join '', '' ((''env='' @ env_name E) # titled ''conn='' conn
         @ titled ''from='' from @ titled ''to='' to @ [''top '' @ show_num limit]) @ '')'') @ newline)) (\<lambda>_.
       bnd (bnd (read_st (snapshot_rows E conn from to)) (\<lambda>rows. lift_sum (db_rows limit rows))) (\<lambda>rows.
         if rows = [] then say (dim E (''  (no snapshots '' @ em_dash @ '' sweep runs daily at 06:00 UTC)''))
         else bnd (say (renderTable E (map (snapshot_row E) rows))) (\<lambda>_. say [])))))"

section \<open>Replay\<close>

record replay_args =
  ra_orderGid :: string
  ra_connectionId :: string
  ra_force :: bool
  ra_topic :: "string option"

definition parseArgs :: "string list \<Rightarrow> js_error + replay_args" where
  "parseArgs argv = (case filter (\<lambda>a. \<not> is_option a) argv of
     (c # cs) # _ \<Rightarrow> (case normalizeOrderGid (JStr (c # cs)) of
         None \<Rightarrow> Inl (plain_error (''dpi replay: invalid order id '' @ quoted (c # cs) @ '' (expected gid:// or numeric)''))
       | Some gid \<Rightarrow>
          (let conn = flagValue argv ''--connection'' in
           if \<not> set_str conn
             then Inl (plain_error (''dpi replay: missing --connection <id> (from `dpi parked` output)''))
           else Inr \<lparr>ra_orderGid = gid, ra_connectionId = the conn, ra_force = (''--force'' \<in> set argv),
             ra_topic = flagValue argv ''--topic''\<rparr>))
   | _ \<Rightarrow> Inl (plain_error (''dpi replay: missing <gid|orderId>'' @ newline @ newline
       @ ''Usage: dpi replay <gid|orderId> --connection <id> [--force] [--topic <t>]'')))"

definition cli_required :: "cli_env \<Rightarrow> string \<Rightarrow> js_error + string" where
  "cli_required E key = (case ce_var E key of
     Some (c # cs) \<Rightarrow> Inr (c # cs)
   | _ \<Rightarrow> Inl (plain_error (''dpi replay: required env var '' @ quoted key @ '' not set'')))"

definition resolveConnection :: "cli_env \<Rightarrow> string \<Rightarrow> environment \<Rightarrow> string \<Rightarrow> js_error + connection" where
  "resolveConnection E text env cid = (case parseConnectionsConfig (ce_syntaxError E) text of
     Inl e \<Rightarrow> Inl e
   | Inr all \<Rightarrow> (case find (\<lambda>c. cn_environment c = env \<and> connectionId c = cid) all of
        None \<Rightarrow> Inl (plain_error (''dpi replay: connection '' @ quoted cid @ '' not found for environment '' @ quoted env
          @ '' in DPI_CONNECTIONS_JSON''))
      | Some c \<Rightarrow> Inr c))"

definition cli_enqueue :: "cli_env \<Rightarrow> string \<Rightarrow> jsval \<Rightarrow> (cli, unit) io" where
  "cli_enqueue E session body = (case ce_send E session body of
     Some e \<Rightarrow> throw e
   | None \<Rightarrow> modify_st (\<lambda>w. w\<lparr>cl_queue := cl_queue w @ [(session, body)]\<rparr>))"

definition cli_key :: "cli_env \<Rightarrow> replay_args \<Rightarrow> dedup_parts" where
  "cli_key E a = \<lparr>dp_environment = env_name E, dp_connectionId = ra_connectionId a, dp_entityType = Order,
     dp_sourceSystem = Shopify, dp_sourceId = ra_orderGid a\<rparr>"

definition cli_uri :: "cli_env \<Rightarrow> replay_args \<Rightarrow> string" where
  "cli_uri E a = ''replay://dpi/'' @ env_name E @ ''/'' @ ra_connectionId a @ ''/'' @ encode_uri_component (ra_orderGid a)
     @ ''/'' @ toISOString (ce_now E)"

definition cli_topic :: "replay_args \<Rightarrow> string" where
  "cli_topic a = (case ra_topic a of None \<Rightarrow> ''orders/updated'' | Some t \<Rightarrow> t)"

definition cli_body :: "cli_env \<Rightarrow> replay_args \<Rightarrow> connection \<Rightarrow> jsval" where
  "cli_body E a conn = JObj [(''schemaVersion'', JNum (Fin 1)), (''environment'', JStr (env_name E)),
     (''connectionId'', JStr (ra_connectionId a)), (''shopDomain'', JStr (shopifyStore conn)),
     (''topic'', JStr (cli_topic a)), (''orderGid'', JStr (ra_orderGid a)), (''envelopeBlobUri'', JStr (cli_uri E a)),
     (''receivedAt'', JStr (toISOString (ce_now E))), (''source'', JStr ''replay'')]"

definition publish_cli :: "cli_env \<Rightarrow> replay_args \<Rightarrow> connection \<Rightarrow> string \<Rightarrow> (cli, unit) io" where
  "publish_cli E a conn previous = (let session = ra_connectionId a @ '':'' @ ra_orderGid a in
     bnd (cli_enqueue E session (cli_body E a conn)) (\<lambda>_.
     bnd (say (''  '' @ dim E ''replayed:'' @ '' previousStatus='' @ previous @ '' sessionId='' @ session)) (\<lambda>_.
     bnd (say (''  '' @ dim E ''topic:'' @ '' '' @ cli_topic a @ ''   '' @ dim E ''envelopeBlobUri:'' @ '' '' @ cli_uri E a)) (\<lambda>_.
       say (newline @ dim E ''Next: tail App Insights for `orderImportHandler` traces with that order GID.'' @ newline)))))"

definition replay_one :: "cli_env \<Rightarrow> replay_args \<Rightarrow> connection \<Rightarrow> (cli, unit) io" where
  "replay_one E a conn =
     bnd (say (newline @ heading E (''Replay '' @ ra_orderGid a @ '' on '' @ ra_connectionId a @ '' ('' @ env_name E @ '')'') @ newline)) (\<lambda>_.
     bnd (read_st (\<lambda>w. pg_fetch (cli_key E a) (cl_xref w))) (\<lambda>prior. case prior of
       None \<Rightarrow> publish_cli E a conn ''absent''
     | Some r \<Rightarrow>
        (if xr_status r = Synced \<and> \<not> ra_force a
         then bnd (say (''  '' @ dim E ''refused:'' @ '' order is already synced (ns=''
             @ (case xr_targetId r of None \<Rightarrow> ''?'' | Some t \<Rightarrow> t)
             @ ''). Pass --force to re-replay (will delete the xref row and re-publish).'')) (\<lambda>_.
           modify_st (\<lambda>w. w\<lparr>cl_exit := Some 2\<rparr>))
         else bnd (modify_st (\<lambda>w. w\<lparr>cl_xref := filter (\<lambda>x. xr_parts x \<noteq> cli_key E a) (cl_xref w)\<rparr>)) (\<lambda>_.
           publish_cli E a conn (xref_status_str (xr_status r))))))"

definition replayCommand :: "cli_env \<Rightarrow> string list \<Rightarrow> (cli, unit) io" where
  "replayCommand E argv =
     bnd (lift_sum (parseArgs argv)) (\<lambda>a.
       if \<not> isEnvironment (JStr (env_name E))
         then throw (plain_error (''DPI_ENVIRONMENT='' @ quoted (env_name E) @ '' invalid; expected dev|sandbox|prod''))
       else bnd (lift_sum (cli_required E ''DPI_CONNECTIONS_JSON'')) (\<lambda>text.
         bnd (lift_sum (cli_required E ''DPI_SERVICE_BUS_NAMESPACE'')) (\<lambda>_.
         bnd (lift_sum (resolveConnection E text (env_name E) (ra_connectionId a))) (\<lambda>conn.
         bnd (buildPool E) (\<lambda>_. replay_one E a conn)))))"

section \<open>The dispatch\<close>

definition USAGE :: string where
  "USAGE = join newline [
     ''dpi '' @ em_dash @ '' dp-integrator ops dashboard'',
     [],
     ''Usage: dpi <command> [options]'',
     [],
     ''Commands:'',
     ''  status                  One-screen overview of the integration'' @ [CHR 0x27] @ ''s state'',
     ''  parked [--limit N]      List parked orders (xref status='' @ [CHR 0x27] @ ''error'' @ [CHR 0x27] @ '') with reasons'',
     ''  recent [opts]           Tail order_sync_log '' @ em_dash @ '' per-order ledger (order #, email, totals, tries, NS link, status)'',
     ''      --limit N             default 20'',
     ''      --connection <id>     filter to one connection'',
     ''      --status <s>          filter to imported | parked | ignored'',
     ''  attempts <gid|id>       Full Service Bus delivery timeline for one order (M2-D)'',
     ''      --connection <id>     required '' @ em_dash @ '' connection id (e.g. acme-us)'',
     ''  reconcile [opts]        Daily Shopify-vs-dpi snapshot table (M3-B); drift in red'',
     ''      --limit N             default 14'',
     ''      --connection <id>     filter to one connection'',
     ''      --from YYYY-MM-DD     business_date lower bound (inclusive)'',
     ''      --to YYYY-MM-DD       business_date upper bound (inclusive)'',
     ''  replay <gid|id>         Re-publish an order through the import pipeline'',
     ''      --connection <id>     required '' @ em_dash @ '' connection id from `dpi parked` output'',
     ''      --force               override the refusal when xref status='' @ [CHR 0x27] @ ''synced'' @ [CHR 0x27],
     ''      --topic <t>           webhook topic stamped on the message (default orders/updated)'',
     ''  help                    Show this message'',
     [],
     ''Env: DPI_PG_HOST, DPI_PG_DATABASE, DPI_PG_USER required for all verbs.'',
     ''     DPI_AI_APP_ID enables log-backed reason info on status/parked.'',
     ''     DPI_ENVIRONMENT defaults to '' @ [CHR 0x27] @ ''dev'' @ [CHR 0x27] @ ''.'',
     ''     replay also needs: DPI_SERVICE_BUS_NAMESPACE, DPI_CONNECTIONS_JSON, and'',
     ''     '' @ [CHR 0x27] @ ''Azure Service Bus Data Sender'' @ [CHR 0x27] @ '' on the operator'' @ [CHR 0x27] @ ''s Entra principal.'',
     []]"

definition write_err :: "string \<Rightarrow> int \<Rightarrow> (cli, unit) io" where
  "write_err s n = modify_st (\<lambda>w. w\<lparr>cl_err := cl_err w @ s, cl_exit := Some n\<rparr>)"

definition run_verb :: "cli_env \<Rightarrow> string \<Rightarrow> string list \<Rightarrow> (cli, unit) io" where
  "run_verb E verb rest =
     (if verb \<in> {''help'', ''--help'', ''-h''} then say USAGE
      else if verb = ''status'' then statusCommand E
      else if verb = ''parked'' then parkedCommand E rest
      else if verb = ''recent'' then recentCommand E rest
      else if verb = ''attempts'' then attemptsCommand E rest
      else if verb = ''reconcile'' then reconcileCommand E rest
      else if verb = ''replay'' then replayCommand E rest
      else write_err (''dpi: unknown command '' @ quoted verb @ newline @ newline @ USAGE) 2)"

text \<open>\<open>main().catch(..)\<close>: an error is printed and the process ends with 1.\<close>

definition cli_main :: "cli_env \<Rightarrow> string list \<Rightarrow> (cli, unit) io" where
  "cli_main E argv = try_catch (case argv of [] \<Rightarrow> say USAGE | verb # rest \<Rightarrow> run_verb E verb rest)
     (\<lambda>e. write_err (''dpi: '' @ err_message e @ newline) 1)"

section \<open>What only reads\<close>

definition cli_data :: "cli \<Rightarrow> pg_xref \<times> (string \<times> jsval) list \<times> pg_log_table \<times> attempt list \<times> snapshot list" where
  "cli_data w = (cl_xref w, cl_queue w, cl_log w, cl_attempts w, cl_snapshots w)"

lemma keeps_say [keeps_rules, intro]: "keeps cli_data (say s)"
  by (simp add: say_def keeps_def cli_data_def)

lemma keeps_write_err [keeps_rules, intro]: "keeps cli_data (write_err s n)"
  by (simp add: write_err_def keeps_def cli_data_def)

lemma keeps_buildPool [keeps_rules, intro]: "keeps cli_data (buildPool E)"
  by (simp add: buildPool_def keeps_rules)

lemma keeps_say_labelled [keeps_rules, intro]: "keeps cli_data (say_labelled E l v)"
  by (auto simp: say_labelled_def)

lemma keeps_say_outcomes [keeps_rules, intro]: "keeps cli_data (say_outcomes E)"
  by (auto simp: say_outcomes_def say_table_def split: sum.split)

lemma keeps_park_reasons [keeps_rules, intro]: "keeps cli_data (park_reasons E)"
  by (auto simp: park_reasons_def split: sum.split)

lemma keeps_say_table [keeps_rules, intro]: "keeps cli_data (say_table E none rows)"
  by (simp add: say_table_def keeps_say)

lemma keeps_status [keeps_rules, intro]: "keeps cli_data (statusCommand E)"
  unfolding statusCommand_def by (intro keeps_rules)

lemma keeps_parked [keeps_rules, intro]: "keeps cli_data (parkedCommand E argv)"
  unfolding parkedCommand_def by (intro keeps_rules)

lemma keeps_recent [keeps_rules, intro]: "keeps cli_data (recentCommand E argv)"
  unfolding recentCommand_def Let_def by (intro keeps_rules)

lemma keeps_reconcile [keeps_rules, intro]: "keeps cli_data (reconcileCommand E argv)"
  unfolding reconcileCommand_def Let_def by (intro keeps_rules)

lemma keeps_say_attempts [keeps_rules, intro]: "keeps cli_data (say_attempts E rows)"
  by (cases rows) (simp_all add: say_attempts_def Let_def keeps_rules)

lemma keeps_attempts [keeps_rules, intro]: "keeps cli_data (attemptsCommand E argv)"
proof -
  have "keeps cli_data (attempts_of_order E cid gid)" for cid gid
    unfolding attempts_of_order_def by (intro keeps_rules)
  then show ?thesis
    unfolding attemptsCommand_def Let_def by (auto split: option.split list.split)
qed

lemma keeps_other_verbs: "verb \<noteq> ''replay'' \<Longrightarrow> keeps cli_data (cli_main E (verb # rest))"
  unfolding cli_main_def run_verb_def list.case by (simp only: if_False) (intro keeps_rules)

section \<open>Replay from the command line\<close>

text \<open>The dependencies of the replay primitive over the tables of the command line.\<close>

definition on_cli_xref :: "(pg_xref, 'a) io \<Rightarrow> (cli, 'a) io" where
  "on_cli_xref m = (\<lambda>w. case m (cl_xref w) of (r, t) \<Rightarrow> (r, w\<lparr>cl_xref := t\<rparr>))"

definition cli_xref_ops :: "cli xref_ops" where
  "cli_xref_ops = \<lparr>xo_claim = \<lambda>i. on_cli_xref (pg_claim i),
     xo_recordSuccess = \<lambda>t p i e. on_cli_xref (pg_recordSuccess t p i e),
     xo_recordFailure = \<lambda>p e. on_cli_xref (pg_recordFailure p e), xo_markIgnored = \<lambda>p. on_cli_xref (pg_markIgnored p),
     xo_lookup = \<lambda>p. on_cli_xref (pg_lookup p), xo_delete = \<lambda>p. on_cli_xref (pg_delete p)\<rparr>"

definition cli_replay_deps :: "cli_env \<Rightarrow> connection list \<Rightarrow> cli replay_deps" where
  "cli_replay_deps E conns = \<lparr>rd_findById = \<lambda>env cid. ret (find (\<lambda>c. cn_environment c = env \<and> connectionId c = cid) conns),
     rd_xref = cli_xref_ops, rd_enqueue = cli_enqueue E, rd_now = ret (ce_now E)\<rparr>"

definition cli_request :: "cli_env \<Rightarrow> replay_args \<Rightarrow> replay_request" where
  "cli_request E a = \<lparr>rr_environment = env_name E, rr_connectionId = ra_connectionId a, rr_orderGid = ra_orderGid a,
     rr_topic = map_option JStr (ra_topic a), rr_force = ra_force a\<rparr>"

lemma cli_deps_simps:
  "rd_findById (cli_replay_deps E conns) env cid = ret (find (\<lambda>c. cn_environment c = env \<and> connectionId c = cid) conns)"
  "xo_lookup (rd_xref (cli_replay_deps E conns)) p = on_cli_xref (pg_lookup p)"
  "xo_delete (rd_xref (cli_replay_deps E conns)) p = on_cli_xref (pg_delete p)"
  "rr_environment (cli_request E a) = env_name E" "rr_connectionId (cli_request E a) = ra_connectionId a"
  "rr_force (cli_request E a) = ra_force a"
  by (simp_all add: cli_replay_deps_def cli_xref_ops_def cli_request_def)

text \<open>What a command did to the tables and the queue, and whether it failed.\<close>

definition effect :: "(js_error + 'a) \<times> cli \<Rightarrow> js_error option \<times> pg_xref \<times> (string \<times> jsval) list \<times> pg_log_table
   \<times> attempt list \<times> snapshot list" where
  "effect p = ((case fst p of Inl e \<Rightarrow> Some e | Inr _ \<Rightarrow> None), cli_data (snd p))"

lemma cli_body_request: "cli_body E a conn = replay_body (cli_request E a) conn (ce_now E)"
  by (simp add: cli_body_def replay_body_def cli_request_def cli_topic_def cli_uri_def replay_uri_def split: option.split)

lemma effect_publish:
  "cli_data v = cli_data w \<Longrightarrow> effect (publish_cli E a conn p v) = effect (publish_replay (cli_replay_deps E conns) (cli_request E a) conn q w)"
  unfolding publish_cli_def publish_replay_def Let_def cli_replay_deps_def cli_body_request
  by (simp add: cli_request_def bnd_app cli_enqueue_def say_def effect_def cli_data_def split: option.split)

lemma published_exit: "cl_exit (snd (publish_cli E a conn p w)) = cl_exit w"
  by (simp add: publish_cli_def Let_def bnd_app cli_enqueue_def say_def split: option.split)

lemma publish_replay_answer: "fst (publish_replay deps req conn p w) \<noteq> Inr (RefusedAlreadySynced t)"
  by (simp add: publish_replay_def Let_def bnd_app split: prod.split sum.split)

definition replay_ready :: "cli_env \<Rightarrow> string list \<Rightarrow> replay_args \<Rightarrow> connection list \<Rightarrow> connection \<Rightarrow> bool" where
  "replay_ready E argv a conns conn \<longleftrightarrow> parseArgs argv = Inr a \<and> isEnvironment (JStr (env_name E))
     \<and> (\<exists>js. cli_required E ''DPI_CONNECTIONS_JSON'' = Inr js \<and> parseConnectionsConfig (ce_syntaxError E) js = Inr conns)
     \<and> set_str (ce_var E ''DPI_SERVICE_BUS_NAMESPACE'') \<and> list_all (\<lambda>k. set_str (ce_var E k)) [''DPI_PG_HOST'', ''DPI_PG_DATABASE'', ''DPI_PG_USER'']
     \<and> find (\<lambda>c. cn_environment c = env_name E \<and> connectionId c = ra_connectionId a) conns = Some conn"

lemma replayCommand_ready:
  assumes "replay_ready E argv a conns conn"
  shows "replayCommand E argv = replay_one E a conn"
proof -
  obtain n ns where ns: "ce_var E ''DPI_SERVICE_BUS_NAMESPACE'' = Some (n # ns)"
    using assms by (auto simp: replay_ready_def set_str_def split: option.splits) (metis list.exhaust)
  obtain js where js: "cli_required E ''DPI_CONNECTIONS_JSON'' = Inr js" "parseConnectionsConfig (ce_syntaxError E) js = Inr conns"
    using assms by (auto simp: replay_ready_def)
  have pool: "buildPool E = ret ()"
    using assms by (simp add: replay_ready_def buildPool_def db_required_def lift_sum_def ret_def bnd_def fun_eq_iff)
  show ?thesis
    using assms js ns
    by (simp add: replay_ready_def replayCommand_def resolveConnection_def cli_required_def pool lift_sum_def bnd_def ret_def fun_eq_iff)
qed

text \<open>
  C12: the command line replays by the same rules as the admin API. With a well-formed command, a known
  connection and the environment set, \<open>dpi replay\<close> does to the ledger and to the queue exactly what
  \<open>requestReplay\<close> does for the same order, topic and force flag, fails when it fails, and exits with 2
  exactly when that refuses a synced order.
\<close>

theorem cli_replay_is_requestReplay:
  assumes "replay_ready E argv a conns conn"
  shows "effect (replayCommand E argv w) = effect (requestReplay (cli_replay_deps E conns) (cli_request E a) w)
    \<and> (cl_exit w = None \<longrightarrow> (cl_exit (snd (replayCommand E argv w)) = Some 2 \<longleftrightarrow>
        (\<exists>target. fst (requestReplay (cli_replay_deps E conns) (cli_request E a) w) = Inr (RefusedAlreadySynced target))))"
proof -
  have key: "replay_key (cli_request E a) = cli_key E a" by (simp add: replay_key_def cli_request_def cli_key_def)
  have found: "requestReplay (cli_replay_deps E conns) (cli_request E a) = bnd (on_cli_xref (pg_lookup (cli_key E a)))
      (\<lambda>existing. case existing of None \<Rightarrow> publish_replay (cli_replay_deps E conns) (cli_request E a) conn None
       | Some r \<Rightarrow> (if xr_status r = Synced \<and> \<not> ra_force a then ret (RefusedAlreadySynced (xr_targetId r))
          else bnd (on_cli_xref (pg_delete (cli_key E a))) (\<lambda>_.
            publish_replay (cli_replay_deps E conns) (cli_request E a) conn (Some (xr_status r)))))"
    using assms unfolding requestReplay_def cli_deps_simps key by (simp add: replay_ready_def)
  let ?said = "w\<lparr>cl_out := cl_out w @ [newline @ heading E (''Replay '' @ ra_orderGid a @ '' on '' @ ra_connectionId a @ '' ('' @ env_name E @ '')'') @ newline]\<rparr>"
  show ?thesis
  proof (cases "pg_fetch (cli_key E a) (cl_xref w)")
    case None
    have cli: "replay_one E a conn w = publish_cli E a conn ''absent'' ?said"
      using None by (simp add: replay_one_def bnd_app say_def)
    have req: "requestReplay (cli_replay_deps E conns) (cli_request E a) w = publish_replay (cli_replay_deps E conns) (cli_request E a) conn None w"
      using None unfolding found by (simp add: bnd_app on_cli_xref_def pg_lookup_def)
    show ?thesis
      unfolding replayCommand_ready [OF assms] cli req
      using effect_publish [of ?said w E a conn "''absent''" conns None] published_exit [of E a conn "''absent''" ?said]
        publish_replay_answer [of "cli_replay_deps E conns" "cli_request E a" conn None w]
      by (auto simp: cli_data_def)
  next
    case (Some r)
    show ?thesis
    proof (cases "xr_status r = Synced \<and> \<not> ra_force a")
      case True
      then show ?thesis
        unfolding replayCommand_ready [OF assms] found using Some
        by (simp add: bnd_app on_cli_xref_def pg_lookup_def replay_one_def say_def effect_def cli_data_def)
    next
      case False
      let ?t = "filter (\<lambda>x. xr_parts x \<noteq> cli_key E a) (cl_xref w)"
      have cli: "replay_one E a conn w = publish_cli E a conn (xref_status_str (xr_status r)) (?said\<lparr>cl_xref := ?t\<rparr>)"
        using Some False by (auto simp: replay_one_def bnd_app say_def)
      have req: "requestReplay (cli_replay_deps E conns) (cli_request E a) w
          = publish_replay (cli_replay_deps E conns) (cli_request E a) conn (Some (xr_status r)) (w\<lparr>cl_xref := ?t\<rparr>)"
        using Some False unfolding found by (auto simp: bnd_app on_cli_xref_def pg_lookup_def pg_delete_def)
      show ?thesis
        unfolding replayCommand_ready [OF assms] cli req
        using effect_publish [of "?said\<lparr>cl_xref := ?t\<rparr>" "w\<lparr>cl_xref := ?t\<rparr>" E a conn "xref_status_str (xr_status r)" conns "Some (xr_status r)"]
          published_exit [of E a conn "xref_status_str (xr_status r)" "?said\<lparr>cl_xref := ?t\<rparr>"]
          publish_replay_answer [of "cli_replay_deps E conns" "cli_request E a" conn "Some (xr_status r)" "w\<lparr>cl_xref := ?t\<rparr>"]
        by (auto simp: cli_data_def)
    qed
  qed
qed

section \<open>A run\<close>

definition sample_cli_env :: cli_env where
  "sample_cli_env = \<lparr>ce_var = map_of [(''DPI_ENVIRONMENT'', ''dev''), (''DPI_PG_HOST'', ''h''), (''DPI_PG_DATABASE'', ''d''),
       (''DPI_PG_USER'', ''u''), (''DPI_SERVICE_BUS_NAMESPACE'', ''n''),
       (''DPI_CONNECTIONS_JSON'', json (JArr [JObj [(''environment'', JStr ''dev''), (''connectionId'', JStr ''c1''),
         (''shopifyStore'', JStr ''s''), (''shopifyAppTokenRef'', JStr ''a''), (''shopifyWebhookSecretRef'', JStr ''w''),
         (''nsAccountId'', JStr ''1''), (''nsSubsidiary'', JStr ''2''), (''baseCurrency'', JStr ''USD''),
         (''mapVersion'', JStr ''v1''), (''taxEngine'', JStr ''legacy''), (''orderTarget'', JStr ''sales_order'')]]))],
     ce_tty = False, ce_now = 0, ce_stamp = \<lambda>t. [], ce_send = \<lambda>_ _. None, ce_az = \<lambda>_. Inr [],
     ce_syntaxError = plain_error\<rparr>"

definition sample_argv :: "string list" where
  "sample_argv = [''100'', ''--connection'', ''c1'', ''--force'']"

definition empty_cli :: cli where
  "empty_cli = \<lparr>cl_out = [], cl_err = [], cl_exit = None, cl_xref = [], cl_touched = \<lambda>_. 0, cl_log = \<lparr>plt_rows = [], plt_seq = 0\<rparr>,
     cl_attempts = [], cl_snapshots = [], cl_queue = []\<rparr>"

definition sample_cli_connection :: connection where
  "sample_cli_connection = \<lparr>connectionId = ''c1'', cn_environment = ''dev'', shopifyStore = ''s'', shopifyAppTokenRef = ''a'',
     shopifyWebhookSecretRef = ''w'', nsAccountId = ''1'', nsSubsidiary = ''2'', nsLocation = None, baseCurrency = ''USD'',
     taxEngine = Legacy, orderTarget = SalesOrder, mapVersion = ''v1'', enabled = True, extraOrderHeaderMappings = None,
     defaultShipItemId = None, defaultItemId = None, defaultDiscountItemId = None, writeTagsOnImport = None,
     shopifyAddressIdField = None\<rparr>"

definition sample_replay_args :: replay_args where
  "sample_replay_args = \<lparr>ra_orderGid = ''gid://shopify/Order/100'', ra_connectionId = ''c1'', ra_force = True, ra_topic = None\<rparr>"

lemma sample_parse_args: "parseArgs sample_argv = Inr sample_replay_args"
  by code_simp

lemma sample_connections:
  "(case cli_required sample_cli_env ''DPI_CONNECTIONS_JSON'' of Inl e \<Rightarrow> Inl e | Inr js \<Rightarrow> parseConnectionsConfig (ce_syntaxError sample_cli_env) js)
    = Inr [sample_cli_connection]"
  by code_simp

lemma sample_replay_ready:
  "replay_ready sample_cli_env sample_argv sample_replay_args [sample_cli_connection] sample_cli_connection"
proof -
  obtain js where "cli_required sample_cli_env ''DPI_CONNECTIONS_JSON'' = Inr js"
      "parseConnectionsConfig (ce_syntaxError sample_cli_env) js = Inr [sample_cli_connection]"
    using sample_connections by (auto split: sum.splits)
  moreover have "env_name sample_cli_env = ''dev''" by (simp add: env_name_def sample_cli_env_def)
  ultimately show ?thesis
    by (auto simp: replay_ready_def sample_parse_args sample_cli_connection_def sample_replay_args_def set_str_def
        sample_cli_env_def ENVIRONMENTS_def)
qed

theorem cli_replay_is_requestReplay_witness:
  "effect (replayCommand sample_cli_env sample_argv empty_cli)
    = effect (requestReplay (cli_replay_deps sample_cli_env [sample_cli_connection]) (cli_request sample_cli_env sample_replay_args) empty_cli)"
  using cli_replay_is_requestReplay [OF sample_replay_ready, of empty_cli] by blast

end
