(* ===== verification/ShopifyHttp.thy ===== *)
theory ShopifyHttp
  imports ShopifyTokens Catchup Reconcile
begin

text \<open>
  The gateway to the Shopify Admin API, \<open>packages/shopify-client/src/http-gateway.ts\<close>: the documents it
  sends, the one call all methods make, and the methods. What a reply means to the code is read off the
  parsed JSON; a reply that does not have the shape its document asks for (which the source only casts) is
  an error, where the source would fail or go on with values of another type.
\<close>

section \<open>The documents\<close>

definition document :: "string list \<Rightarrow> string" where
  "document rows = join [CHR 0x0A] ([] # rows @ [[]])"

definition ORDERS_AGGREGATE_QUERY :: string where
  "ORDERS_AGGREGATE_QUERY = document
    [''  query OrdersAggregate($first: Int!, $query: String!, $after: String) {'',
     ''    orders(first: $first, query: $query, sortKey: PROCESSED_AT, reverse: false, after: $after) {'',
     ''      edges {'',
     ''        cursor'',
     ''        node { totalPriceSet { presentmentMoney { amount currencyCode } } }'',
     ''      }'',
     ''      pageInfo { hasNextPage endCursor }'',
     ''    }'',
     ''  }'']"

definition ORDERS_UPDATED_SINCE_QUERY :: string where
  "ORDERS_UPDATED_SINCE_QUERY = document
    [''  query OrdersUpdatedSince($first: Int!, $query: String!) {'',
     ''    orders(first: $first, query: $query, sortKey: UPDATED_AT, reverse: false) {'',
     ''      edges {'',
     ''        node { id updatedAt }'',
     ''      }'',
     ''    }'',
     ''  }'']"

definition TAGS_ADD_MUTATION :: string where
  "TAGS_ADD_MUTATION = document
    [''  mutation TagsAdd($id: ID!, $tags: [String!]!) {'',
     ''    tagsAdd(id: $id, tags: $tags) {'',
     ''      node { ... on Order { id tags } }'',
     ''      userErrors { field message code }'',
     ''    }'',
     ''  }'']"

definition ORDER_QUERY :: string where
  "ORDER_QUERY = document
    [''  query Order($id: ID!) {'',
     ''    order(id: $id) {'',
     ''      id'',
     ''      name'',
     ''      createdAt'',
     ''      updatedAt'',
     ''      processedAt'',
     ''      currencyCode'',
     ''      displayFinancialStatus'',
     ''      displayFulfillmentStatus'',
     ''      test'',
     ''      note'',
     ''      tags'',
     ''      totalPriceSet      { presentmentMoney { amount currencyCode } }'',
     ''      subtotalPriceSet   { presentmentMoney { amount currencyCode } }'',
     ''      totalTaxSet        { presentmentMoney { amount currencyCode } }'',
     ''      totalShippingPriceSet { presentmentMoney { amount currencyCode } }'',
     ''      totalDiscountsSet  { presentmentMoney { amount currencyCode } }'',
     ''      customer {'',
     ''        id'',
     ''        email'',
     ''        firstName'',
     ''        lastName'',
     ''        defaultAddress {'',
     ''          id firstName lastName company address1 address2 city province provinceCode country countryCode zip phone'',
     ''        }'',
     ''      }'',
     ''      billingAddress {'',
     ''        id firstName lastName company address1 address2 city province provinceCode country countryCode zip phone'',
     ''      }'',
     ''      shippingAddress {'',
     ''        id firstName lastName company address1 address2 city province provinceCode country countryCode zip phone'',
     ''      }'',
     ''      lineItems(first: 250) {'',
     ''        edges {'',
     ''          node {'',
     ''            id'',
     ''            title'',
     ''            sku'',
     ''            quantity'',
     ''            variant { id }'',
     ''            originalUnitPriceSet { presentmentMoney { amount currencyCode } }'',
     ''            discountedTotalSet   { presentmentMoney { amount currencyCode } }'',
     ''            discountAllocations {'',
     ''              allocatedAmountSet { presentmentMoney { amount currencyCode } }'',
     ''              discountApplication { ... on DiscountCodeApplication { code } }'',
     ''            }'',
     ''          }'',
     ''        }'',
     ''      }'',
     ''      shippingLines(first: 25) {'',
     ''        edges {'',
     ''          node {'',
     ''            id'',
     ''            title'',
     ''            source'',
     ''            carrierIdentifier'',
     ''            originalPriceSet { presentmentMoney { amount currencyCode } }'',
     ''            taxLines { title rate priceSet { presentmentMoney { amount currencyCode } } }'',
     ''          }'',
     ''        }'',
     ''      }'',
     ''      taxLines { title rate priceSet { presentmentMoney { amount currencyCode } } }'',
     ''      transactions(first: 50) {'',
     ''        id'',
     ''        kind'',
     ''        status'',
     ''        gateway'',
     ''        processedAt'',
     ''        amountSet { presentmentMoney { amount currencyCode } }'',
     ''      }'',
     ''      physicalLocation { id }'',
     ''      risk { recommendation }'',
     ''    }'',
     ''  }'']"

section \<open>One call\<close>

record 'x shopify_http =
  sg_env :: "'x http_env"
  sg_getSecret :: "string \<Rightarrow> ('x, string) io"
  sg_apiVersion :: string
  sg_buffer :: int

definition resolveAccessToken :: "'x shopify_http \<Rightarrow> connection \<Rightarrow> ('x shop_world, string) io" where
  "resolveAccessToken G conn =
     bnd (shop_out (sg_getSecret G (shopifyAppTokenRef conn))) (\<lambda>clientId.
     bnd (shop_out (sg_getSecret G (shopifyWebhookSecretRef conn))) (\<lambda>clientSecret.
       getAccessToken (sg_env G) (sg_buffer G) \<lparr>cr_shopDomain = shopifyStore conn, cr_clientId = clientId,
         cr_clientSecret = clientSecret\<rparr>))"

definition gql_request :: "'x shopify_http \<Rightarrow> connection \<Rightarrow> string \<Rightarrow> string \<Rightarrow> jsobj \<Rightarrow> http_request" where
  "gql_request G conn token doc variables =
     \<lparr>hq_url = ''https://'' @ shopifyStore conn @ ''/admin/api/'' @ sg_apiVersion G @ ''/graphql.json'',
      hq_method = ''POST'',
      hq_headers = [(''X-Shopify-Access-Token'', token), (''Content-Type'', ''application/json''),
        (''Accept'', ''application/json'')],
      hq_body = json (JObj [(''query'', JStr doc), (''variables'', JObj variables)])\<rparr>"

text \<open>\<open>json.errors.map(e => e.message ?? '?').join('; ')\<close>\<close>

fun error_messages :: "jsval list \<Rightarrow> js_error + string list" where
  "error_messages [] = Inr []"
| "error_messages (e # es) = (case member_of e ''message'' of
     Inl err \<Rightarrow> Inl err
   | Inr m \<Rightarrow> (case error_messages es of Inl err \<Rightarrow> Inl err
       | Inr ms \<Rightarrow> Inr ((if nullish m then ''?'' else to_str m) # ms)))"

text \<open>\<open>json.errors && json.errors.length > 0\<close>, for an array of errors.\<close>

definition gql_errors :: "string \<Rightarrow> jsval \<Rightarrow> js_error + unit" where
  "gql_errors verb v = (case member_of v ''errors'' of
     Inl err \<Rightarrow> Inl err
   | Inr (JArr (e # es)) \<Rightarrow> (case error_messages (e # es) of Inl err \<Rightarrow> Inl err
       | Inr ms \<Rightarrow> Inl (plain_error (''ShopifyHttpGateway.'' @ verb @ '': GraphQL errors: '' @ join ''; '' ms)))
   | Inr _ \<Rightarrow> Inr ())"

definition http_message :: "string \<Rightarrow> connection \<Rightarrow> http_reply \<Rightarrow> string" where
  "http_message verb conn res = ''ShopifyHttpGateway.'' @ verb @ '': '' @ shopifyStore conn @ '' returned ''
     @ show_int (hp_status res) @ '': '' @ reply_text res"

definition gql_reply :: "'x shopify_http \<Rightarrow> string \<Rightarrow> connection \<Rightarrow> http_reply \<Rightarrow> js_error + jsval" where
  "gql_reply G verb conn res =
     (if \<not> reply_ok res then Inl (plain_error (http_message verb conn res))
      else (case reply_json (sg_env G) res of Inl err \<Rightarrow> Inl err
        | Inr v \<Rightarrow> (case gql_errors verb v of Inl err \<Rightarrow> Inl err | Inr _ \<Rightarrow> Inr v)))"

definition gql_call ::
  "'x shopify_http \<Rightarrow> string \<Rightarrow> connection \<Rightarrow> string \<Rightarrow> string \<Rightarrow> jsobj \<Rightarrow> ('x shop_world, jsval) io" where
  "gql_call G verb conn token doc variables =
     bnd (shop_out (he_fetch (sg_env G) (gql_request G conn token doc variables)))
       (\<lambda>res. lift_sum (gql_reply G verb conn res))"

text \<open>\<open>v?.a?.b\<close>\<close>

fun chain :: "jsval \<Rightarrow> string list \<Rightarrow> jsval" where
  "chain v [] = v"
| "chain v (k # ks) = chain (get_prop v k) ks"

definition elements :: "jsval \<Rightarrow> jsval list" where
  "elements v = (case v of JArr xs \<Rightarrow> xs | _ \<Rightarrow> [])"

section \<open>The order of a reply\<close>

definition text_at :: "jsval \<Rightarrow> string \<Rightarrow> string" where
  "text_at v k = (case get_prop v k of JStr s \<Rightarrow> s | _ \<Rightarrow> [])"

definition opt_text_at :: "jsval \<Rightarrow> string \<Rightarrow> string option" where
  "opt_text_at v k = (case get_prop v k of JStr s \<Rightarrow> Some s | _ \<Rightarrow> None)"

text \<open>
  \<open>if (a.k !== undefined) out.k = a.k\<close>: what the address, the customer and the shipping line take over. A
  \<open>null\<close> is not left out.
\<close>

definition field_at :: "jsval \<Rightarrow> string \<Rightarrow> text_field" where
  "field_at v k = (case get_prop v k of JStr s \<Rightarrow> Text s | JNull \<Rightarrow> NullText | _ \<Rightarrow> Absent)"

definition nodes_at :: "jsval \<Rightarrow> string \<Rightarrow> jsval list" where
  "nodes_at v k = map (\<lambda>e. get_prop e ''node'') (elements (chain v [k, ''edges'']))"

definition money_of :: "jsval \<Rightarrow> money" where
  "money_of bag = (let m = get_prop bag ''presentmentMoney'' in
     \<lparr>amount = text_at m ''amount'', currencyCode = text_at m ''currencyCode''\<rparr>)"

definition mapAddress :: "jsval \<Rightarrow> address" where
  "mapAddress a = \<lparr>ad_id = field_at a ''id'', ad_firstName = field_at a ''firstName'',
     ad_lastName = field_at a ''lastName'', ad_company = field_at a ''company'',
     ad_address1 = field_at a ''address1'', ad_address2 = field_at a ''address2'',
     ad_city = field_at a ''city'', ad_province = field_at a ''province'',
     ad_provinceCode = field_at a ''provinceCode'', ad_country = field_at a ''country'',
     ad_countryCode = field_at a ''countryCode'', ad_zip = field_at a ''zip'', ad_phone = field_at a ''phone''\<rparr>"

definition address_at :: "jsval \<Rightarrow> string \<Rightarrow> address option" where
  "address_at v k = (if truthy (get_prop v k) then Some (mapAddress (get_prop v k)) else None)"

definition mapCustomer :: "jsval \<Rightarrow> shopify_customer" where
  "mapCustomer c = \<lparr>cu_id = text_at c ''id'', cu_email = field_at c ''email'',
     cu_firstName = field_at c ''firstName'', cu_lastName = field_at c ''lastName'',
     cu_defaultAddress = address_at c ''defaultAddress''\<rparr>"

definition mapTaxLine :: "jsval \<Rightarrow> tax_line" where
  "mapTaxLine t = \<lparr>tl_title = text_at t ''title'', tl_rate = to_number (get_prop t ''rate''),
     tl_price = money_of (get_prop t ''priceSet'')\<rparr>"

definition mapShippingLine :: "jsval \<Rightarrow> shipping_line" where
  "mapShippingLine n = \<lparr>sh_id = text_at n ''id'', sh_title = text_at n ''title'', sh_source = field_at n ''source'',
     sh_carrierIdentifier = field_at n ''carrierIdentifier'', sh_price = money_of (get_prop n ''originalPriceSet''),
     sh_taxLines = map mapTaxLine (elements (get_prop n ''taxLines''))\<rparr>"

definition allocation_of :: "jsval \<Rightarrow> money \<times> string option" where
  "allocation_of a = (money_of (get_prop a ''allocatedAmountSet''), opt_text_at (get_prop a ''discountApplication'') ''code'')"

definition line_item_of :: "jsval \<Rightarrow> gql_line_item" where
  "line_item_of n = \<lparr>gl_id = text_at n ''id'', gl_title = text_at n ''title'', gl_sku = opt_text_at n ''sku'',
     gl_quantity = (case get_prop n ''quantity'' of JNum (Fin q) \<Rightarrow> \<lfloor>q\<rfloor> | _ \<Rightarrow> 0),
     gl_variant = opt_text_at (get_prop n ''variant'') ''id'',
     gl_originalUnitPriceSet = money_of (get_prop n ''originalUnitPriceSet''),
     gl_discountedTotalSet = money_of (get_prop n ''discountedTotalSet''),
     gl_discountAllocations = map allocation_of (elements (get_prop n ''discountAllocations''))\<rparr>"

definition transaction_of :: "jsval \<Rightarrow> gql_transaction" where
  "transaction_of t = \<lparr>gt_id = text_at t ''id'', gt_kind = text_at t ''kind'', gt_status = text_at t ''status'',
     gt_gateway = text_at t ''gateway'', gt_processedAt = text_at t ''processedAt'',
     gt_amountSet = money_of (get_prop t ''amountSet'')\<rparr>"

definition gql_order_of :: "jsval \<Rightarrow> gql_order" where
  "gql_order_of v = \<lparr>go_id = text_at v ''id'', go_name = text_at v ''name'', go_createdAt = text_at v ''createdAt'',
     go_updatedAt = text_at v ''updatedAt'', go_processedAt = text_at v ''processedAt'',
     go_currencyCode = text_at v ''currencyCode'', go_displayFinancialStatus = text_at v ''displayFinancialStatus'',
     go_displayFulfillmentStatus = opt_text_at v ''displayFulfillmentStatus'', go_test = truthy (get_prop v ''test''),
     go_note = opt_text_at v ''note'',
     go_tags = (if truthy (get_prop v ''tags'') then Some (map to_str (elements (get_prop v ''tags''))) else None),
     go_totalPriceSet = money_of (get_prop v ''totalPriceSet''),
     go_subtotalPriceSet = money_of (get_prop v ''subtotalPriceSet''),
     go_totalTaxSet = money_of (get_prop v ''totalTaxSet''),
     go_totalShippingPriceSet = money_of (get_prop v ''totalShippingPriceSet''),
     go_totalDiscountsSet = money_of (get_prop v ''totalDiscountsSet''),
     go_customer = (if truthy (get_prop v ''customer'') then Some (mapCustomer (get_prop v ''customer'')) else None),
     go_billingAddress = address_at v ''billingAddress'', go_shippingAddress = address_at v ''shippingAddress'',
     go_lineItems = map line_item_of (nodes_at v ''lineItems''),
     go_shippingLines = map mapShippingLine (nodes_at v ''shippingLines''),
     go_taxLines = map mapTaxLine (elements (get_prop v ''taxLines'')),
     go_transactions = map transaction_of (elements (get_prop v ''transactions'')),
     go_physicalLocation = opt_text_at (get_prop v ''physicalLocation'') ''id'',
     go_risk = (if truthy (get_prop v ''risk'') then Some (opt_text_at (get_prop v ''risk'') ''recommendation'') else None)\<rparr>"

text \<open>The shape the interfaces of the source give the reply.\<close>

definition is_text :: "jsval \<Rightarrow> bool" where
  "is_text v \<longleftrightarrow> (case v of JStr _ \<Rightarrow> True | _ \<Rightarrow> False)"

definition is_opt_text :: "jsval \<Rightarrow> bool" where
  "is_opt_text v \<longleftrightarrow> nullish v \<or> is_text v"

definition is_array :: "(jsval \<Rightarrow> bool) \<Rightarrow> jsval \<Rightarrow> bool" where
  "is_array P v \<longleftrightarrow> (case v of JArr xs \<Rightarrow> list_all P xs | _ \<Rightarrow> False)"

definition is_number :: "jsval \<Rightarrow> bool" where
  "is_number v \<longleftrightarrow> (case v of JNum _ \<Rightarrow> True | _ \<Rightarrow> False)"

definition is_integer :: "jsval \<Rightarrow> bool" where
  "is_integer v \<longleftrightarrow> (case v of JNum (Fin q) \<Rightarrow> q = of_int \<lfloor>q\<rfloor> | _ \<Rightarrow> False)"

definition texts_in :: "jsval \<Rightarrow> string list \<Rightarrow> bool" where
  "texts_in v ks \<longleftrightarrow> list_all (\<lambda>k. is_text (get_prop v k)) ks"

definition opt_texts_in :: "jsval \<Rightarrow> string list \<Rightarrow> bool" where
  "opt_texts_in v ks \<longleftrightarrow> list_all (\<lambda>k. is_opt_text (get_prop v k)) ks"

definition is_money_bag :: "jsval \<Rightarrow> bool" where
  "is_money_bag v \<longleftrightarrow> texts_in (get_prop v ''presentmentMoney'') [''amount'', ''currencyCode'']"

definition money_bags_in :: "jsval \<Rightarrow> string list \<Rightarrow> bool" where
  "money_bags_in v ks \<longleftrightarrow> list_all (\<lambda>k. is_money_bag (get_prop v k)) ks"

definition is_tax_line :: "jsval \<Rightarrow> bool" where
  "is_tax_line t \<longleftrightarrow> texts_in t [''title''] \<and> is_number (get_prop t ''rate'') \<and> money_bags_in t [''priceSet'']"

definition address_fields :: "string list" where
  "address_fields = [''id'', ''firstName'', ''lastName'', ''company'', ''address1'', ''address2'', ''city'',
     ''province'', ''provinceCode'', ''country'', ''countryCode'', ''zip'', ''phone'']"

text \<open>Nothing (\<open>null\<close> or absent), or an object with \<open>P\<close>.\<close>

definition opt_object :: "(jsval \<Rightarrow> bool) \<Rightarrow> jsval \<Rightarrow> bool" where
  "opt_object P v \<longleftrightarrow> nullish v \<or> (is_obj v \<and> P v)"

definition is_address :: "jsval \<Rightarrow> bool" where
  "is_address a \<longleftrightarrow> opt_texts_in a address_fields"

definition is_customer :: "jsval \<Rightarrow> bool" where
  "is_customer c \<longleftrightarrow> texts_in c [''id''] \<and> opt_texts_in c [''email'', ''firstName'', ''lastName'']
     \<and> opt_object is_address (get_prop c ''defaultAddress'')"

definition is_allocation :: "jsval \<Rightarrow> bool" where
  "is_allocation a \<longleftrightarrow> money_bags_in a [''allocatedAmountSet'']
     \<and> opt_object (\<lambda>x. opt_texts_in x [''code'']) (get_prop a ''discountApplication'')"

definition is_line_item :: "jsval \<Rightarrow> bool" where
  "is_line_item n \<longleftrightarrow> texts_in n [''id'', ''title''] \<and> opt_texts_in n [''sku''] \<and> is_integer (get_prop n ''quantity'')
     \<and> opt_object (\<lambda>x. texts_in x [''id'']) (get_prop n ''variant'')
     \<and> money_bags_in n [''originalUnitPriceSet'', ''discountedTotalSet'']
     \<and> is_array is_allocation (get_prop n ''discountAllocations'')"

definition is_shipping_line :: "jsval \<Rightarrow> bool" where
  "is_shipping_line n \<longleftrightarrow> texts_in n [''id'', ''title''] \<and> opt_texts_in n [''source'', ''carrierIdentifier'']
     \<and> money_bags_in n [''originalPriceSet''] \<and> is_array is_tax_line (get_prop n ''taxLines'')"

definition is_transaction :: "jsval \<Rightarrow> bool" where
  "is_transaction t \<longleftrightarrow> texts_in t [''id'', ''kind'', ''status'', ''gateway'', ''processedAt''] \<and> money_bags_in t [''amountSet'']"

definition is_order :: "jsval \<Rightarrow> bool" where
  "is_order v \<longleftrightarrow>
     texts_in v [''id'', ''name'', ''createdAt'', ''updatedAt'', ''processedAt'', ''currencyCode'', ''displayFinancialStatus'']
     \<and> opt_texts_in v [''displayFulfillmentStatus'', ''note''] \<and> get_prop v ''displayFulfillmentStatus'' \<noteq> JUndef
     \<and> (case get_prop v ''test'' of JBool _ \<Rightarrow> True | _ \<Rightarrow> False)
     \<and> (nullish (get_prop v ''tags'') \<or> is_array is_text (get_prop v ''tags''))
     \<and> money_bags_in v [''totalPriceSet'', ''subtotalPriceSet'', ''totalTaxSet'', ''totalShippingPriceSet'', ''totalDiscountsSet'']
     \<and> opt_object is_customer (get_prop v ''customer'')
     \<and> opt_object is_address (get_prop v ''billingAddress'') \<and> opt_object is_address (get_prop v ''shippingAddress'')
     \<and> is_array (\<lambda>e. is_line_item (get_prop e ''node'')) (chain v [''lineItems'', ''edges''])
     \<and> is_array (\<lambda>e. is_shipping_line (get_prop e ''node'')) (chain v [''shippingLines'', ''edges''])
     \<and> is_array is_tax_line (get_prop v ''taxLines'') \<and> is_array is_transaction (get_prop v ''transactions'')
     \<and> opt_object (\<lambda>x. texts_in x [''id'']) (get_prop v ''physicalLocation'')
     \<and> opt_object (\<lambda>x. opt_texts_in x [''recommendation'']) (get_prop v ''risk'')"

definition shape_error :: js_error where
  "shape_error = type_error ''the reply does not have the shape of its document''"

section \<open>The methods\<close>

definition http_getOrder :: "'x shopify_http \<Rightarrow> connection \<Rightarrow> string \<Rightarrow> ('x shop_world, shopify_order) io" where
  "http_getOrder G conn gid =
     bnd (resolveAccessToken G conn) (\<lambda>token.
     bnd (gql_call G ''getOrder'' conn token ORDER_QUERY [(''id'', JStr gid)]) (\<lambda>v.
       let order = chain v [''data'', ''order''] in
       if \<not> truthy order then throw (OrderNotFoundError gid (shopifyStore conn))
       else if is_order order then ret (mapGraphQLOrder (gql_order_of order))
       else throw shape_error))"

definition is_summary :: "jsval \<Rightarrow> bool" where
  "is_summary e \<longleftrightarrow> texts_in (get_prop e ''node'') [''id'', ''updatedAt'']"

definition summary_of :: "jsval \<Rightarrow> order_summary" where
  "summary_of e = \<lparr>os_id = text_at (get_prop e ''node'') ''id'', os_updatedAt = text_at (get_prop e ''node'') ''updatedAt''\<rparr>"

definition since_query :: "string \<Rightarrow> string" where
  "since_query since = ''updated_at:>='' @ quoted since"

definition http_listOrdersUpdatedSince ::
  "'x shopify_http \<Rightarrow> connection \<Rightarrow> string \<Rightarrow> nat option \<Rightarrow> ('x shop_world, order_summary list) io" where
  "http_listOrdersUpdatedSince G conn since limit =
     bnd (resolveAccessToken G conn) (\<lambda>token.
     bnd (gql_call G ''listOrdersUpdatedSince'' conn token ORDERS_UPDATED_SINCE_QUERY
            [(''first'', JNum (of_integer (case limit of None \<Rightarrow> 250 | Some n \<Rightarrow> int n))), (''query'', JStr (since_query since))])
       (\<lambda>v. let edges = elements (chain v [''data'', ''orders'', ''edges'']) in
          if list_all is_summary edges then ret (map summary_of edges) else throw shape_error))"

text \<open>A window of half-open bounds, without test orders.\<close>

definition window_query :: "string \<Rightarrow> string \<Rightarrow> string" where
  "window_query from to = ''processed_at:>='' @ quoted from @ '' processed_at:<'' @ quoted to @ '' test:false''"

type_synonym tally = "nat \<times> (string \<times> jsnum) list"

definition edge_money :: "jsval \<Rightarrow> money" where
  "edge_money e = money_of (chain e [''node'', ''totalPriceSet''])"

definition add_edge :: "tally \<Rightarrow> money \<Rightarrow> tally" where
  "add_edge acc m = (case acc of (n, totals) \<Rightarrow>
     let amt = parse_float (amount m); cur = currencyCode m in
     (n + 1, if is_finite_num amt
        then AList.update cur (num_add (case map_of totals cur of None \<Rightarrow> Fin 0 | Some t \<Rightarrow> t) amt) totals
        else totals))"

definition agg_variables :: "string \<Rightarrow> string option \<Rightarrow> jsobj" where
  "agg_variables q cursor = [(''first'', JNum (Fin 250)), (''query'', JStr q),
     (''after'', (case cursor of None \<Rightarrow> JNull | Some c \<Rightarrow> JStr c))]"

text \<open>\<open>!pageInfo?.hasNextPage || !pageInfo.endCursor\<close> ends the loop.\<close>

definition next_page :: "jsval \<Rightarrow> string option" where
  "next_page v = (let info = chain v [''data'', ''orders'', ''pageInfo''] in
     if truthy (get_prop info ''hasNextPage'') \<and> truthy (get_prop info ''endCursor'')
     then Some (to_str (get_prop info ''endCursor'')) else None)"

definition is_total_edge :: "jsval \<Rightarrow> bool" where
  "is_total_edge e \<longleftrightarrow> is_money_bag (chain e [''node'', ''totalPriceSet''])"

definition max_pages :: nat where
  "max_pages = 40"

text \<open>The page loop; the first argument is the number of pages it may still ask for.\<close>

fun aggregate_pages ::
  "nat \<Rightarrow> 'x shopify_http \<Rightarrow> connection \<Rightarrow> string \<Rightarrow> string \<Rightarrow> string option \<Rightarrow> tally \<Rightarrow> ('x shop_world, tally) io" where
  "aggregate_pages 0 G conn token q cursor acc = ret acc"
| "aggregate_pages (Suc n) G conn token q cursor acc =
     bnd (gql_call G ''getDailyOrderAggregate'' conn token ORDERS_AGGREGATE_QUERY (agg_variables q cursor)) (\<lambda>v.
       let edges = elements (chain v [''data'', ''orders'', ''edges'']) in
       if \<not> list_all is_total_edge edges then throw shape_error
       else (let acc' = foldl add_edge acc (map edge_money edges) in
         case next_page v of None \<Rightarrow> ret acc'
         | Some c \<Rightarrow> aggregate_pages n G conn token q (Some c) acc'))"

definition aggregate_of :: "tally \<Rightarrow> order_aggregate" where
  "aggregate_of acc = \<lparr>oa_count = fst acc, oa_totals = map (\<lambda>(cur, t). (cur, to_fixed2 t)) (snd acc)\<rparr>"

definition http_getDailyOrderAggregate ::
  "'x shopify_http \<Rightarrow> connection \<Rightarrow> string \<Rightarrow> string \<Rightarrow> ('x shop_world, order_aggregate) io" where
  "http_getDailyOrderAggregate G conn from to =
     bnd (resolveAccessToken G conn) (\<lambda>token.
     bnd (aggregate_pages max_pages G conn token (window_query from to) None (0, []))
       (\<lambda>acc. ret (aggregate_of acc)))"

text \<open>One user error: \<open>field: message (code)\<close>.\<close>

definition user_error_text :: "jsval \<Rightarrow> string" where
  "user_error_text e = (let part = (\<lambda>k. if nullish (get_prop e k) then ''?'' else to_str (get_prop e k)) in
     join ''.'' (elem_str (elements (get_prop e ''field''))) @ '': '' @ part ''message'' @ '' ('' @ part ''code'' @ '')'')"

definition http_tagOrder :: "'x shopify_http \<Rightarrow> connection \<Rightarrow> string \<Rightarrow> string list \<Rightarrow> ('x shop_world, string list) io" where
  "http_tagOrder G conn gid tags =
     (if tags = [] then ret []
      else bnd (resolveAccessToken G conn) (\<lambda>token.
        bnd (gql_call G ''tagOrder'' conn token TAGS_ADD_MUTATION [(''id'', JStr gid), (''tags'', JArr (map JStr tags))]) (\<lambda>v.
          let user_errors = elements (chain v [''data'', ''tagsAdd'', ''userErrors'']) in
          if \<not> list_all is_obj user_errors then throw shape_error
          else if list_ex (\<lambda>e. get_prop e ''code'' = JStr ''NOT_FOUND'') user_errors
            then throw (OrderNotFoundError gid (shopifyStore conn))
          else if user_errors \<noteq> [] then throw (plain_error (''ShopifyHttpGateway.tagOrder: userErrors: ''
              @ join ''; '' (map user_error_text user_errors)))
          else ret (map to_str (elements (chain v [''data'', ''tagsAdd'', ''node'', ''tags'']))))))"

end
