(* ===== verification/ShopifyFake.thy ===== *)
theory ShopifyFake
  imports ShopifyHttp Producers
begin

text \<open>
  The in-memory gateway, \<open>packages/shopify-client/src/fake-gateway.ts\<close>, the contract of the order feed that
  \<open>gateway.ts\<close> asks of every gateway, and what the catch-up poller gets from it.
\<close>

section \<open>The in-memory gateway\<close>

text \<open>
  A tag set is kept in insertion order. \<open>fs_tagOrderImpl\<close> and \<open>fs_verifier\<close> are what a test puts in.
\<close>

record fake_shop =
  fs_orders :: "(string \<times> shopify_order) list"
  fs_tags :: "(string \<times> string list) list"
  fs_verifier :: "string \<Rightarrow> string \<Rightarrow> string \<Rightarrow> bool"
  fs_tagOrderImpl :: "(connection \<Rightarrow> string \<Rightarrow> string list \<Rightarrow> js_error + string list) option"

definition new_fake_shop :: fake_shop where
  "new_fake_shop = \<lparr>fs_orders = [], fs_tags = [], fs_verifier = (\<lambda>_ _ _. True), fs_tagOrderImpl = None\<rparr>"

definition seedOrder :: "shopify_order \<Rightarrow> fake_shop \<Rightarrow> fake_shop" where
  "seedOrder so w = w\<lparr>fs_orders := AList.update (so_id so) so (fs_orders w)\<rparr>"

definition setVerifier :: "(string \<Rightarrow> string \<Rightarrow> string \<Rightarrow> bool) \<Rightarrow> fake_shop \<Rightarrow> fake_shop" where
  "setVerifier f w = w\<lparr>fs_verifier := f\<rparr>"

definition setTagOrderImpl ::
  "(connection \<Rightarrow> string \<Rightarrow> string list \<Rightarrow> js_error + string list) \<Rightarrow> fake_shop \<Rightarrow> fake_shop" where
  "setTagOrderImpl f w = w\<lparr>fs_tagOrderImpl := Some f\<rparr>"

definition fake_verifyWebhook :: "string \<Rightarrow> string \<Rightarrow> string \<Rightarrow> fake_shop \<Rightarrow> bool" where
  "fake_verifyWebhook rawBody hmac secret w = fs_verifier w rawBody hmac secret"

definition fake_getOrder :: "connection \<Rightarrow> string \<Rightarrow> (fake_shop, shopify_order) io" where
  "fake_getOrder conn gid = (\<lambda>w. case map_of (fs_orders w) gid of
     None \<Rightarrow> (Inl (OrderNotFoundError gid (shopifyStore conn)), w)
   | Some so \<Rightarrow> (Inr so, w))"

definition tags_of :: "fake_shop \<Rightarrow> string \<Rightarrow> string list" where
  "tags_of w gid = (case map_of (fs_tags w) gid of None \<Rightarrow> [] | Some ts \<Rightarrow> ts)"

definition getTags :: "fake_shop \<Rightarrow> string \<Rightarrow> string list" where
  "getTags w gid = sort (tags_of w gid)"

definition add_tag :: "string list \<Rightarrow> string \<Rightarrow> string list" where
  "add_tag ts t = (if t \<in> set ts then ts else ts @ [t])"

definition fake_tagOrder :: "connection \<Rightarrow> string \<Rightarrow> string list \<Rightarrow> (fake_shop, string list) io" where
  "fake_tagOrder conn gid tags = (\<lambda>w. case fs_tagOrderImpl w of
     Some f \<Rightarrow> (f conn gid tags, w)
   | None \<Rightarrow> (if map_of (fs_orders w) gid = None then (Inl (OrderNotFoundError gid (shopifyStore conn)), w)
       else (let ts = foldl add_tag (tags_of w gid) tags
         in (Inr (sort ts), w\<lparr>fs_tags := AList.update gid ts (fs_tags w)\<rparr>))))"

text \<open>The time of an update; orders whose time does not parse are in no page (\<open>NaN >= since\<close> is false).\<close>

definition updated_since :: "int \<Rightarrow> shopify_order \<Rightarrow> bool" where
  "updated_since s so \<longleftrightarrow> (case date_parse (so_updatedAt so) of None \<Rightarrow> False | Some t \<Rightarrow> s \<le> t)"

definition order_summary_of :: "shopify_order \<Rightarrow> order_summary" where
  "order_summary_of so = \<lparr>os_id = so_id so, os_updatedAt = so_updatedAt so\<rparr>"

definition fake_page :: "fake_shop \<Rightarrow> int \<Rightarrow> nat \<Rightarrow> order_summary list" where
  "fake_page w s n = map order_summary_of (take n
     (sort_key (\<lambda>so. the (date_parse (so_updatedAt so))) (filter (updated_since s) (map snd (fs_orders w)))))"

definition fake_listOrdersUpdatedSince :: "string \<Rightarrow> nat option \<Rightarrow> (fake_shop, order_summary list) io" where
  "fake_listOrdersUpdatedSince since limit = (\<lambda>w. case date_parse since of
     None \<Rightarrow> (Inl (plain_error (''FakeShopifyGateway.listOrdersUpdatedSince: '' @ quoted ''since''
       @ '' not parseable: '' @ since)), w)
   | Some s \<Rightarrow> (Inr (fake_page w s (case limit of None \<Rightarrow> 250 | Some n \<Rightarrow> n)), w))"

definition processed_in :: "int \<Rightarrow> int \<Rightarrow> shopify_order \<Rightarrow> bool" where
  "processed_in a b so \<longleftrightarrow> \<not> so_test so
     \<and> (case date_parse (so_processedAt so) of None \<Rightarrow> False | Some t \<Rightarrow> a \<le> t \<and> t < b)"

definition fake_matching :: "fake_shop \<Rightarrow> int \<Rightarrow> int \<Rightarrow> shopify_order list" where
  "fake_matching w a b = filter (processed_in a b) (map snd (fs_orders w))"

definition fake_getDailyOrderAggregate :: "string \<Rightarrow> string \<Rightarrow> (fake_shop, order_aggregate) io" where
  "fake_getDailyOrderAggregate from to = (\<lambda>w. case (date_parse from, date_parse to) of
     (Some a, Some b) \<Rightarrow> (let matching = fake_matching w a b in
       (Inr \<lparr>oa_count = length matching,
         oa_totals = map (\<lambda>(cur, t). (cur, to_fixed2 t)) (snd (foldl add_edge (0, []) (map so_totalPrice matching)))\<rparr>, w))
   | _ \<Rightarrow> (Inl (plain_error ''FakeShopifyGateway.getDailyOrderAggregate: window bounds must be ISO dates''), w))"

section \<open>The feed of updated orders\<close>

definition updated_at :: "order_summary \<Rightarrow> int" where
  "updated_at x = the (date_parse (os_updatedAt x))"

definition dated :: "int \<Rightarrow> order_summary \<Rightarrow> bool" where
  "dated s x \<longleftrightarrow> (case date_parse (os_updatedAt x) of None \<Rightarrow> False | Some t \<Rightarrow> s \<le> t)"

text \<open>
  What \<open>gateway.ts\<close> asks of \<open>listOrdersUpdatedSince\<close>: a page of the known orders updated since the
  cursor, oldest first; what is left out is not older than what is on a full page.
\<close>

locale order_feed =
  fixes page :: "int \<Rightarrow> nat \<Rightarrow> order_summary list" and known :: "order_summary set"
  assumes page_known: "x \<in> set (page s n) \<Longrightarrow> x \<in> known \<and> dated s x"
    and page_sorted: "sorted (map updated_at (page s n))"
    and page_rest: "x \<in> known \<Longrightarrow> dated s x \<Longrightarrow> x \<notin> set (page s n)
      \<Longrightarrow> length (page s n) = n \<and> (\<forall>y\<in>set (page s n). updated_at y \<le> updated_at x)"
begin

lemma cursor_advances: "page s n \<noteq> [] \<Longrightarrow> s \<le> updated_at (last (page s n))"
  using page_known [of "last (page s n)" s n] by (auto simp: dated_def updated_at_def split: option.splits)

lemma skips_nothing:
  assumes "x \<in> known" and "dated s x" and "0 < n"
  shows "x \<in> set (page s n) \<or> (page s n \<noteq> [] \<and> updated_at (last (page s n)) \<le> updated_at x)"
proof (cases "x \<in> set (page s n)")
  case False
  then have full: "length (page s n) = n" "\<forall>y\<in>set (page s n). updated_at y \<le> updated_at x"
    using page_rest [OF assms(1,2)] by auto
  then have "page s n \<noteq> []" using assms(3) by auto
  then show ?thesis using full(2) last_in_set by blast
qed simp

end

lemma dated_summary [simp]: "dated s (order_summary_of so) = updated_since s so"
  by (simp add: dated_def updated_since_def order_summary_of_def)

lemma updated_at_summary [simp]: "updated_at (order_summary_of so) = the (date_parse (so_updatedAt so))"
  by (simp add: updated_at_def order_summary_of_def)

interpretation fake_feed: order_feed "fake_page w" "order_summary_of ` set (map snd (fs_orders w))" for w
proof unfold_locales
  fix x s n
  show "x \<in> set (fake_page w s n) \<Longrightarrow> x \<in> order_summary_of ` set (map snd (fs_orders w)) \<and> dated s x"
    by (auto simp: fake_page_def dest!: in_set_takeD)
  show "sorted (map updated_at (fake_page w s n))"
    by (simp add: fake_page_def comp_def take_map [symmetric] sorted_wrt_take)
  let ?key = "\<lambda>so. the (date_parse (so_updatedAt so))"
  let ?all = "sort_key ?key (filter (updated_since s) (map snd (fs_orders w)))"
  assume "x \<in> order_summary_of ` set (map snd (fs_orders w))" and "dated s x" and out: "x \<notin> set (fake_page w s n)"
  then obtain so where "so \<in> set (map snd (fs_orders w))" and x: "x = order_summary_of so" by blast
  with \<open>dated s x\<close> have so: "so \<in> set ?all" "x = order_summary_of so" by simp_all
  then have "so \<notin> set (take n ?all)" using out by (auto simp: fake_page_def)
  then have d: "so \<in> set (drop n ?all)" using so(1) by (metis append_take_drop_id set_append Un_iff)
  have "sorted (map ?key (take n ?all @ drop n ?all))" by simp
  then have "\<forall>y\<in>set (take n ?all). ?key y \<le> ?key so"
    using d by (simp only: map_append sorted_append) auto
  moreover have "n \<le> length ?all" using d by (cases "n \<le> length ?all") auto
  ultimately show "length (fake_page w s n) = n \<and> (\<forall>y\<in>set (fake_page w s n). updated_at y \<le> updated_at x)"
    by (auto simp: fake_page_def so(2))
qed

section \<open>The poller over the feed\<close>

text \<open>The page a poll reads from the shop; the cursor parses where this is used.\<close>

definition shop_orders :: "fake_shop \<Rightarrow> connection \<Rightarrow> string \<Rightarrow> nat \<Rightarrow> order_summary list" where
  "shop_orders shop conn since n = (case fst (fake_listOrdersUpdatedSince since (Some n) shop) of
     Inl _ \<Rightarrow> [] | Inr page \<Rightarrow> page)"

lemma shop_orders_page: "date_parse since = Some s \<Longrightarrow> shop_orders shop conn since n = fake_page shop s n"
  by (simp add: shop_orders_def fake_listOrdersUpdatedSince_def)

text \<open>
  C14: the catch-up poller skips no order at a page boundary. Where no call fails, after a poll every
  order of the shop updated at or after the old cursor is settled in the ledger, or has a message on the
  queue, or was updated at or after the new cursor, so the next poll still asks for it; and the new cursor
  of a page with orders is not before the old one.
\<close>

theorem catchup_skips_nothing:
  assumes "no_faults cfg" and "findById (cf_repo cfg) (cf_environment cfg) cid = Some conn" and "0 < cc_pageSize config"
    and old: "stored_cursor cfg cid w = Some since" "date_parse since = Some s"
  shows "\<exists>now out w' cursor. poll cfg (shop_orders shop) config cid w = (Inr out, w') \<and> stored_cursor cfg cid w' = Some cursor
    \<and> (shop_orders shop conn since (cc_pageSize config) \<noteq> [] \<longrightarrow> (\<exists>c. date_parse cursor = Some c \<and> s \<le> c))
    \<and> (\<forall>so\<in>set (map snd (fs_orders shop)). updated_since s so \<longrightarrow>
         resolved_row (pg_fetch (catchup_key (cf_environment cfg) cid (so_id so)) (sys_xref w))
         \<or> catchup_entry cfg conn cid now (order_summary_of so) \<in> set (sys_queue w')
         \<or> (\<exists>c. date_parse cursor = Some c \<and> updated_since c so))"
proof -
  obtain now out w' where run: "poll cfg (shop_orders shop) config cid w = (Inr out, w')"
    and well: "polled_well cfg (shop_orders shop) config conn cid now w out w'"
    using catchup_queues_unsettled [OF assms(1,2)] by blast
  let ?n = "cc_pageSize config"
  let ?page = "fake_page shop s ?n"
  have since: "poll_from cfg config cid now w = since"
    using old(1) by (simp add: poll_from_def from_cursor_def stored_cursor_def)
  have page: "shop_orders shop conn since ?n = ?page" by (rule shop_orders_page [OF old(2)])
  have queue: "sys_queue w' = sys_queue w @ map (catchup_entry cfg conn cid now) (unresolved cfg cid w ?page)"
    and mark: "stored_cursor cfg cid w' = Some (next_cursor config now ?page)"
    using well by (simp_all add: polled_well_def Let_def since page)
  have cursor: "date_parse (next_cursor config now ?page) = Some (updated_at (last ?page))" if "?page \<noteq> []"
    using that fake_feed.page_known [of "last ?page" shop s ?n]
    by (auto simp: next_cursor_def updated_at_def dated_def split: option.splits)
  have "resolved_row (pg_fetch (catchup_key (cf_environment cfg) cid (so_id so)) (sys_xref w))
         \<or> catchup_entry cfg conn cid now (order_summary_of so) \<in> set (sys_queue w')
         \<or> (\<exists>c. date_parse (next_cursor config now ?page) = Some c \<and> updated_since c so)"
    if so: "so \<in> set (map snd (fs_orders shop))" "updated_since s so" for so
  proof -
    have "order_summary_of so \<in> set ?page \<or> (?page \<noteq> [] \<and> updated_at (last ?page) \<le> updated_at (order_summary_of so))"
      using so assms(3) by (intro fake_feed.skips_nothing) auto
    moreover have "updated_since (updated_at (last ?page)) so" if "updated_at (last ?page) \<le> updated_at (order_summary_of so)"
      using that so(2) by (auto simp: updated_since_def split: option.splits)
    ultimately show ?thesis
      using cursor by (auto simp: queue unresolved_def order_summary_of_def)
  qed
  moreover have "s \<le> updated_at (last ?page)" if "?page \<noteq> []" using fake_feed.cursor_advances [OF that] .
  ultimately show ?thesis
    using run mark cursor page
    by - (rule exI [of _ now], rule exI [of _ out], rule exI [of _ w'],
      rule exI [of _ "next_cursor config now ?page"], simp)
qed

definition sample_shop :: fake_shop where
  "sample_shop = seedOrder makeFakeOrder new_fake_shop"

theorem catchup_skips_nothing_witness:
  "\<exists>now out w' cursor. poll sample_cfg (shop_orders sample_shop) DEFAULT_CATCHUP_CONFIG ''c1''
      (sample_sys\<lparr>sys_watermarks := [sample_mark]\<rparr>) = (Inr out, w')
    \<and> stored_cursor sample_cfg ''c1'' w' = Some cursor
    \<and> (resolved_row (pg_fetch (catchup_key (cf_environment sample_cfg) ''c1'' (so_id makeFakeOrder)) (sys_xref sample_sys))
       \<or> catchup_entry sample_cfg sample_connection ''c1'' now (order_summary_of makeFakeOrder) \<in> set (sys_queue w')
       \<or> (\<exists>c. date_parse cursor = Some c \<and> updated_since c makeFakeOrder))"
proof -
  let ?w = "sample_sys\<lparr>sys_watermarks := [sample_mark]\<rparr>"
  have day: "date_parse ''2026-05-16T10:00:00Z'' = Some 1778925600000" by code_simp
  have "findById (cf_repo sample_cfg) (cf_environment sample_cfg) ''c1'' = Some sample_connection"
    by (simp add: sample_cfg_def sample_repo_def findById_def)
  moreover have "0 < cc_pageSize DEFAULT_CATCHUP_CONFIG" by (simp add: DEFAULT_CATCHUP_CONFIG_def)
  moreover have "stored_cursor sample_cfg ''c1'' ?w = Some ''2026-05-16T10:00:00Z''"
    by (simp add: stored_cursor_def pg_watermark_get_def sample_mark_def wm_ref_def sample_cfg_def)
  moreover have "makeFakeOrder \<in> set (map snd (fs_orders sample_shop))" "updated_since 1778925600000 makeFakeOrder"
    by (simp_all add: sample_shop_def seedOrder_def new_fake_shop_def updated_since_def makeFakeOrder_def day)
  ultimately show ?thesis
    using catchup_skips_nothing [OF sample_facts(1), of "''c1''" sample_connection DEFAULT_CATCHUP_CONFIG ?w
        "''2026-05-16T10:00:00Z''" 1778925600000 sample_shop] day
    by fastforce
qed

end
