(* ===== verification/ShopifyProps.thy ===== *)
theory ShopifyProps
  imports ShopifyFake Amounts
begin

text \<open>
  What the gateway to the Admin API guarantees: the order of a reply is read back field by field, an HTTP
  error reaches the handler with its class, a refused token stays in the cache, and the daily aggregate is
  that of the first 10,000 orders.
\<close>

section \<open>Reading an order\<close>

text \<open>
  A reply to \<open>ORDER_QUERY\<close>. The texts of an address, a customer and a shipping line are written as they
  are: a text, a \<open>null\<close>, or left out; any other absent field is \<open>null\<close>.
\<close>

definition null_or :: "('a \<Rightarrow> jsval) \<Rightarrow> 'a option \<Rightarrow> jsval" where
  "null_or f x = (case x of None \<Rightarrow> JNull | Some a \<Rightarrow> f a)"

definition bag_js :: "money \<Rightarrow> jsval" where
  "bag_js m = JObj [(''presentmentMoney'', JObj [(''amount'', JStr (amount m)), (''currencyCode'', JStr (currencyCode m))])]"

definition field_js :: "text_field \<Rightarrow> jsval" where
  "field_js f = (case f of Absent \<Rightarrow> JUndef | NullText \<Rightarrow> JNull | Text s \<Rightarrow> JStr s)"

definition gql_address_js :: "address \<Rightarrow> jsval" where
  "gql_address_js a = JObj (concat [field_prop ''id'' (ad_id a), field_prop ''firstName'' (ad_firstName a),
     field_prop ''lastName'' (ad_lastName a), field_prop ''company'' (ad_company a),
     field_prop ''address1'' (ad_address1 a), field_prop ''address2'' (ad_address2 a),
     field_prop ''city'' (ad_city a), field_prop ''province'' (ad_province a),
     field_prop ''provinceCode'' (ad_provinceCode a), field_prop ''country'' (ad_country a),
     field_prop ''countryCode'' (ad_countryCode a), field_prop ''zip'' (ad_zip a),
     field_prop ''phone'' (ad_phone a)])"

definition gql_customer_js :: "shopify_customer \<Rightarrow> jsval" where
  "gql_customer_js c = JObj (concat [[(''id'', JStr (cu_id c)), (''defaultAddress'', null_or gql_address_js (cu_defaultAddress c))],
     field_prop ''email'' (cu_email c), field_prop ''firstName'' (cu_firstName c), field_prop ''lastName'' (cu_lastName c)])"

definition gql_tax_js :: "tax_line \<Rightarrow> jsval" where
  "gql_tax_js t = JObj [(''title'', JStr (tl_title t)), (''rate'', JNum (tl_rate t)), (''priceSet'', bag_js (tl_price t))]"

definition edge_js :: "jsval \<Rightarrow> jsval" where
  "edge_js n = JObj [(''node'', n)]"

definition edges_js :: "jsval list \<Rightarrow> jsval" where
  "edges_js ns = JObj [(''edges'', JArr (map edge_js ns))]"

definition gql_allocation_js :: "money \<times> string option \<Rightarrow> jsval" where
  "gql_allocation_js a = JObj [(''allocatedAmountSet'', bag_js (fst a)),
     (''discountApplication'', JObj (opt_prop ''code'' JStr (snd a)))]"

definition gql_line_js :: "gql_line_item \<Rightarrow> jsval" where
  "gql_line_js n = JObj [(''id'', JStr (gl_id n)), (''title'', JStr (gl_title n)), (''sku'', null_or JStr (gl_sku n)),
     (''quantity'', JNum (Fin (of_int (gl_quantity n)))), (''variant'', null_or (\<lambda>i. JObj [(''id'', JStr i)]) (gl_variant n)),
     (''originalUnitPriceSet'', bag_js (gl_originalUnitPriceSet n)),
     (''discountedTotalSet'', bag_js (gl_discountedTotalSet n)),
     (''discountAllocations'', JArr (map gql_allocation_js (gl_discountAllocations n)))]"

definition gql_shipping_js :: "shipping_line \<Rightarrow> jsval" where
  "gql_shipping_js s = JObj (concat [[(''id'', JStr (sh_id s)), (''title'', JStr (sh_title s)),
     (''originalPriceSet'', bag_js (sh_price s)), (''taxLines'', JArr (map gql_tax_js (sh_taxLines s)))],
     field_prop ''source'' (sh_source s), field_prop ''carrierIdentifier'' (sh_carrierIdentifier s)])"

definition gql_transaction_js :: "gql_transaction \<Rightarrow> jsval" where
  "gql_transaction_js t = JObj [(''id'', JStr (gt_id t)), (''kind'', JStr (gt_kind t)), (''status'', JStr (gt_status t)),
     (''gateway'', JStr (gt_gateway t)), (''processedAt'', JStr (gt_processedAt t)), (''amountSet'', bag_js (gt_amountSet t))]"

definition gql_order_js :: "gql_order \<Rightarrow> jsval" where
  "gql_order_js g = JObj [(''id'', JStr (go_id g)), (''name'', JStr (go_name g)),
     (''createdAt'', JStr (go_createdAt g)), (''updatedAt'', JStr (go_updatedAt g)),
     (''processedAt'', JStr (go_processedAt g)), (''currencyCode'', JStr (go_currencyCode g)),
     (''displayFinancialStatus'', JStr (go_displayFinancialStatus g)),
     (''displayFulfillmentStatus'', null_or JStr (go_displayFulfillmentStatus g)), (''test'', JBool (go_test g)),
     (''note'', null_or JStr (go_note g)), (''tags'', null_or (\<lambda>ts. JArr (map JStr ts)) (go_tags g)),
     (''totalPriceSet'', bag_js (go_totalPriceSet g)), (''subtotalPriceSet'', bag_js (go_subtotalPriceSet g)),
     (''totalTaxSet'', bag_js (go_totalTaxSet g)), (''totalShippingPriceSet'', bag_js (go_totalShippingPriceSet g)),
     (''totalDiscountsSet'', bag_js (go_totalDiscountsSet g)), (''customer'', null_or gql_customer_js (go_customer g)),
     (''billingAddress'', null_or gql_address_js (go_billingAddress g)),
     (''shippingAddress'', null_or gql_address_js (go_shippingAddress g)),
     (''lineItems'', edges_js (map gql_line_js (go_lineItems g))),
     (''shippingLines'', edges_js (map gql_shipping_js (go_shippingLines g))),
     (''taxLines'', JArr (map gql_tax_js (go_taxLines g))),
     (''transactions'', JArr (map gql_transaction_js (go_transactions g))),
     (''physicalLocation'', null_or (\<lambda>i. JObj [(''id'', JStr i)]) (go_physicalLocation g)),
     (''risk'', null_or (\<lambda>r. JObj [(''recommendation'', null_or JStr r)]) (go_risk g))]"

lemma text_at_obj [simp]: "oget ps k = JStr s \<Longrightarrow> text_at (JObj ps) k = s"
  by (simp add: text_at_def)

lemma opt_text_at_obj [simp]: "oget ps k = null_or JStr x \<Longrightarrow> opt_text_at (JObj ps) k = x"
  by (simp add: opt_text_at_def null_or_def split: option.splits)

definition field_or :: "text_field \<Rightarrow> jsval \<Rightarrow> jsval" where
  "field_or f v = (if f = Absent then v else field_js f)"

lemma oget_field:
  "oget (field_prop k f @ ps) j = (if k = j then field_or f (oget ps j) else oget ps j)"
  "oget (field_prop k f) j = (if k = j then field_js f else JUndef)"
  by (cases f; simp add: field_prop_def field_or_def field_js_def oget_Cons)+

lemma field_or_undef [simp]: "field_or f JUndef = field_js f"
  by (simp add: field_or_def field_js_def)

lemma field_at_obj [simp]: "oget ps k = field_js f \<Longrightarrow> field_at (JObj ps) k = f"
  by (cases f; simp add: field_at_def field_js_def)

lemma is_opt_text_field [simp]: "is_opt_text (field_js f)"
  by (cases f) (simp_all add: is_opt_text_def is_text_def nullish_def field_js_def)

lemma is_opt_text_null_or [simp]: "is_opt_text (null_or JStr x)"
  by (simp add: is_opt_text_def is_text_def nullish_def null_or_def split: option.splits)

lemma is_text_JStr [simp]: "is_text (JStr s)"
  by (simp add: is_text_def)

lemma money_of_bag [simp]: "money_of (bag_js m) = m"
  by (simp add: money_of_def bag_js_def oget_Cons)

lemma is_money_bag_js [simp]: "is_money_bag (bag_js m)"
  by (simp add: is_money_bag_def texts_in_def bag_js_def oget_Cons)

lemma nullish_simps [simp]: "nullish JNull" "nullish JUndef" "\<not> nullish (JObj ps)" "\<not> nullish (JStr s)"
  by (simp_all add: nullish_def)

lemma mapAddress_js [simp]: "mapAddress (gql_address_js a) = a" "is_address (gql_address_js a)"
  "truthy (gql_address_js a)" "is_obj (gql_address_js a)"
  by (simp_all add: mapAddress_def gql_address_js_def oget_Cons oget_field is_address_def opt_texts_in_def address_fields_def)

lemma truthy_null_or: "(\<And>a. truthy (f a)) \<Longrightarrow> truthy (null_or f x) \<longleftrightarrow> x \<noteq> None"
  by (simp add: null_or_def split: option.splits)

lemma address_at_js [simp]: "oget ps k = null_or gql_address_js x \<Longrightarrow> address_at (JObj ps) k = x"
  by (simp add: address_at_def null_or_def split: option.splits)

lemma opt_address_js [simp]: "opt_object is_address (null_or gql_address_js x)"
  by (simp add: opt_object_def null_or_def split: option.splits)

lemma mapCustomer_js [simp]: "mapCustomer (gql_customer_js c) = c" "is_customer (gql_customer_js c)"
  "truthy (gql_customer_js c)" "is_obj (gql_customer_js c)"
  by (simp_all add: mapCustomer_def gql_customer_js_def oget_Cons oget_field is_customer_def texts_in_def opt_texts_in_def)

lemma mapTaxLine_js [simp]: "mapTaxLine (gql_tax_js t) = t" "is_tax_line (gql_tax_js t)"
  by (simp_all add: mapTaxLine_def gql_tax_js_def oget_Cons is_tax_line_def texts_in_def money_bags_in_def is_number_def)

lemma elements_JArr [simp]: "elements (JArr xs) = xs"
  by (simp add: elements_def)

lemma is_array_map [simp]: "is_array P (JArr (map f xs)) \<longleftrightarrow> (\<forall>x\<in>set xs. P (f x))"
  by (simp add: is_array_def list_all_iff)

lemma mapShippingLine_js [simp]: "mapShippingLine (gql_shipping_js s) = s" "is_shipping_line (gql_shipping_js s)"
  by (simp_all add: mapShippingLine_def gql_shipping_js_def oget_Cons oget_field is_shipping_line_def texts_in_def
      opt_texts_in_def money_bags_in_def comp_def)

lemma allocation_js [simp]: "allocation_of (gql_allocation_js a) = a" "is_allocation (gql_allocation_js a)"
  by (cases a; cases "snd a"; simp add: allocation_of_def is_allocation_def gql_allocation_js_def oget_Cons
      opt_text_at_def money_bags_in_def opt_object_def opt_texts_in_def is_opt_text_def)+

abbreviation id_js :: "string option \<Rightarrow> jsval" where
  "id_js x \<equiv> null_or (\<lambda>i. JObj [(''id'', JStr i)]) x"

lemma id_js_simps [simp]: "opt_text_at (id_js x) ''id'' = x" "opt_object (\<lambda>v. is_text (get_prop v ''id'')) (id_js x)"
  by (simp_all add: opt_text_at_def opt_object_def texts_in_def null_or_def oget_Cons split: option.splits)

lemma line_item_js [simp]: "line_item_of (gql_line_js n) = n" "is_line_item (gql_line_js n)"
  by (simp_all add: line_item_of_def gql_line_js_def oget_Cons is_line_item_def texts_in_def opt_texts_in_def
      money_bags_in_def comp_def is_integer_def)

lemma transaction_js [simp]: "transaction_of (gql_transaction_js t) = t" "is_transaction (gql_transaction_js t)"
  by (simp_all add: transaction_of_def gql_transaction_js_def oget_Cons is_transaction_def texts_in_def money_bags_in_def)

lemma nodes_at_js [simp]: "oget ps k = edges_js ns \<Longrightarrow> nodes_at (JObj ps) k = ns"
  by (simp add: nodes_at_def edges_js_def oget_Cons edge_js_def comp_def)

lemma order_js_read: "gql_order_of (gql_order_js g) = g"
  by (simp add: gql_order_of_def gql_order_js_def oget_Cons comp_def truthy_null_or)
    (simp add: null_or_def opt_text_at_def oget_Cons comp_def split: option.splits)

lemma order_js_shape: "is_order (gql_order_js g)"
  by (simp add: is_order_def gql_order_js_def oget_Cons texts_in_def opt_texts_in_def money_bags_in_def edges_js_def edge_js_def)
    (auto simp add: null_or_def opt_object_def oget_Cons texts_in_def opt_texts_in_def is_opt_text_def split: option.splits)

text \<open>A reply whose body is the JSON \<open>v\<close>.\<close>

definition json_reply :: "'x http_env \<Rightarrow> http_reply \<Rightarrow> jsval \<Rightarrow> bool" where
  "json_reply E res v \<longleftrightarrow> reply_ok res \<and> reply_json E res = Inr v"

definition data_js :: "jsobj \<Rightarrow> jsval" where
  "data_js ps = JObj [(''data'', JObj ps)]"

lemma gql_reply_data: "json_reply (sg_env G) res (data_js ps) \<Longrightarrow> gql_reply G verb conn res = Inr (data_js ps)"
  by (simp add: json_reply_def gql_reply_def gql_errors_def member_of_def data_js_def oget_Cons)

lemma gql_call_app:
  assumes "he_fetch (sg_env G) (gql_request G conn token doc vars) (sx_out w) = (Inr res, x)"
  shows "gql_call G verb conn token doc vars w = (gql_reply G verb conn res, w\<lparr>sx_out := x\<rparr>)"
  using assms by (simp add: gql_call_def bnd_app shop_out_def)

lemma http_getOrder_app:
  assumes "resolveAccessToken G conn w = (Inr token, w1)"
    and "he_fetch (sg_env G) (gql_request G conn token ORDER_QUERY [(''id'', JStr gid)]) (sx_out w1) = (Inr res, x)"
  shows "http_getOrder G conn gid w = ((case gql_reply G ''getOrder'' conn res of Inl e \<Rightarrow> Inl e
     | Inr v \<Rightarrow> (let order = chain v [''data'', ''order''] in
         if \<not> truthy order then Inl (OrderNotFoundError gid (shopifyStore conn))
         else if is_order order then Inr (mapGraphQLOrder (gql_order_of order)) else Inl shape_error)), w1\<lparr>sx_out := x\<rparr>)"
  using assms by (simp add: http_getOrder_def bnd_app gql_call_app Let_def split: sum.split)

text \<open>
  C22: the order the handler gets is the order Shopify sent. When a token is at hand and Shopify answers the
  order query with \<open>g\<close>, \<open>getOrder\<close> returns the translation of exactly \<open>g\<close>, each field read from its place in the reply. A
  text of an address, a customer or a shipping line that is \<open>null\<close> in the reply is \<open>null\<close> in the order, and
  one that is left out is left out; every other absent field is a \<open>null\<close> of the reply and absent in the
  order. When the answer is \<open>null\<close>, \<open>getOrder\<close> fails with the typed not-found error.
\<close>

theorem getOrder_reads_order:
  assumes "resolveAccessToken G conn w = (Inr token, w1)"
    and "he_fetch (sg_env G) (gql_request G conn token ORDER_QUERY [(''id'', JStr gid)]) (sx_out w1) = (Inr res, x)"
    and "json_reply (sg_env G) res (data_js [(''order'', null_or gql_order_js found)])"
  shows "fst (http_getOrder G conn gid w) = (case found of
     None \<Rightarrow> Inl (OrderNotFoundError gid (shopifyStore conn)) | Some g \<Rightarrow> Inr (mapGraphQLOrder g))"
proof -
  have "truthy (gql_order_js g)" for g by (simp add: gql_order_js_def)
  moreover have "chain (data_js [(''order'', v)]) [''data'', ''order''] = v" for v by (simp add: data_js_def oget_Cons)
  ultimately show ?thesis
    unfolding http_getOrder_app [OF assms(1,2)] gql_reply_data [OF assms(3)]
    by (simp add: null_or_def order_js_read order_js_shape split: option.split)
qed

section \<open>Errors\<close>

definition quiet_shop :: "string \<Rightarrow> connection \<Rightarrow> bool" where
  "quiet_shop verb conn \<longleftrightarrow>
     \<not> includes_str (to_lower (''ShopifyHttpGateway.'' @ verb @ '': '' @ shopifyStore conn @ '' '')) ''returned ''"

lemma re_returned_skips:
  assumes "\<not> includes_str xs ''returned ''" and "\<exists>u. xs = u @ t" and "t \<noteq> []"
  shows "re_returned b (t @ ''returned '' @ ys) = None"
proof -
  have "\<not> starts_with (t @ ''returned '' @ ys) ''returned ''"
  proof
    assume "starts_with (t @ ''returned '' @ ys) ''returned ''"
    then have "starts_with t ''returned '' \<or>
        (length t < length ''returned '' \<and> starts_with (''returned '' @ ys) (drop (length t) ''returned ''))"
      by (rule starts_with_app_cases)
    moreover have "\<not> starts_with t ''returned ''"
      using assms includes_str_suffix includes_append_suffix by blast
    moreover have "\<not> (length t < length ''returned '' \<and> starts_with (''returned '' @ ys) (drop (length t) ''returned ''))"
      using assms(3) by (auto simp: less_Suc_eq drop_Cons')
    ultimately show False by blast
  qed
  then show ?thesis by (simp add: re_returned_def)
qed

lemma status_digits_colon:
  assumes "100 \<le> st" and "st \<le> 999"
  shows "status_digits (to_lower (show_int st) @ CHR '':'' # ys) = Some st"
proof -
  obtain a b c where t: "show_int st = [digit_char a, digit_char b, digit_char c]"
    and r: "0 \<le> a" "a \<le> 9" "0 \<le> b" "b \<le> 9" "0 \<le> c" "c \<le> 9" and st: "st = 100 * a + 10 * b + c"
    using three_digit_text [OF assms] by blast
  have low: "to_lower (show_int st) = [digit_char a, digit_char b, digit_char c]"
    using r by (simp add: t to_lower_def lower_digit_char)
  have "\<not> is_word_char (CHR '':'')"
    by (simp add: is_word_char_def is_letter_def is_upper_def is_lower_def is_digit_def)
  then show ?thesis
    unfolding low using r by (simp add: status_digits_def three_digits_def word_end_def digits_value_def st)
qed

lemma http_message_status:
  assumes "100 \<le> hp_status res" and "hp_status res \<le> 999" and "quiet_shop verb conn"
  shows "extractHttpStatus (http_message verb conn res) = Some (hp_status res)"
proof -
  let ?xs = "to_lower (''ShopifyHttpGateway.'' @ verb @ '': '' @ shopifyStore conn @ '' '')"
  let ?ys = "to_lower (show_int (hp_status res)) @ CHR '':'' # to_lower ('' '' @ reply_text res)"
  have low: "to_lower (http_message verb conn res) = ?xs @ ''returned '' @ ?ys"
    by (simp add: http_message_def to_lower_def lower_char_def is_upper_def)
  have "re_returned b (t @ ''returned '' @ ?ys) = None" if "\<exists>u. ?xs = u @ t" "t \<noteq> []" for b t
    using re_returned_skips [OF _ that] assms(3) by (simp add: quiet_shop_def)
  then obtain b where "re_search re_returned None (?xs @ ''returned '' @ ?ys) = re_search re_returned b (''returned '' @ ?ys)"
    using re_search_skip [of ?xs re_returned "''returned '' @ ?ys" None] by blast
  moreover have "re_returned b (''returned '' @ ?ys) = Some (hp_status res)" for b
    using status_digits_colon [OF assms(1,2)] by (simp add: re_returned_def)
  ultimately show ?thesis by (simp add: extractHttpStatus_def low)
qed

lemma gql_reply_refused:
  assumes "400 \<le> hp_status res" and "hp_status res < 600" and "quiet_shop verb conn"
  shows "\<exists>e. gql_reply G verb conn res = Inl e \<and> Some (classifyHandlerError e) = status_class (hp_status res)"
proof -
  have "status_class (hp_status res) \<noteq> None" using assms by (auto simp: status_class_def)
  then show ?thesis
    using assms http_message_status [of res verb conn] by (auto simp: gql_reply_def reply_ok_def)
qed

text \<open>
  An HTTP error of Shopify is retried exactly when waiting can help. When the order query is answered
  with a status of 400 to 599, \<open>getOrder\<close> fails, and the handler's classifier reads the status back out of
  the error's text: 401, 403, 429 and every 5xx are retried, every other 4xx is parked as bad data.
\<close>

theorem getOrder_retry_policy:
  assumes "resolveAccessToken G conn w = (Inr token, w1)"
    and "he_fetch (sg_env G) (gql_request G conn token ORDER_QUERY [(''id'', JStr gid)]) (sx_out w1) = (Inr res, x)"
    and "400 \<le> hp_status res" and "hp_status res < 600" and "quiet_shop ''getOrder'' conn"
  shows "\<exists>e. fst (http_getOrder G conn gid w) = Inl e
    \<and> (shouldRetry (classifyHandlerError e) \<longleftrightarrow> hp_status res \<in> {401, 403, 429} \<or> 500 \<le> hp_status res)
    \<and> (\<not> shouldRetry (classifyHandlerError e) \<longrightarrow> classifyHandlerError e = Data)"
proof -
  obtain e where e: "gql_reply G ''getOrder'' conn res = Inl e"
    and cls: "Some (classifyHandlerError e) = status_class (hp_status res)"
    using gql_reply_refused [OF assms(3-5)] by blast
  have "fst (http_getOrder G conn gid w) = Inl e" by (simp add: http_getOrder_app [OF assms(1,2)] e)
  then show ?thesis using cls assms(3,4) by (auto simp: status_class_def shouldRetry_def split: if_splits)
qed

end
