(* ===== verification/ShopifyPages.thy ===== *)
theory ShopifyPages
  imports ShopifyProps
begin

text \<open>
  Runs of the gateway to the Admin API: what happens to a token Shopify no longer takes, and the daily
  aggregate over the pages of a day, against the in-memory gateway.
\<close>

section \<open>A token that is cached\<close>

text \<open>The secret store answers; the clock does, and finds \<open>t\<close> fresh.\<close>

definition secrets_answer :: "'x shopify_http \<Rightarrow> connection \<Rightarrow> bool" where
  "secrets_answer G conn \<longleftrightarrow> (\<forall>ref x. ref \<in> {shopifyAppTokenRef conn, shopifyWebhookSecretRef conn}
     \<longrightarrow> (\<exists>s x'. sg_getSecret G ref x = (Inr s, x')))"

definition stays_fresh :: "'x shopify_http \<Rightarrow> cached_token \<Rightarrow> bool" where
  "stays_fresh G t \<longleftrightarrow> (\<forall>x. \<exists>now x'. he_now (sg_env G) x = (Inr now, x') \<and> fresh_token (sg_buffer G) now t)"

lemma cached_token_used:
  assumes "secrets_answer G conn" and "stays_fresh G t"
    and "map_of (ts_cache (sx_tokens w)) (shopifyStore conn) = Some t"
  shows "\<exists>x. resolveAccessToken G conn w = (Inr (ct_accessToken t), w\<lparr>sx_out := x\<rparr>)"
proof -
  obtain a x1 where 1: "sg_getSecret G (shopifyAppTokenRef conn) (sx_out w) = (Inr a, x1)"
    using assms(1) unfolding secrets_answer_def by blast
  obtain b x2 where 2: "sg_getSecret G (shopifyWebhookSecretRef conn) x1 = (Inr b, x2)"
    using assms(1) unfolding secrets_answer_def by blast
  obtain now x3 where 3: "he_now (sg_env G) x2 = (Inr now, x3)" "fresh_token (sg_buffer G) now t"
    using assms(2) unfolding stays_fresh_def by meson
  show ?thesis
    using assms(3) by (simp add: resolveAccessToken_def getAccessToken_def cached_hit_def bnd_app shop_out_def Let_def 1 2 3 exI [of _ x3])
qed

text \<open>\<open>m\<close> tried \<open>n\<close> times, as redeliveries of a message do.\<close>

fun attempts :: "nat \<Rightarrow> ('w, 'a) io \<Rightarrow> 'w \<Rightarrow> (js_error + 'a) list \<times> 'w" where
  "attempts 0 m w = ([], w)"
| "attempts (Suc n) m w = (case m w of (r, w1) \<Rightarrow> (case attempts n m w1 of (rs, w2) \<Rightarrow> (r # rs, w2)))"

definition token_refused :: "'x shopify_http \<Rightarrow> string \<Rightarrow> bool" where
  "token_refused G token \<longleftrightarrow> (\<forall>req x. (''X-Shopify-Access-Token'', token) \<in> set (hq_headers req)
     \<longrightarrow> (\<exists>res x'. he_fetch (sg_env G) req x = (Inr res, x') \<and> hp_status res = 401))"

lemma refused_once:
  assumes "secrets_answer G conn" and "stays_fresh G t"
    and "map_of (ts_cache (sx_tokens w)) (shopifyStore conn) = Some t"
    and "token_refused G (ct_accessToken t)" and "quiet_shop ''getOrder'' conn"
  shows "\<exists>e x. http_getOrder G conn gid w = (Inl e, w\<lparr>sx_out := x\<rparr>) \<and> classifyHandlerError e = Auth"
proof -
  obtain x where x: "resolveAccessToken G conn w = (Inr (ct_accessToken t), w\<lparr>sx_out := x\<rparr>)"
    using cached_token_used [OF assms(1-3)] by blast
  have "(''X-Shopify-Access-Token'', ct_accessToken t)
      \<in> set (hq_headers (gql_request G conn (ct_accessToken t) ORDER_QUERY [(''id'', JStr gid)]))"
    by (simp add: gql_request_def)
  then obtain res y where y: "he_fetch (sg_env G) (gql_request G conn (ct_accessToken t) ORDER_QUERY [(''id'', JStr gid)])
      (sx_out (w\<lparr>sx_out := x\<rparr>)) = (Inr res, y)" and st: "hp_status res = 401"
    using assms(4) unfolding token_refused_def by blast
  obtain e where "gql_reply G ''getOrder'' conn res = Inl e" "classifyHandlerError e = Auth"
    using gql_reply_refused [of res "''getOrder''" conn G] assms(5) st by (auto simp: status_class_def)
  then show ?thesis by (auto simp: http_getOrder_app [OF x y])
qed

text \<open>
  C23: a token Shopify no longer takes is never given up. While the cached token of a shop is within its
  lifetime, an order query that is answered 401 leaves the token in the cache, the error is of the class
  that is retried, and every retry sends the same token: all attempts fail, however many there are.
  \<open>invalidate\<close>, which would evict the token, is never called.
\<close>

theorem refused_token_kept:
  assumes "secrets_answer G conn" and "stays_fresh G t"
    and "map_of (ts_cache (sx_tokens w)) (shopifyStore conn) = Some t"
    and "token_refused G (ct_accessToken t)" and "quiet_shop ''getOrder'' conn"
  shows "\<exists>rs w'. attempts n (http_getOrder G conn gid) w = (rs, w') \<and> length rs = n
    \<and> (\<forall>r\<in>set rs. \<exists>e. r = Inl e \<and> shouldRetry (classifyHandlerError e)) \<and> sx_tokens w' = sx_tokens w"
  using assms(3)
proof (induction n arbitrary: w)
  case (Suc n)
  obtain e x where e: "http_getOrder G conn gid w = (Inl e, w\<lparr>sx_out := x\<rparr>)" "classifyHandlerError e = Auth"
    using refused_once [OF assms(1,2) Suc.prems assms(4,5)] by blast
  obtain rs w' where "attempts n (http_getOrder G conn gid) (w\<lparr>sx_out := x\<rparr>) = (rs, w')" "length rs = n"
      "\<forall>r\<in>set rs. \<exists>e. r = Inl e \<and> shouldRetry (classifyHandlerError e)" "sx_tokens w' = sx_tokens w"
    using Suc.IH [of "w\<lparr>sx_out := x\<rparr>"] Suc.prems by auto
  then show ?case using e by (simp add: shouldRetry_def)
qed simp

section \<open>The pages of a day\<close>

text \<open>Page \<open>k\<close> of the amounts of a day, 250 to a page; the cursor of a page is its number.\<close>

definition amount_edge :: "money \<Rightarrow> jsval" where
  "amount_edge m = JObj [(''node'', JObj [(''totalPriceSet'', bag_js m)])]"

definition page_js :: "money list \<Rightarrow> nat \<Rightarrow> jsval" where
  "page_js ms k = data_js [(''orders'', JObj [
     (''edges'', JArr (map amount_edge (take 250 (drop (250 * k) ms)))),
     (''pageInfo'', JObj [(''hasNextPage'', JBool (250 * (k + 1) < length ms)), (''endCursor'', JStr (show_nat (k + 1)))])])]"

definition page_cursor :: "nat \<Rightarrow> string option" where
  "page_cursor k = (if k = 0 then None else Some (show_nat k))"

text \<open>Shopify serves the amounts \<open>ms\<close> for the query \<open>q\<close>: the first page, and every page that has an order.\<close>

definition serves_pages :: "'x shopify_http \<Rightarrow> connection \<Rightarrow> string \<Rightarrow> string \<Rightarrow> money list \<Rightarrow> bool" where
  "serves_pages G conn token q ms \<longleftrightarrow> (\<forall>k x. k = 0 \<or> 250 * k < length ms \<longrightarrow> (\<exists>res x'.
     he_fetch (sg_env G) (gql_request G conn token ORDERS_AGGREGATE_QUERY (agg_variables q (page_cursor k))) x = (Inr res, x')
     \<and> json_reply (sg_env G) res (page_js ms k)))"

lemma page_parts:
  "elements (chain (page_js ms k) [''data'', ''orders'', ''edges'']) = map amount_edge (take 250 (drop (250 * k) ms))"
  "next_page (page_js ms k) = (if 250 * (k + 1) < length ms then page_cursor (k + 1) else None)"
  "list_all is_total_edge (map amount_edge as)" "edge_money (amount_edge m) = m"
  by (simp_all add: page_js_def data_js_def oget_Cons next_page_def page_cursor_def list_all_iff is_total_edge_def
      amount_edge_def edge_money_def comp_def)

lemma aggregate_pages_serves:
  assumes serve: "serves_pages G conn token q ms" and "k = 0 \<or> 250 * k < length ms"
  shows "\<exists>x. aggregate_pages n G conn token q (page_cursor k) acc w
    = (Inr (foldl add_edge acc (take (250 * n) (drop (250 * k) ms))), w\<lparr>sx_out := x\<rparr>)"
  using assms(2)
proof (induction n arbitrary: k acc w)
  case 0
  then show ?case by (auto intro: exI [of _ "sx_out w"])
next
  case (Suc n)
  obtain res x where call: "he_fetch (sg_env G) (gql_request G conn token ORDERS_AGGREGATE_QUERY
      (agg_variables q (page_cursor k))) (sx_out w) = (Inr res, x)" and res: "json_reply (sg_env G) res (page_js ms k)"
    using serve Suc.prems unfolding serves_pages_def by blast
  have reply: "gql_reply G verb conn res = Inr (page_js ms k)" for verb
    using res unfolding page_js_def by (rule gql_reply_data)
  let ?acc = "foldl add_edge acc (take 250 (drop (250 * k) ms))"
  have step: "aggregate_pages (Suc n) G conn token q (page_cursor k) acc w = (case next_page (page_js ms k) of
      None \<Rightarrow> (Inr ?acc, w\<lparr>sx_out := x\<rparr>)
    | Some c \<Rightarrow> aggregate_pages n G conn token q (Some c) ?acc (w\<lparr>sx_out := x\<rparr>))"
    by (simp add: bnd_app gql_call_app [OF call] reply page_parts comp_def Let_def del: chain.simps split: option.split)
  have split: "take (250 * Suc n) (drop (250 * k) ms)
      = take 250 (drop (250 * k) ms) @ take (250 * n) (drop (250 * (k + 1)) ms)"
    by (simp add: take_add drop_drop algebra_simps)
  show ?case
  proof (cases "250 * (k + 1) < length ms")
    case True
    then have "next_page (page_js ms k) = page_cursor (k + 1)" "page_cursor (k + 1) = Some (show_nat (k + 1))"
      by (simp_all add: page_parts page_cursor_def)
    then show ?thesis
      unfolding step split using True Suc.IH [of "k + 1" ?acc "w\<lparr>sx_out := x\<rparr>"] by auto
  next
    case False
    then have "next_page (page_js ms k) = None" "drop (250 * (k + 1)) ms = []" by (simp_all add: page_parts)
    then show ?thesis unfolding step split by auto
  qed
qed

lemma tally_count: "fst (foldl add_edge acc ms) = fst acc + length ms"
  by (induction ms arbitrary: acc) (auto simp: add_edge_def Let_def split: prod.splits)

text \<open>
  C21: the daily aggregate over the pages of Shopify is that of the in-memory gateway, up to 10,000 orders.
  When Shopify serves the day's orders of a shop in pages of 250, \<open>getDailyOrderAggregate\<close> counts and
  totals exactly those the in-memory gateway finds in the window, if they are at most 10,000; of more
  orders it counts the first 10,000 and reports nothing.
\<close>

theorem daily_aggregate_pages:
  assumes "resolveAccessToken G conn w = (Inr token, w1)"
    and "date_parse from = Some a" and "date_parse to = Some b"
    and "serves_pages G conn token (window_query from to) (map so_totalPrice (fake_matching shop a b))"
  shows "\<exists>agg w'. http_getDailyOrderAggregate G conn from to w = (Inr agg, w')
    \<and> oa_count agg = min 10000 (length (fake_matching shop a b))
    \<and> (length (fake_matching shop a b) \<le> 10000 \<longrightarrow> fst (fake_getDailyOrderAggregate from to shop) = Inr agg)"
proof -
  let ?ms = "map so_totalPrice (fake_matching shop a b)"
  let ?acc = "foldl add_edge (0, []) (take 10000 ?ms)"
  obtain x where "aggregate_pages max_pages G conn token (window_query from to) None (0, []) w1
      = (Inr ?acc, w1\<lparr>sx_out := x\<rparr>)"
    using aggregate_pages_serves [OF assms(4), of 0 max_pages "(0, [])" w1] by (auto simp: page_cursor_def max_pages_def)
  then have "http_getDailyOrderAggregate G conn from to w = (Inr (aggregate_of ?acc), w1\<lparr>sx_out := x\<rparr>)"
    by (simp add: http_getDailyOrderAggregate_def bnd_app assms(1))
  moreover have "oa_count (aggregate_of ?acc) = min 10000 (length (fake_matching shop a b))"
    by (simp add: aggregate_of_def tally_count min.commute)
  moreover have "fst (fake_getDailyOrderAggregate from to shop) = Inr (aggregate_of ?acc)"
    if "length (fake_matching shop a b) \<le> 10000"
    using that assms(2,3) by (simp add: fake_getDailyOrderAggregate_def aggregate_of_def Let_def tally_count)
  ultimately show ?thesis by blast
qed

section \<open>Runs\<close>

definition sample_http :: "(http_request \<Rightarrow> http_reply) \<Rightarrow> unit shopify_http" where
  "sample_http f = \<lparr>sg_env = \<lparr>he_fetch = \<lambda>req x. (Inr (f req), x), he_now = ret 0, he_await = \<lambda>_. ret [],
       he_syntaxError = plain_error\<rparr>, sg_getSecret = ret, sg_apiVersion = ''2025-01'',
     sg_buffer = DEFAULT_REFRESH_BUFFER_MS\<rparr>"

definition signed_in :: "unit shop_world" where
  "signed_in = \<lparr>sx_tokens = store_token (shopifyStore sample_connection) sample_token empty_tokens, sx_out = ()\<rparr>"

definition http_answer :: "int \<Rightarrow> string \<Rightarrow> http_request \<Rightarrow> http_reply" where
  "http_answer st body req = \<lparr>hp_status = st, hp_body = Inr body\<rparr>"

lemma sample_fresh: "fresh_token 300000 0 sample_token"
  by code_simp

lemma sample_http_facts:
  "secrets_answer (sample_http f) conn" "stays_fresh (sample_http f) sample_token"
  "map_of (ts_cache (sx_tokens signed_in)) (shopifyStore sample_connection) = Some sample_token"
  using sample_fresh
  by (auto simp: secrets_answer_def stays_fresh_def sample_http_def signed_in_def store_token_def
      DEFAULT_REFRESH_BUFFER_MS_def)

lemma sample_token_used:
  "resolveAccessToken (sample_http f) sample_connection signed_in = (Inr (ct_accessToken sample_token), signed_in)"
  using cached_token_used [OF sample_http_facts] by (auto simp: signed_in_def)

lemma sample_quiet: "quiet_shop ''getOrder'' sample_connection"
  by (simp add: quiet_shop_def sample_connection_def) code_simp

lemma sample_fetch: "he_fetch (sg_env (sample_http f)) req x = (Inr (f req), x)"
  by (simp add: sample_http_def)

lemma answer_reads:
  "readable v \<Longrightarrow> json_reply (sg_env (sample_http (http_answer 200 (json v)))) (http_answer 200 (json v) req) v"
  by (simp add: json_reply_def reply_ok_def reply_json_def http_answer_def json_roundtrip)

definition sample_gql :: gql_order where
  "sample_gql = \<lparr>go_id = ''gid://shopify/Order/100'', go_name = ''#1001'', go_createdAt = ''2026-05-16T10:00:00Z'',
     go_updatedAt = ''2026-05-16T10:00:00Z'', go_processedAt = ''2026-05-16T10:00:00Z'', go_currencyCode = ''USD'',
     go_displayFinancialStatus = ''PAID'', go_displayFulfillmentStatus = None, go_test = False, go_note = None,
     go_tags = Some [''vip''], go_totalPriceSet = usd ''120.00'', go_subtotalPriceSet = usd ''100.00'',
     go_totalTaxSet = usd ''10.00'', go_totalShippingPriceSet = usd ''10.00'', go_totalDiscountsSet = usd ''0.00'',
     go_customer = None, go_billingAddress = None, go_shippingAddress = None,
     go_lineItems = [\<lparr>gl_id = ''gid://shopify/LineItem/1'', gl_title = ''Widget'', gl_sku = Some ''WIDGET-1'',
       gl_quantity = 2, gl_variant = None, gl_originalUnitPriceSet = usd ''50.00'',
       gl_discountedTotalSet = usd ''100.00'', gl_discountAllocations = [(usd ''5.00'', None)]\<rparr>],
     go_shippingLines = [], go_taxLines = [], go_transactions = [], go_physicalLocation = None,
     go_risk = Some (Some ''ACCEPT'')\<rparr>"

lemma sample_gql_readable: "readable (data_js [(''order'', null_or gql_order_js (Some sample_gql))])"
  by code_simp

theorem getOrder_reads_order_witness:
  "fst (http_getOrder (sample_http (http_answer 200 (json (data_js [(''order'', null_or gql_order_js (Some sample_gql))]))))
     sample_connection ''gid://shopify/Order/100'' signed_in) = Inr (mapGraphQLOrder sample_gql)"
  using getOrder_reads_order [OF sample_token_used sample_fetch answer_reads [OF sample_gql_readable]] by simp

theorem getOrder_retry_policy_witness:
  "\<exists>e. fst (http_getOrder (sample_http (http_answer 503 ''busy'')) sample_connection ''gid://shopify/Order/100'' signed_in)
      = Inl e \<and> shouldRetry (classifyHandlerError e)"
  using getOrder_retry_policy [OF sample_token_used sample_fetch _ _ sample_quiet, of "http_answer 503 ''busy''"]
  by (auto simp: http_answer_def)

theorem refused_token_kept_witness:
  "\<exists>d e w'. attempts 2 (http_getOrder (sample_http (http_answer 401 [])) sample_connection ''gid://shopify/Order/100'') signed_in
      = ([Inl d, Inl e], w') \<and> shouldRetry (classifyHandlerError d) \<and> shouldRetry (classifyHandlerError e)
    \<and> sx_tokens w' = sx_tokens signed_in"
proof -
  have "token_refused (sample_http (http_answer 401 [])) (ct_accessToken sample_token)"
    by (simp add: token_refused_def sample_fetch http_answer_def)
  from refused_token_kept [OF sample_http_facts this sample_quiet, of 2 "''gid://shopify/Order/100''"]
  show ?thesis by (auto simp: numeral_2_eq_2 length_Suc_conv simp del: attempts.simps)
qed

lemma sample_matching:
  "fake_matching sample_shop 1778889600000 1778976000000 = [makeFakeOrder]"
  by code_simp

lemma sample_page_readable: "readable (page_js (map so_totalPrice [makeFakeOrder]) 0)"
  by code_simp

theorem daily_aggregate_pages_witness:
  "\<exists>agg w'. http_getDailyOrderAggregate (sample_http (http_answer 200 (json (page_js (map so_totalPrice [makeFakeOrder]) 0))))
      sample_connection ''2026-05-16T00:00:00Z'' ''2026-05-17T00:00:00Z'' signed_in = (Inr agg, w')
    \<and> oa_count agg = 1
    \<and> fst (fake_getDailyOrderAggregate ''2026-05-16T00:00:00Z'' ''2026-05-17T00:00:00Z'' sample_shop) = Inr agg"
proof -
  let ?G = "sample_http (http_answer 200 (json (page_js (map so_totalPrice [makeFakeOrder]) 0)))"
  have a: "date_parse ''2026-05-16T00:00:00Z'' = Some 1778889600000" by code_simp
  have b: "date_parse ''2026-05-17T00:00:00Z'' = Some 1778976000000" by code_simp
  have "serves_pages ?G sample_connection (ct_accessToken sample_token) q
      (map so_totalPrice (fake_matching sample_shop 1778889600000 1778976000000))" for q
    unfolding serves_pages_def sample_fetch sample_matching using answer_reads [OF sample_page_readable] by auto
  note run = daily_aggregate_pages [OF sample_token_used a b this, unfolded sample_matching]
  then obtain agg w' where "http_getDailyOrderAggregate ?G sample_connection ''2026-05-16T00:00:00Z''
      ''2026-05-17T00:00:00Z'' signed_in = (Inr agg, w')" "oa_count agg = min 10000 (length [makeFakeOrder])"
    "length [makeFakeOrder] \<le> 10000 \<longrightarrow>
       fst (fake_getDailyOrderAggregate ''2026-05-16T00:00:00Z'' ''2026-05-17T00:00:00Z'' sample_shop) = Inr agg"
    by blast
  then show ?thesis by (intro exI [of _ agg] exI [of _ w']) simp
qed

end
