(* ===== verification/AdminUi.thy ===== *)
theory AdminUi
  imports AdminProps ShopifyTokens
begin

text \<open>
  \<open>apps/admin-ui/src/lib/api.ts\<close>, the client of the admin API in the browser, against the handlers of
  \<open>admin-api.ts\<close> and \<open>admin-replay.ts\<close> that answer it: what a request says and what the server reads in it
  are the same. \<open>fetch\<close> is the environment of the HTTP theory; a reply's headers are given with it. Texts are
  UTF-8, so percent-decoding a parameter gives its bytes back.
\<close>

section \<open>\<open>URLSearchParams\<close> on the server\<close>

text \<open>The text of one name or value: a plus is a space, a percent sign with two hex digits a byte.\<close>

fun form_text :: "string \<Rightarrow> string" where
  "form_text [] = []"
| "form_text (c # s) =
     (if c = CHR ''+'' then CHR '' '' # form_text s
      else if c = CHR ''%'' then (case s of
          h # l # r \<Rightarrow> (case (hex_value h, hex_value l) of
              (Some a, Some b) \<Rightarrow> char_of (16 * a + b) # form_text r
            | _ \<Rightarrow> c # form_text s)
        | _ \<Rightarrow> c # form_text s)
      else c # form_text s)"

definition form_pair :: "string \<Rightarrow> string \<times> string" where
  "form_pair s = (form_text (takeWhile (\<lambda>c. c \<noteq> CHR ''='') s), form_text (drop 1 (dropWhile (\<lambda>c. c \<noteq> CHR ''='') s)))"

definition form_decode :: "string \<Rightarrow> search_params" where
  "form_decode qs = map form_pair (filter (\<lambda>s. s \<noteq> []) (split_on (CHR ''&'') qs))"

lemma form_char_free: "c \<in> set (form_char d) \<Longrightarrow> c \<noteq> CHR ''&'' \<and> c \<noteq> CHR ''=''"
proof -
  have "hex_char n \<noteq> CHR ''&'' \<and> hex_char n \<noteq> CHR ''=''" if "n < 16" for n
    using that hex_value_char [OF that] by (auto simp: hex_value_def)
  then show "c \<in> set (form_char d) \<Longrightarrow> c \<noteq> CHR ''&'' \<and> c \<noteq> CHR ''=''"
    using hex_digits [of d] by (auto simp: form_char_def is_letter_def is_upper_def is_lower_def is_digit_def split: if_splits)
qed

lemma form_text_char: "form_text (form_char c @ s) = c # form_text s"
proof (cases "is_letter c \<or> is_digit c \<or> c \<in> set ''*-._'' \<or> c = CHR '' ''")
  case True
  then show ?thesis
    by (auto simp: form_char_def is_letter_def is_upper_def is_lower_def is_digit_def)
next
  case False
  then have "form_char c = CHR ''%'' # hex_char (code c div 16) # [hex_char (code c mod 16)]"
    by (simp add: form_char_def)
  moreover have "char_of (16 * (code c div 16) + code c mod 16) = c" by (simp only: mult_div_mod_eq char_of_char)
  ultimately show ?thesis using hex_digits [of c] by (simp add: hex_value_char)
qed

lemma form_text_encoded: "form_text (concat (map form_char s)) = s"
proof (induction s)
  case (Cons c s)
  then show ?case using form_text_char [of c "concat (map form_char s)"] by simp
qed simp

lemma encoded_free: "CHR ''&'' \<notin> set (concat (map form_char s))" "CHR ''='' \<notin> set (concat (map form_char s))"
  using form_char_free by fastforce+

text \<open>Reading a written query gives its parameters back.\<close>

lemma form_roundtrip: "form_decode (form_encode ps) = ps"
proof (cases "ps = []")
  case False
  let ?w = "\<lambda>(k, v). concat (map form_char k) @ ''='' @ concat (map form_char v)"
  have "split_on (CHR ''&'') (form_encode ps) = map ?w ps"
    unfolding form_encode_def using False encoded_free by (intro split_join) auto
  moreover have "form_pair (?w p) = p" for p
    using encoded_free(2) by (cases p) (simp add: form_pair_def takeWhile_append dropWhile_append form_text_encoded)
  ultimately show ?thesis by (auto simp: form_decode_def case_prod_beta intro!: map_idI)
qed (simp add: form_decode_def form_encode_def)

section \<open>The requests\<close>

text \<open>A reply with its status text and its headers.\<close>

record ui_reply =
  ui_http :: http_reply
  ui_statusText :: string
  ui_headers :: "(string \<times> string) list"

record ui_request =
  uq_method :: string
  uq_path :: string
  uq_headers :: "(string \<times> string) list"
  uq_body :: "string option"

record 'x browser =
  bw_fetch :: "ui_request \<Rightarrow> ('x, ui_reply) io"
  bw_syntaxError :: "string \<Rightarrow> js_error"

text \<open>\<open>ApiError\<close> with its status, or another error.\<close>

datatype api_error = ApiError int string | OtherError js_error

type_synonym ('x, 'a) api_call = "('x, api_error, 'a) eff"

definition try_fetch :: "'x browser \<Rightarrow> ui_request \<Rightarrow> ('x, ui_reply) api_call" where
  "try_fetch B q = (\<lambda>x. case bw_fetch B q x of (Inl e, y) \<Rightarrow> (Inl (OtherError e), y) | (Inr r, y) \<Rightarrow> (Inr r, y))"

definition status_line :: "ui_reply \<Rightarrow> string" where
  "status_line r = show_int (hp_status (ui_http r)) @ '' '' @ ui_statusText r"

text \<open>\<open>text || `${res.status} ${res.statusText}`\<close>\<close>

definition failure_of :: "ui_reply \<Rightarrow> api_error" where
  "failure_of r = ApiError (hp_status (ui_http r))
     (if reply_text (ui_http r) = [] then status_line r else reply_text (ui_http r))"

definition body_json :: "'x browser \<Rightarrow> http_reply \<Rightarrow> js_error + jsval" where
  "body_json B r = (case hp_body r of
     Inl e \<Rightarrow> Inl e
   | Inr t \<Rightarrow> (case json_parse t of None \<Rightarrow> Inl (bw_syntaxError B t) | Some v \<Rightarrow> Inr v))"

definition api_get :: "'x browser \<Rightarrow> string \<Rightarrow> ('x, jsval) api_call" where
  "api_get B path = bnd (try_fetch B \<lparr>uq_method = ''GET'', uq_path = path, uq_headers = [(''Accept'', ''application/json'')],
       uq_body = None\<rparr>) (\<lambda>res.
     if \<not> reply_ok (ui_http res) then throw (failure_of res)
     else (case body_json B (ui_http res) of Inl e \<Rightarrow> throw (OtherError e) | Inr v \<Rightarrow> ret v))"

text \<open>A body that is no JSON counts as \<open>{}\<close>; 409 and 404 are answers.\<close>

definition api_postJson :: "'x browser \<Rightarrow> string \<Rightarrow> jsval \<Rightarrow> ('x, jsval) api_call" where
  "api_postJson B path body = bnd (try_fetch B \<lparr>uq_method = ''POST'', uq_path = path,
       uq_headers = [(''Content-Type'', ''application/json''), (''Accept'', ''application/json'')], uq_body = Some (json body)\<rparr>) (\<lambda>res.
     let v = (case body_json B (ui_http res) of Inl _ \<Rightarrow> JObj [] | Inr v \<Rightarrow> v) in
     if \<not> reply_ok (ui_http res) \<and> hp_status (ui_http res) \<noteq> 409 \<and> hp_status (ui_http res) \<noteq> 404
       then throw (ApiError (hp_status (ui_http res)) (json v))
     else ret v)"

definition with_query :: "string \<Rightarrow> search_params \<Rightarrow> string" where
  "with_query path ps = path @ (if form_encode ps = [] then [] else ''?'' @ form_encode ps)"

record orders_query =
  oq_limit :: "nat option"
  oq_offset :: "nat option"
  oq_connectionId :: "string option"
  oq_status :: "sync_status option"
  oq_search :: "string option"

definition orders_params :: "orders_query \<Rightarrow> search_params" where
  "orders_params q = map (\<lambda>n. (''limit'', show_nat n)) (some_list (oq_limit q))
     @ map (\<lambda>n. (''offset'', show_nat n)) (some_list (oq_offset q))
     @ map (\<lambda>s. (''connection'', s)) (some_list (Option.bind (oq_connectionId q) (\<lambda>s. non_empty (Some s))))
     @ map (\<lambda>s. (''status'', sync_status_str s)) (some_list (oq_status q))
     @ map (\<lambda>s. (''search'', s)) (some_list (Option.bind (oq_search q) (\<lambda>s. non_empty (Some s))))"

definition api_status :: "'x browser \<Rightarrow> ('x, jsval) api_call" where
  "api_status B = api_get B ''/api/ops/status''"

definition api_orders :: "'x browser \<Rightarrow> orders_query \<Rightarrow> ('x, jsval) api_call" where
  "api_orders B q = api_get B (with_query ''/api/ops/orders'' (orders_params q))"

definition api_orderDetail :: "'x browser \<Rightarrow> string \<Rightarrow> string \<Rightarrow> ('x, jsval) api_call" where
  "api_orderDetail B connection orderId =
     api_get B (''/api/ops/orders/detail?'' @ form_encode [(''connection'', connection), (''orderId'', orderId)])"

definition recon_params :: "nat option \<Rightarrow> string option \<Rightarrow> bool \<Rightarrow> search_params" where
  "recon_params limit connection driftOnly = map (\<lambda>n. (''limit'', show_nat n)) (some_list limit)
     @ map (\<lambda>s. (''connection'', s)) (some_list (Option.bind connection (\<lambda>s. non_empty (Some s))))
     @ (if driftOnly then [(''drift'', ''true'')] else [])"

definition api_reconciliation :: "'x browser \<Rightarrow> nat option \<Rightarrow> string option \<Rightarrow> bool \<Rightarrow> ('x, jsval) api_call" where
  "api_reconciliation B limit connection driftOnly =
     api_get B (with_query ''/api/ops/reconciliation'' (recon_params limit connection driftOnly))"

definition replay_call_body :: "string \<Rightarrow> string \<Rightarrow> bool \<Rightarrow> jsval" where
  "replay_call_body connection gid force = JObj [(''connectionId'', JStr connection), (''orderGid'', JStr gid), (''force'', JBool force)]"

definition api_replay :: "'x browser \<Rightarrow> string \<Rightarrow> string \<Rightarrow> bool \<Rightarrow> ('x, jsval) api_call" where
  "api_replay B connection gid force = api_postJson B ''/api/ops/replay'' (replay_call_body connection gid force)"

definition api_connections :: "'x browser \<Rightarrow> ('x, jsval) api_call" where
  "api_connections B = api_get B ''/api/ops/connections''"

definition api_reconcileRun :: "'x browser \<Rightarrow> nat \<Rightarrow> ('x, jsval) api_call" where
  "api_reconcileRun B daysBack = api_postJson B ''/api/ops/reconcile/run'' (JObj [(''daysBack'', js_nat daysBack)])"

text \<open>\<open>Number(headers.get(name) ?? 0)\<close> and the content type of a reply; header names have no case.\<close>

definition ui_header :: "ui_reply \<Rightarrow> string \<Rightarrow> string option" where
  "ui_header r k = map_of (map (\<lambda>(a, v). (to_lower a, v)) (ui_headers r)) k"

definition reply_size :: "ui_reply \<Rightarrow> jsnum" where
  "reply_size r = (case ui_header r ''content-length'' of None \<Rightarrow> Fin 0 | Some s \<Rightarrow> to_number (JStr s))"

definition reply_type :: "ui_reply \<Rightarrow> string" where
  "reply_type r = (case ui_header r ''content-type'' of None \<Rightarrow> ''application/json'' | Some s \<Rightarrow> s)"

definition payload_path :: "string \<Rightarrow> string" where
  "payload_path uri = ''/api/ops/payload?'' @ form_encode [(''uri'', uri)]"

definition api_payload :: "'x browser \<Rightarrow> string \<Rightarrow> ('x, string \<times> jsnum \<times> string) api_call" where
  "api_payload B uri = bnd (try_fetch B \<lparr>uq_method = ''GET'', uq_path = payload_path uri,
       uq_headers = [(''Accept'', ''application/json'')], uq_body = None\<rparr>) (\<lambda>res.
     if \<not> reply_ok (ui_http res) then throw (failure_of res)
     else (case hp_body (ui_http res) of
       Inl e \<Rightarrow> throw (OtherError e)
     | Inr t \<Rightarrow> ret (t, reply_size res, reply_type res)))"

definition api_payloadHead :: "'x browser \<Rightarrow> string \<Rightarrow> ('x, jsnum \<times> string) api_call" where
  "api_payloadHead B uri = bnd (try_fetch B \<lparr>uq_method = ''HEAD'', uq_path = payload_path uri, uq_headers = [],
       uq_body = None\<rparr>) (\<lambda>res.
     if \<not> reply_ok (ui_http res) then throw (ApiError (hp_status (ui_http res)) (status_line res))
     else ret (reply_size res, reply_type res))"

section \<open>What the server reads\<close>

lemma non_empty_Some [simp]: "non_empty (Some s) = (if s = [] then None else Some s)"
  by (simp add: non_empty_def)

lemma param_simps [simp]:
  "param [] k = None"
  "param ((k', v) # q) k = (if k = k' then Some v else param q k)"
  "param (map (\<lambda>x. (k', f x)) (some_list m) @ q) k =
     (if k = k' then (case m of None \<Rightarrow> param q k | Some x \<Rightarrow> Some (f x)) else param q k)"
  by (auto simp: param_def split: option.splits)

lemma param_last [simp]:
  "param (map (\<lambda>x. (k', f x)) (some_list m)) k = (if k = k' then map_option f m else None)"
  using param_simps(3) [of k' f m "[]" k] by (auto split: option.splits)

lemma orders_read:
  "param (orders_params q) ''limit'' = map_option show_nat (oq_limit q)"
  "param (orders_params q) ''offset'' = map_option show_nat (oq_offset q)"
  "param (orders_params q) ''connection'' = Option.bind (oq_connectionId q) (\<lambda>s. non_empty (Some s))"
  "param (orders_params q) ''status'' = map_option sync_status_str (oq_status q)"
  "param (orders_params q) ''search'' = Option.bind (oq_search q) (\<lambda>s. non_empty (Some s))"
  by (simp_all add: orders_params_def option.map_ident split: option.splits)

lemma orders_status_read: "status_param (orders_params q) = oq_status q"
  by (cases "oq_status q"; cases "the (oq_status q)") (simp_all add: status_param_def orders_read)

lemma trim_Nil [simp]: "trim [] = []"
  by code_simp

lemma orders_search_read: "text_param (orders_params q) ''search'' = (case oq_search q of None \<Rightarrow> [] | Some s \<Rightarrow> trim s)"
  by (simp add: text_param_def orders_read split: option.splits)

text \<open>The rows an orders query of the browser is after, in the order of the page.\<close>

definition wanted_orders :: "environment \<Rightarrow> orders_query \<Rightarrow> sync_log list \<Rightarrow> sync_log list" where
  "wanted_orders env q rows = by_time (filter (\<lambda>r. let d = log_data r in sl_environment d = env
     \<and> (case oq_connectionId q of None \<Rightarrow> True | Some c \<Rightarrow> c = [] \<or> sl_connectionId d = c)
     \<and> (case oq_status q of None \<Rightarrow> True | Some st \<Rightarrow> sl_status d = st)
     \<and> (case oq_search q of None \<Rightarrow> True | Some s \<Rightarrow> trim s = [] \<or> search_hits (trim s) d)) rows)"

lemma order_selected_read:
  "order_selected env (orders_params q) r \<longleftrightarrow> (let d = log_data r in sl_environment d = env
     \<and> (case oq_connectionId q of None \<Rightarrow> True | Some c \<Rightarrow> c = [] \<or> sl_connectionId d = c)
     \<and> (case oq_status q of None \<Rightarrow> True | Some st \<Rightarrow> sl_status d = st)
     \<and> (case oq_search q of None \<Rightarrow> True | Some s \<Rightarrow> trim s = [] \<or> search_hits (trim s) d))"
  by (auto simp: order_selected_def Let_def orders_read orders_status_read orders_search_read passes_def passes_opt_def
      non_empty_def split: option.splits)

lemma limit_read:
  assumes "oq_limit q = Some n" and "1 \<le> n" and "n \<le> 200"
  shows "orders_limit (orders_params q) = n"
proof -
  have "is_finite_num (of_integer (int n))"
    using num_of_int [of "int n"] assms(3) by (simp add: of_integer_def)
  with assms show ?thesis by (simp add: orders_limit_def clampInt_def orders_read)
qed

text \<open>
  C28: the list the operator sees is the list that was asked for. For a query of the browser with a page
  size of at most 200, the text of its URL, read back by the server, selects exactly the rows of that
  connection, status and search text, newest first, and the page that starts at the query's offset.
\<close>

theorem ui_orders_agree:
  assumes "oq_limit q = Some n" and "1 \<le> n" and "n \<le> 200"
  shows "order_page env (form_decode (form_encode (orders_params q))) rows
    = take n (drop (case oq_offset q of None \<Rightarrow> 0 | Some k \<Rightarrow> k) (wanted_orders env q rows))"
proof -
  have zero: "parse_int ''0'' = Some 0" by code_simp
  have "offset_param (orders_params q) = (case oq_offset q of None \<Rightarrow> 0 | Some k \<Rightarrow> k)"
    using zero by (simp add: offset_param_def orders_read split: option.splits)
  then show ?thesis
    using limit_read [OF assms]
    by (simp add: form_roundtrip order_page_def selected_orders_def wanted_orders_def order_selected_read [abs_def])
qed

text \<open>
  The browser's replay is the operator's replay. The body the admin UI posts for an order of a row is
  read by the endpoint as a request for that connection and that order with that \<open>force\<close>, and the call is
  \<open>requestReplay\<close> on it, its outcome turned into the response.
\<close>

theorem ui_replay_is_requestReplay:
  assumes "all_digits n" and "cid \<noteq> []" and "ar_xref deps = Some xref"
  shows "handleAdminReplay deps (json (replay_call_body cid (order_gid_prefix @ n) force))
    = bnd (requestReplay \<lparr>rd_findById = ar_findById deps, rd_xref = xref, rd_enqueue = ar_enqueue deps, rd_now = ar_now deps\<rparr>
        \<lparr>rr_environment = ar_environment deps, rr_connectionId = cid, rr_orderGid = order_gid_prefix @ n, rr_topic = None,
          rr_force = force\<rparr>) (\<lambda>out. ret (replay_response cid out))"
proof -
  let ?b = "replay_call_body cid (order_gid_prefix @ n) force"
  have parsed: "json_parse (json ?b) = Some ?b"
    by (rule json_roundtrip) (simp add: replay_call_body_def)
  have "normalizeOrderGid (JStr (order_gid_prefix @ n)) = Some (order_gid_prefix @ n)"
    using assms(1) normalized_gid by blast
  then have "replay_request_of (ar_environment deps) ?b = Inr (Inr \<lparr>rr_environment = ar_environment deps, rr_connectionId = cid,
      rr_orderGid = order_gid_prefix @ n, rr_topic = None, rr_force = force\<rparr>)"
    using assms(2) by (simp add: replay_request_of_def replay_call_body_def oget_Cons nullish_def del: normalizeOrderGid.simps)
  then show ?thesis using assms(3) by (simp add: handleAdminReplay_def parsed)
qed

end
