(* ===== verification/PageLoads.thy ===== *)
theory PageLoads
  imports AdminUi
begin

text \<open>
  How the pages of the admin UI load their data. Each page has an effect on a key (its filters and its offset):
  when the key changes, the cleanup of the last load sets its \<open>cancelled\<close> flag and a load for the new key
  starts; an answer counts unless its load was cancelled. The locale states what a page has to do for its
  data to be those of its key, and the pages interpret it.
\<close>

section \<open>Loads\<close>

text \<open>A load under way: its number, the key it asked for, and its \<open>cancelled\<close> flag.\<close>

record 'k page_load =
  pl_id :: nat
  pl_key :: 'k
  pl_cancelled :: bool

text \<open>\<open>ls_effect\<close> is the load whose cleanup React holds, \<open>ls_settled\<close> the key of the load whose answer was taken last.\<close>

record 'k loads =
  ls_open :: "'k page_load list"
  ls_effect :: nat
  ls_next :: nat
  ls_settled :: "'k option"

definition load_now :: "'k \<Rightarrow> 'k loads \<Rightarrow> 'k loads" where
  "load_now k ls = ls\<lparr>ls_open := ls_open ls @ [\<lparr>pl_id = ls_next ls, pl_key = k, pl_cancelled = False\<rparr>], ls_next := Suc (ls_next ls)\<rparr>"

definition cancel :: "nat \<Rightarrow> 'k page_load list \<Rightarrow> 'k page_load list" where
  "cancel n ls = map (\<lambda>l. if pl_id l = n then l\<lparr>pl_cancelled := True\<rparr> else l) ls"

text \<open>The effect on a new key: the cleanup of the last one, then a load.\<close>

definition reload :: "'k \<Rightarrow> 'k loads \<Rightarrow> 'k loads" where
  "reload k ls = load_now k (ls\<lparr>ls_open := cancel (ls_effect ls) (ls_open ls), ls_effect := ls_next ls\<rparr>)"

definition first_load :: "'k \<Rightarrow> 'k loads" where
  "first_load k = load_now k \<lparr>ls_open = [], ls_effect = 0, ls_next = 0, ls_settled = None\<rparr>"

text \<open>An answer to the load with a number: whether it counts, and the loads that are left.\<close>

definition settle_load :: "nat \<Rightarrow> 'k loads \<Rightarrow> bool \<times> 'k loads" where
  "settle_load n ls = (case find (\<lambda>l. pl_id l = n) (ls_open ls) of
     None \<Rightarrow> (False, ls)
   | Some l \<Rightarrow> (let left = ls\<lparr>ls_open := filter (\<lambda>l. pl_id l \<noteq> n) (ls_open ls)\<rparr> in
       if pl_cancelled l then (False, left) else (True, left\<lparr>ls_settled := Some (pl_key l)\<rparr>)))"

text \<open>\<open>e instanceof ApiError ? `${e.status}: ${e.message}` : (e as Error).message\<close>; a thrown value without a message gives \<open>undefined\<close>.\<close>

fun load_error :: "api_error \<Rightarrow> string option" where
  "load_error (ApiError st msg) = Some (show_int st @ '': '' @ msg)"
| "load_error (OtherError (NonError _)) = None"
| "load_error (OtherError e) = Some (err_message e)"

section \<open>Nothing but the effect's load counts\<close>

definition live :: "'k loads \<Rightarrow> 'k page_load set" where
  "live ls = {l \<in> set (ls_open ls). \<not> pl_cancelled l}"

definition loads_ok :: "'k \<Rightarrow> 'k loads \<Rightarrow> bool" where
  "loads_ok k ls \<longleftrightarrow> (\<forall>l \<in> live ls. pl_id l = ls_effect ls \<and> pl_key l = k)
     \<and> (\<forall>l \<in> set (ls_open ls). pl_id l < ls_next ls) \<and> distinct (map pl_id (ls_open ls)) \<and> ls_effect ls < ls_next ls
     \<and> (live ls = {} \<longrightarrow> ls_settled ls = Some k)"

lemma cancel_ids [simp]: "map pl_id (cancel n ls) = map pl_id ls"
  by (simp add: cancel_def)

lemma in_cancel: "l \<in> set (cancel n ls) \<Longrightarrow> \<exists>k \<in> set ls. pl_id l = pl_id k \<and> (pl_cancelled l \<or> l = k \<and> pl_id k \<noteq> n)"
  by (auto simp: cancel_def split: if_splits)

lemma first_load_ok: "loads_ok k (first_load k)"
  by (simp add: loads_ok_def live_def first_load_def load_now_def)

lemma reload_ok:
  assumes "loads_ok k0 ls"
  shows "loads_ok k (reload k ls)"
proof -
  have "live (reload k ls) = {\<lparr>pl_id = ls_next ls, pl_key = k, pl_cancelled = False\<rparr>}"
    using assms by (auto simp: live_def reload_def load_now_def loads_ok_def dest: in_cancel)
  moreover have "l \<in> set (cancel (ls_effect ls) (ls_open ls)) \<Longrightarrow> pl_id l < ls_next ls" for l
    using assms by (auto simp: loads_ok_def dest: in_cancel)
  moreover have "ls_next ls \<notin> set (map pl_id (cancel (ls_effect ls) (ls_open ls)))"
    using assms by (auto simp: loads_ok_def)
  ultimately show ?thesis
    using assms by (auto simp: loads_ok_def reload_def load_now_def less_SucI)
qed

lemma settled_load:
  assumes "find (\<lambda>l. pl_id l = n) (ls_open ls) = Some l"
  shows "ls_open (snd (settle_load n ls)) = filter (\<lambda>l. pl_id l \<noteq> n) (ls_open ls)"
    and "ls_effect (snd (settle_load n ls)) = ls_effect ls" and "ls_next (snd (settle_load n ls)) = ls_next ls"
    and "ls_settled (snd (settle_load n ls)) = (if pl_cancelled l then ls_settled ls else Some (pl_key l))"
  by (simp_all add: settle_load_def assms Let_def)

lemma live_settled:
  assumes "distinct (map pl_id (ls_open ls))" and "find (\<lambda>l. pl_id l = n) (ls_open ls) = Some l"
  shows "live (snd (settle_load n ls)) = live ls - {l}"
proof -
  have "l \<in> set (ls_open ls)" "pl_id l = n" using find_Some_in [OF assms(2)] by simp_all
  then have "k \<in> set (ls_open ls) \<Longrightarrow> pl_id k = n \<longleftrightarrow> k = l" for k
    using assms(1) by (auto simp: distinct_map dest: inj_onD)
  then show ?thesis by (auto simp: live_def settled_load(1) [OF assms(2)])
qed

lemma settle_ok:
  assumes "loads_ok k ls"
  shows "loads_ok k (snd (settle_load n ls))"
proof (cases "find (\<lambda>l. pl_id l = n) (ls_open ls)")
  case None
  with assms show ?thesis by (simp add: settle_load_def)
next
  case (Some l)
  let ?t = "snd (settle_load n ls)"
  have l: "l \<in> set (ls_open ls)" using find_Some_in [OF Some] by simp
  have dist: "distinct (map pl_id (ls_open ls))" using assms unfolding loads_ok_def by blast
  note left = live_settled [OF dist Some]
  have "live ?t = {} \<longrightarrow> ls_settled ?t = Some k"
  proof (cases "pl_cancelled l")
    case True
    then have "live ?t = live ls" unfolding left by (simp add: live_def)
    with True assms show ?thesis by (simp add: settled_load(4) [OF Some] loads_ok_def)
  next
    case False
    then have "l \<in> live ls" using l by (simp add: live_def)
    then have "pl_key l = k" using assms unfolding loads_ok_def by blast
    with False show ?thesis by (simp add: settled_load(4) [OF Some])
  qed
  moreover have "distinct (map pl_id (ls_open ?t))" using dist by (simp add: settled_load(1) [OF Some] distinct_map_filter)
  moreover have "\<forall>j \<in> live ?t. pl_id j = ls_effect ls \<and> pl_key j = k"
    using assms unfolding left loads_ok_def by blast
  moreover have "\<forall>j \<in> set (ls_open ?t). pl_id j < ls_next ls"
    using assms unfolding settled_load(1) [OF Some] loads_ok_def by simp
  moreover have "ls_effect ls < ls_next ls" using assms unfolding loads_ok_def by blast
  ultimately show ?thesis unfolding loads_ok_def settled_load(2,3) [OF Some] by (intro conjI)
qed

section \<open>Pages\<close>

text \<open>What a step of a page may do to its key and its loads.\<close>

definition page_move :: "'k \<Rightarrow> 'k loads \<Rightarrow> 'k \<Rightarrow> 'k loads \<Rightarrow> bool" where
  "page_move k ls k' ls' \<longleftrightarrow> k' = k \<and> ls' = ls \<or> ls' = reload k' ls \<or> k' = k \<and> (\<exists>n. ls' = snd (settle_load n ls))"

lemma page_move_same [intro]: "page_move k ls k ls"
  by (simp add: page_move_def)

lemma page_move_reload [intro]: "page_move k ls k' (reload k' ls)"
  by (simp add: page_move_def)

lemma page_move_settle [intro]: "page_move k ls k (snd (settle_load n ls))"
  by (auto simp: page_move_def)

text \<open>
  A page: its key, its loads, its steps, the events it is considered under, and a condition its states keep
  under them.
\<close>

locale loading_page =
  fixes key_of :: "'s \<Rightarrow> 'k" and loads_of :: "'s \<Rightarrow> 'k loads" and step :: "'s \<Rightarrow> 'e \<Rightarrow> 's"
    and plain :: "'e \<Rightarrow> bool" and calm :: "'s \<Rightarrow> bool" and start :: 's
  assumes starts: "calm start" "loads_of start = first_load (key_of start)"
    and calm_step: "calm s \<Longrightarrow> plain e \<Longrightarrow> calm (step s e)"
    and move_step: "calm s \<Longrightarrow> plain e \<Longrightarrow> page_move (key_of s) (loads_of s) (key_of (step s e)) (loads_of (step s e))"
begin

lemma step_ok:
  assumes "loads_ok (key_of s) (loads_of s)" and "calm s" and "plain e"
  shows "loads_ok (key_of (step s e)) (loads_of (step s e))"
  using move_step [OF assms(2,3)] assms(1) unfolding page_move_def by (metis reload_ok settle_ok)

lemma run_ok:
  assumes "loads_ok (key_of s) (loads_of s)" and "calm s" and "list_all plain es"
  shows "loads_ok (key_of (foldl step s es)) (loads_of (foldl step s es))"
  using assms by (induction es arbitrary: s) (auto dest: step_ok calm_step)

theorem shown_is_asked:
  assumes "list_all plain es" and "live (loads_of (foldl step start es)) = {}"
  shows "ls_settled (loads_of (foldl step start es)) = Some (key_of (foldl step start es))"
  using run_ok [of start es] starts first_load_ok assms unfolding loads_ok_def by metis

end

section \<open>What is shown\<close>

lemma settle_counts:
  assumes "loads_ok k ls" and "fst (settle_load n ls)"
  obtains l where "l \<in> live ls" and "pl_id l = n" and "pl_key l = k" and "live (snd (settle_load n ls)) = {}"
proof -
  from assms(2) obtain l where l: "find (\<lambda>l. pl_id l = n) (ls_open ls) = Some l" "\<not> pl_cancelled l"
    by (auto simp: settle_load_def Let_def split: option.splits if_splits)
  have dist: "distinct (map pl_id (ls_open ls))" using assms(1) by (simp add: loads_ok_def)
  have in_live: "l \<in> live ls" "pl_id l = n" using find_Some_in [OF l(1)] l(2) by (simp_all add: live_def)
  have one: "j = l" if "j \<in> live ls" for j
  proof -
    have "pl_id j = pl_id l" "j \<in> set (ls_open ls)" "l \<in> set (ls_open ls)"
      using assms(1) that in_live(1) by (auto simp: loads_ok_def live_def)
    then show ?thesis using dist by (auto simp: distinct_map dest: inj_onD)
  qed
  then have "live ls - {l} = {}" by blast
  then have "live (snd (settle_load n ls)) = {}" by (simp add: live_settled [OF dist l(1)])
  moreover have "pl_key l = k" using assms(1) in_live(1) by (simp add: loads_ok_def)
  ultimately show thesis using that in_live by blast
qed

lemma settle_stale:
  assumes "loads_ok k ls" and "\<not> fst (settle_load n ls)"
  shows "live (snd (settle_load n ls)) = live ls"
proof (cases "find (\<lambda>l. pl_id l = n) (ls_open ls)")
  case None
  then show ?thesis by (simp add: settle_load_def)
next
  case (Some l)
  then have "l \<notin> live ls" using assms(2) by (auto simp: settle_load_def Let_def live_def split: if_splits)
  moreover have "distinct (map pl_id (ls_open ls))" using assms(1) by (simp add: loads_ok_def)
  ultimately show ?thesis by (simp add: live_settled [OF _ Some])
qed

lemma live_first_load: "live (first_load k) \<noteq> {}"
  by (simp add: live_def first_load_def load_now_def)

lemma live_reload: "live (reload k ls) \<noteq> {}"
  by (auto simp: live_def reload_def load_now_def)

text \<open>
  A page with its data: which event is an answer, what the page shows, whether it says that it is loading, and
  what an answer that counts does to the data. An answer that does not count leaves both alone, and nothing but
  an answer changes the data.
\<close>

locale answering_page = loading_page key_of loads_of step plain calm start
  for key_of :: "'s \<Rightarrow> 'k" and loads_of :: "'s \<Rightarrow> 'k loads" and step :: "'s \<Rightarrow> 'e \<Rightarrow> 's"
    and plain :: "'e \<Rightarrow> bool" and calm :: "'s \<Rightarrow> bool" and start :: 's +
  fixes answer_of :: "'e \<Rightarrow> (nat \<times> 'a) option" and data_of :: "'s \<Rightarrow> 'd" and busy :: "'s \<Rightarrow> bool"
    and taken :: "'a \<Rightarrow> 'd \<Rightarrow> 'd"
  assumes starts_busy: "busy start"
    and answered: "calm s \<Longrightarrow> plain e \<Longrightarrow> answer_of e = Some (n, a) \<Longrightarrow>
      key_of (step s e) = key_of s \<and> loads_of (step s e) = snd (settle_load n (loads_of s))
      \<and> data_of (step s e) = (if fst (settle_load n (loads_of s)) then taken a (data_of s) else data_of s)
      \<and> busy (step s e) = (busy s \<and> \<not> fst (settle_load n (loads_of s)))"
    and unanswered: "calm s \<Longrightarrow> plain e \<Longrightarrow> answer_of e = None \<Longrightarrow> data_of (step s e) = data_of s
      \<and> (key_of (step s e) = key_of s \<and> loads_of (step s e) = loads_of s \<and> busy (step s e) = busy s
        \<or> loads_of (step s e) = reload (key_of (step s e)) (loads_of s) \<and> busy (step s e))"
begin

text \<open>The answer \<open>a\<close> was taken at \<open>pre\<close>, and what is shown now is what it left.\<close>

definition shown :: "'e list \<Rightarrow> 'e list \<Rightarrow> nat \<Rightarrow> 'a \<Rightarrow> bool" where
  "shown es pre n a \<longleftrightarrow> (\<exists>e post l. es = pre @ e # post \<and> answer_of e = Some (n, a)
     \<and> l \<in> live (loads_of (foldl step start pre)) \<and> pl_id l = n \<and> pl_key l = key_of (foldl step start es)
     \<and> data_of (foldl step start es) = taken a (data_of (foldl step start pre)))"

lemma shown_snoc:
  assumes "shown es pre n a" and "key_of (step (foldl step start es) e) = key_of (foldl step start es)"
    and "data_of (step (foldl step start es) e) = data_of (foldl step start es)"
  shows "shown (es @ [e]) pre n a"
  using assms unfolding shown_def by auto

lemma shown_run:
  assumes "list_all plain es"
  shows "loads_ok (key_of (foldl step start es)) (loads_of (foldl step start es)) \<and> calm (foldl step start es)
    \<and> (busy (foldl step start es) \<longleftrightarrow> live (loads_of (foldl step start es)) \<noteq> {})
    \<and> (live (loads_of (foldl step start es)) = {} \<longrightarrow> (\<exists>pre n a. shown es pre n a))"
  using assms
proof (induction es rule: rev_induct)
  case Nil
  then show ?case by (simp add: starts starts_busy first_load_ok live_first_load)
next
  case (snoc e es)
  let ?s = "foldl step start es"
  have IH: "loads_ok (key_of ?s) (loads_of ?s)" "calm ?s" "busy ?s \<longleftrightarrow> live (loads_of ?s) \<noteq> {}"
      "live (loads_of ?s) = {} \<Longrightarrow> \<exists>pre n a. shown es pre n a" and e: "plain e"
    using snoc by simp_all
  have ok: "loads_ok (key_of (step ?s e)) (loads_of (step ?s e))" "calm (step ?s e)"
    using step_ok [OF IH(1,2) e] calm_step [OF IH(2) e] by blast+
  show ?case
  proof (cases "answer_of e")
    case None
    from unanswered [OF IH(2) e None] consider
      (same) "data_of (step ?s e) = data_of ?s" "key_of (step ?s e) = key_of ?s" "loads_of (step ?s e) = loads_of ?s"
        "busy (step ?s e) = busy ?s"
      | (loads) "loads_of (step ?s e) = reload (key_of (step ?s e)) (loads_of ?s)" "busy (step ?s e)"
      by blast
    then show ?thesis
    proof cases
      case same
      have "\<exists>pre n a. shown (es @ [e]) pre n a" if "live (loads_of ?s) = {}"
        using IH(4) [OF that] shown_snoc [OF _ same(2,1)] by blast
      with ok IH(3) same show ?thesis by simp
    next
      case loads
      then have "live (loads_of (step ?s e)) \<noteq> {}" by (simp only: live_reload not_False_eq_True)
      with ok loads(2) show ?thesis by simp
    qed
  next
    case (Some na)
    then obtain n a where a: "answer_of e = Some (n, a)" by (cases na) auto
    note step = answered [OF IH(2) e a]
    show ?thesis
    proof (cases "fst (settle_load n (loads_of ?s))")
      case True
      from settle_counts [OF IH(1) True] obtain l where
        l: "l \<in> live (loads_of ?s)" "pl_id l = n" "pl_key l = key_of ?s" "live (loads_of (step ?s e)) = {}"
        using step by metis
      have "shown (es @ [e]) es n a"
        unfolding shown_def using l a step True by (intro exI [of _ e] exI [of _ "[]"] exI [of _ l]) simp
      then show ?thesis using ok l(4) step True by auto
    next
      case False
      have "live (loads_of (step ?s e)) = live (loads_of ?s)" using settle_stale [OF IH(1) False] step by simp
      moreover have same: "key_of (step ?s e) = key_of ?s" "data_of (step ?s e) = data_of ?s" "busy (step ?s e) = busy ?s"
        using step False by simp_all
      moreover have "\<exists>pre n a. shown (es @ [e]) pre n a" if "live (loads_of ?s) = {}"
        using IH(4) [OF that] shown_snoc [OF _ same(1,2)] by blast
      ultimately show ?thesis using ok IH(3) by simp
    qed
  qed
qed

theorem shown_is_answered:
  assumes "list_all plain es" and "\<not> busy (foldl step start es)"
  shows "\<exists>pre e post l a. es = pre @ e # post \<and> answer_of e = Some (pl_id l, a)
    \<and> l \<in> live (loads_of (foldl step start pre)) \<and> pl_key l = key_of (foldl step start es)
    \<and> data_of (foldl step start es) = taken a (data_of (foldl step start pre))"
  using shown_run [OF assms(1)] assms(2) unfolding shown_def by blast

end

end
