(* ===== verification/ParkedView.thy ===== *)
theory ParkedView
  imports PageLoads
begin

text \<open>
  The parked queue of the admin UI, \<open>apps/admin-ui/src/routes/Parked.tsx\<close>, as a machine: the state variables
  of the component, the calls under way, and one event for every click, answer and timer. What is rendered
  is left out; the buttons' \<open>disabled\<close> conditions are guards of the clicks. A handler keeps the \<open>load\<close> of the
  render it was created in, so a timer it sets reloads the page that was shown when it was clicked.
\<close>

section \<open>State\<close>

record order_row =
  vr_connectionId :: string
  vr_orderId :: string
  vr_orderName :: "string option"

record orders_answer =
  oa_rows :: "order_row list"
  oa_total :: nat
  oa_nextOffset :: "nat option"

datatype message_kind = MsgOk | MsgErr

record parked_view =
  pv_rows :: "order_row list"
  pv_total :: nat
  pv_nextOffset :: "nat option"
  pv_offset :: nat
  pv_loading :: bool
  pv_error :: "string option"
  pv_replayBusy :: "string option"
  pv_message :: "(message_kind \<times> string) option"
  pv_selected :: "string list"
  pv_bulkBusy :: bool

text \<open>A bulk replay under way: the rows still to be answered, the counts so far and the offset of its \<open>load\<close>.\<close>

record bulk_run =
  bk_left :: "order_row list"
  bk_ok :: nat
  bk_fail :: nat
  bk_total :: nat
  bk_offset :: nat

text \<open>The page with what is under way: the loads, the timers, the replays, and the replays posted so far.\<close>

record parked_page =
  pk_view :: parked_view
  pk_loads :: "nat loads"
  pk_timers :: "nat list"
  pk_replays :: "(order_row \<times> nat) list"
  pk_bulk :: "bulk_run option"
  pk_posted :: "(string \<times> string) list"

definition PAGE_SIZE :: nat where
  "PAGE_SIZE = 25"

definition rowKey :: "order_row \<Rightarrow> string" where
  "rowKey r = vr_connectionId r @ '':'' @ vr_orderId r"

definition row_gid :: "order_row \<Rightarrow> string" where
  "row_gid r = order_gid_prefix @ vr_orderId r"

definition parked_query :: "nat \<Rightarrow> orders_query" where
  "parked_query off = \<lparr>oq_limit = Some PAGE_SIZE, oq_offset = Some off, oq_connectionId = None,
     oq_status = Some SyncParked, oq_search = None\<rparr>"

section \<open>Loading a page\<close>

text \<open>The effect on \<open>[load]\<close>, which changes with the offset.\<close>

definition run_effect :: "nat \<Rightarrow> parked_page \<Rightarrow> parked_page" where
  "run_effect off s = s\<lparr>pk_view := (pk_view s)\<lparr>pv_offset := off, pv_loading := True\<rparr>, pk_loads := reload off (pk_loads s)\<rparr>"

definition setOffset :: "nat \<Rightarrow> parked_page \<Rightarrow> parked_page" where
  "setOffset off s = (if off = pv_offset (pk_view s) then s else run_effect off s)"

definition take_answer :: "api_error + orders_answer \<Rightarrow> parked_view \<Rightarrow> parked_view" where
  "take_answer ans v = (case ans of
     Inr a \<Rightarrow> v\<lparr>pv_rows := oa_rows a, pv_total := oa_total a, pv_nextOffset := oa_nextOffset a, pv_error := None, pv_loading := False\<rparr>
   | Inl e \<Rightarrow> v\<lparr>pv_error := load_error e, pv_loading := False\<rparr>)"

definition load_answered :: "nat \<Rightarrow> api_error + orders_answer \<Rightarrow> parked_page \<Rightarrow> parked_page" where
  "load_answered n ans s = (let (counts, left) = settle_load n (pk_loads s) in
     s\<lparr>pk_view := (if counts then take_answer ans (pk_view s) else pk_view s), pk_loads := left\<rparr>)"

section \<open>Ticking rows\<close>

definition toggleRow :: "order_row \<Rightarrow> parked_view \<Rightarrow> parked_view" where
  "toggleRow r v = v\<lparr>pv_selected := (if rowKey r \<in> set (pv_selected v) then removeAll (rowKey r) (pv_selected v)
     else pv_selected v @ [rowKey r])\<rparr>"

text \<open>A JavaScript \<open>Set\<close> of keys, in the order of their first insertion.\<close>

definition key_set :: "string list \<Rightarrow> string list" where
  "key_set ks = rev (remdups (rev ks))"

definition toggleAll :: "parked_view \<Rightarrow> parked_view" where
  "toggleAll v = v\<lparr>pv_selected := (if length (pv_selected v) = length (pv_rows v) then []
     else key_set (map rowKey (pv_rows v)))\<rparr>"

section \<open>Replays\<close>

text \<open>What the page reads in an answer to a replay: its outcome and its detail.\<close>

record replay_reply =
  ry_outcome :: "string option"
  ry_detail :: "string option"

definition or_else :: "string option \<Rightarrow> string \<Rightarrow> string" where
  "or_else x d = (case x of None \<Rightarrow> d | Some s \<Rightarrow> s)"

text \<open>\<open>e instanceof Error ? e.message : 'replay failed'\<close>\<close>

fun replay_error :: "api_error \<Rightarrow> string" where
  "replay_error (ApiError _ msg) = msg"
| "replay_error (OtherError (NonError _)) = ''replay failed''"
| "replay_error (OtherError e) = err_message e"

definition click_replay :: "order_row \<Rightarrow> parked_page \<Rightarrow> parked_page" where
  "click_replay r s = (if r \<notin> set (pv_rows (pk_view s)) \<or> pv_replayBusy (pk_view s) = Some (row_gid r) then s
     else s\<lparr>pk_view := (pk_view s)\<lparr>pv_replayBusy := Some (row_gid r), pv_message := None\<rparr>,
       pk_replays := pk_replays s @ [(r, pv_offset (pk_view s))],
       pk_posted := pk_posted s @ [(vr_connectionId r, row_gid r)]\<rparr>)"

definition replay_message_of :: "order_row \<Rightarrow> api_error + replay_reply \<Rightarrow> message_kind \<times> string" where
  "replay_message_of r ans = (case ans of
     Inl e \<Rightarrow> (MsgErr, replay_error e)
   | Inr y \<Rightarrow> (if ry_outcome y = Some ''replayed'' then (MsgOk, ''replayed '' @ or_else (vr_orderName r) (row_gid r))
       else (MsgErr, or_else (ry_outcome y) ''failed'' @ '': '' @ or_else (ry_detail y) [])))"

definition is_replayed :: "api_error + replay_reply \<Rightarrow> bool" where
  "is_replayed ans = (case ans of Inl _ \<Rightarrow> False | Inr y \<Rightarrow> ry_outcome y = Some ''replayed'')"

text \<open>The answer to the single replay at a position of the calls under way.\<close>

definition replay_answered :: "nat \<Rightarrow> api_error + replay_reply \<Rightarrow> parked_page \<Rightarrow> parked_page" where
  "replay_answered i ans s = (if i \<ge> length (pk_replays s) then s
     else (let (r, off) = pk_replays s ! i in
       s\<lparr>pk_view := (pk_view s)\<lparr>pv_message := Some (replay_message_of r ans), pv_replayBusy := None\<rparr>,
         pk_replays := take i (pk_replays s) @ drop (Suc i) (pk_replays s),
         pk_timers := pk_timers s @ (if is_replayed ans then [off] else [])\<rparr>))"

definition bulk_message :: "bulk_run \<Rightarrow> message_kind \<times> string" where
  "bulk_message b = (if bk_fail b = 0 then MsgOk else MsgErr, ''Bulk replay: '' @ show_nat (bk_ok b) @ '' ok, ''
     @ show_nat (bk_fail b) @ '' failed across '' @ show_nat (bk_total b) @ '' orders'')"

text \<open>Posts the next target, or ends the run when there is none.\<close>

definition bulk_next :: "bulk_run \<Rightarrow> parked_page \<Rightarrow> parked_page" where
  "bulk_next b s = (case bk_left b of
     [] \<Rightarrow> s\<lparr>pk_view := (pk_view s)\<lparr>pv_bulkBusy := False, pv_selected := [], pv_message := Some (bulk_message b)\<rparr>,
       pk_bulk := None, pk_timers := pk_timers s @ [bk_offset b]\<rparr>
   | r # _ \<Rightarrow> s\<lparr>pk_bulk := Some b, pk_posted := pk_posted s @ [(vr_connectionId r, row_gid r)]\<rparr>)"

definition click_bulk :: "parked_page \<Rightarrow> parked_page" where
  "click_bulk s = (let v = pk_view s; targets = filter (\<lambda>r. rowKey r \<in> set (pv_selected v)) (pv_rows v) in
     if pv_selected v = [] \<or> pv_bulkBusy v then s
     else bulk_next \<lparr>bk_left = targets, bk_ok = 0, bk_fail = 0, bk_total = length targets, bk_offset = pv_offset v\<rparr>
       (s\<lparr>pk_view := v\<lparr>pv_bulkBusy := True, pv_message := None\<rparr>\<rparr>))"

definition bulk_answered :: "api_error + replay_reply \<Rightarrow> parked_page \<Rightarrow> parked_page" where
  "bulk_answered ans s = (case pk_bulk s of
     None \<Rightarrow> s
   | Some b \<Rightarrow> bulk_next (b\<lparr>bk_left := tl (bk_left b), bk_ok := bk_ok b + (if is_replayed ans then 1 else 0),
       bk_fail := bk_fail b + (if is_replayed ans then 0 else 1)\<rparr>) s)"

text \<open>The timer's \<open>load()\<close> is the one of its closure, and nobody holds its cleanup.\<close>

definition timer_fired :: "nat \<Rightarrow> parked_page \<Rightarrow> parked_page" where
  "timer_fired i s = (if i \<ge> length (pk_timers s) then s
     else s\<lparr>pk_view := (pk_view s)\<lparr>pv_loading := True\<rparr>, pk_loads := load_now (pk_timers s ! i) (pk_loads s),
       pk_timers := take i (pk_timers s) @ drop (Suc i) (pk_timers s)\<rparr>)"

section \<open>The machine\<close>

datatype parked_event =
    LoadAnswered nat "api_error + orders_answer"
  | TimerFired nat
  | ToggleRow order_row
  | ToggleAll
  | PrevPage
  | NextPage
  | ClickReplay order_row
  | ReplayAnswered nat "api_error + replay_reply"
  | ClickBulk
  | BulkAnswered "api_error + replay_reply"

fun parked_step :: "parked_page \<Rightarrow> parked_event \<Rightarrow> parked_page" where
  "parked_step s (LoadAnswered n ans) = load_answered n ans s"
| "parked_step s (TimerFired i) = timer_fired i s"
| "parked_step s (ToggleRow r) = (if r \<in> set (pv_rows (pk_view s)) then s\<lparr>pk_view := toggleRow r (pk_view s)\<rparr> else s)"
| "parked_step s ToggleAll = s\<lparr>pk_view := toggleAll (pk_view s)\<rparr>"
| "parked_step s PrevPage = (if pv_offset (pk_view s) = 0 then s else setOffset (pv_offset (pk_view s) - PAGE_SIZE) s)"
| "parked_step s NextPage = (case pv_nextOffset (pk_view s) of None \<Rightarrow> s | Some n \<Rightarrow> setOffset n s)"
| "parked_step s (ClickReplay r) = click_replay r s"
| "parked_step s (ReplayAnswered i ans) = replay_answered i ans s"
| "parked_step s ClickBulk = click_bulk s"
| "parked_step s (BulkAnswered ans) = bulk_answered ans s"

definition parked_run :: "parked_page \<Rightarrow> parked_event list \<Rightarrow> parked_page" where
  "parked_run = foldl parked_step"

definition mounted :: parked_page where
  "mounted = \<lparr>pk_view = \<lparr>pv_rows = [], pv_total = 0, pv_nextOffset = None, pv_offset = 0, pv_loading = True,
       pv_error = None, pv_replayBusy = None, pv_message = None, pv_selected = [], pv_bulkBusy = False\<rparr>,
     pk_loads = first_load 0, pk_timers = [], pk_replays = [], pk_bulk = None, pk_posted = []\<rparr>"

section \<open>Paging\<close>

lemma parked_run_simps [simp]:
  "parked_run s [] = s" "parked_run s (e # es) = parked_run (parked_step s e) es"
  "parked_run s (es @ fs) = parked_run (parked_run s es) fs"
  by (simp_all add: parked_run_def)

text \<open>The events other than the clicks that replay.\<close>

fun no_replay :: "parked_event \<Rightarrow> bool" where
  "no_replay (ClickReplay _) = False"
| "no_replay ClickBulk = False"
| "no_replay _ = True"

definition no_replays :: "parked_page \<Rightarrow> bool" where
  "no_replays s \<longleftrightarrow> pk_timers s = [] \<and> pk_replays s = [] \<and> pk_bulk s = None"

lemma view_frame [simp]:
  "pv_offset (toggleRow r v) = pv_offset v" "pv_offset (toggleAll v) = pv_offset v" "pv_offset (take_answer ans v) = pv_offset v"
  by (simp_all add: toggleRow_def toggleAll_def take_answer_def split: sum.splits)

lemma setOffset_frame [simp]:
  "no_replays (setOffset off s) = no_replays s"
  "page_move (pv_offset (pk_view s)) (pk_loads s) (pv_offset (pk_view (setOffset off s))) (pk_loads (setOffset off s))"
  by (auto simp: no_replays_def setOffset_def run_effect_def)

lemma load_answered_frame [simp]:
  "no_replays (load_answered n ans s) = no_replays s" "pv_offset (pk_view (load_answered n ans s)) = pv_offset (pk_view s)"
  "pk_loads (load_answered n ans s) = snd (settle_load n (pk_loads s))"
  by (simp_all add: no_replays_def load_answered_def case_prod_beta)

text \<open>What an answer decides of what is shown.\<close>

fun load_answer :: "parked_event \<Rightarrow> (nat \<times> (api_error + orders_answer)) option" where
  "load_answer (LoadAnswered n ans) = Some (n, ans)"
| "load_answer _ = None"

type_synonym shown_page = "order_row list \<times> nat \<times> nat option \<times> string option"

definition shown_view :: "parked_view \<Rightarrow> shown_page" where
  "shown_view v = (pv_rows v, pv_total v, pv_nextOffset v, pv_error v)"

fun taken_page :: "api_error + orders_answer \<Rightarrow> shown_page \<Rightarrow> shown_page" where
  "taken_page (Inr a) _ = (oa_rows a, oa_total a, oa_nextOffset a, None)"
| "taken_page (Inl e) (rows, tot, next, _) = (rows, tot, next, load_error e)"

lemma shown_view_frame [simp]:
  "shown_view (toggleRow r v) = shown_view v" "shown_view (toggleAll v) = shown_view v"
  "shown_view (take_answer ans v) = taken_page ans (shown_view v)"
  "shown_view (v\<lparr>pv_offset := off, pv_loading := b\<rparr>) = shown_view v"
  by (simp_all add: shown_view_def toggleRow_def toggleAll_def take_answer_def split: sum.splits)

lemma loading_frame [simp]:
  "pv_loading (toggleRow r v) = pv_loading v" "pv_loading (toggleAll v) = pv_loading v" "\<not> pv_loading (take_answer ans v)"
  by (simp_all add: toggleRow_def toggleAll_def take_answer_def split: sum.splits)

interpretation parked: answering_page "\<lambda>s. pv_offset (pk_view s)" pk_loads parked_step no_replay no_replays mounted
  load_answer "\<lambda>s. shown_view (pk_view s)" "\<lambda>s. pv_loading (pk_view s)" taken_page
proof (unfold_locales, goal_cases)
  case (3 s e)
  then show ?case by (cases e) (auto simp: no_replays_def timer_fired_def replay_answered_def bulk_answered_def
      setOffset_def run_effect_def load_answered_def case_prod_beta split: option.splits)
next
  case (4 s e)
  then show ?case by (cases e) (auto simp: no_replays_def timer_fired_def replay_answered_def bulk_answered_def split: option.splits)
next
  case (6 s e n a)
  then show ?case by (cases e) (auto simp: load_answered_def case_prod_beta)
next
  case (7 s e)
  then show ?case by (cases e) (auto simp: no_replays_def timer_fired_def replay_answered_def bulk_answered_def
      setOffset_def run_effect_def split: option.splits)
qed (simp_all add: mounted_def no_replays_def)

text \<open>
  C29: the page that is shown is the page that was asked for, as long as nothing is replayed. Whatever
  the operator clicks and in whatever order the answers arrive: once the page no longer says that it is
  loading, what it shows was decided by an answer to a load that was not cancelled and that had asked for
  the offset that is set. If that answer brought a page, its rows, its total and its next offset are shown
  and no error; if it was an error, the error is shown, and the rows, the total and the next offset are
  still those from before it.
\<close>

theorem parked_page_consistent:
  assumes "list_all no_replay es" and "\<not> pv_loading (pk_view (parked_run mounted es))"
  shows "\<exists>pre l ans post. es = pre @ LoadAnswered (pl_id l) ans # post
    \<and> l \<in> live (pk_loads (parked_run mounted pre)) \<and> pl_key l = pv_offset (pk_view (parked_run mounted es))
    \<and> (let v = pk_view (parked_run mounted es); before = pk_view (parked_run mounted pre) in case ans of
        Inr a \<Rightarrow> pv_rows v = oa_rows a \<and> pv_total v = oa_total a \<and> pv_nextOffset v = oa_nextOffset a \<and> pv_error v = None
      | Inl e \<Rightarrow> pv_error v = load_error e \<and> pv_rows v = pv_rows before \<and> pv_total v = pv_total before
          \<and> pv_nextOffset v = pv_nextOffset before)"
proof -
  from parked.shown_is_answered [OF assms(1)] assms(2) obtain pre e post l ans where
    "es = pre @ e # post" "load_answer e = Some (pl_id l, ans)" "l \<in> live (pk_loads (parked_run mounted pre))"
    "pl_key l = pv_offset (pk_view (parked_run mounted es))"
    "shown_view (pk_view (parked_run mounted es)) = taken_page ans (shown_view (pk_view (parked_run mounted pre)))"
    unfolding parked_run_def by blast
  then show ?thesis
    by (intro exI [of _ pre] exI [of _ l] exI [of _ ans] exI [of _ post], cases e)
      (auto simp: shown_view_def Let_def split: sum.splits)
qed

section \<open>The refresh after a replay\<close>

definition first_row :: order_row where
  "first_row = \<lparr>vr_connectionId = ''c1'', vr_orderId = ''100'', vr_orderName = None\<rparr>"

definition last_row :: order_row where
  "last_row = \<lparr>vr_connectionId = ''c1'', vr_orderId = ''126'', vr_orderName = None\<rparr>"

definition page_one :: orders_answer where
  "page_one = \<lparr>oa_rows = [first_row], oa_total = 26, oa_nextOffset = Some 25\<rparr>"

definition page_two :: orders_answer where
  "page_two = \<lparr>oa_rows = [last_row], oa_total = 26, oa_nextOffset = None\<rparr>"

definition replayed_reply :: "api_error + replay_reply" where
  "replayed_reply = Inr \<lparr>ry_outcome = Some ''replayed'', ry_detail = None\<rparr>"

text \<open>
  A replay's refresh can put the wrong page under the operator. A row of the first page is replayed, the
  operator goes on to the second page, and then the timer of the replay reloads the first one: nothing
  is under way any more, the page says it starts at offset 25, and its rows are those of offset 0.
\<close>

theorem refresh_shows_other_page:
  "let s = parked_run mounted [LoadAnswered 0 (Inr page_one), ClickReplay first_row, ReplayAnswered 0 replayed_reply, NextPage,
       LoadAnswered 1 (Inr page_two), TimerFired 0, LoadAnswered 2 (Inr page_one)]
   in ls_open (pk_loads s) = [] \<and> pk_timers s = [] \<and> pv_offset (pk_view s) = 25 \<and> ls_settled (pk_loads s) = Some 0
     \<and> pv_rows (pk_view s) = oa_rows page_one"
  by code_simp

section \<open>Replaying the ticked rows\<close>

lemma bulk_run_ends:
  assumes "length as = length (bk_left b)"
  shows "parked_run (bulk_next b s) (map BulkAnswered as) = (let oks = length (filter is_replayed as) in
    s\<lparr>pk_view := (pk_view s)\<lparr>pv_bulkBusy := False, pv_selected := [],
        pv_message := Some (bulk_message (b\<lparr>bk_left := [], bk_ok := bk_ok b + oks, bk_fail := bk_fail b + (length as - oks)\<rparr>))\<rparr>,
      pk_bulk := None, pk_timers := pk_timers s @ [bk_offset b],
      pk_posted := pk_posted s @ map (\<lambda>r. (vr_connectionId r, row_gid r)) (bk_left b)\<rparr>)"
  using assms
proof (induction as arbitrary: b s)
  case Nil
  then show ?case by (simp add: bulk_next_def bulk_message_def)
next
  case (Cons a as)
  then obtain r rs where left: "bk_left b = r # rs" by (cases "bk_left b") auto
  let ?b = "b\<lparr>bk_left := rs, bk_ok := bk_ok b + (if is_replayed a then 1 else 0), bk_fail := bk_fail b + (if is_replayed a then 0 else 1)\<rparr>"
  let ?s = "s\<lparr>pk_bulk := Some b, pk_posted := pk_posted s @ [(vr_connectionId r, row_gid r)]\<rparr>"
  have "bulk_next b s = ?s" by (simp add: bulk_next_def left)
  moreover have "parked_step ?s (BulkAnswered a) = bulk_next ?b ?s" by (simp add: bulk_answered_def left)
  moreover have "length (filter is_replayed as) \<le> length rs"
    using Cons.prems left length_filter_le [of is_replayed as] by simp
  ultimately show ?case using Cons.IH [of ?b ?s] Cons.prems left by (auto simp: Let_def Suc_diff_le)
qed

text \<open>
  C30: a bulk replay posts exactly the ticked rows that are shown, one after the other, and forgets every
  other tick. Ticks on rows of other pages are not replayed, although the button counts them, and the message
  counts only the rows of this page.
\<close>

theorem bulk_replays_shown:
  assumes "pv_selected (pk_view s) \<noteq> []" and "\<not> pv_bulkBusy (pk_view s)"
    and "length as = length (filter (\<lambda>r. rowKey r \<in> set (pv_selected (pk_view s))) (pv_rows (pk_view s)))"
  shows "let s' = parked_run s (ClickBulk # map BulkAnswered as); oks = length (filter is_replayed as) in
    pk_posted s' = pk_posted s @ map (\<lambda>r. (vr_connectionId r, row_gid r))
        (filter (\<lambda>r. rowKey r \<in> set (pv_selected (pk_view s))) (pv_rows (pk_view s)))
    \<and> pv_selected (pk_view s') = [] \<and> pk_bulk s' = None
    \<and> pv_message (pk_view s') = Some (if length as = oks then MsgOk else MsgErr, ''Bulk replay: '' @ show_nat oks @ '' ok, ''
        @ show_nat (length as - oks) @ '' failed across '' @ show_nat (length as) @ '' orders'')"
proof -
  have "length (filter is_replayed as) \<le> length as" by simp
  then show ?thesis
    using assms bulk_run_ends [of as] by (auto simp: click_bulk_def Let_def bulk_message_def)
qed

end
