(* ===== verification/OrdersView.thy ===== *)
theory OrdersView
  imports ParkedView
begin

text \<open>
  The orders page and the reconciliation page of the admin UI, \<open>apps/admin-ui/src/routes/Orders.tsx\<close> and
  \<open>Reconciliation.tsx\<close>, as machines of clicks, keystrokes, answers and timers. What is rendered is left out;
  the buttons' \<open>disabled\<close> conditions are guards.
\<close>

section \<open>The orders page\<close>

text \<open>The key of the effect: the offset, the status filter (\<open>None\<close> is \<open>all\<close>) and the search text after the debounce.\<close>

record orders_key =
  ok_offset :: nat
  ok_status :: "sync_status option"
  ok_search :: string

text \<open>\<open>og_timer\<close> is the pending debounce with the text it will set.\<close>

record orders_page =
  og_data :: "orders_answer option"
  og_loading :: bool
  og_error :: "string option"
  og_key :: orders_key
  og_searchInput :: string
  og_timer :: "string option"
  og_loads :: "orders_key loads"

definition orders_page_query :: "orders_key \<Rightarrow> orders_query" where
  "orders_page_query k = \<lparr>oq_limit = Some PAGE_SIZE, oq_offset = Some (ok_offset k), oq_connectionId = None,
     oq_status = ok_status k, oq_search = non_empty (Some (ok_search k))\<rparr>"

text \<open>A render with another key runs the effect.\<close>

definition with_key :: "orders_key \<Rightarrow> orders_page \<Rightarrow> orders_page" where
  "with_key k s = (if k = og_key s then s else s\<lparr>og_key := k, og_loading := True, og_loads := reload k (og_loads s)\<rparr>)"

text \<open>\<open>\<dots> : (e as Error).message ?? 'unknown'\<close>\<close>

definition orders_take :: "api_error + orders_answer \<Rightarrow> orders_page \<Rightarrow> orders_page" where
  "orders_take ans s = (case ans of
     Inr a \<Rightarrow> s\<lparr>og_data := Some a, og_error := None, og_loading := False\<rparr>
   | Inl e \<Rightarrow> s\<lparr>og_error := Some (or_else (load_error e) ''unknown''), og_loading := False\<rparr>)"

definition orders_answered :: "nat \<Rightarrow> api_error + orders_answer \<Rightarrow> orders_page \<Rightarrow> orders_page" where
  "orders_answered n ans s = (let (counts, left) = settle_load n (og_loads s); s1 = s\<lparr>og_loads := left\<rparr> in
     if counts then orders_take ans s1 else s1)"

datatype orders_event =
    TypeSearch string
  | DebounceFired
  | PickStatus "sync_status option"
  | OrdersPrev
  | OrdersNext
  | OrdersAnswered nat "api_error + orders_answer"

text \<open>Typing and picking a status go back to the first page at once; the search text follows with the timer.\<close>

fun orders_step :: "orders_page \<Rightarrow> orders_event \<Rightarrow> orders_page" where
  "orders_step s (TypeSearch t) =
     with_key ((og_key s)\<lparr>ok_offset := 0\<rparr>) (if t = og_searchInput s then s else s\<lparr>og_searchInput := t, og_timer := Some t\<rparr>)"
| "orders_step s DebounceFired = (case og_timer s of None \<Rightarrow> s
   | Some t \<Rightarrow> with_key ((og_key s)\<lparr>ok_search := trim t\<rparr>) (s\<lparr>og_timer := None\<rparr>))"
| "orders_step s (PickStatus st) = with_key ((og_key s)\<lparr>ok_status := st, ok_offset := 0\<rparr>) s"
| "orders_step s OrdersPrev = (if ok_offset (og_key s) = 0 then s
     else with_key ((og_key s)\<lparr>ok_offset := ok_offset (og_key s) - PAGE_SIZE\<rparr>) s)"
| "orders_step s OrdersNext = (case Option.bind (og_data s) oa_nextOffset of None \<Rightarrow> s
   | Some n \<Rightarrow> with_key ((og_key s)\<lparr>ok_offset := n\<rparr>) s)"
| "orders_step s (OrdersAnswered n ans) = orders_answered n ans s"

definition orders_opened :: orders_page where
  "orders_opened = (let k = \<lparr>ok_offset = 0, ok_status = None, ok_search = []\<rparr> in
     \<lparr>og_data = None, og_loading = True, og_error = None, og_key = k, og_searchInput = [], og_timer = Some [], og_loads = first_load k\<rparr>)"

definition orders_run :: "orders_page \<Rightarrow> orders_event list \<Rightarrow> orders_page" where
  "orders_run = foldl orders_step"

text \<open>\<open>Showing \<dots>-\<dots> of \<dots>\<close>: the first and the last position the page claims to show.\<close>

definition orders_range :: "orders_page \<Rightarrow> nat \<times> nat" where
  "orders_range s = (ok_offset (og_key s) + 1,
     ok_offset (og_key s) + (case og_data s of None \<Rightarrow> 0 | Some a \<Rightarrow> length (oa_rows a)))"

lemma with_key_move [simp, intro]: "og_key s = og_key s0 \<Longrightarrow> og_loads s = og_loads s0 \<Longrightarrow>
    page_move (og_key s0) (og_loads s0) (og_key (with_key k s)) (og_loads (with_key k s))"
  by (auto simp: with_key_def)

lemma orders_answered_frame [simp]:
  "og_key (orders_answered n ans s) = og_key s" "og_loads (orders_answered n ans s) = snd (settle_load n (og_loads s))"
  by (auto simp: orders_answered_def orders_take_def case_prod_beta Let_def split: sum.splits)

fun orders_answer_of :: "orders_event \<Rightarrow> (nat \<times> (api_error + orders_answer)) option" where
  "orders_answer_of (OrdersAnswered n ans) = Some (n, ans)"
| "orders_answer_of _ = None"

fun orders_taken :: "api_error + orders_answer \<Rightarrow> orders_answer option \<times> string option \<Rightarrow> orders_answer option \<times> string option" where
  "orders_taken (Inr a) _ = (Some a, None)"
| "orders_taken (Inl e) (d, _) = (d, Some (or_else (load_error e) ''unknown''))"

interpretation orders: answering_page og_key og_loads orders_step "\<lambda>_. True" "\<lambda>_. True" orders_opened
  orders_answer_of "\<lambda>s. (og_data s, og_error s)" og_loading orders_taken
proof (unfold_locales, goal_cases)
  case (4 s e)
  then show ?case by (cases e) (auto split: option.splits)
next
  case (6 s e n a)
  then show ?case by (cases e) (auto simp: orders_answered_def orders_take_def case_prod_beta Let_def split: sum.splits)
next
  case (7 s e)
  then show ?case by (cases e) (auto simp: with_key_def split: option.splits)
qed (simp_all add: orders_opened_def Let_def)

text \<open>
  Whatever is typed, picked and clicked, and in whatever order the answers arrive: once the page no longer says
  that it is loading, what it shows was decided by an answer to a load that was not cancelled, for the offset,
  the status and the search text that are set.
\<close>

lemma orders_page_consistent:
  assumes "\<not> og_loading (orders_run orders_opened es)"
  shows "\<exists>pre l ans post. es = pre @ OrdersAnswered (pl_id l) ans # post
    \<and> l \<in> live (og_loads (orders_run orders_opened pre)) \<and> pl_key l = og_key (orders_run orders_opened es)
    \<and> (og_data (orders_run orders_opened es), og_error (orders_run orders_opened es))
      = orders_taken ans (og_data (orders_run orders_opened pre), og_error (orders_run orders_opened pre))"
proof -
  have "list_all (\<lambda>_. True) es" by (simp add: list_all_iff)
  from orders.shown_is_answered [OF this] assms obtain pre e post l ans where
    "es = pre @ e # post" "orders_answer_of e = Some (pl_id l, ans)" "l \<in> live (og_loads (orders_run orders_opened pre))"
    "pl_key l = og_key (orders_run orders_opened es)"
    "(og_data (orders_run orders_opened es), og_error (orders_run orders_opened es))
      = orders_taken ans (og_data (orders_run orders_opened pre), og_error (orders_run orders_opened pre))"
    unfolding orders_run_def by blast
  then show ?thesis by (cases e) auto
qed

section \<open>A search that starts on the second page\<close>

definition no_rows :: orders_answer where
  "no_rows = \<lparr>oa_rows = [], oa_total = 3, oa_nextOffset = None\<rparr>"

text \<open>
  The search text reaches the key a moment after the offset went back to zero. An operator who types and goes on
  to the next page before that gets the matches from position 26 on: of three matches the page shows none.
\<close>

lemma search_starts_behind:
  "let s = orders_run orders_opened [OrdersAnswered 0 (Inr page_one), TypeSearch ''acme'', OrdersNext, DebounceFired]
   in orders_page_query (og_key s) = \<lparr>oq_limit = Some 25, oq_offset = Some 25, oq_connectionId = None, oq_status = None,
        oq_search = Some ''acme''\<rparr> \<and> orders_range (orders_run s [OrdersAnswered 2 (Inr no_rows)]) = (26, 25)"
  by code_simp

section \<open>The reconciliation page\<close>

text \<open>The key: the drift filter and the count of the refreshes.\<close>

record recon_page =
  rp_data :: "jsval option"
  rp_loading :: bool
  rp_error :: "string option"
  rp_key :: "bool \<times> nat"
  rp_runBusy :: bool
  rp_message :: "(message_kind \<times> string) option"
  rp_loads :: "(bool \<times> nat) loads"

text \<open>\<open>perConnection\<close> of the sweep's answer, by its \<open>drift\<close> flags.\<close>

definition drift_flags :: "jsval \<Rightarrow> bool list" where
  "drift_flags v = (case get_prop v ''perConnection'' of JArr rs \<Rightarrow> map (\<lambda>r. truthy (get_prop r ''drift'')) rs | _ \<Rightarrow> [])"

definition sweep_message :: "bool list \<Rightarrow> message_kind \<times> string" where
  "sweep_message drifts = (let drift = length (filter id drifts); clean = length drifts - drift in
     (if drift > 0 then MsgErr else MsgOk, ''Sweep complete '' @ em_dash @ '' '' @ show_nat clean @ '' clean, '' @ show_nat drift
       @ '' drift across '' @ show_nat (length drifts) @ '' (connection '' @ [CHR 0xC3, CHR 0x97] @ '' day) tuples.''))"

text \<open>\<open>e instanceof Error ? e.message : 'sweep failed'\<close>\<close>

fun sweep_error :: "api_error \<Rightarrow> string" where
  "sweep_error (ApiError _ msg) = msg"
| "sweep_error (OtherError (NonError _)) = ''sweep failed''"
| "sweep_error (OtherError e) = err_message e"

definition recon_key :: "bool \<times> nat \<Rightarrow> recon_page \<Rightarrow> recon_page" where
  "recon_key k s = (if k = rp_key s then s else s\<lparr>rp_key := k, rp_loading := True, rp_loads := reload k (rp_loads s)\<rparr>)"

definition sweep_answered :: "api_error + jsval \<Rightarrow> recon_page \<Rightarrow> recon_page" where
  "sweep_answered ans s = (if \<not> rp_runBusy s then s else (case ans of
     Inl e \<Rightarrow> s\<lparr>rp_message := Some (MsgErr, sweep_error e), rp_runBusy := False\<rparr>
   | Inr v \<Rightarrow> recon_key (fst (rp_key s), Suc (snd (rp_key s)))
       (s\<lparr>rp_message := Some (sweep_message (drift_flags v)), rp_runBusy := False\<rparr>)))"

definition recon_answered :: "nat \<Rightarrow> api_error + jsval \<Rightarrow> recon_page \<Rightarrow> recon_page" where
  "recon_answered n ans s = (let (counts, left) = settle_load n (rp_loads s); s1 = s\<lparr>rp_loads := left\<rparr> in
     if \<not> counts then s1
     else (case ans of
       Inr v \<Rightarrow> s1\<lparr>rp_data := Some v, rp_error := None, rp_loading := False\<rparr>
     | Inl e \<Rightarrow> s1\<lparr>rp_error := load_error e, rp_loading := False\<rparr>))"

datatype recon_event =
    SetDriftOnly bool
  | RunSweep
  | SweepAnswered "api_error + jsval"
  | ReconAnswered nat "api_error + jsval"

fun recon_step :: "recon_page \<Rightarrow> recon_event \<Rightarrow> recon_page" where
  "recon_step s (SetDriftOnly b) = recon_key (b, snd (rp_key s)) s"
| "recon_step s RunSweep = (if rp_runBusy s then s else s\<lparr>rp_runBusy := True, rp_message := None\<rparr>)"
| "recon_step s (SweepAnswered ans) = sweep_answered ans s"
| "recon_step s (ReconAnswered n ans) = recon_answered n ans s"

definition recon_opened :: recon_page where
  "recon_opened = \<lparr>rp_data = None, rp_loading = True, rp_error = None, rp_key = (False, 0), rp_runBusy = False,
     rp_message = None, rp_loads = first_load (False, 0)\<rparr>"

lemma recon_key_move [simp, intro]: "rp_key s = rp_key s0 \<Longrightarrow> rp_loads s = rp_loads s0 \<Longrightarrow>
    page_move (rp_key s0) (rp_loads s0) (rp_key (recon_key k s)) (rp_loads (recon_key k s))"
  by (auto simp: recon_key_def)

lemma recon_answered_frame [simp]:
  "rp_key (recon_answered n ans s) = rp_key s" "rp_loads (recon_answered n ans s) = snd (settle_load n (rp_loads s))"
  by (auto simp: recon_answered_def case_prod_beta Let_def split: sum.splits)

fun recon_answer_of :: "recon_event \<Rightarrow> (nat \<times> (api_error + jsval)) option" where
  "recon_answer_of (ReconAnswered n ans) = Some (n, ans)"
| "recon_answer_of _ = None"

fun recon_taken :: "api_error + jsval \<Rightarrow> jsval option \<times> string option \<Rightarrow> jsval option \<times> string option" where
  "recon_taken (Inr v) _ = (Some v, None)"
| "recon_taken (Inl e) (d, _) = (d, load_error e)"

interpretation recon: answering_page rp_key rp_loads recon_step "\<lambda>_. True" "\<lambda>_. True" recon_opened
  recon_answer_of "\<lambda>s. (rp_data s, rp_error s)" rp_loading recon_taken
proof (unfold_locales, goal_cases)
  case (4 s e)
  then show ?case by (cases e) (auto simp: sweep_answered_def split: sum.splits)
next
  case (6 s e n a)
  then show ?case by (cases e) (auto simp: recon_answered_def case_prod_beta Let_def split: sum.splits)
next
  case (7 s e)
  then show ?case by (cases e) (auto simp: sweep_answered_def recon_key_def split: sum.splits)
qed (simp_all add: recon_opened_def)

text \<open>The table is that of the filter that is set, and it is read again after a sweep.\<close>

lemma recon_page_consistent:
  assumes "\<not> rp_loading (foldl recon_step recon_opened es)"
  shows "\<exists>pre l ans post. es = pre @ ReconAnswered (pl_id l) ans # post
    \<and> l \<in> live (rp_loads (foldl recon_step recon_opened pre)) \<and> pl_key l = rp_key (foldl recon_step recon_opened es)
    \<and> (rp_data (foldl recon_step recon_opened es), rp_error (foldl recon_step recon_opened es))
      = recon_taken ans (rp_data (foldl recon_step recon_opened pre), rp_error (foldl recon_step recon_opened pre))"
proof -
  have "list_all (\<lambda>_. True) es" by (simp add: list_all_iff)
  from recon.shown_is_answered [OF this] assms obtain pre e post l ans where
    "es = pre @ e # post" "recon_answer_of e = Some (pl_id l, ans)"
    "l \<in> live (rp_loads (foldl recon_step recon_opened pre))" "pl_key l = rp_key (foldl recon_step recon_opened es)"
    "(rp_data (foldl recon_step recon_opened es), rp_error (foldl recon_step recon_opened es))
      = recon_taken ans (rp_data (foldl recon_step recon_opened pre), rp_error (foldl recon_step recon_opened pre))"
    by blast
  then show ?thesis by (cases e) auto
qed

end
