(* ===== verification/UiPages.thy ===== *)
theory UiPages
  imports OrdersView
begin

text \<open>
  What is left of the admin UI: \<open>routes/OrderDetail.tsx\<close> (the replay buttons and their messages, the payload
  buttons, money) and \<open>components/PayloadDrawer.tsx\<close> (the two-step download). Layout and styles are left out.
\<close>

section \<open>The order's page\<close>

text \<open>An answer to a replay as the page reads it.\<close>

definition str_prop :: "jsval \<Rightarrow> string \<Rightarrow> string option" where
  "str_prop v k = (case get_prop v k of JStr s \<Rightarrow> Some s | _ \<Rightarrow> None)"

definition read_reply :: "jsval \<Rightarrow> replay_reply" where
  "read_reply v = \<lparr>ry_outcome = str_prop v ''outcome'', ry_detail = str_prop v ''detail''\<rparr>"

definition detail_replay_message :: "api_error + jsval \<Rightarrow> message_kind \<times> string" where
  "detail_replay_message ans = (case ans of
     Inl e \<Rightarrow> (MsgErr, replay_error e)
   | Inr v \<Rightarrow> (let y = read_reply v in
       if ry_outcome y = Some ''replayed''
         then (MsgOk, ''replayed (previousStatus='' @ or_else (str_prop v ''previousStatus'') ''?'' @ '')'')
       else if ry_outcome y = Some ''refused_already_synced''
         then (MsgErr, ''already synced '' @ em_dash @ '' use Force to replay anyway'')
       else (MsgErr, or_else (ry_outcome y) ''failed'' @ '': '' @ or_else (ry_detail y) [])))"

text \<open>Which of the two buttons there are, and the \<open>force\<close> each one posts: \<open>Replay\<close> always, \<open>Force replay\<close> on an imported order.\<close>

definition replay_buttons :: "sync_status \<Rightarrow> (string \<times> bool) list" where
  "replay_buttons st = (''Replay'', False) # (if st = SyncImported then [(''Force replay'', True)] else [])"

record payload_button =
  pb_label :: string
  pb_title :: "string option"
  pb_uri :: "string option"

text \<open>The four buttons of an attempt; one without an address is disabled.\<close>

definition payload_buttons :: "attempt_input \<Rightarrow> payload_button list" where
  "payload_buttons a = (let inbound = at_inboundEnvelopeUri a;
       fetchable = (case inbound of None \<Rightarrow> False | Some u \<Rightarrow> starts_with u ''https://'') in
     [\<lparr>pb_label = ''Inbound'',
        pb_title = (if fetchable then None
          else if (case inbound of None \<Rightarrow> False | Some u \<Rightarrow> starts_with u ''replay://'')
            then Some (''Replay delivery '' @ em_dash @ '' no inbound webhook was received'')
          else Some ''No inbound envelope archived''),
        pb_uri = (if fetchable then inbound else None)\<rparr>,
      \<lparr>pb_label = ''Shopify'', pb_title = (if non_empty (at_shopifyPayloadUri a) \<noteq> None then None
          else Some ''Handler short-circuited before re-fetching the order''),
        pb_uri = non_empty (at_shopifyPayloadUri a)\<rparr>,
      \<lparr>pb_label = ''Outbound'', pb_title = (if non_empty (at_outboundPayloadUri a) \<noteq> None then None
          else Some ''Pipeline parked before reaching NS''),
        pb_uri = non_empty (at_outboundPayloadUri a)\<rparr>,
      \<lparr>pb_label = (case at_nsResponseStatus a of None \<Rightarrow> ''Response'' | Some n \<Rightarrow> ''Response '' @ show_int n),
        pb_title = (if non_empty (at_nsResponseUri a) \<noteq> None then None else Some ''NS not called or response not captured''),
        pb_uri = non_empty (at_nsResponseUri a)\<rparr>])"

text \<open>\<open>formatMoney(amount, currency, negative)\<close>\<close>

definition ui_money :: "string option \<Rightarrow> string option \<Rightarrow> bool \<Rightarrow> string" where
  "ui_money amt currency negative = (case non_empty amt of
     None \<Rightarrow> em_dash
   | Some s \<Rightarrow> (let n = parse_float s in
       if \<not> is_finite_num n then s
       else (if negative \<and> num_less (Fin 0) n then ''-'' else [])
         @ (case non_empty currency of None \<Rightarrow> [] | Some c \<Rightarrow> c @ '' '') @ to_fixed2 n))"

section \<open>The payload drawer\<close>

definition LARGE_PAYLOAD_BYTES :: nat where
  "LARGE_PAYLOAD_BYTES = 256 * 1024"

datatype drawer_state =
    DrawerIdle
  | DrawerLoading
  | DrawerTooLarge jsnum string
  | DrawerReady string jsnum string
  | DrawerError "string option"

text \<open>What the drawer ends in when it is opened on an address and not closed in between; until then it shows \<open>DrawerLoading\<close>.\<close>

definition open_drawer :: "'x browser \<Rightarrow> string option \<Rightarrow> ('x, drawer_state) api_call" where
  "open_drawer B uri = (case non_empty uri of
     None \<Rightarrow> ret DrawerIdle
   | Some u \<Rightarrow> try_catch
       (bnd (api_payloadHead B u) (\<lambda>(n, ctype).
          if num_less (Fin (of_nat LARGE_PAYLOAD_BYTES)) n then ret (DrawerTooLarge n ctype)
          else bnd (api_payload B u) (\<lambda>(body, m, t). ret (DrawerReady body m t))))
       (\<lambda>e. ret (DrawerError (load_error e))))"

section \<open>What the operator reads\<close>

lemma str_prop_Cons [simp]: "str_prop (JObj ((k', JStr s) # ps)) k = (if k = k' then Some s else str_prop (JObj ps) k)"
  by (simp add: str_prop_def oget_Cons)

lemma str_prop_skip: "(\<And>s. v \<noteq> JStr s) \<Longrightarrow> str_prop (JObj ((k', v) # ps)) k = (if k = k' then None else str_prop (JObj ps) k)"
  by (cases v) (auto simp: str_prop_def oget_Cons)

text \<open>
  The message of the order's page says what the server did: it is green exactly when a replay was queued, a
  refusal names the way out, and an unknown connection is named as such.
\<close>

lemma replay_texts:
  "detail_replay_message (Inr (JObj (hr_jsonBody (replay_response cid out)))) = (case out of
     Replayed previous session \<Rightarrow>
       (MsgOk, ''replayed (previousStatus='' @ (case previous of None \<Rightarrow> ''absent'' | Some st \<Rightarrow> xref_status_str st) @ '')'')
   | RefusedAlreadySynced t \<Rightarrow> (MsgErr, ''already synced '' @ em_dash @ '' use Force to replay anyway'')
   | ReplayUnknownConnection c \<Rightarrow> (MsgErr, ''unknown_connection: ''))"
  by (cases out) (simp_all add: detail_replay_message_def read_reply_def Let_def or_else_def str_prop_skip str_prop_def
      oget_Cons split: option.splits)

text \<open>No payload above the limit is downloaded: where the size is told and too large, the drawer asks once.\<close>

lemma large_payload_asked_once:
  assumes "api_payloadHead B u x = (Inr (n, ctype), y)" and "num_less (Fin (of_nat LARGE_PAYLOAD_BYTES)) n" and "u \<noteq> []"
  shows "open_drawer B (Some u) x = (Inr (DrawerTooLarge n ctype), y)"
  using assms by (simp add: open_drawer_def try_catch_def bnd_app)

lemma drawer_never_throws: "\<exists>d y. open_drawer B uri x = (Inr d, y)"
  by (auto simp: open_drawer_def try_catch_def split: option.splits prod.splits sum.splits)

text \<open>The inbound button never asks the proxy for the marker of a replay.\<close>

lemma inbound_is_https: "pb_uri (payload_buttons a ! 0) = Some u \<Longrightarrow> starts_with u ''https://''"
  by (auto simp: payload_buttons_def Let_def split: if_splits option.splits)

section \<open>Witnesses\<close>

definition acme_query :: orders_query where
  "acme_query = orders_page_query \<lparr>ok_offset = 25, ok_status = Some SyncParked, ok_search = ''a&b''\<rparr>"

text \<open>The second page of the parked queue over a table with an order of each kind.\<close>

lemma ui_orders_agree_witness:
  "order_page ''dev'' (form_decode (form_encode (orders_params acme_query)))
      (replicate 30 (sample_entry ''gid://shopify/Order/100'' 5))
    = take PAGE_SIZE (drop 25 (wanted_orders ''dev'' acme_query
        (replicate 30 (sample_entry ''gid://shopify/Order/100'' 5))))"
  using ui_orders_agree [of acme_query PAGE_SIZE "''dev''"]
  by (simp add: acme_query_def orders_page_query_def PAGE_SIZE_def)

definition crossed_answers :: "parked_event list" where
  "crossed_answers = [LoadAnswered 0 (Inr page_one), NextPage, PrevPage, LoadAnswered 2 (Inr page_one), LoadAnswered 1 (Inr page_two)]"

lemma parked_page_consistent_witness:
  "\<not> pv_loading (pk_view (parked_run mounted crossed_answers))
    \<and> (\<exists>pre l ans post. crossed_answers = pre @ LoadAnswered (pl_id l) ans # post
      \<and> l \<in> live (pk_loads (parked_run mounted pre)) \<and> pl_key l = 0)"
proof -
  have facts: "list_all no_replay crossed_answers" "\<not> pv_loading (pk_view (parked_run mounted crossed_answers))"
    "pv_offset (pk_view (parked_run mounted crossed_answers)) = 0"
    by code_simp+
  from parked_page_consistent [OF facts(1,2)] facts(2,3) show ?thesis by metis
qed

lemma bulk_replays_shown_witness:
  "let s = parked_run mounted [LoadAnswered 0 (Inr page_one), ToggleAll, NextPage, LoadAnswered 1 (Inr page_two), ToggleRow last_row];
       s' = parked_run s [ClickBulk, BulkAnswered replayed_reply]
   in pv_selected (pk_view s) = [rowKey first_row, rowKey last_row] \<and> pk_posted s' = [(''c1'', row_gid last_row)]
     \<and> pv_selected (pk_view s') = []"
proof -
  let ?s = "parked_run mounted [LoadAnswered 0 (Inr page_one), ToggleAll, NextPage, LoadAnswered 1 (Inr page_two), ToggleRow last_row]"
  have start: "pv_selected (pk_view ?s) = [rowKey first_row, rowKey last_row]" "pv_bulkBusy (pk_view ?s) = False"
      "pv_rows (pk_view ?s) = [last_row]" "pk_posted ?s = []"
    by code_simp+
  have "pk_posted (parked_run ?s (ClickBulk # map BulkAnswered [replayed_reply])) = [(''c1'', row_gid last_row)]
      \<and> pv_selected (pk_view (parked_run ?s (ClickBulk # map BulkAnswered [replayed_reply]))) = []"
    using bulk_replays_shown [of ?s "[replayed_reply]"] by (simp only: start) (simp add: Let_def last_row_def)
  with start(1) show ?thesis by (simp only: Let_def list.map simp_thms)
qed

end
