(* ===== verification/Spec2Isabelle.thy ===== *)
theory Spec2Isabelle
  imports Governor Followup AdminProps AdminCommands ShopifyPages UiPages
begin

text \<open>
  \<^bold>\<open>dp-integrator: Shopify orders are imported into NetSuite.\<close>

  \<^bold>\<open>The program.\<close> A function app receives the webhooks of Shopify shops, queues one message per order, and imports
  each order into NetSuite exactly once. Three producers queue messages: the webhook receiver
  (\<open>apps/functions/src/triggers/shopify-webhook.ts\<close>), the catch-up poller (\<open>order-catchup-poller.ts\<close>) and the
  operator's replay (\<open>admin-replay.ts\<close> over \<open>packages/core/src/replay\<close>). One consumer, the order handler
  (\<open>order-import-handler.ts\<close>), claims the order in the cross-reference ledger, fetches it again from Shopify,
  asks whether it is eligible, resolves the customer and the items, builds the NetSuite payload with the
  mapping engine, balances its total, upserts it, and records success or a park. A message that fails too
  often reaches the dead-letter listener (\<open>order-dlq-handler.ts\<close>); once a day the reconciliation
  (\<open>reconciliation-sweep.ts\<close>) compares a day's count and total with Shopify's. The admin API (\<open>admin-api.ts\<close>),
  the command line (\<open>apps/admin\<close>) and the browser's admin UI (\<open>apps/admin-ui\<close>) read the tables and replay.

  \<^bold>\<open>How a program part is modelled.\<close> An \<open>async\<close> function is a function of its world that returns a thrown error or
  a value, with the world after it (\<open>io\<close>, in \<open>Prelude\<close>; \<open>await\<close> is \<open>bnd\<close>); what was done before a throw stays
  done. A dependency object is a record of operations, so the handlers are definitions over any
  dependencies. Strings are UTF-8 byte lists; numbers are binary64 values (\<open>JsNumber\<close>), because amounts are
  computed in floating point; dates are milliseconds; dynamic values are \<open>jsval\<close>. A \<open>Map\<close> is an association list
  in insertion order. A table is its rows, and a query its meaning on the rows; rows a query does not order
  come in the order of the table's list, which on the admin API's pages may be another one for each query. A text of
  Shopify that may be left out or \<open>null\<close> is a \<open>text_field\<close>, because the gateway keeps a \<open>null\<close>.

  \<^bold>\<open>Theories and sources.\<close>
  \<^item> \<open>Prelude\<close>: effects with their frame rules (\<open>keeps\<close>) and weakest preconditions (\<open>wp\<close>), association lists.
  \<open>JsNumber\<close>, \<open>JsString\<close>, \<open>JsValue\<close>, \<open>JsJson\<close>, \<open>Calendar\<close>: what the source uses of the language and its library
  (arithmetic, \<open>toFixed\<close>, \<open>parseFloat\<close>, \<open>split\<close>, regular expressions as functions, \<open>JSON\<close>, \<open>Date\<close>).
  \<^item> \<open>CoreTypes\<close>, \<open>XrefStore\<close>, \<open>CoreStores\<close>, \<open>Governor\<close>: \<open>packages/core/src\<close> with the Postgres adapters of
  \<open>apps/functions/src/adapters\<close> (\<open>PgStores\<close> holds four more); \<open>governor-middleware.ts\<close>.
  \<^item> \<open>MappingEngine\<close>: \<open>packages/mapping-engine/src\<close>.
  \<^item> \<open>ShopifyOrder\<close>, \<open>ShopifyTokens\<close>, \<open>ShopifyHttp\<close>, \<open>ShopifyFake\<close>: \<open>packages/shopify-client/src\<close>; \<open>ShopifyProps\<close> and
  \<open>ShopifyPages\<close> hold what the gateway guarantees.
  \<^item> \<open>PayloadBuilder\<close>, \<open>Balancing\<close>, \<open>ItemResolver\<close>, \<open>NsGateway\<close>: \<open>packages/netsuite-client/src\<close>, with
  \<open>triggers/error-classification.ts\<close>; \<open>CustomerResolver\<close>: \<open>activities/customer-resolver.ts\<close>.
  \<^item> \<open>OrderHandler\<close>: \<open>order-import-handler.ts\<close>, whole deliveries. \<open>Telemetry\<close>: \<open>telemetry.ts\<close>.
  \<^item> \<open>Bootstrap\<close>: the handler on the Postgres stores and the gateway that is chosen (the state \<open>sys\<close>). \<open>Adapters\<close> and
  \<open>Wiring\<close>: the caches in front of Azure, the environment variables of \<open>bootstrap.ts\<close>, the registrations of
  \<open>index.ts\<close>, and \<open>ns-diagnostic.ts\<close>.
  \<^item> \<open>Replay\<close>, \<open>Webhook\<close>, \<open>Catchup\<close>, \<open>DeadLetter\<close>, \<open>Reconcile\<close>: the other triggers, one theory each.
  \<^item> \<open>AdminApi\<close>, \<open>PayloadProxy\<close>: \<open>admin-api.ts\<close> and the blob reader; \<open>AdminCli\<close>, \<open>AdminCommands\<close>: \<open>apps/admin/src\<close>;
  \<open>AdminUi\<close>, \<open>PageLoads\<close>, \<open>ParkedView\<close>, \<open>OrdersView\<close>, \<open>UiPages\<close>: \<open>apps/admin-ui/src\<close>.

  \<^bold>\<open>The contracts.\<close> Each interface is a locale, interpreted on the code's own providers. \<open>xref_store\<close> (the ledger)
  holds of the in-memory and of the Postgres store, and \<open>order_log\<close> of both sync logs; both are stated by an
  abstraction to one map per key, so an interpretation is a refinement. \<open>governor_store\<close> holds of both
  governors, \<open>ns_gateway\<close> and \<open>item_lookup\<close> of the in-memory NetSuite, \<open>order_feed\<close> of the in-memory Shopify, and
  \<open>expiring_cache\<close> of the secret cache, the database token and the Shopify tokens, \<open>loading_page\<close> and its extension
  \<open>answering_page\<close> of the pages of the admin UI. \<open>order_env\<close> collects what
  the order handler assumes; its facts hold of every run of the handler and are used through the interpretation
  \<open>booted\<close>, for every configuration and every pattern of failing calls.

  \<^bold>\<open>What is shown.\<close>
  \<^item> The import (\<open>OrderEnv\<close>, \<open>OrderRun\<close>, \<open>NsFrame\<close>, \<open>OrderProps\<close>): an imported order is booked; a ledger row that exists is
  final, and no later delivery of the order touches NetSuite; what is booked is the reference payload \<open>plan\<close>; parks
  and ineligible orders leave their trace, and an ineligible order never reaches NetSuite (\<open>NsFrame\<close>: which calls
  do); each delivery leaves one attempt row; rejections are exact; messages survive JSON.
  \<^item> How orders are lost and found (\<open>LostOrders\<close>, \<open>Producers\<close>, \<open>ShopifyFake\<close>): a retryable error after the claim, and an
  update that overtakes its create, lose the order; a replay brings it in, if its connection is enabled; the poller brings in what has no
  row, skips nothing at a page boundary, and cannot rescue a \<open>pending\<close> row; a webhook is accepted exactly when
  verified, and 200 means queued.
  \<^item> After the import (\<open>Followup\<close>, \<open>Amounts\<close>): dead letters are quarantined; the reconciliation is exact to the cent within
  stated bounds.
  \<^item> The parts: one winner per claim race; the governor's ceiling and the end of waiting for a slot; the balancing
  decision against exact cents; required lookups; the shape of a payload; discounts; addressbook defaults; the
  single flight of token requests; the reading of orders and daily aggregates; the lifetime of a secret.
  \<^item> The surfaces: paging (exact where the times of the rows differ; with equal times a page may repeat an order), the
  payload proxy, the command line's replay; the browser's queries and replays as the server reads them, and its pages
  as machines of clicks, answers and timers, whose rows are those of the answer to the load that was asked for.

  \<^bold>\<open>Bounds and fuel.\<close> \<open>json_parse\<close> runs on twice the length of its text and one more, which is enough (more fuel changes
  nothing). Waiting for a governor slot runs on fuel and is shown to end when each sleep lasts a poll interval and
  the timeout is at most as many intervals. The page loop of the daily aggregate has the source's 40 pages of 250.
  Following \<open>nextOffset\<close> takes at most one call per order and one more. Numbers print as the shortest decimal of
  at most 17 digits. Exactness in cents is claimed for at most a thousand amounts (in the reconciliation, of up to a million each).

  \<^bold>\<open>Parameters.\<close> SHA-256 and HMAC, the URL parser, the netsuite-sdk transport, \<open>fetch\<close>, the clock, the Azure clients (vault, credential,
  storage, Service Bus), the \<open>az\<close> tool, the text Postgres gives a timestamp and the engine's syntax errors are
  arguments of the definitions. On the wired system Shopify's answers are arbitrary (\<open>cf_shopify\<close>), each call that
  leaves the process may fail (\<open>cf_fault\<close>), and NetSuite is the in-memory gateway.

  \<^bold>\<open>Not modelled.\<close> The markup, styles and locale-dependent dates of the UI, and its pages that only show a table; the
  construction and closing of Azure clients; the host's registration of routes and timers and log lines; SQL DDL and
  Bicep (the constraints the code relies on are part of the store models); deliveries of different orders that
  overlap, except where a race is the point (the claim, the governor, the tokens): the queue delivers the messages of one
  order in sequence. Case conversion is ASCII's.
\<close>

end
